(* ===== verification/Prelude.thy ===== *)
theory Prelude
  imports Main "HOL-Library.Word" "HOL-Library.Multiset"
begin

text \<open>
  Shared vocabulary of the development: the C integer types the mod uses, C pointers as
  values, and the generic lemmas on words, lists and loops the components rely on.

  A pointer argument of the C code is a value of type \<open>'a cptr\<close>: either \<open>Null\<close> or an
  address together with the object found there.  Functions with an output pointer return
  the pointer again, with the pointee they leave behind.
\<close>

unbundle bit_operations_syntax

type_synonym u8 = "8 word"
type_synonym u16 = "16 word"
type_synonym u32 = "32 word"

named_theorems guard_defs \<open>definitions of the validation predicates\<close>
named_theorems frame_simps \<open>what an operation leaves unchanged\<close>
named_theorems wf_intros \<open>preservation of the well-formedness invariants\<close>

section \<open>Pointers\<close>

datatype 'a cptr = Null | Ptr (ptr_addr: u32) (deref: 'a)

fun store :: "'a cptr \<Rightarrow> 'a \<Rightarrow> 'a cptr" where
  "store Null v = Null"
| "store (Ptr a _) v = Ptr a v"

text \<open>\<open>field_ptr p off f\<close> is the address \<open>&p->f\<close> of a member at byte offset \<open>off\<close>.\<close>

fun field_ptr :: "'a cptr \<Rightarrow> u32 \<Rightarrow> ('a \<Rightarrow> 'b) \<Rightarrow> 'b cptr" where
  "field_ptr Null off f = Null"
| "field_ptr (Ptr a v) off f = Ptr (a + off) (f v)"

section \<open>Saturating and capped counters\<close>

text \<open>Truth values as the C code returns them.\<close>

definition c_bool :: "bool \<Rightarrow> int" where
  "c_bool b = (if b then 1 else 0)"

lemma c_bool_simps [simp]:
  "c_bool True = 1" "c_bool False = 0" "c_bool b = 1 \<longleftrightarrow> b" "c_bool b = 0 \<longleftrightarrow> \<not> b"
  "0 \<le> c_bool b" "c_bool b \<le> 1" "0 < c_bool b \<longleftrightarrow> b"
  by (auto simp: c_bool_def)

section \<open>Lists used as C arrays\<close>

lemma nth_update_other [simp]: "i \<noteq> j \<Longrightarrow> (xs[i := v]) ! j = xs ! j"
  by simp

lemma list_update_commute2:
  "i \<noteq> j \<Longrightarrow> xs[i := v, j := w] = xs[j := w, i := v]"
  by (simp add: list_update_swap)

lemma take_drop_update:
  "n < length xs \<Longrightarrow> xs[n := v] = take n xs @ v # drop (Suc n) xs"
  by (simp add: upd_conv_take_nth_drop)

section \<open>Words\<close>

lemma xor_cancel [simp]:
  "a XOR c = b XOR c \<longleftrightarrow> a = (b :: 'a::len word)"
  "c XOR a = c XOR b \<longleftrightarrow> a = (b :: 'a::len word)"
  by (metis xor.assoc xor_self_eq xor.right_neutral) (metis xor.assoc xor_self_eq xor.left_neutral)

lemma word_or_absorb_mask: "(a AND b) OR a = (a :: 'a::len word)"
  by (rule bit_word_eqI) (auto simp: bit_simps)

lemma u8_less: "unat (w :: u8) < 256" by (transfer) (simp add: take_bit_eq_mod)

lemma u16_less: "unat (w :: u16) < 65536" by (transfer) (simp add: take_bit_eq_mod)

lemma u32_less: "unat (w :: u32) < 4294967296" by (transfer) (simp add: take_bit_eq_mod)

lemma u16_not_max [simp]: "unat (w :: u16) \<noteq> 65536" using u16_less [of w] by simp

text \<open>\<open>1u << n\<close>, the single bits of the flag arrays.\<close>

definition bit32 :: "nat \<Rightarrow> u32" where "bit32 n = push_bit n 1"

lemma bit_bit32 [simp]: "bit (bit32 b) k \<longleftrightarrow> b = k \<and> k < 32"
  by (auto simp: bit32_def bit_exp_iff possible_bit_word)

lemma and_bit32: "w AND bit32 k \<noteq> 0 \<longleftrightarrow> k < 32 \<and> bit w k"
proof -
  have "x = 0 \<longleftrightarrow> (\<forall>n. \<not> bit x n)" for x :: u32
    using bit_imp_le_length [of x] by (auto simp: bit_eq_iff)
  from this [of "w AND bit32 k"] show ?thesis by (auto simp: bit_and_iff)
qed

end
