(* ===== verification/Receipts.thy ===== *)
theory Receipts
  imports Prelude
begin

text \<open>
  The campaign save trailer of \<^verbatim>\<open>mod/campaign_receipts.h\<close>: the 32-byte record that binds a
  randomized save file to a receipt counter, its CRC-32 and the two operations on it, seal and
  validate.  The lemmas show that the CRC step is a bijection that is linear over XOR, hence that
  a sealed trailer is valid, that every corruption of one binding byte is detected and that a
  counter which was changed without sealing again is rejected.
\<close>

abbreviation (input) AP_CAMPAIGN_SAVE_MAGIC :: u32 where "AP_CAMPAIGN_SAVE_MAGIC \<equiv> 0x41504331"
abbreviation (input) AP_CAMPAIGN_SAVE_FORMAT :: u16 where "AP_CAMPAIGN_SAVE_FORMAT \<equiv> 1"
abbreviation (input) AP_CAMPAIGN_BINDING_SIZE :: nat where "AP_CAMPAIGN_BINDING_SIZE \<equiv> 16"

record ap_campaign_save =
  save_magic :: u32
  save_format :: u16
  save_counter :: u16
  save_binding :: "u8 list"
  save_reserved :: u32
  save_checksum :: u32

text \<open>The C type fixes the length of the binding array.\<close>

definition save_ok :: "ap_campaign_save \<Rightarrow> bool" where
  "save_ok s \<longleftrightarrow> length (save_binding s) = AP_CAMPAIGN_BINDING_SIZE"

section \<open>The CRC\<close>

text \<open>One turn of the bit loop of \<^verbatim>\<open>ap_campaign_crc_byte\<close>.\<close>

definition crc_bit :: "u32 \<Rightarrow> u32" where
  "crc_bit crc = drop_bit 1 crc XOR (0xEDB88320 AND (0 - (crc AND 1)))"

definition ap_campaign_crc_byte :: "u32 \<Rightarrow> u8 \<Rightarrow> u32" where
  "ap_campaign_crc_byte crc byte = (crc_bit ^^ 8) (crc XOR ucast byte)"

definition ap_campaign_crc_word :: "u32 \<Rightarrow> u32 \<Rightarrow> nat \<Rightarrow> u32" where
  "ap_campaign_crc_word crc word bytes =
     fold (\<lambda>i c. ap_campaign_crc_byte c (ucast (drop_bit (8 * (bytes - 1 - i)) word))) [0..<bytes] crc"

definition ap_campaign_save_checksum :: "ap_campaign_save \<Rightarrow> u32" where
  "ap_campaign_save_checksum save =
     (let crc = ap_campaign_crc_word 0xFFFFFFFF (save_magic save) 4;
          crc = ap_campaign_crc_word crc (ucast (save_format save)) 2;
          crc = ap_campaign_crc_word crc (ucast (save_counter save)) 2;
          crc = fold (\<lambda>i c. ap_campaign_crc_byte c (save_binding save ! i)) [0..<AP_CAMPAIGN_BINDING_SIZE] crc
      in NOT (ap_campaign_crc_word crc (save_reserved save) 4))"

definition ap_campaign_save_seal :: "ap_campaign_save \<Rightarrow> ap_campaign_save" where
  "ap_campaign_save_seal save =
     (let s = save\<lparr>save_reserved := 0\<rparr> in s\<lparr>save_checksum := ap_campaign_save_checksum s\<rparr>)"

definition ap_campaign_save_valid :: "ap_campaign_save \<Rightarrow> bool" where
  "ap_campaign_save_valid save \<longleftrightarrow>
     save_reserved save = 0 \<and> save_checksum save = ap_campaign_save_checksum save"

section \<open>The identity checks every component repeats\<close>

definition save_supported :: "ap_campaign_save \<Rightarrow> bool" where
  "save_supported save \<longleftrightarrow>
     ap_campaign_save_valid save \<and> save_magic save = AP_CAMPAIGN_SAVE_MAGIC \<and>
     save_format save = AP_CAMPAIGN_SAVE_FORMAT"

definition same_identity :: "ap_campaign_save \<Rightarrow> ap_campaign_save \<Rightarrow> bool" where
  "same_identity a b \<longleftrightarrow>
     \<not> (save_magic a \<noteq> save_magic b \<or> save_format a \<noteq> save_format b \<or>
        save_counter a \<noteq> save_counter b \<or> save_reserved a \<noteq> save_reserved b \<or>
        save_checksum a \<noteq> save_checksum b) \<and>
     (\<forall>i < AP_CAMPAIGN_BINDING_SIZE. save_binding a ! i = save_binding b ! i)"

definition same_binding :: "ap_campaign_save \<Rightarrow> ap_campaign_save \<Rightarrow> bool" where
  "same_binding a b \<longleftrightarrow> (\<forall>i < AP_CAMPAIGN_BINDING_SIZE. save_binding a ! i = save_binding b ! i)"

section \<open>Bit-level facts about the CRC step\<close>

lemma crc_mask: "0 - (c AND 1) = (if bit c 0 then - 1 else (0 :: u32))"
  by (simp add: and_one_eq bit_0 mod_2_eq_odd)

lemma crc_bit_alt: "crc_bit c = drop_bit 1 c XOR (if bit c 0 then 0xEDB88320 else 0)"
  unfolding crc_bit_def crc_mask by simp

lemma crc_bit_xor: "crc_bit (a XOR b) = crc_bit a XOR crc_bit b"
  unfolding crc_bit_alt drop_bit_xor bit_xor_iff
  by (simp add: xor.left_commute xor.assoc)

lemma crc_bit_top: "bit (crc_bit c) 31 = bit c 0"
  by (auto simp: crc_bit_alt bit_simps dest: bit_imp_le_length)

lemma inj_crc_bit: "inj crc_bit"
proof (rule injI)
  fix a b assume eq: "crc_bit a = crc_bit b"
  then have low: "bit a 0 = bit b 0" by (metis crc_bit_top)
  with eq have "drop_bit 1 a = drop_bit 1 b" by (auto simp: crc_bit_alt split: if_splits)
  then have "bit a (Suc n) = bit b (Suc n)" for n
    by (metis bit_drop_bit_eq comp_apply plus_1_eq_Suc)
  then have "bit a n = bit b n" for n using low by (cases n) auto
  then show "a = b" by (simp add: bit_eq_iff)
qed

lemma inj_crc_bits: "inj (crc_bit ^^ n)"
  by (rule inj_fn [OF inj_crc_bit])

lemma crc_bits_xor: "(crc_bit ^^ n) (a XOR b) = (crc_bit ^^ n) a XOR (crc_bit ^^ n) b"
  by (induction n) (simp_all add: crc_bit_xor)

lemma crc_bits_shift:
  "(\<And>i. i < n \<Longrightarrow> \<not> bit c i) \<Longrightarrow> (crc_bit ^^ n) c = drop_bit n c"
proof (induction n)
  case (Suc n)
  then have "(crc_bit ^^ n) c = drop_bit n c" by simp
  moreover have "\<not> bit (drop_bit n c) 0" using Suc.prems by (simp add: bit_drop_bit_eq)
  then have "crc_bit (drop_bit n c) = drop_bit (Suc n) c" by (simp add: crc_bit_alt)
  ultimately show ?case by simp
qed simp

lemma crc_byte_inj_state:
  "ap_campaign_crc_byte c b = ap_campaign_crc_byte d b \<longleftrightarrow> c = d"
  unfolding ap_campaign_crc_byte_def inj_eq [OF inj_crc_bits] xor_cancel by simp

lemma ucast_u8_inj: "(ucast (a :: u8) :: u32) = ucast b \<longleftrightarrow> a = b"
proof
  assume eq: "(ucast a :: u32) = ucast b"
  have "bit a n = bit b n" if "n < 8" for n
    using arg_cong [OF eq, where f = "\<lambda>w. bit w n"] that by (simp add: bit_simps)
  then show "a = b" by (auto intro: bit_word_eqI)
qed simp

lemma crc_byte_inj_byte:
  "ap_campaign_crc_byte c a = ap_campaign_crc_byte c b \<longleftrightarrow> a = b"
  unfolding ap_campaign_crc_byte_def inj_eq [OF inj_crc_bits] xor_cancel by (rule ucast_u8_inj)

lemma crc_fold_inj_state:
  "fold (\<lambda>i c. ap_campaign_crc_byte c (f i)) is c = fold (\<lambda>i c. ap_campaign_crc_byte c (f i)) is d
   \<longleftrightarrow> c = d"
  by (induction "is" arbitrary: c d) (simp_all add: crc_byte_inj_state)

lemma crc_word_inj_state:
  "ap_campaign_crc_word c w n = ap_campaign_crc_word d w n \<longleftrightarrow> c = d"
  by (simp add: ap_campaign_crc_word_def crc_fold_inj_state)

text \<open>Two bytes fed one after the other act as one sixteen bit block.\<close>

lemma crc_two_bytes:
  "ap_campaign_crc_byte (ap_campaign_crc_byte c hi) lo =
     (crc_bit ^^ 16) (c XOR (ucast hi XOR push_bit 8 (ucast lo)))"
proof -
  have "(crc_bit ^^ 8) (push_bit 8 (ucast lo)) = drop_bit 8 (push_bit 8 (ucast lo :: u32))"
    by (rule crc_bits_shift) (simp add: bit_simps)
  also have "\<dots> = ucast lo"
    by (rule bit_word_eqI) (auto simp: bit_simps dest: bit_imp_le_length)
  finally have "ap_campaign_crc_byte (ap_campaign_crc_byte c hi) lo =
      (crc_bit ^^ 8) ((crc_bit ^^ 8) (c XOR ucast hi) XOR (crc_bit ^^ 8) (push_bit 8 (ucast lo)))"
    by (simp add: ap_campaign_crc_byte_def)
  also have "\<dots> = (crc_bit ^^ (8 + 8)) ((c XOR ucast hi) XOR push_bit 8 (ucast lo))"
    by (simp only: crc_bits_xor [symmetric] funpow_add comp_apply)
  finally show ?thesis by (simp add: xor.assoc)
qed

lemma two_bytes_inj:
  assumes "ucast hi XOR push_bit 8 (ucast lo) = (ucast hi' XOR push_bit 8 (ucast lo') :: u32)"
  shows "(hi :: u8) = hi' \<and> (lo :: u8) = lo'"
proof -
  from assms have eq: "bit (ucast hi XOR push_bit 8 (ucast lo) :: u32) n
      = bit (ucast hi' XOR push_bit 8 (ucast lo') :: u32) n" for n by simp
  have "bit hi n = bit hi' n" if "n < 8" for n
    using eq [of n] that by (simp add: bit_simps)
  moreover have "bit lo n = bit lo' n" if "n < 8" for n
    using eq [of "n + 8"] that by (auto simp: bit_simps dest: bit_imp_le_length)
  ultimately show ?thesis by (auto intro!: bit_word_eqI)
qed

lemma u16_bytes_inj:
  assumes "(ucast (drop_bit 8 (ucast (w :: u16) :: u32)) :: u8) = ucast (drop_bit 8 (ucast w' :: u32))"
    and "(ucast (ucast w :: u32) :: u8) = ucast (ucast w' :: u32)"
  shows "w = w'"
proof (rule bit_word_eqI)
  fix n assume "n < LENGTH(16)"
  then show "bit w n = bit w' n"
    using arg_cong [OF assms(1), where f = "\<lambda>b. bit b (n - 8)"]
      arg_cong [OF assms(2), where f = "\<lambda>b. bit b n"]
    by (cases "n < 8") (auto simp: bit_simps)
qed

lemma crc_word_2:
  "ap_campaign_crc_word c w 2 =
     ap_campaign_crc_byte (ap_campaign_crc_byte c (ucast (drop_bit 8 w))) (ucast w)"
  by (simp add: ap_campaign_crc_word_def upt_rec)

lemma crc_word_u16_inj:
  "ap_campaign_crc_word c (ucast (w :: u16)) 2 = ap_campaign_crc_word c (ucast w') 2 \<longleftrightarrow> w = w'"
proof
  assume "ap_campaign_crc_word c (ucast w) 2 = ap_campaign_crc_word c (ucast w') 2"
  then have "ucast (ucast (drop_bit 8 (ucast w :: u32)) :: u8) XOR push_bit 8 (ucast (ucast (ucast w :: u32) :: u8))
      = (ucast (ucast (drop_bit 8 (ucast w' :: u32)) :: u8) XOR push_bit 8 (ucast (ucast (ucast w' :: u32) :: u8)) :: u32)"
    unfolding crc_word_2 crc_two_bytes inj_eq [OF inj_crc_bits] xor_cancel .
  from two_bytes_inj [OF this] show "w = w'" by (blast intro: u16_bytes_inj)
qed simp

section \<open>Sealing and validation\<close>

lemma seal_simps [simp]:
  "save_magic (ap_campaign_save_seal s) = save_magic s"
  "save_format (ap_campaign_save_seal s) = save_format s"
  "save_counter (ap_campaign_save_seal s) = save_counter s"
  "save_binding (ap_campaign_save_seal s) = save_binding s"
  "save_reserved (ap_campaign_save_seal s) = 0"
  "save_ok (ap_campaign_save_seal s) = save_ok s"
  by (simp_all add: ap_campaign_save_seal_def Let_def save_ok_def)

lemma checksum_ignores_field:
  "ap_campaign_save_checksum (s\<lparr>save_checksum := c\<rparr>) = ap_campaign_save_checksum s"
  by (simp add: ap_campaign_save_checksum_def)

lemma seal_valid [simp]: "ap_campaign_save_valid (ap_campaign_save_seal s)"
  by (simp add: ap_campaign_save_valid_def ap_campaign_save_seal_def Let_def checksum_ignores_field)

lemma seal_idem:
  "ap_campaign_save_valid s \<Longrightarrow> ap_campaign_save_seal s = s"
  by (cases s) (simp add: ap_campaign_save_valid_def ap_campaign_save_seal_def)

lemma save_eqI:
  "save_ok a \<Longrightarrow> save_ok b \<Longrightarrow> same_identity a b \<longleftrightarrow> a = b"
  by (cases a; cases b) (auto simp: same_identity_def save_ok_def intro: nth_equalityI)

lemma same_identity_refl [simp]: "same_identity a a"
  by (simp add: same_identity_def)

lemma same_identity_sym: "same_identity a b \<Longrightarrow> same_identity b a"
  by (simp add: same_identity_def)

lemma same_identity_trans: "same_identity a b \<Longrightarrow> same_identity b c \<Longrightarrow> same_identity a c"
  by (simp add: same_identity_def)

lemma same_identity_counter: "same_identity a b \<Longrightarrow> save_counter a = save_counter b"
  by (simp add: same_identity_def)

lemma same_binding_iff:
  "save_ok a \<Longrightarrow> save_ok b \<Longrightarrow> same_binding a b \<longleftrightarrow> save_binding a = save_binding b"
  by (auto simp: same_binding_def save_ok_def intro: nth_equalityI)

lemma crc_fold_update:
  assumes i: "i < n" and n: "length bs = n" and b: "b \<noteq> bs ! i"
  shows "fold (\<lambda>j c. ap_campaign_crc_byte c (bs[i := b] ! j)) [0..<n] c
     \<noteq> fold (\<lambda>j c. ap_campaign_crc_byte c (bs ! j)) [0..<n] c"
proof -
  let ?f = "\<lambda>bs j c. ap_campaign_crc_byte c (bs ! j)"
  from i have split: "[0..<n] = [0..<i] @ i # [Suc i..<n]"
    by (metis less_imp_add_positive upt_add_eq_append upt_conv_Cons zero_le i)
  have pre: "fold (?f (bs[i := b])) [0..<i] c = fold (?f bs) [0..<i] c"
    by (rule fold_cong) auto
  have post: "fold (?f (bs[i := b])) [Suc i..<n] d = fold (?f bs) [Suc i..<n] d" for d
    by (rule fold_cong) auto
  show ?thesis
    unfolding split fold_append fold_Cons comp_apply pre post crc_fold_inj_state
    using i n b by (simp add: crc_byte_inj_byte)
qed

text \<open>
  any corruption of a single byte of the sixteen-byte seed binding of a valid trailer is
  detected by the checksum.
\<close>

theorem corrupt_binding_rejected:
  assumes "save_ok s" and "ap_campaign_save_valid s" and "i < 16" and "b \<noteq> save_binding s ! i"
  shows "\<not> ap_campaign_save_valid (s\<lparr>save_binding := (save_binding s)[i := b]\<rparr>)"
proof -
  from assms have "ap_campaign_save_checksum (s\<lparr>save_binding := (save_binding s)[i := b]\<rparr>)
      \<noteq> ap_campaign_save_checksum s"
    by (simp add: ap_campaign_save_checksum_def Let_def crc_word_inj_state crc_fold_update save_ok_def
        del: upt_rec_numeral)
  with assms(2) show ?thesis by (simp add: ap_campaign_save_valid_def)
qed

text \<open>
  the receipt counter of a valid trailer can not be changed to any other value without
  sealing it again: the old checksum does not fit the new counter.
\<close>

theorem unsealed_counter_rejected:
  assumes "ap_campaign_save_valid s" and "c \<noteq> save_counter s"
  shows "\<not> ap_campaign_save_valid (s\<lparr>save_counter := c\<rparr>)"
proof -
  from assms(2) have "ap_campaign_save_checksum (s\<lparr>save_counter := c\<rparr>) \<noteq> ap_campaign_save_checksum s"
    by (simp add: ap_campaign_save_checksum_def Let_def crc_word_inj_state crc_fold_inj_state
        crc_word_u16_inj del: upt_rec_numeral)
  with assms(1) show ?thesis by (simp add: ap_campaign_save_valid_def)
qed

section \<open>A sealed trailer as a concrete input\<close>

definition example_save :: "u16 \<Rightarrow> ap_campaign_save" where
  "example_save n = ap_campaign_save_seal
     \<lparr>save_magic = AP_CAMPAIGN_SAVE_MAGIC, save_format = AP_CAMPAIGN_SAVE_FORMAT, save_counter = n,
      save_binding = map word_of_nat [1..<17], save_reserved = 0, save_checksum = 0\<rparr>"

lemma example_save_ok [simp]: "save_ok (example_save n)" "save_supported (example_save n)"
  by (simp_all add: example_save_def save_supported_def) (simp add: save_ok_def)

lemma example_save_counter [simp]: "save_counter (example_save n) = n"
  by (simp add: example_save_def)

lemma example_save_valid [simp]: "ap_campaign_save_valid (example_save n)"
  by (simp add: example_save_def)

theorem corrupt_binding_rejected_witness:
  "\<not> ap_campaign_save_valid
     ((example_save 0)\<lparr>save_binding := (save_binding (example_save 0))[3 := 0]\<rparr>)"
  by (rule corrupt_binding_rejected) (simp, simp, simp, simp add: example_save_def)

theorem unsealed_counter_rejected_witness:
  "\<not> ap_campaign_save_valid ((example_save 7)\<lparr>save_counter := 8\<rparr>)"
  by (rule unsealed_counter_rejected) simp_all

end
