(* ===== verification/Lookup.thy ===== *)
theory Lookup
  imports Prelude
begin

text \<open>
  The binary search that \<^verbatim>\<open>ap_location_index\<close> (\<^verbatim>\<open>mod/checks.h\<close>) and the two copies of
  \<^verbatim>\<open>find_item\<close> (\<^verbatim>\<open>mod/campaign_inventory.c\<close>, \<^verbatim>\<open>mod/campaign_transaction.c\<close>) run over the
  generated tables, and the contract it needs of a table: keys in strictly increasing order.
  The bounds stay below the table's length, so the unsigned arithmetic of the C loop never wraps
  and the indices are natural numbers here.
\<close>

function lower_bound :: "('a \<Rightarrow> u32) \<Rightarrow> 'a list \<Rightarrow> u32 \<Rightarrow> nat \<Rightarrow> nat \<Rightarrow> nat" where
  "lower_bound key tbl x low high =
     (if low < high then
        let middle = low + (high - low) div 2
        in if key (tbl ! middle) < x then lower_bound key tbl x (middle + 1) high
           else lower_bound key tbl x low middle
      else low)"
  by pat_completeness auto
termination
  by (relation "measure (\<lambda>(key, tbl, x, low, high). high - low)") auto

declare lower_bound.simps [simp del]

lemma lower_bound_range:
  "low \<le> high \<Longrightarrow> low \<le> lower_bound key tbl x low high \<and> lower_bound key tbl x low high \<le> high"
proof (induction key tbl x low high rule: lower_bound.induct)
  case (1 key tbl x low high)
  show ?case
  proof (cases "low < high")
    case True
    define middle where "middle = low + (high - low) div 2"
    with True have m: "low \<le> middle" "middle < high" by auto
    with 1 True show ?thesis
      by (subst (1 2) lower_bound.simps) (fastforce simp: Let_def middle_def [symmetric])
  next
    case False
    with 1 show ?thesis by (simp add: lower_bound.simps)
  qed
qed

locale sorted_table =
  fixes tbl :: "'a list" and key :: "'a \<Rightarrow> u32"
  assumes sorted: "sorted_wrt (<) (map key tbl)"
begin

lemma key_less: "i < j \<Longrightarrow> j < length tbl \<Longrightarrow> key (tbl ! i) < key (tbl ! j)"
  using sorted by (simp add: sorted_wrt_iff_nth_less)

lemma key_inj: "i < length tbl \<Longrightarrow> j < length tbl \<Longrightarrow> key (tbl ! i) = key (tbl ! j) \<longleftrightarrow> i = j"
  by (metis key_less linorder_neqE_nat order_less_irrefl)

lemma distinct_keys: "distinct (map key tbl)"
  by (simp add: distinct_conv_nth) (metis key_inj)

text \<open>The loop invariant: everything below the window is smaller, nothing above it is.\<close>

lemma lower_bound_splits:
  assumes "low \<le> high" "high \<le> length tbl"
    and "\<forall>i < low. key (tbl ! i) < x"
    and "\<forall>i < length tbl. high \<le> i \<longrightarrow> x \<le> key (tbl ! i)"
  shows "(\<forall>i < lower_bound key tbl x low high. key (tbl ! i) < x) \<and>
    (\<forall>i < length tbl. lower_bound key tbl x low high \<le> i \<longrightarrow> x \<le> key (tbl ! i))"
  using assms
proof (induction "high - low" arbitrary: low high rule: less_induct)
  case less
  show ?case
  proof (cases "low < high")
    case True
    define middle where "middle = low + (high - low) div 2"
    with True have m: "low \<le> middle" "middle < high" by auto
    show ?thesis
    proof (cases "key (tbl ! middle) < x")
      case below: True
      have "\<forall>i < middle + 1. key (tbl ! i) < x"
      proof (intro allI impI)
        fix i assume "i < middle + 1"
        then have "key (tbl ! i) \<le> key (tbl ! middle)"
          using m less.prems(2) key_less [of i middle] by (cases "i = middle") auto
        with below show "key (tbl ! i) < x" by simp
      qed
      with less.hyps [of high "middle + 1"] less.prems m have
        "(\<forall>i < lower_bound key tbl x (middle + 1) high. key (tbl ! i) < x) \<and>
         (\<forall>i < length tbl. lower_bound key tbl x (middle + 1) high \<le> i \<longrightarrow> x \<le> key (tbl ! i))"
        by simp
      with True below show ?thesis
        by (simp add: lower_bound.simps [of key tbl x low high] Let_def middle_def [symmetric])
    next
      case False
      have "\<forall>i < length tbl. middle \<le> i \<longrightarrow> x \<le> key (tbl ! i)"
      proof (intro allI impI)
        fix i assume i: "i < length tbl" "middle \<le> i"
        then have "key (tbl ! middle) \<le> key (tbl ! i)"
          using key_less [of middle i] by (cases "i = middle") auto
        with False show "x \<le> key (tbl ! i)" by simp
      qed
      with less.hyps [of middle low] less.prems m have
        "(\<forall>i < lower_bound key tbl x low middle. key (tbl ! i) < x) \<and>
         (\<forall>i < length tbl. lower_bound key tbl x low middle \<le> i \<longrightarrow> x \<le> key (tbl ! i))"
        by simp
      with True False show ?thesis
        by (simp add: lower_bound.simps [of key tbl x low high] Let_def middle_def [symmetric])
    qed
  next
    case False
    then have "lower_bound key tbl x low high = low" by (simp add: lower_bound.simps)
    with less.prems False show ?thesis by simp
  qed
qed

text \<open>The test after the loop finds the entry exactly when its key is in the table.\<close>

lemma search_found:
  "lower_bound key tbl x 0 (length tbl) < length tbl \<and>
   key (tbl ! lower_bound key tbl x 0 (length tbl)) = x \<longleftrightarrow> (\<exists>i < length tbl. key (tbl ! i) = x)"
proof
  assume "\<exists>i < length tbl. key (tbl ! i) = x"
  then obtain i where i: "i < length tbl" "key (tbl ! i) = x" by blast
  let ?r = "lower_bound key tbl x 0 (length tbl)"
  from lower_bound_splits [of 0 "length tbl" x]
  have below: "\<forall>j < ?r. key (tbl ! j) < x" and above: "\<forall>j < length tbl. ?r \<le> j \<longrightarrow> x \<le> key (tbl ! j)"
    by auto
  from i below have ri: "?r \<le> i" by (meson linorder_not_le order_less_irrefl)
  with i above have "x \<le> key (tbl ! ?r)" by simp
  moreover have "key (tbl ! ?r) \<le> key (tbl ! i)"
    using ri i(1) key_less [of ?r i] by (cases "?r = i") auto
  ultimately show "?r < length tbl \<and> key (tbl ! ?r) = x" using ri i by simp
qed blast

lemma search_index:
  assumes "i < length tbl"
  shows "lower_bound key tbl (key (tbl ! i)) 0 (length tbl) = i"
proof -
  from assms have "\<exists>j < length tbl. key (tbl ! j) = key (tbl ! i)" by blast
  then have "lower_bound key tbl (key (tbl ! i)) 0 (length tbl) < length tbl \<and>
      key (tbl ! lower_bound key tbl (key (tbl ! i)) 0 (length tbl)) = key (tbl ! i)"
    by (simp add: search_found)
  with key_inj assms show ?thesis by blast
qed

end

text \<open>Strict order of a closed table is checked between neighbours only.\<close>

lemma sorted_wrt_neighbours: "successively (<) xs \<Longrightarrow> sorted_wrt (<) (xs :: u32 list)"
  using successively_conv_sorted_wrt [of "(<) :: u32 \<Rightarrow> u32 \<Rightarrow> bool"] by (simp add: transp_on_less)

end
