(* ===== verification/Catalog.thy ===== *)
theory Catalog
  imports Lookup
begin

text \<open>
  The generated tables of \<^verbatim>\<open>generated/catalog.h\<close>, entry by entry: the 868 locations with the
  stock flag and the detector of each, the 184 items with their two effects, the 120 shop
  locations and the two trap tables.  Long tables are split into parts that follow the source
  lines.  The facts about them the components need are here too: every table is sorted by its id,
  and the tables interpret the contract of the binary search.
\<close>

section \<open>Locations\<close>

datatype ap_detector = AP_DETECT_STOCK_FLAG | AP_DETECT_EVENT | AP_DETECT_SHOP | AP_DETECT_ENEMY

datatype ap_location_def = Loc (loc_id: u32) (loc_flag: u16) (loc_detector: ap_detector)

abbreviation (input) AP_LOCATION_COUNT :: nat where "AP_LOCATION_COUNT \<equiv> 868"
abbreviation (input) AP_LOCATION_WORDS :: nat where "AP_LOCATION_WORDS \<equiv> 28"

definition ap_locations_1 :: "ap_location_def list" where
  "ap_locations_1 = [
   Loc 14041140 381 AP_DETECT_STOCK_FLAG, Loc 14041141 420 AP_DETECT_STOCK_FLAG,
   Loc 14041142 425 AP_DETECT_STOCK_FLAG, Loc 14041143 421 AP_DETECT_STOCK_FLAG,
   Loc 14041144 422 AP_DETECT_STOCK_FLAG, Loc 14041145 424 AP_DETECT_STOCK_FLAG,
   Loc 14041146 431 AP_DETECT_STOCK_FLAG, Loc 14041147 606 AP_DETECT_STOCK_FLAG,
   Loc 14041148 607 AP_DETECT_STOCK_FLAG, Loc 14041149 429 AP_DETECT_STOCK_FLAG,
   Loc 14041150 377 AP_DETECT_STOCK_FLAG, Loc 14041151 301 AP_DETECT_STOCK_FLAG,
   Loc 14041152 398 AP_DETECT_STOCK_FLAG, Loc 14041153 402 AP_DETECT_STOCK_FLAG,
   Loc 14041154 419 AP_DETECT_STOCK_FLAG, Loc 14041155 416 AP_DETECT_STOCK_FLAG,
   Loc 14041156 615 AP_DETECT_STOCK_FLAG, Loc 14041157 404 AP_DETECT_STOCK_FLAG,
   Loc 14041158 507 AP_DETECT_STOCK_FLAG, Loc 14041159 593 AP_DETECT_STOCK_FLAG,
   Loc 14041160 403 AP_DETECT_STOCK_FLAG, Loc 14041161 508 AP_DETECT_STOCK_FLAG,
   Loc 14041162 423 AP_DETECT_STOCK_FLAG, Loc 14041163 428 AP_DETECT_STOCK_FLAG,
   Loc 14041164 614 AP_DETECT_STOCK_FLAG, Loc 14041165 594 AP_DETECT_STOCK_FLAG,
   Loc 14041166 411 AP_DETECT_STOCK_FLAG, Loc 14041167 410 AP_DETECT_STOCK_FLAG,
   Loc 14041168 506 AP_DETECT_STOCK_FLAG, Loc 14041169 415 AP_DETECT_STOCK_FLAG,
   Loc 14041170 505 AP_DETECT_STOCK_FLAG, Loc 14041171 406 AP_DETECT_STOCK_FLAG,
   Loc 14041172 504 AP_DETECT_STOCK_FLAG, Loc 14041173 432 AP_DETECT_EVENT,
   Loc 14041174 549 AP_DETECT_STOCK_FLAG, Loc 14041175 550 AP_DETECT_STOCK_FLAG,
   Loc 14041176 551 AP_DETECT_STOCK_FLAG, Loc 14041177 552 AP_DETECT_STOCK_FLAG,
   Loc 14041178 553 AP_DETECT_STOCK_FLAG, Loc 14041179 6 AP_DETECT_STOCK_FLAG,
   Loc 14041180 4 AP_DETECT_STOCK_FLAG, Loc 14041181 5 AP_DETECT_STOCK_FLAG,
   Loc 14041182 20 AP_DETECT_STOCK_FLAG, Loc 14041183 3 AP_DETECT_STOCK_FLAG,
   Loc 14041184 18 AP_DETECT_STOCK_FLAG, Loc 14041185 23 AP_DETECT_STOCK_FLAG,
   Loc 14041186 19 AP_DETECT_STOCK_FLAG, Loc 14041187 21 AP_DETECT_STOCK_FLAG,
   Loc 14041188 25 AP_DETECT_STOCK_FLAG, Loc 14041189 22 AP_DETECT_STOCK_FLAG,
   Loc 14041190 609 AP_DETECT_STOCK_FLAG, Loc 14041191 31 AP_DETECT_STOCK_FLAG,
   Loc 14041192 1 AP_DETECT_STOCK_FLAG, Loc 14041193 2 AP_DETECT_STOCK_FLAG,
   Loc 14041194 469 AP_DETECT_STOCK_FLAG, Loc 14041195 472 AP_DETECT_STOCK_FLAG,
   Loc 14041196 8 AP_DETECT_STOCK_FLAG, Loc 14041197 28 AP_DETECT_STOCK_FLAG,
   Loc 14041198 9 AP_DETECT_STOCK_FLAG, Loc 14041199 11 AP_DETECT_STOCK_FLAG,
   Loc 14041200 470 AP_DETECT_STOCK_FLAG, Loc 14041201 471 AP_DETECT_STOCK_FLAG,
   Loc 14041202 589 AP_DETECT_STOCK_FLAG, Loc 14041203 10 AP_DETECT_STOCK_FLAG,
   Loc 14041204 590 AP_DETECT_STOCK_FLAG, Loc 14041205 24 AP_DETECT_STOCK_FLAG,
   Loc 14041206 12 AP_DETECT_STOCK_FLAG, Loc 14041207 473 AP_DETECT_STOCK_FLAG,
   Loc 14041208 26 AP_DETECT_STOCK_FLAG, Loc 14041209 554 AP_DETECT_STOCK_FLAG,
   Loc 14041210 555 AP_DETECT_STOCK_FLAG, Loc 14041211 556 AP_DETECT_STOCK_FLAG,
   Loc 14041212 557 AP_DETECT_STOCK_FLAG, Loc 14041213 558 AP_DETECT_STOCK_FLAG,
   Loc 14041214 51 AP_DETECT_STOCK_FLAG, Loc 14041215 49 AP_DETECT_STOCK_FLAG,
   Loc 14041216 474 AP_DETECT_STOCK_FLAG, Loc 14041217 475 AP_DETECT_STOCK_FLAG,
   Loc 14041218 65 AP_DETECT_STOCK_FLAG, Loc 14041219 64 AP_DETECT_STOCK_FLAG,
   Loc 14041220 66 AP_DETECT_STOCK_FLAG, Loc 14041221 67 AP_DETECT_STOCK_FLAG,
   Loc 14041222 68 AP_DETECT_STOCK_FLAG, Loc 14041223 610 AP_DETECT_STOCK_FLAG,
   Loc 14041224 62 AP_DETECT_STOCK_FLAG, Loc 14041225 54 AP_DETECT_STOCK_FLAG,
   Loc 14041226 63 AP_DETECT_STOCK_FLAG, Loc 14041227 52 AP_DETECT_STOCK_FLAG,
   Loc 14041228 477 AP_DETECT_STOCK_FLAG, Loc 14041229 57 AP_DETECT_STOCK_FLAG,
   Loc 14041230 56 AP_DETECT_STOCK_FLAG, Loc 14041231 60 AP_DETECT_STOCK_FLAG,
   Loc 14041232 58 AP_DETECT_STOCK_FLAG, Loc 14041233 601 AP_DETECT_STOCK_FLAG,
   Loc 14041234 59 AP_DETECT_STOCK_FLAG, Loc 14041235 478 AP_DETECT_STOCK_FLAG,
   Loc 14041236 75 AP_DETECT_STOCK_FLAG, Loc 14041237 70 AP_DETECT_STOCK_FLAG,
   Loc 14041238 77 AP_DETECT_STOCK_FLAG, Loc 14041239 73 AP_DETECT_STOCK_FLAG,
   Loc 14041240 72 AP_DETECT_STOCK_FLAG, Loc 14041241 600 AP_DETECT_STOCK_FLAG,
   Loc 14041242 71 AP_DETECT_STOCK_FLAG, Loc 14041243 476 AP_DETECT_STOCK_FLAG,
   Loc 14041244 74 AP_DETECT_STOCK_FLAG, Loc 14041245 559 AP_DETECT_STOCK_FLAG,
   Loc 14041246 560 AP_DETECT_STOCK_FLAG, Loc 14041247 561 AP_DETECT_STOCK_FLAG,
   Loc 14041248 562 AP_DETECT_STOCK_FLAG, Loc 14041249 563 AP_DETECT_STOCK_FLAG,
   Loc 14041250 122 AP_DETECT_STOCK_FLAG, Loc 14041251 135 AP_DETECT_STOCK_FLAG,
   Loc 14041252 137 AP_DETECT_STOCK_FLAG, Loc 14041253 124 AP_DETECT_STOCK_FLAG,
   Loc 14041254 483 AP_DETECT_STOCK_FLAG, Loc 14041255 602 AP_DETECT_STOCK_FLAG,
   Loc 14041256 591 AP_DETECT_STOCK_FLAG, Loc 14041257 126 AP_DETECT_STOCK_FLAG,
   Loc 14041258 125 AP_DETECT_STOCK_FLAG, Loc 14041259 127 AP_DETECT_STOCK_FLAG,
   Loc 14041260 481 AP_DETECT_STOCK_FLAG, Loc 14041261 611 AP_DETECT_STOCK_FLAG,
   Loc 14041262 139 AP_DETECT_STOCK_FLAG, Loc 14041263 134 AP_DETECT_STOCK_FLAG]"

definition ap_locations_2 :: "ap_location_def list" where
  "ap_locations_2 = [
   Loc 14041264 112 AP_DETECT_STOCK_FLAG, Loc 14041265 117 AP_DETECT_STOCK_FLAG,
   Loc 14041266 132 AP_DETECT_STOCK_FLAG, Loc 14041267 130 AP_DETECT_STOCK_FLAG,
   Loc 14041268 118 AP_DETECT_STOCK_FLAG, Loc 14041269 123 AP_DETECT_STOCK_FLAG,
   Loc 14041270 121 AP_DETECT_STOCK_FLAG, Loc 14041271 136 AP_DETECT_STOCK_FLAG,
   Loc 14041272 480 AP_DETECT_STOCK_FLAG, Loc 14041273 482 AP_DETECT_STOCK_FLAG,
   Loc 14041274 128 AP_DETECT_STOCK_FLAG, Loc 14041275 113 AP_DETECT_STOCK_FLAG,
   Loc 14041276 115 AP_DETECT_STOCK_FLAG, Loc 14041277 116 AP_DETECT_STOCK_FLAG,
   Loc 14041278 114 AP_DETECT_STOCK_FLAG, Loc 14041279 479 AP_DETECT_STOCK_FLAG,
   Loc 14041280 138 AP_DETECT_STOCK_FLAG, Loc 14041281 564 AP_DETECT_STOCK_FLAG,
   Loc 14041282 565 AP_DETECT_STOCK_FLAG, Loc 14041283 566 AP_DETECT_STOCK_FLAG,
   Loc 14041284 567 AP_DETECT_STOCK_FLAG, Loc 14041285 568 AP_DETECT_STOCK_FLAG,
   Loc 14041286 182 AP_DETECT_STOCK_FLAG, Loc 14041287 487 AP_DETECT_STOCK_FLAG,
   Loc 14041288 612 AP_DETECT_STOCK_FLAG, Loc 14041289 592 AP_DETECT_STOCK_FLAG,
   Loc 14041290 154 AP_DETECT_STOCK_FLAG, Loc 14041291 486 AP_DETECT_STOCK_FLAG,
   Loc 14041292 204 AP_DETECT_STOCK_FLAG, Loc 14041293 192 AP_DETECT_STOCK_FLAG,
   Loc 14041294 485 AP_DETECT_STOCK_FLAG, Loc 14041295 157 AP_DETECT_STOCK_FLAG,
   Loc 14041296 191 AP_DETECT_STOCK_FLAG, Loc 14041297 166 AP_DETECT_STOCK_FLAG,
   Loc 14041298 193 AP_DETECT_STOCK_FLAG, Loc 14041299 488 AP_DETECT_STOCK_FLAG,
   Loc 14041300 165 AP_DETECT_STOCK_FLAG, Loc 14041301 163 AP_DETECT_STOCK_FLAG,
   Loc 14041302 164 AP_DETECT_STOCK_FLAG, Loc 14041303 484 AP_DETECT_STOCK_FLAG,
   Loc 14041304 202 AP_DETECT_STOCK_FLAG, Loc 14041305 167 AP_DETECT_STOCK_FLAG,
   Loc 14041306 183 AP_DETECT_STOCK_FLAG, Loc 14041307 184 AP_DETECT_STOCK_FLAG,
   Loc 14041308 200 AP_DETECT_STOCK_FLAG, Loc 14041309 198 AP_DETECT_STOCK_FLAG,
   Loc 14041310 199 AP_DETECT_STOCK_FLAG, Loc 14041311 201 AP_DETECT_STOCK_FLAG,
   Loc 14041312 603 AP_DETECT_STOCK_FLAG, Loc 14041313 197 AP_DETECT_STOCK_FLAG,
   Loc 14041314 186 AP_DETECT_STOCK_FLAG, Loc 14041315 187 AP_DETECT_STOCK_FLAG,
   Loc 14041316 188 AP_DETECT_STOCK_FLAG, Loc 14041317 189 AP_DETECT_STOCK_FLAG,
   Loc 14041318 190 AP_DETECT_STOCK_FLAG, Loc 14041319 168 AP_DETECT_STOCK_FLAG,
   Loc 14041320 569 AP_DETECT_STOCK_FLAG, Loc 14041321 570 AP_DETECT_STOCK_FLAG,
   Loc 14041322 571 AP_DETECT_STOCK_FLAG, Loc 14041323 572 AP_DETECT_STOCK_FLAG,
   Loc 14041324 573 AP_DETECT_STOCK_FLAG, Loc 14041325 215 AP_DETECT_STOCK_FLAG,
   Loc 14041326 211 AP_DETECT_STOCK_FLAG, Loc 14041327 227 AP_DETECT_STOCK_FLAG,
   Loc 14041328 254 AP_DETECT_STOCK_FLAG, Loc 14041329 492 AP_DETECT_STOCK_FLAG,
   Loc 14041330 228 AP_DETECT_STOCK_FLAG, Loc 14041331 490 AP_DETECT_STOCK_FLAG,
   Loc 14041332 493 AP_DETECT_STOCK_FLAG, Loc 14041333 613 AP_DETECT_STOCK_FLAG,
   Loc 14041334 225 AP_DETECT_STOCK_FLAG, Loc 14041335 226 AP_DETECT_STOCK_FLAG,
   Loc 14041336 224 AP_DETECT_STOCK_FLAG, Loc 14041337 250 AP_DETECT_STOCK_FLAG,
   Loc 14041338 249 AP_DETECT_STOCK_FLAG, Loc 14041339 491 AP_DETECT_STOCK_FLAG,
   Loc 14041340 205 AP_DETECT_STOCK_FLAG, Loc 14041341 219 AP_DETECT_STOCK_FLAG,
   Loc 14041342 214 AP_DETECT_STOCK_FLAG, Loc 14041343 247 AP_DETECT_STOCK_FLAG,
   Loc 14041344 221 AP_DETECT_STOCK_FLAG, Loc 14041345 216 AP_DETECT_STOCK_FLAG,
   Loc 14041346 595 AP_DETECT_STOCK_FLAG, Loc 14041347 217 AP_DETECT_STOCK_FLAG,
   Loc 14041348 489 AP_DETECT_STOCK_FLAG, Loc 14041349 235 AP_DETECT_STOCK_FLAG,
   Loc 14041350 596 AP_DETECT_STOCK_FLAG, Loc 14041351 209 AP_DETECT_STOCK_FLAG,
   Loc 14041352 253 AP_DETECT_STOCK_FLAG, Loc 14041353 768 AP_DETECT_EVENT,
   Loc 14041354 236 AP_DETECT_STOCK_FLAG, Loc 14041355 574 AP_DETECT_STOCK_FLAG,
   Loc 14041356 575 AP_DETECT_STOCK_FLAG, Loc 14041357 576 AP_DETECT_STOCK_FLAG,
   Loc 14041358 577 AP_DETECT_STOCK_FLAG, Loc 14041359 578 AP_DETECT_STOCK_FLAG,
   Loc 14041360 298 AP_DETECT_STOCK_FLAG, Loc 14041361 294 AP_DETECT_STOCK_FLAG,
   Loc 14041362 295 AP_DETECT_STOCK_FLAG, Loc 14041363 297 AP_DETECT_STOCK_FLAG,
   Loc 14041364 268 AP_DETECT_STOCK_FLAG, Loc 14041365 494 AP_DETECT_STOCK_FLAG,
   Loc 14041366 495 AP_DETECT_STOCK_FLAG, Loc 14041367 496 AP_DETECT_STOCK_FLAG,
   Loc 14041368 497 AP_DETECT_STOCK_FLAG, Loc 14041369 259 AP_DETECT_STOCK_FLAG,
   Loc 14041370 271 AP_DETECT_STOCK_FLAG, Loc 14041371 270 AP_DETECT_STOCK_FLAG,
   Loc 14041372 498 AP_DETECT_STOCK_FLAG, Loc 14041373 275 AP_DETECT_STOCK_FLAG,
   Loc 14041374 274 AP_DETECT_STOCK_FLAG, Loc 14041375 281 AP_DETECT_STOCK_FLAG,
   Loc 14041376 279 AP_DETECT_STOCK_FLAG, Loc 14041377 597 AP_DETECT_STOCK_FLAG,
   Loc 14041378 278 AP_DETECT_STOCK_FLAG, Loc 14041379 276 AP_DETECT_STOCK_FLAG,
   Loc 14041380 616 AP_DETECT_STOCK_FLAG, Loc 14041381 261 AP_DETECT_STOCK_FLAG,
   Loc 14041382 262 AP_DETECT_STOCK_FLAG, Loc 14041383 293 AP_DETECT_STOCK_FLAG,
   Loc 14041384 608 AP_DETECT_STOCK_FLAG, Loc 14041385 264 AP_DETECT_STOCK_FLAG,
   Loc 14041386 260 AP_DETECT_STOCK_FLAG, Loc 14041387 263 AP_DETECT_STOCK_FLAG]"

definition ap_locations_3 :: "ap_location_def list" where
  "ap_locations_3 = [
   Loc 14041388 292 AP_DETECT_STOCK_FLAG, Loc 14041389 579 AP_DETECT_STOCK_FLAG,
   Loc 14041390 580 AP_DETECT_STOCK_FLAG, Loc 14041391 581 AP_DETECT_STOCK_FLAG,
   Loc 14041392 582 AP_DETECT_STOCK_FLAG, Loc 14041393 583 AP_DETECT_STOCK_FLAG,
   Loc 14041394 350 AP_DETECT_STOCK_FLAG, Loc 14041395 501 AP_DETECT_STOCK_FLAG,
   Loc 14041396 502 AP_DETECT_STOCK_FLAG, Loc 14041397 320 AP_DETECT_STOCK_FLAG,
   Loc 14041398 319 AP_DETECT_STOCK_FLAG, Loc 14041399 499 AP_DETECT_STOCK_FLAG,
   Loc 14041400 605 AP_DETECT_STOCK_FLAG, Loc 14041401 313 AP_DETECT_STOCK_FLAG,
   Loc 14041402 305 AP_DETECT_STOCK_FLAG, Loc 14041403 604 AP_DETECT_STOCK_FLAG,
   Loc 14041404 325 AP_DETECT_STOCK_FLAG, Loc 14041405 306 AP_DETECT_STOCK_FLAG,
   Loc 14041406 323 AP_DETECT_STOCK_FLAG, Loc 14041407 617 AP_DETECT_STOCK_FLAG,
   Loc 14041408 351 AP_DETECT_STOCK_FLAG, Loc 14041409 322 AP_DETECT_STOCK_FLAG,
   Loc 14041410 314 AP_DETECT_STOCK_FLAG, Loc 14041411 500 AP_DETECT_STOCK_FLAG,
   Loc 14041412 310 AP_DETECT_STOCK_FLAG, Loc 14041413 311 AP_DETECT_STOCK_FLAG,
   Loc 14041414 318 AP_DETECT_STOCK_FLAG, Loc 14041415 308 AP_DETECT_STOCK_FLAG,
   Loc 14041416 309 AP_DETECT_STOCK_FLAG, Loc 14041417 315 AP_DETECT_STOCK_FLAG,
   Loc 14041418 503 AP_DETECT_STOCK_FLAG, Loc 14041419 326 AP_DETECT_STOCK_FLAG,
   Loc 14041420 353 AP_DETECT_STOCK_FLAG, Loc 14041421 316 AP_DETECT_STOCK_FLAG,
   Loc 14041422 317 AP_DETECT_STOCK_FLAG, Loc 14041423 972 AP_DETECT_EVENT,
   Loc 14041424 973 AP_DETECT_EVENT, Loc 14041425 974 AP_DETECT_EVENT,
   Loc 14041426 975 AP_DETECT_EVENT, Loc 14041427 976 AP_DETECT_EVENT,
   Loc 14041428 977 AP_DETECT_EVENT, Loc 14041429 978 AP_DETECT_EVENT,
   Loc 14041430 979 AP_DETECT_EVENT, Loc 14041431 980 AP_DETECT_EVENT,
   Loc 14041432 981 AP_DETECT_EVENT, Loc 14041433 618 AP_DETECT_STOCK_FLAG,
   Loc 14041434 584 AP_DETECT_STOCK_FLAG, Loc 14041435 588 AP_DETECT_STOCK_FLAG,
   Loc 14041436 587 AP_DETECT_STOCK_FLAG, Loc 14041437 586 AP_DETECT_STOCK_FLAG,
   Loc 14041438 585 AP_DETECT_STOCK_FLAG, Loc 14041439 598 AP_DETECT_STOCK_FLAG,
   Loc 14041440 599 AP_DETECT_STOCK_FLAG, Loc 14041441 380 AP_DETECT_STOCK_FLAG,
   Loc 14041442 835 AP_DETECT_SHOP, Loc 14041443 800 AP_DETECT_SHOP,
   Loc 14041444 801 AP_DETECT_SHOP, Loc 14041445 802 AP_DETECT_SHOP,
   Loc 14041446 803 AP_DETECT_SHOP, Loc 14041447 804 AP_DETECT_SHOP,
   Loc 14041448 840 AP_DETECT_SHOP, Loc 14041449 841 AP_DETECT_SHOP,
   Loc 14041450 842 AP_DETECT_SHOP, Loc 14041451 843 AP_DETECT_SHOP,
   Loc 14041452 844 AP_DETECT_SHOP, Loc 14041453 805 AP_DETECT_SHOP,
   Loc 14041454 806 AP_DETECT_SHOP, Loc 14041455 875 AP_DETECT_SHOP,
   Loc 14041456 876 AP_DETECT_SHOP, Loc 14041457 877 AP_DETECT_SHOP,
   Loc 14041458 878 AP_DETECT_SHOP, Loc 14041459 879 AP_DETECT_SHOP,
   Loc 14041460 810 AP_DETECT_SHOP, Loc 14041461 811 AP_DETECT_SHOP,
   Loc 14041462 812 AP_DETECT_SHOP, Loc 14041463 813 AP_DETECT_SHOP,
   Loc 14041464 814 AP_DETECT_SHOP, Loc 14041465 850 AP_DETECT_SHOP,
   Loc 14041466 885 AP_DETECT_SHOP, Loc 14041467 820 AP_DETECT_SHOP,
   Loc 14041468 860 AP_DETECT_SHOP, Loc 14041469 827 AP_DETECT_SHOP,
   Loc 14041470 828 AP_DETECT_SHOP, Loc 14041471 829 AP_DETECT_SHOP,
   Loc 14041472 865 AP_DETECT_SHOP, Loc 14041473 890 AP_DETECT_SHOP,
   Loc 14041474 830 AP_DETECT_SHOP, Loc 14041475 870 AP_DETECT_SHOP,
   Loc 14041476 895 AP_DETECT_SHOP, Loc 14041477 379 AP_DETECT_STOCK_FLAG,
   Loc 14041478 800 AP_DETECT_SHOP, Loc 14041479 840 AP_DETECT_SHOP,
   Loc 14041480 805 AP_DETECT_SHOP, Loc 14041481 807 AP_DETECT_SHOP,
   Loc 14041482 808 AP_DETECT_SHOP, Loc 14041483 809 AP_DETECT_SHOP,
   Loc 14041484 845 AP_DETECT_SHOP, Loc 14041485 845 AP_DETECT_SHOP,
   Loc 14041486 846 AP_DETECT_SHOP, Loc 14041487 847 AP_DETECT_SHOP,
   Loc 14041488 848 AP_DETECT_SHOP, Loc 14041489 849 AP_DETECT_SHOP,
   Loc 14041490 875 AP_DETECT_SHOP, Loc 14041491 810 AP_DETECT_SHOP,
   Loc 14041492 850 AP_DETECT_SHOP, Loc 14041493 851 AP_DETECT_SHOP,
   Loc 14041494 852 AP_DETECT_SHOP, Loc 14041495 853 AP_DETECT_SHOP,
   Loc 14041496 854 AP_DETECT_SHOP, Loc 14041497 880 AP_DETECT_SHOP,
   Loc 14041498 880 AP_DETECT_SHOP, Loc 14041499 881 AP_DETECT_SHOP,
   Loc 14041500 882 AP_DETECT_SHOP, Loc 14041501 883 AP_DETECT_SHOP,
   Loc 14041502 884 AP_DETECT_SHOP, Loc 14041503 815 AP_DETECT_SHOP,
   Loc 14041504 815 AP_DETECT_SHOP, Loc 14041505 816 AP_DETECT_SHOP,
   Loc 14041506 817 AP_DETECT_SHOP, Loc 14041507 818 AP_DETECT_SHOP,
   Loc 14041508 819 AP_DETECT_SHOP, Loc 14041509 855 AP_DETECT_SHOP,
   Loc 14041510 855 AP_DETECT_SHOP, Loc 14041511 856 AP_DETECT_SHOP]"

definition ap_locations_4 :: "ap_location_def list" where
  "ap_locations_4 = [
   Loc 14041512 857 AP_DETECT_SHOP, Loc 14041513 858 AP_DETECT_SHOP,
   Loc 14041514 859 AP_DETECT_SHOP, Loc 14041515 885 AP_DETECT_SHOP,
   Loc 14041516 886 AP_DETECT_SHOP, Loc 14041517 887 AP_DETECT_SHOP,
   Loc 14041518 888 AP_DETECT_SHOP, Loc 14041519 889 AP_DETECT_SHOP,
   Loc 14041520 820 AP_DETECT_SHOP, Loc 14041521 821 AP_DETECT_SHOP,
   Loc 14041522 822 AP_DETECT_SHOP, Loc 14041523 823 AP_DETECT_SHOP,
   Loc 14041524 824 AP_DETECT_SHOP, Loc 14041525 860 AP_DETECT_SHOP,
   Loc 14041526 861 AP_DETECT_SHOP, Loc 14041527 862 AP_DETECT_SHOP,
   Loc 14041528 863 AP_DETECT_SHOP, Loc 14041529 864 AP_DETECT_SHOP,
   Loc 14041530 825 AP_DETECT_SHOP, Loc 14041531 825 AP_DETECT_SHOP,
   Loc 14041532 826 AP_DETECT_SHOP, Loc 14041533 865 AP_DETECT_SHOP,
   Loc 14041534 866 AP_DETECT_SHOP, Loc 14041535 867 AP_DETECT_SHOP,
   Loc 14041536 868 AP_DETECT_SHOP, Loc 14041537 869 AP_DETECT_SHOP,
   Loc 14041538 890 AP_DETECT_SHOP, Loc 14041539 891 AP_DETECT_SHOP,
   Loc 14041540 892 AP_DETECT_SHOP, Loc 14041541 893 AP_DETECT_SHOP,
   Loc 14041542 894 AP_DETECT_SHOP, Loc 14041543 830 AP_DETECT_SHOP,
   Loc 14041544 831 AP_DETECT_SHOP, Loc 14041545 832 AP_DETECT_SHOP,
   Loc 14041546 833 AP_DETECT_SHOP, Loc 14041547 834 AP_DETECT_SHOP,
   Loc 14041548 870 AP_DETECT_SHOP, Loc 14041549 871 AP_DETECT_SHOP,
   Loc 14041550 872 AP_DETECT_SHOP, Loc 14041551 873 AP_DETECT_SHOP,
   Loc 14041552 874 AP_DETECT_SHOP, Loc 14041553 895 AP_DETECT_SHOP,
   Loc 14041554 896 AP_DETECT_SHOP, Loc 14041555 897 AP_DETECT_SHOP,
   Loc 14041556 898 AP_DETECT_SHOP, Loc 14041557 899 AP_DETECT_SHOP,
   Loc 14041558 835 AP_DETECT_SHOP, Loc 14041559 836 AP_DETECT_SHOP,
   Loc 14041560 837 AP_DETECT_SHOP, Loc 14041561 838 AP_DETECT_SHOP,
   Loc 14041562 839 AP_DETECT_SHOP, Loc 14041563 1022 AP_DETECT_EVENT,
   Loc 14041564 1023 AP_DETECT_EVENT, Loc 14041565 1024 AP_DETECT_EVENT,
   Loc 14041566 1025 AP_DETECT_EVENT, Loc 14041567 1026 AP_DETECT_EVENT,
   Loc 14041568 1027 AP_DETECT_EVENT, Loc 14041569 1028 AP_DETECT_EVENT,
   Loc 14041570 1029 AP_DETECT_EVENT, Loc 14041571 1030 AP_DETECT_EVENT,
   Loc 14041572 1031 AP_DETECT_EVENT, Loc 14041573 1032 AP_DETECT_EVENT,
   Loc 14041574 1033 AP_DETECT_EVENT, Loc 14041575 1034 AP_DETECT_EVENT,
   Loc 14041576 1035 AP_DETECT_EVENT, Loc 14041577 1036 AP_DETECT_EVENT,
   Loc 14041578 1037 AP_DETECT_EVENT, Loc 14041579 1038 AP_DETECT_EVENT,
   Loc 14041580 1039 AP_DETECT_EVENT, Loc 14041581 1040 AP_DETECT_EVENT,
   Loc 14041582 1041 AP_DETECT_EVENT, Loc 14041583 1042 AP_DETECT_EVENT,
   Loc 14041584 1043 AP_DETECT_EVENT, Loc 14041585 1044 AP_DETECT_EVENT,
   Loc 14041586 1045 AP_DETECT_EVENT, Loc 14041587 1046 AP_DETECT_EVENT,
   Loc 14041588 1047 AP_DETECT_EVENT, Loc 14041589 1048 AP_DETECT_EVENT,
   Loc 14041590 1049 AP_DETECT_EVENT, Loc 14041591 1050 AP_DETECT_EVENT,
   Loc 14041592 1051 AP_DETECT_EVENT, Loc 14041593 1052 AP_DETECT_EVENT,
   Loc 14041594 1053 AP_DETECT_EVENT, Loc 14041595 1054 AP_DETECT_EVENT,
   Loc 14041596 1055 AP_DETECT_EVENT, Loc 14041597 1056 AP_DETECT_EVENT,
   Loc 14041598 1057 AP_DETECT_EVENT, Loc 14041599 1058 AP_DETECT_EVENT,
   Loc 14041600 1059 AP_DETECT_EVENT, Loc 14041601 1060 AP_DETECT_EVENT,
   Loc 14041602 1061 AP_DETECT_EVENT, Loc 14041603 900 AP_DETECT_EVENT,
   Loc 14041604 901 AP_DETECT_EVENT, Loc 14041605 902 AP_DETECT_EVENT,
   Loc 14041606 903 AP_DETECT_EVENT, Loc 14041607 904 AP_DETECT_EVENT,
   Loc 14041608 905 AP_DETECT_EVENT, Loc 14041609 906 AP_DETECT_EVENT,
   Loc 14041610 907 AP_DETECT_EVENT, Loc 14041611 908 AP_DETECT_EVENT,
   Loc 14041612 909 AP_DETECT_EVENT, Loc 14041613 910 AP_DETECT_EVENT,
   Loc 14041614 911 AP_DETECT_EVENT, Loc 14041615 912 AP_DETECT_EVENT,
   Loc 14041616 913 AP_DETECT_EVENT, Loc 14041617 914 AP_DETECT_EVENT,
   Loc 14041618 915 AP_DETECT_EVENT, Loc 14041619 916 AP_DETECT_EVENT,
   Loc 14041620 917 AP_DETECT_EVENT, Loc 14041621 918 AP_DETECT_EVENT,
   Loc 14041622 919 AP_DETECT_EVENT, Loc 14041623 920 AP_DETECT_EVENT,
   Loc 14041624 921 AP_DETECT_EVENT, Loc 14041625 922 AP_DETECT_EVENT,
   Loc 14041626 923 AP_DETECT_EVENT, Loc 14041627 924 AP_DETECT_EVENT,
   Loc 14041628 925 AP_DETECT_EVENT, Loc 14041629 926 AP_DETECT_EVENT,
   Loc 14041630 927 AP_DETECT_EVENT, Loc 14041631 928 AP_DETECT_EVENT,
   Loc 14041632 929 AP_DETECT_EVENT, Loc 14041633 930 AP_DETECT_EVENT,
   Loc 14041634 931 AP_DETECT_EVENT, Loc 14041635 932 AP_DETECT_EVENT]"

definition ap_locations_5 :: "ap_location_def list" where
  "ap_locations_5 = [
   Loc 14041636 933 AP_DETECT_EVENT, Loc 14041637 934 AP_DETECT_EVENT,
   Loc 14041673 678 AP_DETECT_EVENT, Loc 14041674 679 AP_DETECT_EVENT,
   Loc 14041675 680 AP_DETECT_EVENT, Loc 14041676 681 AP_DETECT_EVENT,
   Loc 14041677 682 AP_DETECT_EVENT, Loc 14041678 683 AP_DETECT_EVENT,
   Loc 14041679 684 AP_DETECT_EVENT, Loc 14041680 685 AP_DETECT_EVENT,
   Loc 14041681 686 AP_DETECT_EVENT, Loc 14041682 687 AP_DETECT_EVENT,
   Loc 14041683 688 AP_DETECT_EVENT, Loc 14041684 689 AP_DETECT_EVENT,
   Loc 14041685 690 AP_DETECT_EVENT, Loc 14041686 691 AP_DETECT_EVENT,
   Loc 14041687 692 AP_DETECT_EVENT, Loc 14041688 693 AP_DETECT_EVENT,
   Loc 14041689 940 AP_DETECT_EVENT, Loc 14041690 941 AP_DETECT_EVENT,
   Loc 14041691 942 AP_DETECT_EVENT, Loc 14041692 943 AP_DETECT_EVENT,
   Loc 14041693 944 AP_DETECT_EVENT, Loc 14041694 945 AP_DETECT_EVENT,
   Loc 14041695 946 AP_DETECT_EVENT, Loc 14041696 947 AP_DETECT_EVENT,
   Loc 14041697 948 AP_DETECT_EVENT, Loc 14041698 949 AP_DETECT_EVENT,
   Loc 14041699 950 AP_DETECT_EVENT, Loc 14041700 951 AP_DETECT_EVENT,
   Loc 14041701 952 AP_DETECT_EVENT, Loc 14041702 694 AP_DETECT_EVENT,
   Loc 14041703 695 AP_DETECT_EVENT, Loc 14041704 696 AP_DETECT_EVENT,
   Loc 14041705 697 AP_DETECT_EVENT, Loc 14041706 698 AP_DETECT_EVENT,
   Loc 14041707 699 AP_DETECT_EVENT, Loc 14041708 700 AP_DETECT_EVENT,
   Loc 14041709 701 AP_DETECT_EVENT, Loc 14041710 702 AP_DETECT_EVENT,
   Loc 14041711 703 AP_DETECT_EVENT, Loc 14041712 704 AP_DETECT_EVENT,
   Loc 14041713 705 AP_DETECT_EVENT, Loc 14041714 706 AP_DETECT_EVENT,
   Loc 14041715 707 AP_DETECT_EVENT, Loc 14041716 708 AP_DETECT_EVENT,
   Loc 14041717 709 AP_DETECT_EVENT, Loc 14041718 1062 AP_DETECT_ENEMY,
   Loc 14041719 1063 AP_DETECT_ENEMY, Loc 14041720 1064 AP_DETECT_ENEMY,
   Loc 14041721 1065 AP_DETECT_ENEMY, Loc 14041722 1066 AP_DETECT_ENEMY,
   Loc 14041723 1067 AP_DETECT_ENEMY, Loc 14041724 1068 AP_DETECT_ENEMY,
   Loc 14041725 1069 AP_DETECT_ENEMY, Loc 14041726 1070 AP_DETECT_ENEMY,
   Loc 14041727 1071 AP_DETECT_ENEMY, Loc 14041728 1072 AP_DETECT_ENEMY,
   Loc 14041729 1073 AP_DETECT_ENEMY, Loc 14041730 1074 AP_DETECT_ENEMY,
   Loc 14041731 1075 AP_DETECT_ENEMY, Loc 14041732 1076 AP_DETECT_ENEMY,
   Loc 14041733 1077 AP_DETECT_ENEMY, Loc 14041734 1078 AP_DETECT_ENEMY,
   Loc 14041735 1079 AP_DETECT_ENEMY, Loc 14041736 1080 AP_DETECT_ENEMY,
   Loc 14041737 1081 AP_DETECT_ENEMY, Loc 14041738 1082 AP_DETECT_ENEMY,
   Loc 14041739 1083 AP_DETECT_ENEMY, Loc 14041740 1089 AP_DETECT_ENEMY,
   Loc 14041741 1090 AP_DETECT_ENEMY, Loc 14041742 1091 AP_DETECT_ENEMY,
   Loc 14041743 1092 AP_DETECT_ENEMY, Loc 14041744 1093 AP_DETECT_ENEMY,
   Loc 14041745 1094 AP_DETECT_ENEMY, Loc 14041746 1095 AP_DETECT_ENEMY,
   Loc 14041747 1096 AP_DETECT_ENEMY, Loc 14041748 1097 AP_DETECT_ENEMY,
   Loc 14041749 1098 AP_DETECT_ENEMY, Loc 14041750 1099 AP_DETECT_ENEMY,
   Loc 14041751 1100 AP_DETECT_ENEMY, Loc 14041752 1101 AP_DETECT_ENEMY,
   Loc 14041753 1102 AP_DETECT_ENEMY, Loc 14041754 1103 AP_DETECT_ENEMY,
   Loc 14041755 1104 AP_DETECT_ENEMY, Loc 14041756 1105 AP_DETECT_ENEMY,
   Loc 14041757 1106 AP_DETECT_ENEMY, Loc 14041758 1107 AP_DETECT_ENEMY,
   Loc 14041759 1108 AP_DETECT_ENEMY, Loc 14041760 1109 AP_DETECT_ENEMY,
   Loc 14041761 1110 AP_DETECT_ENEMY, Loc 14041762 1111 AP_DETECT_ENEMY,
   Loc 14041763 1112 AP_DETECT_ENEMY, Loc 14041764 1113 AP_DETECT_ENEMY,
   Loc 14041765 1114 AP_DETECT_ENEMY, Loc 14041766 1115 AP_DETECT_ENEMY,
   Loc 14041767 1116 AP_DETECT_ENEMY, Loc 14041768 1117 AP_DETECT_ENEMY,
   Loc 14041769 1118 AP_DETECT_ENEMY, Loc 14041770 1119 AP_DETECT_ENEMY,
   Loc 14041771 1120 AP_DETECT_ENEMY, Loc 14041772 1121 AP_DETECT_ENEMY,
   Loc 14041773 1122 AP_DETECT_ENEMY, Loc 14041774 1123 AP_DETECT_ENEMY,
   Loc 14041775 1124 AP_DETECT_ENEMY, Loc 14041776 1125 AP_DETECT_ENEMY,
   Loc 14041777 1126 AP_DETECT_ENEMY, Loc 14041778 1127 AP_DETECT_ENEMY,
   Loc 14041779 1130 AP_DETECT_ENEMY, Loc 14041780 1131 AP_DETECT_ENEMY,
   Loc 14041781 1132 AP_DETECT_ENEMY, Loc 14041782 1133 AP_DETECT_ENEMY,
   Loc 14041783 1134 AP_DETECT_ENEMY, Loc 14041784 1135 AP_DETECT_ENEMY,
   Loc 14041785 1136 AP_DETECT_ENEMY, Loc 14041786 1137 AP_DETECT_ENEMY,
   Loc 14041787 1138 AP_DETECT_ENEMY, Loc 14041788 1139 AP_DETECT_ENEMY,
   Loc 14041789 1140 AP_DETECT_ENEMY, Loc 14041790 1141 AP_DETECT_ENEMY,
   Loc 14041791 1142 AP_DETECT_ENEMY, Loc 14041792 1143 AP_DETECT_ENEMY,
   Loc 14041793 1144 AP_DETECT_ENEMY, Loc 14041794 1145 AP_DETECT_ENEMY]"

definition ap_locations_6 :: "ap_location_def list" where
  "ap_locations_6 = [
   Loc 14041795 1146 AP_DETECT_ENEMY, Loc 14041796 1147 AP_DETECT_ENEMY,
   Loc 14041797 1148 AP_DETECT_ENEMY, Loc 14041798 1149 AP_DETECT_ENEMY,
   Loc 14041799 1150 AP_DETECT_ENEMY, Loc 14041800 1151 AP_DETECT_ENEMY,
   Loc 14041801 1152 AP_DETECT_ENEMY, Loc 14041802 1153 AP_DETECT_ENEMY,
   Loc 14041803 1154 AP_DETECT_ENEMY, Loc 14041804 1155 AP_DETECT_ENEMY,
   Loc 14041805 1156 AP_DETECT_ENEMY, Loc 14041806 1157 AP_DETECT_ENEMY,
   Loc 14041807 1158 AP_DETECT_ENEMY, Loc 14041808 1159 AP_DETECT_ENEMY,
   Loc 14041809 1160 AP_DETECT_ENEMY, Loc 14041810 1161 AP_DETECT_ENEMY,
   Loc 14041811 1162 AP_DETECT_ENEMY, Loc 14041812 1163 AP_DETECT_ENEMY,
   Loc 14041813 1164 AP_DETECT_ENEMY, Loc 14041814 1165 AP_DETECT_ENEMY,
   Loc 14041815 1166 AP_DETECT_ENEMY, Loc 14041816 1167 AP_DETECT_ENEMY,
   Loc 14041817 1168 AP_DETECT_ENEMY, Loc 14041818 1169 AP_DETECT_ENEMY,
   Loc 14041819 1190 AP_DETECT_ENEMY, Loc 14041820 1191 AP_DETECT_ENEMY,
   Loc 14041821 1192 AP_DETECT_ENEMY, Loc 14041822 1193 AP_DETECT_ENEMY,
   Loc 14041823 1194 AP_DETECT_ENEMY, Loc 14041824 1195 AP_DETECT_ENEMY,
   Loc 14041825 1196 AP_DETECT_ENEMY, Loc 14041826 1197 AP_DETECT_ENEMY,
   Loc 14041827 1198 AP_DETECT_ENEMY, Loc 14041828 1199 AP_DETECT_ENEMY,
   Loc 14041829 1201 AP_DETECT_ENEMY, Loc 14041830 1202 AP_DETECT_ENEMY,
   Loc 14041831 1203 AP_DETECT_ENEMY, Loc 14041832 1204 AP_DETECT_ENEMY,
   Loc 14041833 1205 AP_DETECT_ENEMY, Loc 14041834 1206 AP_DETECT_ENEMY,
   Loc 14041835 1207 AP_DETECT_ENEMY, Loc 14041836 1208 AP_DETECT_ENEMY,
   Loc 14041837 1209 AP_DETECT_ENEMY, Loc 14041838 1210 AP_DETECT_ENEMY,
   Loc 14041839 1211 AP_DETECT_ENEMY, Loc 14041840 1212 AP_DETECT_ENEMY,
   Loc 14041841 1213 AP_DETECT_ENEMY, Loc 14041842 1214 AP_DETECT_ENEMY,
   Loc 14041843 1215 AP_DETECT_ENEMY, Loc 14041844 1216 AP_DETECT_ENEMY,
   Loc 14041845 1217 AP_DETECT_ENEMY, Loc 14041846 1218 AP_DETECT_ENEMY,
   Loc 14041847 1219 AP_DETECT_ENEMY, Loc 14041848 1238 AP_DETECT_ENEMY,
   Loc 14041849 1239 AP_DETECT_ENEMY, Loc 14041850 1240 AP_DETECT_ENEMY,
   Loc 14041851 1241 AP_DETECT_ENEMY, Loc 14041852 1242 AP_DETECT_ENEMY,
   Loc 14041853 1246 AP_DETECT_ENEMY, Loc 14041854 1247 AP_DETECT_ENEMY,
   Loc 14041855 1248 AP_DETECT_ENEMY, Loc 14041856 1249 AP_DETECT_ENEMY,
   Loc 14041857 1264 AP_DETECT_ENEMY, Loc 14041858 1265 AP_DETECT_ENEMY,
   Loc 14041859 1266 AP_DETECT_ENEMY, Loc 14041860 1267 AP_DETECT_ENEMY,
   Loc 14041861 1268 AP_DETECT_ENEMY, Loc 14041862 1269 AP_DETECT_ENEMY,
   Loc 14041863 1270 AP_DETECT_ENEMY, Loc 14041864 1271 AP_DETECT_ENEMY,
   Loc 14041865 1272 AP_DETECT_ENEMY, Loc 14041866 1273 AP_DETECT_ENEMY,
   Loc 14041867 1274 AP_DETECT_ENEMY, Loc 14041868 1275 AP_DETECT_ENEMY,
   Loc 14041869 1276 AP_DETECT_ENEMY, Loc 14041870 1277 AP_DETECT_ENEMY,
   Loc 14041871 1278 AP_DETECT_ENEMY, Loc 14041872 1279 AP_DETECT_ENEMY,
   Loc 14041873 1280 AP_DETECT_ENEMY, Loc 14041874 1281 AP_DETECT_ENEMY,
   Loc 14041875 1282 AP_DETECT_ENEMY, Loc 14041876 1283 AP_DETECT_ENEMY,
   Loc 14041877 1284 AP_DETECT_ENEMY, Loc 14041878 1285 AP_DETECT_ENEMY,
   Loc 14041879 1286 AP_DETECT_ENEMY, Loc 14041880 1287 AP_DETECT_ENEMY,
   Loc 14041881 1288 AP_DETECT_ENEMY, Loc 14041882 1289 AP_DETECT_ENEMY,
   Loc 14041883 1290 AP_DETECT_ENEMY, Loc 14041884 1291 AP_DETECT_ENEMY,
   Loc 14041885 1292 AP_DETECT_ENEMY, Loc 14041886 1293 AP_DETECT_ENEMY,
   Loc 14041887 1294 AP_DETECT_ENEMY, Loc 14041888 1295 AP_DETECT_ENEMY,
   Loc 14041889 1296 AP_DETECT_ENEMY, Loc 14041890 1297 AP_DETECT_ENEMY,
   Loc 14041891 1298 AP_DETECT_ENEMY, Loc 14041892 1299 AP_DETECT_ENEMY,
   Loc 14041893 1300 AP_DETECT_ENEMY, Loc 14041894 1301 AP_DETECT_ENEMY,
   Loc 14041895 1302 AP_DETECT_ENEMY, Loc 14041896 1303 AP_DETECT_ENEMY,
   Loc 14041897 1304 AP_DETECT_ENEMY, Loc 14041898 1305 AP_DETECT_ENEMY,
   Loc 14041899 1306 AP_DETECT_ENEMY, Loc 14041900 1307 AP_DETECT_ENEMY,
   Loc 14041901 1308 AP_DETECT_ENEMY, Loc 14041902 1309 AP_DETECT_ENEMY,
   Loc 14041903 1310 AP_DETECT_ENEMY, Loc 14041904 1311 AP_DETECT_ENEMY,
   Loc 14041905 1312 AP_DETECT_ENEMY, Loc 14041906 1313 AP_DETECT_ENEMY,
   Loc 14041907 1314 AP_DETECT_ENEMY, Loc 14041908 1315 AP_DETECT_ENEMY,
   Loc 14041909 1319 AP_DETECT_ENEMY, Loc 14041910 1320 AP_DETECT_ENEMY,
   Loc 14041911 1321 AP_DETECT_ENEMY, Loc 14041912 1325 AP_DETECT_ENEMY,
   Loc 14041913 1326 AP_DETECT_ENEMY, Loc 14041914 1327 AP_DETECT_ENEMY,
   Loc 14041915 1328 AP_DETECT_ENEMY, Loc 14041916 1329 AP_DETECT_ENEMY,
   Loc 14041917 1330 AP_DETECT_ENEMY, Loc 14041918 1331 AP_DETECT_ENEMY]"

definition ap_locations_7 :: "ap_location_def list" where
  "ap_locations_7 = [
   Loc 14041919 1332 AP_DETECT_ENEMY, Loc 14041920 1334 AP_DETECT_ENEMY,
   Loc 14041921 1335 AP_DETECT_ENEMY, Loc 14041922 1341 AP_DETECT_ENEMY,
   Loc 14041923 1347 AP_DETECT_ENEMY, Loc 14041924 1370 AP_DETECT_ENEMY,
   Loc 14041925 1371 AP_DETECT_ENEMY, Loc 14041926 1372 AP_DETECT_ENEMY,
   Loc 14041927 1373 AP_DETECT_ENEMY, Loc 14041928 1374 AP_DETECT_ENEMY,
   Loc 14041929 1375 AP_DETECT_ENEMY, Loc 14041930 1376 AP_DETECT_ENEMY,
   Loc 14041931 1377 AP_DETECT_ENEMY, Loc 14041932 1378 AP_DETECT_ENEMY,
   Loc 14041933 1379 AP_DETECT_ENEMY, Loc 14041934 1380 AP_DETECT_ENEMY,
   Loc 14041935 1381 AP_DETECT_ENEMY, Loc 14041936 1382 AP_DETECT_ENEMY,
   Loc 14041937 1383 AP_DETECT_ENEMY, Loc 14041938 1384 AP_DETECT_ENEMY,
   Loc 14041939 1385 AP_DETECT_ENEMY, Loc 14041940 1391 AP_DETECT_ENEMY,
   Loc 14041941 1392 AP_DETECT_ENEMY, Loc 14041942 1393 AP_DETECT_ENEMY,
   Loc 14041943 1394 AP_DETECT_ENEMY, Loc 14041944 1400 AP_DETECT_ENEMY,
   Loc 14041945 1401 AP_DETECT_ENEMY, Loc 14041946 1402 AP_DETECT_ENEMY,
   Loc 14041947 1403 AP_DETECT_ENEMY, Loc 14041948 1404 AP_DETECT_ENEMY,
   Loc 14041949 1405 AP_DETECT_ENEMY, Loc 14041950 1406 AP_DETECT_ENEMY,
   Loc 14041951 1407 AP_DETECT_ENEMY, Loc 14041952 1408 AP_DETECT_ENEMY,
   Loc 14041953 1409 AP_DETECT_ENEMY, Loc 14041954 1410 AP_DETECT_ENEMY,
   Loc 14041955 1411 AP_DETECT_ENEMY, Loc 14041956 1412 AP_DETECT_ENEMY,
   Loc 14041957 1413 AP_DETECT_ENEMY, Loc 14041958 1414 AP_DETECT_ENEMY,
   Loc 14041959 1415 AP_DETECT_ENEMY, Loc 14041960 1416 AP_DETECT_ENEMY,
   Loc 14041961 1417 AP_DETECT_ENEMY, Loc 14041962 1418 AP_DETECT_ENEMY,
   Loc 14041963 1419 AP_DETECT_ENEMY, Loc 14041964 1420 AP_DETECT_ENEMY,
   Loc 14041965 1421 AP_DETECT_ENEMY, Loc 14041966 1423 AP_DETECT_ENEMY,
   Loc 14041967 1424 AP_DETECT_ENEMY, Loc 14041968 1440 AP_DETECT_ENEMY,
   Loc 14041969 1441 AP_DETECT_ENEMY, Loc 14041970 1442 AP_DETECT_ENEMY,
   Loc 14041971 1443 AP_DETECT_ENEMY, Loc 14041972 1444 AP_DETECT_ENEMY,
   Loc 14041973 1445 AP_DETECT_ENEMY, Loc 14041974 1446 AP_DETECT_ENEMY,
   Loc 14041975 1447 AP_DETECT_ENEMY, Loc 14041976 1448 AP_DETECT_ENEMY,
   Loc 14041977 1459 AP_DETECT_ENEMY, Loc 14041978 1460 AP_DETECT_ENEMY,
   Loc 14041979 1461 AP_DETECT_ENEMY, Loc 14041980 1462 AP_DETECT_ENEMY,
   Loc 14041981 1463 AP_DETECT_ENEMY, Loc 14041982 1464 AP_DETECT_ENEMY,
   Loc 14041983 1465 AP_DETECT_ENEMY, Loc 14041984 1466 AP_DETECT_ENEMY,
   Loc 14041985 1467 AP_DETECT_ENEMY, Loc 14041986 1468 AP_DETECT_ENEMY,
   Loc 14041987 1469 AP_DETECT_ENEMY, Loc 14041988 1470 AP_DETECT_ENEMY,
   Loc 14041989 1471 AP_DETECT_ENEMY, Loc 14041990 1472 AP_DETECT_ENEMY,
   Loc 14041991 1473 AP_DETECT_ENEMY, Loc 14041992 1474 AP_DETECT_ENEMY,
   Loc 14041993 1475 AP_DETECT_ENEMY, Loc 14041994 1476 AP_DETECT_ENEMY,
   Loc 14041995 1477 AP_DETECT_ENEMY, Loc 14041996 1478 AP_DETECT_ENEMY,
   Loc 14041997 1479 AP_DETECT_ENEMY, Loc 14041998 1480 AP_DETECT_ENEMY,
   Loc 14041999 1481 AP_DETECT_ENEMY, Loc 14042000 1482 AP_DETECT_ENEMY,
   Loc 14042001 1483 AP_DETECT_ENEMY, Loc 14042002 1484 AP_DETECT_ENEMY,
   Loc 14042003 1485 AP_DETECT_ENEMY, Loc 14042004 1486 AP_DETECT_ENEMY,
   Loc 14042005 1487 AP_DETECT_ENEMY, Loc 14042006 1488 AP_DETECT_ENEMY,
   Loc 14042007 1489 AP_DETECT_ENEMY, Loc 14042329 982 AP_DETECT_EVENT,
   Loc 14042330 983 AP_DETECT_EVENT, Loc 14042331 984 AP_DETECT_EVENT,
   Loc 14042332 985 AP_DETECT_EVENT, Loc 14042333 986 AP_DETECT_EVENT,
   Loc 14042334 987 AP_DETECT_EVENT, Loc 14042335 988 AP_DETECT_EVENT,
   Loc 14042336 989 AP_DETECT_EVENT, Loc 14042337 990 AP_DETECT_EVENT,
   Loc 14042338 991 AP_DETECT_EVENT, Loc 14042339 992 AP_DETECT_EVENT,
   Loc 14042340 993 AP_DETECT_EVENT, Loc 14042341 994 AP_DETECT_EVENT,
   Loc 14042342 995 AP_DETECT_EVENT, Loc 14042343 996 AP_DETECT_EVENT,
   Loc 14042344 997 AP_DETECT_EVENT, Loc 14042345 998 AP_DETECT_EVENT,
   Loc 14042346 999 AP_DETECT_EVENT, Loc 14042347 1000 AP_DETECT_EVENT,
   Loc 14042348 1001 AP_DETECT_EVENT, Loc 14042349 1002 AP_DETECT_EVENT,
   Loc 14042350 1003 AP_DETECT_EVENT, Loc 14042351 1004 AP_DETECT_EVENT,
   Loc 14042352 1005 AP_DETECT_EVENT, Loc 14042353 1006 AP_DETECT_EVENT,
   Loc 14042354 1007 AP_DETECT_EVENT, Loc 14042355 1008 AP_DETECT_EVENT,
   Loc 14042356 1009 AP_DETECT_EVENT, Loc 14042357 1010 AP_DETECT_EVENT,
   Loc 14042358 1011 AP_DETECT_EVENT, Loc 14042359 1012 AP_DETECT_EVENT,
   Loc 14042360 1013 AP_DETECT_EVENT, Loc 14042361 1014 AP_DETECT_EVENT,
   Loc 14042362 1015 AP_DETECT_EVENT, Loc 14042363 1016 AP_DETECT_EVENT]"

definition ap_locations :: "ap_location_def list" where
  "ap_locations = ap_locations_1 @ ap_locations_2 @ ap_locations_3 @ ap_locations_4 @ ap_locations_5 @ ap_locations_6 @ ap_locations_7"

section \<open>Items and their effects\<close>

text \<open>
  The kind byte of an effect is one of the enumerators, or another value, which the switches of
  the code send to their default branch.
\<close>

datatype ap_effect_kind = AP_EFFECT_UNSUPPORTED | AP_EFFECT_NONE | AP_EFFECT_FLAG | AP_EFFECT_KONG
  | AP_EFFECT_KEY | AP_EFFECT_ABILITY | AP_EFFECT_SPECIAL | AP_EFFECT_HINT | AP_EFFECT_BLUEPRINT
  | AP_EFFECT_FAIRY | AP_EFFECT_CROWN | AP_EFFECT_MEDAL | AP_EFFECT_PEARL | AP_EFFECT_RAINBOW
  | AP_EFFECT_JUNK | AP_EFFECT_TRAP | AP_EFFECT_TRANSFER | AP_EFFECT_OTHER u8

datatype ap_item_effect = Effect (eff_kind: ap_effect_kind) (eff_arg0: u8) (eff_arg1: u16)

datatype ap_item_effect_def = Item (item_id: u32) (item_effect0: ap_item_effect) (item_effect1: ap_item_effect)

text \<open>\<open>effects def\<close> is the array of the two effects.\<close>

definition item_effects :: "ap_item_effect_def \<Rightarrow> ap_item_effect list" where
  "item_effects d = [item_effect0 d, item_effect1 d]"

abbreviation (input) AP_ITEM_COUNT :: nat where "AP_ITEM_COUNT \<equiv> 184"
abbreviation (input) AP_TRAP_TYPE_COUNT :: nat where "AP_TRAP_TYPE_COUNT \<equiv> 16"
abbreviation (input) AP_ITEM_FLAG_WORDS :: nat where "AP_ITEM_FLAG_WORDS \<equiv> 31"

abbreviation no_effect :: ap_item_effect where "no_effect \<equiv> Effect AP_EFFECT_NONE 0 0"

definition ap_item_effects_1 :: "ap_item_effect_def list" where
  "ap_item_effects_1 = [
   Item 14041088 (Effect AP_EFFECT_UNSUPPORTED 0 0) no_effect, Item 14041089 no_effect no_effect,
   Item 14041090 (Effect AP_EFFECT_UNSUPPORTED 0 0) no_effect,
   Item 14041091 (Effect AP_EFFECT_KONG 0 0) no_effect,
   Item 14041092 (Effect AP_EFFECT_KONG 1 0) no_effect,
   Item 14041093 (Effect AP_EFFECT_KONG 2 0) no_effect,
   Item 14041094 (Effect AP_EFFECT_KONG 3 0) no_effect,
   Item 14041095 (Effect AP_EFFECT_KONG 4 0) no_effect,
   Item 14041096 (Effect AP_EFFECT_ABILITY 16 0) no_effect,
   Item 14041097 (Effect AP_EFFECT_ABILITY 128 0) no_effect,
   Item 14041098 (Effect AP_EFFECT_ABILITY 64 0) no_effect,
   Item 14041099 (Effect AP_EFFECT_ABILITY 32 0) no_effect,
   Item 14041100 (Effect AP_EFFECT_FLAG 0 671) no_effect,
   Item 14041101 (Effect AP_EFFECT_TRANSFER 2 0) no_effect,
   Item 14041102 (Effect AP_EFFECT_TRANSFER 2 0) no_effect,
   Item 14041103 (Effect AP_EFFECT_UNSUPPORTED 0 0) no_effect,
   Item 14041104 (Effect AP_EFFECT_TRANSFER 26 0) no_effect,
   Item 14041105 (Effect AP_EFFECT_TRANSFER 27 0) no_effect,
   Item 14041106 (Effect AP_EFFECT_TRANSFER 28 0) no_effect,
   Item 14041107 (Effect AP_EFFECT_UNSUPPORTED 0 0) no_effect,
   Item 14041108 (Effect AP_EFFECT_TRANSFER 29 0) no_effect,
   Item 14041109 (Effect AP_EFFECT_TRANSFER 30 0) no_effect,
   Item 14041110 (Effect AP_EFFECT_TRANSFER 31 0) no_effect,
   Item 14041111 (Effect AP_EFFECT_UNSUPPORTED 0 0) no_effect,
   Item 14041112 (Effect AP_EFFECT_TRANSFER 32 0) no_effect,
   Item 14041113 (Effect AP_EFFECT_TRANSFER 33 0) no_effect,
   Item 14041114 (Effect AP_EFFECT_TRANSFER 34 0) no_effect,
   Item 14041115 (Effect AP_EFFECT_UNSUPPORTED 0 0) no_effect,
   Item 14041116 (Effect AP_EFFECT_TRANSFER 35 0) no_effect,
   Item 14041117 (Effect AP_EFFECT_TRANSFER 36 0) no_effect,
   Item 14041118 (Effect AP_EFFECT_TRANSFER 37 0) no_effect,
   Item 14041119 (Effect AP_EFFECT_UNSUPPORTED 0 0) no_effect,
   Item 14041120 (Effect AP_EFFECT_TRANSFER 38 0) no_effect,
   Item 14041121 (Effect AP_EFFECT_TRANSFER 39 0) no_effect,
   Item 14041122 (Effect AP_EFFECT_TRANSFER 40 0) no_effect,
   Item 14041123 (Effect AP_EFFECT_TRANSFER 46 0) no_effect,
   Item 14041124 (Effect AP_EFFECT_TRANSFER 47 0) no_effect,
   Item 14041125 (Effect AP_EFFECT_TRANSFER 48 0) no_effect,
   Item 14041126 (Effect AP_EFFECT_TRANSFER 49 0) no_effect,
   Item 14041127 (Effect AP_EFFECT_TRANSFER 50 0) no_effect,
   Item 14041128 (Effect AP_EFFECT_TRANSFER 52 0) no_effect,
   Item 14041129 (Effect AP_EFFECT_TRANSFER 53 0) no_effect,
   Item 14041130 (Effect AP_EFFECT_TRANSFER 54 0) no_effect,
   Item 14041131 (Effect AP_EFFECT_TRANSFER 54 0) no_effect,
   Item 14041132 (Effect AP_EFFECT_TRANSFER 41 0) no_effect,
   Item 14041133 (Effect AP_EFFECT_TRANSFER 42 0) no_effect,
   Item 14041134 (Effect AP_EFFECT_TRANSFER 43 0) no_effect,
   Item 14041135 (Effect AP_EFFECT_TRANSFER 44 0) no_effect,
   Item 14041136 (Effect AP_EFFECT_TRANSFER 45 0) no_effect,
   Item 14041137 (Effect AP_EFFECT_TRANSFER 55 0) no_effect,
   Item 14041138 (Effect AP_EFFECT_TRANSFER 55 0) no_effect,
   Item 14041139 (Effect AP_EFFECT_TRANSFER 55 0) no_effect,
   Item 14041140 (Effect AP_EFFECT_ABILITY 8 0) no_effect,
   Item 14041141 (Effect AP_EFFECT_ABILITY 4 0) no_effect,
   Item 14041142 (Effect AP_EFFECT_ABILITY 8 0) (Effect AP_EFFECT_ABILITY 4 0),
   Item 14041143 (Effect AP_EFFECT_SPECIAL 1 0) no_effect,
   Item 14041144 (Effect AP_EFFECT_SPECIAL 2 0) no_effect,
   Item 14041145 (Effect AP_EFFECT_KEY 0 0) no_effect,
   Item 14041146 (Effect AP_EFFECT_KEY 1 0) no_effect,
   Item 14041147 (Effect AP_EFFECT_KEY 2 0) no_effect,
   Item 14041148 (Effect AP_EFFECT_KEY 3 0) no_effect,
   Item 14041149 (Effect AP_EFFECT_KEY 4 0) no_effect,
   Item 14041150 (Effect AP_EFFECT_KEY 5 0) no_effect,
   Item 14041151 (Effect AP_EFFECT_KEY 6 0) no_effect,
   Item 14041152 (Effect AP_EFFECT_KEY 7 0) no_effect,
   Item 14041153 (Effect AP_EFFECT_UNSUPPORTED 0 0) no_effect,
   Item 14041154 (Effect AP_EFFECT_UNSUPPORTED 0 0) no_effect,
   Item 14041155 (Effect AP_EFFECT_UNSUPPORTED 0 0) no_effect,
   Item 14041156 (Effect AP_EFFECT_UNSUPPORTED 0 0) no_effect,
   Item 14041157 (Effect AP_EFFECT_UNSUPPORTED 0 0) no_effect,
   Item 14041158 (Effect AP_EFFECT_UNSUPPORTED 0 0) no_effect,
   Item 14041159 (Effect AP_EFFECT_UNSUPPORTED 0 0) no_effect,
   Item 14041160 (Effect AP_EFFECT_UNSUPPORTED 0 0) no_effect,
   Item 14041161 (Effect AP_EFFECT_UNSUPPORTED 0 0) no_effect,
   Item 14041162 (Effect AP_EFFECT_UNSUPPORTED 0 0) no_effect,
   Item 14041167 (Effect AP_EFFECT_SPECIAL 4 0) no_effect,
   Item 14041170 (Effect AP_EFFECT_TRAP 1 0) no_effect,
   Item 14041171 (Effect AP_EFFECT_TRAP 12 0) no_effect,
   Item 14041172 (Effect AP_EFFECT_TRAP 15 0) no_effect,
   Item 14041173 (Effect AP_EFFECT_JUNK 0 0) no_effect,
   Item 14041174 (Effect AP_EFFECT_JUNK 0 0) no_effect,
   Item 14041175 (Effect AP_EFFECT_JUNK 0 0) no_effect,
   Item 14041176 (Effect AP_EFFECT_JUNK 0 0) no_effect,
   Item 14041177 (Effect AP_EFFECT_JUNK 0 0) no_effect,
   Item 14041178 (Effect AP_EFFECT_JUNK 0 0) no_effect,
   Item 14041179 (Effect AP_EFFECT_UNSUPPORTED 0 0) no_effect,
   Item 14041180 (Effect AP_EFFECT_FLAG 0 962) no_effect,
   Item 14041181 (Effect AP_EFFECT_FLAG 0 963) no_effect,
   Item 14041182 (Effect AP_EFFECT_FLAG 0 964) no_effect,
   Item 14041183 (Effect AP_EFFECT_FLAG 0 965) no_effect,
   Item 14041184 (Effect AP_EFFECT_UNSUPPORTED 0 0) no_effect,
   Item 14041185 (Effect AP_EFFECT_HINT 0 0) no_effect]"

definition ap_item_effects_2 :: "ap_item_effect_def list" where
  "ap_item_effects_2 = [
   Item 14041186 (Effect AP_EFFECT_HINT 1 0) no_effect,
   Item 14041187 (Effect AP_EFFECT_HINT 2 0) no_effect,
   Item 14041188 (Effect AP_EFFECT_HINT 3 0) no_effect,
   Item 14041189 (Effect AP_EFFECT_HINT 4 0) no_effect,
   Item 14041190 (Effect AP_EFFECT_HINT 0 1) no_effect,
   Item 14041191 (Effect AP_EFFECT_HINT 1 1) no_effect,
   Item 14041192 (Effect AP_EFFECT_HINT 2 1) no_effect,
   Item 14041193 (Effect AP_EFFECT_HINT 3 1) no_effect,
   Item 14041194 (Effect AP_EFFECT_HINT 4 1) no_effect,
   Item 14041195 (Effect AP_EFFECT_HINT 0 2) no_effect,
   Item 14041196 (Effect AP_EFFECT_HINT 1 2) no_effect,
   Item 14041197 (Effect AP_EFFECT_HINT 2 2) no_effect,
   Item 14041198 (Effect AP_EFFECT_HINT 3 2) no_effect,
   Item 14041199 (Effect AP_EFFECT_HINT 4 2) no_effect,
   Item 14041200 (Effect AP_EFFECT_HINT 0 3) no_effect,
   Item 14041201 (Effect AP_EFFECT_HINT 1 3) no_effect,
   Item 14041202 (Effect AP_EFFECT_HINT 2 3) no_effect,
   Item 14041203 (Effect AP_EFFECT_HINT 3 3) no_effect,
   Item 14041204 (Effect AP_EFFECT_HINT 4 3) no_effect,
   Item 14041205 (Effect AP_EFFECT_HINT 0 4) no_effect,
   Item 14041206 (Effect AP_EFFECT_HINT 1 4) no_effect,
   Item 14041207 (Effect AP_EFFECT_HINT 2 4) no_effect,
   Item 14041208 (Effect AP_EFFECT_HINT 3 4) no_effect,
   Item 14041209 (Effect AP_EFFECT_HINT 4 4) no_effect,
   Item 14041210 (Effect AP_EFFECT_HINT 0 5) no_effect,
   Item 14041211 (Effect AP_EFFECT_HINT 1 5) no_effect,
   Item 14041212 (Effect AP_EFFECT_HINT 2 5) no_effect,
   Item 14041213 (Effect AP_EFFECT_HINT 3 5) no_effect,
   Item 14041214 (Effect AP_EFFECT_HINT 4 5) no_effect,
   Item 14041215 (Effect AP_EFFECT_HINT 0 6) no_effect,
   Item 14041216 (Effect AP_EFFECT_HINT 1 6) no_effect,
   Item 14041217 (Effect AP_EFFECT_HINT 2 6) no_effect,
   Item 14041218 (Effect AP_EFFECT_HINT 3 6) no_effect,
   Item 14041219 (Effect AP_EFFECT_HINT 4 6) no_effect,
   Item 14041260 (Effect AP_EFFECT_TRANSFER 2 0) no_effect,
   Item 14041262 (Effect AP_EFFECT_TRAP 1 0) no_effect,
   Item 14041263 (Effect AP_EFFECT_TRAP 12 0) no_effect,
   Item 14041264 (Effect AP_EFFECT_TRAP 15 0) no_effect,
   Item 14041265 (Effect AP_EFFECT_TRAP 1 0) no_effect,
   Item 14041266 (Effect AP_EFFECT_TRAP 12 0) no_effect,
   Item 14041267 (Effect AP_EFFECT_TRAP 15 0) no_effect,
   Item 14041269 (Effect AP_EFFECT_PEARL 0 0) no_effect,
   Item 14041270 (Effect AP_EFFECT_TRANSFER 1 0) no_effect,
   Item 14041271 (Effect AP_EFFECT_FAIRY 0 0) no_effect,
   Item 14041272 (Effect AP_EFFECT_CROWN 0 0) no_effect,
   Item 14041273 (Effect AP_EFFECT_MEDAL 0 0) no_effect,
   Item 14041274 (Effect AP_EFFECT_TRAP 2 0) no_effect,
   Item 14041275 (Effect AP_EFFECT_TRAP 2 0) no_effect,
   Item 14041276 (Effect AP_EFFECT_TRAP 2 0) no_effect,
   Item 14041277 (Effect AP_EFFECT_TRAP 3 0) no_effect,
   Item 14041278 (Effect AP_EFFECT_TRAP 3 0) no_effect,
   Item 14041279 (Effect AP_EFFECT_TRAP 3 0) no_effect,
   Item 14041280 (Effect AP_EFFECT_TRAP 5 0) no_effect,
   Item 14041281 (Effect AP_EFFECT_TRAP 5 0) no_effect,
   Item 14041282 (Effect AP_EFFECT_TRAP 5 0) no_effect,
   Item 14041283 (Effect AP_EFFECT_TRAP 4 0) no_effect,
   Item 14041284 (Effect AP_EFFECT_TRAP 4 0) no_effect,
   Item 14041285 (Effect AP_EFFECT_TRAP 4 0) no_effect,
   Item 14041314 (Effect AP_EFFECT_FLAG 0 186) no_effect,
   Item 14041315 (Effect AP_EFFECT_FLAG 0 187) no_effect,
   Item 14041316 (Effect AP_EFFECT_FLAG 0 188) no_effect,
   Item 14041317 (Effect AP_EFFECT_FLAG 0 189) no_effect,
   Item 14041318 (Effect AP_EFFECT_FLAG 0 190) no_effect,
   Item 14041323 (Effect AP_EFFECT_TRAP 9 0) no_effect,
   Item 14041326 (Effect AP_EFFECT_TRAP 7 0) no_effect,
   Item 14041329 (Effect AP_EFFECT_TRAP 8 0) no_effect,
   Item 14041342 (Effect AP_EFFECT_TRAP 10 0) no_effect,
   Item 14041346 (Effect AP_EFFECT_TRAP 11 0) no_effect,
   Item 14041350 (Effect AP_EFFECT_TRAP 14 0) no_effect,
   Item 14041353 (Effect AP_EFFECT_SPECIAL 4 0) no_effect,
   Item 14041354 (Effect AP_EFFECT_RAINBOW 0 0) no_effect,
   Item 14041358 (Effect AP_EFFECT_BLUEPRINT 0 0) no_effect,
   Item 14041359 (Effect AP_EFFECT_BLUEPRINT 1 0) no_effect,
   Item 14041360 (Effect AP_EFFECT_BLUEPRINT 2 0) no_effect,
   Item 14041361 (Effect AP_EFFECT_BLUEPRINT 3 0) no_effect,
   Item 14041362 (Effect AP_EFFECT_BLUEPRINT 4 0) no_effect,
   Item 14041369 (Effect AP_EFFECT_TRAP 0 0) no_effect,
   Item 14041373 (Effect AP_EFFECT_TRAP 13 0) no_effect,
   Item 14041377 (Effect AP_EFFECT_TRAP 6 0) no_effect,
   Item 14041689 (Effect AP_EFFECT_FLAG 0 940) no_effect,
   Item 14041690 (Effect AP_EFFECT_FLAG 0 941) no_effect,
   Item 14041691 (Effect AP_EFFECT_FLAG 0 942) no_effect,
   Item 14041692 (Effect AP_EFFECT_FLAG 0 943) no_effect,
   Item 14041693 (Effect AP_EFFECT_FLAG 0 944) no_effect,
   Item 14041694 (Effect AP_EFFECT_FLAG 0 945) no_effect,
   Item 14041695 (Effect AP_EFFECT_FLAG 0 946) no_effect,
   Item 14041696 (Effect AP_EFFECT_FLAG 0 947) no_effect,
   Item 14041697 (Effect AP_EFFECT_FLAG 0 948) no_effect,
   Item 14041698 (Effect AP_EFFECT_FLAG 0 949) no_effect,
   Item 14041699 (Effect AP_EFFECT_FLAG 0 950) no_effect,
   Item 14041700 (Effect AP_EFFECT_FLAG 0 951) no_effect,
   Item 14041701 (Effect AP_EFFECT_FLAG 0 952) no_effect]"

definition ap_item_effects :: "ap_item_effect_def list" where
  "ap_item_effects = ap_item_effects_1 @ ap_item_effects_2"

section \<open>Traps\<close>

abbreviation (input) AP_TRAP_TYPE_ANIMAL :: nat where "AP_TRAP_TYPE_ANIMAL \<equiv> 0"
abbreviation (input) AP_TRAP_TYPE_BUBBLE :: nat where "AP_TRAP_TYPE_BUBBLE \<equiv> 1"
abbreviation (input) AP_TRAP_TYPE_DISABLE_A :: nat where "AP_TRAP_TYPE_DISABLE_A \<equiv> 2"
abbreviation (input) AP_TRAP_TYPE_DISABLE_B :: nat where "AP_TRAP_TYPE_DISABLE_B \<equiv> 3"
abbreviation (input) AP_TRAP_TYPE_DISABLE_C_UP :: nat where "AP_TRAP_TYPE_DISABLE_C_UP \<equiv> 4"
abbreviation (input) AP_TRAP_TYPE_DISABLE_Z :: nat where "AP_TRAP_TYPE_DISABLE_Z \<equiv> 5"
abbreviation (input) AP_TRAP_TYPE_DISABLETAG :: nat where "AP_TRAP_TYPE_DISABLETAG \<equiv> 6"
abbreviation (input) AP_TRAP_TYPE_DRY :: nat where "AP_TRAP_TYPE_DRY \<equiv> 7"
abbreviation (input) AP_TRAP_TYPE_FLIP :: nat where "AP_TRAP_TYPE_FLIP \<equiv> 8"
abbreviation (input) AP_TRAP_TYPE_GET_OUT :: nat where "AP_TRAP_TYPE_GET_OUT \<equiv> 9"
abbreviation (input) AP_TRAP_TYPE_ICEFLOOR :: nat where "AP_TRAP_TYPE_ICEFLOOR \<equiv> 10"
abbreviation (input) AP_TRAP_TYPE_PAPER :: nat where "AP_TRAP_TYPE_PAPER \<equiv> 11"
abbreviation (input) AP_TRAP_TYPE_REVERSE :: nat where "AP_TRAP_TYPE_REVERSE \<equiv> 12"
abbreviation (input) AP_TRAP_TYPE_ROCKFALL :: nat where "AP_TRAP_TYPE_ROCKFALL \<equiv> 13"
abbreviation (input) AP_TRAP_TYPE_SLIP :: nat where "AP_TRAP_TYPE_SLIP \<equiv> 14"
abbreviation (input) AP_TRAP_TYPE_SLOW :: nat where "AP_TRAP_TYPE_SLOW \<equiv> 15"

abbreviation (input) AP_TRAP_MAP_BANNED :: u8 where "AP_TRAP_MAP_BANNED \<equiv> 0"
abbreviation (input) AP_TRAP_MAP_SUPER :: u8 where "AP_TRAP_MAP_SUPER \<equiv> 1"
abbreviation (input) AP_TRAP_MAP_ALLOW :: u8 where "AP_TRAP_MAP_ALLOW \<equiv> 2"
abbreviation (input) AP_TRAP_MAP_COUNT :: nat where "AP_TRAP_MAP_COUNT \<equiv> 221"
abbreviation (input) AP_TRAP_MOVEMENT_COUNT :: nat where "AP_TRAP_MOVEMENT_COUNT \<equiv> 137"

definition ap_trap_map_state :: "u8 list" where
  "ap_trap_map_state = [
   2, 0, 0, 1, 2, 0, 0, 2, 1, 0, 0, 0, 2, 2, 1, 0, 2, 2, 0, 2, 2, 2, 2, 2, 2, 0, 2, 0, 0, 2, 2, 2,
   0, 2, 2, 1, 2, 1, 2, 0, 0, 1, 1, 2, 2, 2, 2, 2, 2, 2, 1, 2, 2, 1, 1, 0, 2, 2, 2, 2, 2, 2, 2, 2,
   2, 1, 1, 1, 1, 1, 2, 2, 2, 1, 1, 1, 0, 0, 0, 0, 0, 0, 2, 1, 2, 2, 2, 2, 2, 2, 2, 2, 2, 2, 2, 2,
   1, 2, 2, 1, 2, 0, 0, 0, 0, 2, 2, 0, 2, 0, 1, 0, 2, 2, 2, 0, 0, 0, 0, 0, 0, 0, 0, 0, 1, 1, 1, 1,
   1, 0, 0, 0, 1, 1, 1, 1, 0, 0, 0, 0, 0, 0, 0, 0, 0, 0, 0, 0, 0, 0, 0, 2, 0, 0, 1, 1, 1, 1, 1, 1,
   1, 1, 1, 2, 2, 1, 2, 2, 2, 2, 2, 2, 0, 2, 2, 2, 2, 1, 2, 2, 1, 1, 1, 2, 0, 0, 1, 1, 1, 2, 0, 0,
   0, 2, 2, 2, 1, 1, 0, 1, 2, 1, 1, 1, 1, 1, 1, 1, 0, 1, 1, 1, 1, 0, 1, 0, 0, 0, 0, 0, 0]"

definition ap_trap_movement_banned :: "u8 list" where
  "ap_trap_movement_banned = [
   0, 0, 0, 0, 1, 1, 1, 0, 0, 0, 0, 0, 0, 0, 0, 0, 0, 0, 0, 0, 0, 1, 1, 0, 1, 0, 0, 0, 0, 0, 0, 0,
   0, 0, 0, 0, 0, 0, 0, 0, 0, 0, 0, 0, 0, 1, 1, 0, 0, 1, 1, 1, 0, 1, 1, 1, 1, 1, 0, 0, 0, 0, 0, 0,
   0, 0, 1, 1, 1, 1, 0, 0, 0, 0, 0, 0, 0, 0, 0, 0, 0, 0, 1, 1, 1, 0, 1, 1, 1, 1, 1, 1, 1, 0, 0, 0,
   0, 0, 0, 1, 1, 1, 0, 1, 0, 1, 1, 1, 1, 1, 1, 1, 1, 1, 1, 1, 1, 1, 1, 0, 1, 1, 1, 1, 1, 1, 1, 1,
   1, 1, 1, 1, 0, 0, 0, 1, 1]"

section \<open>Shops\<close>

datatype ap_shop_location_def = ShopLoc (shop_id: u32) (shop_vendor: u8) (shop_level: u8) (shop_kong: u8)

abbreviation (input) AP_SHOP_COUNT :: nat where "AP_SHOP_COUNT \<equiv> 120"
abbreviation (input) AP_SHOP_SHARED :: u8 where "AP_SHOP_SHARED \<equiv> 5"

definition ap_shop_locations :: "ap_shop_location_def list" where
  "ap_shop_locations = [
   ShopLoc 14041442 0 7 5, ShopLoc 14041443 0 0 0, ShopLoc 14041444 0 0 1, ShopLoc 14041445 0 0 2,
   ShopLoc 14041446 0 0 3, ShopLoc 14041447 0 0 4, ShopLoc 14041448 1 0 0, ShopLoc 14041449 1 0 1,
   ShopLoc 14041450 1 0 2, ShopLoc 14041451 1 0 3, ShopLoc 14041452 1 0 4, ShopLoc 14041453 0 1 0,
   ShopLoc 14041454 0 1 1, ShopLoc 14041455 2 1 0, ShopLoc 14041456 2 1 1, ShopLoc 14041457 2 1 2,
   ShopLoc 14041458 2 1 3, ShopLoc 14041459 2 1 4, ShopLoc 14041460 0 2 0, ShopLoc 14041461 0 2 1,
   ShopLoc 14041462 0 2 2, ShopLoc 14041463 0 2 3, ShopLoc 14041464 0 2 4, ShopLoc 14041465 1 2 5,
   ShopLoc 14041466 2 3 5, ShopLoc 14041467 0 4 5, ShopLoc 14041468 1 4 5, ShopLoc 14041469 0 5 2,
   ShopLoc 14041470 0 5 3, ShopLoc 14041471 0 5 4, ShopLoc 14041472 1 5 5, ShopLoc 14041473 2 5 5,
   ShopLoc 14041474 0 6 5, ShopLoc 14041475 1 6 5, ShopLoc 14041476 2 6 5, ShopLoc 14041478 0 0 5,
   ShopLoc 14041479 1 0 5, ShopLoc 14041480 0 1 5, ShopLoc 14041481 0 1 2, ShopLoc 14041482 0 1 3,
   ShopLoc 14041483 0 1 4, ShopLoc 14041484 1 1 5, ShopLoc 14041485 1 1 0, ShopLoc 14041486 1 1 1,
   ShopLoc 14041487 1 1 2, ShopLoc 14041488 1 1 3, ShopLoc 14041489 1 1 4, ShopLoc 14041490 2 1 5,
   ShopLoc 14041491 0 2 5, ShopLoc 14041492 1 2 0, ShopLoc 14041493 1 2 1, ShopLoc 14041494 1 2 2,
   ShopLoc 14041495 1 2 3, ShopLoc 14041496 1 2 4, ShopLoc 14041497 2 2 5, ShopLoc 14041498 2 2 0,
   ShopLoc 14041499 2 2 1, ShopLoc 14041500 2 2 2, ShopLoc 14041501 2 2 3, ShopLoc 14041502 2 2 4,
   ShopLoc 14041503 0 3 5, ShopLoc 14041504 0 3 0, ShopLoc 14041505 0 3 1, ShopLoc 14041506 0 3 2,
   ShopLoc 14041507 0 3 3, ShopLoc 14041508 0 3 4, ShopLoc 14041509 1 3 5, ShopLoc 14041510 1 3 0,
   ShopLoc 14041511 1 3 1, ShopLoc 14041512 1 3 2, ShopLoc 14041513 1 3 3, ShopLoc 14041514 1 3 4,
   ShopLoc 14041515 2 3 0, ShopLoc 14041516 2 3 1, ShopLoc 14041517 2 3 2, ShopLoc 14041518 2 3 3,
   ShopLoc 14041519 2 3 4, ShopLoc 14041520 0 4 0, ShopLoc 14041521 0 4 1, ShopLoc 14041522 0 4 2,
   ShopLoc 14041523 0 4 3, ShopLoc 14041524 0 4 4, ShopLoc 14041525 1 4 0, ShopLoc 14041526 1 4 1,
   ShopLoc 14041527 1 4 2, ShopLoc 14041528 1 4 3, ShopLoc 14041529 1 4 4, ShopLoc 14041530 0 5 5,
   ShopLoc 14041531 0 5 0, ShopLoc 14041532 0 5 1, ShopLoc 14041533 1 5 0, ShopLoc 14041534 1 5 1,
   ShopLoc 14041535 1 5 2, ShopLoc 14041536 1 5 3, ShopLoc 14041537 1 5 4, ShopLoc 14041538 2 5 0,
   ShopLoc 14041539 2 5 1, ShopLoc 14041540 2 5 2, ShopLoc 14041541 2 5 3, ShopLoc 14041542 2 5 4,
   ShopLoc 14041543 0 6 0, ShopLoc 14041544 0 6 1, ShopLoc 14041545 0 6 2, ShopLoc 14041546 0 6 3,
   ShopLoc 14041547 0 6 4, ShopLoc 14041548 1 6 0, ShopLoc 14041549 1 6 1, ShopLoc 14041550 1 6 2,
   ShopLoc 14041551 1 6 3, ShopLoc 14041552 1 6 4, ShopLoc 14041553 2 6 0, ShopLoc 14041554 2 6 1,
   ShopLoc 14041555 2 6 2, ShopLoc 14041556 2 6 3, ShopLoc 14041557 2 6 4, ShopLoc 14041558 0 7 0,
   ShopLoc 14041559 0 7 1, ShopLoc 14041560 0 7 2, ShopLoc 14041561 0 7 3, ShopLoc 14041562 0 7 4]"

section \<open>Facts about the tables\<close>

text \<open>A long table is sorted when its parts are and they follow one another.\<close>

lemma successively_glue:
  "successively P xs \<Longrightarrow> successively P ys \<Longrightarrow> xs \<noteq> [] \<Longrightarrow> ys \<noteq> [] \<Longrightarrow> P (last xs) (hd ys) \<Longrightarrow>
   successively P (xs @ ys) \<and> xs @ ys \<noteq> [] \<and> hd (xs @ ys) = hd xs \<and> last (xs @ ys) = last ys"
  by (auto simp: successively_append_iff)

lemmas ap_locations_parts = ap_locations_1_def ap_locations_2_def ap_locations_3_def ap_locations_4_def ap_locations_5_def ap_locations_6_def ap_locations_7_def
lemmas ap_item_effects_parts = ap_item_effects_1_def ap_item_effects_2_def

lemma length_ap_locations [simp]: "length ap_locations = AP_LOCATION_COUNT"
  by (simp add: ap_locations_def ap_locations_parts)

lemma length_ap_item_effects [simp]: "length ap_item_effects = AP_ITEM_COUNT"
  by (simp add: ap_item_effects_def ap_item_effects_parts)

lemma length_ap_shop_locations [simp]: "length ap_shop_locations = AP_SHOP_COUNT"
  by (simp add: ap_shop_locations_def)

lemma length_trap_tables [simp]:
  "length ap_trap_map_state = AP_TRAP_MAP_COUNT"
  "length ap_trap_movement_banned = AP_TRAP_MOVEMENT_COUNT"
  by (simp_all add: ap_trap_map_state_def ap_trap_movement_banned_def)

lemma ap_locations_1_run:
  "successively (<) (map loc_id ap_locations_1)" "ap_locations_1 \<noteq> []"
  "loc_id (hd ap_locations_1) = 14041140" "loc_id (last ap_locations_1) = 14041263"
  by (simp_all add: ap_locations_1_def)

lemma ap_locations_2_run:
  "successively (<) (map loc_id ap_locations_2)" "ap_locations_2 \<noteq> []"
  "loc_id (hd ap_locations_2) = 14041264" "loc_id (last ap_locations_2) = 14041387"
  by (simp_all add: ap_locations_2_def)

lemma ap_locations_3_run:
  "successively (<) (map loc_id ap_locations_3)" "ap_locations_3 \<noteq> []"
  "loc_id (hd ap_locations_3) = 14041388" "loc_id (last ap_locations_3) = 14041511"
  by (simp_all add: ap_locations_3_def)

lemma ap_locations_4_run:
  "successively (<) (map loc_id ap_locations_4)" "ap_locations_4 \<noteq> []"
  "loc_id (hd ap_locations_4) = 14041512" "loc_id (last ap_locations_4) = 14041635"
  by (simp_all add: ap_locations_4_def)

lemma ap_locations_5_run:
  "successively (<) (map loc_id ap_locations_5)" "ap_locations_5 \<noteq> []"
  "loc_id (hd ap_locations_5) = 14041636" "loc_id (last ap_locations_5) = 14041794"
  by (simp_all add: ap_locations_5_def)

lemma ap_locations_6_run:
  "successively (<) (map loc_id ap_locations_6)" "ap_locations_6 \<noteq> []"
  "loc_id (hd ap_locations_6) = 14041795" "loc_id (last ap_locations_6) = 14041918"
  by (simp_all add: ap_locations_6_def)

lemma ap_locations_7_run:
  "successively (<) (map loc_id ap_locations_7)" "ap_locations_7 \<noteq> []"
  "loc_id (hd ap_locations_7) = 14041919" "loc_id (last ap_locations_7) = 14042363"
  by (simp_all add: ap_locations_7_def)

lemmas ap_locations_runs = ap_locations_1_run ap_locations_2_run ap_locations_3_run ap_locations_4_run ap_locations_5_run ap_locations_6_run ap_locations_7_run

lemma ap_locations_successive: "successively (<) (map loc_id ap_locations)"
  by (simp add: ap_locations_def successively_append_iff ap_locations_runs hd_map last_map hd_append last_append)

lemma ap_item_effects_successive: "successively (<) (map item_id ap_item_effects)"
  by (simp add: ap_item_effects_def ap_item_effects_parts)

lemma ap_shop_locations_successive: "successively (<) (map shop_id ap_shop_locations)"
  by (simp add: ap_shop_locations_def)

interpretation locations: sorted_table ap_locations loc_id
  by unfold_locales (rule sorted_wrt_neighbours [OF ap_locations_successive])

interpretation items: sorted_table ap_item_effects item_id
  by unfold_locales (rule sorted_wrt_neighbours [OF ap_item_effects_successive])

interpretation shop_table: sorted_table ap_shop_locations shop_id
  by unfold_locales (rule sorted_wrt_neighbours [OF ap_shop_locations_successive])

end
