(* ===== verification/Inventory.thy ===== *)
theory Inventory
  imports Receipts Catalog
begin

text \<open>
  The receipt-derived inventory of \<^verbatim>\<open>mod/campaign_inventory.h\<close> and \<^verbatim>\<open>mod/campaign_inventory.c\<close>:
  one received item is looked up in the catalog, its two effects are validated and applied; a
  rebuild replays a receipt prefix from the empty inventory.  The lemmas give the invariant of
  every inventory that receipts can produce, the growth order (no receipt takes anything away),
  and that effects commute, so a rebuild depends only on which items were received.
\<close>

record ap_campaign_inventory =
  moves :: "u8 list"
  guns :: "u8 list"
  instruments :: "u8 list"
  hints :: "u8 list"
  blueprints :: "u8 list"
  kongs :: u8
  keys :: u8
  abilities :: u8
  special :: u8
  slam :: u8
  belt :: u8
  instrument_upgrades :: u8
  shopkeepers :: u8
  climbing :: u8
  inv_reserved :: "u8 list"
  golden_bananas :: u32
  fairies :: u32
  crowns :: u32
  medals :: u32
  pearls :: u32
  rainbow_coins :: u32
  junk :: u32
  traps :: "u32 list"
  flags :: "u32 list"

section \<open>Operations\<close>

definition increment :: "u32 \<Rightarrow> u32" where
  "increment value = (if value = 0xFFFFFFFF then value else value + 1)"

definition capped_increment :: "u8 \<Rightarrow> u8 \<Rightarrow> u8" where
  "capped_increment value cap = (if value < cap then value + 1 else value)"

text \<open>\<open>xs[i] = f(xs[i])\<close> on a C array.\<close>

definition modify :: "nat \<Rightarrow> ('a \<Rightarrow> 'a) \<Rightarrow> 'a list \<Rightarrow> 'a list" where
  "modify i f xs = xs[i := f (xs ! i)]"

definition bit8 :: "nat \<Rightarrow> u8" where "bit8 n = push_bit n 1"

definition zero_inventory :: ap_campaign_inventory where
  "zero_inventory = \<lparr>moves = replicate 5 0, guns = replicate 5 0, instruments = replicate 5 0,
     hints = replicate 5 0, blueprints = replicate 5 0, kongs = 0, keys = 0, abilities = 0,
     special = 0, slam = 0, belt = 0, instrument_upgrades = 0, shopkeepers = 0, climbing = 0,
     inv_reserved = replicate 2 0, golden_bananas = 0, fairies = 0, crowns = 0, medals = 0,
     pearls = 0, rainbow_coins = 0, junk = 0, traps = replicate AP_TRAP_TYPE_COUNT 0,
     flags = replicate AP_ITEM_FLAG_WORDS 0\<rparr>"

definition ap_campaign_inventory_clear :: "ap_campaign_inventory cptr \<Rightarrow> ap_campaign_inventory cptr" where
  "ap_campaign_inventory_clear inventory = store inventory zero_inventory"

definition find_item :: "u32 \<Rightarrow> ap_item_effect_def option" where
  "find_item iid =
     (let low = lower_bound item_id ap_item_effects iid 0 AP_ITEM_COUNT
      in if low < AP_ITEM_COUNT \<and> item_id (ap_item_effects ! low) = iid
         then Some (ap_item_effects ! low) else None)"

fun effect_valid :: "ap_item_effect \<Rightarrow> bool" where
  "effect_valid (Effect kind arg0 arg1) =
     (case kind of
        AP_EFFECT_UNSUPPORTED \<Rightarrow> True | AP_EFFECT_NONE \<Rightarrow> True | AP_EFFECT_FAIRY \<Rightarrow> True
      | AP_EFFECT_CROWN \<Rightarrow> True | AP_EFFECT_MEDAL \<Rightarrow> True | AP_EFFECT_PEARL \<Rightarrow> True
      | AP_EFFECT_RAINBOW \<Rightarrow> True | AP_EFFECT_JUNK \<Rightarrow> True
      | AP_EFFECT_FLAG \<Rightarrow> unat arg1 < AP_ITEM_FLAG_WORDS * 32
      | AP_EFFECT_KONG \<Rightarrow> arg0 < 5
      | AP_EFFECT_KEY \<Rightarrow> arg0 < 8
      | AP_EFFECT_ABILITY \<Rightarrow> arg0 \<noteq> 0 \<and> arg0 AND 3 = 0
      | AP_EFFECT_SPECIAL \<Rightarrow> arg0 \<noteq> 0 \<and> arg0 AND NOT 7 = 0
      | AP_EFFECT_HINT \<Rightarrow> arg0 < 5 \<and> arg1 < 8
      | AP_EFFECT_BLUEPRINT \<Rightarrow> arg0 < 5
      | AP_EFFECT_TRAP \<Rightarrow> unat arg0 < AP_TRAP_TYPE_COUNT
      | AP_EFFECT_TRANSFER \<Rightarrow> arg0 = 1 \<or> arg0 = 2 \<or> (26 \<le> arg0 \<and> arg0 \<le> 55)
      | AP_EFFECT_OTHER _ \<Rightarrow> False)"

text \<open>The bits of the instruments that the upgrade level \<open>n\<close> grants to every Kong.\<close>

definition upgrade_mask :: "u8 \<Rightarrow> u8" where
  "upgrade_mask n = ucast ((push_bit (unat n + 1) 1 - 1) AND NOT (1 :: u32))"

definition apply_transfer :: "ap_campaign_inventory \<Rightarrow> nat \<Rightarrow> ap_campaign_inventory" where
  "apply_transfer inven transfer =
     (if transfer = 1 then inven\<lparr>golden_bananas := increment (golden_bananas inven)\<rparr>
      else if transfer = 2 \<or> transfer = 51 then inven\<lparr>slam := capped_increment (slam inven) 3\<rparr>
      else if 26 \<le> transfer \<and> transfer \<le> 40 then
        inven\<lparr>moves := modify ((transfer - 26) div 3) (\<lambda>m. m OR bit8 ((transfer - 26) mod 3)) (moves inven)\<rparr>
      else if 41 \<le> transfer \<and> transfer \<le> 45 then
        inven\<lparr>instruments := modify (transfer - 41) (\<lambda>m. m OR 1) (instruments inven)\<rparr>
      else if 46 \<le> transfer \<and> transfer \<le> 50 then
        inven\<lparr>guns := modify (transfer - 46) (\<lambda>m. m OR 1) (guns inven)\<rparr>
      else if transfer = 52 \<or> transfer = 53 then
        inven\<lparr>guns := map (\<lambda>m. m OR bit8 (transfer - 51)) (guns inven)\<rparr>
      else if transfer = 54 then inven\<lparr>belt := capped_increment (belt inven) 2\<rparr>
      else if transfer = 55 then
        let upgrades = capped_increment (instrument_upgrades inven) 3
        in inven\<lparr>instrument_upgrades := upgrades,
               instruments := map (\<lambda>m. m OR upgrade_mask upgrades) (instruments inven)\<rparr>
      else inven)"

fun apply_effect :: "ap_item_effect \<Rightarrow> ap_campaign_inventory \<Rightarrow> ap_campaign_inventory" where
  "apply_effect (Effect kind arg0 arg1) inven =
     (case kind of
        AP_EFFECT_NONE \<Rightarrow> inven
      | AP_EFFECT_FLAG \<Rightarrow>
          let inv1 = inven\<lparr>flags := modify (unat arg1 div 32) (\<lambda>w. w OR bit32 (unat arg1 mod 32)) (flags inven)\<rparr>;
              inv2 = (if arg1 = 671 then inv1\<lparr>climbing := 1\<rparr> else inv1)
          in if 962 \<le> arg1 \<and> arg1 \<le> 965
             then inv2\<lparr>shopkeepers := shopkeepers inv2 OR bit8 (unat arg1 - 962)\<rparr> else inv2
      | AP_EFFECT_KONG \<Rightarrow> inven\<lparr>kongs := kongs inven OR bit8 (unat arg0)\<rparr>
      | AP_EFFECT_KEY \<Rightarrow> inven\<lparr>keys := keys inven OR bit8 (unat arg0)\<rparr>
      | AP_EFFECT_ABILITY \<Rightarrow> inven\<lparr>abilities := abilities inven OR arg0\<rparr>
      | AP_EFFECT_SPECIAL \<Rightarrow> inven\<lparr>special := special inven OR arg0\<rparr>
      | AP_EFFECT_HINT \<Rightarrow> inven\<lparr>hints := modify (unat arg0) (\<lambda>h. h OR bit8 (unat arg1)) (hints inven)\<rparr>
      | AP_EFFECT_BLUEPRINT \<Rightarrow>
          inven\<lparr>blueprints := modify (unat arg0) (\<lambda>b. capped_increment b 8) (blueprints inven)\<rparr>
      | AP_EFFECT_FAIRY \<Rightarrow> inven\<lparr>fairies := increment (fairies inven)\<rparr>
      | AP_EFFECT_CROWN \<Rightarrow> inven\<lparr>crowns := increment (crowns inven)\<rparr>
      | AP_EFFECT_MEDAL \<Rightarrow> inven\<lparr>medals := increment (medals inven)\<rparr>
      | AP_EFFECT_PEARL \<Rightarrow> inven\<lparr>pearls := increment (pearls inven)\<rparr>
      | AP_EFFECT_RAINBOW \<Rightarrow> inven\<lparr>rainbow_coins := increment (rainbow_coins inven)\<rparr>
      | AP_EFFECT_JUNK \<Rightarrow> inven\<lparr>junk := increment (junk inven)\<rparr>
      | AP_EFFECT_TRAP \<Rightarrow> inven\<lparr>traps := modify (unat arg0) increment (traps inven)\<rparr>
      | AP_EFFECT_TRANSFER \<Rightarrow> apply_transfer inven (unat arg0)
      | AP_EFFECT_UNSUPPORTED \<Rightarrow> inven
      | AP_EFFECT_OTHER _ \<Rightarrow> inven)"

text \<open>The validation loop over the two effects: the first failure decides the result.\<close>

fun effects_check :: "ap_item_effect list \<Rightarrow> int" where
  "effects_check [] = 1"
| "effects_check (e # es) =
     (if \<not> effect_valid e then - 1
      else if eff_kind e = AP_EFFECT_UNSUPPORTED then 0 else effects_check es)"

definition ap_campaign_inventory_add ::
  "ap_campaign_inventory cptr \<Rightarrow> u32 \<Rightarrow> int \<times> ap_campaign_inventory cptr" where
  "ap_campaign_inventory_add inventory iid =
     (if inventory = Null then (- 1, inventory)
      else case find_item iid of None \<Rightarrow> (- 1, inventory) | Some item \<Rightarrow>
        let result = effects_check (item_effects item)
        in if result \<noteq> 1 then (result, inventory)
           else (1, store inventory (fold apply_effect (item_effects item) (deref inventory))))"

fun rebuild_loop :: "ap_campaign_inventory \<Rightarrow> u32 list \<Rightarrow> int \<times> ap_campaign_inventory" where
  "rebuild_loop candidate [] = (1, candidate)"
| "rebuild_loop candidate (iid # ids) =
     (case ap_campaign_inventory_add (Ptr 0 candidate) iid of (result, p) \<Rightarrow>
        if result \<noteq> 1 then (result, candidate) else rebuild_loop (deref p) ids)"

text \<open>\<open>item_ids[0..count)\<close>; a null array is only reached with \<open>count = 0\<close>.\<close>

fun cptr_take :: "nat \<Rightarrow> 'a list cptr \<Rightarrow> 'a list" where
  "cptr_take n Null = []"
| "cptr_take n (Ptr _ xs) = take n xs"

definition ap_campaign_inventory_rebuild ::
  "ap_campaign_inventory cptr \<Rightarrow> u32 list cptr \<Rightarrow> u32 \<Rightarrow> int \<times> ap_campaign_inventory cptr" where
  "ap_campaign_inventory_rebuild output item_ids cnt =
     (if output = Null \<or> (cnt \<noteq> 0 \<and> item_ids = Null) \<or> cnt > 65535 then (- 1, output)
      else case rebuild_loop zero_inventory (cptr_take (unat cnt) item_ids) of (result, candidate) \<Rightarrow>
        if result \<noteq> 1 then (result, output) else (1, store output candidate))"

definition ap_campaign_inventory_has_flag :: "ap_campaign_inventory cptr \<Rightarrow> u32 \<Rightarrow> int" where
  "ap_campaign_inventory_has_flag inventory flag =
     c_bool (inventory \<noteq> Null \<and> unat flag < AP_ITEM_FLAG_WORDS * 32 \<and>
       flags (deref inventory) ! (unat flag div 32) AND bit32 (unat flag mod 32) \<noteq> 0)"

section \<open>Effects as single operations\<close>

text \<open>
  Every effect acts as one of these operations on the inventory; the switch of
  \<^verbatim>\<open>apply_effect\<close> and the ladder of \<^verbatim>\<open>apply_transfer\<close> only select it.  The lemmas
  about effects go by cases on the operation.
\<close>

datatype inventory_op = No_Op | Add_Banana | Raise_Slam | Learn_Move nat nat | Get_Instrument nat
  | Get_Gun nat | Upgrade_Guns nat | Raise_Belt | Upgrade_Instruments | Set_Flag nat u8 u8
  | Free_Kong nat | Get_Key nat | Get_Ability u8 | Get_Special u8 | Get_Hint nat nat
  | Add_Blueprint nat | Add_Fairy | Add_Crown | Add_Medal | Add_Pearl | Add_Rainbow | Add_Junk
  | Add_Trap nat

fun run_op :: "inventory_op \<Rightarrow> ap_campaign_inventory \<Rightarrow> ap_campaign_inventory" where
  "run_op No_Op i = i"
| "run_op Add_Banana i = i\<lparr>golden_bananas := increment (golden_bananas i)\<rparr>"
| "run_op Raise_Slam i = i\<lparr>slam := capped_increment (slam i) 3\<rparr>"
| "run_op (Learn_Move k b) i = i\<lparr>moves := modify k (\<lambda>m. m OR bit8 b) (moves i)\<rparr>"
| "run_op (Get_Instrument k) i = i\<lparr>instruments := modify k (\<lambda>m. m OR 1) (instruments i)\<rparr>"
| "run_op (Get_Gun k) i = i\<lparr>guns := modify k (\<lambda>m. m OR 1) (guns i)\<rparr>"
| "run_op (Upgrade_Guns b) i = i\<lparr>guns := map (\<lambda>m. m OR bit8 b) (guns i)\<rparr>"
| "run_op Raise_Belt i = i\<lparr>belt := capped_increment (belt i) 2\<rparr>"
| "run_op Upgrade_Instruments i = i\<lparr>instrument_upgrades := capped_increment (instrument_upgrades i) 3,
     instruments := map (\<lambda>m. m OR upgrade_mask (capped_increment (instrument_upgrades i) 3)) (instruments i)\<rparr>"
| "run_op (Set_Flag n c s) i = i\<lparr>flags := modify (n div 32) (\<lambda>w. w OR bit32 (n mod 32)) (flags i),
     climbing := climbing i OR c, shopkeepers := shopkeepers i OR s\<rparr>"
| "run_op (Free_Kong b) i = i\<lparr>kongs := kongs i OR bit8 b\<rparr>"
| "run_op (Get_Key b) i = i\<lparr>keys := keys i OR bit8 b\<rparr>"
| "run_op (Get_Ability b) i = i\<lparr>abilities := abilities i OR b\<rparr>"
| "run_op (Get_Special b) i = i\<lparr>special := special i OR b\<rparr>"
| "run_op (Get_Hint k b) i = i\<lparr>hints := modify k (\<lambda>h. h OR bit8 b) (hints i)\<rparr>"
| "run_op (Add_Blueprint k) i = i\<lparr>blueprints := modify k (\<lambda>b. capped_increment b 8) (blueprints i)\<rparr>"
| "run_op Add_Fairy i = i\<lparr>fairies := increment (fairies i)\<rparr>"
| "run_op Add_Crown i = i\<lparr>crowns := increment (crowns i)\<rparr>"
| "run_op Add_Medal i = i\<lparr>medals := increment (medals i)\<rparr>"
| "run_op Add_Pearl i = i\<lparr>pearls := increment (pearls i)\<rparr>"
| "run_op Add_Rainbow i = i\<lparr>rainbow_coins := increment (rainbow_coins i)\<rparr>"
| "run_op Add_Junk i = i\<lparr>junk := increment (junk i)\<rparr>"
| "run_op (Add_Trap n) i = i\<lparr>traps := modify n increment (traps i)\<rparr>"

definition transfer_op :: "nat \<Rightarrow> inventory_op" where
  "transfer_op t =
     (if t = 1 then Add_Banana else if t = 2 \<or> t = 51 then Raise_Slam
      else if 26 \<le> t \<and> t \<le> 40 then Learn_Move ((t - 26) div 3) ((t - 26) mod 3)
      else if 41 \<le> t \<and> t \<le> 45 then Get_Instrument (t - 41)
      else if 46 \<le> t \<and> t \<le> 50 then Get_Gun (t - 46)
      else if t = 52 \<or> t = 53 then Upgrade_Guns (t - 51)
      else if t = 54 then Raise_Belt else if t = 55 then Upgrade_Instruments else No_Op)"

fun effect_op :: "ap_item_effect \<Rightarrow> inventory_op" where
  "effect_op (Effect kind arg0 arg1) =
     (case kind of
        AP_EFFECT_FLAG \<Rightarrow> Set_Flag (unat arg1) (if arg1 = 671 then 1 else 0)
          (if 962 \<le> arg1 \<and> arg1 \<le> 965 then bit8 (unat arg1 - 962) else 0)
      | AP_EFFECT_KONG \<Rightarrow> Free_Kong (unat arg0)
      | AP_EFFECT_KEY \<Rightarrow> Get_Key (unat arg0)
      | AP_EFFECT_ABILITY \<Rightarrow> Get_Ability arg0
      | AP_EFFECT_SPECIAL \<Rightarrow> Get_Special arg0
      | AP_EFFECT_HINT \<Rightarrow> Get_Hint (unat arg0) (unat arg1)
      | AP_EFFECT_BLUEPRINT \<Rightarrow> Add_Blueprint (unat arg0)
      | AP_EFFECT_FAIRY \<Rightarrow> Add_Fairy | AP_EFFECT_CROWN \<Rightarrow> Add_Crown | AP_EFFECT_MEDAL \<Rightarrow> Add_Medal
      | AP_EFFECT_PEARL \<Rightarrow> Add_Pearl | AP_EFFECT_RAINBOW \<Rightarrow> Add_Rainbow | AP_EFFECT_JUNK \<Rightarrow> Add_Junk
      | AP_EFFECT_TRAP \<Rightarrow> Add_Trap (unat arg0)
      | AP_EFFECT_TRANSFER \<Rightarrow> transfer_op (unat arg0)
      | _ \<Rightarrow> No_Op)"

text \<open>The climbing byte is only ever zero or one, where the assignment and the OR agree.\<close>

definition climbing_ok :: "ap_campaign_inventory \<Rightarrow> bool" where
  "climbing_ok i \<longleftrightarrow> climbing i = 0 \<or> climbing i = 1"

lemma run_op_climbing: "c = 0 \<or> c = 1 \<Longrightarrow> climbing_ok i \<Longrightarrow> climbing_ok (run_op (Set_Flag n c s) i)"
  by (auto simp: climbing_ok_def)

lemma climbing_transfer: "climbing (run_op (transfer_op t) i) = climbing i"
  by (simp add: transfer_op_def)

lemma apply_transfer_op: "apply_transfer i t = run_op (transfer_op t) i"
  unfolding apply_transfer_def transfer_op_def if_distrib [of "\<lambda>p. run_op p i"] run_op.simps Let_def
  by (rule refl)

lemma apply_flag_op:
  assumes "climbing_ok i"
  shows "apply_effect (Effect AP_EFFECT_FLAG a0 n) i = run_op (effect_op (Effect AP_EFFECT_FLAG a0 n)) i"
proof (cases "n = 671")
  case True
  with assms show ?thesis by (auto simp: Let_def climbing_ok_def)
next
  case False
  define shop where "shop \<longleftrightarrow> 962 \<le> n \<and> n \<le> 965"
  define b where "b = unat n"
  show ?thesis
    unfolding apply_effect.simps effect_op.simps ap_effect_kind.case Let_def run_op.simps
      shop_def [symmetric] b_def [symmetric]
    using False by (cases shop) simp_all
qed

lemma apply_effect_op:
  assumes "climbing_ok i" shows "apply_effect e i = run_op (effect_op e) i"
proof (cases e)
  case (Effect kind a0 a1)
  show ?thesis
  proof (cases "kind = AP_EFFECT_FLAG")
    case True
    with Effect apply_flag_op [OF assms] show ?thesis by (simp only:)
  next
    case False
    with Effect show ?thesis by (cases kind) (simp_all add: apply_transfer_op)
  qed
qed

lemma climbing_ok_effect: "climbing_ok i \<Longrightarrow> climbing_ok (apply_effect e i)"
  by (cases e; cases "eff_kind e") (simp_all add: apply_transfer_op climbing_transfer Let_def climbing_ok_def)

lemma modify_commute:
  "(\<And>x. f (g x) = g (f x)) \<Longrightarrow> modify i f (modify j g xs) = modify j g (modify i f xs)"
  by (cases "i < length xs"; cases "j < length xs"; cases "i = j")
    (simp_all add: modify_def list_update_swap list_update_beyond)

lemma modify_map_commute:
  "(\<And>x. f (g x) = g (f x)) \<Longrightarrow> map g (modify i f xs) = modify i f (map g xs)"
  by (cases "i < length xs") (simp_all add: modify_def map_update list_update_beyond)

lemma or_commute: "(x OR a) OR b = (x OR b) OR (a :: 'a::len word)"
  by (simp add: ac_simps)

lemma run_op_commute: "run_op p (run_op q i) = run_op q (run_op p i)"
  by (cases i; cases p; cases q) (simp_all add: modify_commute modify_map_commute or_commute)

section \<open>Catalog lookups\<close>

lemma find_item_Some:
  "find_item iid = Some d \<longleftrightarrow> (\<exists>i < AP_ITEM_COUNT. ap_item_effects ! i = d \<and> item_id d = iid)"
proof
  assume "find_item iid = Some d"
  then show "\<exists>i < AP_ITEM_COUNT. ap_item_effects ! i = d \<and> item_id d = iid"
    by (auto simp: find_item_def Let_def split: if_splits)
next
  assume "\<exists>i < AP_ITEM_COUNT. ap_item_effects ! i = d \<and> item_id d = iid"
  then obtain i where "i < AP_ITEM_COUNT" "ap_item_effects ! i = d" "item_id d = iid" by blast
  with items.search_index [of i] show "find_item iid = Some d"
    by (auto simp: find_item_def Let_def)
qed

lemma find_item_iff: "find_item iid \<noteq> None \<longleftrightarrow> iid \<in> item_id ` set ap_item_effects"
proof -
  have "iid \<in> item_id ` set ap_item_effects \<longleftrightarrow> (\<exists>i < AP_ITEM_COUNT. item_id (ap_item_effects ! i) = iid)"
    by (force simp: in_set_conv_nth image_iff)
  with items.search_found [of iid] show ?thesis by (simp add: find_item_def Let_def)
qed

lemma find_item_mem: "find_item iid = Some d \<Longrightarrow> d \<in> set ap_item_effects \<and> item_id d = iid"
  by (auto simp: find_item_Some)

text \<open>Every entry of the generated item table passes the validation.\<close>

lemma catalog_effects_valid: "\<forall>d \<in> set ap_item_effects. list_all effect_valid (item_effects d)"
  by (simp add: ap_item_effects_def ap_item_effects_parts item_effects_def)

lemma effects_check_valid:
  "list_all effect_valid es \<Longrightarrow> effects_check es = c_bool (AP_EFFECT_UNSUPPORTED \<notin> eff_kind ` set es)"
  by (induction es) auto

definition item_supported :: "u32 \<Rightarrow> bool" where
  "item_supported iid \<longleftrightarrow>
     (case find_item iid of None \<Rightarrow> False | Some d \<Rightarrow> AP_EFFECT_UNSUPPORTED \<notin> eff_kind ` set (item_effects d))"

text \<open>The operations an item stands for.\<close>

definition item_ops :: "u32 \<Rightarrow> inventory_op list" where
  "item_ops iid = (case find_item iid of None \<Rightarrow> [] | Some d \<Rightarrow> map effect_op (item_effects d))"

definition receipt_ops :: "u32 list \<Rightarrow> inventory_op list" where
  "receipt_ops ids = concat (map item_ops ids)"

lemma fold_apply_effect:
  "climbing_ok i \<Longrightarrow> fold apply_effect es i = fold run_op (map effect_op es) i"
  by (induction es arbitrary: i) (simp_all add: apply_effect_op [symmetric] climbing_ok_effect)

lemma fold_climbing_ok: "climbing_ok i \<Longrightarrow> climbing_ok (fold apply_effect es i)"
  by (induction es arbitrary: i) (simp_all add: climbing_ok_effect)

text \<open>
  C3: adding a received item never reports a corrupt table: the result is minus one exactly for an
  id that is not in the catalog, zero exactly for a catalogued item with an unsupported effect,
  and the inventory is left alone in both cases.
\<close>

theorem inventory_add_results:
  "ap_campaign_inventory_add (Ptr a i) iid =
     (if iid \<notin> item_id ` set ap_item_effects then (- 1, Ptr a i)
      else if \<not> item_supported iid then (0, Ptr a i)
      else (1, Ptr a (fold apply_effect (item_effects (the (find_item iid))) i)))"
proof (cases "find_item iid")
  case None
  then show ?thesis using find_item_iff [of iid] by (simp add: ap_campaign_inventory_add_def)
next
  case (Some d)
  with find_item_mem catalog_effects_valid have "list_all effect_valid (item_effects d)" by blast
  with Some find_item_iff [of iid] show ?thesis
    by (simp add: ap_campaign_inventory_add_def effects_check_valid item_supported_def Let_def)
qed

lemma inventory_add_iff:
  "climbing_ok i \<Longrightarrow> ap_campaign_inventory_add (Ptr a i) iid = (1, q) \<longleftrightarrow>
     item_supported iid \<and> q = Ptr a (fold run_op (item_ops iid) i)"
  unfolding inventory_add_results
  by (auto simp: item_supported_def item_ops_def fold_apply_effect find_item_mem
      dest: find_item_mem split: option.splits)

lemma inventory_add_result_iff:
  "fst (ap_campaign_inventory_add (Ptr a i) iid) = 1 \<longleftrightarrow> item_supported iid"
  unfolding inventory_add_results
  by (auto simp: item_supported_def dest: find_item_mem split: option.splits)

lemma climbing_ok_ops: "climbing_ok i \<Longrightarrow> climbing_ok (fold run_op (item_ops iid) i)"
  by (auto simp: item_ops_def fold_apply_effect [symmetric] fold_climbing_ok split: option.split)

lemma rebuild_loop_eq:
  "climbing_ok i \<Longrightarrow> list_all item_supported ids \<Longrightarrow>
     rebuild_loop i ids = (1, fold run_op (receipt_ops ids) i)"
proof (induction ids arbitrary: i)
  case (Cons iid ids)
  then have "ap_campaign_inventory_add (Ptr 0 i) iid = (1, Ptr 0 (fold run_op (item_ops iid) i))"
    by (simp add: inventory_add_iff)
  with Cons show ?case by (simp add: climbing_ok_ops receipt_ops_def)
qed (simp add: receipt_ops_def)

lemma rebuild_loop_1:
  "fst (rebuild_loop i ids) = 1 \<longleftrightarrow> list_all item_supported ids"
proof (induction ids arbitrary: i)
  case (Cons iid ids)
  then show ?case
    using inventory_add_result_iff [of 0 i iid]
    by (cases "ap_campaign_inventory_add (Ptr 0 i) iid") auto
qed simp

lemma climbing_ok_zero [simp]: "climbing_ok zero_inventory"
  by (simp add: climbing_ok_def zero_inventory_def)

definition inventory_of :: "u32 list \<Rightarrow> ap_campaign_inventory" where
  "inventory_of ids = fold run_op (receipt_ops ids) zero_inventory"

text \<open>A rebuild succeeds exactly on a supported prefix, with the replay as its result.\<close>

lemma rebuild_iff:
  assumes "length ids = unat n"
  shows "ap_campaign_inventory_rebuild (Ptr a x) (Ptr b ids) n = (1, q) \<longleftrightarrow>
     n \<le> 65535 \<and> list_all item_supported ids \<and> q = Ptr a (inventory_of ids)"
proof -
  have "n > 65535 \<longleftrightarrow> \<not> n \<le> 65535" by auto
  with assms show ?thesis
    using rebuild_loop_1 [of zero_inventory ids] rebuild_loop_eq [OF climbing_ok_zero, of ids]
    by (cases "rebuild_loop zero_inventory ids")
      (auto simp: ap_campaign_inventory_rebuild_def inventory_of_def)
qed

lemma inventory_of_append: "inventory_of (ids @ [x]) = fold run_op (item_ops x) (inventory_of ids)"
  by (simp add: inventory_of_def receipt_ops_def)

lemma climbing_ok_inventory_of [simp]: "climbing_ok (inventory_of ids)"
  by (induction ids rule: rev_induct)
    (simp_all add: inventory_of_append climbing_ok_ops, simp add: inventory_of_def receipt_ops_def)

section \<open>Order of receipts\<close>

lemma fold_run_op_mset: "mset ps = mset qs \<Longrightarrow> fold run_op ps i = fold run_op qs i"
  by (rule fun_cong [OF fold_multiset_equiv]) (auto simp: fun_eq_iff run_op_commute)

lemma mset_receipt_ops: "mset ids = mset ids' \<Longrightarrow> mset (receipt_ops ids) = mset (receipt_ops ids')"
proof -
  have "mset (receipt_ops ids) = sum_mset (image_mset (\<lambda>x. mset (item_ops x)) (mset ids))" for ids
    by (induction ids) (simp_all add: receipt_ops_def)
  then show "mset ids = mset ids' \<Longrightarrow> mset (receipt_ops ids) = mset (receipt_ops ids')" by simp
qed

text \<open>
  a rebuild does not depend on the order in which the receipts arrived: permuting a receipt
  prefix rebuilds the same inventory.
\<close>

theorem rebuild_order_irrelevant:
  assumes "mset xs = mset ys" and "length xs = unat n"
    and "ap_campaign_inventory_rebuild (Ptr o1 i0) (Ptr a xs) n = (1, q)"
  shows "ap_campaign_inventory_rebuild (Ptr o1 i0) (Ptr b ys) n = (1, q)"
proof -
  from assms(1,2) have len: "length ys = unat n" by (metis size_mset)
  from assms(2,3) have *: "n \<le> 65535" "list_all item_supported xs" "q = Ptr o1 (inventory_of xs)"
    by (simp_all add: rebuild_iff)
  from *(2) mset_eq_setD [OF assms(1)] have "list_all item_supported ys" by (simp add: list_all_iff)
  moreover have "inventory_of ys = inventory_of xs"
    using fold_run_op_mset [OF mset_receipt_ops [OF assms(1)]] by (simp add: inventory_of_def)
  ultimately show ?thesis using * len by (simp add: rebuild_iff)
qed

lemma find_item_nth:
  "ap_item_effects ! i = d \<Longrightarrow> i < AP_ITEM_COUNT \<Longrightarrow> item_id d = iid \<Longrightarrow> find_item iid = Some d"
  by (auto simp: find_item_Some)

theorem rebuild_order_irrelevant_witness:
  "ap_campaign_inventory_rebuild (Ptr 0 zero_inventory) (Ptr 0 [14041092, 14041091]) 2 =
     (1, Ptr 0 (zero_inventory\<lparr>kongs := 3\<rparr>))"
proof (rule rebuild_order_irrelevant)
  have look: "find_item 14041091 = Some (Item 14041091 (Effect AP_EFFECT_KONG 0 0) no_effect)"
    "find_item 14041092 = Some (Item 14041092 (Effect AP_EFFECT_KONG 1 0) no_effect)"
    by (rule find_item_nth [of 3]; simp add: ap_item_effects_def ap_item_effects_1_def)
      (rule find_item_nth [of 4]; simp add: ap_item_effects_def ap_item_effects_1_def)
  show "ap_campaign_inventory_rebuild (Ptr 0 zero_inventory) (Ptr 0 [14041091, 14041092]) 2 =
      (1, Ptr 0 (zero_inventory\<lparr>kongs := 3\<rparr>))"
    by (simp add: ap_campaign_inventory_rebuild_def ap_campaign_inventory_add_def look item_effects_def
        Let_def bit8_def zero_inventory_def)
qed simp_all

section \<open>What a rebuilt inventory contains\<close>

text \<open>How often the receipts carry an operation.\<close>

definition received :: "inventory_op \<Rightarrow> u32 list \<Rightarrow> nat" where
  "received p ids = count_list (receipt_ops ids) p"

lemma length_receipt_ops: "length (receipt_ops ids) \<le> 2 * length ids"
  by (induction ids) (auto simp: receipt_ops_def item_ops_def item_effects_def split: option.split)

lemma unat_increment: "unat (increment v) = min 4294967295 (unat v + 1)"
  using u32_less [of v]
  by (auto simp: increment_def unat_word_ariths word_unat_eq_iff)

lemma unat_capped_increment: "unat (capped_increment v c) = (if v < c then unat v + 1 else unat v)"
proof -
  have "v < c \<Longrightarrow> unat v + 1 < 256" using u8_less [of c] by (simp add: word_less_nat_alt)
  then show ?thesis by (auto simp: capped_increment_def unat_word_ariths)
qed

text \<open>A counter that only one operation raises counts that operation, up to its cap.\<close>

lemma counter_fold:
  fixes f :: "ap_campaign_inventory \<Rightarrow> nat"
  assumes step: "\<And>q i. f (run_op q i) = (if q = p then min cap (f i + 1) else f i)"
    and start: "f i \<le> cap"
  shows "f (fold run_op ops i) = min cap (f i + count_list ops p)"
  using start by (induction ops arbitrary: i) (auto simp: step min_def)

lemma counter_cap3: "unat v \<le> 3 \<Longrightarrow> unat (capped_increment v 3) = min 3 (unat v + 1)"
  by (simp add: unat_capped_increment word_less_nat_alt min_def)

lemma set_bit_fold:
  assumes step: "\<And>q i. P (run_op q i) \<longleftrightarrow> P i \<or> Q q"
  shows "P (fold run_op ops i) \<longleftrightarrow> P i \<or> (\<exists>q \<in> set ops. Q q)"
  by (induction ops arbitrary: i) (auto simp: step)

lemma bit_bit8 [simp]: "bit (bit8 b) k \<longleftrightarrow> b = k \<and> k < 8"
  by (auto simp: bit8_def bit_exp_iff possible_bit_word)

lemma flag_fold:
  assumes "f < 992"
  shows "length (flags i) = 31 \<Longrightarrow>
    length (flags (fold run_op ops i)) = 31 \<and>
    (bit (flags (fold run_op ops i) ! (f div 32)) (f mod 32) \<longleftrightarrow>
     bit (flags i ! (f div 32)) (f mod 32) \<or> (\<exists>c s. Set_Flag f c s \<in> set ops))"
proof (induction ops arbitrary: i)
  case (Cons q ops)
  have "length (flags (run_op q i)) = 31 \<and>
    (bit (flags (run_op q i) ! (f div 32)) (f mod 32) \<longleftrightarrow>
     bit (flags i ! (f div 32)) (f mod 32) \<or> (\<exists>c s. Set_Flag f c s = q))"
  proof (cases q)
    case (Set_Flag n c s)
    have "n = f \<longleftrightarrow> n div 32 = f div 32 \<and> n mod 32 = f mod 32" by (metis div_mult_mod_eq)
    with Set_Flag Cons.prems assms show ?thesis
      by (cases "n div 32 = f div 32") (auto simp: modify_def bit_or_iff)
  qed (use Cons.prems in auto)
  with Cons.IH [of "run_op q i"] show ?case by auto
qed simp

lemma received_le: "length ids \<le> 65535 \<Longrightarrow> received p ids \<le> 131070"
  using count_le_length [of "receipt_ops ids" p] length_receipt_ops [of ids] by (simp add: received_def)

lemma inventory_of_counter:
  fixes g :: "ap_campaign_inventory \<Rightarrow> u32"
  assumes "\<And>q i. g (run_op q i) = (if q = p then increment (g i) else g i)"
    and "g zero_inventory = 0" and "length ids \<le> 65535"
  shows "unat (g (inventory_of ids)) = received p ids"
proof -
  have "unat (g (inventory_of ids)) = min 4294967295 (unat (g zero_inventory) + received p ids)"
    unfolding inventory_of_def received_def
    by (rule counter_fold) (simp_all add: assms unat_increment)
  with received_le [OF assms(3), of p] show ?thesis by (simp add: assms(2))
qed

lemma inventory_of_capped:
  fixes g :: "ap_campaign_inventory \<Rightarrow> u8"
  assumes "\<And>q i. g (run_op q i) = (if q = p then capped_increment (g i) c else g i)"
    and "g zero_inventory = 0"
  shows "unat (g (inventory_of ids)) = min (unat c) (received p ids)"
proof -
  have step: "min (unat c) (unat (capped_increment v c)) = min (unat c) (min (unat c) (unat v) + 1)" for v
    by (auto simp: unat_capped_increment word_less_nat_alt)
  have "min (unat c) (unat (g (inventory_of ids)))
      = min (unat c) (min (unat c) (unat (g zero_inventory)) + received p ids)"
    unfolding inventory_of_def received_def
    by (rule counter_fold [where f = "\<lambda>i. min (unat c) (unat (g i))"]) (simp_all add: assms step)
  moreover have "g (fold run_op ops i) \<le> c" if "g i \<le> c" for ops i
    using that
  proof (induction ops arbitrary: i)
    case (Cons q ops)
    then have "g (run_op q i) \<le> c"
      by (auto simp: assms(1) word_le_nat_alt unat_capped_increment word_less_nat_alt)
    then show ?case using Cons.IH by simp
  qed simp
  ultimately show ?thesis
    using assms(2) by (simp add: inventory_of_def word_le_nat_alt min_absorb2)
qed

lemma inventory_of_bit:
  fixes g :: "ap_campaign_inventory \<Rightarrow> u8"
  assumes "\<And>q i. bit (g (run_op q i)) k \<longleftrightarrow> bit (g i) k \<or> q = p" and "g zero_inventory = 0"
  shows "bit (g (inventory_of ids)) k \<longleftrightarrow> 0 < received p ids"
proof -
  have "bit (g (fold run_op (receipt_ops ids) zero_inventory)) k \<longleftrightarrow>
      bit (g zero_inventory) k \<or> (\<exists>q \<in> set (receipt_ops ids). q = p)"
    by (rule set_bit_fold) (rule assms(1))
  then show ?thesis using count_list_0_iff [of "receipt_ops ids" p]
    by (auto simp: inventory_of_def received_def assms(2))
qed

lemma field_zero [simp]:
  "golden_bananas zero_inventory = 0" "fairies zero_inventory = 0" "crowns zero_inventory = 0"
  "medals zero_inventory = 0" "pearls zero_inventory = 0" "rainbow_coins zero_inventory = 0"
  "junk zero_inventory = 0" "slam zero_inventory = 0" "belt zero_inventory = 0"
  "instrument_upgrades zero_inventory = 0" "kongs zero_inventory = 0" "keys zero_inventory = 0"
  "flags zero_inventory = replicate 31 0"
  by (simp_all add: zero_inventory_def)

lemma field_step:
  "golden_bananas (run_op q i) = (if q = Add_Banana then increment (golden_bananas i) else golden_bananas i)"
  "fairies (run_op q i) = (if q = Add_Fairy then increment (fairies i) else fairies i)"
  "crowns (run_op q i) = (if q = Add_Crown then increment (crowns i) else crowns i)"
  "medals (run_op q i) = (if q = Add_Medal then increment (medals i) else medals i)"
  "pearls (run_op q i) = (if q = Add_Pearl then increment (pearls i) else pearls i)"
  "rainbow_coins (run_op q i) = (if q = Add_Rainbow then increment (rainbow_coins i) else rainbow_coins i)"
  "junk (run_op q i) = (if q = Add_Junk then increment (junk i) else junk i)"
  "slam (run_op q i) = (if q = Raise_Slam then capped_increment (slam i) 3 else slam i)"
  "belt (run_op q i) = (if q = Raise_Belt then capped_increment (belt i) 2 else belt i)"
  "instrument_upgrades (run_op q i) = (if q = Upgrade_Instruments
     then capped_increment (instrument_upgrades i) 3 else instrument_upgrades i)"
  by (cases q; simp)+

lemma bit_step:
  "k < 8 \<Longrightarrow> bit (kongs (run_op q i)) k \<longleftrightarrow> bit (kongs i) k \<or> q = Free_Kong k"
  "k < 8 \<Longrightarrow> bit (keys (run_op q i)) k \<longleftrightarrow> bit (keys i) k \<or> q = Get_Key k"
  by (cases q; auto simp: bit_or_iff)+

text \<open>
  the functional meaning of a rebuild: every counter is the number of receipts of its kind
  (capped where the game caps it), Kongs and keys are owned exactly when received, and a flag is
  set exactly when a receipt carries it.
\<close>

theorem rebuild_contents:
  assumes "length ids = unat n"
    and "ap_campaign_inventory_rebuild (Ptr o1 i0) (Ptr a ids) n = (1, Ptr o1 i)"
  shows "unat (golden_bananas i) = received Add_Banana ids \<and> unat (fairies i) = received Add_Fairy ids \<and>
    unat (crowns i) = received Add_Crown ids \<and> unat (medals i) = received Add_Medal ids \<and>
    unat (pearls i) = received Add_Pearl ids \<and> unat (rainbow_coins i) = received Add_Rainbow ids \<and>
    unat (junk i) = received Add_Junk ids \<and> unat (slam i) = min 3 (received Raise_Slam ids) \<and>
    unat (belt i) = min 2 (received Raise_Belt ids) \<and>
    unat (instrument_upgrades i) = min 3 (received Upgrade_Instruments ids) \<and>
    (\<forall>k < 8. bit (kongs i) k \<longleftrightarrow> 0 < received (Free_Kong k) ids) \<and>
    (\<forall>k < 8. bit (keys i) k \<longleftrightarrow> 0 < received (Get_Key k) ids) \<and>
    (\<forall>f < 992. ap_campaign_inventory_has_flag (Ptr o1 i) (word_of_nat f) = 1 \<longleftrightarrow>
       (\<exists>c s. Set_Flag f c s \<in> set (receipt_ops ids)))"
proof -
  from assms have i: "i = inventory_of ids" and n: "n \<le> 65535" by (simp_all add: rebuild_iff)
  from n assms(1) have len: "length ids \<le> 65535" by (simp add: word_le_nat_alt)
  have flag: "ap_campaign_inventory_has_flag (Ptr o1 i) (word_of_nat f) = 1 \<longleftrightarrow>
      (\<exists>c s. Set_Flag f c s \<in> set (receipt_ops ids))" if "f < 992" for f
    using flag_fold [OF that, of zero_inventory "receipt_ops ids"] that
    by (simp add: ap_campaign_inventory_has_flag_def and_bit32 i inventory_of_def unat_of_nat)
  note counts = inventory_of_counter [OF field_step(1) _ len] inventory_of_counter [OF field_step(2) _ len]
    inventory_of_counter [OF field_step(3) _ len] inventory_of_counter [OF field_step(4) _ len]
    inventory_of_counter [OF field_step(5) _ len] inventory_of_counter [OF field_step(6) _ len]
    inventory_of_counter [OF field_step(7) _ len] inventory_of_capped [OF field_step(8)]
    inventory_of_capped [OF field_step(9)] inventory_of_capped [OF field_step(10)]
  show ?thesis
    unfolding i using flag [unfolded i] inventory_of_bit [OF bit_step(1)] inventory_of_bit [OF bit_step(2)]
    by (simp add: counts)
qed

lemma example_rebuild:
  "ap_campaign_inventory_rebuild (Ptr 0 zero_inventory) (Ptr 0 [14041091, 14041092]) 2 =
     (1, Ptr 0 (zero_inventory\<lparr>kongs := 3\<rparr>))"
proof -
  have look: "find_item 14041091 = Some (Item 14041091 (Effect AP_EFFECT_KONG 0 0) no_effect)"
    "find_item 14041092 = Some (Item 14041092 (Effect AP_EFFECT_KONG 1 0) no_effect)"
    by (rule find_item_nth [of 3]; simp add: ap_item_effects_def ap_item_effects_1_def)
      (rule find_item_nth [of 4]; simp add: ap_item_effects_def ap_item_effects_1_def)
  show ?thesis
    by (simp add: ap_campaign_inventory_rebuild_def ap_campaign_inventory_add_def look item_effects_def
        Let_def bit8_def zero_inventory_def)
qed

theorem rebuild_contents_witness:
  "bit (kongs (zero_inventory\<lparr>kongs := 3\<rparr>)) 1 \<longleftrightarrow> 0 < received (Free_Kong 1) [14041091, 14041092]"
proof -
  have "\<forall>k < 8. bit (kongs (zero_inventory\<lparr>kongs := 3\<rparr>)) k \<longleftrightarrow> 0 < received (Free_Kong k) [14041091, 14041092]"
    using rebuild_contents [OF _ example_rebuild] by simp
  then have "(1 :: nat) < 8 \<longrightarrow> bit (kongs (zero_inventory\<lparr>kongs := 3\<rparr>)) 1 \<longleftrightarrow>
      0 < received (Free_Kong 1) [14041091, 14041092]" by (rule spec)
  then show ?thesis by (rule mp) simp
qed

section \<open>The invariant of derived inventories\<close>

definition bits_in :: "'a::len word \<Rightarrow> 'a word \<Rightarrow> bool" where
  "bits_in m w \<longleftrightarrow> w AND NOT m = 0"

lemma bits_in_or [simp]: "bits_in m (a OR b) \<longleftrightarrow> bits_in m a \<and> bits_in m b"
  by (simp add: bits_in_def bit.conj_disj_distrib2 or_eq_0_iff)

lemma bits_in_zero [simp]: "bits_in m 0"
  by (simp add: bits_in_def)

text \<open>Array indices and shift amounts of an operation are in range.\<close>

fun op_ok :: "inventory_op \<Rightarrow> bool" where
  "op_ok (Learn_Move k b) \<longleftrightarrow> k < 5 \<and> b < 3"
| "op_ok (Get_Instrument k) \<longleftrightarrow> k < 5"
| "op_ok (Get_Gun k) \<longleftrightarrow> k < 5"
| "op_ok (Upgrade_Guns b) \<longleftrightarrow> b = 1 \<or> b = 2"
| "op_ok (Set_Flag n c s) \<longleftrightarrow> n < 992 \<and> c = (if n = 671 then 1 else 0) \<and>
     s = (if 962 \<le> n \<and> n \<le> 965 then bit8 (n - 962) else 0)"
| "op_ok (Free_Kong b) \<longleftrightarrow> b < 5"
| "op_ok (Get_Key b) \<longleftrightarrow> b < 8"
| "op_ok (Get_Ability b) \<longleftrightarrow> b AND 3 = 0"
| "op_ok (Get_Special b) \<longleftrightarrow> bits_in 7 b"
| "op_ok (Get_Hint k b) \<longleftrightarrow> k < 5 \<and> b < 8"
| "op_ok (Add_Blueprint k) \<longleftrightarrow> k < 5"
| "op_ok (Add_Trap n) \<longleftrightarrow> n < 16"
| "op_ok _ \<longleftrightarrow> True"

lemma transfer_op_ok: "op_ok (transfer_op t)"
  by (auto simp: transfer_op_def)

lemma flag_op_ok:
  assumes "unat n < 992"
  shows "op_ok (effect_op (Effect AP_EFFECT_FLAG a n))"
proof -
  have "unat n = 671 \<longleftrightarrow> n = 671" by (simp add: word_unat_eq_iff)
  with assms show ?thesis by (auto simp: word_le_nat_alt)
qed

lemma effect_op_ok: "effect_valid e \<Longrightarrow> op_ok (effect_op e)"
proof (cases e)
  case (Effect kind a0 a1)
  assume "effect_valid e"
  show ?thesis
  proof (cases "kind = AP_EFFECT_FLAG")
    case True
    with Effect \<open>effect_valid e\<close> flag_op_ok [of a1 a0] show ?thesis by simp
  next
    case False
    with Effect \<open>effect_valid e\<close> show ?thesis
      by (cases kind) (simp_all add: transfer_op_ok word_less_nat_alt bits_in_def)
  qed
qed

lemma item_ops_ok: "\<forall>p \<in> set (item_ops iid). op_ok p"
proof (cases "find_item iid")
  case (Some d)
  then have "list_all effect_valid (item_effects d)"
    using find_item_mem catalog_effects_valid by blast
  with Some show ?thesis by (auto simp: item_ops_def list_all_iff intro: effect_op_ok)
qed (simp add: item_ops_def)

lemma receipt_ops_ok: "\<forall>p \<in> set (receipt_ops ids). op_ok p"
  using item_ops_ok by (auto simp: receipt_ops_def)


definition has_flag :: "ap_campaign_inventory \<Rightarrow> nat \<Rightarrow> bool" where
  "has_flag i f \<longleftrightarrow> bit (flags i ! (f div 32)) (f mod 32)"

text \<open>The two gun upgrades are shared by all Kongs.\<close>

definition guns_agree :: "u8 list \<Rightarrow> bool" where
  "guns_agree gs \<longleftrightarrow> (\<exists>u. list_all (\<lambda>g. g AND 6 = u) gs)"

definition inventory_wf :: "ap_campaign_inventory \<Rightarrow> bool" where
  "inventory_wf i \<longleftrightarrow>
     length (moves i) = 5 \<and> list_all (bits_in 7) (moves i) \<and>
     length (guns i) = 5 \<and> list_all (bits_in 7) (guns i) \<and>
     guns_agree (guns i) \<and>
     length (instruments i) = 5 \<and>
     list_all (\<lambda>m. m AND NOT 1 = upgrade_mask (instrument_upgrades i)) (instruments i) \<and>
     instrument_upgrades i \<le> 3 \<and> slam i \<le> 3 \<and> belt i \<le> 2 \<and>
     length (hints i) = 5 \<and> length (blueprints i) = 5 \<and> list_all (\<lambda>b. b \<le> 8) (blueprints i) \<and>
     bits_in 31 (kongs i) \<and> bits_in 7 (special i) \<and> abilities i AND 3 = 0 \<and>
     inv_reserved i = [0, 0] \<and> length (traps i) = 16 \<and> length (flags i) = 31 \<and>
     climbing i = (if has_flag i 671 then 1 else 0) \<and>
     bits_in 15 (shopkeepers i) \<and> (\<forall>k < 4. bit (shopkeepers i) k = has_flag i (962 + k))"

lemma modify_length [simp]: "length (modify i f xs) = length xs"
  by (simp add: modify_def)

lemma nth_modify: "k < length xs \<Longrightarrow> modify i f xs ! k = (if k = i then f (xs ! i) else xs ! k)"
  by (auto simp: modify_def)

lemma list_all_modify:
  "list_all P xs \<Longrightarrow> (i < length xs \<Longrightarrow> P (xs ! i) \<Longrightarrow> P (f (xs ! i))) \<Longrightarrow> list_all P (modify i f xs)"
  by (auto simp: list_all_length nth_modify)

lemma bits_in_7_small: "b < 3 \<Longrightarrow> bits_in 7 (bit8 b)"
proof -
  assume "b < 3"
  then consider "b = 0" | "b = 1" | "b = 2" by linarith
  then show ?thesis by cases (simp_all add: bits_in_def bit8_def)
qed

lemma bits_in_31_kong: "b < 5 \<Longrightarrow> bits_in 31 (bit8 b)"
proof -
  assume "b < 5"
  then consider "b = 0" | "b = 1" | "b = 2" | "b = 3" | "b = 4" by linarith
  then show ?thesis by cases (simp_all add: bits_in_def bit8_def)
qed

lemma upgrade_mask_values:
  "upgrade_mask 0 = 0" "upgrade_mask 1 = 2" "upgrade_mask 2 = 6" "upgrade_mask 3 = 14"
  by (simp_all add: upgrade_mask_def)

lemma u8_le_3: "(n :: u8) \<le> 3 \<Longrightarrow> n = 0 \<or> n = 1 \<or> n = 2 \<or> n = 3"
proof -
  assume "n \<le> 3"
  then have "unat n \<le> 3" by (simp add: word_le_nat_alt)
  then have "unat n = 0 \<or> unat n = 1 \<or> unat n = 2 \<or> unat n = 3" by linarith
  then show ?thesis by (auto simp: word_unat_eq_iff)
qed

lemma capped_le: "v \<le> c \<Longrightarrow> capped_increment v c \<le> c"
  by (auto simp: word_le_nat_alt unat_capped_increment word_less_nat_alt)

lemma upgrade_step:
  assumes "n \<le> 3" "m AND NOT 1 = upgrade_mask n"
  shows "(m OR upgrade_mask (capped_increment n 3)) AND NOT 1 = upgrade_mask (capped_increment n 3)"
proof -
  have "(m OR u) AND NOT 1 = (m AND NOT 1) OR (u AND NOT 1)" for u
    by (simp add: bit.conj_disj_distrib2)
  with assms u8_le_3 [OF assms(1)] show ?thesis
    by (elim disjE) (simp_all add: capped_increment_def upgrade_mask_values)
qed

lemma has_flag_set:
  assumes "length (flags i) = 31" "f < 992" "n < 992"
  shows "has_flag (run_op (Set_Flag n c s) i) f \<longleftrightarrow> has_flag i f \<or> f = n"
proof -
  have "n = f \<longleftrightarrow> n div 32 = f div 32 \<and> n mod 32 = f mod 32" by (metis div_mult_mod_eq)
  with assms show ?thesis
    by (cases "n div 32 = f div 32") (auto simp: has_flag_def modify_def bit_or_iff)
qed

lemma has_flag_other: "(\<And>n c s. p \<noteq> Set_Flag n c s) \<Longrightarrow> has_flag (run_op p i) = has_flag i"
  by (cases p) (auto simp: has_flag_def fun_eq_iff)

lemma or_commute_and: "(a OR b) AND (c :: 'a::len word) = (a AND c) OR (b AND c)"
  by (simp add: bit.conj_disj_distrib2)

lemma run_flag_wf:
  assumes wf: "inventory_wf i" and ok: "op_ok (Set_Flag n c s)"
  shows "inventory_wf (run_op (Set_Flag n c s) i)"
proof -
  let ?j = "run_op (Set_Flag n c s) i"
  from ok have n: "n < 992" and c: "c = (if n = 671 then 1 else 0)"
    and s: "s = (if 962 \<le> n \<and> n \<le> 965 then bit8 (n - 962) else 0)" by simp_all
  from wf have len: "length (flags i) = 31" by (simp add: inventory_wf_def)
  have flag: "has_flag ?j f \<longleftrightarrow> has_flag i f \<or> f = n" if "f < 992" for f
    using has_flag_set [OF len that n] .
  have "has_flag ?j 671 \<longleftrightarrow> has_flag i 671 \<or> 671 = n" by (rule flag) simp
  then have climb: "climbing ?j = (if has_flag ?j 671 then 1 else 0)"
    using wf c by (auto simp: inventory_wf_def simp del: split_paired_All)
  have "bits_in 15 s"
  proof (cases "962 \<le> n \<and> n \<le> 965")
    case True
    then consider "n = 962" | "n = 963" | "n = 964" | "n = 965" by linarith
    then show ?thesis using s by cases (simp_all add: bits_in_def bit8_def)
  next
    case False
    with s have "s = 0" by simp
    then show ?thesis by simp
  qed
  with wf have shop_in: "bits_in 15 (shopkeepers ?j)" by (simp add: inventory_wf_def)
  have shop: "bit (shopkeepers ?j) k = has_flag ?j (962 + k)" if "k < 4" for k
    using flag [of "962 + k"] that wf s by (auto simp: inventory_wf_def bit_or_iff)
  show ?thesis
    using wf climb shop_in shop unfolding inventory_wf_def by simp
qed

lemma guns_agree_modify: "guns_agree gs \<Longrightarrow> guns_agree (modify k (\<lambda>m. m OR 1) gs)"
  unfolding guns_agree_def by (elim exE, rule exI) (erule list_all_modify, simp add: or_commute_and)

lemma guns_agree_map: "guns_agree gs \<Longrightarrow> guns_agree (map (\<lambda>m. m OR b) gs)"
proof -
  assume "guns_agree gs"
  then obtain u where "list_all (\<lambda>g. g AND 6 = u) gs" by (auto simp: guns_agree_def)
  then have "list_all (\<lambda>g. g AND 6 = u OR b AND 6) (map (\<lambda>m. m OR b) gs)"
    by (simp add: list_all_iff or_commute_and)
  then show ?thesis by (auto simp: guns_agree_def)
qed

lemma run_guns_wf:
  assumes "inventory_wf i"
  shows "k < 5 \<Longrightarrow> inventory_wf (run_op (Get_Gun k) i)"
    and "b = 1 \<or> b = 2 \<Longrightarrow> inventory_wf (run_op (Upgrade_Guns b) i)"
proof -
  have "bits_in 7 (1 :: u8)" by (simp add: bits_in_def)
  with assms show "k < 5 \<Longrightarrow> inventory_wf (run_op (Get_Gun k) i)"
    unfolding inventory_wf_def by (simp add: has_flag_def guns_agree_modify list_all_modify)
  have "bits_in 7 (bit8 b)" if "b = 1 \<or> b = 2" using that bits_in_7_small by auto
  with assms show "b = 1 \<or> b = 2 \<Longrightarrow> inventory_wf (run_op (Upgrade_Guns b) i)"
    unfolding inventory_wf_def by (simp add: has_flag_def list_all_iff guns_agree_map)
qed

lemma run_instruments_wf:
  assumes "inventory_wf i"
  shows "inventory_wf (run_op (Get_Instrument k) i)" and "inventory_wf (run_op Upgrade_Instruments i)"
proof -
  from assms have up: "instrument_upgrades i \<le> 3"
    and ins: "list_all (\<lambda>m. m AND NOT 1 = upgrade_mask (instrument_upgrades i)) (instruments i)"
    by (simp_all add: inventory_wf_def)
  have "(x OR 1) AND NOT 1 = x AND NOT (1 :: u8)" for x by (simp add: or_commute_and)
  with assms show "inventory_wf (run_op (Get_Instrument k) i)"
    unfolding inventory_wf_def by (simp add: has_flag_def list_all_modify)
  from ins upgrade_step [OF up] have "list_all (\<lambda>m. m AND NOT 1 =
      upgrade_mask (capped_increment (instrument_upgrades i) 3))
      (map (\<lambda>m. m OR upgrade_mask (capped_increment (instrument_upgrades i) 3)) (instruments i))"
    unfolding list.pred_map comp_apply by (rule list.pred_mono_strong)
  with assms show "inventory_wf (run_op Upgrade_Instruments i)"
    unfolding inventory_wf_def run_op.simps by (simp add: has_flag_def capped_le)
qed

lemma run_op_wf [wf_intros]:
  assumes "inventory_wf i" and "op_ok p" shows "inventory_wf (run_op p i)"
proof (cases p)
  case (Set_Flag n c s)
  with assms run_flag_wf show ?thesis by blast
next
  case (Get_Gun k)
  with assms run_guns_wf(1) show ?thesis by simp
next
  case (Upgrade_Guns k)
  with assms run_guns_wf(2) show ?thesis by simp
next
  case (Get_Instrument k)
  with assms run_instruments_wf(1) show ?thesis by simp
next
  case Upgrade_Instruments
  with assms run_instruments_wf(2) show ?thesis by simp
next
  case (Get_Ability b)
  with assms show ?thesis by (simp add: inventory_wf_def has_flag_def or_commute_and)
qed (use assms in \<open>simp_all add: inventory_wf_def has_flag_def list_all_modify bits_in_7_small
  bits_in_31_kong capped_le\<close>)

lemma zero_inventory_wf [wf_intros]: "inventory_wf zero_inventory"
proof -
  have flag: "\<not> has_flag zero_inventory f" if "f < 992" for f
    using that by (simp add: has_flag_def less_mult_imp_div_less)
  have "inv_reserved zero_inventory = [0, 0]" by (simp add: zero_inventory_def numeral_2_eq_2)
  then show ?thesis
    unfolding inventory_wf_def using flag
    by (simp add: zero_inventory_def upgrade_mask_values guns_agree_def list_all_iff)
qed

lemma fold_run_op_wf [wf_intros]:
  "inventory_wf i \<Longrightarrow> \<forall>p \<in> set ps. op_ok p \<Longrightarrow> inventory_wf (fold run_op ps i)"
  by (induction ps arbitrary: i) (simp_all add: run_op_wf)

lemma inventory_of_wf [wf_intros]: "inventory_wf (inventory_of ids)"
  unfolding inventory_of_def by (rule fold_run_op_wf [OF zero_inventory_wf receipt_ops_ok])

section \<open>Receipts only ever add\<close>

text \<open>The growth order: masks gain bits, counters do not fall.\<close>

definition inventory_le :: "ap_campaign_inventory \<Rightarrow> ap_campaign_inventory \<Rightarrow> bool" where
  "inventory_le i j \<longleftrightarrow>
     list_all2 (\<lambda>a b. bits_in b a) (moves i) (moves j) \<and>
     list_all2 (\<lambda>a b. bits_in b a) (guns i) (guns j) \<and>
     list_all2 (\<lambda>a b. bits_in b a) (instruments i) (instruments j) \<and>
     list_all2 (\<lambda>a b. bits_in b a) (hints i) (hints j) \<and>
     list_all2 (\<le>) (blueprints i) (blueprints j) \<and>
     bits_in (kongs j) (kongs i) \<and> bits_in (keys j) (keys i) \<and>
     bits_in (abilities j) (abilities i) \<and> bits_in (special j) (special i) \<and>
     slam i \<le> slam j \<and> belt i \<le> belt j \<and> instrument_upgrades i \<le> instrument_upgrades j \<and>
     bits_in (shopkeepers j) (shopkeepers i) \<and> bits_in (climbing j) (climbing i) \<and>
     golden_bananas i \<le> golden_bananas j \<and> fairies i \<le> fairies j \<and> crowns i \<le> crowns j \<and>
     medals i \<le> medals j \<and> pearls i \<le> pearls j \<and> rainbow_coins i \<le> rainbow_coins j \<and>
     junk i \<le> junk j \<and> list_all2 (\<le>) (traps i) (traps j) \<and>
     list_all2 (\<lambda>a b. bits_in b a) (flags i) (flags j)"

lemma bits_in_iff: "bits_in (m :: 'a::len word) w \<longleftrightarrow> (\<forall>n. bit w n \<longrightarrow> bit m n)"
  by (auto simp: bits_in_def bit_eq_iff bit_simps dest: bit_imp_le_length)

lemma bits_in_refl [simp]: "bits_in w w"
  by (simp add: bits_in_iff)

lemma bits_in_or_self [simp]: "bits_in (w OR v) w"
  by (simp add: bits_in_iff bit_or_iff)

lemma bits_in_trans: "bits_in b a \<Longrightarrow> bits_in c b \<Longrightarrow> bits_in c a"
  by (simp add: bits_in_iff)

lemma increment_ge [simp]: "v \<le> increment v"
  using u32_less [of v] by (simp add: word_le_nat_alt unat_increment)

lemma capped_increment_ge [simp]: "v \<le> capped_increment v c"
  by (simp add: word_le_nat_alt unat_capped_increment)

lemma list_all2_modify [simp]:
  "(\<And>x. R x x) \<Longrightarrow> (\<And>x. R x (f x)) \<Longrightarrow> list_all2 R xs (modify i f xs)"
  by (auto simp: list_all2_conv_all_nth nth_modify)

lemma list_all2_map [simp]: "(\<And>x. R x (f x)) \<Longrightarrow> list_all2 R xs (map f xs)"
  by (simp add: list_all2_conv_all_nth)

lemma list_all2_self [simp]: "(\<And>x. R x x) \<Longrightarrow> list_all2 R xs xs"
  by (simp add: list_all2_conv_all_nth)

lemma inventory_le_refl [simp]: "inventory_le i i"
  by (simp add: inventory_le_def)

lemma inventory_le_trans: "inventory_le i j \<Longrightarrow> inventory_le j k \<Longrightarrow> inventory_le i k"
  unfolding inventory_le_def
  by (elim conjE, intro conjI; (blast intro: bits_in_trans order_trans | erule (1) list_all2_trans [rotated];
        blast intro: bits_in_trans order_trans))

lemma run_op_grows: "inventory_le i (run_op p i)"
  by (cases p) (simp_all add: inventory_le_def)

lemma fold_run_op_grows: "inventory_le i (fold run_op ps i)"
  by (induction ps arbitrary: i) (auto intro: inventory_le_trans run_op_grows)

lemma wf_climbing_ok: "inventory_wf i \<Longrightarrow> climbing_ok i"
  by (simp add: inventory_wf_def climbing_ok_def)

text \<open>
  adding any item id to a well-formed inventory, whatever the result, leaves a well-formed
  inventory (array bounds, level caps, instrument levels in step with the upgrade count, gun
  upgrades shared, climbing and shopkeeper bytes in step with their flags) in which nothing that was
  owned is lost and no counter has fallen.
\<close>

theorem inventory_add_preserves:
  assumes "inventory_wf i" and "ap_campaign_inventory_add (Ptr a i) iid = (r, Ptr a j)"
  shows "inventory_wf j \<and> inventory_le i j"
proof (cases "item_supported iid")
  case True
  with assms(2) inventory_add_iff [OF wf_climbing_ok [OF assms(1)], of a iid "Ptr a j"]
    inventory_add_result_iff [of a i iid]
  have "j = fold run_op (item_ops iid) i" by simp
  with fold_run_op_wf [OF assms(1) item_ops_ok] fold_run_op_grows show ?thesis by simp
next
  case False
  with assms(2) have "j = i"
    unfolding inventory_add_results by (auto simp: item_supported_def split: if_splits)
  with assms(1) show ?thesis by simp
qed

lemma find_diddy: "find_item 14041092 = Some (Item 14041092 (Effect AP_EFFECT_KONG 1 0) no_effect)"
  by (rule find_item_nth [of 4]) (simp_all add: ap_item_effects_def ap_item_effects_1_def)

theorem inventory_add_preserves_witness: "inventory_le zero_inventory (zero_inventory\<lparr>kongs := 2\<rparr>)"
proof -
  have "ap_campaign_inventory_add (Ptr 0 zero_inventory) 14041092 = (1, Ptr 0 (zero_inventory\<lparr>kongs := 2\<rparr>))"
    by (simp add: ap_campaign_inventory_add_def find_diddy item_effects_def bit8_def zero_inventory_def)
  from inventory_add_preserves [OF zero_inventory_wf this] show ?thesis by simp
qed

text \<open>
  Rebuilds follow the receipt log: when the longer prefix rebuilds, so does every shorter one,
  the shorter result is contained in the longer one, and both are well-formed.
\<close>

theorem rebuild_prefix:
  assumes "length ids = unat n" and "length (ids @ later) = unat m"
    and "ap_campaign_inventory_rebuild (Ptr o1 i0) (Ptr a (ids @ later)) m = (1, Ptr o1 j)"
  shows "\<exists>i. ap_campaign_inventory_rebuild (Ptr o1 i0) (Ptr a ids) n = (1, Ptr o1 i) \<and>
    inventory_wf i \<and> inventory_wf j \<and> inventory_le i j"
proof -
  from assms(2,3) have m: "m \<le> 65535" and sup: "list_all item_supported (ids @ later)"
    and j: "j = inventory_of (ids @ later)" by (simp_all add: rebuild_iff)
  have "n \<le> 65535" using m assms(1,2) by (simp add: word_le_nat_alt)
  with sup assms(1) have "ap_campaign_inventory_rebuild (Ptr o1 i0) (Ptr a ids) n = (1, Ptr o1 (inventory_of ids))"
    by (simp add: rebuild_iff)
  moreover have "inventory_le (inventory_of ids) j"
    unfolding j by (simp add: inventory_of_def receipt_ops_def fold_run_op_grows)
  ultimately show ?thesis using inventory_of_wf j by blast
qed

theorem rebuild_prefix_witness:
  "\<exists>i. ap_campaign_inventory_rebuild (Ptr 0 zero_inventory) (Ptr 0 [14041091]) 1 = (1, Ptr 0 i) \<and>
    inventory_wf i \<and> inventory_wf (zero_inventory\<lparr>kongs := 3\<rparr>) \<and> inventory_le i (zero_inventory\<lparr>kongs := 3\<rparr>)"
  by (rule rebuild_prefix [where later = "[14041092]" and m = 2]) (simp_all add: example_rebuild)

end
