(* ===== verification/Trailer.thy ===== *)
theory Trailer
  imports Receipts
begin

text \<open>
  The game globals the mod reads and writes, and the save trailer of \<^verbatim>\<open>mod/campaign_save.c\<close>:
  the last 32 bytes of the 2048-byte save image hold an \<^verbatim>\<open>ap_campaign_save\<close>, in the byte
  order of the MIPS target the mod is compiled for.  The lemmas give the round trip between the
  record and its bytes, the effect of a staged candidate on every branch, and the step relation of
  the trailer with its invariant: the binding never changes, the counter only ever counts up.
\<close>

section \<open>Game state shared by the components\<close>

text \<open>
  The first fields are the globals of the same names; \<open>save_image\<close> is the game's volatile save
  image \<^verbatim>\<open>D_global_asm_807ECEA8\<close>.  The number of \<^verbatim>\<open>GAME_MODE_ADVENTURE\<close> comes from
  the decompilation's headers, which are not part of the repository: it is a field of the state
  that no operation writes.
\<close>

record game =
  current_file :: u8
  game_mode :: u8
  game_mode_copy :: u8
  cc_number_of_players :: u8
  ap_gameplay_mode :: u32
  save_image :: "u8 list"
  GAME_MODE_ADVENTURE :: u8

abbreviation (input) AP_GAMEPLAY_MOVES :: u32 where "AP_GAMEPLAY_MOVES \<equiv> 1"
abbreviation (input) AP_GAMEPLAY_REWARDS :: u32 where "AP_GAMEPLAY_REWARDS \<equiv> 2"
abbreviation (input) AP_GAMEPLAY_SHOPS :: u32 where "AP_GAMEPLAY_SHOPS \<equiv> 4"
abbreviation (input) AP_GAMEPLAY_SAVE :: u32 where "AP_GAMEPLAY_SAVE \<equiv> 8"
abbreviation (input) AP_GAMEPLAY_CHECKS :: u32 where "AP_GAMEPLAY_CHECKS \<equiv> 16"
abbreviation (input) AP_GAMEPLAY_ITEMS :: u32 where "AP_GAMEPLAY_ITEMS \<equiv> 32"
abbreviation (input) AP_GAMEPLAY_TRAPS :: u32 where "AP_GAMEPLAY_TRAPS \<equiv> 64"

text \<open>\<open>ap_gameplay_mode & bits\<close> as a truth value.\<close>

definition mode_has :: "game \<Rightarrow> u32 \<Rightarrow> bool" where
  "mode_has g bits \<longleftrightarrow> ap_gameplay_mode g AND bits \<noteq> 0"

lemma mode_has_zero [simp]: "ap_gameplay_mode g = 0 \<Longrightarrow> \<not> mode_has g bits"
  by (simp add: mode_has_def)

section \<open>Bytes of the trailer\<close>

definition be16 :: "u16 \<Rightarrow> u8 list" where
  "be16 w = [ucast (drop_bit 8 w), ucast w]"

definition be32 :: "u32 \<Rightarrow> u8 list" where
  "be32 w = [ucast (drop_bit 24 w), ucast (drop_bit 16 w), ucast (drop_bit 8 w), ucast w]"

definition of_be16 :: "u8 \<Rightarrow> u8 \<Rightarrow> u16" where
  "of_be16 a b = push_bit 8 (ucast a) OR ucast b"

definition of_be32 :: "u8 \<Rightarrow> u8 \<Rightarrow> u8 \<Rightarrow> u8 \<Rightarrow> u32" where
  "of_be32 a b c d = push_bit 24 (ucast a) OR push_bit 16 (ucast b) OR push_bit 8 (ucast c) OR ucast d"

definition encode_save :: "ap_campaign_save \<Rightarrow> u8 list" where
  "encode_save s = be32 (save_magic s) @ be16 (save_format s) @ be16 (save_counter s) @
     save_binding s @ be32 (save_reserved s) @ be32 (save_checksum s)"

definition decode_save :: "u8 list \<Rightarrow> ap_campaign_save" where
  "decode_save bs =
     \<lparr>save_magic = of_be32 (bs ! 0) (bs ! 1) (bs ! 2) (bs ! 3),
      save_format = of_be16 (bs ! 4) (bs ! 5),
      save_counter = of_be16 (bs ! 6) (bs ! 7),
      save_binding = take AP_CAMPAIGN_BINDING_SIZE (drop 8 bs),
      save_reserved = of_be32 (bs ! 24) (bs ! 25) (bs ! 26) (bs ! 27),
      save_checksum = of_be32 (bs ! 28) (bs ! 29) (bs ! 30) (bs ! 31)\<rparr>"

abbreviation (input) AP_CAMPAIGN_SAVE_SIZE :: nat where "AP_CAMPAIGN_SAVE_SIZE \<equiv> 32"
abbreviation (input) SAVE_IMAGE_SIZE :: nat where "SAVE_IMAGE_SIZE \<equiv> 0x800"

definition AP_CAMPAIGN_TRAILER_OFFSET :: nat where
  "AP_CAMPAIGN_TRAILER_OFFSET = 0x800 - AP_CAMPAIGN_SAVE_SIZE"

definition trailer :: "game \<Rightarrow> u8 list" where
  "trailer g = take AP_CAMPAIGN_SAVE_SIZE (drop AP_CAMPAIGN_TRAILER_OFFSET (save_image g))"

text \<open>\<open>copy_bytes (trailer (), save)\<close>: the bytes of the record replace the trailer.\<close>

definition write_trailer :: "game \<Rightarrow> ap_campaign_save \<Rightarrow> game" where
  "write_trailer g s = g\<lparr>save_image :=
     take AP_CAMPAIGN_TRAILER_OFFSET (save_image g) @ encode_save s @
     drop (AP_CAMPAIGN_TRAILER_OFFSET + AP_CAMPAIGN_SAVE_SIZE) (save_image g)\<rparr>"

definition all_zero :: "ap_campaign_save \<Rightarrow> bool" where
  "all_zero s \<longleftrightarrow> list_all (\<lambda>b. b = 0) (encode_save s)"

text \<open>The image has its fixed size.\<close>

definition game_ok :: "game \<Rightarrow> bool" where
  "game_ok g \<longleftrightarrow> length (save_image g) = SAVE_IMAGE_SIZE"

section \<open>Reading and staging\<close>

definition ap_campaign_trailer_read ::
  "game \<Rightarrow> ap_campaign_save cptr \<Rightarrow> int \<times> ap_campaign_save cptr" where
  "ap_campaign_trailer_read g output =
     (if output = Null \<or> current_file g \<noteq> 0 then (- 1, output)
      else let v = decode_save (trailer g); out = store output v
           in if all_zero v then (0, out)
              else if save_supported v then (1, out) else (- 1, out))"

text \<open>
  \<open>scratch_save\<close> stands for the uninitialised local the C code passes as the output of a read.
\<close>

definition scratch_save :: "ap_campaign_save cptr" where
  "scratch_save = Ptr 0 \<lparr>save_magic = 0, save_format = 0, save_counter = 0,
     save_binding = replicate AP_CAMPAIGN_BINDING_SIZE 0, save_reserved = 0, save_checksum = 0\<rparr>"

definition ap_campaign_trailer_stage :: "game \<Rightarrow> ap_campaign_save cptr \<Rightarrow> int \<times> game" where
  "ap_campaign_trailer_stage g source =
     (case source of Null \<Rightarrow> (0, g) | Ptr _ candidate \<Rightarrow>
        if current_file g \<noteq> 0 then (0, g)
        else if \<not> save_supported candidate then (0, g)
        else case ap_campaign_trailer_read g scratch_save of (state, out) \<Rightarrow>
          let previous = deref out in
          if state < 0 then (0, g)
          else if state = 0 then
            (if save_counter candidate \<noteq> 0 \<or> mode_has g AP_GAMEPLAY_SAVE then (0, g)
             else (1, write_trailer g candidate))
          else if \<not> same_binding candidate previous then (0, g)
          else if save_counter candidate \<noteq> save_counter previous \<and>
             (\<not> mode_has g AP_GAMEPLAY_SAVE \<or> save_counter previous = 0xFFFF \<or>
              unat (save_counter candidate) \<noteq> unat (save_counter previous) + 1) then (0, g)
          else (1, write_trailer g candidate))"

section \<open>Round trip between record and bytes\<close>

lemma of_be32_be32:
  "of_be32 (ucast (drop_bit 24 w)) (ucast (drop_bit 16 w)) (ucast (drop_bit 8 w)) (ucast w) = w"
proof (rule bit_word_eqI)
  fix n assume n: "n < LENGTH(32)"
  consider "n < 8" | "8 \<le> n \<and> n < 16" | "16 \<le> n \<and> n < 24" | "24 \<le> n" by linarith
  then show "bit (of_be32 (ucast (drop_bit 24 w)) (ucast (drop_bit 16 w)) (ucast (drop_bit 8 w))
      (ucast w)) n = bit w n"
    using n by cases (auto simp: of_be32_def bit_simps dest: bit_imp_le_length)
qed

lemma of_be16_be16: "of_be16 (ucast (drop_bit 8 w)) (ucast w) = w"
proof (rule bit_word_eqI)
  fix n assume n: "n < LENGTH(16)"
  then show "bit (of_be16 (ucast (drop_bit 8 w)) (ucast w)) n = bit w n"
    by (cases "n < 8") (auto simp: of_be16_def bit_simps dest: bit_imp_le_length)
qed

lemma length_encode [simp]: "save_ok s \<Longrightarrow> length (encode_save s) = AP_CAMPAIGN_SAVE_SIZE"
  by (simp add: encode_save_def be32_def be16_def save_ok_def)

lemma decode_encode: "save_ok s \<Longrightarrow> decode_save (encode_save s) = s"
  by (cases s) (simp add: decode_save_def encode_save_def be32_def be16_def save_ok_def nth_append
      of_be32_be32 of_be16_be16)

lemma decode_ok [simp]: "length bs = AP_CAMPAIGN_SAVE_SIZE \<Longrightarrow> save_ok (decode_save bs)"
  by (simp add: decode_save_def save_ok_def)

lemma length_trailer [simp]: "game_ok g \<Longrightarrow> length (trailer g) = AP_CAMPAIGN_SAVE_SIZE"
  by (simp add: game_ok_def trailer_def AP_CAMPAIGN_TRAILER_OFFSET_def)

lemma trailer_write [simp]:
  "game_ok g \<Longrightarrow> save_ok s \<Longrightarrow> trailer (write_trailer g s) = encode_save s"
  by (simp add: game_ok_def trailer_def write_trailer_def AP_CAMPAIGN_TRAILER_OFFSET_def)

lemma write_trailer_ok [simp]: "game_ok g \<Longrightarrow> save_ok s \<Longrightarrow> game_ok (write_trailer g s)"
  by (simp add: game_ok_def write_trailer_def AP_CAMPAIGN_TRAILER_OFFSET_def)

lemma write_trailer_frame [simp, frame_simps]:
  "current_file (write_trailer g s) = current_file g"
  "game_mode (write_trailer g s) = game_mode g"
  "game_mode_copy (write_trailer g s) = game_mode_copy g"
  "cc_number_of_players (write_trailer g s) = cc_number_of_players g"
  "ap_gameplay_mode (write_trailer g s) = ap_gameplay_mode g"
  "GAME_MODE_ADVENTURE (write_trailer g s) = GAME_MODE_ADVENTURE g"
  "mode_has (write_trailer g s) = mode_has g"
  by (simp_all add: write_trailer_def mode_has_def fun_eq_iff)

lemma write_trailer_bytes:
  "game_ok g \<Longrightarrow> n < AP_CAMPAIGN_TRAILER_OFFSET \<Longrightarrow>
   save_image (write_trailer g s) ! n = save_image g ! n"
  by (simp add: game_ok_def write_trailer_def AP_CAMPAIGN_TRAILER_OFFSET_def nth_append)

section \<open>What the trailer holds\<close>

definition stored_trailer :: "game \<Rightarrow> ap_campaign_save option" where
  "stored_trailer g = (let v = decode_save (trailer g) in if save_supported v then Some v else None)"

definition bound_trailer :: "game \<Rightarrow> ap_campaign_save option" where
  "bound_trailer g = (if current_file g = 0 then stored_trailer g else None)"

lemma supported_not_zero: "save_supported v \<Longrightarrow> \<not> all_zero v"
  by (auto simp: save_supported_def all_zero_def encode_save_def be32_def)

lemma stored_trailerD:
  "stored_trailer g = Some v \<Longrightarrow> save_supported v \<and> v = decode_save (trailer g)"
  by (auto simp: stored_trailer_def Let_def split: if_splits)

lemma bound_trailer_supported: "bound_trailer g = Some v \<Longrightarrow> save_supported v"
  by (auto simp: bound_trailer_def dest: stored_trailerD split: if_splits)

lemma bound_trailer_ok: "game_ok g \<Longrightarrow> bound_trailer g = Some v \<Longrightarrow> save_ok v"
  by (auto simp: bound_trailer_def dest: stored_trailerD split: if_splits)

lemma stored_write [simp]:
  "game_ok g \<Longrightarrow> save_ok s \<Longrightarrow> save_supported s \<Longrightarrow> stored_trailer (write_trailer g s) = Some s"
  by (simp add: stored_trailer_def decode_encode)

lemma trailer_read_bound:
  "ap_campaign_trailer_read g (Ptr a x) = (1, out) \<longleftrightarrow>
     (\<exists>v. bound_trailer g = Some v \<and> out = Ptr a v)"
  by (auto simp: ap_campaign_trailer_read_def bound_trailer_def stored_trailer_def Let_def
      dest: supported_not_zero)

lemma trailer_read_eq:
  "fst (ap_campaign_trailer_read g (Ptr a x)) =
     (if current_file g \<noteq> 0 then - 1
      else if all_zero (decode_save (trailer g)) then 0
      else if bound_trailer g = None then - 1 else 1)"
  by (auto simp: ap_campaign_trailer_read_def bound_trailer_def stored_trailer_def Let_def)

lemma supported_identity:
  assumes "save_ok a" "save_ok b" "save_supported a" "save_supported b"
    and "save_counter a = save_counter b" "save_binding a = save_binding b"
  shows "a = b"
  using assms
  by (cases a; cases b)
    (simp add: save_supported_def ap_campaign_save_valid_def ap_campaign_save_checksum_def)

section \<open>The complete effect of a staged candidate\<close>

definition stage_accepts :: "game \<Rightarrow> ap_campaign_save \<Rightarrow> bool" where
  "stage_accepts g c \<longleftrightarrow> current_file g = 0 \<and> save_supported c \<and>
     (case bound_trailer g of
        None \<Rightarrow> all_zero (decode_save (trailer g)) \<and> save_counter c = 0 \<and> \<not> mode_has g AP_GAMEPLAY_SAVE
      | Some p \<Rightarrow> save_binding c = save_binding p \<and>
          (save_counter c = save_counter p \<or>
           mode_has g AP_GAMEPLAY_SAVE \<and> unat (save_counter c) = unat (save_counter p) + 1))"

lemma counter_max_no_successor: "unat (c :: u16) = unat (p :: u16) + 1 \<Longrightarrow> p \<noteq> 0xFFFF"
  using u16_less [of c] by auto

lemma trailer_stage_eq:
  assumes g: "game_ok g" and c: "save_ok c"
  shows "ap_campaign_trailer_stage g (Ptr a c) =
     (if stage_accepts g c then (1, write_trailer g c) else (0, g))"
proof (cases "current_file g = 0 \<and> save_supported c")
  case True
  have dec: "save_ok (decode_save (trailer g))" using g by simp
  show ?thesis
  proof (cases "all_zero (decode_save (trailer g))")
    case zero: True
    then have "bound_trailer g = None"
      by (auto simp: bound_trailer_def stored_trailer_def Let_def dest: supported_not_zero)
    with True zero show ?thesis
      by (simp add: ap_campaign_trailer_stage_def ap_campaign_trailer_read_def scratch_save_def
          stage_accepts_def Let_def)
  next
    case nonzero: False
    show ?thesis
    proof (cases "save_supported (decode_save (trailer g))")
      case sup: True
      then have b: "bound_trailer g = Some (decode_save (trailer g))"
        using True by (simp add: bound_trailer_def stored_trailer_def)
      show ?thesis
        using True nonzero sup b
        by (auto simp: ap_campaign_trailer_stage_def ap_campaign_trailer_read_def scratch_save_def
            stage_accepts_def Let_def same_binding_iff [OF c dec] dest: counter_max_no_successor)
    next
      case False
      with True nonzero show ?thesis
        by (simp add: ap_campaign_trailer_stage_def ap_campaign_trailer_read_def scratch_save_def
            stage_accepts_def Let_def bound_trailer_def stored_trailer_def)
    qed
  qed
qed (auto simp: ap_campaign_trailer_stage_def stage_accepts_def)

lemma stage_same_counter_id:
  assumes "game_ok g" "save_ok c" "save_supported c" "bound_trailer g = Some p"
    "save_counter c = save_counter p" "save_binding c = save_binding p"
  shows "c = p"
  using assms by (intro supported_identity)
    (auto intro: bound_trailer_ok bound_trailer_supported)

text \<open>
  C1: a candidate the trailer accepts is exactly what the next read returns, byte for byte, and
  every byte of the save image before the trailer keeps its value; a rejected candidate leaves
  the whole game state unchanged.
\<close>

theorem trailer_stage_read:
  assumes "game_ok g" and "save_ok c" and "ap_campaign_trailer_stage g (Ptr a c) = (r, g')"
  shows "(r = 1 \<and> ap_campaign_trailer_read g' (Ptr b x) = (1, Ptr b c) \<and>
          (\<forall>n < AP_CAMPAIGN_TRAILER_OFFSET. save_image g' ! n = save_image g ! n)) \<or>
         (r = 0 \<and> g' = g)"
  using assms
  by (auto simp: trailer_stage_eq trailer_read_bound bound_trailer_def stage_accepts_def
      write_trailer_bytes split: if_splits)

section \<open>The contract of the trailer\<close>

text \<open>
  What a client of the trailer may rely on: an accepted candidate becomes the stored record, and
  relative to the record stored before it keeps the binding and the counter, or counts up by one.
\<close>

locale trailer_store =
  fixes stored :: "'g \<Rightarrow> ap_campaign_save option"
    and put :: "'g \<Rightarrow> ap_campaign_save \<Rightarrow> 'g option"
    and ok :: "'g \<Rightarrow> bool"
  assumes put_stored: "ok g \<Longrightarrow> save_ok c \<Longrightarrow> put g c = Some g' \<Longrightarrow> stored g' = Some c"
    and put_ok: "ok g \<Longrightarrow> save_ok c \<Longrightarrow> put g c = Some g' \<Longrightarrow> ok g'"
    and put_follows: "ok g \<Longrightarrow> save_ok c \<Longrightarrow> stored g = Some p \<Longrightarrow> put g c = Some g' \<Longrightarrow>
      save_binding c = save_binding p \<and>
      (save_counter c = save_counter p \<or> unat (save_counter c) = unat (save_counter p) + 1)"
begin

lemma put_monotone:
  assumes "ok g" "save_ok c" "stored g = Some p" "put g c = Some g'"
  obtains q where "stored g' = Some q" "save_binding q = save_binding p"
    "unat (save_counter p) \<le> unat (save_counter q)"
    "unat (save_counter q) \<le> unat (save_counter p) + 1"
  using put_stored [OF assms(1,2,4)] put_follows [OF assms] by auto

end

definition trailer_put :: "game \<Rightarrow> ap_campaign_save \<Rightarrow> game option" where
  "trailer_put g c =
     (case ap_campaign_trailer_stage g (Ptr 0 c) of (r, g') \<Rightarrow> if r = 1 then Some g' else None)"

lemma trailer_put_eq:
  "game_ok g \<Longrightarrow> save_ok c \<Longrightarrow>
     trailer_put g c = (if stage_accepts g c then Some (write_trailer g c) else None)"
  by (simp add: trailer_put_def trailer_stage_eq)

interpretation save_trailer: trailer_store stored_trailer trailer_put game_ok
proof unfold_locales
  fix g c g' assume "game_ok g" "save_ok c" and p: "trailer_put g c = Some g'"
  then show "stored_trailer g' = Some c" "game_ok g'"
    by (auto simp: trailer_put_eq stage_accepts_def split: if_splits)
next
  fix g c p g' assume "game_ok g" "save_ok c" "stored_trailer g = Some p" "trailer_put g c = Some g'"
  then show "save_binding c = save_binding p \<and>
      (save_counter c = save_counter p \<or> unat (save_counter c) = unat (save_counter p) + 1)"
    by (auto simp: trailer_put_eq stage_accepts_def bound_trailer_def split: if_splits)
qed

section \<open>The trailer over a whole session\<close>

text \<open>
  Steps of a session as the trailer sees them: a candidate is staged (accepted or not), the
  capabilities change, another save file becomes current.
\<close>

inductive trailer_step :: "game \<Rightarrow> game \<Rightarrow> bool" where
  staged: "save_ok c \<Longrightarrow> ap_campaign_trailer_stage g (Ptr a c) = (r, g') \<Longrightarrow> trailer_step g g'"
| staged_null: "ap_campaign_trailer_stage g Null = (r, g') \<Longrightarrow> trailer_step g g'"
| mode: "trailer_step g (g\<lparr>ap_gameplay_mode := m\<rparr>)"
| other_file: "trailer_step g (g\<lparr>current_file := f\<rparr>)"

inductive_cases trailer_stepE: "trailer_step g g'"

inductive trailer_run :: "game \<Rightarrow> nat \<Rightarrow> game \<Rightarrow> bool" where
  start: "trailer_run g 0 g"
| step: "trailer_run g n g' \<Longrightarrow> trailer_step g' g'' \<Longrightarrow> trailer_run g (Suc n) g''"

lemma stored_env [simp]:
  "stored_trailer (g\<lparr>ap_gameplay_mode := m\<rparr>) = stored_trailer g"
  "stored_trailer (g\<lparr>current_file := f\<rparr>) = stored_trailer g"
  "game_ok (g\<lparr>ap_gameplay_mode := m\<rparr>) = game_ok g"
  "game_ok (g\<lparr>current_file := f\<rparr>) = game_ok g"
  by (simp_all add: stored_trailer_def trailer_def game_ok_def)

lemma trailer_step_stored:
  assumes "trailer_step g g'" "game_ok g" "stored_trailer g = Some p"
  shows "game_ok g' \<and> (\<exists>q. stored_trailer g' = Some q \<and> save_binding q = save_binding p \<and>
    unat (save_counter p) \<le> unat (save_counter q) \<and> unat (save_counter q) \<le> unat (save_counter p) + 1)"
  using assms
proof (cases rule: trailer_step.cases)
  case (staged c a r)
  show ?thesis
  proof (cases "stage_accepts g c")
    case True
    with staged assms have put: "trailer_put g c = Some g'"
      by (auto simp: trailer_put_eq trailer_stage_eq)
    from save_trailer.put_monotone [OF assms(2) staged(1) assms(3) put]
      save_trailer.put_ok [OF assms(2) staged(1) put]
    show ?thesis by (metis (no_types))
  next
    case False
    with staged assms show ?thesis by (auto simp: trailer_stage_eq)
  qed
qed (use assms in \<open>auto simp: ap_campaign_trailer_stage_def\<close>)

text \<open>
  C2: over any run of a session a bound trailer stays bound: its seed binding never changes, the
  receipt counter never decreases, and it grows by at most one per step.
\<close>

theorem trailer_run_monotone:
  assumes "trailer_run g n g'" and "game_ok g" and "stored_trailer g = Some p"
  shows "\<exists>q. stored_trailer g' = Some q \<and> save_binding q = save_binding p \<and>
    unat (save_counter p) \<le> unat (save_counter q) \<and> unat (save_counter q) \<le> unat (save_counter p) + n"
proof -
  from assms have "game_ok g' \<and> (\<exists>q. stored_trailer g' = Some q \<and> save_binding q = save_binding p \<and>
    unat (save_counter p) \<le> unat (save_counter q) \<and> unat (save_counter q) \<le> unat (save_counter p) + n)"
  proof (induction rule: trailer_run.induct)
    case (step g n g' g'')
    then obtain q where q: "game_ok g'" "stored_trailer g' = Some q" "save_binding q = save_binding p"
      "unat (save_counter p) \<le> unat (save_counter q)" "unat (save_counter q) \<le> unat (save_counter p) + n"
      by blast
    with trailer_step_stored [OF step.hyps(2) q(1,2)] show ?case by fastforce
  qed simp
  then show ?thesis by blast
qed

section \<open>Concrete states\<close>

definition example_game :: "u32 \<Rightarrow> game" where
  "example_game mode = \<lparr>current_file = 0, game_mode = 6, game_mode_copy = 6, cc_number_of_players = 1,
     ap_gameplay_mode = mode, save_image = replicate SAVE_IMAGE_SIZE 0, GAME_MODE_ADVENTURE = 6\<rparr>"

definition bound_game :: "u32 \<Rightarrow> u16 \<Rightarrow> game" where
  "bound_game mode n = write_trailer (example_game mode) (example_save n)"

lemma example_game_ok [simp]: "game_ok (example_game m)"
  by (simp add: game_ok_def example_game_def)

lemma example_game_simps [simp]:
  "current_file (example_game m) = 0" "game_mode (example_game m) = 6"
  "game_mode_copy (example_game m) = 6" "cc_number_of_players (example_game m) = 1"
  "ap_gameplay_mode (example_game m) = m" "GAME_MODE_ADVENTURE (example_game m) = 6"
  by (simp_all add: example_game_def)

lemma bound_game_simps [simp]:
  "game_ok (bound_game m n)" "current_file (bound_game m n) = 0"
  "game_mode (bound_game m n) = 6" "game_mode_copy (bound_game m n) = 6"
  "cc_number_of_players (bound_game m n) = 1" "ap_gameplay_mode (bound_game m n) = m"
  "GAME_MODE_ADVENTURE (bound_game m n) = 6"
  "stored_trailer (bound_game m n) = Some (example_save n)"
  "bound_trailer (bound_game m n) = Some (example_save n)"
  by (simp_all add: bound_game_def bound_trailer_def)

lemma example_save_binding: "save_binding (example_save n) = map word_of_nat [1..<17]"
  by (simp add: example_save_def)

theorem trailer_stage_read_witness:
  "\<exists>g'. ap_campaign_trailer_stage (bound_game AP_GAMEPLAY_SAVE 4) (Ptr 0 (example_save 5)) = (1, g') \<and>
        ap_campaign_trailer_read g' (Ptr 4 (example_save 0)) = (1, Ptr 4 (example_save 5))"
proof -
  let ?g = "bound_game AP_GAMEPLAY_SAVE 4"
  have run: "ap_campaign_trailer_stage ?g (Ptr 0 (example_save 5)) = (1, write_trailer ?g (example_save 5))"
    by (simp add: trailer_stage_eq stage_accepts_def mode_has_def example_save_binding)
  from trailer_stage_read [OF _ _ run, of 4 "example_save 0"] run show ?thesis by simp
qed

theorem trailer_run_monotone_witness:
  "\<exists>q. stored_trailer ((bound_game 0 4)\<lparr>current_file := 2\<rparr>) = Some q \<and>
       save_binding q = save_binding (example_save 4) \<and>
       unat (save_counter (example_save 4)) \<le> unat (save_counter q) \<and>
       unat (save_counter q) \<le> unat (save_counter (example_save 4)) + Suc 0"
  by (rule trailer_run_monotone [OF trailer_run.step [OF trailer_run.start trailer_step.other_file]])
    simp_all

end
