(* ===== verification/Publication.thy ===== *)
theory Publication
  imports Inventory Trailer
begin

text \<open>
  Publications bound to the save trailer.  Three components of the mod keep a value in statics of
  the same shape, \<open>published\<close>, \<open>published_identity\<close> and \<open>published_ready\<close>: the
  inventory (\<^verbatim>\<open>mod/campaign_inventory_stage.c\<close>, modelled here), the item queries and the
  pending transaction.  The locale states what all three promise: a published value is visible
  exactly while the trailer is the one it was staged for.
\<close>

record 'a publication =
  published :: 'a
  published_identity :: ap_campaign_save
  published_ready :: u8

definition zero_save :: ap_campaign_save where
  "zero_save = \<lparr>save_magic = 0, save_format = 0, save_counter = 0,
     save_binding = replicate AP_CAMPAIGN_BINDING_SIZE 0, save_reserved = 0, save_checksum = 0\<rparr>"

text \<open>\<open>!((ap_uint32_t)pointer & 3u)\<close>\<close>

fun aligned :: "'a cptr \<Rightarrow> bool" where
  "aligned Null \<longleftrightarrow> True"
| "aligned (Ptr a _) \<longleftrightarrow> a AND 3 = 0"

definition trailer_is :: "game \<Rightarrow> ap_campaign_save \<Rightarrow> bool" where
  "trailer_is g identity \<longleftrightarrow>
     (case ap_campaign_trailer_read g scratch_save of (r, out) \<Rightarrow> r = 1 \<and> same_identity identity (deref out))"

definition current_identity :: "game \<Rightarrow> ap_campaign_save \<Rightarrow> bool" where
  "current_identity g identity \<longleftrightarrow> save_supported identity \<and> trailer_is g identity"

lemma trailer_is_iff:
  "game_ok g \<Longrightarrow> save_ok i \<Longrightarrow> trailer_is g i \<longleftrightarrow> bound_trailer g = Some i"
proof -
  assume g: "game_ok g" and i: "save_ok i"
  show ?thesis
  proof (cases "bound_trailer g")
    case None
    then have "fst (ap_campaign_trailer_read g scratch_save) \<noteq> 1"
      by (simp add: scratch_save_def trailer_read_eq)
    with None show ?thesis by (auto simp: trailer_is_def split: prod.split)
  next
    case (Some v)
    then have "ap_campaign_trailer_read g scratch_save = (1, Ptr 0 v)"
      by (simp add: scratch_save_def trailer_read_bound)
    with Some save_eqI [OF i bound_trailer_ok [OF g Some]] show ?thesis
      by (auto simp: trailer_is_def)
  qed
qed

lemma current_identity_iff:
  "game_ok g \<Longrightarrow> save_ok i \<Longrightarrow> current_identity g i \<longleftrightarrow> bound_trailer g = Some i"
  by (auto simp: current_identity_def trailer_is_iff bound_trailer_supported)

lemma bound_trailer_file: "bound_trailer g = Some i \<Longrightarrow> current_file g = 0"
  by (simp add: bound_trailer_def split: if_splits)

section \<open>The contract\<close>

text \<open>
  \<open>view\<close> is what the component shows of its state in a game state, \<open>enabled\<close> the further
  conditions it asks for, \<open>owner\<close> the identity its state is published for.
\<close>

locale publication =
  fixes stage :: "game \<Rightarrow> 's \<Rightarrow> ap_campaign_save \<Rightarrow> 'x \<Rightarrow> 's option"
    and view :: "game \<Rightarrow> 's \<Rightarrow> 'v option"
    and payload :: "'x \<Rightarrow> 'v option"
    and owner :: "'s \<Rightarrow> ap_campaign_save option"
    and enabled :: "game \<Rightarrow> bool"
    and ok :: "'s \<Rightarrow> bool"
  assumes stage_current: "game_ok g \<Longrightarrow> save_ok i \<Longrightarrow> stage g s i x = Some s' \<Longrightarrow> bound_trailer g = Some i"
    and stage_ok: "game_ok g \<Longrightarrow> save_ok i \<Longrightarrow> stage g s i x = Some s' \<Longrightarrow> ok s'"
    and stage_owner: "game_ok g \<Longrightarrow> save_ok i \<Longrightarrow> stage g s i x = Some s' \<Longrightarrow> owner s' = Some i"
    and view_owner: "game_ok g \<Longrightarrow> ok s \<Longrightarrow> view g s = Some v \<Longrightarrow> owner s \<noteq> None \<and> bound_trailer g = owner s"
    and stage_view: "game_ok g \<Longrightarrow> save_ok i \<Longrightarrow> stage g s i x = Some s' \<Longrightarrow> game_ok g' \<Longrightarrow>
      bound_trailer g' = Some i \<Longrightarrow> enabled g' \<Longrightarrow> view g' s' = payload x"
begin

lemma stale:
  assumes "game_ok g" "save_ok i" "stage g s i x = Some s'" "game_ok g'" "bound_trailer g' \<noteq> Some i"
  shows "view g' s' = None"
  using view_owner [OF assms(4) stage_ok [OF assms(1-3)]] stage_owner [OF assms(1-3)] assms(5)
  by (cases "view g' s'") auto

lemma fresh:
  assumes "game_ok g" "save_ok i" "stage g s i x = Some s'" "enabled g"
  shows "view g s' = payload x"
  using stage_view [OF assms(1-3,1) stage_current [OF assms(1-3)] assms(4)] .

text \<open>What is visible later is what was staged, whatever happened to the game in between.\<close>

lemma view_staged:
  assumes "game_ok g" "save_ok i" "stage g s i x = Some s'" "game_ok g'" "enabled g'"
  shows "view g' s' = (if bound_trailer g' = Some i then payload x else None)"
  using stage_view [OF assms(1-4)] stale [OF assms(1-4)] assms(5) by simp

end

section \<open>The published inventory\<close>

definition ap_campaign_inventory_stage ::
  "game \<Rightarrow> ap_campaign_inventory publication \<Rightarrow> ap_campaign_save cptr \<Rightarrow> u32 list cptr \<Rightarrow> u32
     \<Rightarrow> int \<times> ap_campaign_inventory publication" where
  "ap_campaign_inventory_stage g st source item_ids cnt =
     (if source = Null \<or> current_file g \<noteq> 0 \<or> ap_gameplay_mode g \<noteq> 0 \<or> cnt > 65535 \<or>
         (cnt \<noteq> 0 \<and> item_ids = Null) \<or> (cnt \<noteq> 0 \<and> \<not> aligned item_ids) then (0, st)
      else let identity = deref source
        in if unat (save_counter identity) \<noteq> unat cnt \<or> \<not> current_identity g identity then (0, st)
           else case ap_campaign_inventory_rebuild (Ptr 0 zero_inventory) item_ids cnt of (r, out) \<Rightarrow>
             if r \<noteq> 1 then (0, st)
             else (1, st\<lparr>published := deref out, published_identity := identity, published_ready := 1\<rparr>))"

definition ap_campaign_inventory_snapshot ::
  "game \<Rightarrow> ap_campaign_inventory publication \<Rightarrow> ap_campaign_inventory cptr \<Rightarrow> ap_campaign_save cptr
     \<Rightarrow> int \<times> ap_campaign_inventory cptr" where
  "ap_campaign_inventory_snapshot g st output source =
     (if output = Null \<or> \<not> aligned output \<or> source = Null \<or> current_file g \<noteq> 0 \<or> published_ready st = 0
      then (0, output)
      else let identity = deref source
        in if \<not> save_supported identity \<or> \<not> same_identity identity (published_identity st) \<or>
              \<not> current_identity g identity then (0, output)
           else (1, store output (published st)))"

definition ap_campaign_inventory_reset ::
  "ap_campaign_inventory publication \<Rightarrow> ap_campaign_inventory publication" where
  "ap_campaign_inventory_reset st =
     st\<lparr>published := deref (ap_campaign_inventory_clear (Ptr 0 (published st))),
        published_identity := zero_save, published_ready := 0\<rparr>"

definition publication_ok :: "'a publication \<Rightarrow> bool" where
  "publication_ok st \<longleftrightarrow> save_ok (published_identity st)"

lemma zero_save_ok [simp]: "save_ok zero_save"
  by (simp add: zero_save_def save_ok_def)

lemma reset_hides: "fst (ap_campaign_inventory_snapshot g (ap_campaign_inventory_reset st) p s) = 0"
  by (simp add: ap_campaign_inventory_snapshot_def ap_campaign_inventory_reset_def)

lemma inventory_stage_iff:
  assumes "game_ok g" "save_ok i" "aligned (Ptr b ids)" "length ids = unat n"
  shows "ap_campaign_inventory_stage g st (Ptr a i) (Ptr b ids) n = (1, st') \<longleftrightarrow>
     ap_gameplay_mode g = 0 \<and> bound_trailer g = Some i \<and> unat (save_counter i) = length ids \<and>
     list_all item_supported ids \<and>
     st' = st\<lparr>published := inventory_of ids, published_identity := i, published_ready := 1\<rparr>"
proof -
  obtain r out where reb: "ap_campaign_inventory_rebuild (Ptr 0 zero_inventory) (Ptr b ids) n = (r, out)"
    by (cases "ap_campaign_inventory_rebuild (Ptr 0 zero_inventory) (Ptr b ids) n")
  with rebuild_iff [OF assms(4), of 0 zero_inventory b out]
  have r: "r = 1 \<longleftrightarrow> n \<le> 65535 \<and> list_all item_supported ids"
    by (metis (no_types, lifting) Pair_inject assms(4) rebuild_iff)
  from reb r rebuild_iff [OF assms(4), of 0 zero_inventory b out]
  have out: "r = 1 \<Longrightarrow> out = Ptr 0 (inventory_of ids)" by auto
  have le: "unat (save_counter i) = unat n \<Longrightarrow> n \<le> 65535"
    using u16_less [of "save_counter i"] by (simp add: word_le_nat_alt)
  show ?thesis
    using assms(3,4) r out le
    by (auto simp: ap_campaign_inventory_stage_def reb Let_def current_identity_iff [OF assms(1,2)]
        not_less dest: bound_trailer_file)
qed

lemma inventory_snapshot_iff:
  assumes "game_ok g" "publication_ok st" "save_ok i" "aligned (Ptr a x)"
  shows "ap_campaign_inventory_snapshot g st (Ptr a x) (Ptr b i) = (1, out) \<longleftrightarrow>
     published_ready st \<noteq> 0 \<and> published_identity st = i \<and> bound_trailer g = Some i \<and> out = Ptr a (published st)"
  using assms(4) save_eqI [OF assms(3), of "published_identity st"] assms(2)
  by (auto simp: ap_campaign_inventory_snapshot_def Let_def current_identity_iff [OF assms(1)]
      publication_ok_def dest: bound_trailer_file bound_trailer_supported)

text \<open>The component behind the interface.\<close>

definition inventory_put ::
  "game \<Rightarrow> ap_campaign_inventory publication \<Rightarrow> ap_campaign_save \<Rightarrow> u32 list
     \<Rightarrow> ap_campaign_inventory publication option" where
  "inventory_put g st i ids =
     (case ap_campaign_inventory_stage g st (Ptr 0 i) (Ptr 0 ids) (word_of_nat (length ids)) of
        (r, st') \<Rightarrow> if r = 1 \<and> length ids \<le> 65535 then Some st' else None)"

definition inventory_view ::
  "game \<Rightarrow> ap_campaign_inventory publication \<Rightarrow> ap_campaign_inventory option" where
  "inventory_view g st =
     (case bound_trailer g of None \<Rightarrow> None
      | Some i \<Rightarrow> (case ap_campaign_inventory_snapshot g st (Ptr 0 zero_inventory) (Ptr 0 i) of
          (r, out) \<Rightarrow> if r = 1 then Some (deref out) else None))"

definition publication_owner :: "('a, 'b) publication_scheme \<Rightarrow> ap_campaign_save option" where
  "publication_owner st = (if published_ready st = 0 then None else Some (published_identity st))"

definition supported_inventory :: "u32 list \<Rightarrow> ap_campaign_inventory option" where
  "supported_inventory ids = (if list_all item_supported ids then Some (inventory_of ids) else None)"

lemma inventory_put_iff:
  assumes "game_ok g" "save_ok i"
  shows "inventory_put g st i ids = Some st' \<longleftrightarrow>
     ap_gameplay_mode g = 0 \<and> bound_trailer g = Some i \<and> unat (save_counter i) = length ids \<and>
     list_all item_supported ids \<and>
     st' = st\<lparr>published := inventory_of ids, published_identity := i, published_ready := 1\<rparr>"
proof (cases "length ids \<le> 65535")
  case True
  then have "length ids = unat (word_of_nat (length ids) :: u32)" by (simp add: unat_of_nat)
  note * = inventory_stage_iff [OF assms _ this, where b = 0 and a = 0 and st = st and st' = st', simplified]
  obtain r t where rt: "ap_campaign_inventory_stage g st (Ptr 0 i) (Ptr 0 ids) (word_of_nat (length ids)) = (r, t)"
    by fastforce
  have "inventory_put g st i ids = Some st' \<longleftrightarrow> (r, t) = (1, st')"
    using True by (auto simp: inventory_put_def rt)
  also note * [unfolded rt]
  finally show ?thesis .
next
  case False
  then have "unat (save_counter i) \<noteq> length ids" using u16_less [of "save_counter i"] by linarith
  moreover have "inventory_put g st i ids = None"
    unfolding inventory_put_def case_prod_beta using False by (simp only: simp_thms if_False)
  ultimately show ?thesis by simp
qed

lemma inventory_view_iff:
  assumes "game_ok g" "publication_ok st"
  shows "inventory_view g st = Some v \<longleftrightarrow>
     published_ready st \<noteq> 0 \<and> bound_trailer g = Some (published_identity st) \<and> v = published st"
proof (cases "bound_trailer g")
  case (Some i)
  obtain r out where run: "ap_campaign_inventory_snapshot g st (Ptr 0 zero_inventory) (Ptr 0 i) = (r, out)"
    by fastforce
  have *: "r = 1 \<and> out = q \<longleftrightarrow>
      published_ready st \<noteq> 0 \<and> published_identity st = i \<and> q = Ptr 0 (published st)" for q
    using inventory_snapshot_iff [OF assms bound_trailer_ok [OF assms(1) Some], where a = 0 and b = 0
        and x = zero_inventory and out = q] Some
    by (simp add: run)
  have "inventory_view g st = Some v \<longleftrightarrow> r = 1 \<and> deref out = v"
    by (simp add: inventory_view_def Some run)
  also have "\<dots> \<longleftrightarrow> published_ready st \<noteq> 0 \<and> published_identity st = i \<and> v = published st"
    using * [of out] * [of "Ptr 0 (published st)"] by auto
  finally show ?thesis using Some by auto
qed (simp add: inventory_view_def)

interpretation inventory_publication:
  publication inventory_put inventory_view supported_inventory publication_owner "\<lambda>_. True" publication_ok
proof unfold_locales
  fix g i s x s' assume a: "game_ok g" "save_ok i" "inventory_put g s i x = Some s'"
  then show "bound_trailer g = Some i" "publication_ok s'" "publication_owner s' = Some i"
    by (auto simp: inventory_put_iff publication_owner_def publication_ok_def)
  fix g' assume "game_ok g'" "bound_trailer g' = Some i"
  moreover have "publication_ok s'" using a by (auto simp: inventory_put_iff publication_ok_def)
  ultimately show "inventory_view g' s' = supported_inventory x"
    using a by (auto simp: inventory_put_iff inventory_view_iff supported_inventory_def)
next
  fix g v and s :: "ap_campaign_inventory publication"
  assume "game_ok g" "publication_ok s" "inventory_view g s = Some v"
  then show "publication_owner s \<noteq> None \<and> bound_trailer g = publication_owner s"
    by (auto simp: inventory_view_iff publication_owner_def)
qed

section \<open>Visibility of a staged inventory\<close>

lemma snapshot_result: "fst (ap_campaign_inventory_snapshot g st p s) \<in> {0, 1}"
  "fst (ap_campaign_inventory_snapshot g st p s) = 0 \<Longrightarrow> snd (ap_campaign_inventory_snapshot g st p s) = p"
  by (auto simp: ap_campaign_inventory_snapshot_def Let_def split: if_splits)

text \<open>
  Once a receipt prefix is staged for a trailer, a snapshot in any later game state gives the
  inventory these receipts build when that same trailer is current and the caller names it, and in
  every other case it fails and leaves the caller's buffer alone; so an advanced, foreign or missing
  trailer never shows a stale inventory.
\<close>

theorem staged_inventory_visible:
  assumes "game_ok g" and "save_ok i" and "length ids = unat n" and "aligned (Ptr b ids)"
    and "ap_campaign_inventory_stage g st (Ptr a i) (Ptr b ids) n = (1, st')"
    and "game_ok g'" and "save_ok j" and "aligned (Ptr c x)"
  shows "ap_campaign_inventory_snapshot g' st' (Ptr c x) (Ptr d j) =
     (if j = i \<and> bound_trailer g' = Some i then (1, Ptr c (inventory_of ids)) else (0, Ptr c x))"
proof -
  from assms(1-5) have st': "st' = st\<lparr>published := inventory_of ids, published_identity := i, published_ready := 1\<rparr>"
    by (simp add: inventory_stage_iff)
  then have ok: "publication_ok st'" using assms(2) by (simp add: publication_ok_def)
  obtain r out where run: "ap_campaign_inventory_snapshot g' st' (Ptr c x) (Ptr d j) = (r, out)"
    by fastforce
  note iff = inventory_snapshot_iff [OF assms(6) ok assms(7,8), of d]
  show ?thesis
  proof (cases "j = i \<and> bound_trailer g' = Some i")
    case True
    with iff [of "Ptr c (inventory_of ids)"] st' show ?thesis by simp
  next
    case False
    with iff [of out] st' run have "r \<noteq> 1" by auto
    with snapshot_result [of g' st' "Ptr c x" "Ptr d j"] run False show ?thesis by auto
  qed
qed

definition empty_publication :: "ap_campaign_inventory publication" where
  "empty_publication = \<lparr>published = zero_inventory, published_identity = zero_save, published_ready = 0\<rparr>"

lemma find_donkey: "find_item 14041091 = Some (Item 14041091 (Effect AP_EFFECT_KONG 0 0) no_effect)"
  by (rule find_item_nth [of 3]) (simp_all add: ap_item_effects_def ap_item_effects_1_def)

lemma kongs_supported: "item_supported 14041091" "item_supported 14041092"
  by (simp_all add: item_supported_def find_donkey find_diddy item_effects_def)

lemma distinct_counters: "m \<noteq> n \<Longrightarrow> example_save m \<noteq> example_save n"
  by (metis example_save_counter)

theorem staged_inventory_visible_witness:
  "\<exists>st'. ap_campaign_inventory_snapshot (bound_game 1 2) st' (Ptr 4 zero_inventory) (Ptr 8 (example_save 2)) =
      (1, Ptr 4 (inventory_of [14041091, 14041092])) \<and>
    ap_campaign_inventory_snapshot (bound_game 1 3) st' (Ptr 4 zero_inventory) (Ptr 8 (example_save 2)) =
      (0, Ptr 4 zero_inventory)"
proof -
  let ?st = "empty_publication\<lparr>published := inventory_of [14041091, 14041092],
    published_identity := example_save 2, published_ready := 1\<rparr>"
  have stage: "ap_campaign_inventory_stage (bound_game 0 2) empty_publication (Ptr 0 (example_save 2))
      (Ptr 0 [14041091, 14041092]) 2 = (1, ?st)"
    by (simp add: inventory_stage_iff kongs_supported)
  note vis = staged_inventory_visible [OF _ _ _ _ stage]
  have "example_save 3 \<noteq> example_save 2"
    by (rule distinct_counters) simp
  with vis [of "bound_game 1 2" "example_save 2" 4 zero_inventory 8]
    vis [of "bound_game 1 3" "example_save 2" 4 zero_inventory 8] show ?thesis by auto
qed

end
