(* ===== verification/Items.thy ===== *)
theory Items
  imports Publication
begin

text \<open>
  The item queries of \<^verbatim>\<open>mod/campaign_items.c\<close>: a second publication of the inventory, taken from
  the staged one, that answers the original randomizer's item counts while the item capability is
  on and the trailer is still the one it was staged for.  Queries return minus one when they can
  not be answered; the adapters the game calls turn that into zero.  \<open>isFlagSet\<close>, the game's flag
  lookup, is a parameter.
\<close>

section \<open>Operations\<close>

abbreviation (input) AP_ITEM_QUERY_KONG :: nat where "AP_ITEM_QUERY_KONG \<equiv> 0"
abbreviation (input) AP_ITEM_QUERY_KEY :: nat where "AP_ITEM_QUERY_KEY \<equiv> 1"
abbreviation (input) AP_ITEM_QUERY_HINT :: nat where "AP_ITEM_QUERY_HINT \<equiv> 2"
abbreviation (input) AP_ITEM_QUERY_BLUEPRINT :: nat where "AP_ITEM_QUERY_BLUEPRINT \<equiv> 3"
abbreviation (input) AP_ITEM_QUERY_FAIRY :: nat where "AP_ITEM_QUERY_FAIRY \<equiv> 4"
abbreviation (input) AP_ITEM_QUERY_CROWN :: nat where "AP_ITEM_QUERY_CROWN \<equiv> 5"
abbreviation (input) AP_ITEM_QUERY_COMPANY_COIN :: nat where "AP_ITEM_QUERY_COMPANY_COIN \<equiv> 6"
abbreviation (input) AP_ITEM_QUERY_MEDAL :: nat where "AP_ITEM_QUERY_MEDAL \<equiv> 7"
abbreviation (input) AP_ITEM_QUERY_BEAN :: nat where "AP_ITEM_QUERY_BEAN \<equiv> 8"
abbreviation (input) AP_ITEM_QUERY_PEARL :: nat where "AP_ITEM_QUERY_PEARL \<equiv> 9"
abbreviation (input) AP_ITEM_QUERY_RAINBOW_COIN :: nat where "AP_ITEM_QUERY_RAINBOW_COIN \<equiv> 10"
abbreviation (input) AP_ITEM_QUERY_TRAP :: nat where "AP_ITEM_QUERY_TRAP \<equiv> 11"
abbreviation (input) AP_ITEM_QUERY_JUNK :: nat where "AP_ITEM_QUERY_JUNK \<equiv> 12"
abbreviation (input) AP_ITEM_QUERY_MOVE :: nat where "AP_ITEM_QUERY_MOVE \<equiv> 13"
abbreviation (input) AP_ITEM_QUERY_GOLDEN_BANANA :: nat where "AP_ITEM_QUERY_GOLDEN_BANANA \<equiv> 14"
abbreviation (input) AP_ITEM_QUERY_SHOPKEEPER :: nat where "AP_ITEM_QUERY_SHOPKEEPER \<equiv> 15"

definition items_active :: "game \<Rightarrow> ap_campaign_inventory publication \<Rightarrow> bool" where
  "items_active g st \<longleftrightarrow> published_ready st \<noteq> 0 \<and> current_file g = 0 \<and> mode_has g AP_GAMEPLAY_ITEMS \<and>
     trailer_is g (published_identity st)"

definition capped :: "u32 \<Rightarrow> int" where
  "capped value = (if value > 0x7FFFFFFF then 0x7FFFFFFF else uint value)"

function popcount :: "u32 \<Rightarrow> int" where
  "popcount value = (if value = 0 then 0 else uint (value AND 1) + popcount (drop_bit 1 value))"
  by auto
termination
proof (relation "measure unat")
  fix v :: u32
  assume "v \<noteq> 0"
  then have "0 < unat v" by (simp add: unat_gt_0)
  then show "(drop_bit 1 v, v) \<in> measure unat" by (simp add: unat_drop_bit_eq drop_bit_eq_div unat_div)
qed simp

declare popcount.simps [simp del]

text \<open>\<open>!!(mask & (1u << n))\<close>\<close>

definition mask_bit :: "u8 \<Rightarrow> int \<Rightarrow> int" where
  "mask_bit byte n = c_bool (byte AND bit8 (nat n) \<noteq> 0)"

definition ap_campaign_items_stage ::
  "game \<Rightarrow> ap_campaign_inventory publication \<Rightarrow> ap_campaign_inventory publication \<Rightarrow> ap_campaign_save cptr
     \<Rightarrow> int \<times> ap_campaign_inventory publication" where
  "ap_campaign_items_stage g staged st identity =
     (if identity = Null \<or> current_file g \<noteq> 0 \<or> ap_gameplay_mode g \<noteq> 0 then (0, st)
      else case ap_campaign_inventory_snapshot g staged (Ptr 0 zero_inventory) identity of (r, candidate) \<Rightarrow>
        if r \<noteq> 1 then (0, st)
        else (1, st\<lparr>published := deref candidate, published_identity := deref identity, published_ready := 1\<rparr>))"

definition hint_count :: "ap_campaign_inventory \<Rightarrow> int \<Rightarrow> int \<Rightarrow> int" where
  "hint_count inven level kong =
     fold (\<lambda>k cnt. if kong = - 1 \<or> kong = int k
        then fold (\<lambda>l cnt. if (level = - 1 \<or> level = int l) \<and> hints inven ! k AND bit8 l \<noteq> 0 then cnt + 1 else cnt)
          [0..<8] cnt
        else cnt) [0..<5] 0"

definition trap_total :: "ap_campaign_inventory \<Rightarrow> u32" where
  "trap_total inven = fold (\<lambda>i total. let next = total + traps inven ! i
     in if next < total then 0xFFFFFFFF else next) [0..<AP_TRAP_TYPE_COUNT] 0"

definition move_query :: "ap_campaign_inventory \<Rightarrow> int \<Rightarrow> int \<Rightarrow> int" where
  "move_query inven level kong =
     (if 0 \<le> level \<and> level < 3 then
        if 0 \<le> kong \<and> kong < 5 then mask_bit (moves inven ! nat kong) level else - 1
      else if level = 3 then if kong = 0 then uint (slam inven) else - 1
      else if level = 4 then
        if 0 \<le> kong \<and> kong < 5 then c_bool (guns inven ! nat kong AND 1 \<noteq> 0) else - 1
      else if level = 5 \<or> level = 6 then if kong = 0 then mask_bit (guns inven ! 0) (level - 4) else - 1
      else if level = 7 then if kong = 0 then uint (belt inven) else - 1
      else if level = 8 then
        if 0 \<le> kong \<and> kong < 5 then c_bool (instruments inven ! nat kong AND 1 \<noteq> 0) else - 1
      else if level = 9 then if kong = 0 then uint (instrument_upgrades inven) else - 1
      else if level = 10 then
        if 0 \<le> kong \<and> kong < 6 then c_bool (abilities inven AND drop_bit (nat kong) 0x80 \<noteq> 0) else - 1
      else if level = 11 then if kong = 0 then c_bool (climbing inven \<noteq> 0) else - 1
      else if level = 12 then if kong = 0 then c_bool (abilities inven AND 12 = 12) else - 1
      else - 1)"

definition item_query :: "ap_campaign_inventory \<Rightarrow> nat \<Rightarrow> int \<Rightarrow> int \<Rightarrow> int" where
  "item_query inven item level kong =
     (let counter = (\<lambda>v. if level = 0 \<and> kong = 0 then capped v else - 1) in
      if item = AP_ITEM_QUERY_KONG then
        if level \<noteq> - 1 \<and> level \<noteq> 0 then - 1
        else if kong = - 1 then popcount (ucast (kongs inven) AND 31)
        else if 0 \<le> kong \<and> kong < 5 then mask_bit (kongs inven) kong else - 1
      else if item = AP_ITEM_QUERY_KEY then
        if kong \<noteq> - 1 \<and> kong \<noteq> 0 then - 1
        else if level = - 1 then popcount (ucast (keys inven))
        else if 0 \<le> level \<and> level < 8 then mask_bit (keys inven) level else - 1
      else if item = AP_ITEM_QUERY_HINT then
        if level < - 1 \<or> 8 \<le> level \<or> kong < - 1 \<or> 5 \<le> kong then - 1 else hint_count inven level kong
      else if item = AP_ITEM_QUERY_BLUEPRINT then
        if level \<noteq> - 1 \<and> level \<noteq> 0 then - 1
        else if kong < - 1 \<or> 5 \<le> kong then - 1
        else if 0 \<le> kong then uint (blueprints inven ! nat kong)
        else uint (blueprints inven ! 0) + uint (blueprints inven ! 1) + uint (blueprints inven ! 2) +
          uint (blueprints inven ! 3) + uint (blueprints inven ! 4)
      else if item = AP_ITEM_QUERY_FAIRY then counter (fairies inven)
      else if item = AP_ITEM_QUERY_CROWN then counter (crowns inven)
      else if item = AP_ITEM_QUERY_COMPANY_COIN then
        if level \<noteq> 0 \<or> kong < - 1 \<or> 1 < kong then - 1
        else if kong = 0 then mask_bit (special inven) 0
        else if kong = 1 then mask_bit (special inven) 1
        else mask_bit (special inven) 0 + mask_bit (special inven) 1
      else if item = AP_ITEM_QUERY_MEDAL then counter (medals inven)
      else if item = AP_ITEM_QUERY_BEAN then
        if level = 0 \<and> kong = 0 then mask_bit (special inven) 2 else - 1
      else if item = AP_ITEM_QUERY_PEARL then counter (pearls inven)
      else if item = AP_ITEM_QUERY_RAINBOW_COIN then counter (rainbow_coins inven)
      else if item = AP_ITEM_QUERY_TRAP then
        if level \<noteq> - 1 \<and> (level < 0 \<or> int AP_TRAP_TYPE_COUNT \<le> level) then - 1
        else if kong \<noteq> - 1 \<and> kong \<noteq> 0 then - 1
        else if 0 \<le> level then capped (traps inven ! nat level)
        else capped (trap_total inven)
      else if item = AP_ITEM_QUERY_JUNK then counter (junk inven)
      else if item = AP_ITEM_QUERY_MOVE then move_query inven level kong
      else if item = AP_ITEM_QUERY_GOLDEN_BANANA then counter (golden_bananas inven)
      else if item = AP_ITEM_QUERY_SHOPKEEPER then
        if level \<noteq> 0 then - 1
        else if kong = - 1 then popcount (ucast (shopkeepers inven) AND 15)
        else if 0 \<le> kong \<and> kong < 4 then mask_bit (shopkeepers inven) kong else - 1
      else - 1)"

definition ap_campaign_item_count ::
  "game \<Rightarrow> ap_campaign_inventory publication \<Rightarrow> nat \<Rightarrow> int \<Rightarrow> int \<Rightarrow> int" where
  "ap_campaign_item_count g st item level kong =
     (if \<not> items_active g st then - 1 else item_query (published st) item level kong)"

definition ap_campaign_item_has_flag :: "game \<Rightarrow> ap_campaign_inventory publication \<Rightarrow> u32 \<Rightarrow> int" where
  "ap_campaign_item_has_flag g st flag =
     (if items_active g st then ap_campaign_inventory_has_flag (Ptr 0 (published st)) flag else - 1)"

definition gameplay_count ::
  "game \<Rightarrow> ap_campaign_inventory publication \<Rightarrow> nat \<Rightarrow> int \<Rightarrow> int \<Rightarrow> int" where
  "gameplay_count g st item level kong =
     (let value = ap_campaign_item_count g st item level kong in if value < 0 then 0 else value)"

definition ap_campaign_original_item_count ::
  "game \<Rightarrow> ap_campaign_inventory publication \<Rightarrow> int \<Rightarrow> int \<Rightarrow> int \<Rightarrow> int" where
  "ap_campaign_original_item_count g st item level kong =
     (let count_of = gameplay_count g st in
      if item = 1 then count_of AP_ITEM_QUERY_KONG 0 kong
      else if item = 2 then
        let kong = (if level \<in> {3, 5, 6, 7, 9, 11, 12} then 0 else kong)
        in count_of AP_ITEM_QUERY_MOVE level kong
      else if item = 3 then count_of AP_ITEM_QUERY_GOLDEN_BANANA 0 0
      else if item = 4 then count_of AP_ITEM_QUERY_BLUEPRINT 0 kong
      else if item = 5 then count_of AP_ITEM_QUERY_FAIRY 0 0
      else if item = 6 then count_of AP_ITEM_QUERY_KEY level 0
      else if item = 7 then count_of AP_ITEM_QUERY_CROWN 0 0
      else if item = 8 then count_of AP_ITEM_QUERY_COMPANY_COIN 0 kong
      else if item = 9 then count_of AP_ITEM_QUERY_MEDAL 0 0
      else if item = 10 then count_of AP_ITEM_QUERY_BEAN 0 0
      else if item = 11 then count_of AP_ITEM_QUERY_PEARL 0 0
      else if item = 12 then count_of AP_ITEM_QUERY_RAINBOW_COIN 0 0
      else if item = 13 then count_of AP_ITEM_QUERY_TRAP (- 1) 0
      else if item = 18 then count_of AP_ITEM_QUERY_JUNK 0 0
      else if item = 19 then count_of AP_ITEM_QUERY_HINT level kong
      else if item = 20 then count_of AP_ITEM_QUERY_SHOPKEEPER 0 kong
      else 0)"

text \<open>The ownership flags of the five Kongs, and the loop over them.\<close>

definition kong_flags :: "int list" where
  "kong_flags = [0x181, 0x006, 0x046, 0x042, 0x075]"

fun kong_from_flag :: "int \<Rightarrow> int list \<Rightarrow> int \<Rightarrow> int option" where
  "kong_from_flag flag [] k = None"
| "kong_from_flag flag (f # fs) k = (if flag = f then Some k else kong_from_flag flag fs (k + 1))"

definition ap_campaign_get_kong_ownership_from_flag ::
  "game \<Rightarrow> ap_campaign_inventory publication \<Rightarrow> int \<Rightarrow> int" where
  "ap_campaign_get_kong_ownership_from_flag g st flag =
     (case kong_from_flag flag kong_flags 0 of None \<Rightarrow> 0
      | Some kong \<Rightarrow> gameplay_count g st AP_ITEM_QUERY_KONG 0 kong)"

definition flag_move_selector :: "int \<Rightarrow> int" where
  "flag_move_selector flag =
     (if flag = 0x182 then 0 else if flag = 0x184 then 1 else if flag = 0x185 then 2
      else if flag = 0x183 then 3 else if flag = 0x2FD then 4 else if flag = 0x179 then 5 else - 1)"

definition ap_campaign_has_flag_move ::
  "(u16 \<Rightarrow> u8 \<Rightarrow> u8) \<Rightarrow> game \<Rightarrow> ap_campaign_inventory publication \<Rightarrow> int \<Rightarrow> int" where
  "ap_campaign_has_flag_move isFlagSet g st flag =
     (let selector = flag_move_selector flag in
      if \<not> mode_has g AP_GAMEPLAY_ITEMS then
        if flag = 0x2FD then 0 else uint (isFlagSet (word_of_int flag) 0)
      else if selector < 0 then uint (isFlagSet (word_of_int flag) 0)
      else c_bool (ap_campaign_item_count g st AP_ITEM_QUERY_MOVE 10 selector > 0))"

definition ap_campaign_items_reset ::
  "ap_campaign_inventory publication \<Rightarrow> ap_campaign_inventory publication" where
  "ap_campaign_items_reset st =
     st\<lparr>published := deref (ap_campaign_inventory_clear (Ptr 0 (published st))),
        published_identity := zero_save, published_ready := 0\<rparr>"


section \<open>When the queries answer\<close>

lemma items_active_iff:
  assumes "game_ok g" "publication_ok st"
  shows "items_active g st \<longleftrightarrow>
     published_ready st \<noteq> 0 \<and> mode_has g AP_GAMEPLAY_ITEMS \<and> bound_trailer g = Some (published_identity st)"
  using assms by (auto simp: items_active_def trailer_is_iff publication_ok_def dest: bound_trailer_file)

lemma items_stage_iff:
  assumes "game_ok g" "publication_ok staged" "save_ok i"
  shows "ap_campaign_items_stage g staged st (Ptr a i) = (1, st') \<longleftrightarrow>
     ap_gameplay_mode g = 0 \<and> inventory_view g staged = Some (published staged) \<and>
     published_identity staged = i \<and>
     st' = st\<lparr>published := published staged, published_identity := i, published_ready := 1\<rparr>"
proof -
  obtain r out where run:
    "ap_campaign_inventory_snapshot g staged (Ptr 0 zero_inventory) (Ptr a i) = (r, out)" by fastforce
  have snap: "r = 1 \<and> out = q \<longleftrightarrow> published_ready staged \<noteq> 0 \<and> published_identity staged = i \<and>
      bound_trailer g = Some i \<and> q = Ptr 0 (published staged)" for q
    using inventory_snapshot_iff [OF assms, where a = 0 and b = a and x = zero_inventory and out = q]
    by (simp add: run)
  then have ok: "r = 1 \<longleftrightarrow> inventory_view g staged = Some (published staged) \<and> published_identity staged = i"
    unfolding inventory_view_iff [OF assms(1,2)] by (metis (full_types))
  have "r = 1 \<Longrightarrow> deref out = published staged" using snap [of out] by auto
  with ok show ?thesis
    by (auto simp: ap_campaign_items_stage_def run inventory_view_iff [OF assms(1,2)]
        dest: bound_trailer_file)
qed

definition items_put ::
  "game \<Rightarrow> ap_campaign_inventory publication \<Rightarrow> ap_campaign_save \<Rightarrow> ap_campaign_inventory publication
     \<Rightarrow> ap_campaign_inventory publication option" where
  "items_put g st i staged =
     (case ap_campaign_items_stage g staged st (Ptr 0 i) of (r, st') \<Rightarrow>
        if r = 1 \<and> publication_ok staged then Some st' else None)"

definition items_view ::
  "game \<Rightarrow> ap_campaign_inventory publication \<Rightarrow> ap_campaign_inventory option" where
  "items_view g st = (if items_active g st then Some (published st) else None)"

lemma items_put_iff:
  assumes "game_ok g" "save_ok i"
  shows "items_put g st i staged = Some st' \<longleftrightarrow>
     publication_ok staged \<and> ap_campaign_items_stage g staged st (Ptr 0 i) = (1, st')"
  by (auto simp: items_put_def split: prod.split)

interpretation item_publication:
  publication items_put items_view "\<lambda>staged. Some (published staged)" publication_owner
    "\<lambda>g. mode_has g AP_GAMEPLAY_ITEMS" publication_ok
proof unfold_locales
  fix g i s x s' assume a: "game_ok g" "save_ok i" "items_put g s i x = Some s'"
  then have x: "publication_ok x" and st: "ap_campaign_items_stage g x s (Ptr 0 i) = (1, s')"
    by (simp_all add: items_put_iff)
  note eff = st [unfolded items_stage_iff [OF a(1) x a(2)]]
  from eff show "bound_trailer g = Some i" by (auto simp: inventory_view_iff [OF a(1) x])
  from eff a(2) show ok: "publication_ok s'" and "publication_owner s' = Some i"
    by (auto simp: publication_ok_def publication_owner_def)
  fix g' assume g': "game_ok g'" "bound_trailer g' = Some i" "mode_has g' AP_GAMEPLAY_ITEMS"
  with eff show "items_view g' s' = Some (published x)"
    unfolding items_view_def items_active_iff [OF g'(1) ok] by simp
next
  fix g v and s :: "ap_campaign_inventory publication"
  assume "game_ok g" "publication_ok s" "items_view g s = Some v"
  then show "publication_owner s \<noteq> None \<and> bound_trailer g = publication_owner s"
    by (auto simp: items_view_def items_active_iff publication_owner_def split: if_splits)
qed

section \<open>The range of the counts\<close>

lemma popcount_zero [simp]: "popcount 0 = 0"
  by (simp add: popcount.simps)

lemma popcount_sum: "popcount w = (\<Sum>n<32. of_bool (bit w n))"
proof (induction w rule: popcount.induct)
  case (1 w)
  show ?case
  proof (cases "w = 0")
    case False
    have "(\<Sum>n<Suc 31. of_bool (bit w n)) = of_bool (bit w 0) + (\<Sum>n<31. of_bool (bit w (Suc n)) :: int)"
      by (rule sum.lessThan_Suc_shift)
    also have "(\<Sum>n<31. of_bool (bit w (Suc n)) :: int) = (\<Sum>n<31. of_bool (bit (drop_bit 1 w) n))"
      by (simp only: bit_drop_bit_eq comp_apply plus_1_eq_Suc)
    also have "\<dots> = (\<Sum>n<Suc 31. of_bool (bit (drop_bit 1 w) n))"
      unfolding sum.lessThan_Suc using bit_imp_le_length [of w 32]
      by (simp only: bit_drop_bit_eq) auto
    finally have "(\<Sum>n<32. of_bool (bit w n)) = of_bool (bit w 0) + (\<Sum>n<32. of_bool (bit (drop_bit 1 w) n) :: int)"
      by simp
    moreover have "uint (w AND 1) = of_bool (bit w 0)"
      by (simp add: and_one_eq bit_0 mod_2_eq_odd)
    ultimately show ?thesis using 1 [OF False] False by (simp add: popcount.simps [of w])
  qed simp
qed

lemma popcount_mask:
  assumes "\<And>n. m \<le> n \<Longrightarrow> \<not> bit w n" "m \<le> 32"
  shows "popcount w = (\<Sum>n<m. of_bool (bit w n))"
  unfolding popcount_sum using assms
  by (intro sum.mono_neutral_right) auto

lemma popcount_range: "0 \<le> popcount w" "popcount w \<le> 32"
proof -
  have "(\<Sum>n<32. of_bool (bit w n)) \<le> (\<Sum>n<(32 :: nat). 1 :: int)" by (rule sum_mono) simp
  then show "popcount w \<le> 32" by (simp add: popcount_sum)
  show "0 \<le> popcount w" by (simp add: popcount_sum sum_nonneg)
qed

lemma mask_bit_range: "0 \<le> mask_bit b n" "mask_bit b n \<le> 1"
  by (simp_all add: mask_bit_def)

lemma capped_range: "0 \<le> capped v" "capped v \<le> 0x7FFFFFFF"
  by (simp_all add: capped_def word_less_alt not_less)

lemma uint_u8_range: "0 \<le> uint (b :: u8)" "uint (b :: u8) \<le> 255"
  using uint_bounded [of b] by simp_all

lemma fold_if_count:
  "fold (\<lambda>x c. if P x then c + 1 else c) xs (c :: int) = c + (\<Sum>x\<leftarrow>xs. of_bool (P x))"
  by (induction xs arbitrary: c) auto

lemma fold_if_add:
  "fold (\<lambda>x c. if Q x then c + f x else c) xs (c :: int) = c + (\<Sum>x\<leftarrow>xs. if Q x then f x else 0)"
  by (induction xs arbitrary: c) auto

lemma hint_count_sum:
  "hint_count i level kong = (\<Sum>k\<leftarrow>[0..<5]. if kong = - 1 \<or> kong = int k
     then (\<Sum>l\<leftarrow>[0..<8]. of_bool ((level = - 1 \<or> level = int l) \<and> hints i ! k AND bit8 l \<noteq> 0)) else 0)"
  unfolding hint_count_def fold_if_count fold_if_add by simp

lemma sum_list_of_bool: "0 \<le> (\<Sum>x\<leftarrow>xs. of_bool (P x) :: int)" "(\<Sum>x\<leftarrow>xs. of_bool (P x) :: int) \<le> int (length xs)"
  by (induction xs) auto

lemma hint_count_range: "0 \<le> hint_count i level kong" "hint_count i level kong \<le> 40"
proof -
  define row where "row k = (if kong = - 1 \<or> kong = int k
     then (\<Sum>l\<leftarrow>[0..<8]. of_bool ((level = - 1 \<or> level = int l) \<and> hints i ! k AND bit8 l \<noteq> 0)) else (0 :: int))" for k
  have row: "0 \<le> row k" "row k \<le> 8" for k
    using sum_list_of_bool [of _ "[0..<8]"] by (simp_all add: row_def del: upt_rec_numeral)
  have "0 \<le> sum_list (map row ks) \<and> sum_list (map row ks) \<le> 8 * int (length ks)" for ks
  proof (induction ks)
    case (Cons k ks)
    then show ?case using row [of k] by simp
  qed simp
  from this [of "[0..<5]"] show "0 \<le> hint_count i level kong" "hint_count i level kong \<le> 40"
    unfolding hint_count_sum row_def [symmetric] by (simp_all del: upt_rec_numeral)
qed

lemma move_query_range: "- 1 \<le> move_query i level kong" "move_query i level kong \<le> 255"
proof -
  have r: "-1 \<le> mask_bit b n" "mask_bit b n \<le> 255" "-1 \<le> uint (b :: u8)" "uint b \<le> 255"
    "-1 \<le> c_bool p" "c_bool p \<le> 255" for b n p
    using mask_bit_range [of b n] uint_u8_range [of b] by (linarith | simp add: c_bool_def)+
  show "- 1 \<le> move_query i level kong" unfolding move_query_def by (simp add: r)
  show "move_query i level kong \<le> 255" unfolding move_query_def by (simp add: r)
qed

lemma nat_unat_add: "unat ((a :: u32) + b) = (if unat a + unat b < 4294967296 then unat a + unat b else unat a + unat b - 4294967296)"
  using u32_less [of a] u32_less [of b] by (simp add: unat_word_ariths mod_if)

definition saturating_sum :: "u32 list \<Rightarrow> u32 \<Rightarrow> u32" where
  "saturating_sum = fold (\<lambda>v total. let next = total + v in if next < total then 0xFFFFFFFF else next)"

lemma unat_saturating_sum:
  "unat (saturating_sum vs t) = min 4294967295 (unat t + (\<Sum>v\<leftarrow>vs. unat v))"
proof (induction vs arbitrary: t)
  case (Cons v vs)
  have step: "unat (let next = t + v in if next < t then 0xFFFFFFFF else next) = min 4294967295 (unat t + unat v)"
    using u32_less [of t] u32_less [of v] by (auto simp: Let_def word_less_nat_alt nat_unat_add split: if_splits)
  from Cons.IH [of "let next = t + v in if next < t then 0xFFFFFFFF else next"]
  have "unat (saturating_sum vs (let next = t + v in if next < t then 0xFFFFFFFF else next)) =
      min 4294967295 (min 4294967295 (unat t + unat v) + (\<Sum>v\<leftarrow>vs. unat v))" unfolding step .
  then show ?case by (simp add: saturating_sum_def)
next
  case Nil
  then show ?case using u32_less [of t] by (simp add: saturating_sum_def)
qed

lemma trap_total_eq: "length (traps i) = 16 \<Longrightarrow> trap_total i = saturating_sum (traps i) 0"
proof -
  assume "length (traps i) = 16"
  then have "traps i = map ((!) (traps i)) [0..<16]" by (metis map_nth)
  then have "saturating_sum (traps i) 0 = saturating_sum (map ((!) (traps i)) [0..<16]) 0" by simp
  also have "\<dots> = trap_total i"
    unfolding saturating_sum_def trap_total_def fold_map by (simp only: comp_def)
  finally show ?thesis by simp
qed

lemma capped_min: "capped v = min 0x7FFFFFFF (uint v)"
  by (simp add: capped_def word_less_alt min_def)

lemma int_unat_sum: "int (\<Sum>v\<leftarrow>vs. unat v) = (\<Sum>v\<leftarrow>vs. uint v)"
  by (induction vs) simp_all

lemma capped_trap_total:
  "length (traps i) = 16 \<Longrightarrow> capped (trap_total i) = min 0x7FFFFFFF (\<Sum>v\<leftarrow>traps i. uint v)"
proof -
  assume "length (traps i) = 16"
  then have "unat (trap_total i) = min 4294967295 (\<Sum>v\<leftarrow>traps i. unat v)"
    by (simp add: trap_total_eq unat_saturating_sum)
  then have "int (unat (trap_total i)) = min 4294967295 (int (\<Sum>v\<leftarrow>traps i. unat v))"
    by (simp only: of_nat_min of_nat_numeral)
  also have "int (\<Sum>v\<leftarrow>traps i. unat v) = (\<Sum>v\<leftarrow>traps i. uint v)"
    by (rule int_unat_sum)
  finally show ?thesis by (simp add: capped_min min_def)
qed

lemma le_if: "a \<le> x \<Longrightarrow> a \<le> y \<Longrightarrow> a \<le> (if c then x else y)"
  and if_le: "x \<le> a \<Longrightarrow> y \<le> a \<Longrightarrow> (if c then x else y) \<le> a"
  by simp_all

lemma item_query_range: "- 1 \<le> item_query i item level kong" "item_query i item level kong \<le> 0x7FFFFFFF"
proof -
  have byte: "0 \<le> uint (b :: u8)" "uint (b :: u8) \<le> 255" for b by (rule uint_u8_range)+
  have sums: "uint (a :: u8) + uint (b :: u8) + uint (c :: u8) + uint (d :: u8) + uint (e :: u8) \<le> 1275"
    "0 \<le> uint a + uint b + uint c + uint d + uint e" for a b c d e
    using byte [of a] byte [of b] byte [of c] byte [of d] byte [of e] by linarith+
  have pop: "-1 \<le> popcount w" "popcount w \<le> 2147483647" for w using popcount_range [of w] by linarith+
  have bits: "-1 \<le> mask_bit b n" "mask_bit b n \<le> 2147483647" "-1 \<le> mask_bit b n + mask_bit b m"
    "mask_bit b n + mask_bit b m \<le> 2147483647" for b n m
    using mask_bit_range [of b n] mask_bit_range [of b m] by linarith+
  have rest: "-1 \<le> hint_count i l k" "hint_count i l k \<le> 2147483647" "move_query i l k \<le> 2147483647"
    "-1 \<le> capped v" "-1 \<le> uint (b :: u8)" "uint b \<le> 2147483647" for l k v b
    using hint_count_range [of i l k] move_query_range [of i l k] capped_range [of v] byte [of b] by linarith+
  show "- 1 \<le> item_query i item level kong"
    unfolding item_query_def Let_def
    by (intro le_if) (simp_all add: pop bits rest move_query_range order_trans [OF _ sums(2)])
  show "item_query i item level kong \<le> 0x7FFFFFFF"
    unfolding item_query_def Let_def
    by (intro if_le) (simp_all add: pop bits rest capped_range order_trans [OF sums(1)])
qed


section \<open>Fail-closed behaviour\<close>

lemma count_inactive: "\<not> items_active g st \<Longrightarrow> ap_campaign_item_count g st item level kong = - 1"
  by (simp add: ap_campaign_item_count_def)

lemma gameplay_count_inactive: "\<not> items_active g st \<Longrightarrow> gameplay_count g st item level kong = 0"
  by (simp add: gameplay_count_def count_inactive)

lemma gameplay_count_range: "0 \<le> gameplay_count g st item level kong" "gameplay_count g st item level kong \<le> 0x7FFFFFFF"
  using item_query_range [of "published st" item level kong]
  by (auto simp: gameplay_count_def ap_campaign_item_count_def Let_def)

lemma if_zero: "x = 0 \<Longrightarrow> y = 0 \<Longrightarrow> (if c then x else y) = 0"
  by simp

lemma original_count_range:
  "0 \<le> ap_campaign_original_item_count g st item level kong"
  "ap_campaign_original_item_count g st item level kong \<le> 0x7FFFFFFF"
  unfolding ap_campaign_original_item_count_def Let_def
  by (intro le_if if_le gameplay_count_range; simp)+

lemma original_count_inactive:
  "\<not> items_active g st \<Longrightarrow> ap_campaign_original_item_count g st item level kong = 0"
  unfolding ap_campaign_original_item_count_def Let_def
  by (intro if_zero gameplay_count_inactive refl)

text \<open>
  the adapters the patched game calls fail closed: while the publication is missing or stale, or
  the item capability is off, every count is zero, no Kong is owned and no flag is reported; and in
  any state every count is a nonnegative C int.
\<close>

theorem item_counts_fail_closed:
  "0 \<le> ap_campaign_original_item_count g st item level kong \<and>
   ap_campaign_original_item_count g st item level kong \<le> 0x7FFFFFFF \<and>
   (\<not> items_active g st \<longrightarrow>
      ap_campaign_original_item_count g st item level kong = 0 \<and>
      ap_campaign_get_kong_ownership_from_flag g st flag = 0 \<and>
      ap_campaign_item_has_flag g st f = - 1 \<and>
      (mode_has g AP_GAMEPLAY_ITEMS \<and> flag \<in> {0x182, 0x184, 0x185, 0x183, 0x2FD, 0x179} \<longrightarrow>
         ap_campaign_has_flag_move stock g st flag = 0))"
  by (auto simp: original_count_range original_count_inactive ap_campaign_get_kong_ownership_from_flag_def
      gameplay_count_inactive ap_campaign_item_has_flag_def ap_campaign_has_flag_move_def Let_def
      count_inactive flag_move_selector_def split: option.split)

theorem item_counts_fail_closed_witness:
  "ap_campaign_original_item_count (bound_game AP_GAMEPLAY_MOVES 2) empty_publication 1 0 3 = 0 \<and>
   ap_campaign_has_flag_move (\<lambda>_ _. 1) (bound_game AP_GAMEPLAY_ITEMS 2) empty_publication 0x182 = 0"
proof -
  have "\<not> items_active g empty_publication" for g
    by (simp add: items_active_def empty_publication_def)
  with item_counts_fail_closed [where g = "bound_game AP_GAMEPLAY_MOVES 2" and st = empty_publication
      and item = 1 and level = 0 and kong = 3]
    item_counts_fail_closed [where g = "bound_game AP_GAMEPLAY_ITEMS 2" and st = empty_publication
      and flag = "0x182" and stock = "\<lambda>_ _. 1"]
  show ?thesis by (simp add: mode_has_def)
qed

section \<open>Totals and parts\<close>

lemma and_bit8: "w AND bit8 k \<noteq> 0 \<longleftrightarrow> k < 8 \<and> bit w k"
proof -
  have "x = 0 \<longleftrightarrow> (\<forall>n. \<not> bit x n)" for x :: u8
    using bit_imp_le_length [of x] by (auto simp: bit_eq_iff)
  from this [of "w AND bit8 k"] show ?thesis by (auto simp: bit_and_iff)
qed

lemma mask_bit_eq: "k < 8 \<Longrightarrow> mask_bit b (int k) = of_bool (bit b k)"
  by (simp add: mask_bit_def and_bit8 c_bool_def)

lemma bit_5_mask: "bit (31 :: u32) n \<longleftrightarrow> n < 5" and bit_4_mask: "bit (15 :: u32) n \<longleftrightarrow> n < 4"
proof -
  have m: "(31 :: u32) = mask 5" "(15 :: u32) = mask 4" by (simp_all add: mask_eq_exp_minus_1)
  show "bit (31 :: u32) n \<longleftrightarrow> n < 5" unfolding m(1) bit_mask_iff by auto
  show "bit (15 :: u32) n \<longleftrightarrow> n < 4" unfolding m(2) bit_mask_iff by auto
qed

lemma popcount_low:
  assumes "m \<le> 8" and "\<And>n. bit w n \<longleftrightarrow> n < m \<and> bit (b :: u8) n"
  shows "popcount w = (\<Sum>n<m. mask_bit b (int n))"
proof -
  have "popcount w = (\<Sum>n<m. of_bool (bit w n))"
    by (rule popcount_mask) (use assms in auto)
  also have "\<dots> = (\<Sum>n<m. mask_bit b (int n))"
    by (rule sum.cong) (use assms in \<open>auto simp: mask_bit_eq\<close>)
  finally show ?thesis .
qed

lemma popcount_kongs: "popcount (ucast b AND 31) = (\<Sum>n<5. mask_bit b (int n))"
  by (rule popcount_low; simp only: bit_and_iff bit_ucast_iff bit_5_mask) auto

lemma popcount_keepers: "popcount (ucast b AND 15) = (\<Sum>n<4. mask_bit b (int n))"
  by (rule popcount_low; simp only: bit_and_iff bit_ucast_iff bit_4_mask) auto

lemma popcount_keys: "popcount (ucast b) = (\<Sum>n<8. mask_bit b (int n))"
  by (rule popcount_low) (auto simp: bit_simps dest: bit_imp_le_length)

lemma hint_count_parts:
  "hint_count i level kong = (\<Sum>k\<leftarrow>[0..<5]. if kong = - 1 \<or> kong = int k
     then (\<Sum>l\<leftarrow>[0..<8]. if level = - 1 \<or> level = int l then mask_bit (hints i ! k) (int l) else 0) else 0)"
proof -
  have bit: "of_bool (P \<and> h AND bit8 l \<noteq> 0) = (if P then mask_bit h (int l) else 0)" for P h l
    by (simp add: mask_bit_def c_bool_def)
  show ?thesis unfolding hint_count_sum bit ..
qed

lemma hint_selected:
  "l < 8 \<Longrightarrow> k < 5 \<Longrightarrow> hint_count i (int l) (int k) = mask_bit (hints i ! k) (int l)"
proof -
  assume l: "l < 8" and k: "k < 5"
  have one: "(\<Sum>x\<leftarrow>[0..<n]. if y = x then f x else 0) = (if y < n then f y else (0 :: int))" for f y n
    by (induction n) auto
  have neg: "int n = - 1 \<longleftrightarrow> False" for n by simp
  show ?thesis
    unfolding hint_count_parts neg of_nat_eq_iff simp_thms one using k l by simp
qed

lemma hint_total:
  "hint_count i (- 1) (- 1) = (\<Sum>k<5. \<Sum>l<8. hint_count i (int l) (int k))"
proof -
  have "hint_count i (- 1) (- 1) = (\<Sum>k<5. \<Sum>l<8. mask_bit (hints i ! k) (int l))"
    unfolding hint_count_parts
    by (simp add: interv_sum_list_conv_sum_set_nat atLeast0LessThan del: upt_rec_numeral)
  also have "\<dots> = (\<Sum>k<5. \<Sum>l<8. hint_count i (int l) (int k))"
    by (intro sum.cong) (simp_all add: hint_selected)
  finally show ?thesis .
qed

text \<open>
  The wildcard selectors are consistent with the individual ones: while the queries answer, the
  total over all Kongs, keys, hints, blueprints, coins and shopkeepers is the sum of the parts, and
  the trap total is the exact sum of the trap counters up to the largest C int, in spite of the
  32 bit additions of the code.
\<close>

theorem item_totals:
  assumes "items_active g st" and "length (traps (published st)) = 16"
  defines "cnt \<equiv> ap_campaign_item_count g st"
  shows "cnt AP_ITEM_QUERY_KONG 0 (- 1) = (\<Sum>k<5. cnt AP_ITEM_QUERY_KONG 0 (int k)) \<and>
    cnt AP_ITEM_QUERY_KEY (- 1) 0 = (\<Sum>l<8. cnt AP_ITEM_QUERY_KEY (int l) 0) \<and>
    cnt AP_ITEM_QUERY_HINT (- 1) (- 1) = (\<Sum>k<5. \<Sum>l<8. cnt AP_ITEM_QUERY_HINT (int l) (int k)) \<and>
    cnt AP_ITEM_QUERY_BLUEPRINT 0 (- 1) = (\<Sum>k<5. cnt AP_ITEM_QUERY_BLUEPRINT 0 (int k)) \<and>
    cnt AP_ITEM_QUERY_COMPANY_COIN 0 (- 1) = (\<Sum>k<2. cnt AP_ITEM_QUERY_COMPANY_COIN 0 (int k)) \<and>
    cnt AP_ITEM_QUERY_SHOPKEEPER 0 (- 1) = (\<Sum>k<4. cnt AP_ITEM_QUERY_SHOPKEEPER 0 (int k)) \<and>
    cnt AP_ITEM_QUERY_TRAP (- 1) 0 = min 0x7FFFFFFF (\<Sum>v\<leftarrow>traps (published st). uint v)"
proof -
  have cnt: "cnt = item_query (published st)"
    unfolding cnt_def ap_campaign_item_count_def using assms(1) by (simp add: fun_eq_iff)
  have two: "(\<Sum>k<2. f (k :: nat)) = f 0 + (f 1 :: int)" for f by (simp add: numeral_2_eq_2)
  have five: "(\<Sum>k<5. f (k :: nat)) = f 0 + f 1 + f 2 + f 3 + (f 4 :: int)" for f
    by (simp add: eval_nat_numeral)
  show ?thesis
    unfolding cnt using capped_trap_total [OF assms(2)]
    by (intro conjI) (simp_all add: item_query_def popcount_kongs popcount_keys popcount_keepers
        hint_total two five)
qed

definition example_items :: "u16 \<Rightarrow> u32 list \<Rightarrow> ap_campaign_inventory publication" where
  "example_items n ids =
     \<lparr>published = inventory_of ids, published_identity = example_save n, published_ready = 1\<rparr>"

lemma example_items_active [simp]: "items_active (bound_game AP_GAMEPLAY_ITEMS n) (example_items n ids)"
proof -
  have "publication_ok (example_items n ids)" by (simp add: publication_ok_def example_items_def)
  then show ?thesis by (simp add: items_active_iff mode_has_def example_items_def)
qed

theorem item_totals_witness:
  "ap_campaign_item_count (bound_game AP_GAMEPLAY_ITEMS 2) (example_items 2 [14041091, 14041092])
     AP_ITEM_QUERY_KONG 0 (- 1) =
   (\<Sum>k<5. ap_campaign_item_count (bound_game AP_GAMEPLAY_ITEMS 2) (example_items 2 [14041091, 14041092])
     AP_ITEM_QUERY_KONG 0 (int k))"
proof -
  have "length (traps (published (example_items 2 [14041091, 14041092]))) = 16"
    using inventory_of_wf by (simp add: inventory_wf_def example_items_def)
  from item_totals [OF example_items_active this] show ?thesis by (rule conjunct1)
qed

section \<open>From receipts to the game\<close>

lemma capped_small: "unat v \<le> 131070 \<Longrightarrow> capped v = int (unat v)"
proof -
  assume "unat v \<le> 131070"
  then have "int (unat v) \<le> int 131070" by (simp only: of_nat_le_iff)
  then have "uint v \<le> 131070" by simp
  then show ?thesis by (simp add: capped_min)
qed

lemma counter_query:
  fixes c :: "ap_campaign_inventory \<Rightarrow> u32"
  assumes "\<And>q i. c (run_op q i) = (if q = p then increment (c i) else c i)"
    and "c zero_inventory = 0" and "length ids \<le> 65535"
  shows "capped (c (inventory_of ids)) = int (received p ids)"
  using capped_small [of "c (inventory_of ids)"] received_le [OF assms(3), of p]
    inventory_of_counter [OF assms] by simp

lemma owned_bit:
  "k < 8 \<Longrightarrow> bit b k = (0 < n) \<Longrightarrow> mask_bit b (int k) = of_bool (0 < (n :: nat))"
  by (simp add: mask_bit_eq)

lemma inventory_queries:
  assumes "length ids \<le> 65535"
  shows "item_query (inventory_of ids) AP_ITEM_QUERY_GOLDEN_BANANA 0 0 = int (received Add_Banana ids)"
    "item_query (inventory_of ids) AP_ITEM_QUERY_FAIRY 0 0 = int (received Add_Fairy ids)"
    "item_query (inventory_of ids) AP_ITEM_QUERY_CROWN 0 0 = int (received Add_Crown ids)"
    "item_query (inventory_of ids) AP_ITEM_QUERY_MEDAL 0 0 = int (received Add_Medal ids)"
    "item_query (inventory_of ids) AP_ITEM_QUERY_PEARL 0 0 = int (received Add_Pearl ids)"
    "item_query (inventory_of ids) AP_ITEM_QUERY_MOVE 3 0 = int (min 3 (received Raise_Slam ids))"
    "k < 5 \<Longrightarrow> item_query (inventory_of ids) AP_ITEM_QUERY_KONG 0 (int k) = of_bool (0 < received (Free_Kong k) ids)"
    "k < 8 \<Longrightarrow> item_query (inventory_of ids) AP_ITEM_QUERY_KEY (int k) 0 = of_bool (0 < received (Get_Key k) ids)"
proof -
  note query = counter_query [OF _ _ assms]
  show "item_query (inventory_of ids) AP_ITEM_QUERY_GOLDEN_BANANA 0 0 = int (received Add_Banana ids)"
    "item_query (inventory_of ids) AP_ITEM_QUERY_FAIRY 0 0 = int (received Add_Fairy ids)"
    "item_query (inventory_of ids) AP_ITEM_QUERY_CROWN 0 0 = int (received Add_Crown ids)"
    "item_query (inventory_of ids) AP_ITEM_QUERY_MEDAL 0 0 = int (received Add_Medal ids)"
    "item_query (inventory_of ids) AP_ITEM_QUERY_PEARL 0 0 = int (received Add_Pearl ids)"
    unfolding item_query_def Let_def
    by (simp_all add: query [OF field_step(1)] query [OF field_step(2)] query [OF field_step(3)]
        query [OF field_step(4)] query [OF field_step(5)])
  have "unat (slam (inventory_of ids)) = min 3 (received Raise_Slam ids)"
    using inventory_of_capped [OF field_step(8), of ids] by simp
  then have "uint (slam (inventory_of ids)) = int (min 3 (received Raise_Slam ids))" by (simp only: uint_nat)
  then show "item_query (inventory_of ids) AP_ITEM_QUERY_MOVE 3 0 = int (min 3 (received Raise_Slam ids))"
    by (simp add: item_query_def move_query_def)
  show "item_query (inventory_of ids) AP_ITEM_QUERY_KONG 0 (int k) = of_bool (0 < received (Free_Kong k) ids)" if "k < 5"
    using that inventory_of_bit [OF bit_step(1), of k ids] by (simp add: item_query_def owned_bit)
  show "item_query (inventory_of ids) AP_ITEM_QUERY_KEY (int k) 0 = of_bool (0 < received (Get_Key k) ids)" if "k < 8"
    using that inventory_of_bit [OF bit_step(2), of k ids] by (simp add: item_query_def owned_bit)
qed

text \<open>
  C7: end to end: when a receipt prefix is staged for the current trailer and its inventory is
  published to the item queries, then in any later state with the same trailer and the item
  capability on, the game sees exactly the received items: each counter is the number of its
  receipts (slam capped at three), each Kong and key is owned exactly when it was received; and
  once the trailer moves on, nothing is answered until the next publication.
\<close>

theorem staged_item_counts:
  assumes "game_ok g" and "save_ok i" and "length ids = unat n" and "aligned (Ptr b ids)"
    and "ap_campaign_inventory_stage g inv0 (Ptr a i) (Ptr b ids) n = (1, inv1)"
    and "ap_campaign_items_stage g inv1 items0 (Ptr a i) = (1, items1)"
    and "game_ok g'" and "mode_has g' AP_GAMEPLAY_ITEMS"
  defines "cnt \<equiv> ap_campaign_item_count g' items1"
  shows "if bound_trailer g' = Some i then
      cnt AP_ITEM_QUERY_GOLDEN_BANANA 0 0 = int (received Add_Banana ids) \<and>
      cnt AP_ITEM_QUERY_FAIRY 0 0 = int (received Add_Fairy ids) \<and>
      cnt AP_ITEM_QUERY_CROWN 0 0 = int (received Add_Crown ids) \<and>
      cnt AP_ITEM_QUERY_MEDAL 0 0 = int (received Add_Medal ids) \<and>
      cnt AP_ITEM_QUERY_PEARL 0 0 = int (received Add_Pearl ids) \<and>
      cnt AP_ITEM_QUERY_MOVE 3 0 = int (min 3 (received Raise_Slam ids)) \<and>
      (\<forall>k<5. cnt AP_ITEM_QUERY_KONG 0 (int k) = of_bool (0 < received (Free_Kong k) ids)) \<and>
      (\<forall>k<8. cnt AP_ITEM_QUERY_KEY (int k) 0 = of_bool (0 < received (Get_Key k) ids))
    else cnt q l k = - 1"
proof -
  from inventory_stage_iff [THEN iffD1, OF assms(1-2,4,3,5)]
  have inv1: "inv1 = inv0\<lparr>published := inventory_of ids, published_identity := i, published_ready := 1\<rparr>"
    and len: "length ids \<le> 65535" using u16_less [of "save_counter i"] by auto
  then have ok1: "publication_ok inv1" using assms(2) by (simp add: publication_ok_def)
  with assms have put: "items_put g items0 i inv1 = Some items1"
    by (simp add: items_put_iff items_stage_iff [OF assms(1) ok1 assms(2)])
  from item_publication.view_staged [OF assms(1,2) put assms(7,8)]
  have view: "items_view g' items1 = (if bound_trailer g' = Some i then Some (inventory_of ids) else None)"
    by (simp add: inv1)
  show ?thesis
  proof (cases "bound_trailer g' = Some i")
    case True
    with view have "cnt = item_query (inventory_of ids)"
      unfolding cnt_def by (auto simp: fun_eq_iff items_view_def ap_campaign_item_count_def split: if_splits)
    with True show ?thesis
      by (simp only: simp_thms if_True) (intro conjI allI impI inventory_queries [OF len]; assumption)
  next
    case False
    with view have "\<not> items_active g' items1" by (auto simp: items_view_def)
    with False show ?thesis by (simp add: cnt_def count_inactive)
  qed
qed

theorem staged_item_counts_witness:
  "\<exists>st. ap_campaign_item_count (bound_game AP_GAMEPLAY_ITEMS 2) st AP_ITEM_QUERY_FAIRY 0 0 =
       int (received Add_Fairy [14041091, 14041092]) \<and>
     ap_campaign_item_count (bound_game AP_GAMEPLAY_ITEMS 3) st AP_ITEM_QUERY_FAIRY 0 0 = - 1"
proof -
  let ?ids = "[14041091, 14041092] :: u32 list"
  let ?inv = "example_items 2 ?ids"
  have stage: "ap_campaign_inventory_stage (bound_game 0 2) empty_publication (Ptr 0 (example_save 2))
      (Ptr 0 ?ids) 2 = (1, ?inv)"
    by (simp add: inventory_stage_iff kongs_supported empty_publication_def example_items_def)
  have ok: "publication_ok ?inv" by (simp add: publication_ok_def example_items_def)
  have items: "ap_campaign_items_stage (bound_game 0 2) ?inv empty_publication (Ptr 0 (example_save 2)) = (1, ?inv)"
    by (simp add: items_stage_iff ok inventory_view_iff) (simp add: empty_publication_def example_items_def)
  note run = staged_item_counts [OF _ _ _ _ stage items]
  have new: "example_save 3 \<noteq> example_save 2" by (rule distinct_counters) simp
  show ?thesis
    using run [of "bound_game AP_GAMEPLAY_ITEMS 2"]
      run [of "bound_game AP_GAMEPLAY_ITEMS 3" AP_ITEM_QUERY_FAIRY 0 0] new
    by (intro exI [of _ ?inv]) (simp add: mode_has_def)
qed

end
