(* ===== verification/Checks.thy ===== *)
theory Checks
  imports Publication
begin

text \<open>
  Location checks: the bit sets of \<^verbatim>\<open>mod/checks.h\<close> over the location catalog and the seed-bound
  ledger of \<^verbatim>\<open>mod/campaign_checks.c\<close>.  \<open>checks_of\<close> abstracts a bit set to the set of its
  location indices; every operation is characterised through it.  The locale at the end is the
  contract the campaign ledger and the shop ledger share.
\<close>

section \<open>Check sets\<close>

datatype ap_check_set = Check_Set (check_words: "u32 list")

definition no_checks :: ap_check_set where
  "no_checks = Check_Set (replicate AP_LOCATION_WORDS 0)"

definition ap_location_index :: "u32 \<Rightarrow> int" where
  "ap_location_index loc =
     (let low = lower_bound loc_id ap_locations loc 0 AP_LOCATION_COUNT
      in if low < AP_LOCATION_COUNT \<and> loc_id (ap_locations ! low) = loc then int low else - 1)"

definition ap_check_has_index :: "ap_check_set \<Rightarrow> nat \<Rightarrow> bool" where
  "ap_check_has_index s index \<longleftrightarrow>
     index < AP_LOCATION_COUNT \<and> check_words s ! (index div 32) AND bit32 (index mod 32) \<noteq> 0"

text \<open>\<open>set->words[index / 32] |= 1u << (index % 32)\<close>\<close>

definition check_mark :: "ap_check_set \<Rightarrow> nat \<Rightarrow> ap_check_set" where
  "check_mark s index =
     Check_Set (modify (index div 32) (\<lambda>w. w OR bit32 (index mod 32)) (check_words s))"

definition ap_check_add :: "ap_check_set \<Rightarrow> u32 \<Rightarrow> int \<times> ap_check_set" where
  "ap_check_add s loc =
     (let index = ap_location_index loc in if index < 0 then (0, s) else (1, check_mark s (nat index)))"

definition ap_check_has :: "ap_check_set \<Rightarrow> u32 \<Rightarrow> bool" where
  "ap_check_has s loc \<longleftrightarrow>
     (let index = ap_location_index loc in 0 \<le> index \<and> ap_check_has_index s (nat index))"

definition ap_check_stock_flag :: "ap_check_set \<Rightarrow> ap_check_set \<Rightarrow> u16 \<Rightarrow> ap_check_set" where
  "ap_check_stock_flag observed active flag =
     fold (\<lambda>i s. if ap_check_has_index active i \<and> loc_detector (ap_locations ! i) = AP_DETECT_STOCK_FLAG \<and>
            loc_flag (ap_locations ! i) = flag then check_mark s i else s)
       [0..<AP_LOCATION_COUNT] observed"

definition ap_check_event :: "ap_check_set \<Rightarrow> ap_check_set \<Rightarrow> u32 \<Rightarrow> int \<times> ap_check_set" where
  "ap_check_event observed active loc =
     (if \<not> ap_check_has active loc then (0, observed) else ap_check_add observed loc)"

definition ap_check_valid :: "ap_check_set \<Rightarrow> bool" where
  "ap_check_valid s \<longleftrightarrow>
     (let remainder = AP_LOCATION_COUNT mod 32
      in remainder = 0 \<or> drop_bit remainder (check_words s ! (AP_LOCATION_WORDS - 1)) = 0)"

definition flags_clash :: "ap_check_set \<Rightarrow> bool" where
  "flags_clash active \<longleftrightarrow>
     (\<exists>i \<in> set [0..<AP_LOCATION_COUNT]. ap_check_has_index active i \<and> loc_flag (ap_locations ! i) \<noteq> 65535 \<and>
        (\<exists>j \<in> set [i + 1..<AP_LOCATION_COUNT]. ap_check_has_index active j \<and>
           loc_flag (ap_locations ! i) = loc_flag (ap_locations ! j)))"

definition shops_clash :: "ap_check_set \<Rightarrow> bool" where
  "shops_clash active \<longleftrightarrow>
     (\<exists>i \<in> set [0..<AP_SHOP_COUNT]. let shared = ap_shop_locations ! i in
        shop_kong shared = AP_SHOP_SHARED \<and> ap_check_has active (shop_id shared) \<and>
        (\<exists>j \<in> set [0..<AP_SHOP_COUNT]. let other = ap_shop_locations ! j in
           i \<noteq> j \<and> shop_vendor shared = shop_vendor other \<and> shop_level shared = shop_level other \<and>
           ap_check_has active (shop_id other)))"

definition ap_check_distinct_flags :: "ap_check_set \<Rightarrow> bool" where
  "ap_check_distinct_flags active \<longleftrightarrow>
     ap_check_valid active \<and> \<not> flags_clash active \<and> \<not> shops_clash active"

section \<open>The set a check set stands for\<close>

definition set_ok :: "ap_check_set \<Rightarrow> bool" where
  "set_ok s \<longleftrightarrow> length (check_words s) = AP_LOCATION_WORDS"

definition checks_of :: "ap_check_set \<Rightarrow> nat set" where
  "checks_of s = {i. ap_check_has_index s i}"

lemma has_index_bit:
  "ap_check_has_index s i \<longleftrightarrow> i < AP_LOCATION_COUNT \<and> bit (check_words s ! (i div 32)) (i mod 32)"
  by (auto simp: ap_check_has_index_def and_bit32)

lemma checks_of_iff [simp]: "i \<in> checks_of s \<longleftrightarrow> ap_check_has_index s i"
  by (simp add: checks_of_def)

lemma checks_of_bound: "i \<in> checks_of s \<Longrightarrow> i < AP_LOCATION_COUNT"
  by (simp add: has_index_bit)

lemma no_checks_ok [simp]: "set_ok no_checks" "\<not> ap_check_has_index no_checks i" "ap_check_valid no_checks"
  "checks_of no_checks = {}"
proof -
  have none: "\<not> ap_check_has_index no_checks i" for i
    by (simp add: has_index_bit no_checks_def)
  then show "\<not> ap_check_has_index no_checks i" "checks_of no_checks = {}" by (auto simp: checks_of_def)
  show "set_ok no_checks" "ap_check_valid no_checks"
    by (simp_all add: set_ok_def ap_check_valid_def no_checks_def)
qed

lemma mark_ok [simp]: "set_ok (check_mark s i) = set_ok s"
  by (simp add: set_ok_def check_mark_def)

lemma mark_index:
  assumes "set_ok s" "i < AP_LOCATION_COUNT"
  shows "ap_check_has_index (check_mark s i) j \<longleftrightarrow> ap_check_has_index s j \<or> j = i"
proof -
  have "j = i \<longleftrightarrow> j div 32 = i div 32 \<and> j mod 32 = i mod 32" by (metis div_mult_mod_eq)
  with assms show ?thesis
    by (cases "j div 32 = i div 32") (auto simp: has_index_bit check_mark_def set_ok_def modify_def bit_or_iff)
qed

lemma checks_of_mark:
  "set_ok s \<Longrightarrow> i < AP_LOCATION_COUNT \<Longrightarrow> checks_of (check_mark s i) = insert i (checks_of s)"
  by (auto simp: mark_index)

lemma location_index_Some:
  "0 \<le> ap_location_index loc \<longleftrightarrow> loc \<in> loc_id ` set ap_locations"
  "0 \<le> ap_location_index loc \<Longrightarrow>
     nat (ap_location_index loc) < AP_LOCATION_COUNT \<and> loc_id (ap_locations ! nat (ap_location_index loc)) = loc"
proof -
  have "loc \<in> loc_id ` set ap_locations \<longleftrightarrow> (\<exists>i < AP_LOCATION_COUNT. loc_id (ap_locations ! i) = loc)"
    by (force simp: in_set_conv_nth image_iff)
  with locations.search_found [of loc]
  show "0 \<le> ap_location_index loc \<longleftrightarrow> loc \<in> loc_id ` set ap_locations"
    by (simp add: ap_location_index_def Let_def)
  show "0 \<le> ap_location_index loc \<Longrightarrow>
     nat (ap_location_index loc) < AP_LOCATION_COUNT \<and> loc_id (ap_locations ! nat (ap_location_index loc)) = loc"
    by (auto simp: ap_location_index_def Let_def split: if_splits)
qed

lemma location_index_nth:
  "i < AP_LOCATION_COUNT \<Longrightarrow> ap_location_index (loc_id (ap_locations ! i)) = int i"
  using locations.search_index [of i] by (simp add: ap_location_index_def Let_def)

lemma location_index_cases:
  obtains (found) i where "i < AP_LOCATION_COUNT" "ap_location_index loc = int i" "loc_id (ap_locations ! i) = loc"
  | (missing) "ap_location_index loc = - 1" "loc \<notin> loc_id ` set ap_locations"
proof (cases "0 \<le> ap_location_index loc")
  case True
  with location_index_Some(2) show ?thesis by (intro found [of "nat (ap_location_index loc)"]) auto
next
  case False
  then have "ap_location_index loc = - 1" by (simp add: ap_location_index_def Let_def split: if_splits)
  with False location_index_Some(1) [of loc] show ?thesis by (intro missing) simp_all
qed

lemma has_nth: "i < AP_LOCATION_COUNT \<Longrightarrow> ap_check_has s (loc_id (ap_locations ! i)) = ap_check_has_index s i"
  by (simp add: ap_check_has_def location_index_nth)

lemma check_add_eq:
  "ap_check_add s loc =
     (if loc \<in> loc_id ` set ap_locations then (1, check_mark s (nat (ap_location_index loc))) else (0, s))"
  using location_index_Some(1) [of loc] by (auto simp: ap_check_add_def Let_def)

lemma check_add_ok [simp]: "set_ok s \<Longrightarrow> set_ok (snd (ap_check_add s loc))"
  by (simp add: check_add_eq)

lemma checks_of_add:
  "set_ok s \<Longrightarrow> checks_of (snd (ap_check_add s loc)) =
     checks_of s \<union> {i. i < AP_LOCATION_COUNT \<and> loc_id (ap_locations ! i) = loc}"
proof -
  assume s: "set_ok s"
  show ?thesis
  proof (cases loc rule: location_index_cases)
    case (found i)
    have at: "{j. j < AP_LOCATION_COUNT \<and> loc_id (ap_locations ! j) = loc} = {i}"
    proof -
      have "j = i" if "j < AP_LOCATION_COUNT" "loc_id (ap_locations ! j) = loc" for j
        using location_index_nth [OF that(1)] that(2) found(2) by simp
      with found show ?thesis by blast
    qed
    from found(2) have "ap_check_add s loc = (1, check_mark s i)" by (simp add: ap_check_add_def)
    with at checks_of_mark [OF s found(1)] show ?thesis by simp
  next
    case missing
    then have "\<not> (j < AP_LOCATION_COUNT \<and> loc_id (ap_locations ! j) = loc)" for j
      using location_index_nth [of j] by auto
    with missing show ?thesis by (auto simp: ap_check_add_def)
  qed
qed

lemma checks_of_stock_flag:
  assumes "set_ok s"
  shows "set_ok (ap_check_stock_flag s active flag)"
    and "checks_of (ap_check_stock_flag s active flag) = checks_of s \<union>
      {i \<in> checks_of active. loc_detector (ap_locations ! i) = AP_DETECT_STOCK_FLAG \<and> loc_flag (ap_locations ! i) = flag}"
proof -
  let ?hit = "\<lambda>i. ap_check_has_index active i \<and> loc_detector (ap_locations ! i) = AP_DETECT_STOCK_FLAG \<and>
    loc_flag (ap_locations ! i) = flag"
  have run: "set_ok (fold (\<lambda>i s. if ?hit i then check_mark s i else s) is s) \<and>
      checks_of (fold (\<lambda>i s. if ?hit i then check_mark s i else s) is s) = checks_of s \<union> {i \<in> set is. ?hit i}"
    if "set_ok s" for "is" s
    using that
  proof (induction "is" arbitrary: s)
    case (Cons i "is")
    show ?case
    proof (cases "?hit i")
      case True
      then have "i < AP_LOCATION_COUNT" by (simp add: has_index_bit)
      with True Cons.IH [of "check_mark s i"] Cons.prems checks_of_mark [of s i] show ?thesis by auto
    qed (use Cons in auto)
  qed simp
  from run [OF assms, of "[0..<AP_LOCATION_COUNT]"]
  show "set_ok (ap_check_stock_flag s active flag)"
    and "checks_of (ap_check_stock_flag s active flag) = checks_of s \<union>
      {i \<in> checks_of active. loc_detector (ap_locations ! i) = AP_DETECT_STOCK_FLAG \<and> loc_flag (ap_locations ! i) = flag}"
    by (auto simp: ap_check_stock_flag_def has_index_bit)
qed

lemma event_eq:
  "ap_check_event s active loc =
     (if ap_check_has active loc then (1, check_mark s (nat (ap_location_index loc))) else (0, s))"
  by (auto simp: ap_check_event_def ap_check_has_def ap_check_add_def Let_def)

section \<open>Valid sets and inclusion\<close>

lemma word_zero_iff: "x = 0 \<longleftrightarrow> (\<forall>n. \<not> bit (x :: 'a::len word) n)"
  using bit_imp_le_length [of x] by (auto simp: bit_eq_iff)

lemma valid_bits:
  "set_ok s \<Longrightarrow> ap_check_valid s \<longleftrightarrow>
     (\<forall>k < AP_LOCATION_WORDS. \<forall>n. bit (check_words s ! k) n \<longrightarrow> 32 * k + n < AP_LOCATION_COUNT)"
proof -
  assume "set_ok s"
  let ?top = "check_words s ! 27"
  have zero: "drop_bit 4 ?top = 0 \<longleftrightarrow> (\<forall>n. bit ?top n \<longrightarrow> n < 4)"
  proof -
    have "drop_bit 4 ?top = 0 \<longleftrightarrow> (\<forall>n. \<not> bit ?top (4 + n))"
      unfolding word_zero_iff by (simp add: bit_drop_bit_eq)
    also have "\<dots> \<longleftrightarrow> (\<forall>n. bit ?top n \<longrightarrow> n < 4)" by (metis le_add_diff_inverse not_less not_add_less1)
    finally show ?thesis .
  qed
  have other: "32 * k + n < AP_LOCATION_COUNT" if "k < 27" "bit (check_words s ! k) n" for k n
    using that bit_imp_le_length [OF that(2)] by simp
  show ?thesis
    unfolding ap_check_valid_def Let_def
  proof (simp add: zero, rule iffI)
    assume top: "\<forall>n. bit ?top n \<longrightarrow> n < 4"
    show "\<forall>k<28. \<forall>n. bit (check_words s ! k) n \<longrightarrow> 32 * k + n < 868"
    proof (intro allI impI)
      fix k n assume k: "k < (28 :: nat)" and b: "bit (check_words s ! k) n"
      show "32 * k + n < 868"
      proof (cases "k < 27")
        case False
        with k have "k = 27" by simp
        with top b show ?thesis by auto
      qed (use other b in simp)
    qed
  next
    assume "\<forall>k<28. \<forall>n. bit (check_words s ! k) n \<longrightarrow> 32 * k + n < 868"
    from spec [OF this, of 27] show "\<forall>n. bit ?top n \<longrightarrow> n < 4" by auto
  qed
qed

lemma mark_valid [simp]:
  assumes "set_ok s" "i < AP_LOCATION_COUNT"
  shows "ap_check_valid (check_mark s i) = ap_check_valid s"
proof -
  have "(\<forall>k < AP_LOCATION_WORDS. \<forall>n. bit (check_words (check_mark s i) ! k) n \<longrightarrow> 32 * k + n < AP_LOCATION_COUNT)
    \<longleftrightarrow> (\<forall>k < AP_LOCATION_WORDS. \<forall>n. bit (check_words s ! k) n \<longrightarrow> 32 * k + n < AP_LOCATION_COUNT)"
    using assms by (auto simp: check_mark_def nth_modify set_ok_def bit_or_iff)
  with assms show ?thesis by (simp add: valid_bits del: split_paired_All)
qed

text \<open>Inclusion of bit sets is a partial order.\<close>

instantiation ap_check_set :: order
begin

definition less_eq_ap_check_set :: "ap_check_set \<Rightarrow> ap_check_set \<Rightarrow> bool" where
  "less_eq_ap_check_set p w \<longleftrightarrow> list_all2 (\<lambda>a b. a AND NOT b = 0) (check_words p) (check_words w)"

definition less_ap_check_set :: "ap_check_set \<Rightarrow> ap_check_set \<Rightarrow> bool" where
  "less_ap_check_set p w \<longleftrightarrow> p \<le> w \<and> \<not> w \<le> p"

instance
proof
  have bits: "a AND NOT b = 0 \<longleftrightarrow> (\<forall>n. bit a n \<longrightarrow> bit b n)" for a b :: u32
    using bits_in_iff [of b a] by (simp add: bits_in_def)
  fix x y z :: ap_check_set
  show "x < y \<longleftrightarrow> x \<le> y \<and> \<not> y \<le> x" by (rule less_ap_check_set_def)
  show "x \<le> x" by (simp add: less_eq_ap_check_set_def bits)
  show "x \<le> y \<Longrightarrow> y \<le> z \<Longrightarrow> x \<le> z"
    by (auto simp: less_eq_ap_check_set_def bits list_all2_conv_all_nth)
  have same: "a = b" if "a AND NOT b = 0" "b AND NOT a = 0" for a b :: u32
    using that unfolding bits by (intro bit_word_eqI) blast
  show "x \<le> y \<Longrightarrow> y \<le> x \<Longrightarrow> x = y"
    unfolding less_eq_ap_check_set_def
    by (rule ap_check_set.expand, rule list_all2_antisym [OF same])
qed

end

lemma check_le_iff:
  assumes "set_ok p" "set_ok w" "ap_check_valid p"
  shows "p \<le> w \<longleftrightarrow> checks_of p \<subseteq> checks_of w"
proof -
  have "p \<le> w \<longleftrightarrow> (\<forall>k < AP_LOCATION_WORDS. \<forall>n. bit (check_words p ! k) n \<longrightarrow> bit (check_words w ! k) n)"
    using assms(1,2) bits_in_iff
    by (auto simp: less_eq_ap_check_set_def list_all2_conv_all_nth set_ok_def bits_in_def [symmetric])
  also have "\<dots> \<longleftrightarrow> checks_of p \<subseteq> checks_of w"
  proof
    assume le: "\<forall>k < AP_LOCATION_WORDS. \<forall>n. bit (check_words p ! k) n \<longrightarrow> bit (check_words w ! k) n"
    show "checks_of p \<subseteq> checks_of w"
      using le by (auto simp: has_index_bit less_mult_imp_div_less)
  next
    assume sub: "checks_of p \<subseteq> checks_of w"
    show "\<forall>k < AP_LOCATION_WORDS. \<forall>n. bit (check_words p ! k) n \<longrightarrow> bit (check_words w ! k) n"
    proof (intro allI impI)
      fix k n assume k: "k < AP_LOCATION_WORDS" and b: "bit (check_words p ! k) n"
      then have n: "n < 32" using bit_imp_le_length by fastforce
      from assms k b have "32 * k + n < AP_LOCATION_COUNT" by (simp add: valid_bits del: split_paired_All)
      with b n have "32 * k + n \<in> checks_of p" by (simp add: has_index_bit)
      with sub have "32 * k + n \<in> checks_of w" by blast
      with n show "bit (check_words w ! k) n" by (simp add: has_index_bit)
    qed
  qed
  finally show ?thesis .
qed

section \<open>Distinct flags\<close>

text \<open>No location of the catalog uses the flag number that stands for \<open>none\<close>.\<close>

lemma catalog_flags: "l \<in> set ap_locations \<Longrightarrow> loc_flag l \<noteq> 65535"
proof -
  have "list_all (\<lambda>l. loc_flag l \<noteq> 65535) ap_locations"
    by (simp add: ap_locations_def ap_locations_parts)
  then show "l \<in> set ap_locations \<Longrightarrow> loc_flag l \<noteq> 65535" by (simp add: list_all_iff)
qed

lemma distinct_flagsD:
  assumes "ap_check_distinct_flags active" "i \<in> checks_of active" "j \<in> checks_of active"
    "loc_flag (ap_locations ! i) = loc_flag (ap_locations ! j)"
  shows "i = j"
proof (rule ccontr)
  assume "i \<noteq> j"
  have flag: "loc_flag (ap_locations ! k) \<noteq> 65535" if "k \<in> checks_of active" for k
    using catalog_flags [OF nth_mem] checks_of_bound [OF that] by simp
  have no: False if "a < b" "a \<in> checks_of active" "b \<in> checks_of active"
    "loc_flag (ap_locations ! a) = loc_flag (ap_locations ! b)" for a b
  proof -
    have "flags_clash active"
      unfolding flags_clash_def
      by (intro bexI [of _ a] conjI bexI [of _ b]) (use that flag checks_of_bound in auto)
    with assms(1) show False by (simp add: ap_check_distinct_flags_def)
  qed
  from \<open>i \<noteq> j\<close> consider "i < j" | "j < i" by linarith
  then show False using no [of i j] no [of j i] assms by cases simp_all
qed

lemma distinct_shopsD:
  assumes "ap_check_distinct_flags active" "x \<in> set ap_shop_locations" "shop_kong x = AP_SHOP_SHARED"
    "ap_check_has active (shop_id x)" "y \<in> set ap_shop_locations" "ap_check_has active (shop_id y)"
    "shop_vendor x = shop_vendor y" "shop_level x = shop_level y"
  shows "x = y"
proof (rule ccontr)
  assume "x \<noteq> y"
  from assms(2,5) obtain i j where i: "i < AP_SHOP_COUNT" "x = ap_shop_locations ! i"
    and j: "j < AP_SHOP_COUNT" "y = ap_shop_locations ! j" by (auto simp: in_set_conv_nth)
  with \<open>x \<noteq> y\<close> have "i \<noteq> j" by auto
  have "shops_clash active"
    unfolding shops_clash_def Let_def
    by (intro bexI [of _ i] conjI bexI [of _ j]) (use assms i j \<open>i \<noteq> j\<close> in auto)
  with assms(1) show False by (simp add: ap_check_distinct_flags_def)
qed

text \<open>
  the selection rule is sufficient: for a check set without flag clashes, one stock flag of the
  game newly reports at most one location, and only a selected one.
\<close>

theorem stock_flag_reports_one:
  assumes "set_ok s" and "ap_check_distinct_flags active"
    and "new = checks_of (ap_check_stock_flag s active flag) - checks_of s"
  shows "new \<subseteq> checks_of active \<and> card new \<le> 1"
proof -
  from assms have new: "new \<subseteq> {i \<in> checks_of active. loc_flag (ap_locations ! i) = flag}"
    by (auto simp: checks_of_stock_flag)
  have "i = j" if "i \<in> new" "j \<in> new" for i j
    using new that by (intro distinct_flagsD [OF assms(2)]) auto
  then have "new = {} \<or> (\<exists>i. new = {i})" by blast
  with new show ?thesis by auto
qed

section \<open>The campaign ledger\<close>

record check_ledger =
  campaign_selected :: ap_check_set
  campaign_observed :: ap_check_set
  campaign_identity :: ap_campaign_save
  campaign_ready :: u8

definition check_subset :: "ap_check_set \<Rightarrow> ap_check_set \<Rightarrow> bool" where
  "check_subset part whole \<longleftrightarrow> ap_check_valid part \<and>
     (\<forall>i \<in> set [0..<AP_LOCATION_WORDS]. check_words part ! i AND NOT (check_words whole ! i) = 0)"

definition current_campaign :: "game \<Rightarrow> check_ledger \<Rightarrow> bool" where
  "current_campaign g st \<longleftrightarrow> campaign_ready st \<noteq> 0 \<and> current_file g = 0 \<and> current_identity g (campaign_identity st)"

definition checks_validate ::
  "game \<Rightarrow> ap_campaign_save cptr \<Rightarrow> ap_check_set cptr \<Rightarrow> ap_check_set cptr \<Rightarrow> bool" where
  "checks_validate g identity selected restored \<longleftrightarrow>
     (if identity = Null \<or> selected = Null \<or> restored = Null \<or> \<not> aligned identity \<or> \<not> aligned selected \<or>
         \<not> aligned restored \<or> current_file g \<noteq> 0 \<or> ap_gameplay_mode g \<noteq> 0 then False
      else current_identity g (deref identity) \<and> ap_check_valid (deref selected) \<and>
        ap_check_distinct_flags (deref selected) \<and> check_subset (deref restored) (deref selected))"

definition ap_campaign_checks_validate ::
  "game \<Rightarrow> ap_campaign_save cptr \<Rightarrow> ap_check_set cptr \<Rightarrow> ap_check_set cptr \<Rightarrow> int" where
  "ap_campaign_checks_validate g identity selected restored = c_bool (checks_validate g identity selected restored)"

definition ap_campaign_checks_prepare ::
  "game \<Rightarrow> check_ledger \<Rightarrow> ap_campaign_save cptr \<Rightarrow> ap_check_set cptr \<Rightarrow> ap_check_set cptr
     \<Rightarrow> int \<times> check_ledger" where
  "ap_campaign_checks_prepare g st identity selected restored =
     (if \<not> checks_validate g identity selected restored then (0, st)
      else (1, st\<lparr>campaign_identity := deref identity, campaign_selected := deref selected,
             campaign_observed := deref restored, campaign_ready := 1\<rparr>))"

definition merge_checks :: "ap_check_set \<Rightarrow> ap_check_set \<Rightarrow> ap_check_set" where
  "merge_checks s t = Check_Set (map2 (\<lambda>a b. a OR b) (check_words s) (check_words t))"

definition ap_campaign_checks_restore ::
  "game \<Rightarrow> check_ledger \<Rightarrow> ap_check_set cptr \<Rightarrow> int \<times> check_ledger" where
  "ap_campaign_checks_restore g st restored =
     (if \<not> current_campaign g st \<or> restored = Null \<or> \<not> aligned restored then (0, st)
      else if \<not> check_subset (deref restored) (campaign_selected st) then (0, st)
      else (1, st\<lparr>campaign_observed := merge_checks (campaign_observed st) (deref restored)\<rparr>))"

definition ap_campaign_checks_event :: "game \<Rightarrow> check_ledger \<Rightarrow> u32 \<Rightarrow> int \<times> check_ledger" where
  "ap_campaign_checks_event g st location =
     (if \<not> current_campaign g st \<or> \<not> mode_has g AP_GAMEPLAY_CHECKS \<or>
         \<not> ap_check_has (campaign_selected st) location then (- 1, st)
      else if ap_check_has (campaign_observed st) location then (0, st)
      else (1, st\<lparr>campaign_observed := snd (ap_check_add (campaign_observed st) location)\<rparr>))"

definition ap_campaign_checks_stock_flag :: "game \<Rightarrow> check_ledger \<Rightarrow> u16 \<Rightarrow> int \<times> check_ledger" where
  "ap_campaign_checks_stock_flag g st flag =
     (if \<not> current_campaign g st \<or> \<not> mode_has g AP_GAMEPLAY_CHECKS then (- 1, st)
      else let previous = campaign_observed st;
               observed = ap_check_stock_flag previous (campaign_selected st) flag
        in (c_bool (\<exists>i \<in> set [0..<AP_LOCATION_WORDS]. check_words previous ! i \<noteq> check_words observed ! i),
            st\<lparr>campaign_observed := observed\<rparr>))"

definition ap_campaign_checks_snapshot ::
  "game \<Rightarrow> check_ledger \<Rightarrow> ap_check_set cptr \<Rightarrow> int \<times> ap_check_set cptr" where
  "ap_campaign_checks_snapshot g st output =
     (if output = Null \<or> \<not> aligned output \<or> \<not> current_campaign g st then (0, output)
      else (1, store output (campaign_observed st)))"

definition ap_campaign_checks_reset :: "game \<Rightarrow> check_ledger \<Rightarrow> int \<times> check_ledger" where
  "ap_campaign_checks_reset g st =
     (if ap_gameplay_mode g \<noteq> 0 then (0, st)
      else (1, st\<lparr>campaign_selected := no_checks, campaign_observed := no_checks,
             campaign_identity := zero_save, campaign_ready := 0\<rparr>))"

lemma subset_le: "set_ok p \<Longrightarrow> set_ok w \<Longrightarrow> check_subset p w \<longleftrightarrow> ap_check_valid p \<and> p \<le> w"
  by (auto simp: check_subset_def less_eq_ap_check_set_def list_all2_conv_all_nth set_ok_def)

lemma merge_ok [simp]: "set_ok s \<Longrightarrow> set_ok t \<Longrightarrow> set_ok (merge_checks s t)"
  by (simp add: set_ok_def merge_checks_def)

lemma checks_of_merge:
  "set_ok s \<Longrightarrow> set_ok t \<Longrightarrow> checks_of (merge_checks s t) = checks_of s \<union> checks_of t"
proof -
  assume "set_ok s" "set_ok t"
  then have "ap_check_has_index (merge_checks s t) i \<longleftrightarrow> ap_check_has_index s i \<or> ap_check_has_index t i" for i
    by (cases "i < AP_LOCATION_COUNT")
      (auto simp: has_index_bit merge_checks_def set_ok_def bit_or_iff less_mult_imp_div_less)
  then show ?thesis by auto
qed

lemma merge_valid:
  "set_ok s \<Longrightarrow> set_ok t \<Longrightarrow> ap_check_valid s \<Longrightarrow> ap_check_valid t \<Longrightarrow> ap_check_valid (merge_checks s t)"
  by (simp add: valid_bits merge_checks_def bit_or_iff set_ok_def del: split_paired_All)

lemma stock_flag_valid:
  "set_ok s \<Longrightarrow> ap_check_valid s \<Longrightarrow> ap_check_valid (ap_check_stock_flag s active flag)"
proof -
  assume s: "set_ok s" "ap_check_valid s"
  have "set_ok (fold (\<lambda>i s. if P i then check_mark s i else s) is s) \<and>
      ap_check_valid (fold (\<lambda>i s. if P i then check_mark s i else s) is s)"
    if "\<forall>i \<in> set is. i < AP_LOCATION_COUNT" for P "is"
    using s that by (induction "is" arbitrary: s) simp_all
  from this [of "[0..<AP_LOCATION_COUNT]"] show ?thesis by (simp add: ap_check_stock_flag_def)
qed

definition ledger_ok :: "check_ledger \<Rightarrow> bool" where
  "ledger_ok st \<longleftrightarrow> set_ok (campaign_selected st) \<and> set_ok (campaign_observed st) \<and>
     ap_check_valid (campaign_selected st) \<and> ap_check_valid (campaign_observed st) \<and>
     save_ok (campaign_identity st) \<and> campaign_observed st \<le> campaign_selected st"

lemma ledger_subset: "ledger_ok st \<Longrightarrow> checks_of (campaign_observed st) \<subseteq> checks_of (campaign_selected st)"
  unfolding ledger_ok_def by (elim conjE) (simp add: check_le_iff)

lemma ledger_okI:
  "set_ok (campaign_selected st) \<Longrightarrow> set_ok (campaign_observed st) \<Longrightarrow> ap_check_valid (campaign_selected st) \<Longrightarrow>
   ap_check_valid (campaign_observed st) \<Longrightarrow> save_ok (campaign_identity st) \<Longrightarrow>
   checks_of (campaign_observed st) \<subseteq> checks_of (campaign_selected st) \<Longrightarrow> ledger_ok st"
  by (simp add: ledger_ok_def check_le_iff)

text \<open>The operations that run while a ledger is current.\<close>

inductive ledger_step :: "check_ledger \<Rightarrow> check_ledger \<Rightarrow> bool" where
  restored: "pred_option set_ok (case p of Null \<Rightarrow> None | Ptr a x \<Rightarrow> Some x) \<Longrightarrow>
    ap_campaign_checks_restore g st p = (r, st') \<Longrightarrow> ledger_step st st'"
| event: "ap_campaign_checks_event g st loc = (r, st') \<Longrightarrow> ledger_step st st'"
| stock_flag: "ap_campaign_checks_stock_flag g st flag = (r, st') \<Longrightarrow> ledger_step st st'"

inductive_cases ledger_stepE: "ledger_step st st'"

lemma restore_effect:
  assumes "ledger_ok st" "set_ok x"
  shows "ap_campaign_checks_restore g st (Ptr a x) =
     (if current_campaign g st \<and> aligned (Ptr a x) \<and> ap_check_valid x \<and> x \<le> campaign_selected st
      then (1, st\<lparr>campaign_observed := merge_checks (campaign_observed st) x\<rparr>) else (0, st))"
  using assms by (auto simp: ap_campaign_checks_restore_def subset_le ledger_ok_def)

lemma event_effect:
  "ap_campaign_checks_event g st loc =
     (if current_campaign g st \<and> mode_has g AP_GAMEPLAY_CHECKS \<and> ap_check_has (campaign_selected st) loc then
        if ap_check_has (campaign_observed st) loc then (0, st)
        else (1, st\<lparr>campaign_observed := check_mark (campaign_observed st) (nat (ap_location_index loc))\<rparr>)
      else (- 1, st))"
proof -
  have "loc \<in> loc_id ` set ap_locations" if "ap_check_has (campaign_selected st) loc"
    using that location_index_Some(1) [of loc] by (auto simp: ap_check_has_def Let_def)
  then show ?thesis by (auto simp: ap_campaign_checks_event_def check_add_eq)
qed

lemma ledger_step_effect:
  assumes "ledger_step st st'" "ledger_ok st"
  shows "ledger_ok st' \<and> campaign_selected st' = campaign_selected st \<and>
    campaign_identity st' = campaign_identity st \<and> campaign_observed st \<le> campaign_observed st'"
  using assms(1)
proof (cases rule: ledger_step.cases)
  case (restored p g r)
  show ?thesis
  proof (cases p)
    case Null
    with restored assms(2) show ?thesis by (simp add: ap_campaign_checks_restore_def)
  next
    case (Ptr a x)
    with restored have x: "set_ok x" by simp
    let ?m = "merge_checks (campaign_observed st) x"
    show ?thesis
    proof (cases "current_campaign g st \<and> aligned (Ptr a x) \<and> ap_check_valid x \<and> x \<le> campaign_selected st")
      case True
      with restored Ptr restore_effect [OF assms(2) x, of g a]
      have st': "st' = st\<lparr>campaign_observed := ?m\<rparr>" by simp
      from assms(2) have obs: "set_ok (campaign_observed st)" "ap_check_valid (campaign_observed st)"
        and sel: "set_ok (campaign_selected st)" by (simp_all add: ledger_ok_def)
      have "checks_of x \<subseteq> checks_of (campaign_selected st)"
        using True check_le_iff [OF x sel] by simp
      with ledger_subset [OF assms(2)] checks_of_merge [OF obs(1) x]
      have "checks_of ?m \<subseteq> checks_of (campaign_selected st)" by blast
      moreover have "campaign_observed st \<le> ?m"
        using check_le_iff [OF obs(1) merge_ok [OF obs(1) x] obs(2)] checks_of_merge [OF obs(1) x] by blast
      ultimately show ?thesis
        using assms(2) x obs True unfolding st'
        by (intro conjI ledger_okI) (simp_all add: ledger_ok_def merge_valid)
    next
      case False
      with restored Ptr restore_effect [OF assms(2) x, of g a] assms(2) show ?thesis by auto
    qed
  qed
next
  case (event g loc r)
  show ?thesis
  proof (cases "current_campaign g st \<and> mode_has g AP_GAMEPLAY_CHECKS \<and> ap_check_has (campaign_selected st) loc \<and>
      \<not> ap_check_has (campaign_observed st) loc")
    case True
    define i where "i = nat (ap_location_index loc)"
    have st': "st' = st\<lparr>campaign_observed := check_mark (campaign_observed st) i\<rparr>"
      using event True unfolding event_effect i_def by simp
    from assms(2) have obs: "set_ok (campaign_observed st)" "ap_check_valid (campaign_observed st)"
      by (simp_all add: ledger_ok_def)
    have i: "i < AP_LOCATION_COUNT" "i \<in> checks_of (campaign_selected st)"
      using True location_index_Some(2) [of loc] by (auto simp: i_def ap_check_has_def Let_def)
    note mark = checks_of_mark [OF obs(1) i(1)]
    have "campaign_observed st \<le> check_mark (campaign_observed st) i"
      using check_le_iff [OF obs(1) _ obs(2), of "check_mark (campaign_observed st) i"] obs mark by auto
    moreover have "checks_of (check_mark (campaign_observed st) i) \<subseteq> checks_of (campaign_selected st)"
      unfolding mark insert_subset using i(2) ledger_subset [OF assms(2)] by (rule conjI)
    ultimately show ?thesis
      using assms(2) obs i(1) unfolding st' by (intro conjI ledger_okI) (simp_all add: ledger_ok_def)
  next
    case False
    with event assms(2) show ?thesis unfolding event_effect by (auto split: if_splits)
  qed
next
  case (stock_flag g flag r)
  show ?thesis
  proof (cases "current_campaign g st \<and> mode_has g AP_GAMEPLAY_CHECKS")
    case True
    let ?m = "ap_check_stock_flag (campaign_observed st) (campaign_selected st) flag"
    from stock_flag True have st': "st' = st\<lparr>campaign_observed := ?m\<rparr>"
      by (simp add: ap_campaign_checks_stock_flag_def Let_def)
    from assms(2) have obs: "set_ok (campaign_observed st)" "ap_check_valid (campaign_observed st)"
      by (simp_all add: ledger_ok_def)
    note eff = checks_of_stock_flag [OF obs(1), of "campaign_selected st" flag]
    have "campaign_observed st \<le> ?m"
      unfolding check_le_iff [OF obs(1) eff(1) obs(2)] eff(2) by blast
    moreover have "checks_of ?m \<subseteq> checks_of (campaign_selected st)"
      unfolding eff(2) using ledger_subset [OF assms(2)] by blast
    ultimately show ?thesis
      using assms(2) obs eff(1) unfolding st'
      by (intro conjI ledger_okI) (simp_all add: ledger_ok_def stock_flag_valid)
  next
    case False
    with stock_flag assms(2) show ?thesis by (auto simp: ap_campaign_checks_stock_flag_def)
  qed
qed

section \<open>The contract of a check store\<close>

locale check_store =
  fixes selected :: "'s \<Rightarrow> ap_check_set"
    and observed :: "'s \<Rightarrow> ap_check_set"
    and step :: "'s \<Rightarrow> 's \<Rightarrow> bool"
    and ok :: "'s \<Rightarrow> bool"
  assumes step_ok: "ok s \<Longrightarrow> step s s' \<Longrightarrow> ok s'"
    and step_selected: "ok s \<Longrightarrow> step s s' \<Longrightarrow> selected s' = selected s"
    and step_grows: "ok s \<Longrightarrow> step s s' \<Longrightarrow> observed s \<le> observed s'"
    and ok_subset: "ok s \<Longrightarrow> observed s \<le> selected s"
begin

lemma run:
  "step\<^sup>*\<^sup>* s s' \<Longrightarrow> ok s \<Longrightarrow> ok s' \<and> selected s' = selected s \<and> observed s \<le> observed s'"
proof (induction rule: rtranclp_induct)
  case (step y z)
  then show ?case using step_ok [of y z] step_selected [of y z] step_grows [of y z] by (auto intro: order_trans)
qed simp

lemma run_bounded: "step\<^sup>*\<^sup>* s s' \<Longrightarrow> ok s \<Longrightarrow> observed s' \<le> selected s"
  using run [of s s'] ok_subset [of s'] by simp

end

interpretation campaign_checks: check_store campaign_selected campaign_observed ledger_step ledger_ok
  by unfold_locales ((use ledger_step_effect in blast)+, simp add: ledger_ok_def)

text \<open>
  C8: over any sequence of restores, events and stock flags, in any game states, the campaign ledger
  keeps its selection, loses no observed check and never observes a check outside the selection.
\<close>

theorem ledger_run_invariant:
  assumes "ledger_step\<^sup>*\<^sup>* st st'" and "ledger_ok st"
  shows "ledger_ok st' \<and> campaign_selected st' = campaign_selected st \<and>
    checks_of (campaign_observed st) \<subseteq> checks_of (campaign_observed st') \<and>
    checks_of (campaign_observed st') \<subseteq> checks_of (campaign_selected st)"
proof -
  from campaign_checks.run [OF assms]
  have run: "ledger_ok st'" "campaign_selected st' = campaign_selected st"
    "campaign_observed st \<le> campaign_observed st'" by simp_all
  have "checks_of (campaign_observed st) \<subseteq> checks_of (campaign_observed st')"
    using run(3) assms(2) run(1) check_le_iff [of "campaign_observed st" "campaign_observed st'"]
    by (simp add: ledger_ok_def)
  with run ledger_subset [OF run(1)] show ?thesis by simp
qed

text \<open>
  A location event is reported once and recorded: the call returns one exactly when it adds the
  selected location with that id, which was not observed before; every other call leaves the ledger
  unchanged, and repeating a reported event returns zero.
\<close>

theorem checks_event_once:
  assumes "ledger_ok st" and "ap_campaign_checks_event g st loc = (r, st')"
  shows "(r = 1 \<and> (\<exists>i \<in> checks_of (campaign_selected st) - checks_of (campaign_observed st).
            loc_id (ap_locations ! i) = loc \<and>
            checks_of (campaign_observed st') = insert i (checks_of (campaign_observed st))) \<and>
          ap_campaign_checks_event g st' loc = (0, st')) \<or>
         (r \<in> {- 1, 0} \<and> st' = st)"
proof (cases "current_campaign g st \<and> mode_has g AP_GAMEPLAY_CHECKS \<and> ap_check_has (campaign_selected st) loc \<and>
    \<not> ap_check_has (campaign_observed st) loc")
  case True
  define i where "i = nat (ap_location_index loc)"
  have st': "r = 1" "st' = st\<lparr>campaign_observed := check_mark (campaign_observed st) i\<rparr>"
    using assms(2) True unfolding event_effect i_def by simp_all
  have found: "0 \<le> ap_location_index loc" "i < AP_LOCATION_COUNT" "loc_id (ap_locations ! i) = loc"
    using True location_index_Some(2) [of loc] by (auto simp: i_def ap_check_has_def Let_def)
  have has: "ap_check_has s loc = ap_check_has_index s i" for s
    using found by (simp add: ap_check_has_def i_def)
  have obs: "set_ok (campaign_observed st)" using assms(1) by (simp add: ledger_ok_def)
  have "current_campaign g st' = current_campaign g st" by (simp add: st' current_campaign_def)
  then have "ap_campaign_checks_event g st' loc = (0, st')"
    using True mark_index [OF obs found(2)] by (simp add: event_effect st' has)
  moreover have "i \<in> checks_of (campaign_selected st) - checks_of (campaign_observed st)"
    using True has by simp
  moreover have "checks_of (campaign_observed st') = insert i (checks_of (campaign_observed st))"
    using checks_of_mark [OF obs found(2)] by (simp add: st')
  ultimately show ?thesis using found(3) st'(1) by blast
next
  case False
  with assms(2) show ?thesis unfolding event_effect by (auto split: if_splits)
qed

section \<open>The ledger as a publication\<close>

lemma current_campaign_iff:
  "game_ok g \<Longrightarrow> save_ok (campaign_identity st) \<Longrightarrow> current_campaign g st \<longleftrightarrow>
     campaign_ready st \<noteq> 0 \<and> bound_trailer g = Some (campaign_identity st)"
  by (auto simp: current_campaign_def current_identity_iff dest: bound_trailer_file)

definition ledger_put ::
  "game \<Rightarrow> check_ledger \<Rightarrow> ap_campaign_save \<Rightarrow> ap_check_set \<times> ap_check_set \<Rightarrow> check_ledger option" where
  "ledger_put g st i x =
     (case ap_campaign_checks_prepare g st (Ptr 0 i) (Ptr 0 (fst x)) (Ptr 0 (snd x)) of
        (r, st') \<Rightarrow> if r = 1 then Some st' else None)"

definition ledger_view :: "game \<Rightarrow> check_ledger \<Rightarrow> ap_check_set option" where
  "ledger_view g st =
     (case ap_campaign_checks_snapshot g st (Ptr 0 no_checks) of (r, out) \<Rightarrow>
        if r = 1 then Some (deref out) else None)"

definition ledger_owner :: "check_ledger \<Rightarrow> ap_campaign_save option" where
  "ledger_owner st = (if campaign_ready st = 0 then None else Some (campaign_identity st))"

lemma prepare_iff:
  assumes "game_ok g" "save_ok i"
  shows "ap_campaign_checks_prepare g st (Ptr a i) (Ptr b sel) (Ptr c res) = (1, st') \<longleftrightarrow>
     a AND 3 = 0 \<and> b AND 3 = 0 \<and> c AND 3 = 0 \<and> ap_gameplay_mode g = 0 \<and> bound_trailer g = Some i \<and>
     ap_check_distinct_flags sel \<and> check_subset res sel \<and>
     st' = \<lparr>campaign_selected = sel, campaign_observed = res, campaign_identity = i, campaign_ready = 1\<rparr>"
  by (auto simp: ap_campaign_checks_prepare_def checks_validate_def current_identity_iff [OF assms]
      ap_check_distinct_flags_def dest: bound_trailer_file)

lemma ledger_put_iff:
  "game_ok g \<Longrightarrow> save_ok i \<Longrightarrow> ledger_put g st i x = Some st' \<longleftrightarrow>
     ap_gameplay_mode g = 0 \<and> bound_trailer g = Some i \<and> ap_check_distinct_flags (fst x) \<and>
     check_subset (snd x) (fst x) \<and>
     st' = \<lparr>campaign_selected = fst x, campaign_observed = snd x, campaign_identity = i, campaign_ready = 1\<rparr>"
  using prepare_iff [of g i st 0 0 "fst x" 0 "snd x" st']
  by (auto simp: ledger_put_def split: prod.split)

lemma ledger_view_eq:
  "ledger_view g st = (if current_campaign g st then Some (campaign_observed st) else None)"
  by (simp add: ledger_view_def ap_campaign_checks_snapshot_def)

definition valid_restore :: "ap_check_set \<times> ap_check_set \<Rightarrow> ap_check_set option" where
  "valid_restore x = (if ap_check_distinct_flags (fst x) \<and> check_subset (snd x) (fst x) then Some (snd x) else None)"

interpretation ledger_publication:
  publication ledger_put ledger_view valid_restore ledger_owner "\<lambda>_. True" "\<lambda>st. save_ok (campaign_identity st)"
proof unfold_locales
  fix g i s x s' assume a: "game_ok g" "save_ok i" "ledger_put g s i x = Some s'"
  then show "bound_trailer g = Some i" "save_ok (campaign_identity s')" "ledger_owner s' = Some i"
    by (auto simp: ledger_put_iff ledger_owner_def)
  fix g' assume "game_ok g'" "bound_trailer g' = Some i"
  with a show "ledger_view g' s' = valid_restore x"
    by (auto simp: ledger_put_iff ledger_view_eq current_campaign_iff valid_restore_def)
next
  fix g s v assume "game_ok g" "save_ok (campaign_identity s)" "ledger_view g s = Some v"
  then show "ledger_owner s \<noteq> None \<and> bound_trailer g = ledger_owner s"
    by (auto simp: ledger_view_eq current_campaign_iff ledger_owner_def split: if_splits)
qed

lemma ledger_step_ready: "ledger_step st st' \<Longrightarrow> campaign_ready st' = campaign_ready st"
  by (auto elim!: ledger_stepE simp: ap_campaign_checks_restore_def ap_campaign_checks_event_def
      ap_campaign_checks_stock_flag_def Let_def split: if_splits)

text \<open>
  What a later reader sees of a prepared ledger: while the trailer it was prepared for is
  current the snapshot is the observed set, and with any other trailer it fails, the buffer keeps
  its value and events are refused.
\<close>

theorem ledger_visible:
  assumes "game_ok g" and "save_ok i" and "aligned (Ptr d x)"
    and "ap_campaign_checks_prepare g st (Ptr a i) (Ptr b sel) (Ptr c res) = (1, st')"
    and "ledger_step\<^sup>*\<^sup>* st' st''" and "game_ok g'" and "set_ok sel" and "set_ok res"
  shows "if bound_trailer g' = Some i
    then ap_campaign_checks_snapshot g' st'' (Ptr d x) = (1, Ptr d (campaign_observed st'')) \<and>
      checks_of res \<subseteq> checks_of (campaign_observed st'')
    else ap_campaign_checks_snapshot g' st'' (Ptr d x) = (0, Ptr d x) \<and>
      ap_campaign_checks_event g' st'' loc = (- 1, st'')"
proof -
  from assms(4) have prep: "ap_check_distinct_flags sel" "check_subset res sel"
    and st': "st' = \<lparr>campaign_selected = sel, campaign_observed = res, campaign_identity = i, campaign_ready = 1\<rparr>"
    by (simp_all add: prepare_iff [OF assms(1,2)])
  then have ok: "ledger_ok st'"
    using assms(2,7,8) by (auto simp: ledger_ok_def subset_le ap_check_distinct_flags_def)
  from assms(5) ok have kept: "campaign_identity st'' = campaign_identity st' \<and> campaign_ready st'' = campaign_ready st'"
  proof (induction rule: rtranclp_induct)
    case (step y z)
    from campaign_checks.run [OF step.hyps(1) ok] have "ledger_ok y" by simp
    with step ledger_step_effect [OF step.hyps(2)] ledger_step_ready [OF step.hyps(2)] show ?case by simp
  qed simp
  with assms(2) st' have cur: "current_campaign g' st'' \<longleftrightarrow> bound_trailer g' = Some i"
    by (simp add: current_campaign_iff [OF assms(6)])
  from campaign_checks.run [OF assms(5) ok] ok st'
  have "checks_of res \<subseteq> checks_of (campaign_observed st'')"
    using check_le_iff [of res "campaign_observed st''"] by (simp add: ledger_ok_def)
  with cur assms(3) show ?thesis by (simp add: ap_campaign_checks_snapshot_def event_effect)
qed

section \<open>Concrete ledgers\<close>

lemma single_distinct:
  assumes "i < AP_LOCATION_COUNT" shows "ap_check_distinct_flags (check_mark no_checks i)"
proof -
  have has: "ap_check_has_index (check_mark no_checks i) j \<longleftrightarrow> j = i" for j
    using mark_index [of no_checks i j] assms by simp
  have "\<not> flags_clash (check_mark no_checks i)" by (auto simp: flags_clash_def has)
  moreover have "x = y"
    if "ap_check_has (check_mark no_checks i) x" "ap_check_has (check_mark no_checks i) y" for x y
    using that location_index_Some(2) [of x] location_index_Some(2) [of y]
    by (auto simp: ap_check_has_def Let_def has)
  then have one: "shop_id x = shop_id y" if "ap_check_has (check_mark no_checks i) (shop_id x)"
    "ap_check_has (check_mark no_checks i) (shop_id y)" for x y using that by blast
  have "\<not> shops_clash (check_mark no_checks i)"
  proof
    assume "shops_clash (check_mark no_checks i)"
    then obtain a b where ab: "a < AP_SHOP_COUNT" "b < AP_SHOP_COUNT" "a \<noteq> b"
      "ap_check_has (check_mark no_checks i) (shop_id (ap_shop_locations ! a))"
      "ap_check_has (check_mark no_checks i) (shop_id (ap_shop_locations ! b))"
      by (auto simp: shops_clash_def Let_def)
    from one [OF ab(4,5)] have "map shop_id ap_shop_locations ! a = map shop_id ap_shop_locations ! b"
      using ab(1,2) by simp
    with ab(1-3) nth_eq_iff_index_eq [OF shop_table.distinct_keys, of a b] show False by simp
  qed
  ultimately show ?thesis using assms by (simp add: ap_check_distinct_flags_def)
qed

definition example_selection :: ap_check_set where
  "example_selection = check_mark no_checks 0"

lemma example_selection_simps [simp]:
  "set_ok example_selection" "ap_check_valid example_selection" "ap_check_distinct_flags example_selection"
  "ap_check_has_index example_selection j \<longleftrightarrow> j = 0" "check_subset no_checks example_selection"
  "checks_of example_selection = {0}"
proof -
  show has: "ap_check_has_index example_selection j \<longleftrightarrow> j = 0" for j
    using mark_index [of no_checks 0 j] by (simp add: example_selection_def)
  show "checks_of example_selection = {0}" by (simp add: checks_of_def has)
  show ok: "set_ok example_selection" and "ap_check_valid example_selection"
    and "ap_check_distinct_flags example_selection"
    by (simp_all add: example_selection_def single_distinct)
  have "no_checks \<le> example_selection" by (subst check_le_iff) (simp_all add: ok)
  then show "check_subset no_checks example_selection" by (simp add: subset_le ok)
qed

theorem stock_flag_reports_one_witness:
  "checks_of (ap_check_stock_flag no_checks example_selection 11) - checks_of no_checks \<subseteq> {0}"
  using stock_flag_reports_one [OF _ _ refl, of no_checks example_selection 11] by simp

definition example_ledger :: "u16 \<Rightarrow> check_ledger" where
  "example_ledger n = \<lparr>campaign_selected = example_selection, campaign_observed = no_checks,
     campaign_identity = example_save n, campaign_ready = 1\<rparr>"

lemma example_ledger_ok [simp]: "ledger_ok (example_ledger n)"
  by (rule ledger_okI) (simp_all add: example_ledger_def)

lemma example_ledger_current [simp]: "current_campaign (bound_game m n) (example_ledger n)"
  by (simp add: current_campaign_iff example_ledger_def)

definition first_location :: u32 where "first_location = loc_id (ap_locations ! 0)"

lemma has_first: "ap_check_has s first_location = ap_check_has_index s 0"
  using has_nth [of 0 s] by (simp add: first_location_def)

lemma example_event:
  "\<exists>st'. ap_campaign_checks_event (bound_game AP_GAMEPLAY_CHECKS 2) (example_ledger 2) first_location = (1, st')"
  unfolding event_effect has_first by (simp add: mode_has_def) (simp add: example_ledger_def)

theorem checks_event_once_witness:
  "\<exists>st'. ap_campaign_checks_event (bound_game AP_GAMEPLAY_CHECKS 2) (example_ledger 2) first_location = (1, st') \<and>
     ap_campaign_checks_event (bound_game AP_GAMEPLAY_CHECKS 2) st' first_location = (0, st')"
proof -
  from example_event obtain st' where
    ev: "ap_campaign_checks_event (bound_game AP_GAMEPLAY_CHECKS 2) (example_ledger 2) first_location = (1, st')" by blast
  from checks_event_once [OF example_ledger_ok ev] ev show ?thesis by auto
qed

theorem ledger_run_invariant_witness:
  "\<exists>st'. ledger_step (example_ledger 2) st' \<and> checks_of (campaign_observed st') \<subseteq> {0}"
proof -
  from example_event obtain st' where
    "ap_campaign_checks_event (bound_game AP_GAMEPLAY_CHECKS 2) (example_ledger 2) first_location = (1, st')" by blast
  then have step: "ledger_step (example_ledger 2) st'" by (rule ledger_step.event)
  from ledger_run_invariant [OF r_into_rtranclp [where r = ledger_step, OF step] example_ledger_ok] step
  show ?thesis by (intro exI [of _ st']) (simp add: example_ledger_def)
qed

theorem ledger_visible_witness:
  "ap_campaign_checks_snapshot (bound_game 16 2) (example_ledger 2) (Ptr 0 no_checks) = (1, Ptr 0 no_checks) \<and>
   ap_campaign_checks_event (bound_game 16 3) (example_ledger 2) first_location = (- 1, example_ledger 2)"
proof -
  have prep: "ap_campaign_checks_prepare (bound_game 0 2) (example_ledger 1) (Ptr 0 (example_save 2))
      (Ptr 0 example_selection) (Ptr 0 no_checks) = (1, example_ledger 2)"
    by (simp add: prepare_iff example_ledger_def)
  note run = ledger_visible [OF _ _ _ prep rtranclp.rtrancl_refl]
  have new: "example_save 3 \<noteq> example_save 2" by (rule distinct_counters) simp
  from run [of 0 no_checks "bound_game 16 2" first_location] run [of 0 no_checks "bound_game 16 3" first_location] new
  show ?thesis by (simp add: example_ledger_def)
qed

end
