(* ===== verification/Traps.thy ===== *)
theory Traps
  imports Complex_Main Publication
begin

text \<open>
  The receipt traps of \<^verbatim>\<open>mod/campaign_traps.c\<close>: when a trap may start, what it does to the player
  and the collectables, the frame timers, and the mask they put on the controller.  The game globals
  it reads are the fields of \<open>trap_world\<close>; \<open>fade_timer\<close> is the float
  \<^verbatim>\<open>D_global_asm_807FD888\<close> as a rational, with \<open>None\<close> for a NaN.
\<close>

record trap_player =
  collision_queue_pointer :: u32
  control_state :: u8
  traction :: "16 word"
  shockwave_timer :: "16 word"
  strong_kong_ostand_bitfield :: u32

record collectables =
  standard_ammo :: "16 word"
  homing_ammo :: "16 word"
  oranges :: "16 word"
  crystals :: "16 word"
  film :: "16 word"
  health :: u8
  melons :: u8
  stored_damage :: u8
  instrument_energy :: "16 word"

record trap_world =
  gPlayer :: "trap_player option"
  object_timer :: int
  current_map :: int
  is_autowalking :: "8 word"
  fade_timer :: "rat option"
  collectable_base :: collectables
  kong_energy :: "u16 list"
  button_timers :: "u16 list"
  ice_floor_timer :: u16

abbreviation (input) AP_TRAP_FRAMES :: u16 where "AP_TRAP_FRAMES \<equiv> 240"
abbreviation (input) AP_ICE_FLOOR_FRAMES :: u16 where "AP_ICE_FLOOR_FRAMES \<equiv> 450"
abbreviation (input) AP_MAP_CAVES_BEETLE_RACE :: int where "AP_MAP_CAVES_BEETLE_RACE \<equiv> 82"

section \<open>Operations\<close>

definition button_slot :: "nat \<Rightarrow> int" where
  "button_slot type =
     (if type = AP_TRAP_TYPE_DISABLE_A then 0 else if type = AP_TRAP_TYPE_DISABLE_B then 1
      else if type = AP_TRAP_TYPE_DISABLE_Z then 2 else if type = AP_TRAP_TYPE_DISABLE_C_UP then 3 else - 1)"

definition button_bit :: "nat \<Rightarrow> u32" where
  "button_bit slot = (if slot < 4 then [0x8000, 0x4000, 0x2000, 0x0008] ! slot else 0)"

definition ap_campaign_trap_executable :: "nat \<Rightarrow> bool" where
  "ap_campaign_trap_executable type \<longleftrightarrow>
     button_slot type \<ge> 0 \<or> type = AP_TRAP_TYPE_DRY \<or> type = AP_TRAP_TYPE_ICEFLOOR"

definition reset_ice_floor :: "trap_world \<Rightarrow> trap_world" where
  "reset_ice_floor w =
     w\<lparr>gPlayer := (case gPlayer w of None \<Rightarrow> None
         | Some p \<Rightarrow> Some (p\<lparr>traction := (if current_map w = AP_MAP_CAVES_BEETLE_RACE then 20 else 100)\<rparr>)),
       ice_floor_timer := 0\<rparr>"

definition ap_campaign_trap_can_start :: "game \<Rightarrow> trap_world \<Rightarrow> nat \<Rightarrow> bool" where
  "ap_campaign_trap_can_start g w type \<longleftrightarrow>
     (if \<not> mode_has g AP_GAMEPLAY_TRAPS \<or> \<not> ap_campaign_trap_executable type then False
      else case gPlayer w of None \<Rightarrow> False | Some p \<Rightarrow>
        \<not> (collision_queue_pointer p \<noteq> 0 \<or> object_timer w < 5 \<or>
           (case fade_timer w of None \<Rightarrow> False | Some f \<Rightarrow> f > 15) \<or>
           strong_kong_ostand_bitfield p AND 0x100 \<noteq> 0 \<or> is_autowalking w \<noteq> 0 \<or>
           sint (shockwave_timer p) \<noteq> - 1 \<or> current_map w < 0 \<or>
           AP_TRAP_MAP_COUNT \<le> nat (current_map w) \<or>
           ap_trap_map_state ! nat (current_map w) \<noteq> AP_TRAP_MAP_ALLOW \<or>
           AP_TRAP_MOVEMENT_COUNT \<le> unat (control_state p) \<or>
           ap_trap_movement_banned ! unat (control_state p) \<noteq> 0))"

definition ap_campaign_trap_start :: "game \<Rightarrow> trap_world \<Rightarrow> nat \<Rightarrow> int \<times> trap_world" where
  "ap_campaign_trap_start g w type =
     (if \<not> ap_campaign_trap_can_start g w type then (0, w)
      else let slot = button_slot type in
        if 0 \<le> slot then (1, w\<lparr>button_timers := (button_timers w)[nat slot := AP_TRAP_FRAMES]\<rparr>)
        else if type = AP_TRAP_TYPE_DRY then
          (1, w\<lparr>collectable_base := (collectable_base w)\<lparr>standard_ammo := 0, homing_ammo := 0, oranges := 0,
                crystals := 0, film := 0, instrument_energy := 0\<rparr>,
              kong_energy := fold (\<lambda>kong es. es[kong := 0]) [0..<5] (kong_energy w)\<rparr>)
        else (1, w\<lparr>gPlayer := map_option (traction_update (\<lambda>_. 1)) (gPlayer w),
                   ice_floor_timer := AP_ICE_FLOOR_FRAMES\<rparr>))"

definition ap_campaign_trap_button_mask :: "trap_world \<Rightarrow> u32" where
  "ap_campaign_trap_button_mask w =
     fold (\<lambda>slot m. if button_timers w ! slot \<noteq> 0 then m AND NOT (button_bit slot) else m) [0..<4] 0xFFFF"

definition ap_campaign_trap_reset :: "trap_world \<Rightarrow> trap_world" where
  "ap_campaign_trap_reset w =
     (let w1 = w\<lparr>button_timers := fold (\<lambda>slot ts. ts[slot := 0]) [0..<4] (button_timers w)\<rparr>
      in if ice_floor_timer w1 \<noteq> 0 then reset_ice_floor w1 else w1)"

definition ap_campaign_trap_tick :: "game \<Rightarrow> trap_world \<Rightarrow> trap_world" where
  "ap_campaign_trap_tick g w =
     (if \<not> mode_has g AP_GAMEPLAY_TRAPS then ap_campaign_trap_reset w
      else let w1 = w\<lparr>button_timers := fold (\<lambda>slot ts. if ts ! slot \<noteq> 0 then ts[slot := ts ! slot - 1] else ts)
                       [0..<4] (button_timers w)\<rparr>
        in if ice_floor_timer w1 \<noteq> 0 then
             let w2 = w1\<lparr>ice_floor_timer := ice_floor_timer w1 - 1\<rparr>
             in if ice_floor_timer w2 = 0 then reset_ice_floor w2 else w2
           else w1)"

text \<open>The frame callback runs one tick.\<close>

definition ap_campaign_trap_frame :: "game \<Rightarrow> trap_world \<Rightarrow> trap_world" where
  "ap_campaign_trap_frame g w = ap_campaign_trap_tick g w"

text \<open>
  The patched controller read; \<open>stock\<close> is the game's own, on the button words of the four pads.
\<close>

definition func_global_asm_80712944 ::
  "(u16 list \<Rightarrow> u16 list) \<Rightarrow> game \<Rightarrow> trap_world \<Rightarrow> u16 list \<Rightarrow> u16 list" where
  "func_global_asm_80712944 stock g w pads =
     (let pads = stock pads in
      if \<not> mode_has g AP_GAMEPLAY_TRAPS then pads
      else let m = ucast (ap_campaign_trap_button_mask w) :: u16
        in fold (\<lambda>controller ps. ps[controller := ps ! controller AND m]) [0..<4] pads)"

section \<open>Frames and timers\<close>

definition traps_ok :: "trap_world \<Rightarrow> bool" where
  "traps_ok w \<longleftrightarrow> length (button_timers w) = 4 \<and> length (kong_energy w) \<ge> 5 \<and>
     list_all (\<lambda>t. t \<le> AP_TRAP_FRAMES) (button_timers w) \<and> ice_floor_timer w \<le> AP_ICE_FLOOR_FRAMES"

lemma four_list: "length xs = 4 \<Longrightarrow> xs = [xs ! 0, xs ! 1, xs ! 2, xs ! 3]"
  by (rule nth_equalityI) (auto simp: less_Suc_eq eval_nat_numeral)

lemma timers_cases:
  assumes "length (ts :: u16 list) = 4" obtains a b c d where "ts = [a, b, c, d]"
  using four_list [OF assms] by blast

definition tick_down :: "u16 \<Rightarrow> u16" where
  "tick_down t = (if t = 0 then 0 else t - 1)"

lemma tick_timers:
  "mode_has g AP_GAMEPLAY_TRAPS \<Longrightarrow> length (button_timers w) = 4 \<Longrightarrow>
     button_timers (ap_campaign_trap_tick g w) = map tick_down (button_timers w)"
  by (erule timers_cases)
    (simp add: ap_campaign_trap_tick_def reset_ice_floor_def Let_def upt_rec tick_down_def)

lemma unat_tick_down: "unat (tick_down t) = unat t - 1"
  using unat_gt_0 [of t] by (auto simp: tick_down_def unat_minus_one)

lemma tick_length: "length (button_timers w) = 4 \<Longrightarrow> length (button_timers (ap_campaign_trap_tick g w)) = 4"
  by (simp add: ap_campaign_trap_tick_def ap_campaign_trap_reset_def reset_ice_floor_def Let_def upt_rec)

lemma ticks_timers:
  assumes "mode_has g AP_GAMEPLAY_TRAPS" "length (button_timers w) = 4"
  shows "length (button_timers ((ap_campaign_trap_tick g ^^ n) w)) = 4 \<and>
    (s < 4 \<longrightarrow> unat (button_timers ((ap_campaign_trap_tick g ^^ n) w) ! s) = unat (button_timers w ! s) - n)"
proof (induction n)
  case (Suc n)
  then show ?case by (simp add: tick_timers [OF assms(1)] unat_tick_down)
qed (simp add: assms)

lemma mask_button:
  assumes "length (button_timers w) = 4" "s < 4"
  shows "ap_campaign_trap_button_mask w AND button_bit s = (if button_timers w ! s = 0 then button_bit s else 0)"
proof -
  obtain a b c d where t: "button_timers w = [a, b, c, d]" using timers_cases [OF assms(1)] .
  from assms(2) consider "s = 0" | "s = 1" | "s = 2" | "s = 3" by linarith
  then show ?thesis
    by cases (simp_all add: ap_campaign_trap_button_mask_def t upt_rec button_bit_def)
qed

lemma button_slot_cases:
  assumes "button_slot type = int s" shows "s < 4"
  using assms by (auto simp: button_slot_def split: if_splits)

lemma button_bit_nonzero: "s < 4 \<Longrightarrow> button_bit s \<noteq> 0"
proof -
  assume "s < 4"
  then consider "s = 0" | "s = 1" | "s = 2" | "s = 3" by linarith
  then show ?thesis by cases (simp_all add: button_bit_def)
qed

lemma start_button:
  assumes "ap_campaign_trap_start g w type = (1, w')" "button_slot type = int s"
  shows "w' = w\<lparr>button_timers := (button_timers w)[s := AP_TRAP_FRAMES]\<rparr>"
  using assms by (auto simp: ap_campaign_trap_start_def Let_def split: if_splits)

text \<open>
  a disabled button stays disabled for exactly 240 frames: after a started button trap the
  button is masked after every number of ticks below 240 and free from the 240th on.
\<close>

theorem button_trap_lifetime:
  assumes "traps_ok w" and "mode_has g AP_GAMEPLAY_TRAPS"
    and "ap_campaign_trap_start g w type = (1, w')" and "button_slot type = int s"
  shows "ap_campaign_trap_button_mask ((ap_campaign_trap_tick g ^^ n) w') AND button_bit s =
    (if n < 240 then 0 else button_bit s)"
proof -
  note s = button_slot_cases [OF assms(4)]
  from assms(1) have len: "length (button_timers w) = 4" by (simp add: traps_ok_def)
  from start_button [OF assms(3,4)] have w': "length (button_timers w') = 4" "button_timers w' ! s = 240"
    using s len by simp_all
  note run = ticks_timers [OF assms(2) w'(1), of n s]
  have "button_timers ((ap_campaign_trap_tick g ^^ n) w') ! s = 0 \<longleftrightarrow> 240 \<le> n"
    using run s w'(2) by (simp add: unat_eq_0 [symmetric])
  with mask_button [OF conjunct1 [OF run] s] show ?thesis by simp
qed

section \<open>The ice floor\<close>

lemma tick_ice:
  assumes "mode_has g AP_GAMEPLAY_TRAPS"
  shows "ice_floor_timer (ap_campaign_trap_tick g w) = tick_down (ice_floor_timer w)"
    and "gPlayer (ap_campaign_trap_tick g w) =
      (if ice_floor_timer w = 1 then gPlayer (reset_ice_floor w) else gPlayer w)"
    and "current_map (ap_campaign_trap_tick g w) = current_map w"
  using assms by (auto simp: ap_campaign_trap_tick_def reset_ice_floor_def Let_def tick_down_def)

lemma ticks_ice:
  assumes "mode_has g AP_GAMEPLAY_TRAPS" "unat (ice_floor_timer w) = k" "gPlayer w = Some p"
  shows "unat (ice_floor_timer ((ap_campaign_trap_tick g ^^ n) w)) = k - n \<and>
    current_map ((ap_campaign_trap_tick g ^^ n) w) = current_map w \<and>
    gPlayer ((ap_campaign_trap_tick g ^^ n) w) =
      (if n < k \<or> k = 0 then Some p
       else Some (p\<lparr>traction := (if current_map w = AP_MAP_CAVES_BEETLE_RACE then 20 else 100)\<rparr>))"
proof (induction n)
  case (Suc n)
  let ?w = "(ap_campaign_trap_tick g ^^ n) w"
  from Suc have one: "ice_floor_timer ?w = 1 \<longleftrightarrow> k - n = 1"
    by (simp add: word_unat_eq_iff)
  show ?case
    using Suc by (auto simp: tick_ice [OF assms(1)] unat_tick_down one reset_ice_floor_def)
qed (use assms in auto)

text \<open>
  an ice floor lasts exactly 450 frames: until then the player slides with traction one, and the
  450th tick restores the traction of the map (20 in the beetle race, 100 elsewhere) and keeps it.
\<close>

theorem ice_floor_lifetime:
  assumes "mode_has g AP_GAMEPLAY_TRAPS" and "ap_campaign_trap_start g w AP_TRAP_TYPE_ICEFLOOR = (1, w')"
  shows "\<exists>p. gPlayer ((ap_campaign_trap_tick g ^^ n) w') = Some p \<and>
    traction p = (if n < 450 then 1 else if current_map w = AP_MAP_CAVES_BEETLE_RACE then 20 else 100)"
proof -
  from assms(2) obtain q where q: "gPlayer w = Some q"
    by (auto simp: ap_campaign_trap_start_def ap_campaign_trap_can_start_def split: if_splits option.splits)
  from assms(2) have w': "w' = w\<lparr>gPlayer := map_option (traction_update (\<lambda>_. 1)) (gPlayer w),
      ice_floor_timer := AP_ICE_FLOOR_FRAMES\<rparr>"
    by (auto simp: ap_campaign_trap_start_def Let_def button_slot_def split: if_splits)
  then have "gPlayer w' = Some (q\<lparr>traction := 1\<rparr>)" and timer: "unat (ice_floor_timer w') = 450"
    and "current_map w' = current_map w" using q by simp_all
  with ticks_ice [OF assms(1) timer this(1), of n] show ?thesis by auto
qed

section \<open>Safety of the trap state\<close>

lemma fold_zero: "length ts = 4 \<Longrightarrow> fold (\<lambda>slot ts. ts[slot := 0]) [0..<4] ts = replicate 4 (0 :: u16)"
  by (erule timers_cases) (simp add: upt_rec numeral_eq_Suc)

lemma reset_timers:
  "length (button_timers w) = 4 \<Longrightarrow> button_timers (ap_campaign_trap_reset w) = replicate 4 0"
  "ice_floor_timer (ap_campaign_trap_reset w) = 0"
  "kong_energy (ap_campaign_trap_reset w) = kong_energy w"
  by (simp_all add: ap_campaign_trap_reset_def reset_ice_floor_def Let_def fold_zero)

lemma traps_ok_reset: "traps_ok w \<Longrightarrow> traps_ok (ap_campaign_trap_reset w)"
  by (simp add: traps_ok_def reset_timers list_all_length)

lemma traps_ok_tick: "traps_ok w \<Longrightarrow> traps_ok (ap_campaign_trap_tick g w)"
proof (cases "mode_has g AP_GAMEPLAY_TRAPS")
  case True
  assume w: "traps_ok w"
  have "tick_down t \<le> c" if "t \<le> c" for t c
    using that by (simp add: word_le_nat_alt unat_tick_down)
  moreover have "kong_energy (ap_campaign_trap_tick g w) = kong_energy w"
    using True by (simp add: ap_campaign_trap_tick_def reset_ice_floor_def Let_def)
  ultimately show ?thesis
    using w by (simp add: traps_ok_def tick_timers [OF True] tick_ice [OF True] list.pred_map list_all_iff)
qed (simp add: ap_campaign_trap_tick_def traps_ok_reset)

lemma fold_energy: "length (fold (\<lambda>kong es. es[kong := v]) ks es) = length es"
  by (induction ks arbitrary: es) simp_all

lemma traps_ok_start: "traps_ok w \<Longrightarrow> traps_ok (snd (ap_campaign_trap_start g w type))"
proof -
  assume w: "traps_ok w"
  then have "(button_timers w)[k := AP_TRAP_FRAMES] ! n \<le> AP_TRAP_FRAMES" if "n < 4" for k n
    using that by (cases "k = n") (auto simp: traps_ok_def list_all_length)
  with w show ?thesis
    by (auto simp: ap_campaign_trap_start_def traps_ok_def Let_def list_all_length fold_energy)
qed

text \<open>
  A trap only starts where the generated tables allow it, and both table lookups stay in range:
  a successful start implies that the capability is on, the map is an allowed one of the 221 and the
  player's movement state one of the 137 and not a banned one; a refused start changes nothing.
  Starting, ticking and resetting keep the timers within their durations.
\<close>

theorem trap_start_safe:
  assumes "traps_ok w" and "ap_campaign_trap_start g w type = (r, w')"
  shows "traps_ok w' \<and> traps_ok (ap_campaign_trap_tick g w') \<and> traps_ok (ap_campaign_trap_reset w') \<and>
    ((r = 0 \<and> w' = w) \<or>
     (r = 1 \<and> mode_has g AP_GAMEPLAY_TRAPS \<and> ap_campaign_trap_executable type \<and>
      (\<exists>p m. gPlayer w = Some p \<and> current_map w = int m \<and> m < length ap_trap_map_state \<and>
         ap_trap_map_state ! m = AP_TRAP_MAP_ALLOW \<and>
         unat (control_state p) < length ap_trap_movement_banned \<and>
         ap_trap_movement_banned ! unat (control_state p) = 0)))"
proof -
  have ok: "traps_ok w'" using traps_ok_start [OF assms(1), of g type] assms(2) by simp
  have "r = 1 \<and> mode_has g AP_GAMEPLAY_TRAPS \<and> ap_campaign_trap_executable type \<and>
      (\<exists>p m. gPlayer w = Some p \<and> current_map w = int m \<and> m < length ap_trap_map_state \<and>
         ap_trap_map_state ! m = AP_TRAP_MAP_ALLOW \<and>
         unat (control_state p) < length ap_trap_movement_banned \<and>
         ap_trap_movement_banned ! unat (control_state p) = 0)" if can: "ap_campaign_trap_can_start g w type"
  proof -
    from can obtain p where p: "gPlayer w = Some p"
      by (auto simp: ap_campaign_trap_can_start_def split: if_splits option.splits)
    with can have "0 \<le> current_map w" "nat (current_map w) < AP_TRAP_MAP_COUNT"
      "ap_trap_map_state ! nat (current_map w) = AP_TRAP_MAP_ALLOW"
      "unat (control_state p) < AP_TRAP_MOVEMENT_COUNT" "ap_trap_movement_banned ! unat (control_state p) = 0"
      "mode_has g AP_GAMEPLAY_TRAPS" "ap_campaign_trap_executable type"
      by (simp_all add: ap_campaign_trap_can_start_def split: if_splits)
    moreover have "r = 1" using can assms(2) by (auto simp: ap_campaign_trap_start_def Let_def split: if_splits)
    ultimately show ?thesis
      using p by (intro conjI exI [of _ p] exI [of _ "nat (current_map w)"]) simp_all
  qed
  then show ?thesis
    using ok traps_ok_tick traps_ok_reset assms(2)
    by (cases "ap_campaign_trap_can_start g w type") (simp_all add: ap_campaign_trap_start_def)
qed

section \<open>The controller\<close>

lemma bit_button_mask:
  "bit (ap_campaign_trap_button_mask w) n \<longleftrightarrow>
     n < 16 \<and> (\<forall>s \<in> {0..<4}. button_timers w ! s \<noteq> 0 \<longrightarrow> \<not> bit (button_bit s) n)"
proof -
  have run: "bit (fold (\<lambda>slot m. if button_timers w ! slot \<noteq> 0 then m AND NOT (button_bit slot) else m) xs m) n \<longleftrightarrow>
      bit m n \<and> (\<forall>s \<in> set xs. button_timers w ! s \<noteq> 0 \<longrightarrow> \<not> bit (button_bit s) n)" for xs m
    by (induction xs arbitrary: m) (auto simp: bit_simps dest: bit_imp_le_length)
  have m: "(0xFFFF :: u32) = mask 16" by (simp add: mask_eq_exp_minus_1)
  have "bit (0xFFFF :: u32) n \<longleftrightarrow> n < 16" unfolding m bit_mask_iff by auto
  then show ?thesis by (simp add: ap_campaign_trap_button_mask_def run del: upt_rec_numeral)
qed

lemma fold_pads:
  "length ps = 4 \<Longrightarrow> c < 4 \<Longrightarrow>
     fold (\<lambda>i ps. ps[i := ps ! i AND m]) [0..<4] (ps :: u16 list) ! c = ps ! c AND m"
proof -
  assume ps: "length ps = 4" and c: "c < 4"
  obtain x y z u where "ps = [x, y, z, u]" using timers_cases [OF ps] .
  then have run: "fold (\<lambda>i ps. ps[i := ps ! i AND m]) [0..<4] ps = map (\<lambda>p. p AND m) ps"
    by (simp add: upt_rec numeral_eq_Suc)
  show ?thesis unfolding run using ps c by simp
qed

text \<open>
  The patched controller read changes exactly the disabled buttons: a bit of a pad survives
  unless the capability is on and it belongs to a button whose trap timer is running.
\<close>

theorem controller_read:
  assumes "length (stock pads) = 4" and "c < 4"
  shows "bit (func_global_asm_80712944 stock g w pads ! c) n \<longleftrightarrow>
    bit (stock pads ! c) n \<and>
    \<not> (mode_has g AP_GAMEPLAY_TRAPS \<and> (\<exists>s \<in> {0..<4}. button_timers w ! s \<noteq> 0 \<and> bit (button_bit s) n))"
proof (cases "mode_has g AP_GAMEPLAY_TRAPS")
  case True
  have "bit (ucast (ap_campaign_trap_button_mask w) :: u16) n \<longleftrightarrow> bit (ap_campaign_trap_button_mask w) n"
    using bit_button_mask [of w n] by (auto simp: bit_simps)
  with True assms bit_button_mask [of w n] show ?thesis
    by (auto simp: func_global_asm_80712944_def fold_pads Let_def bit_and_iff dest: bit_imp_le_length)
qed (simp add: func_global_asm_80712944_def)

section \<open>A concrete world\<close>

definition example_world :: trap_world where
  "example_world = \<lparr>gPlayer = Some \<lparr>collision_queue_pointer = 0, control_state = 12, traction = 100,
       shockwave_timer = - 1, strong_kong_ostand_bitfield = 0\<rparr>,
     object_timer = 60, current_map = 7, is_autowalking = 0, fade_timer = Some 0,
     collectable_base = \<lparr>standard_ammo = 5, homing_ammo = 0, oranges = 3, crystals = 2, film = 1,
       health = 4, melons = 1, stored_damage = 0, instrument_energy = 7\<rparr>,
     kong_energy = replicate 5 9, button_timers = replicate 4 0, ice_floor_timer = 0\<rparr>"

lemma example_world_ok [simp]: "traps_ok example_world"
  by (simp add: traps_ok_def example_world_def list_all_length)

lemma example_can_start:
  "ap_campaign_trap_executable type \<Longrightarrow>
     ap_campaign_trap_can_start (example_game AP_GAMEPLAY_TRAPS) example_world type"
  by (simp add: ap_campaign_trap_can_start_def mode_has_def example_world_def ap_trap_map_state_def
      ap_trap_movement_banned_def)

theorem button_trap_lifetime_witness:
  "\<exists>w. ap_campaign_trap_start (example_game AP_GAMEPLAY_TRAPS) example_world AP_TRAP_TYPE_DISABLE_B = (1, w) \<and>
     ap_campaign_trap_button_mask ((ap_campaign_trap_tick (example_game AP_GAMEPLAY_TRAPS) ^^ 239) w)
       AND button_bit 1 = 0"
proof -
  have slot: "button_slot AP_TRAP_TYPE_DISABLE_B = int 1" by (simp add: button_slot_def)
  then have "ap_campaign_trap_executable AP_TRAP_TYPE_DISABLE_B" by (simp add: ap_campaign_trap_executable_def)
  from example_can_start [OF this] slot obtain w where
    w: "ap_campaign_trap_start (example_game AP_GAMEPLAY_TRAPS) example_world AP_TRAP_TYPE_DISABLE_B = (1, w)"
    by (simp add: ap_campaign_trap_start_def Let_def)
  from button_trap_lifetime [OF _ _ w slot, of 239] w show ?thesis by (auto simp: mode_has_def)
qed

lemma example_ice:
  "\<exists>w. ap_campaign_trap_start (example_game AP_GAMEPLAY_TRAPS) example_world AP_TRAP_TYPE_ICEFLOOR = (1, w)"
  using example_can_start [of AP_TRAP_TYPE_ICEFLOOR]
  by (simp add: ap_campaign_trap_start_def Let_def ap_campaign_trap_executable_def button_slot_def)

theorem ice_floor_lifetime_witness:
  "\<exists>w p. ap_campaign_trap_start (example_game AP_GAMEPLAY_TRAPS) example_world AP_TRAP_TYPE_ICEFLOOR = (1, w) \<and>
     gPlayer ((ap_campaign_trap_tick (example_game AP_GAMEPLAY_TRAPS) ^^ 450) w) = Some p \<and> traction p = 100"
proof -
  from example_ice obtain w where
    w: "ap_campaign_trap_start (example_game AP_GAMEPLAY_TRAPS) example_world AP_TRAP_TYPE_ICEFLOOR = (1, w)" by blast
  have "current_map example_world \<noteq> AP_MAP_CAVES_BEETLE_RACE" by (simp add: example_world_def)
  with ice_floor_lifetime [OF _ w, of 450] w show ?thesis by (auto simp: mode_has_def)
qed

theorem trap_start_safe_witness:
  "\<exists>w. ap_campaign_trap_start (example_game AP_GAMEPLAY_TRAPS) example_world AP_TRAP_TYPE_ICEFLOOR = (1, w) \<and> traps_ok w"
  using example_ice trap_start_safe [OF example_world_ok] by blast

theorem controller_read_witness:
  "bit (func_global_asm_80712944 (\<lambda>p. p) (example_game AP_GAMEPLAY_TRAPS)
     (example_world\<lparr>button_timers := [1, 0, 0, 0]\<rparr>) [0xC000, 0, 0, 0] ! 0) 14"
  using controller_read [of "\<lambda>p. p" "[0xC000, 0, 0, 0]" 0 "example_game AP_GAMEPLAY_TRAPS"
      "example_world\<lparr>button_timers := [1, 0, 0, 0]\<rparr>" 14]
  by (simp add: upt_rec atLeastLessThan_upt button_bit_def)

end
