(* ===== verification/Transaction.thy ===== *)
theory Transaction
  imports Traps
begin

text \<open>
  Receipt transactions, \<^verbatim>\<open>mod/campaign_transaction.h\<close> and \<^verbatim>\<open>mod/campaign_transaction.c\<close>: a
  plan that advances the trailer by one catalog receipt is built, published, and committed to the
  live game.  The world of a commit has the game state, the trap state, the stock progress and the
  calls made to the game: setting a flag and the stock save entry point, recorded with the save image
  and the progress it persists.
\<close>

section \<open>Data\<close>

abbreviation (input) AP_CAMPAIGN_TRANSACTION_MAGIC :: u32 where "AP_CAMPAIGN_TRANSACTION_MAGIC \<equiv> 0x41505431"
abbreviation (input) AP_CAMPAIGN_TRANSACTION_FORMAT :: u16 where "AP_CAMPAIGN_TRANSACTION_FORMAT \<equiv> 1"
abbreviation (input) AP_TRANSACTION_NOOP :: u32 where "AP_TRANSACTION_NOOP \<equiv> 1"
abbreviation (input) AP_TRANSACTION_OWNERSHIP :: u32 where "AP_TRANSACTION_OWNERSHIP \<equiv> 2"
abbreviation (input) AP_TRANSACTION_COUNTED :: u32 where "AP_TRANSACTION_COUNTED \<equiv> 4"
abbreviation (input) AP_TRANSACTION_TRAP :: u32 where "AP_TRANSACTION_TRAP \<equiv> 8"

record ap_campaign_transaction =
  tr_magic :: u32
  tr_format :: u16
  tr_classes :: u16
  tr_item_id :: u32
  tr_reserved :: u32
  tr_current :: ap_campaign_save
  tr_next :: ap_campaign_save
  tr_before :: ap_campaign_inventory
  tr_after :: ap_campaign_inventory

definition zero_transaction :: ap_campaign_transaction where
  "zero_transaction = \<lparr>tr_magic = 0, tr_format = 0, tr_classes = 0, tr_item_id = 0, tr_reserved = 0,
     tr_current = zero_save, tr_next = zero_save, tr_before = zero_inventory, tr_after = zero_inventory\<rparr>"

record transaction_publication = "ap_campaign_transaction publication" +
  published_has_item :: u8

text \<open>
  The first six Kong entries of the player progress; \<^verbatim>\<open>instrument_energy\<close>, which only the traps
  touch, is \<open>kong_energy\<close> of the trap state.
\<close>

record ap_character_progress =
  progress_moves :: u8
  simian_slam :: u8
  weapon :: u8
  ammo_belt :: u8
  instrument :: u8
  coins :: u16
  progress_bananas :: "16 word list"

record ap_player_progress =
  character_progress :: "ap_character_progress list"
  progress_melons :: u8

datatype game_call = Set_Flag_Call u16 u8 u8 | Save_Call "u8 list" ap_player_progress

record commit_world =
  world_game :: game
  world_traps :: trap_world
  player_progress :: ap_player_progress
  game_calls :: "game_call list"
  FLAG_TYPE_PERMANENT :: u8

section \<open>Building and publishing a plan\<close>

definition effect_class :: "ap_item_effect \<Rightarrow> u32" where
  "effect_class effect =
     (case eff_kind effect of
        AP_EFFECT_NONE \<Rightarrow> 0
      | AP_EFFECT_FLAG \<Rightarrow> AP_TRANSACTION_OWNERSHIP | AP_EFFECT_KONG \<Rightarrow> AP_TRANSACTION_OWNERSHIP
      | AP_EFFECT_KEY \<Rightarrow> AP_TRANSACTION_OWNERSHIP | AP_EFFECT_ABILITY \<Rightarrow> AP_TRANSACTION_OWNERSHIP
      | AP_EFFECT_SPECIAL \<Rightarrow> AP_TRANSACTION_OWNERSHIP | AP_EFFECT_HINT \<Rightarrow> AP_TRANSACTION_OWNERSHIP
      | AP_EFFECT_BLUEPRINT \<Rightarrow> AP_TRANSACTION_COUNTED | AP_EFFECT_FAIRY \<Rightarrow> AP_TRANSACTION_COUNTED
      | AP_EFFECT_CROWN \<Rightarrow> AP_TRANSACTION_COUNTED | AP_EFFECT_MEDAL \<Rightarrow> AP_TRANSACTION_COUNTED
      | AP_EFFECT_PEARL \<Rightarrow> AP_TRANSACTION_COUNTED | AP_EFFECT_RAINBOW \<Rightarrow> AP_TRANSACTION_COUNTED
      | AP_EFFECT_JUNK \<Rightarrow> AP_TRANSACTION_COUNTED | AP_EFFECT_TRAP \<Rightarrow> AP_TRANSACTION_TRAP
      | AP_EFFECT_TRANSFER \<Rightarrow>
          if eff_arg0 effect = 1 then AP_TRANSACTION_COUNTED else AP_TRANSACTION_OWNERSHIP
      | AP_EFFECT_UNSUPPORTED \<Rightarrow> 0x100 | AP_EFFECT_OTHER _ \<Rightarrow> 0x100)"

text \<open>The loop over the two effects; \<open>None\<close> is its early return.\<close>

fun item_classes :: "ap_item_effect list \<Rightarrow> u32 \<Rightarrow> u32 option" where
  "item_classes [] classes = Some classes"
| "item_classes (e # es) classes =
     (if effect_class e AND 0x100 \<noteq> 0 then None else item_classes es (classes OR effect_class e))"

definition effect_executable :: "ap_item_effect \<Rightarrow> bool" where
  "effect_executable effect \<longleftrightarrow>
     (case eff_kind effect of
        AP_EFFECT_TRAP \<Rightarrow> ap_campaign_trap_executable (unat (eff_arg0 effect))
      | AP_EFFECT_UNSUPPORTED \<Rightarrow> False | AP_EFFECT_OTHER _ \<Rightarrow> False | _ \<Rightarrow> True)"

definition executable_item :: "ap_item_effect_def option \<Rightarrow> bool" where
  "executable_item item \<longleftrightarrow>
     (case item of None \<Rightarrow> False | Some d \<Rightarrow> list_all effect_executable (item_effects d))"

definition ap_campaign_transaction_build ::
  "ap_campaign_transaction cptr \<Rightarrow> ap_campaign_save cptr \<Rightarrow> ap_campaign_inventory cptr \<Rightarrow> u32
     \<Rightarrow> int \<times> ap_campaign_transaction cptr" where
  "ap_campaign_transaction_build output identity before iid =
     (if output = Null \<or> \<not> aligned output \<or> before = Null \<or> \<not> aligned before \<or>
         identity = Null \<or> \<not> aligned identity \<or> \<not> save_supported (deref identity) \<or>
         save_counter (deref identity) = 0xFFFF then (0, output)
      else case find_item iid of None \<Rightarrow> (0, output) | Some item \<Rightarrow>
        (case item_classes (item_effects item) 0 of None \<Rightarrow> (0, output) | Some classes \<Rightarrow>
          let classes = (if classes = 0 then AP_TRANSACTION_NOOP else classes);
              next = ap_campaign_save_seal ((deref identity)\<lparr>save_counter := save_counter (deref identity) + 1\<rparr>)
          in case ap_campaign_inventory_add (Ptr 0 (deref before)) iid of (r, after) \<Rightarrow>
               if r \<noteq> 1 then (0, output)
               else (1, store output
                 \<lparr>tr_magic = AP_CAMPAIGN_TRANSACTION_MAGIC, tr_format = AP_CAMPAIGN_TRANSACTION_FORMAT,
                  tr_classes = ucast classes, tr_item_id = iid, tr_reserved = 0,
                  tr_current = deref identity, tr_next = next, tr_before = deref before,
                  tr_after = deref after\<rparr>)))"

definition ap_campaign_transaction_stage ::
  "game \<Rightarrow> transaction_publication \<Rightarrow> ap_campaign_save cptr \<Rightarrow> ap_campaign_inventory cptr \<Rightarrow> u32 \<Rightarrow> u32
     \<Rightarrow> int \<times> transaction_publication" where
  "ap_campaign_transaction_stage g st identity before iid has_item =
     (if identity = Null \<or> \<not> aligned identity \<or> \<not> save_supported (deref identity) \<or> before = Null \<or>
         \<not> aligned before \<or> has_item > 1 \<or> current_file g \<noteq> 0 \<or> ap_gameplay_mode g \<noteq> 0 \<or>
         \<not> trailer_is g (deref identity) then (0, st)
      else case (if has_item \<noteq> 0
                 then ap_campaign_transaction_build (Ptr 0 zero_transaction) identity before iid
                 else (1, Ptr 0 zero_transaction)) of (r, candidate) \<Rightarrow>
        if r = 0 then (0, st)
        else (1, st\<lparr>published := (if has_item \<noteq> 0 then deref candidate else published st),
                   published_identity := deref identity, published_has_item := ucast has_item,
                   published_ready := 1\<rparr>))"

definition ap_campaign_transaction_snapshot ::
  "game \<Rightarrow> transaction_publication \<Rightarrow> ap_campaign_transaction cptr \<Rightarrow> ap_campaign_save cptr
     \<Rightarrow> int \<times> ap_campaign_transaction cptr" where
  "ap_campaign_transaction_snapshot g st output identity =
     (if output = Null \<or> \<not> aligned output \<or> identity = Null \<or> \<not> aligned identity \<or>
         \<not> save_supported (deref identity) \<or> current_file g \<noteq> 0 \<or> published_ready st = 0 \<or>
         \<not> same_identity (deref identity) (published_identity st) \<or> \<not> trailer_is g (deref identity)
      then (0, output)
      else if published_has_item st = 0 then (2, output)
      else (1, store output (published st)))"

definition ap_campaign_transaction_reset :: "transaction_publication \<Rightarrow> transaction_publication" where
  "ap_campaign_transaction_reset st =
     st\<lparr>published := zero_transaction, published_identity := zero_save, published_ready := 0,
        published_has_item := 0\<rparr>"

section \<open>Committing a plan\<close>

text \<open>\<open>executable_only\<close> clears every field the commit can express and compares what is left.\<close>

definition clear_executable :: "ap_campaign_inventory \<Rightarrow> ap_campaign_inventory" where
  "clear_executable i =
     i\<lparr>moves := replicate 5 0, guns := replicate 5 0, instruments := replicate 5 0, slam := 0, belt := 0,
       instrument_upgrades := 0, abilities := 0, kongs := 0, keys := 0,
       flags := replicate AP_ITEM_FLAG_WORDS 0, climbing := 0, shopkeepers := 0, special := 0,
       hints := replicate 5 0, blueprints := replicate 5 0, golden_bananas := 0, fairies := 0,
       crowns := 0, medals := 0, pearls := 0, rainbow_coins := 0, junk := 0,
       traps := replicate AP_TRAP_TYPE_COUNT 0\<rparr>"

definition executable_only :: "ap_campaign_inventory \<Rightarrow> ap_campaign_inventory \<Rightarrow> bool" where
  "executable_only before after \<longleftrightarrow> clear_executable before = clear_executable after"

definition banana_at :: "ap_player_progress \<Rightarrow> nat \<Rightarrow> nat \<Rightarrow> 16 word" where
  "banana_at p kong level = progress_bananas (character_progress p ! kong) ! level"

text \<open>The search of \<open>give_balanced_golden_banana\<close>: its target and minimum after the loops.\<close>

definition banana_target :: "ap_player_progress \<Rightarrow> (nat \<times> nat) \<times> int" where
  "banana_target p =
     fold (\<lambda>kong acc. fold (\<lambda>level (target, minimum).
         if sint (banana_at p kong level) < minimum then ((kong, level), sint (banana_at p kong level))
         else (target, minimum)) [0..<9] acc) [0..<5] ((0, 0), 99999)"

definition give_balanced_golden_banana :: "ap_player_progress \<Rightarrow> ap_player_progress" where
  "give_balanced_golden_banana p =
     (case fst (banana_target p) of (kong, level) \<Rightarrow>
        p\<lparr>character_progress := modify kong
            (\<lambda>c. c\<lparr>progress_bananas := modify level (\<lambda>b. b + 1) (progress_bananas c)\<rparr>) (character_progress p)\<rparr>)"

definition give_rainbow_coins :: "ap_player_progress \<Rightarrow> ap_player_progress" where
  "give_rainbow_coins p =
     fold (\<lambda>kong p. p\<lparr>character_progress := modify kong (\<lambda>c. c\<lparr>coins := coins c + 5\<rparr>) (character_progress p)\<rparr>)
       [0..<5] p"

definition update_kong :: "ap_campaign_inventory \<Rightarrow> nat \<Rightarrow> ap_character_progress \<Rightarrow> ap_character_progress" where
  "update_kong after kong c =
     c\<lparr>progress_moves := (progress_moves c AND NOT 7) OR moves after ! kong,
       simian_slam := slam after,
       weapon := (weapon c AND NOT 7) OR guns after ! kong,
       ammo_belt := belt after,
       instrument := (instrument c AND NOT 15) OR instruments after ! kong\<rparr>"

text \<open>The final loop over the Kongs, with the melon count it accumulates.\<close>

definition update_kongs :: "ap_campaign_inventory \<Rightarrow> ap_player_progress \<Rightarrow> ap_player_progress \<times> u8" where
  "update_kongs after p =
     fold (\<lambda>kong (p, best).
         (p\<lparr>character_progress := modify kong (update_kong after kong) (character_progress p)\<rparr>,
          let best = (if instruments after ! kong AND 3 \<noteq> 0 then if best < 2 then 2 else best else best)
          in if instruments after ! kong AND 12 \<noteq> 0 then 3 else best))
       [0..<5] (p, 0)"

definition start_item_traps :: "ap_item_effect_def \<Rightarrow> commit_world \<Rightarrow> commit_world" where
  "start_item_traps item w =
     fold (\<lambda>e w. if eff_kind e = AP_EFFECT_TRAP
         then w\<lparr>world_traps := snd (ap_campaign_trap_start (world_game w) (world_traps w) (unat (eff_arg0 e)))\<rparr>
         else w) (item_effects item) w"

definition set_item_flags :: "ap_campaign_transaction \<Rightarrow> ap_item_effect_def \<Rightarrow> commit_world \<Rightarrow> commit_world" where
  "set_item_flags t item w =
     fold (\<lambda>e w. if eff_kind e = AP_EFFECT_FLAG then
         let flag = eff_arg1 e; wd = unat flag div 32; b = bit32 (unat flag mod 32)
         in if flags (tr_before t) ! wd AND b = 0 \<and> flags (tr_after t) ! wd AND b \<noteq> 0
            then w\<lparr>game_calls := game_calls w @ [Set_Flag_Call flag 1 (FLAG_TYPE_PERMANENT w)]\<rparr> else w
         else w) (item_effects item) w"

definition commit_progress :: "ap_campaign_transaction \<Rightarrow> ap_player_progress \<Rightarrow> ap_player_progress" where
  "commit_progress t p =
     (let p = (if golden_bananas (tr_after t) > golden_bananas (tr_before t) then give_balanced_golden_banana p else p);
          p = (if rainbow_coins (tr_after t) > rainbow_coins (tr_before t) then give_rainbow_coins p else p)
      in case update_kongs (tr_after t) p of (p, best) \<Rightarrow>
           if progress_melons p < best then p\<lparr>progress_melons := best\<rparr> else p)"

definition commit_preflight :: "commit_world \<Rightarrow> transaction_publication \<Rightarrow> ap_campaign_transaction \<Rightarrow> bool" where
  "commit_preflight w st t \<longleftrightarrow>
     (let g = world_game w; item = find_item (tr_item_id t) in
      if tr_magic t \<noteq> AP_CAMPAIGN_TRANSACTION_MAGIC \<or> tr_format t \<noteq> AP_CAMPAIGN_TRANSACTION_FORMAT \<or>
         tr_reserved t \<noteq> 0 \<or>
         ucast (tr_classes t) AND NOT (AP_TRANSACTION_NOOP OR AP_TRANSACTION_OWNERSHIP OR
           AP_TRANSACTION_COUNTED OR AP_TRANSACTION_TRAP) \<noteq> (0 :: u32) \<or>
         tr_classes t = 0 \<or> \<not> save_supported (tr_current t) \<or> \<not> save_supported (tr_next t) \<or>
         save_counter (tr_current t) = 0xFFFF \<or>
         unat (save_counter (tr_next t)) \<noteq> unat (save_counter (tr_current t)) + 1 \<or>
         \<not> same_identity (tr_current t) (published_identity st) \<or>
         \<not> executable_item item \<or> \<not> executable_only (tr_before t) (tr_after t)
      then False
      else case ap_campaign_transaction_snapshot g st (Ptr 0 zero_transaction) (Ptr 0 (tr_current t)) of
        (r, staged) \<Rightarrow>
          if r \<noteq> 1 \<or> t \<noteq> deref staged then False
          else if ucast (tr_classes t) AND AP_TRANSACTION_TRAP \<noteq> 0 \<and> \<not> mode_has g AP_GAMEPLAY_TRAPS then False
          else if (\<exists>e \<in> set (item_effects (the item)). eff_kind e = AP_EFFECT_TRAP \<and>
             \<not> ap_campaign_trap_can_start g (world_traps w) (unat (eff_arg0 e))) then False
          else same_binding (tr_current t) (tr_next t))"

text \<open>Everything after the trailer is staged: infallible, in the order of the code.\<close>

definition commit_apply :: "ap_campaign_transaction \<Rightarrow> ap_item_effect_def \<Rightarrow> commit_world \<Rightarrow> commit_world" where
  "commit_apply t item w =
     (let w = start_item_traps item w;
          w = set_item_flags t item w;
          w = w\<lparr>player_progress := commit_progress t (player_progress w)\<rparr>
      in w\<lparr>game_calls := game_calls w @ [Save_Call (save_image (world_game w)) (player_progress w)]\<rparr>)"

text \<open>The conditions on the game that refuse a commit at once.\<close>

definition commit_refused :: "game \<Rightarrow> bool" where
  "commit_refused g \<longleftrightarrow>
     (let needed = AP_GAMEPLAY_MOVES OR AP_GAMEPLAY_SAVE OR AP_GAMEPLAY_ITEMS in
      current_file g \<noteq> 0 \<or> cc_number_of_players g \<noteq> 1 \<or> game_mode g \<noteq> GAME_MODE_ADVENTURE g \<or>
      game_mode_copy g \<noteq> GAME_MODE_ADVENTURE g \<or> ap_gameplay_mode g AND needed \<noteq> needed)"

definition ap_campaign_transaction_commit ::
  "commit_world \<Rightarrow> transaction_publication \<Rightarrow> ap_campaign_transaction cptr
     \<Rightarrow> int \<times> commit_world \<times> transaction_publication" where
  "ap_campaign_transaction_commit w st source =
     (if source = Null \<or> \<not> aligned source \<or> commit_refused (world_game w) then (0, w, st)
      else let t = deref source in
        if \<not> commit_preflight w st t then (0, w, st)
        else case ap_campaign_trailer_stage (world_game w) (Ptr 0 (tr_next t)) of (r, g') \<Rightarrow>
          if r = 0 then (0, w, st)
          else (1, commit_apply t (the (find_item (tr_item_id t))) (w\<lparr>world_game := g'\<rparr>),
                st\<lparr>published_ready := 0\<rparr>))"

section \<open>Effect of a commit on every branch\<close>

definition transaction_ok :: "ap_campaign_transaction \<Rightarrow> bool" where
  "transaction_ok t \<longleftrightarrow> save_ok (tr_current t) \<and> save_ok (tr_next t)"

lemma transaction_snapshot_iff:
  assumes "game_ok g" "save_ok (published_identity st)" "save_ok i" "aligned (Ptr a x)" "aligned (Ptr b i)"
  shows "ap_campaign_transaction_snapshot g st (Ptr a x) (Ptr b i) = (1, out) \<longleftrightarrow>
     published_ready st \<noteq> 0 \<and> published_has_item st \<noteq> 0 \<and> published_identity st = i \<and>
     bound_trailer g = Some i \<and> out = Ptr a (published st)"
  using assms(4,5) save_eqI [OF assms(3), of "published_identity st"] assms(2)
  by (auto simp: ap_campaign_transaction_snapshot_def trailer_is_iff [OF assms(1)] assms(3)
      dest: bound_trailer_file bound_trailer_supported)

lemma preflightD:
  assumes "game_ok (world_game w)" "save_ok (published_identity st)" "transaction_ok t"
    "commit_preflight w st t"
  shows "bound_trailer (world_game w) = Some (tr_current t)" "published_ready st \<noteq> 0" "published st = t"
    "save_supported (tr_next t)" "save_binding (tr_next t) = save_binding (tr_current t)"
    "unat (save_counter (tr_next t)) = unat (save_counter (tr_current t)) + 1"
    "executable_item (find_item (tr_item_id t))"
    "e \<in> set (item_effects (the (find_item (tr_item_id t)))) \<Longrightarrow> eff_kind e = AP_EFFECT_TRAP \<Longrightarrow>
       ap_campaign_trap_can_start (world_game w) (world_traps w) (unat (eff_arg0 e))"
proof -
  obtain r out where run: "ap_campaign_transaction_snapshot (world_game w) st (Ptr 0 zero_transaction)
      (Ptr 0 (tr_current t)) = (r, out)" by fastforce
  from assms(3) have ok: "save_ok (tr_current t)" "save_ok (tr_next t)" by (simp_all add: transaction_ok_def)
  note pre = assms(4) [unfolded commit_preflight_def Let_def, unfolded run prod.case]
  from pre have r: "r = 1" "deref out = t" by (simp_all split: if_splits)
  with run transaction_snapshot_iff [OF assms(1,2) ok(1), of 0 zero_transaction 0 out]
  have "published_ready st \<noteq> 0 \<and> bound_trailer (world_game w) = Some (tr_current t) \<and> out = Ptr 0 (published st)"
    by simp
  with r show "bound_trailer (world_game w) = Some (tr_current t)" "published_ready st \<noteq> 0" "published st = t"
    by auto
  from pre show "save_supported (tr_next t)" "executable_item (find_item (tr_item_id t))"
    "unat (save_counter (tr_next t)) = unat (save_counter (tr_current t)) + 1"
    by (simp_all split: if_splits)
  from pre have "same_binding (tr_current t) (tr_next t)" by (simp split: if_splits)
  then show "save_binding (tr_next t) = save_binding (tr_current t)" using same_binding_iff [OF ok] by simp
  show "e \<in> set (item_effects (the (find_item (tr_item_id t)))) \<Longrightarrow> eff_kind e = AP_EFFECT_TRAP \<Longrightarrow>
       ap_campaign_trap_can_start (world_game w) (world_traps w) (unat (eff_arg0 e))"
    using pre by (auto split: if_splits)
qed

lemma start_traps_frame:
  "world_game (start_item_traps item w) = world_game w"
  "player_progress (start_item_traps item w) = player_progress w"
  "game_calls (start_item_traps item w) = game_calls w"
  "FLAG_TYPE_PERMANENT (start_item_traps item w) = FLAG_TYPE_PERMANENT w"
proof -
  have "world_game (fold f es w) = world_game w \<and> player_progress (fold f es w) = player_progress w \<and>
      game_calls (fold f es w) = game_calls w \<and> FLAG_TYPE_PERMANENT (fold f es w) = FLAG_TYPE_PERMANENT w"
    if "\<And>e w. world_game (f e w) = world_game w \<and> player_progress (f e w) = player_progress w \<and>
      game_calls (f e w) = game_calls w \<and> FLAG_TYPE_PERMANENT (f e w) = FLAG_TYPE_PERMANENT w" for f and es :: "ap_item_effect list"
    using that by (induction es arbitrary: w) simp_all
  from this [of "\<lambda>e w. if eff_kind e = AP_EFFECT_TRAP
         then w\<lparr>world_traps := snd (ap_campaign_trap_start (world_game w) (world_traps w) (unat (eff_arg0 e)))\<rparr>
         else w" "item_effects item"]
  show "world_game (start_item_traps item w) = world_game w"
    "player_progress (start_item_traps item w) = player_progress w"
    "game_calls (start_item_traps item w) = game_calls w"
    "FLAG_TYPE_PERMANENT (start_item_traps item w) = FLAG_TYPE_PERMANENT w"
    by (simp_all add: start_item_traps_def)
qed

text \<open>The flags a commit newly sets.\<close>

definition new_flags :: "ap_campaign_transaction \<Rightarrow> ap_item_effect_def \<Rightarrow> u16 list" where
  "new_flags t item = map eff_arg1 (filter (\<lambda>e. eff_kind e = AP_EFFECT_FLAG \<and>
     \<not> has_flag (tr_before t) (unat (eff_arg1 e)) \<and> has_flag (tr_after t) (unat (eff_arg1 e))) (item_effects item))"

lemma set_flags_effect:
  "set_item_flags t item w =
     w\<lparr>game_calls := game_calls w @ map (\<lambda>f. Set_Flag_Call f 1 (FLAG_TYPE_PERMANENT w)) (new_flags t item)\<rparr>"
proof -
  define fl where "fl e \<longleftrightarrow> eff_kind e = AP_EFFECT_FLAG \<and> \<not> has_flag (tr_before t) (unat (eff_arg1 e)) \<and>
      has_flag (tr_after t) (unat (eff_arg1 e))" for e
  have step: "(if eff_kind e = AP_EFFECT_FLAG then
         let flag = eff_arg1 e; wd = unat flag div 32; b = bit32 (unat flag mod 32)
         in if flags (tr_before t) ! wd AND b = 0 \<and> flags (tr_after t) ! wd AND b \<noteq> 0
            then w\<lparr>game_calls := game_calls w @ [Set_Flag_Call flag 1 (FLAG_TYPE_PERMANENT w)]\<rparr> else w
         else w) =
      (if fl e then w\<lparr>game_calls := game_calls w @ [Set_Flag_Call (eff_arg1 e) 1 (FLAG_TYPE_PERMANENT w)]\<rparr> else w)"
    for e and w :: commit_world
  proof -
    have zero: "v AND bit32 (n mod 32) = 0 \<longleftrightarrow> \<not> bit v (n mod 32)" for v n
      by (metis and_bit32 mod_less_divisor zero_less_numeral)
    show ?thesis
      unfolding Let_def fl_def has_flag_def zero not_not
      by (cases "eff_kind e = AP_EFFECT_FLAG") (simp_all only: simp_thms if_True if_False)
  qed
  have "fold (\<lambda>e w. if fl e then w\<lparr>game_calls := game_calls w @ [Set_Flag_Call (eff_arg1 e) 1 (FLAG_TYPE_PERMANENT w)]\<rparr> else w) es w =
      w\<lparr>game_calls := game_calls w @ map (\<lambda>f. Set_Flag_Call f 1 (FLAG_TYPE_PERMANENT w)) (map eff_arg1 (filter fl es))\<rparr>"
    for es and w :: commit_world
    by (induction es arbitrary: w) simp_all
  then show ?thesis
    unfolding set_item_flags_def step new_flags_def fl_def [symmetric] by simp
qed


lemma commit_cases:
  assumes "game_ok (world_game w)" "save_ok (published_identity st)" "transaction_ok t"
    "ap_campaign_transaction_commit w st (Ptr a t) = (r, w', st')"
  obtains (refused) "r = 0" "w' = w" "st' = st"
  | (committed) item where "r = 1" "find_item (tr_item_id t) = Some item"
      "bound_trailer (world_game w) = Some (tr_current t)" "published_ready st \<noteq> 0" "published st = t"
      "save_binding (tr_next t) = save_binding (tr_current t)"
      "unat (save_counter (tr_next t)) = unat (save_counter (tr_current t)) + 1"
      "world_game w' = write_trailer (world_game w) (tr_next t)"
      "save_supported (tr_next t)"
      "player_progress w' = commit_progress t (player_progress w)"
      "game_calls w' = game_calls w @ map (\<lambda>f. Set_Flag_Call f 1 (FLAG_TYPE_PERMANENT w)) (new_flags t item) @
         [Save_Call (save_image (world_game w')) (player_progress w')]"
      "st' = st\<lparr>published_ready := 0\<rparr>"
proof (cases "r = 0")
  case True
  with assms(4) have "w' = w \<and> st' = st"
    by (auto simp: ap_campaign_transaction_commit_def Let_def split: if_splits prod.splits)
  with True show ?thesis using refused by blast
next
  case False
  let ?g = "world_game w"
  have pre: "commit_preflight w st t"
    using assms(4) False by (auto simp: ap_campaign_transaction_commit_def Let_def split: if_splits)
  note facts = preflightD [OF assms(1,2,3) pre]
  have guards: "\<not> commit_refused ?g" "aligned (Ptr a t)"
    using assms(4) False by (auto simp: ap_campaign_transaction_commit_def split: if_splits)
  from facts(7) obtain item where item: "find_item (tr_item_id t) = Some item"
    by (auto simp: executable_item_def split: option.splits)
  from assms(3) have ok: "save_ok (tr_next t)" by (simp add: transaction_ok_def)
  note staged = trailer_stage_eq [OF assms(1) ok, of 0]
  from assms(4) False have w': "r = 1"
    "w' = commit_apply t item (w\<lparr>world_game := write_trailer ?g (tr_next t)\<rparr>)" "st' = st\<lparr>published_ready := 0\<rparr>"
    using guards by (simp_all add: ap_campaign_transaction_commit_def Let_def pre staged item split: if_splits)
  show ?thesis
  proof (rule committed [OF w'(1) item facts(1,2,3,5,6) _ facts(4) _ _ w'(3)])
    show "world_game w' = write_trailer ?g (tr_next t)"
      "player_progress w' = commit_progress t (player_progress w)"
      by (simp_all add: w'(2) commit_apply_def Let_def set_flags_effect start_traps_frame)
    show "game_calls w' = game_calls w @ map (\<lambda>f. Set_Flag_Call f 1 (FLAG_TYPE_PERMANENT w)) (new_flags t item) @
         [Save_Call (save_image (world_game w')) (player_progress w')]"
      by (simp add: w'(2) commit_apply_def Let_def set_flags_effect start_traps_frame)
  qed
qed

text \<open>
  C4: a commit is all or nothing: it either leaves the world and the publication as they were, or
  it advances the current trailer to the planned one (same seed, counter plus one) and hands the game
  exactly the newly set permanent flags followed by one save, which already sees the advanced trailer
  and the updated progress.
\<close>

theorem commit_atomic:
  assumes "game_ok (world_game w)" and "save_ok (published_identity st)" and "transaction_ok t"
    and "ap_campaign_transaction_commit w st (Ptr a t) = (r, w', st')"
  shows "(r = 0 \<and> w' = w \<and> st' = st) \<or>
    (r = 1 \<and> bound_trailer (world_game w) = Some (tr_current t) \<and>
     bound_trailer (world_game w') = Some (tr_next t) \<and>
     save_binding (tr_next t) = save_binding (tr_current t) \<and>
     unat (save_counter (tr_next t)) = unat (save_counter (tr_current t)) + 1 \<and>
     (\<exists>item. find_item (tr_item_id t) = Some item \<and>
        game_calls w' = game_calls w @ map (\<lambda>f. Set_Flag_Call f 1 (FLAG_TYPE_PERMANENT w)) (new_flags t item) @
          [Save_Call (save_image (world_game w')) (player_progress w')]))"
  using assms
proof (cases rule: commit_cases [OF assms])
  case (2 item)
  from assms(3) have ok: "save_ok (tr_next t)" by (simp add: transaction_ok_def)
  have "bound_trailer (world_game w') = Some (tr_next t)"
    using 2(3,8,9) assms(1) ok by (simp add: bound_trailer_def split: if_splits)
  with 2 show ?thesis by simp
qed simp

text \<open>
  C5: a receipt is applied at most once: after a successful commit the publication is consumed, and
  committing the same or any other plan is refused until a new one is staged.
\<close>

theorem commit_not_repeated:
  assumes "game_ok (world_game w)" and "save_ok (published_identity st)" and "transaction_ok t"
    and "ap_campaign_transaction_commit w st (Ptr a t) = (1, w', st')"
  shows "ap_campaign_transaction_commit w'' st' p = (0, w'', st')"
proof -
  from assms have "published_ready st' = 0" by (cases rule: commit_cases [OF assms]) simp_all
  then have "\<not> commit_preflight w'' st' q" for q
    by (simp add: commit_preflight_def Let_def ap_campaign_transaction_snapshot_def)
  then show ?thesis by (simp add: ap_campaign_transaction_commit_def Let_def)
qed

section \<open>The progress a commit leaves\<close>

definition progress_ok :: "ap_player_progress \<Rightarrow> bool" where
  "progress_ok p \<longleftrightarrow> length (character_progress p) = 6 \<and>
     list_all (\<lambda>c. length (progress_bananas c) = 14) (character_progress p)"

lemma fold_modify:
  "length (fold (\<lambda>k xs. modify k (f k) xs) [0..<n] xs) = length xs \<and>
   (n \<le> length xs \<longrightarrow> (\<forall>j < length xs. fold (\<lambda>k xs. modify k (f k) xs) [0..<n] xs ! j =
      (if j < n then f j (xs ! j) else xs ! j)))"
  by (induction n) (auto simp: nth_modify less_Suc_eq)

lemma rainbow_progress:
  "give_rainbow_coins p =
     p\<lparr>character_progress := fold (\<lambda>k cs. modify k (\<lambda>c. c\<lparr>coins := coins c + 5\<rparr>) cs) [0..<5] (character_progress p)\<rparr>"
proof -
  have "fold (\<lambda>k p. p\<lparr>character_progress := modify k f (character_progress p)\<rparr>) ks p =
      p\<lparr>character_progress := fold (\<lambda>k cs. modify k f cs) ks (character_progress p)\<rparr>"
    for f ks and p :: ap_player_progress
    by (induction ks arbitrary: p) simp_all
  then show ?thesis by (simp only: give_rainbow_coins_def)
qed

definition melon_count :: "ap_campaign_inventory \<Rightarrow> u8" where
  "melon_count after = fold (\<lambda>k best.
       let best = (if instruments after ! k AND 3 \<noteq> 0 then if best < 2 then 2 else best else best)
       in if instruments after ! k AND 12 \<noteq> 0 then 3 else best) [0..<5] 0"

lemma kongs_progress:
  "update_kongs after p =
     (p\<lparr>character_progress := fold (\<lambda>k cs. modify k (update_kong after k) cs) [0..<5] (character_progress p)\<rparr>,
      melon_count after)"
proof -
  have "fold (\<lambda>k (p, best). (p\<lparr>character_progress := modify k (f k) (character_progress p)\<rparr>, h k best)) ks (p, b) =
      (p\<lparr>character_progress := fold (\<lambda>k cs. modify k (f k) cs) ks (character_progress p)\<rparr>, fold h ks b)"
    for f h ks b and p :: ap_player_progress
    by (induction ks arbitrary: p b) simp_all
  then show ?thesis by (simp only: update_kongs_def melon_count_def)
qed

text \<open>The linear search for a first minimum.\<close>

lemma argmin_fold:
  fixes f :: "'a \<Rightarrow> int"
  assumes "fold (\<lambda>x (target, minimum). if f x < minimum then (x, f x) else (target, minimum)) xs (t0, m0) = (t, m)"
  shows "m \<le> m0 \<and> (\<forall>x \<in> set xs. m \<le> f x) \<and> ((t = t0 \<and> m = m0) \<or> (t \<in> set xs \<and> m = f t))"
  using assms
proof (induction xs arbitrary: t0 m0)
  case (Cons x xs)
  show ?case
  proof (cases "f x < m0")
    case True
    with Cons.IH [of x "f x"] Cons.prems show ?thesis by auto
  next
    case False
    with Cons.IH [of t0 m0] Cons.prems show ?thesis by auto
  qed
qed simp

definition banana_cells :: "(nat \<times> nat) list" where
  "banana_cells = List.product [0..<5] [0..<9]"

lemma banana_target_flat:
  "banana_target p = fold (\<lambda>x (target, minimum). if sint (banana_at p (fst x) (snd x)) < minimum
       then (x, sint (banana_at p (fst x) (snd x))) else (target, minimum)) banana_cells ((0, 0), 99999)"
proof -
  have "fold (\<lambda>k acc. fold (\<lambda>l. g (k, l)) ls acc) ks acc = fold g (List.product ks ls) acc"
    for g :: "nat \<times> nat \<Rightarrow> 'b \<Rightarrow> 'b" and ks ls acc
    by (induction ks arbitrary: acc) (simp_all add: fold_map comp_def)
  from this [of "\<lambda>x (target, minimum). if sint (banana_at p (fst x) (snd x)) < minimum
       then (x, sint (banana_at p (fst x) (snd x))) else (target, minimum)" "[0..<9]" "[0..<5]"]
  show ?thesis by (simp only: banana_target_def banana_cells_def fst_conv snd_conv)
qed

lemma sint_short: "sint (w :: 16 word) < 99999"
  using sint_range_size [of w] by (simp add: word_size)

lemma banana_target_minimal:
  "\<exists>k l. fst (banana_target p) = (k, l) \<and> k < 5 \<and> l < 9 \<and>
     (\<forall>k' < 5. \<forall>l' < 9. sint (banana_at p k l) \<le> sint (banana_at p k' l'))"
proof -
  obtain k l m where t: "banana_target p = ((k, l), m)" by (metis prod.exhaust)
  note found = argmin_fold [OF t [unfolded banana_target_flat]]
  have le: "m \<le> sint (banana_at p k' l')" if "k' < 5" "l' < 9" for k' l'
    using found that by (auto simp: banana_cells_def)
  have hit: "((k, l) = (0, 0) \<and> m = 99999) \<or> (k < 5 \<and> l < 9 \<and> m = sint (banana_at p k l))"
    using found by (auto simp: banana_cells_def)
  have "m \<noteq> 99999" using le [of 0 0] sint_short [of "banana_at p 0 0"] by simp
  with hit le t show ?thesis by auto
qed

text \<open>
  a received golden banana goes to a level of a Kong that has fewest, counting the nine levels
  of the five Kongs, and to no other one: exactly one counter grows, by one.
\<close>

theorem banana_balanced:
  assumes "progress_ok p"
  shows "\<exists>k < 5. \<exists>l < 9.
    (\<forall>k' < 5. \<forall>l' < 9. sint (banana_at p k l) \<le> sint (banana_at p k' l')) \<and>
    (\<forall>k' < 6. \<forall>l' < 14. banana_at (give_balanced_golden_banana p) k' l' =
       (if k' = k \<and> l' = l then banana_at p k l + 1 else banana_at p k' l'))"
proof -
  from banana_target_minimal [of p] obtain k l where t: "fst (banana_target p) = (k, l)" "k < 5" "l < 9"
    and min: "\<forall>k' < 5. \<forall>l' < 9. sint (banana_at p k l) \<le> sint (banana_at p k' l')" by blast
  have "banana_at (give_balanced_golden_banana p) k' l' =
       (if k' = k \<and> l' = l then banana_at p k l + 1 else banana_at p k' l')" if "k' < 6" "l' < 14" for k' l'
    using that assms t
    by (auto simp: give_balanced_golden_banana_def banana_at_def progress_ok_def nth_modify list_all_length)
  with t min show ?thesis by blast
qed

lemma bananas_ok:
  "progress_ok p \<Longrightarrow> progress_ok (give_balanced_golden_banana p)"
  by (auto simp: give_balanced_golden_banana_def progress_ok_def list_all_length nth_modify split: prod.split)

lemma bananas_frame:
  assumes "k < length (character_progress p)"
  shows "progress_moves (character_progress (give_balanced_golden_banana p) ! k) = progress_moves (character_progress p ! k)"
    "weapon (character_progress (give_balanced_golden_banana p) ! k) = weapon (character_progress p ! k)"
    "instrument (character_progress (give_balanced_golden_banana p) ! k) = instrument (character_progress p ! k)"
    "coins (character_progress (give_balanced_golden_banana p) ! k) = coins (character_progress p ! k)"
    "length (character_progress (give_balanced_golden_banana p)) = length (character_progress p)"
    "progress_melons (give_balanced_golden_banana p) = progress_melons p"
  using assms by (auto simp: give_balanced_golden_banana_def nth_modify split: prod.split)

lemma rainbow_frame:
  assumes "length (character_progress p) = 6" "k < 5"
  shows "character_progress (give_rainbow_coins p) ! k =
      (character_progress p ! k)\<lparr>coins := coins (character_progress p ! k) + 5\<rparr>"
    "length (character_progress (give_rainbow_coins p)) = 6"
    "progress_melons (give_rainbow_coins p) = progress_melons p"
  using assms fold_modify [of "\<lambda>k c. c\<lparr>coins := coins c + 5\<rparr>" 5 "character_progress p"]
  by (simp_all add: rainbow_progress del: upt_rec_numeral)

lemma instrument_bits:
  assumes "m AND NOT 1 = upgrade_mask n" "n \<le> 3" shows "bits_in 15 m"
proof -
  have "m = (m AND 1) OR (m AND NOT 1)" by (rule bit_word_eqI) (auto simp: bit_simps)
  moreover have "bits_in 15 (m AND 1)" by (simp add: bits_in_def and.assoc)
  moreover have "bits_in 15 (upgrade_mask n)"
    using u8_le_3 [OF assms(2)] by (auto simp: upgrade_mask_values bits_in_def)
  ultimately show ?thesis using assms(1) by (metis bits_in_or)
qed

text \<open>
  after a commit the live progress shows the planned inventory: for each of the five Kongs the
  moves, gun and instrument bits the mod owns are the planned ones and the other bits of these bytes
  keep their value, slam and ammo belt are the planned levels, coins grow by five exactly with a new
  rainbow coin, and the melon count never falls.
\<close>

theorem commit_progress_state:
  assumes "progress_ok p" and "inventory_wf (tr_after t)" and "k < 5"
    and "c = character_progress p ! k" and "c' = character_progress (commit_progress t p) ! k"
  shows "progress_moves c' AND 7 = moves (tr_after t) ! k \<and> progress_moves c' AND NOT 7 = progress_moves c AND NOT 7 \<and>
    weapon c' AND 7 = guns (tr_after t) ! k \<and> weapon c' AND NOT 7 = weapon c AND NOT 7 \<and>
    instrument c' AND 15 = instruments (tr_after t) ! k \<and> instrument c' AND NOT 15 = instrument c AND NOT 15 \<and>
    simian_slam c' = slam (tr_after t) \<and> ammo_belt c' = belt (tr_after t) \<and>
    coins c' = coins c + (if rainbow_coins (tr_before t) < rainbow_coins (tr_after t) then 5 else 0) \<and>
    progress_melons p \<le> progress_melons (commit_progress t p)"
proof -
  let ?i = "tr_after t"
  define p1 where "p1 = (if golden_bananas ?i > golden_bananas (tr_before t) then give_balanced_golden_banana p else p)"
  define p2 where "p2 = (if rainbow_coins ?i > rainbow_coins (tr_before t) then give_rainbow_coins p1 else p1)"
  define d where "d = character_progress p2 ! k"
  from assms(1) have len: "length (character_progress p) = 6" by (simp add: progress_ok_def)
  then have len1: "length (character_progress p1) = 6" by (simp add: p1_def bananas_frame(5) [of 0])
  then have len2: "length (character_progress p2) = 6" by (simp add: p2_def rainbow_frame(2) [OF len1 assms(3)])
  have p1: "progress_moves (character_progress p1 ! k) = progress_moves c" "weapon (character_progress p1 ! k) = weapon c"
    "instrument (character_progress p1 ! k) = instrument c" "coins (character_progress p1 ! k) = coins c"
    "progress_melons p1 = progress_melons p"
    using len assms(3) by (simp_all add: p1_def assms(4) bananas_frame [of k])
  have d: "progress_moves d = progress_moves c" "weapon d = weapon c" "instrument d = instrument c"
    "coins d = coins c + (if rainbow_coins (tr_before t) < rainbow_coins ?i then 5 else 0)"
    "progress_melons p2 = progress_melons p"
    using p1 by (simp_all add: d_def p2_def rainbow_frame [OF len1 assms(3)])
  have "commit_progress t p = (case update_kongs ?i p2 of (p, best) \<Rightarrow>
      if progress_melons p < best then p\<lparr>progress_melons := best\<rparr> else p)"
    by (simp add: commit_progress_def p1_def p2_def Let_def)
  then have c': "c' = update_kong ?i k d" and mel: "progress_melons p \<le> progress_melons (commit_progress t p)"
    using fold_modify [of "update_kong ?i" 5 "character_progress p2"] len2 assms(3,5) d(5)
    by (auto simp: kongs_progress d_def simp del: upt_rec_numeral)
  have low: "((a AND NOT m) OR x) AND m = x" "((a AND NOT m) OR x) AND NOT m = a AND NOT m"
    if "bits_in m x" for a m x :: u8
    using that unfolding bits_in_iff by (auto intro!: bit_word_eqI simp: bit_simps)
  have ins: "bits_in 15 (instruments ?i ! k)"
    using assms(2,3) by (intro instrument_bits) (auto simp: inventory_wf_def list_all_length)
  have "bits_in 7 (moves ?i ! k)" "bits_in 7 (guns ?i ! k)"
    using assms(2,3) by (simp_all add: inventory_wf_def list_all_length)
  with ins mel d show ?thesis by (simp add: c' update_kong_def low [of 7, simplified] low [of 15, simplified])
qed

section \<open>The receipt cycle\<close>

lemma seal_supported:
  "save_supported i \<Longrightarrow> save_supported (ap_campaign_save_seal (i\<lparr>save_counter := c\<rparr>))"
  by (simp add: save_supported_def)

lemma build_effect:
  assumes "ap_campaign_transaction_build (Ptr a x) (Ptr b i) (Ptr c (inventory_of ids)) iid = (1, Ptr a' t)"
  shows "save_supported i" "save_counter i \<noteq> 0xFFFF" "tr_current t = i" "tr_item_id t = iid"
    "tr_next t = ap_campaign_save_seal (i\<lparr>save_counter := save_counter i + 1\<rparr>)"
    "tr_before t = inventory_of ids" "tr_after t = inventory_of (ids @ [iid])" "item_supported iid"
proof -
  obtain r p where add: "ap_campaign_inventory_add (Ptr 0 (inventory_of ids)) iid = (r, p)" by fastforce
  from assms have r: "r = 1" and t: "save_supported i" "save_counter i \<noteq> 0xFFFF" "tr_current t = i" "tr_item_id t = iid"
    "tr_next t = ap_campaign_save_seal (i\<lparr>save_counter := save_counter i + 1\<rparr>)"
    "tr_before t = inventory_of ids" "tr_after t = deref p"
    by (auto simp: ap_campaign_transaction_build_def Let_def add split: if_splits option.splits)
  with add inventory_add_iff [of "inventory_of ids" 0 iid p]
  have "item_supported iid" "p = Ptr 0 (inventory_of (ids @ [iid]))"
    by (simp_all add: inventory_of_append)
  with t show "save_supported i" "save_counter i \<noteq> 0xFFFF" "tr_current t = i" "tr_item_id t = iid"
    "tr_next t = ap_campaign_save_seal (i\<lparr>save_counter := save_counter i + 1\<rparr>)"
    "tr_before t = inventory_of ids" "tr_after t = inventory_of (ids @ [iid])" "item_supported iid" by simp_all
qed

lemma counter_succ: "(c :: u16) \<noteq> 0xFFFF \<Longrightarrow> unat (c + 1) = unat c + 1"
proof -
  assume "c \<noteq> 0xFFFF"
  then have "unat c \<noteq> 65535" by (simp add: word_unat_eq_iff)
  then have "unat c + 1 < 2 ^ LENGTH(16)" using u16_less [of c] by simp
  then show ?thesis by (simp add: unat_word_ariths)
qed



section \<open>A concrete commit\<close>

lemma example_next:
  "ap_campaign_save_seal ((example_save m)\<lparr>save_counter := n\<rparr>) = example_save n"
  by (simp add: example_save_def ap_campaign_save_seal_def Let_def)
    (simp add: ap_campaign_save_checksum_def del: upt_rec_numeral)

definition example_transaction :: ap_campaign_transaction where
  "example_transaction =
     \<lparr>tr_magic = AP_CAMPAIGN_TRANSACTION_MAGIC, tr_format = AP_CAMPAIGN_TRANSACTION_FORMAT,
      tr_classes = 2, tr_item_id = 14041092, tr_reserved = 0, tr_current = example_save 0,
      tr_next = example_save 1, tr_before = inventory_of [], tr_after = inventory_of [14041092]\<rparr>"

lemma inventory_of_Nil: "inventory_of [] = zero_inventory"
  by (simp add: inventory_of_def receipt_ops_def)

lemma inventory_of_diddy: "inventory_of [14041092] = zero_inventory\<lparr>kongs := 2\<rparr>"
  by (simp add: inventory_of_def receipt_ops_def item_ops_def find_diddy item_effects_def bit8_def zero_inventory_def)

lemma example_transaction_fields [simp]:
  "tr_magic example_transaction = AP_CAMPAIGN_TRANSACTION_MAGIC"
  "tr_format example_transaction = AP_CAMPAIGN_TRANSACTION_FORMAT" "tr_classes example_transaction = 2"
  "tr_item_id example_transaction = 14041092" "tr_reserved example_transaction = 0"
  "tr_current example_transaction = example_save 0" "tr_next example_transaction = example_save 1"
  "tr_before example_transaction = inventory_of []" "tr_after example_transaction = inventory_of [14041092]"
  by (simp_all add: example_transaction_def)

lemma example_build:
  "ap_campaign_transaction_build (Ptr 0 x) (Ptr 0 (example_save 0)) (Ptr 0 (inventory_of [])) 14041092 =
     (1, Ptr 0 example_transaction)"
proof -
  have "ap_campaign_inventory_add (Ptr 0 (inventory_of [])) 14041092 = (1, Ptr 0 (inventory_of [14041092]))"
    using inventory_add_iff [of "inventory_of []" 0 14041092 "Ptr 0 (inventory_of [14041092])"]
      kongs_supported(2) inventory_of_append [of "[]" 14041092] by simp
  then show ?thesis
    by (simp add: ap_campaign_transaction_build_def find_diddy item_effects_def effect_class_def
        example_transaction_def example_next)
qed

definition example_pending :: transaction_publication where
  "example_pending = \<lparr>published = example_transaction, published_identity = example_save 0,
     published_ready = 1, published_has_item = 1\<rparr>"

definition example_progress :: ap_player_progress where
  "example_progress = \<lparr>character_progress = replicate 6
     \<lparr>progress_moves = 0, simian_slam = 0, weapon = 0, ammo_belt = 0, instrument = 0, coins = 3,
      progress_bananas = replicate 14 2\<rparr>, progress_melons = 1\<rparr>"

definition example_commit_world :: "u16 \<Rightarrow> commit_world" where
  "example_commit_world n =
     \<lparr>world_game = bound_game (AP_GAMEPLAY_MOVES OR AP_GAMEPLAY_SAVE OR AP_GAMEPLAY_ITEMS) n,
      world_traps = example_world, player_progress = example_progress, game_calls = [],
      FLAG_TYPE_PERMANENT = 0\<rparr>"

lemma example_preflight: "commit_preflight (example_commit_world 0) example_pending example_transaction"
proof -
  have snap: "ap_campaign_transaction_snapshot (bound_game m 0) example_pending (Ptr 0 zero_transaction)
      (Ptr 0 (example_save 0)) = (1, Ptr 0 example_transaction)" for m
    by (subst transaction_snapshot_iff) (simp_all add: example_pending_def)
  have "same_binding (example_save 0) (example_save 1)"
    by (simp add: same_binding_iff example_save_binding)
  moreover have "executable_only (inventory_of []) (inventory_of [14041092])"
    by (simp add: executable_only_def clear_executable_def inventory_of_Nil inventory_of_diddy)
  moreover have "executable_item (find_item 14041092)"
    by (simp add: executable_item_def find_diddy item_effects_def effect_executable_def)
  moreover have "published_identity example_pending = example_save 0" by (simp add: example_pending_def)
  ultimately show ?thesis
    by (simp add: commit_preflight_def Let_def snap example_commit_world_def find_diddy item_effects_def)
qed

lemma example_commit_ok [simp]:
  "game_ok (world_game (example_commit_world n))" "save_ok (published_identity example_pending)"
  "transaction_ok example_transaction"
  by (simp_all add: example_commit_world_def example_pending_def transaction_ok_def)

lemma example_commit:
  "\<exists>w st. ap_campaign_transaction_commit (example_commit_world 0) example_pending (Ptr 0 example_transaction) = (1, w, st)"
proof -
  let ?g = "world_game (example_commit_world 0)"
  have "\<not> commit_refused ?g"
    by (simp add: commit_refused_def example_commit_world_def)
  moreover have "stage_accepts ?g (example_save 1)"
    by (simp add: stage_accepts_def example_commit_world_def mode_has_def example_save_binding)
  moreover have "game_ok ?g" by simp
  ultimately show ?thesis
    using example_preflight by (simp add: ap_campaign_transaction_commit_def trailer_stage_eq del: example_commit_ok)
qed

theorem commit_atomic_witness:
  "\<exists>w st. ap_campaign_transaction_commit (example_commit_world 0) example_pending (Ptr 0 example_transaction) = (1, w, st) \<and>
     bound_trailer (world_game w) = Some (example_save 1)"
proof -
  from example_commit obtain w st where
    run: "ap_campaign_transaction_commit (example_commit_world 0) example_pending (Ptr 0 example_transaction) = (1, w, st)"
    by blast
  from commit_atomic [OF _ _ _ run] run show ?thesis by auto
qed

theorem commit_not_repeated_witness:
  "\<exists>w st. ap_campaign_transaction_commit (example_commit_world 0) example_pending (Ptr 0 example_transaction) = (1, w, st) \<and>
     ap_campaign_transaction_commit w st (Ptr 0 example_transaction) = (0, w, st)"
proof -
  from example_commit obtain w st where
    run: "ap_campaign_transaction_commit (example_commit_world 0) example_pending (Ptr 0 example_transaction) = (1, w, st)"
    by blast
  from commit_not_repeated [OF _ _ _ run] run show ?thesis by auto
qed


lemma example_progress_ok [simp]: "progress_ok example_progress"
  by (simp add: progress_ok_def example_progress_def list_all_length)

theorem banana_balanced_witness:
  "\<exists>k < 5. \<exists>l < 9. banana_at (give_balanced_golden_banana example_progress) k l = banana_at example_progress k l + 1"
proof -
  from banana_balanced [OF example_progress_ok] obtain k l where
    kl: "k < 5" "l < 9" "\<forall>k' < 6. \<forall>l' < 14. banana_at (give_balanced_golden_banana example_progress) k' l' =
       (if k' = k \<and> l' = l then banana_at example_progress k l + 1 else banana_at example_progress k' l')" by blast
  then have "banana_at (give_balanced_golden_banana example_progress) k l = banana_at example_progress k l + 1" by simp
  with kl show ?thesis by blast
qed

theorem commit_progress_state_witness:
  "progress_moves (character_progress (commit_progress example_transaction example_progress) ! 3) AND 7 =
     moves (inventory_of [14041092]) ! 3"
proof -
  have "inventory_wf (tr_after example_transaction)" by (simp add: inventory_of_wf)
  from commit_progress_state [OF example_progress_ok this _ refl refl, of 3] show ?thesis by simp
qed

end
