(* ===== verification/Shops.thy ===== *)
theory Shops
  imports Checks
begin

text \<open>
  The move shops of \<^verbatim>\<open>mod/ap_shops.c\<close>: a prepared set of offers, the purchases observed so
  far, and the shop handlers that select, price, sell and acknowledge an offer; the display labels
  of \<^verbatim>\<open>mod/shop_labels.h\<close>; and the table of legacy move offers of \<^verbatim>\<open>mod/shops.c\<close>.
  Actors live in a store indexed by address; address zero is the null pointer.  Answers of stock
  functions in the current state (level of a map, permanent flags, resource counts) are fields of
  the world, and \<open>saves\<close> counts the calls of the stock save entry point.
\<close>

section \<open>Labels\<close>

abbreviation (input) AP_LABEL_LENGTH :: nat where "AP_LABEL_LENGTH \<equiv> 33"

record ap_shop_label =
  label_location :: u32
  label_frames :: u16
  label_reserved :: u16
  label_item :: "u8 list"
  label_subtitle :: "u8 list"
  label_padding :: "u8 list"

definition label_char :: "u8 \<Rightarrow> bool" where
  "label_char c \<longleftrightarrow> 65 \<le> c \<and> c \<le> 90 \<or> 48 \<le> c \<and> c \<le> 57 \<or> c = 32"

fun label_scan :: "u8 list \<Rightarrow> bool \<Rightarrow> bool \<Rightarrow> (bool \<times> bool) option" where
  "label_scan [] ended visible = Some (ended, visible)"
| "label_scan (c # cs) ended visible =
     (if c = 0 then label_scan cs True visible
      else if ended \<or> \<not> label_char c then None
      else label_scan cs ended (visible \<or> c \<noteq> 32))"

definition ap_label_text_valid :: "u8 list \<Rightarrow> bool \<Rightarrow> bool" where
  "ap_label_text_valid text allow_empty \<longleftrightarrow>
     (case label_scan (take AP_LABEL_LENGTH text) False False of
        None \<Rightarrow> False | Some (ended, visible) \<Rightarrow> ended \<and> (visible \<or> allow_empty))"

definition ap_label_valid :: "ap_shop_label \<Rightarrow> bool" where
  "ap_label_valid l \<longleftrightarrow> 50 \<le> label_frames l \<and> label_frames l \<le> 255 \<and> label_reserved l = 0 \<and>
     label_padding l ! 0 = 0 \<and> label_padding l ! 1 = 0 \<and>
     ap_label_text_valid (label_item l) False \<and> ap_label_text_valid (label_subtitle l) True"

text \<open>The scan in closed form: a word of allowed characters, then only zero bytes.\<close>

lemma label_scan_ended: "label_scan cs True v = (if list_all (\<lambda>c. c = 0) cs then Some (True, v) else None)"
  by (induction cs) auto

lemma label_scan_open:
  "label_scan cs False v =
     (let word = takeWhile (\<lambda>c. c \<noteq> 0) cs; pad = dropWhile (\<lambda>c. c \<noteq> 0) cs
      in if list_all label_char word \<and> list_all (\<lambda>c. c = 0) pad
         then Some (pad \<noteq> [], v \<or> list_ex (\<lambda>c. c \<noteq> 32) word) else None)"
  by (induction cs arbitrary: v) (auto simp: label_scan_ended Let_def)

lemma label_text_iff:
  assumes "length cs = AP_LABEL_LENGTH"
  shows "ap_label_text_valid cs allow_empty \<longleftrightarrow>
     (let word = takeWhile (\<lambda>c. c \<noteq> 0) cs
      in length word < AP_LABEL_LENGTH \<and> list_all label_char word \<and>
         list_all (\<lambda>c. c = 0) (drop (length word) cs) \<and> (allow_empty \<or> list_ex (\<lambda>c. c \<noteq> 32) word))"
proof -
  let ?w = "takeWhile (\<lambda>c. c \<noteq> 0) cs"
  have "dropWhile (\<lambda>c. c \<noteq> 0) cs = drop (length ?w) cs" by (rule dropWhile_eq_drop)
  moreover have "drop (length ?w) cs \<noteq> [] \<longleftrightarrow> length ?w < AP_LABEL_LENGTH"
    using assms length_takeWhile_le [of "\<lambda>c. c \<noteq> 0" cs] by auto
  ultimately show ?thesis
    using assms by (auto simp: ap_label_text_valid_def label_scan_open Let_def)
qed

section \<open>State\<close>

record actor =
  unk58 :: u32
  object_properties_bitfield :: u32

record shop_world =
  current_character :: u8
  shop_map :: u32
  gCurrentActorPointer :: u32
  gPlayerPointer :: u32
  actors :: "u32 \<Rightarrow> actor"
  D_global_asm_80750AC8 :: u16
  melon_byte :: u8
  getLevelIndex :: "u8 \<Rightarrow> u8 \<Rightarrow> u8"
  isFlagSet :: "u16 \<Rightarrow> bool"
  resource_count :: "u8 \<Rightarrow> u8 \<Rightarrow> u32"
  saves :: nat

record ap_shop_offer =
  offer_location :: u32
  offer_price :: u16
  offer_reserved :: u16

record ap_shop_paad =
  unused0 :: "u8 list"
  paad_flag :: u16
  paad_kong :: u8
  paad_price :: u8
  unused6 :: "u8 list"
  item_type :: u8
  paad_level :: u8
  paad_state :: u8
  substate :: u8
  response :: u8
  paad_melons :: u8
  item_level :: u8

record shop_state =
  shop_active :: ap_check_set
  shop_observed :: ap_check_set
  shop_prices :: "u16 list"
  shop_prepared :: u8
  shop_labels :: "ap_shop_label list"
  shop_generation :: u32

abbreviation (input) AP_SHOP_ITEM_TYPE :: u8 where "AP_SHOP_ITEM_TYPE \<equiv> 21"

section \<open>Preparation\<close>

definition shop_index :: "u32 \<Rightarrow> int" where
  "shop_index loc =
     (case find (\<lambda>i. shop_id (ap_shop_locations ! i) = loc) [0..<AP_SHOP_COUNT] of
        None \<Rightarrow> - 1 | Some i \<Rightarrow> int i)"

definition shop_subset :: "ap_check_set cptr \<Rightarrow> ap_check_set \<Rightarrow> bool" where
  "shop_subset part whole \<longleftrightarrow> part \<noteq> Null \<and> ap_check_valid (deref part) \<and>
     (\<forall>i \<in> set [0..<AP_LOCATION_WORDS]. check_words (deref part) ! i AND NOT (check_words whole ! i) = 0)"

fun offers_active :: "ap_shop_offer list \<Rightarrow> ap_check_set \<Rightarrow> ap_check_set option" where
  "offers_active [] active = Some active"
| "offers_active (offer # offers) active =
     (if shop_index (offer_location offer) < 0 \<or> 255 < offer_price offer \<or> offer_reserved offer \<noteq> 0 \<or>
         ap_check_has active (offer_location offer) then None
      else offers_active offers (snd (ap_check_add active (offer_location offer))))"

definition offer_prices :: "ap_shop_offer list \<Rightarrow> u16 list" where
  "offer_prices offers =
     fold (\<lambda>offer prices. prices[nat (shop_index (offer_location offer)) := offer_price offer])
       offers (replicate AP_SHOP_COUNT 0)"

definition clear_labels :: "ap_shop_label list \<Rightarrow> ap_shop_label list" where
  "clear_labels = map (\<lambda>l. l\<lparr>label_location := 0\<rparr>)"

definition next_generation :: "u32 \<Rightarrow> u32" where
  "next_generation n = (if n + 1 = 0 then n + 1 + 1 else n + 1)"

definition ap_prepare_ap_shops ::
  "game \<Rightarrow> shop_state \<Rightarrow> ap_shop_offer list cptr \<Rightarrow> u32 \<Rightarrow> ap_check_set cptr \<Rightarrow> int \<times> shop_state" where
  "ap_prepare_ap_shops g st offers offer_count restored =
     (if ap_gameplay_mode g \<noteq> 0 \<or> 120 < offer_count \<or> offer_count \<noteq> 0 \<and> offers = Null then (0, st)
      else let given = (case offers of Null \<Rightarrow> [] | Ptr a os \<Rightarrow> take (unat offer_count) os) in
        case offers_active given no_checks of
          None \<Rightarrow> (0, st)
        | Some active \<Rightarrow>
            if \<not> ap_check_distinct_flags active \<or> \<not> shop_subset restored active then (0, st)
            else (1, \<lparr>shop_active = active, shop_observed = deref restored, shop_prices = offer_prices given,
                   shop_prepared = 1, shop_labels = clear_labels (shop_labels st),
                   shop_generation = next_generation (shop_generation st)\<rparr>))"

definition ap_apshop_restore :: "shop_state \<Rightarrow> ap_check_set cptr \<Rightarrow> int \<times> shop_state" where
  "ap_apshop_restore st restored =
     (if shop_prepared st = 0 \<or> \<not> shop_subset restored (shop_active st) then (0, st)
      else (1, st\<lparr>shop_observed := merge_checks (shop_observed st) (deref restored)\<rparr>))"

definition ap_apshop_snapshot :: "shop_state \<Rightarrow> ap_check_set cptr \<Rightarrow> ap_check_set cptr" where
  "ap_apshop_snapshot st result = (if result \<noteq> Null then store result (shop_observed st) else result)"

definition ap_apshop_generation :: "shop_state \<Rightarrow> u32" where
  "ap_apshop_generation st = shop_generation st"

section \<open>Labels of the session\<close>

fun labels_accepted :: "ap_check_set \<Rightarrow> ap_shop_label list \<Rightarrow> ap_check_set \<Rightarrow> bool" where
  "labels_accepted active [] seen = True"
| "labels_accepted active (l # ls) seen =
     (if \<not> ap_label_valid l \<or> \<not> ap_check_has active (label_location l) \<or> ap_check_has seen (label_location l)
      then False else labels_accepted active ls (snd (ap_check_add seen (label_location l))))"

definition ap_apshop_set_labels :: "shop_state \<Rightarrow> ap_shop_label list cptr \<Rightarrow> u32 \<Rightarrow> int \<times> shop_state" where
  "ap_apshop_set_labels st labels label_count =
     (if shop_prepared st = 0 \<or> 120 < label_count \<or> label_count \<noteq> 0 \<and> labels = Null then (0, st)
      else let given = (case labels of Null \<Rightarrow> [] | Ptr a ls \<Rightarrow> take (unat label_count) ls) in
        if \<not> labels_accepted (shop_active st) given no_checks then (0, st)
        else (1, st\<lparr>shop_labels := fold (\<lambda>l ls. ls[nat (shop_index (label_location l)) := l]) given
                      (clear_labels (shop_labels st))\<rparr>))"

section \<open>The shop handlers\<close>

definition owner_context :: "game \<Rightarrow> shop_world \<Rightarrow> shop_state \<Rightarrow> u32 \<Rightarrow> (u32 \<times> u32 \<times> u32) option" where
  "owner_context g w st owner =
     (if \<not> mode_has g AP_GAMEPLAY_SHOPS \<or> shop_prepared st = 0 \<or> current_file g \<noteq> 0 \<or>
         game_mode g \<noteq> GAME_MODE_ADVENTURE g \<or> game_mode_copy g \<noteq> GAME_MODE_ADVENTURE g \<or>
         owner = 0 \<or> gPlayerPointer w = 0 then None
      else let vendor = unk58 (actors w owner) - 0xBD; kong = ucast (current_character w)
        in if 3 \<le> vendor \<or> 5 \<le> kong then None
           else let level = ucast (getLevelIndex w (ucast (shop_map w)) 0)
             in if level < 8 then Some (vendor, level, kong) else None)"

definition shop_context :: "game \<Rightarrow> shop_world \<Rightarrow> shop_state \<Rightarrow> (u32 \<times> u32 \<times> u32) option" where
  "shop_context g w st = owner_context g w st (gCurrentActorPointer w)"

text \<open>The test on a table entry that the three loops share.\<close>

definition shop_here :: "u32 \<times> u32 \<times> u32 \<Rightarrow> ap_shop_location_def \<Rightarrow> bool" where
  "shop_here ctx d \<longleftrightarrow> (case ctx of (vendor, level, kong) \<Rightarrow>
     ucast (shop_vendor d) = vendor \<and> ucast (shop_level d) = level \<and>
     (ucast (shop_kong d) = kong \<or> shop_kong d = AP_SHOP_SHARED))"

definition shop_flag :: "nat \<Rightarrow> u16" where
  "shop_flag i = loc_flag (ap_locations ! nat (ap_location_index (shop_id (ap_shop_locations ! i))))"

definition sold_here :: "shop_state \<Rightarrow> u32 \<times> u32 \<times> u32 \<Rightarrow> ap_shop_paad \<Rightarrow> nat \<Rightarrow> bool" where
  "sold_here st ctx paad i \<longleftrightarrow> (let d = ap_shop_locations ! i in
     shop_here ctx d \<and> ap_check_has (shop_active st) (shop_id d) \<and> ap_check_has (shop_observed st) (shop_id d) \<and>
     ucast (paad_price paad) = shop_prices st ! i \<and> paad_flag paad = shop_flag i)"

definition ap_apshop_selected :: "shop_state \<Rightarrow> u32 \<times> u32 \<times> u32 \<Rightarrow> int" where
  "ap_apshop_selected st ctx =
     (case find (\<lambda>i. let d = ap_shop_locations ! i in shop_here ctx d \<and>
          ap_check_has (shop_active st) (shop_id d) \<and> \<not> ap_check_has (shop_observed st) (shop_id d))
        [0..<AP_SHOP_COUNT] of None \<Rightarrow> - 1 | Some i \<Rightarrow> int i)"

definition ap_apshop_context :: "game \<Rightarrow> shop_world \<Rightarrow> shop_state \<Rightarrow> int" where
  "ap_apshop_context g w st = c_bool (shop_context g w st \<noteq> None)"

definition paad_matches :: "ap_shop_paad \<Rightarrow> u32 \<times> u32 \<times> u32 \<Rightarrow> bool" where
  "paad_matches paad ctx \<longleftrightarrow> (case ctx of (vendor, level, kong) \<Rightarrow>
     item_type paad = AP_SHOP_ITEM_TYPE \<and> ucast (paad_level paad) = level \<and> ucast (paad_kong paad) = kong)"

definition ap_apshop_committed :: "game \<Rightarrow> shop_world \<Rightarrow> shop_state \<Rightarrow> ap_shop_paad cptr \<Rightarrow> int" where
  "ap_apshop_committed g w st paad =
     (case paad of Null \<Rightarrow> 0 | Ptr a p \<Rightarrow>
        (case shop_context g w st of None \<Rightarrow> 0 | Some ctx \<Rightarrow>
           if \<not> paad_matches p ctx then 0
           else c_bool (\<exists>i \<in> set [0..<AP_SHOP_COUNT]. sold_here st ctx p i)))"

definition pending_label :: ap_shop_label where
  "pending_label =
     \<lparr>label_location = 0, label_frames = 130, label_reserved = 0,
      label_item = map of_char ''ARCHIPELAGO CHECK'' @ replicate 16 0,
      label_subtitle = map of_char ''ITEM DETAILS PENDING'' @ replicate 13 0, label_padding = [0, 0]\<rparr>"

definition ap_apshop_display ::
  "game \<Rightarrow> shop_world \<Rightarrow> shop_state \<Rightarrow> u32 \<Rightarrow> ap_shop_paad cptr \<Rightarrow> ap_shop_label cptr
     \<Rightarrow> int \<times> ap_shop_label cptr" where
  "ap_apshop_display g w st owner paad result =
     (case paad of Null \<Rightarrow> (0, result) | Ptr a p \<Rightarrow>
        if result = Null then (0, result)
        else (case owner_context g w st owner of None \<Rightarrow> (0, result) | Some ctx \<Rightarrow>
          if \<not> paad_matches p ctx then (0, result)
          else (case find (sold_here st ctx p) [0..<AP_SHOP_COUNT] of
              None \<Rightarrow> (0, result)
            | Some i \<Rightarrow> (1, store result
                (if label_location (shop_labels st ! i) \<noteq> 0 then shop_labels st ! i
                 else pending_label\<lparr>label_location := shop_id (ap_shop_locations ! i)\<rparr>)))))"

definition ap_apshop_quote :: "game \<Rightarrow> shop_world \<Rightarrow> shop_state \<Rightarrow> ap_shop_paad cptr \<Rightarrow> int" where
  "ap_apshop_quote g w st paad =
     (case paad of Null \<Rightarrow> - 1 | Ptr a p \<Rightarrow>
        (case shop_context g w st of None \<Rightarrow> - 1 | Some ctx \<Rightarrow>
           let index = ap_apshop_selected st ctx in
           if index < 0 then - 1
           else if \<not> paad_matches p ctx \<or> ucast (paad_price p) \<noteq> shop_prices st ! nat index \<or>
               paad_flag p \<noteq> shop_flag (nat index) then - 1
           else index))"

definition ap_apshop_select ::
  "game \<Rightarrow> shop_world \<Rightarrow> shop_state \<Rightarrow> ap_shop_paad cptr \<Rightarrow> shop_world \<times> ap_shop_paad cptr" where
  "ap_apshop_select g w st paad =
     (case paad of Null \<Rightarrow> (w, paad) | Ptr a p0 \<Rightarrow>
        let p = p0\<lparr>item_type := - 1, paad_price := 0, paad_flag := 0xffff, item_level := 0,
                   paad_kong := current_character w, paad_melons := melon_byte w\<rparr>;
            w = w\<lparr>D_global_asm_80750AC8 := 0\<rparr>
        in case shop_context g w st of None \<Rightarrow> (w, Ptr a p) | Some ctx \<Rightarrow>
          (let p = p\<lparr>paad_level := ucast (fst (snd ctx))\<rparr>; index = ap_apshop_selected st ctx in
           if index < 0 then
             (w, Ptr a (if isFlagSet w 0x1cb then p\<lparr>item_type := - 2\<rparr> else p))
           else let price = ucast (shop_prices st ! nat index)
             in (w\<lparr>D_global_asm_80750AC8 := ucast (price :: u8)\<rparr>,
                 Ptr a (p\<lparr>item_type := AP_SHOP_ITEM_TYPE, paad_price := price, paad_flag := shop_flag (nat index)\<rparr>))))"

definition ap_apshop_afford ::
  "game \<Rightarrow> shop_world \<Rightarrow> shop_state \<Rightarrow> ap_shop_paad cptr \<Rightarrow> int \<times> ap_shop_paad cptr" where
  "ap_apshop_afford g w st paad =
     (case paad of Null \<Rightarrow> (0, paad) | Ptr a p \<Rightarrow>
        let (result, p) =
          (if ap_apshop_quote g w st (Ptr a (p\<lparr>response := 3\<rparr>)) \<ge> 0 then
             if uint (paad_price p) \<le> sint (resource_count w 1 0) then (2, p\<lparr>response := 1\<rparr>)
             else (3, p\<lparr>response := 3\<rparr>)
           else (if item_type p = - 2 then 1 else 0, p\<lparr>response := 3\<rparr>))
        in (if unused6 p ! 4 \<noteq> 0 then result + 4 else result, Ptr a p))"

definition ap_apshop_purchase ::
  "game \<Rightarrow> shop_world \<Rightarrow> shop_state \<Rightarrow> ap_shop_paad cptr \<Rightarrow> shop_world \<times> shop_state" where
  "ap_apshop_purchase g w st paad =
     (let index = ap_apshop_quote g w st paad in
      if index < 0 \<or> sint (resource_count w 1 0) < uint (paad_price (deref paad)) then (w, st)
      else (w\<lparr>saves := saves w + 1\<rparr>,
            st\<lparr>shop_observed := snd (ap_check_add (shop_observed st) (shop_id (ap_shop_locations ! nat index)))\<rparr>))"

section \<open>The shop table inside the catalog\<close>

text \<open>The shop ids are a stretch of the location ids with one gap.\<close>

lemma shop_ids:
  "map shop_id ap_shop_locations =
     filter (\<lambda>x. x \<noteq> 14041477) (map loc_id (drop 54 ap_locations_3 @ take 51 ap_locations_4))"
  by (simp add: ap_shop_locations_def ap_locations_3_def ap_locations_4_def)

lemma shop_is_location:
  assumes "i < AP_SHOP_COUNT"
  shows "shop_id (ap_shop_locations ! i) \<in> loc_id ` set ap_locations"
proof -
  from assms have "shop_id (ap_shop_locations ! i) \<in> set (map shop_id ap_shop_locations)" by simp
  then show ?thesis
    unfolding shop_ids using in_set_dropD in_set_takeD by (fastforce simp: ap_locations_def)
qed

lemma shop_location_index:
  assumes "i < AP_SHOP_COUNT"
  defines "k \<equiv> nat (ap_location_index (shop_id (ap_shop_locations ! i)))"
  shows "0 \<le> ap_location_index (shop_id (ap_shop_locations ! i))" "k < AP_LOCATION_COUNT"
    "loc_id (ap_locations ! k) = shop_id (ap_shop_locations ! i)"
    "ap_check_has s (shop_id (ap_shop_locations ! i)) \<longleftrightarrow> k \<in> checks_of s"
  using location_index_Some [of "shop_id (ap_shop_locations ! i)"] shop_is_location [OF assms(1)]
  by (auto simp: k_def ap_check_has_def Let_def)

definition shop_check :: "nat \<Rightarrow> nat" where
  "shop_check i = nat (ap_location_index (shop_id (ap_shop_locations ! i)))"

lemma shop_check_less [simp]: "i < AP_SHOP_COUNT \<Longrightarrow> shop_check i < AP_LOCATION_COUNT"
  using shop_location_index(2) by (simp add: shop_check_def)

lemma shop_check_id: "i < AP_SHOP_COUNT \<Longrightarrow> loc_id (ap_locations ! shop_check i) = shop_id (ap_shop_locations ! i)"
  using shop_location_index(3) by (simp add: shop_check_def)

lemma shop_has: "i < AP_SHOP_COUNT \<Longrightarrow> ap_check_has s (shop_id (ap_shop_locations ! i)) \<longleftrightarrow> shop_check i \<in> checks_of s"
  using shop_location_index(4) by (simp add: shop_check_def)

lemma shop_check_inj: "i < AP_SHOP_COUNT \<Longrightarrow> j < AP_SHOP_COUNT \<Longrightarrow> shop_check i = shop_check j \<longleftrightarrow> i = j"
  using shop_check_id [of i] shop_check_id [of j] shop_table.key_inj [of i j] by auto

lemma shop_flag_eq: "shop_flag i = loc_flag (ap_locations ! shop_check i)"
  by (simp add: shop_flag_def shop_check_def)

lemma shop_add:
  "i < AP_SHOP_COUNT \<Longrightarrow> ap_check_add s (shop_id (ap_shop_locations ! i)) = (1, check_mark s (shop_check i))"
  using shop_is_location by (simp add: check_add_eq shop_check_def)

lemma shop_index_nth: "i < AP_SHOP_COUNT \<Longrightarrow> shop_index (shop_id (ap_shop_locations ! i)) = int i"
proof -
  assume i: "i < AP_SHOP_COUNT"
  then have "find (\<lambda>j. shop_id (ap_shop_locations ! j) = shop_id (ap_shop_locations ! i)) [0..<AP_SHOP_COUNT] = Some i"
    using shop_table.key_inj by (subst find_Some_iff) (auto intro!: exI [of _ i] simp del: upt_rec_numeral)
  then show ?thesis by (simp add: shop_index_def del: upt_rec_numeral)
qed

lemma shop_index_cases:
  obtains (found) i where "i < AP_SHOP_COUNT" "shop_index loc = int i" "shop_id (ap_shop_locations ! i) = loc"
  | (missing) "shop_index loc = - 1" "loc \<notin> shop_id ` set ap_shop_locations"
proof (cases "find (\<lambda>i. shop_id (ap_shop_locations ! i) = loc) [0..<AP_SHOP_COUNT]")
  case None
  then have "shop_index loc = - 1" by (simp add: shop_index_def del: upt_rec_numeral)
  moreover from None have "loc \<notin> shop_id ` set ap_shop_locations"
    by (auto simp: find_None_iff in_set_conv_nth simp del: upt_rec_numeral)
  ultimately show ?thesis by (rule missing)
next
  case (Some i)
  then have "i < AP_SHOP_COUNT" "shop_id (ap_shop_locations ! i) = loc"
    by (auto simp: find_Some_iff simp del: upt_rec_numeral)
  then show ?thesis using found shop_index_nth [of i] by auto
qed

section \<open>Tables written slot by slot\<close>

lemma length_fold_update [simp]: "length (fold (\<lambda>y xs. xs[f y := h y]) ys init) = length init"
  by (induction ys arbitrary: init) simp_all

lemma fold_update_other: "i \<notin> f ` set ys \<Longrightarrow> fold (\<lambda>y xs. xs[f y := h y]) ys init ! i = init ! i"
  by (induction ys arbitrary: init) simp_all

lemma fold_update_nth:
  "distinct (map f ys) \<Longrightarrow> y \<in> set ys \<Longrightarrow> f y < length init \<Longrightarrow>
     fold (\<lambda>y xs. xs[f y := h y]) ys init ! f y = h y"
proof (induction ys arbitrary: init)
  case (Cons z ys)
  show ?case
  proof (cases "y \<in> set ys")
    case True
    with Cons show ?thesis by simp
  next
    case False
    with Cons.prems have "y = z" "f z \<notin> f ` set ys" by auto
    then show ?thesis using Cons.prems(3) by (simp add: fold_update_other)
  qed
qed simp

section \<open>Well-formed shop states\<close>

definition offer_slot :: "ap_shop_offer \<Rightarrow> nat" where
  "offer_slot offer = nat (shop_index (offer_location offer))"

definition label_slot :: "ap_shop_label \<Rightarrow> nat" where
  "label_slot l = nat (shop_index (label_location l))"

lemma slot_cases:
  assumes "0 \<le> shop_index loc"
  shows "nat (shop_index loc) < AP_SHOP_COUNT" "shop_id (ap_shop_locations ! nat (shop_index loc)) = loc"
  using assms by (cases loc rule: shop_index_cases; simp)+

lemma offers_active_Some:
  assumes "offers_active os active = Some a" "set_ok active"
  shows "set_ok a \<and> checks_of a = checks_of active \<union> (shop_check \<circ> offer_slot) ` set os \<and>
    distinct (map offer_slot os) \<and>
    (\<forall>x \<in> set os. offer_slot x < AP_SHOP_COUNT \<and> shop_id (ap_shop_locations ! offer_slot x) = offer_location x \<and>
       offer_price x \<le> 255 \<and> shop_check (offer_slot x) \<notin> checks_of active)"
  using assms
proof (induction os arbitrary: active)
  case (Cons x os)
  let ?i = "offer_slot x"
  from Cons.prems have x: "0 \<le> shop_index (offer_location x)" "offer_price x \<le> 255"
    "\<not> ap_check_has active (offer_location x)"
    and rest: "offers_active os (snd (ap_check_add active (offer_location x))) = Some a"
    by (auto split: if_splits)
  note slot = slot_cases [OF x(1), folded offer_slot_def]
  have add: "ap_check_add active (offer_location x) = (1, check_mark active (shop_check ?i))"
    using shop_add [OF slot(1)] slot(2) by simp
  have fresh: "shop_check ?i \<notin> checks_of active"
    using x(3) shop_has [OF slot(1)] slot(2) by simp
  have marked: "checks_of (check_mark active (shop_check ?i)) = insert (shop_check ?i) (checks_of active)"
    using Cons.prems(2) slot(1) by (intro checks_of_mark) simp_all
  from Cons.IH [of "check_mark active (shop_check ?i)"] rest Cons.prems(2)
  have IH: "set_ok a" "checks_of a = insert (shop_check ?i) (checks_of active) \<union> (shop_check \<circ> offer_slot) ` set os"
    "distinct (map offer_slot os)"
    "\<forall>y \<in> set os. offer_slot y < AP_SHOP_COUNT \<and> shop_id (ap_shop_locations ! offer_slot y) = offer_location y \<and>
       offer_price y \<le> 255 \<and> shop_check (offer_slot y) \<notin> insert (shop_check ?i) (checks_of active)"
    unfolding add marked [symmetric] by simp_all
  have "?i \<notin> offer_slot ` set os" using IH(4) by auto
  with IH slot x(2) fresh show ?case by (simp add: Un_commute insert_commute)
qed simp

lemma prices_length [simp]: "length (offer_prices os) = AP_SHOP_COUNT"
  by (simp add: offer_prices_def)

lemma prices_nth:
  "distinct (map offer_slot os) \<Longrightarrow> x \<in> set os \<Longrightarrow> offer_slot x < AP_SHOP_COUNT \<Longrightarrow>
     offer_prices os ! offer_slot x = offer_price x"
  using fold_update_nth [of offer_slot os x "replicate AP_SHOP_COUNT 0" offer_price]
  by (simp add: offer_prices_def offer_slot_def)

lemma prices_bound:
  assumes "\<forall>x \<in> set os. offer_price x \<le> 255" shows "\<forall>p \<in> set (offer_prices os). p \<le> 255"
proof -
  have "\<forall>p \<in> set (fold (\<lambda>y xs. xs[nat (shop_index (offer_location y)) := offer_price y]) os init). p \<le> 255"
    if "\<forall>p \<in> set init. p \<le> 255" for init
    using assms that
  proof (induction os arbitrary: init)
    case (Cons y os)
    then have "\<forall>p \<in> set (init[nat (shop_index (offer_location y)) := offer_price y]). p \<le> 255"
      using set_update_subset_insert [of init] by fastforce
    with Cons show ?case by simp
  qed simp
  from this [of "replicate AP_SHOP_COUNT 0"] show ?thesis by (simp add: offer_prices_def)
qed

text \<open>A label slot is empty or holds a valid label of its own, active location.\<close>

definition label_fits :: "shop_state \<Rightarrow> nat \<Rightarrow> bool" where
  "label_fits st i \<longleftrightarrow> (let l = shop_labels st ! i in
     label_location l = 0 \<or>
     ap_label_valid l \<and> label_location l = shop_id (ap_shop_locations ! i) \<and> shop_check i \<in> checks_of (shop_active st))"

definition shop_ok :: "shop_state \<Rightarrow> bool" where
  "shop_ok st \<longleftrightarrow> set_ok (shop_active st) \<and> set_ok (shop_observed st) \<and>
     ap_check_distinct_flags (shop_active st) \<and> ap_check_valid (shop_observed st) \<and>
     checks_of (shop_observed st) \<subseteq> checks_of (shop_active st) \<and>
     checks_of (shop_active st) \<subseteq> shop_check ` {..<AP_SHOP_COUNT} \<and>
     length (shop_prices st) = AP_SHOP_COUNT \<and> (\<forall>p \<in> set (shop_prices st). p \<le> 255) \<and>
     length (shop_labels st) = AP_SHOP_COUNT \<and> (\<forall>i < AP_SHOP_COUNT. label_fits st i)"

lemma shop_subset_le:
  "set_ok x \<Longrightarrow> set_ok w \<Longrightarrow>
     shop_subset (Ptr a x) w \<longleftrightarrow> ap_check_valid x \<and> checks_of x \<subseteq> checks_of w"
proof -
  assume ok: "set_ok x" "set_ok w"
  have "shop_subset (Ptr a x) w \<longleftrightarrow> check_subset x w"
    by (simp only: shop_subset_def check_subset_def cptr.sel cptr.distinct simp_thms)
  with ok show ?thesis using check_le_iff [OF ok] by (auto simp: subset_le)
qed

section \<open>Operations keep the state well-formed\<close>

lemma active_shop:
  assumes "checks_of active \<subseteq> shop_check ` {..<AP_SHOP_COUNT}" "ap_check_has active loc"
  shows "0 \<le> shop_index loc \<and> shop_check (nat (shop_index loc)) \<in> checks_of active"
proof -
  define k where "k = nat (ap_location_index loc)"
  from assms(2) have k: "k \<in> checks_of active" "loc_id (ap_locations ! k) = loc"
    using location_index_Some(2) [of loc] by (auto simp: ap_check_has_def k_def Let_def)
  with assms(1) obtain i where i: "i < AP_SHOP_COUNT" "k = shop_check i" by auto
  with k(2) have "shop_id (ap_shop_locations ! i) = loc" by (simp add: shop_check_id)
  with shop_index_nth [OF i(1)] i(2) k(1) show ?thesis by simp
qed

lemma labels_accepted_iff:
  assumes "checks_of active \<subseteq> shop_check ` {..<AP_SHOP_COUNT}" "set_ok seen"
  shows "labels_accepted active ls seen \<longleftrightarrow>
    (\<forall>l \<in> set ls. ap_label_valid l \<and> ap_check_has active (label_location l) \<and>
       \<not> ap_check_has seen (label_location l)) \<and> distinct (map label_location ls)"
  using assms(2)
proof (induction ls arbitrary: seen)
  case (Cons l ls)
  show ?case
  proof (cases "ap_label_valid l \<and> ap_check_has active (label_location l) \<and> \<not> ap_check_has seen (label_location l)")
    case True
    define i where "i = nat (shop_index (label_location l))"
    from True active_shop [OF assms(1)] have "0 \<le> shop_index (label_location l)" by blast
    from slot_cases [OF this] have i: "i < AP_SHOP_COUNT" "shop_id (ap_shop_locations ! i) = label_location l"
      by (simp_all add: i_def)
    have add: "snd (ap_check_add seen (label_location l)) = check_mark seen (shop_check i)"
      using shop_add [OF i(1)] i(2) by simp
    have has: "ap_check_has (check_mark seen (shop_check i)) loc \<longleftrightarrow> ap_check_has seen loc \<or> loc = label_location l"
      if "ap_check_has active loc" for loc
    proof -
      from that active_shop [OF assms(1)] have "0 \<le> shop_index loc" by blast
      from slot_cases [OF this] obtain j where j: "j < AP_SHOP_COUNT" "shop_id (ap_shop_locations ! j) = loc" by blast
      have "loc = label_location l \<longleftrightarrow> j = i" using j i shop_table.key_inj [of j i] by auto
      moreover have "ap_check_has (check_mark seen (shop_check i)) loc \<longleftrightarrow> shop_check j = shop_check i \<or> ap_check_has seen loc"
        using shop_has [OF j(1)] j(2) mark_index [OF Cons.prems] i(1) by auto
      ultimately show ?thesis using shop_check_inj [OF j(1) i(1)] by blast
    qed
    have fresh: "ap_check_has active (label_location x) \<and> \<not> ap_check_has (check_mark seen (shop_check i)) (label_location x) \<longleftrightarrow>
        ap_check_has active (label_location x) \<and> \<not> ap_check_has seen (label_location x) \<and>
        label_location x \<noteq> label_location l" for x
      using has [of "label_location x"] by blast
    from True Cons.IH [of "check_mark seen (shop_check i)"] Cons.prems
    show ?thesis by (simp only: labels_accepted.simps add fresh mark_ok if_False simp_thms list.set ball_simps
        list.map distinct.simps set_map image_iff) metis
  qed auto
qed simp

lemma clear_length [simp]: "length (clear_labels ls) = length ls"
  by (simp add: clear_labels_def)

lemma clear_nth [simp]: "i < length ls \<Longrightarrow> label_location (clear_labels ls ! i) = 0"
  by (simp add: clear_labels_def)

lemma set_labels_ok:
  assumes "shop_ok st" "ap_apshop_set_labels st p n = (r, st')"
  shows "shop_ok st' \<and> shop_active st' = shop_active st \<and> shop_observed st' = shop_observed st"
proof (cases "r = 1")
  case False
  with assms show ?thesis
    by (auto simp: ap_apshop_set_labels_def Let_def split: if_splits)
next
  case True
  define given where "given = (case p of Null \<Rightarrow> [] | Ptr a ls \<Rightarrow> take (unat n) ls)"
  let ?ls = "fold (\<lambda>l ls. ls[label_slot l := l]) given (clear_labels (shop_labels st))"
  from assms True have acc: "labels_accepted (shop_active st) given no_checks"
    and st': "st' = st\<lparr>shop_labels := ?ls\<rparr>"
    by (auto simp: ap_apshop_set_labels_def given_def label_slot_def Let_def split: if_splits)
  from assms(1) have act: "checks_of (shop_active st) \<subseteq> shop_check ` {..<AP_SHOP_COUNT}"
    and len: "length (shop_labels st) = AP_SHOP_COUNT" by (simp_all add: shop_ok_def)
  from acc have each: "\<forall>l \<in> set given. ap_label_valid l \<and> ap_check_has (shop_active st) (label_location l)"
    and dist: "distinct (map label_location given)"
    by (simp_all add: labels_accepted_iff [OF act])
  have slot: "label_slot l < AP_SHOP_COUNT \<and> shop_id (ap_shop_locations ! label_slot l) = label_location l \<and>
      shop_check (label_slot l) \<in> checks_of (shop_active st)" if "l \<in> set given" for l
    using active_shop [OF act, of "label_location l"] slot_cases [of "label_location l"] each that
    unfolding label_slot_def by blast
  have "inj_on label_slot (set given)"
    using slot dist by (auto simp: inj_on_def distinct_map) metis
  with dist have slots: "distinct (map label_slot given)" by (simp add: distinct_map)
  have "label_fits st' i" if i: "i < AP_SHOP_COUNT" for i
  proof (cases "i \<in> label_slot ` set given")
    case True
    then obtain l where l: "l \<in> set given" "i = label_slot l" by blast
    have "?ls ! i = l"
      using fold_update_nth [OF slots l(1), of "clear_labels (shop_labels st)" id] slot [OF l(1)] len l(2) by simp
    with l slot [OF l(1)] each show ?thesis by (simp add: label_fits_def st')
  next
    case False
    then have "?ls ! i = clear_labels (shop_labels st) ! i"
      using fold_update_other [of i label_slot given id] by simp
    with i len show ?thesis by (simp add: label_fits_def st')
  qed
  with assms(1) len show ?thesis
    using length_fold_update [of label_slot id] by (simp add: shop_ok_def st')
qed

lemma observe_ok:
  assumes "shop_ok st" "set_ok obs" "ap_check_valid obs" "checks_of obs \<subseteq> checks_of (shop_active st)"
  shows "shop_ok (st\<lparr>shop_observed := obs\<rparr>)"
  using assms by (simp add: shop_ok_def label_fits_def)

lemma restore_ok:
  assumes "shop_ok st" "set_ok x" "ap_apshop_restore st (Ptr a x) = (r, st')"
  shows "shop_ok st' \<and> shop_active st' = shop_active st \<and>
    checks_of (shop_observed st) \<subseteq> checks_of (shop_observed st') \<and>
    (r = 1 \<longrightarrow> checks_of (shop_observed st') = checks_of (shop_observed st) \<union> checks_of x)"
proof (cases "shop_prepared st = 0 \<or> \<not> shop_subset (Ptr a x) (shop_active st)")
  case True
  with assms show ?thesis by (auto simp: ap_apshop_restore_def)
next
  case False
  with assms have st': "st' = st\<lparr>shop_observed := merge_checks (shop_observed st) x\<rparr>"
    and sub: "ap_check_valid x" "checks_of x \<subseteq> checks_of (shop_active st)"
    by (auto simp: ap_apshop_restore_def shop_subset_le shop_ok_def)
  from assms(1) have obs: "set_ok (shop_observed st)" "ap_check_valid (shop_observed st)"
    "checks_of (shop_observed st) \<subseteq> checks_of (shop_active st)" by (simp_all add: shop_ok_def)
  note merged = checks_of_merge [OF obs(1) assms(2)]
  have "shop_ok st'"
    unfolding st' using assms(1,2) obs sub
    by (intro observe_ok) (simp_all add: merge_valid merged)
  then show ?thesis using merged by (simp add: st')
qed

section \<open>Offers, payment and acknowledgement\<close>

lemma selected_Some:
  "ap_apshop_selected st ctx = int i \<Longrightarrow>
     i < AP_SHOP_COUNT \<and> shop_here ctx (ap_shop_locations ! i) \<and>
     shop_check i \<in> checks_of (shop_active st) \<and> shop_check i \<notin> checks_of (shop_observed st)"
  by (auto simp: ap_apshop_selected_def Let_def find_Some_iff shop_has split: option.splits
      simp del: upt_rec_numeral checks_of_iff)

lemma selected_range: "ap_apshop_selected st ctx < 0 \<longleftrightarrow> ap_apshop_selected st ctx = - 1"
  "ap_apshop_selected st ctx < 0 \<or> (\<exists>i. ap_apshop_selected st ctx = int i)"
  by (auto simp: ap_apshop_selected_def split: option.splits simp del: upt_rec_numeral)

lemma quote_iff:
  "ap_apshop_quote g w st (Ptr a p) = int i \<longleftrightarrow>
     (\<exists>ctx. shop_context g w st = Some ctx \<and> paad_matches p ctx \<and> ap_apshop_selected st ctx = int i \<and>
        ucast (paad_price p) = shop_prices st ! i \<and> paad_flag p = shop_flag i)"
  by (auto simp: ap_apshop_quote_def Let_def split: option.splits)

lemma quote_cases:
  obtains (none) "ap_apshop_quote g w st paad = - 1"
  | (offer) a p i ctx where "paad = Ptr a p" "ap_apshop_quote g w st paad = int i" "shop_context g w st = Some ctx"
      "paad_matches p ctx" "ap_apshop_selected st ctx = int i" "ucast (paad_price p) = shop_prices st ! i"
      "paad_flag p = shop_flag i"
proof (cases paad)
  case Null
  with none show ?thesis by (simp add: ap_apshop_quote_def)
next
  case (Ptr a p)
  show ?thesis
  proof (cases "ap_apshop_quote g w st paad = - 1")
    case False
    then have "0 \<le> ap_apshop_quote g w st paad"
      using Ptr by (auto simp: ap_apshop_quote_def Let_def split: option.splits if_splits)
    then have "\<exists>i. ap_apshop_quote g w st paad = int i"
      by (intro exI [of _ "nat (ap_apshop_quote g w st paad)"]) simp
    with Ptr offer show ?thesis by (auto simp: quote_iff)
  qed (rule none)
qed

lemma context_observed [simp]:
  "shop_context g w (st\<lparr>shop_observed := obs\<rparr>) = shop_context g w st"
  "shop_context g (w\<lparr>saves := n\<rparr>) st = shop_context g w st"
  "shop_context g (w\<lparr>D_global_asm_80750AC8 := c\<rparr>) st = shop_context g w st"
  "owner_context g (w\<lparr>saves := n\<rparr>) st x = owner_context g w st x"
  "owner_context g w (st\<lparr>shop_observed := obs\<rparr>) x = owner_context g w st x"
  by (simp_all add: shop_context_def owner_context_def Let_def)

lemma purchase_effect:
  assumes "ap_apshop_quote g w st (Ptr a p) = int i" "uint (paad_price p) \<le> sint (resource_count w 1 0)"
  shows "ap_apshop_purchase g w st (Ptr a p) =
    (w\<lparr>saves := saves w + 1\<rparr>, st\<lparr>shop_observed := check_mark (shop_observed st) (shop_check i)\<rparr>)"
proof -
  from assms(1) have "i < AP_SHOP_COUNT" using selected_Some by (auto simp: quote_iff)
  with assms shop_add show ?thesis by (simp add: ap_apshop_purchase_def)
qed

lemma quote_response:
  "ap_apshop_quote g w st (Ptr a (p\<lparr>response := x\<rparr>)) = ap_apshop_quote g w st (Ptr a p)"
proof -
  have "paad_matches (p\<lparr>response := x\<rparr>) = paad_matches p" by (simp add: paad_matches_def fun_eq_iff)
  then show ?thesis by (cases "shop_context g w st") (simp_all add: ap_apshop_quote_def Let_def)
qed

lemma purchase_none:
  "ap_apshop_quote g w st paad < 0 \<or> sint (resource_count w 1 0) < uint (paad_price (deref paad)) \<Longrightarrow>
     ap_apshop_purchase g w st paad = (w, st)"
  by (simp add: ap_apshop_purchase_def)

lemma purchase_ok:
  assumes "shop_ok st" "ap_apshop_purchase g w st paad = (w', st')"
  shows "shop_ok st' \<and> shop_active st' = shop_active st \<and>
    checks_of (shop_observed st) \<subseteq> checks_of (shop_observed st')"
proof (cases "ap_apshop_quote g w st paad < 0 \<or> sint (resource_count w 1 0) < uint (paad_price (deref paad))")
  case True
  with purchase_none [OF True] assms show ?thesis by simp
next
  case False
  show ?thesis
  proof (rule quote_cases [where g = g and w = w and st = st and paad = paad])
    assume "ap_apshop_quote g w st paad = - 1"
    with False show ?thesis by simp
  next
    fix a p i ctx
    assume offer: "paad = Ptr a p" "ap_apshop_quote g w st paad = int i" "shop_context g w st = Some ctx"
      "paad_matches p ctx" "ap_apshop_selected st ctx = int i"
    with False have st': "st' = st\<lparr>shop_observed := check_mark (shop_observed st) (shop_check i)\<rparr>"
      using purchase_effect [of g w st a p i] assms(2) by simp
    note sel = selected_Some [OF offer(5)]
    from assms(1) have obs: "set_ok (shop_observed st)" "ap_check_valid (shop_observed st)"
      "checks_of (shop_observed st) \<subseteq> checks_of (shop_active st)" by (simp_all add: shop_ok_def)
    have mark: "checks_of (check_mark (shop_observed st) (shop_check i)) =
        insert (shop_check i) (checks_of (shop_observed st))"
      using obs(1) sel by (intro checks_of_mark) simp_all
    have "shop_ok st'"
      unfolding st' using assms(1) obs sel mark by (intro observe_ok) (simp_all del: checks_of_iff)
    with mark show ?thesis by (simp add: st' del: checks_of_iff) blast
  qed
qed

text \<open>The operations of a prepared session.\<close>

inductive shop_step :: "shop_state \<Rightarrow> shop_state \<Rightarrow> bool" where
  restored: "set_ok x \<Longrightarrow> ap_apshop_restore st (Ptr a x) = (r, st') \<Longrightarrow> shop_step st st'"
| labelled: "ap_apshop_set_labels st ls n = (r, st') \<Longrightarrow> shop_step st st'"
| purchased: "ap_apshop_purchase g w st paad = (w', st') \<Longrightarrow> shop_step st st'"

inductive_cases shop_stepE: "shop_step st st'"

lemma shop_step_effect:
  assumes "shop_ok st" "shop_step st st'"
  shows "shop_ok st' \<and> shop_active st' = shop_active st \<and>
    checks_of (shop_observed st) \<subseteq> checks_of (shop_observed st')"
  using assms(2)
proof (rule shop_stepE)
  fix x a r assume "set_ok x" "ap_apshop_restore st (Ptr a x) = (r, st')"
  from restore_ok [OF assms(1) this] show ?thesis by blast
next
  fix ls n r assume "ap_apshop_set_labels st ls n = (r, st')"
  from set_labels_ok [OF assms(1) this] show ?thesis by simp
next
  fix g w paad w' assume "ap_apshop_purchase g w st paad = (w', st')"
  from purchase_ok [OF assms(1) this] show ?thesis by blast
qed

lemma shop_le:
  "shop_ok st \<Longrightarrow> shop_ok st' \<Longrightarrow>
     shop_observed st \<le> shop_observed st' \<longleftrightarrow> checks_of (shop_observed st) \<subseteq> checks_of (shop_observed st')"
  unfolding shop_ok_def by (intro check_le_iff) simp_all

interpretation shop_checks: check_store shop_active shop_observed shop_step shop_ok
proof unfold_locales
  fix s s' assume a: "shop_ok s" "shop_step s s'"
  note eff = shop_step_effect [OF a]
  from eff show "shop_ok s'" "shop_active s' = shop_active s" by simp_all
  from eff a show "shop_observed s \<le> shop_observed s'" by (simp add: shop_le)
next
  fix s assume "shop_ok s"
  then show "shop_observed s \<le> shop_active s"
    by (subst check_le_iff) (simp_all add: shop_ok_def)
qed

lemma prepare_iff_active:
  assumes "ap_prepare_ap_shops g st offers n (Ptr a x) = (1, st')"
    "set_ok x" "length (shop_labels st) = AP_SHOP_COUNT"
  defines "given \<equiv> (case offers of Null \<Rightarrow> [] | Ptr a os \<Rightarrow> take (unat n) os)"
  shows "shop_ok st' \<and> shop_prepared st' = 1 \<and> shop_observed st' = x \<and>
    checks_of (shop_active st') = (shop_check \<circ> offer_slot) ` set given \<and>
    (\<forall>y \<in> set given. shop_prices st' ! offer_slot y = offer_price y \<and>
       shop_id (ap_shop_locations ! offer_slot y) = offer_location y \<and> offer_slot y < AP_SHOP_COUNT) \<and>
    (\<forall>i < AP_SHOP_COUNT. label_location (shop_labels st' ! i) = 0) \<and>
    shop_generation st' \<noteq> 0 \<and> shop_generation st' \<noteq> shop_generation st"
proof -
  from assms(1) obtain active where active: "offers_active given no_checks = Some active"
    and ok: "ap_check_distinct_flags active" "shop_subset (Ptr a x) active"
    and st': "st' = \<lparr>shop_active = active, shop_observed = x, shop_prices = offer_prices given, shop_prepared = 1,
       shop_labels = clear_labels (shop_labels st), shop_generation = next_generation (shop_generation st)\<rparr>"
    unfolding ap_prepare_ap_shops_def Let_def given_def by (auto split: if_splits option.splits)
  from offers_active_Some [OF active] have a: "set_ok active" "checks_of active = (shop_check \<circ> offer_slot) ` set given"
    "distinct (map offer_slot given)"
    "\<forall>y \<in> set given. offer_slot y < AP_SHOP_COUNT \<and> shop_id (ap_shop_locations ! offer_slot y) = offer_location y \<and>
       offer_price y \<le> 255" by auto
  have sub: "ap_check_valid x" "checks_of x \<subseteq> checks_of active"
    using ok(2) shop_subset_le [OF assms(2) a(1)] by auto
  have gen: "next_generation k \<noteq> 0 \<and> next_generation k \<noteq> k" for k :: u32
    by (auto simp: next_generation_def)
  have "checks_of active \<subseteq> shop_check ` {..<AP_SHOP_COUNT}" using a(2,4) by auto
  moreover have "\<forall>p \<in> set (offer_prices given). p \<le> 255" by (rule prices_bound) (use a(4) in blast)
  ultimately have "shop_ok st'"
    using a(1) ok(1) sub assms(2,3) by (simp add: shop_ok_def st' label_fits_def)
  moreover have "offer_prices given ! offer_slot y = offer_price y" if "y \<in> set given" for y
    using prices_nth [OF a(3) that] a(4) that by blast
  ultimately show ?thesis using a gen assms(3) by (simp add: st')
qed

section \<open>Properties of the shops\<close>

lemma select_offer:
  assumes "shop_ok st" "ap_apshop_select g w st (Ptr a p) = (w', Ptr a q)" "item_type q = AP_SHOP_ITEM_TYPE"
  obtains ctx i where "shop_context g w st = Some ctx" "ap_apshop_selected st ctx = int i"
    "paad_matches q ctx" "ucast (paad_price q) = shop_prices st ! i" "paad_flag q = shop_flag i"
    "w' = w\<lparr>D_global_asm_80750AC8 := ucast (paad_price q)\<rparr>"
proof -
  from assms(2,3) obtain vendor level kong where ctx: "shop_context g w st = Some (vendor, level, kong)"
    by (cases "shop_context g w st") (auto simp: ap_apshop_select_def Let_def)
  from assms(2,3) ctx have sel: "\<not> ap_apshop_selected st (vendor, level, kong) < 0"
    by (auto simp: ap_apshop_select_def Let_def split: if_splits)
  then obtain i where i: "ap_apshop_selected st (vendor, level, kong) = int i" using selected_range(2) by blast
  from selected_Some [OF i] have "i < AP_SHOP_COUNT" by simp
  with assms(1) have price: "shop_prices st ! i \<le> 255" by (auto simp: shop_ok_def)
  then have fits: "ucast (ucast (shop_prices st ! i) :: u8) = shop_prices st ! i"
    by (simp add: word_unat_eq_iff unsigned_ucast_eq take_bit_eq_mod word_le_nat_alt unat_mod)
  from ctx have bounds: "level < 8" "kong = ucast (current_character w)"
    by (auto simp: shop_context_def owner_context_def Let_def split: if_splits)
  have level: "ucast (ucast level :: u8) = level"
    using bounds(1) by (simp add: word_unat_eq_iff unsigned_ucast_eq take_bit_eq_mod word_less_nat_alt unat_mod)
  from assms(2) ctx i have q: "q = p\<lparr>item_type := AP_SHOP_ITEM_TYPE, paad_price := ucast (shop_prices st ! i),
      paad_flag := shop_flag i, item_level := 0, paad_kong := current_character w, paad_melons := melon_byte w,
      paad_level := ucast level\<rparr>"
    and w': "w' = w\<lparr>D_global_asm_80750AC8 := ucast (ucast (shop_prices st ! i) :: u8)\<rparr>"
    by (auto simp: ap_apshop_select_def Let_def)
  show ?thesis
    by (rule that [OF ctx i]) (simp_all add: q w' fits level bounds(2) paad_matches_def)
qed

text \<open>
  C9: an offer selected for the player is sold exactly once.  With enough coins the purchase records
  one check, an active and so far unobserved location of this vendor, level and Kong, at the prepared
  price, and asks for one save; the acknowledgement then accepts the shop state, and a second purchase
  from the same shop record changes nothing.
\<close>

theorem purchase_once:
  assumes "shop_ok st" and "ap_apshop_select g w st (Ptr a p) = (w1, Ptr a q)"
    and "item_type q = AP_SHOP_ITEM_TYPE" and "uint (paad_price q) \<le> sint (resource_count w 1 0)"
    and "ap_apshop_purchase g w1 st (Ptr a q) = (w2, st2)"
  shows "\<exists>ctx i. shop_context g w st = Some ctx \<and> shop_here ctx (ap_shop_locations ! i) \<and>
    shop_check i \<in> checks_of (shop_active st) - checks_of (shop_observed st) \<and>
    ucast (paad_price q) = shop_prices st ! i \<and>
    checks_of (shop_observed st2) = insert (shop_check i) (checks_of (shop_observed st)) \<and>
    saves w2 = saves w + 1 \<and> ap_apshop_committed g w2 st2 (Ptr a q) = 1 \<and>
    ap_apshop_purchase g w2 st2 (Ptr a q) = (w2, st2)"
proof (rule select_offer [OF assms(1-3)])
  fix ctx i
  assume ctx: "shop_context g w st = Some ctx" and sel: "ap_apshop_selected st ctx = int i"
    and q: "paad_matches q ctx" "ucast (paad_price q) = shop_prices st ! i" "paad_flag q = shop_flag i"
    and w1: "w1 = w\<lparr>D_global_asm_80750AC8 := ucast (paad_price q)\<rparr>"
  note i = selected_Some [OF sel]
  from assms(1) have obs: "set_ok (shop_observed st)" and dist: "ap_check_distinct_flags (shop_active st)"
    by (simp_all add: shop_ok_def)
  have "ap_apshop_quote g w1 st (Ptr a q) = int i" using ctx sel q by (auto simp: quote_iff w1)
  from purchase_effect [OF this] assms(4,5)
  have w2: "w2 = w1\<lparr>saves := saves w1 + 1\<rparr>"
    and st2: "st2 = st\<lparr>shop_observed := check_mark (shop_observed st) (shop_check i)\<rparr>"
    by (simp_all add: w1)
  have mark: "checks_of (check_mark (shop_observed st) (shop_check i)) = insert (shop_check i) (checks_of (shop_observed st))"
    using obs i by (intro checks_of_mark) simp_all
  have ctx2: "shop_context g w2 st2 = Some ctx" by (simp add: w2 st2 w1 ctx)
  have "sold_here st2 ctx q i"
    using i q mark by (simp add: sold_here_def st2 shop_has Let_def del: checks_of_iff)
  then have committed: "ap_apshop_committed g w2 st2 (Ptr a q) = 1"
    using ctx2 q(1) i by (auto simp: ap_apshop_committed_def simp del: upt_rec_numeral)
  have "\<not> 0 \<le> ap_apshop_quote g w2 st2 (Ptr a q)"
  proof
    assume "0 \<le> ap_apshop_quote g w2 st2 (Ptr a q)"
    then obtain j where "ap_apshop_quote g w2 st2 (Ptr a q) = int j" using zero_le_imp_eq_int by blast
    then have "ap_apshop_selected st2 ctx = int j" "paad_flag q = shop_flag j" by (auto simp: quote_iff ctx2)
    with selected_Some have j: "j < AP_SHOP_COUNT" "shop_check j \<in> checks_of (shop_active st2)"
      "shop_check j \<notin> checks_of (shop_observed st2)" and flag: "shop_flag j = shop_flag i" using q(3) by auto
    from distinct_flagsD [OF dist, of "shop_check i" "shop_check j"] i j(2) flag
    have "shop_check j = shop_check i" by (simp add: st2 shop_flag_eq del: checks_of_iff)
    with j(3) mark show False by (simp add: st2 del: checks_of_iff)
  qed
  then have "ap_apshop_purchase g w2 st2 (Ptr a q) = (w2, st2)" by (intro purchase_none) simp
  with ctx i q(2) mark committed show ?thesis
    by (intro exI [of _ ctx] exI [of _ i]) (simp add: w2 w1 st2 del: checks_of_iff)
qed

text \<open>
  The price check and the payment agree: the shop answers \<open>enough coins\<close> for a shop record (its
  answer without the first-visit marker is two) exactly when the purchase from the record it returns
  reaches the stock save, and then only the response byte of the record has changed.
\<close>

theorem afford_iff_purchase:
  assumes "ap_apshop_afford g w st (Ptr a p) = (r, Ptr a q)" and "ap_apshop_purchase g w st (Ptr a q) = (w', st')"
  shows "q = p\<lparr>response := response q\<rparr> \<and> r \<in> {0..7} \<and> (r mod 4 = 2 \<longleftrightarrow> saves w' = saves w + 1) \<and>
    (r mod 4 = 2 \<longleftrightarrow> response q = 1) \<and> (r mod 4 \<noteq> 2 \<longrightarrow> w' = w \<and> st' = st)"
proof -
  show ?thesis
  proof (cases "0 \<le> ap_apshop_quote g w st (Ptr a p) \<and> uint (paad_price p) \<le> sint (resource_count w 1 0)")
    case True
    with assms(1) have q: "q = p\<lparr>response := 1\<rparr>" and r: "r \<in> {2, 6}"
      by (auto simp: ap_apshop_afford_def quote_response split: if_splits)
    from True assms(2) have "saves w' = saves w + 1" by (auto simp: ap_apshop_purchase_def q quote_response)
    with q r show ?thesis by auto
  next
    case False
    with assms(1) have q: "q = p\<lparr>response := 3\<rparr>" and r: "r \<in> {0, 1, 3, 4, 5, 7}"
      by (auto simp: ap_apshop_afford_def quote_response split: if_splits)
    from False have "(w', st') = (w, st)"
      using assms(2) purchase_none [of g w st "Ptr a q"] by (auto simp: q quote_response not_le)
    with q r show ?thesis by auto
  qed
qed

text \<open>
  Preparation is all or nothing: a refused set of offers changes nothing; an accepted one publishes
  exactly the offered locations at their prices, with the restored checks, no labels, and a fresh
  nonzero generation, in a well-formed state.
\<close>

theorem prepare_publishes:
  assumes "set_ok x" and "length (shop_labels st) = AP_SHOP_COUNT"
    and "ap_prepare_ap_shops g st (Ptr b os) n (Ptr a x) = (r, st')" and "given = take (unat n) os"
  shows "(r = 0 \<and> st' = st) \<or> (r = 1 \<and> shop_ok st' \<and> shop_prepared st' = 1 \<and> shop_observed st' = x \<and>
    checks_of (shop_active st') = (shop_check \<circ> offer_slot) ` set given \<and>
    (\<forall>y \<in> set given. shop_prices st' ! offer_slot y = offer_price y \<and>
       shop_id (ap_shop_locations ! offer_slot y) = offer_location y \<and> offer_slot y < AP_SHOP_COUNT) \<and>
    (\<forall>i < AP_SHOP_COUNT. label_location (shop_labels st' ! i) = 0) \<and>
    shop_generation st' \<noteq> 0 \<and> shop_generation st' \<noteq> shop_generation st)"
proof (cases "r = 1")
  case True
  with prepare_iff_active [of g st "Ptr b os" n a x st'] assms show ?thesis by simp
next
  case False
  with assms(3) show ?thesis by (auto simp: ap_prepare_ap_shops_def Let_def split: if_splits option.splits)
qed

text \<open>
  C10: the shop state stays typed over any run of a prepared session: checks, prices and labels keep
  their formats, every label sits in the slot of its own active location, the selection is fixed, and
  the observed checks only grow, inside the selection.
\<close>

theorem shop_run_typed:
  assumes "shop_step\<^sup>*\<^sup>* st st'" and "shop_ok st"
  shows "shop_ok st' \<and> shop_active st' = shop_active st \<and> shop_observed st \<le> shop_observed st' \<and>
    shop_observed st' \<le> shop_active st"
  using shop_checks.run [OF assms] shop_checks.run_bounded [OF assms] by simp

text \<open>A text field holds a printable word of its format and only zero bytes after it.\<close>

definition printable :: "u8 list \<Rightarrow> bool" where
  "printable cs \<longleftrightarrow> (let word = takeWhile (\<lambda>c. c \<noteq> 0) (take AP_LABEL_LENGTH cs)
     in length word < length (take AP_LABEL_LENGTH cs) \<and> list_all label_char word \<and>
        list_all (\<lambda>c. c = 0) (drop (length word) (take AP_LABEL_LENGTH cs)))"

lemma text_printable: "ap_label_text_valid cs allow_empty \<Longrightarrow> printable cs"
proof -
  assume valid: "ap_label_text_valid cs allow_empty"
  let ?cs = "take AP_LABEL_LENGTH cs" and ?w = "takeWhile (\<lambda>c. c \<noteq> 0) (take AP_LABEL_LENGTH cs)"
  have pad: "dropWhile (\<lambda>c. c \<noteq> 0) ?cs = drop (length ?w) ?cs" by (rule dropWhile_eq_drop)
  then have "dropWhile (\<lambda>c. c \<noteq> 0) ?cs \<noteq> [] \<longleftrightarrow> length ?w < length ?cs" by (simp only: drop_eq_Nil not_le)
  with valid pad show ?thesis
    by (auto simp: ap_label_text_valid_def label_scan_open Let_def printable_def split: if_splits)
qed

lemma pending_printable: "printable (label_item pending_label)" "printable (label_subtitle pending_label)"
  by (simp_all add: printable_def pending_label_def label_char_def list_all_iff)

lemma shop_label_ok:
  assumes "shop_ok st" "i < AP_SHOP_COUNT" "label_location (shop_labels st ! i) \<noteq> 0"
  shows "ap_label_valid (shop_labels st ! i) \<and> label_location (shop_labels st ! i) = shop_id (ap_shop_locations ! i)"
  using assms by (auto simp: shop_ok_def label_fits_def Let_def)

text \<open>
  C11: whatever the host sends, the text an overlay is given is safe for the game's formatter: in every
  reachable state a displayed label has only capitals, digits and spaces before its terminator, lasts
  50 to 255 frames, and names an observed check of the selection.
\<close>

theorem display_text_safe:
  assumes "shop_step\<^sup>*\<^sup>* st st'" and "shop_ok st"
    and "ap_apshop_display g w st' owner (Ptr a p) (Ptr b l0) = (1, Ptr b' l)"
  shows "printable (label_item l) \<and> printable (label_subtitle l) \<and> 50 \<le> label_frames l \<and> label_frames l \<le> 255 \<and>
    ap_check_has (shop_active st) (label_location l) \<and> ap_check_has (shop_observed st') (label_location l)"
proof -
  from shop_checks.run [OF assms(1,2)] have ok: "shop_ok st'" and act: "shop_active st' = shop_active st" by simp_all
  from assms(3) obtain ctx i where i: "find (sold_here st' ctx p) [0..<AP_SHOP_COUNT] = Some i"
    and l: "l = (if label_location (shop_labels st' ! i) \<noteq> 0 then shop_labels st' ! i
      else pending_label\<lparr>label_location := shop_id (ap_shop_locations ! i)\<rparr>)"
    by (auto simp: ap_apshop_display_def simp del: upt_rec_numeral split: option.splits if_splits)
  from i have "i < AP_SHOP_COUNT" "sold_here st' ctx p i"
    by (auto simp: find_Some_iff simp del: upt_rec_numeral)
  then have sold: "i < AP_SHOP_COUNT" "ap_check_has (shop_active st) (shop_id (ap_shop_locations ! i))"
    "ap_check_has (shop_observed st') (shop_id (ap_shop_locations ! i))"
    by (simp_all add: sold_here_def Let_def act)
  show ?thesis
  proof (cases "label_location (shop_labels st' ! i) = 0")
    case True
    with l sold pending_printable show ?thesis by (simp add: pending_label_def)
  next
    case False
    from shop_label_ok [OF ok sold(1) False] l False sold show ?thesis
      by (auto simp: ap_label_valid_def text_printable)
  qed
qed

section \<open>Legacy move offers\<close>

record ap_shop_move =
  move_type :: "16 word"
  move_rank :: "16 word"
  move_kong :: u8
  move_price :: u8

type_synonym move_table = "ap_shop_move list list list"

definition empty_move :: ap_shop_move where
  "empty_move = \<lparr>move_type = - 1, move_rank = 0, move_kong = 0, move_price = 0\<rparr>"

text \<open>The static initialiser of the three tables.\<close>

definition initial_moves :: move_table where
  "initial_moves = replicate 3 (replicate 5 (replicate 7 empty_move))"

definition maximum_rank :: "int list" where
  "maximum_rank = [3, 3, 3, 2, 4]"

definition move_accepted :: "ap_shop_move \<Rightarrow> bool" where
  "move_accepted p \<longleftrightarrow>
     (if 5 \<le> move_kong p \<or> sint (move_type p) < - 1 \<or> 4 < sint (move_type p) then False
      else if sint (move_type p) = - 1 then move_rank p = 0 \<and> move_price p = 0
      else \<not> (sint (move_rank p) < 1 \<or> maximum_rank ! nat (sint (move_type p)) < sint (move_rank p)))"

definition ap_prepare_move_shops :: "game \<Rightarrow> move_table \<Rightarrow> move_table cptr \<Rightarrow> int \<times> move_table" where
  "ap_prepare_move_shops g tables offers =
     (if offers = Null \<or> ap_gameplay_mode g \<noteq> 0 then (0, tables)
      else if \<exists>v \<in> set [0..<3]. \<exists>k \<in> set [0..<5]. \<exists>l \<in> set [0..<7]. \<not> move_accepted (deref offers ! v ! k ! l)
        then (0, tables)
      else (1, map (\<lambda>v. map (\<lambda>k. map (\<lambda>l. deref offers ! v ! k ! l) [0..<7]) [0..<5]) [0..<3]))"

definition moves_ok :: "move_table \<Rightarrow> bool" where
  "moves_ok t \<longleftrightarrow> length t = 3 \<and> list_all (\<lambda>ks. length ks = 5 \<and> list_all (\<lambda>ls. length ls = 7 \<and> list_all move_accepted ls) ks) t"

lemma initial_moves_ok: "moves_ok initial_moves"
  by (simp add: moves_ok_def initial_moves_def move_accepted_def empty_move_def list_all_length)

lemma prepare_moves_ok:
  "moves_ok tables \<Longrightarrow> ap_prepare_move_shops g tables offers = (r, tables') \<Longrightarrow>
     moves_ok tables' \<and> r \<in> {0, 1} \<and> (r = 0 \<longrightarrow> tables' = tables)"
  by (auto simp: ap_prepare_move_shops_def moves_ok_def list_all_length split: if_splits)

section \<open>Concrete shops\<close>

definition empty_label :: ap_shop_label where
  "empty_label = \<lparr>label_location = 0, label_frames = 0, label_reserved = 0, label_item = replicate 33 0,
     label_subtitle = replicate 33 0, label_padding = [0, 0]\<rparr>"

definition empty_shop :: shop_state where
  "empty_shop = \<lparr>shop_active = no_checks, shop_observed = no_checks, shop_prices = replicate 120 0,
     shop_prepared = 0, shop_labels = replicate 120 empty_label, shop_generation = 0\<rparr>"

definition first_offer :: ap_shop_offer where
  "first_offer = \<lparr>offer_location = 14041443, offer_price = 5, offer_reserved = 0\<rparr>"

definition example_shop :: shop_state where
  "example_shop = \<lparr>shop_active = check_mark no_checks (shop_check 1), shop_observed = no_checks,
     shop_prices = (replicate 120 0)[1 := 5], shop_prepared = 1, shop_labels = replicate 120 empty_label,
     shop_generation = 1\<rparr>"

definition example_shopper :: shop_world where
  "example_shopper = \<lparr>current_character = 0, shop_map = 7, gCurrentActorPointer = 16, gPlayerPointer = 32,
     actors = (\<lambda>_. \<lparr>unk58 = 0xBD, object_properties_bitfield = 0\<rparr>), D_global_asm_80750AC8 = 0, melon_byte = 1,
     getLevelIndex = (\<lambda>_ _. 0), isFlagSet = (\<lambda>_. False), resource_count = (\<lambda>_ _. 9), saves = 0\<rparr>"

definition example_paad :: ap_shop_paad where
  "example_paad = \<lparr>unused0 = [0, 0], paad_flag = shop_flag 1, paad_kong = 0, paad_price = 5,
     unused6 = [0, 0, 0, 0, 0], item_type = 21, paad_level = 0, paad_state = 0, substate = 0, response = 0,
     paad_melons = 1, item_level = 0\<rparr>"

lemma example_shop_simps [simp]:
  "item_type example_paad = 21" "paad_price example_paad = 5" "resource_count example_shopper = (\<lambda>_ _. 9)"
  "saves example_shopper = 0"
  by (simp_all add: example_paad_def example_shopper_def)

lemma second_shop: "ap_shop_locations ! Suc 0 = ShopLoc 14041443 0 0 0"
  by (simp add: ap_shop_locations_def)

lemma first_offer_slot: "shop_index 14041443 = 1" "offer_slot first_offer = 1"
  using shop_index_nth [of 1] by (simp_all add: second_shop offer_slot_def first_offer_def)

lemma example_active: "set_ok (check_mark no_checks (shop_check 1))" "ap_check_valid (check_mark no_checks (shop_check 1))"
  "ap_check_distinct_flags (check_mark no_checks (shop_check 1))"
  "checks_of (check_mark no_checks (shop_check 1)) = {shop_check 1}"
  by (simp_all add: single_distinct checks_of_mark)

lemma example_prepare:
  "ap_prepare_ap_shops (bound_game 0 2) empty_shop (Ptr 0 [first_offer]) 1 (Ptr 0 no_checks) = (1, example_shop)"
proof -
  have none: "\<not> ap_check_has no_checks loc" for loc by (simp add: ap_check_has_def Let_def)
  have "offers_active [first_offer] no_checks = Some (check_mark no_checks (shop_check 1))"
    using shop_add [of 1 no_checks] by (simp add: first_offer_slot first_offer_def second_shop none)
  moreover have "shop_subset (Ptr 0 no_checks) (check_mark no_checks (shop_check 1))"
    using example_active by (simp add: shop_subset_le)
  moreover have "clear_labels (shop_labels empty_shop) = replicate 120 empty_label"
    by (simp add: clear_labels_def empty_shop_def map_replicate_const empty_label_def)
  ultimately show ?thesis
    using example_active
    by (simp add: ap_prepare_ap_shops_def Let_def example_shop_def empty_shop_def next_generation_def offer_prices_def
        first_offer_slot [unfolded offer_slot_def] del: offers_active.simps)
      (simp add: first_offer_def)
qed



lemma example_shop_ok: "shop_ok example_shop"
  using prepare_iff_active [OF example_prepare] by (simp add: empty_shop_def)

lemma example_context: "shop_context (bound_game 4 2) example_shopper st =
    (if shop_prepared st = 0 then None else Some (0, 0, 0))"
  by (simp add: shop_context_def owner_context_def mode_has_def example_shopper_def)

lemma example_selected: "ap_apshop_selected example_shop (0, 0, 0) = int 1"
proof -
  have only: "ap_check_has (shop_active example_shop) (shop_id (ap_shop_locations ! j)) \<longleftrightarrow> j = 1" if "j < AP_SHOP_COUNT" for j
    using shop_has [OF that] shop_check_inj [OF that, of 1] example_active(4)
    by (simp add: example_shop_def del: checks_of_iff)
  have none: "\<not> ap_check_has (shop_observed example_shop) loc" for loc
    by (simp add: ap_check_has_def Let_def example_shop_def)
  have "find (\<lambda>i. let d = ap_shop_locations ! i in shop_here (0, 0, 0) d \<and>
      ap_check_has (shop_active example_shop) (shop_id d) \<and> \<not> ap_check_has (shop_observed example_shop) (shop_id d))
    [0..<AP_SHOP_COUNT] = Some 1"
    unfolding find_Some_iff using only only [of 1] none
    by (intro exI [of _ 1]) (auto simp: Let_def shop_here_def second_shop simp del: upt_rec_numeral)
  then show ?thesis by (simp only: ap_apshop_selected_def) simp
qed

lemma example_sale:
  "ap_apshop_select (bound_game 4 2) example_shopper example_shop (Ptr 0 example_paad) =
     (example_shopper\<lparr>D_global_asm_80750AC8 := 5\<rparr>, Ptr 0 example_paad)"
  "ap_apshop_quote (bound_game 4 2) w example_shop (Ptr 0 example_paad) = int 1"
  if "w = example_shopper \<or> w = example_shopper\<lparr>D_global_asm_80750AC8 := 5\<rparr>"
proof -
  have price: "shop_prices example_shop ! 1 = 5" by (simp add: example_shop_def)
  have up: "shop_prepared example_shop \<noteq> 0" by (simp add: example_shop_def)
  show "ap_apshop_select (bound_game 4 2) example_shopper example_shop (Ptr 0 example_paad) =
     (example_shopper\<lparr>D_global_asm_80750AC8 := 5\<rparr>, Ptr 0 example_paad)"
    using price up example_selected
    by (simp add: ap_apshop_select_def example_context Let_def)
      (simp add: example_paad_def example_shopper_def)
  show "ap_apshop_quote (bound_game 4 2) w example_shop (Ptr 0 example_paad) = int 1"
    unfolding quote_iff using that price up example_selected
    by (auto simp: example_context paad_matches_def example_paad_def)
qed

theorem purchase_once_witness:
  "\<exists>w2 st2. ap_apshop_purchase (bound_game 4 2) (example_shopper\<lparr>D_global_asm_80750AC8 := 5\<rparr>) example_shop
       (Ptr 0 example_paad) = (w2, st2) \<and> saves w2 = 1 \<and>
     ap_apshop_purchase (bound_game 4 2) w2 st2 (Ptr 0 example_paad) = (w2, st2)"
proof -
  obtain w2 st2 where buy: "ap_apshop_purchase (bound_game 4 2) (example_shopper\<lparr>D_global_asm_80750AC8 := 5\<rparr>) example_shop
       (Ptr 0 example_paad) = (w2, st2)" by fastforce
  from purchase_once [OF example_shop_ok example_sale(1) _ _ buy] buy show ?thesis by auto
qed

theorem afford_iff_purchase_witness:
  "\<exists>w' st'. ap_apshop_purchase (bound_game 4 2) example_shopper example_shop (Ptr 0 (example_paad\<lparr>response := 1\<rparr>)) = (w', st') \<and>
     saves w' = saves example_shopper + 1"
proof -
  have afford: "ap_apshop_afford (bound_game 4 2) example_shopper example_shop (Ptr 0 example_paad) =
      (2, Ptr 0 (example_paad\<lparr>response := 1\<rparr>))"
    using example_sale(2) [of example_shopper]
    by (simp add: ap_apshop_afford_def quote_response) (simp add: example_paad_def)
  obtain w' st' where buy: "ap_apshop_purchase (bound_game 4 2) example_shopper example_shop (Ptr 0 (example_paad\<lparr>response := 1\<rparr>)) = (w', st')"
    by fastforce
  from afford_iff_purchase [OF afford buy] buy show ?thesis by simp
qed

theorem prepare_publishes_witness:
  "shop_ok example_shop \<and> checks_of (shop_active example_shop) = {shop_check 1}"
  using prepare_publishes [OF _ _ example_prepare refl]
  by (simp add: empty_shop_def first_offer_slot)

theorem shop_run_typed_witness:
  "\<exists>st'. shop_step example_shop st' \<and> shop_ok st' \<and> shop_observed example_shop \<le> shop_observed st'"
proof -
  obtain w2 st2 where "ap_apshop_purchase (bound_game 4 2) (example_shopper\<lparr>D_global_asm_80750AC8 := 5\<rparr>) example_shop
       (Ptr 0 example_paad) = (w2, st2)" by fastforce
  then have step: "shop_step example_shop st2" by (rule shop_step.purchased)
  from shop_run_typed [OF r_into_rtranclp [where r = shop_step, OF step] example_shop_ok] step show ?thesis by blast
qed

lemma committed_displayed:
  "ap_apshop_committed g w st (Ptr a p) = 1 \<longleftrightarrow>
     fst (ap_apshop_display g w st (gCurrentActorPointer w) (Ptr a p) (Ptr b l)) = 1"
proof (cases "owner_context g w st (gCurrentActorPointer w)")
  case None
  then show ?thesis by (simp add: ap_apshop_committed_def ap_apshop_display_def shop_context_def)
next
  case (Some ctx)
  have found: "(\<exists>i \<in> set is. sold_here st ctx p i) \<longleftrightarrow> find (sold_here st ctx p) is \<noteq> None" for "is"
    by (auto simp: find_None_iff)
  show ?thesis
    using Some found [of "[0..<AP_SHOP_COUNT]"]
    by (cases "find (sold_here st ctx p) [0..<AP_SHOP_COUNT]")
      (simp_all add: ap_apshop_committed_def ap_apshop_display_def shop_context_def del: upt_rec_numeral)
qed

definition sold_shop :: shop_state where
  "sold_shop = example_shop\<lparr>shop_observed := check_mark no_checks (shop_check 1)\<rparr>"

lemma example_purchase:
  "ap_apshop_purchase (bound_game 4 2) example_shopper example_shop (Ptr 0 example_paad) =
     (example_shopper\<lparr>saves := 1\<rparr>, sold_shop)"
  using purchase_effect [OF example_sale(2) [of example_shopper]] by (simp add: sold_shop_def) (simp add: example_shop_def)

lemma example_committed: "ap_apshop_committed (bound_game 4 2) example_shopper sold_shop (Ptr 0 example_paad) = 1"
proof -
  have "sold_here sold_shop (0, 0, 0) example_paad 1"
    using shop_has [of 1] by (simp add: sold_here_def Let_def shop_here_def second_shop sold_shop_def)
      (simp add: example_shop_def mark_index example_paad_def)
  moreover have "shop_prepared sold_shop \<noteq> 0" by (simp add: sold_shop_def example_shop_def)
  moreover have "paad_matches example_paad (0, 0, 0)" by (simp add: paad_matches_def example_paad_def)
  ultimately show ?thesis
    by (auto simp: ap_apshop_committed_def example_context simp del: upt_rec_numeral intro!: bexI [of _ 1])
qed

theorem display_text_safe_witness:
  "\<exists>l. ap_apshop_display (bound_game 4 2) example_shopper sold_shop 16 (Ptr 0 example_paad) (Ptr 0 empty_label) =
     (1, Ptr 0 l) \<and> printable (label_item l) \<and> 50 \<le> label_frames l"
proof -
  have owner: "gCurrentActorPointer example_shopper = 16" by (simp add: example_shopper_def)
  from example_committed have "fst (ap_apshop_display (bound_game 4 2) example_shopper sold_shop 16
      (Ptr 0 example_paad) (Ptr 0 empty_label)) = 1"
    unfolding committed_displayed [where b = 0 and l = empty_label] owner .
  then obtain l where l: "ap_apshop_display (bound_game 4 2) example_shopper sold_shop 16
      (Ptr 0 example_paad) (Ptr 0 empty_label) = (1, Ptr 0 l)"
    by (auto simp: ap_apshop_display_def split: option.splits if_splits simp del: upt_rec_numeral)
  have step: "shop_step example_shop sold_shop" by (rule shop_step.purchased [OF example_purchase])
  from display_text_safe [OF r_into_rtranclp [where r = shop_step, OF step] example_shop_ok l] l show ?thesis by blast
qed

end
