(* ===== verification/ShopText.thy ===== *)
theory ShopText
  imports Shops
begin

text \<open>
  The shop dialogue of \<^verbatim>\<open>mod/shop_text.c\<close>: the private text bank and the two replaced dialogue
  steps.  A handler returns the changed state and the calls it makes into the game, in order; the
  answer of the animation test \<^verbatim>\<open>func_global_asm_80629148\<close> and the first text argument of the stock
  loader are parameters of the state.
\<close>

section \<open>The text bank\<close>

abbreviation (input) AP_SHOP_TEXT_FILE :: u16 where "AP_SHOP_TEXT_FILE \<equiv> 0xfffe"

definition OFFER :: string where
  "OFFER = ''YOU HAVE ENOUGH COINS FOR THIS ARCHIPELAGO CHECK. YOUR COINS WILL NOT BE SPENT.''"

definition SHORT :: string where
  "SHORT = ''YOU NEED MORE COINS FOR THIS ARCHIPELAGO CHECK. YOUR COINS WILL NOT BE SPENT.''"

definition POST :: string where
  "POST = ''PAY ATTENTION, ~. THERE'S PLENTY MORE ITEMS TO GATHER IN THIS GAME. GET MOVING SO WE CAN DISPENSE OF K. ROOL''"

record text_string =
  string_offset :: u32
  string_length :: u16

record text_block =
  block_type :: u8
  block_language :: "text_string list"

record text_file =
  file_boxes :: "text_block list list"
  file_size :: u16
  file_text :: string

definition bank_text :: string where
  "bank_text = OFFER @ SHORT @ POST"

text \<open>\<open>sizeof\<close> of a literal counts its terminator.\<close>

definition sizeof :: "string \<Rightarrow> nat" where
  "sizeof s = length s + 1"

definition bank_strings :: "text_string list" where
  "bank_strings =
     [\<lparr>string_offset = 0, string_length = of_nat (sizeof OFFER - 1)\<rparr>,
      \<lparr>string_offset = of_nat (sizeof OFFER - 1), string_length = of_nat (sizeof SHORT - 1)\<rparr>,
      \<lparr>string_offset = of_nat (sizeof OFFER + sizeof SHORT - 2), string_length = of_nat (sizeof POST - 1)\<rparr>]"

definition text_bank :: text_file where
  "text_bank = \<lparr>file_boxes = map (\<lambda>s. [\<lparr>block_type = 1, block_language = [s]\<rparr>]) bank_strings,
     file_size = of_nat (sizeof bank_text - 1), file_text = bank_text\<rparr>"

datatype text_source = Bank text_file | Stock u16 int

definition func_global_asm_8070DDDC :: "u16 \<Rightarrow> int \<Rightarrow> text_source" where
  "func_global_asm_8070DDDC file mode = (if file = AP_SHOP_TEXT_FILE then Bank text_bank else Stock file mode)"

text \<open>The characters the renderer reads for one string of a file.\<close>

definition rendered :: "text_file \<Rightarrow> text_string \<Rightarrow> string" where
  "rendered f s = take (unat (string_length s)) (drop (unat (string_offset s)) (file_text f))"

section \<open>The dialogue steps\<close>

datatype text_call =
    Stock_Offer_Dialogue "ap_shop_paad cptr" int
  | Stock_Post_Dialogue "ap_shop_paad cptr" int
  | Request_Offer
  | Unlock_Text
  | Load_Text u32 u16 u8
  | Show_Counter u8
  | Show_Resource int u8 u8
  | Set_Flag "16 word" u8
  | Finish_Dialogue

record text_world =
  text_shop :: shop_world
  global_properties_bitfield :: u32
  instrument_marker :: u8
  animation_ended :: bool

definition set_properties :: "u32 \<Rightarrow> u32 \<Rightarrow> shop_world \<Rightarrow> shop_world" where
  "set_properties p v w = w\<lparr>actors := (actors w)(p := (actors w p)\<lparr>object_properties_bitfield := v\<rparr>)\<rparr>"

definition func_menu_800262A8 ::
  "game \<Rightarrow> shop_state \<Rightarrow> text_world \<Rightarrow> ap_shop_paad cptr \<Rightarrow> int
     \<Rightarrow> text_world \<times> ap_shop_paad cptr \<times> text_call list" where
  "func_menu_800262A8 g st w paad first_visit =
     (if \<not> mode_has g AP_GAMEPLAY_SHOPS \<or> (paad \<noteq> Null \<and> item_type (deref paad) \<noteq> AP_SHOP_ITEM_TYPE) then
        (w, paad, [Stock_Offer_Dialogue paad first_visit])
      else if paad = Null \<or> ap_apshop_context g (text_shop w) st = 0 \<or> substate (deref paad) \<noteq> 0 \<or> \<not> animation_ended w
        then (w, paad, [])
      else case ap_apshop_afford g (text_shop w) st paad of (result, paad) \<Rightarrow>
        let response = result mod 4 in
        if response \<noteq> 2 \<and> response \<noteq> 3 then (w, paad, [Request_Offer])
        else (w\<lparr>instrument_marker := 0\<rparr>, store paad ((deref paad)\<lparr>substate := 1\<rparr>),
          [Unlock_Text, Load_Text (gCurrentActorPointer (text_shop w)) AP_SHOP_TEXT_FILE (if response = 2 then 0 else 1),
           Show_Counter 0, Show_Resource 1 1 0, Show_Resource 0xe 1 0]))"

definition intro_flag_allowed :: "u32 \<Rightarrow> int \<Rightarrow> bool" where
  "intro_flag_allowed npc intro_flag \<longleftrightarrow>
     npc = 0xbd \<and> (intro_flag = 0x177 \<or> intro_flag = 0x17f) \<or> npc = 0xbe \<and> intro_flag = 0x175 \<or>
     npc = 0xbf \<and> intro_flag = 0x176"

definition func_menu_80026B28 ::
  "game \<Rightarrow> shop_state \<Rightarrow> text_world \<Rightarrow> ap_shop_paad cptr \<Rightarrow> int
     \<Rightarrow> text_world \<times> ap_shop_paad cptr \<times> text_call list" where
  "func_menu_80026B28 g st w paad intro_flag =
     (let sw = text_shop w; npc = gCurrentActorPointer sw in
      if \<not> mode_has g AP_GAMEPLAY_SHOPS \<or> (paad \<noteq> Null \<and> item_type (deref paad) \<noteq> AP_SHOP_ITEM_TYPE) then
        (w, paad, [Stock_Post_Dialogue paad intro_flag])
      else if paad = Null \<or> ap_apshop_context g sw st = 0 then (w, paad, [])
      else if ap_apshop_committed g sw st paad = 0 then
        (w, paad, if animation_ended w then [Request_Offer] else [])
      else if substate (deref paad) = 0 then
        if \<not> animation_ended w then (w, paad, [])
        else (w\<lparr>global_properties_bitfield := global_properties_bitfield w OR 0x10030,
                text_shop := set_properties (gPlayerPointer sw)
                  (object_properties_bitfield (actors sw (gPlayerPointer sw)) AND NOT 0x40000000) sw\<rparr>,
              store paad ((deref paad)\<lparr>substate := 1\<rparr>), [Unlock_Text, Load_Text npc AP_SHOP_TEXT_FILE 2])
      else if substate (deref paad) = 1 then
        if object_properties_bitfield (actors sw npc) AND 0x02000000 \<noteq> 0 then (w, paad, [])
        else (w, store paad ((deref paad)\<lparr>substate := 2\<rparr>),
              (if intro_flag_allowed (unk58 (actors sw npc)) intro_flag then [Set_Flag (of_int intro_flag) 1] else [])
              @ [Finish_Dialogue])
      else if substate (deref paad) = 2 then (w, paad, if animation_ended w then [Request_Offer] else [])
      else (w, paad, []))"

section \<open>Properties of the dialogue\<close>

lemma shop_text_served:
  "map (rendered text_bank) bank_strings = [OFFER, SHORT, POST]"
  "list_all (\<lambda>s. unat (string_offset s) + unat (string_length s) \<le> unat (file_size text_bank)) bank_strings"
  "unat (file_size text_bank) = length (file_text text_bank)"
  "func_global_asm_8070DDDC file m = Bank text_bank \<longleftrightarrow> file = AP_SHOP_TEXT_FILE"
  by (simp_all add: bank_strings_def rendered_def text_bank_def bank_text_def sizeof_def OFFER_def SHORT_def POST_def
      func_global_asm_8070DDDC_def)

text \<open>The stock intro flags are not the flag of any location.\<close>

lemma intro_not_location:
  assumes "intro_flag_allowed npc f" "l \<in> set ap_locations"
  shows "(of_int f :: u16) \<noteq> loc_flag l"
proof -
  have "list_all (\<lambda>l. loc_flag l \<notin> {0x175, 0x176, 0x177, 0x17f}) ap_locations"
    by (simp add: ap_locations_def ap_locations_parts)
  with assms(2) have "loc_flag l \<notin> {0x175, 0x176, 0x177, 0x17f}" by (simp add: list_all_iff)
  with assms(1) show ?thesis by (auto simp: intro_flag_allowed_def)
qed

definition success_call :: "text_call \<Rightarrow> bool" where
  "success_call c \<longleftrightarrow> (case c of Load_Text npc file index \<Rightarrow> True | Set_Flag f v \<Rightarrow> True
     | Finish_Dialogue \<Rightarrow> True | _ \<Rightarrow> False)"

text \<open>
  With the shop gate on, an Archipelago sale never enters the stock dialogue.  Success text, intro
  flag and end of dialogue need an acknowledged purchase; the only flag set is a stock intro flag of
  the vendor at hand, which is no location's flag; and the dialogue moves one substate at a time, only
  with the call that belongs to it, leaving the rest of the shop record alone.
\<close>

theorem post_dialogue_gated:
  assumes "mode_has g AP_GAMEPLAY_SHOPS" and "item_type p = AP_SHOP_ITEM_TYPE"
    and "func_menu_80026B28 g st w (Ptr a p) f = (w', paad, calls)"
  shows "Stock_Post_Dialogue x y \<notin> set calls \<and>
    (list_ex success_call calls \<longrightarrow> ap_apshop_committed g (text_shop w) st (Ptr a p) = 1) \<and>
    (\<forall>fl v. Set_Flag fl v \<in> set calls \<longrightarrow> v = 1 \<and> fl \<notin> loc_flag ` set ap_locations \<and> Finish_Dialogue \<in> set calls) \<and>
    (paad = Ptr a p \<or>
     substate p = 0 \<and> paad = Ptr a (p\<lparr>substate := 1\<rparr>) \<and>
       Load_Text (gCurrentActorPointer (text_shop w)) AP_SHOP_TEXT_FILE 2 \<in> set calls \<or>
     substate p = 1 \<and> paad = Ptr a (p\<lparr>substate := 2\<rparr>) \<and> Finish_Dialogue \<in> set calls)"
proof -
  have committed: "ap_apshop_committed g (text_shop w) st (Ptr a p) \<in> {0, 1}"
    by (simp add: ap_apshop_committed_def c_bool_def split: option.splits)
  consider "ap_apshop_context g (text_shop w) st = 0" | "ap_apshop_committed g (text_shop w) st (Ptr a p) = 0"
    | (run) "ap_apshop_context g (text_shop w) st \<noteq> 0" "ap_apshop_committed g (text_shop w) st (Ptr a p) = 1"
    using committed by blast
  then show ?thesis
  proof cases
    case run
    from run(2) have ne: "ap_apshop_committed g (text_shop w) st (Ptr a p) \<noteq> 0" by simp
    consider "substate p = 0" | "substate p = 1" | "substate p = 2" | "substate p \<notin> {0, 1, 2}" by blast
    then show ?thesis
    proof cases
      case 2
      have new: "\<forall>l \<in> set ap_locations. loc_flag l \<noteq> (of_int f :: u16)"
        if "intro_flag_allowed (unk58 (actors (text_shop w) (gCurrentActorPointer (text_shop w)))) f"
        using intro_not_location [OF that] by metis
      from assms 2 run ne new show ?thesis
        by (auto simp: func_menu_80026B28_def Let_def success_call_def split: if_splits)
    qed (use assms run ne in \<open>auto simp: func_menu_80026B28_def Let_def success_call_def split: if_splits\<close>)
  qed (use assms in \<open>auto simp: func_menu_80026B28_def Let_def success_call_def split: if_splits\<close>)
qed

text \<open>
  The gate decides first: with the gate off, a shop record that still carries the Archipelago item type
  is handed to the stock dialogue.
\<close>

lemma stock_dialogue_without_gate:
  "\<not> mode_has g AP_GAMEPLAY_SHOPS \<Longrightarrow>
     func_menu_800262A8 g st w (Ptr a p) n = (w, Ptr a p, [Stock_Offer_Dialogue (Ptr a p) n])"
  by (simp add: func_menu_800262A8_def)

lemma offer_dialogue_text:
  assumes "func_menu_800262A8 g st w (Ptr a p) n = (w', paad, calls)" "Load_Text npc file index \<in> set calls"
  shows "file = AP_SHOP_TEXT_FILE \<and> (index = 0 \<longleftrightarrow> response (deref paad) = 1) \<and> index \<in> {0, 1} \<and>
    substate p = 0 \<and> substate (deref paad) = 1"
proof -
  have "\<exists>r q. ap_apshop_afford g (text_shop w) st (Ptr a p) = (r, Ptr a q)"
    by (simp add: ap_apshop_afford_def)
  then obtain r q where af: "ap_apshop_afford g (text_shop w) st (Ptr a p) = (r, Ptr a q)" by blast
  have resp: "(r mod 4 = 2) = (response q = 1)"
    using af by (auto simp: ap_apshop_afford_def Let_def split: if_splits)
  from assms af resp show ?thesis
    by (auto simp: func_menu_800262A8_def Let_def split: if_splits)
qed

definition example_dialogue :: text_world where
  "example_dialogue = \<lparr>text_shop = example_shopper, global_properties_bitfield = 0, instrument_marker = 1,
     animation_ended = True\<rparr>"

theorem post_dialogue_gated_witness:
  "\<exists>w' calls. func_menu_80026B28 (bound_game 4 2) sold_shop example_dialogue (Ptr 0 example_paad) 0x177 =
     (w', Ptr 0 (example_paad\<lparr>substate := 1\<rparr>), calls) \<and> Stock_Post_Dialogue Null 0 \<notin> set calls"
proof -
  have gate: "mode_has (bound_game 4 2) 4" by (simp add: mode_has_def)
  have ready: "shop_prepared sold_shop \<noteq> 0" by (simp add: sold_shop_def example_shop_def)
  have at: "text_shop example_dialogue = example_shopper" "animation_ended example_dialogue" "substate example_paad = 0"
    by (simp_all add: example_dialogue_def example_paad_def)
  have "\<exists>w' calls. func_menu_80026B28 (bound_game 4 2) sold_shop example_dialogue (Ptr 0 example_paad) 0x177 =
     (w', Ptr 0 (example_paad\<lparr>substate := 1\<rparr>), calls)"
    using gate ready
    by (simp add: func_menu_80026B28_def Let_def at ap_apshop_context_def example_context example_committed)
  then obtain w' calls where run: "func_menu_80026B28 (bound_game 4 2) sold_shop example_dialogue (Ptr 0 example_paad) 0x177 =
     (w', Ptr 0 (example_paad\<lparr>substate := 1\<rparr>), calls)" by blast
  from post_dialogue_gated [OF gate _ run, of Null 0] run show ?thesis by simp
qed

end
