(* ===== verification/ShopOverlay.thy ===== *)
theory ShopOverlay
  imports Shops
begin

text \<open>
  The purchase overlay of \<^verbatim>\<open>mod/shop_overlay.c\<close>: a bounded pool of frozen labels, the life of one
  message from its first frame to its dismissal, and the draw callback.  Fields of the actor and overlay
  structures are stored by address.  The matrices are not modelled: \<open>Place n\<close> records that they are
  computed for the \<open>n\<close>-th occupied line.
\<close>

section \<open>State\<close>

record overlay_paad =
  upper :: "u8 list option"
  lower :: "u8 list option"
  opacity :: u8
  timer :: int
  overlay_owner :: u32

record overlay_slot =
  slot_actor :: u32
  slot_paad :: u32
  slot_map :: u32
  slot_generation :: u32
  slot_label :: ap_shop_label

record overlay_world =
  overlay_shop :: shop_world
  actor_control_state :: "u32 \<Rightarrow> u8"
  additional_actor_data :: "u32 \<Rightarrow> u32"
  unk178 :: "u32 \<Rightarrow> u32"
  paads :: "u32 \<Rightarrow> overlay_paad"
  shop_paads :: "u32 \<Rightarrow> ap_shop_paad"
  spawner_tied_actor :: u32
  slots :: "overlay_slot list"

abbreviation (input) OVERLAY_SLOTS :: nat where "OVERLAY_SLOTS \<equiv> 8"

datatype overlay_call =
    Stock_Overlay
  | Delete_Actor u32
  | Place nat
  | Queue_Draw u32
  | Render_Actor u32

section \<open>The life of one message\<close>

definition fade_out :: "int \<Rightarrow> int" where
  "fade_out duration = (if duration < 70 then (duration - 30) div 2 else 30)"

definition fade_rate :: "int \<Rightarrow> int" where
  "fade_rate duration = (if duration < 70 then 256 div (fade_out duration - 4) else 16)"

definition clamp_opacity :: "int \<Rightarrow> int" where
  "clamp_opacity level = (if level < 0 then 0 else if 255 < level then 255 else level)"

text \<open>One frame of timer, control state and opacity; \<open>None\<close> when the message is dismissed.\<close>

definition fade_step :: "int \<Rightarrow> int \<times> u8 \<times> u8 \<Rightarrow> (int \<times> u8 \<times> u8) option" where
  "fade_step duration s = (case s of (t, control, alpha) \<Rightarrow>
     if t \<le> 1 then None
     else let t = t - 1;
         control = (if t = duration - 2 then 1 else if t = fade_out duration then 2 else control);
         level = (if control = 1 then uint alpha + fade_rate duration
                  else if control = 2 then uint alpha - fade_rate duration else uint alpha)
       in Some (t, control, of_int (clamp_opacity level)))"

section \<open>The handler\<close>

definition find_slot :: "overlay_world \<Rightarrow> u32 \<Rightarrow> nat option" where
  "find_slot w a = find (\<lambda>i. slot_actor (slots w ! i) = a \<and> a \<noteq> 0) [0..<OVERLAY_SLOTS]"

definition free_slot :: "nat \<Rightarrow> overlay_world \<Rightarrow> overlay_world" where
  "free_slot i w = w\<lparr>slots := (slots w)[i := (slots w ! i)\<lparr>slot_actor := 0\<rparr>]\<rparr>"

definition dismiss :: "u32 \<Rightarrow> u32 \<Rightarrow> nat option \<Rightarrow> overlay_world \<Rightarrow> overlay_world \<times> overlay_call list" where
  "dismiss a p slot w =
     (let w = (if p = 0 then w else
            w\<lparr>paads := (paads w)(p := (paads w p)\<lparr>upper := None, lower := None, timer := 0, opacity := 0\<rparr>)\<rparr>);
          w = (case slot of None \<Rightarrow> w | Some i \<Rightarrow> free_slot i w)
      in (w, [Delete_Actor a]))"

definition actor_uninitialized :: "overlay_world \<Rightarrow> u32 \<Rightarrow> bool" where
  "actor_uninitialized w a \<longleftrightarrow> object_properties_bitfield (actors (overlay_shop w) a) AND 0x10 = 0"

text \<open>Slots of an earlier map or session are freed; the result counts the rest and names the first free one.\<close>

fun claim_slot :: "u32 \<Rightarrow> u32 \<Rightarrow> overlay_slot list \<Rightarrow> overlay_slot list \<times> nat \<times> nat option" where
  "claim_slot m gen [] = ([], 0, None)"
| "claim_slot m gen (s # ss) =
     (let s = (if slot_actor s \<noteq> 0 \<and> (slot_map s \<noteq> m \<or> slot_generation s \<noteq> gen) then s\<lparr>slot_actor := 0\<rparr> else s);
          (ss', occupied, free) = claim_slot m gen ss
      in if slot_actor s \<noteq> 0 then (s # ss', Suc occupied, map_option Suc free)
         else (s # ss', occupied, Some 0))"

text \<open>The first frame of a message: \<open>Inr\<close> the claimed slot, \<open>Inl\<close> when the call ends here.\<close>

definition overlay_open ::
  "game \<Rightarrow> shop_state \<Rightarrow> u32 \<Rightarrow> u32 \<Rightarrow> overlay_world
     \<Rightarrow> (overlay_world \<times> overlay_call list) + (overlay_world \<times> overlay_call list \<times> nat)" where
  "overlay_open g st a p w =
     (let owner = (if overlay_owner (paads w p) = 0 then spawner_tied_actor w else overlay_owner (paads w p));
          w = w\<lparr>paads := (paads w)(p := (paads w p)\<lparr>overlay_owner := owner\<rparr>)\<rparr>;
          shop = (if owner = 0 then 0 else unk178 w owner)
      in if shop = 0 then Inl (w, [])
         else if item_type (shop_paads w shop) \<noteq> AP_SHOP_ITEM_TYPE then Inl (w, [Stock_Overlay])
         else case ap_apshop_display g (overlay_shop w) st owner (Ptr shop (shop_paads w shop)) (Ptr 4 pending_label) of
           (shown, out) \<Rightarrow>
             if \<not> mode_has g AP_GAMEPLAY_SHOPS \<or> \<not> actor_uninitialized w a \<or> shown = 0 then Inl (dismiss a p None w)
             else case claim_slot (shop_map (overlay_shop w)) (ap_apshop_generation st) (slots w) of
               (ss, occupied, None) \<Rightarrow> Inl (dismiss a p None (w\<lparr>slots := ss\<rparr>))
             | (ss, occupied, Some i) \<Rightarrow>
                 let l = deref out in
                 Inr (w\<lparr>slots := ss[i := \<lparr>slot_actor = a, slot_paad = p, slot_map = shop_map (overlay_shop w),
                          slot_generation = ap_apshop_generation st, slot_label = l\<rparr>],
                        paads := (paads w)(p := (paads w p)\<lparr>overlay_owner := owner, upper := Some (label_item l),
                          lower := Some (label_subtitle l), opacity := 0, timer := uint (label_frames l)\<rparr>),
                        actor_control_state := (actor_control_state w)(a := 0)\<rparr>, [Place occupied], i))"

definition overlay_frame :: "u32 \<Rightarrow> u32 \<Rightarrow> nat \<Rightarrow> overlay_world \<Rightarrow> overlay_world \<times> overlay_call list" where
  "overlay_frame a p i w =
     (case fade_step (uint (label_frames (slot_label (slots w ! i))))
         (timer (paads w p), actor_control_state w a, opacity (paads w p)) of
        None \<Rightarrow> dismiss a p (Some i) w
      | Some (t, control, alpha) \<Rightarrow>
          (w\<lparr>paads := (paads w)(p := (paads w p)\<lparr>timer := t, opacity := alpha\<rparr>),
             actor_control_state := (actor_control_state w)(a := control)\<rparr>,
           (if control \<noteq> 0 then [Queue_Draw a] else []) @
           (if unk58 (actors (overlay_shop w) a) = 0x140 then [Render_Actor a] else [])))"

definition slot_stale :: "game \<Rightarrow> shop_state \<Rightarrow> overlay_world \<Rightarrow> overlay_slot \<Rightarrow> bool" where
  "slot_stale g st w s \<longleftrightarrow> \<not> mode_has g AP_GAMEPLAY_SHOPS \<or> slot_map s \<noteq> shop_map (overlay_shop w) \<or>
     slot_generation s \<noteq> ap_apshop_generation st"

definition func_menu_80027988 ::
  "game \<Rightarrow> shop_state \<Rightarrow> overlay_world \<Rightarrow> overlay_world \<times> overlay_call list" where
  "func_menu_80027988 g st w =
     (let a = gCurrentActorPointer (overlay_shop w) in
      if a = 0 then (w, [])
      else let p = additional_actor_data w a;
          (w, slot) = (case find_slot w a of
              None \<Rightarrow> (w, None)
            | Some i \<Rightarrow> if actor_uninitialized w a \<or> slot_paad (slots w ! i) \<noteq> p then (free_slot i w, None)
                else (w, Some i))
        in case slot of
          Some i \<Rightarrow>
            if slot_stale g st w (slots w ! i) then dismiss a p slot w
            else if p = 0 \<or> unk58 (actors (overlay_shop w) a) \<noteq> 0x140 \<and> unk58 (actors (overlay_shop w) a) \<noteq> 0x144 then
              (free_slot i w, [Stock_Overlay])
            else overlay_frame a p i w
        | None \<Rightarrow>
            if p = 0 \<or> unk58 (actors (overlay_shop w) a) \<noteq> 0x140 \<and> unk58 (actors (overlay_shop w) a) \<noteq> 0x144 then
              (w, [Stock_Overlay])
            else case overlay_open g st a p w of
              Inl r \<Rightarrow> r
            | Inr (w, calls, i) \<Rightarrow> (case overlay_frame a p i w of (w, more_calls) \<Rightarrow> (w, calls @ more_calls)))"

text \<open>The draw callback: the colour it sets and the texts it prints, as font and string.\<close>

definition ap_shop_overlay_draw ::
  "game \<Rightarrow> shop_state \<Rightarrow> overlay_world \<Rightarrow> u32 \<Rightarrow> (u8 \<times> (int \<times> u8 list) list) option" where
  "ap_shop_overlay_draw g st w a =
     (case find_slot w a of
        None \<Rightarrow> None
      | Some i \<Rightarrow> let s = slots w ! i in
          if slot_stale g st w s \<or> slot_paad s \<noteq> additional_actor_data w a then None
          else Some (opacity (paads w (slot_paad s)),
            (if label_item (slot_label s) ! 0 \<noteq> 0 then [(1, label_item (slot_label s))] else []) @
            (if label_subtitle (slot_label s) ! 0 \<noteq> 0 then [(6, label_subtitle (slot_label s))] else [])))"

section \<open>Timing\<close>

lemma fade_facts:
  fixes d :: int
  assumes "50 \<le> d" "d \<le> 255"
  shows "10 \<le> fade_out d" "fade_out d \<le> 30" "16 \<le> fade_rate d" "fade_rate d \<le> 42"
    "255 \<le> fade_rate d * (d - fade_out d - 2)" "255 \<le> fade_rate d * fade_out d" "fade_out d \<le> d - 40"
proof -
  have short: "list_all (\<lambda>d. 10 \<le> fade_out d \<and> fade_out d \<le> 30 \<and> 16 \<le> fade_rate d \<and> fade_rate d \<le> 42 \<and>
      255 \<le> fade_rate d * (d - fade_out d - 2) \<and> 255 \<le> fade_rate d * fade_out d \<and> fade_out d \<le> d - 40) [50..69]"
    by (simp add: upto_rec_numeral fade_out_def fade_rate_def)
  have long: "fade_out d = 30" "fade_rate d = 16" if "70 \<le> d" using that by (simp_all add: fade_out_def fade_rate_def)
  have "10 \<le> fade_out d \<and> fade_out d \<le> 30 \<and> 16 \<le> fade_rate d \<and> fade_rate d \<le> 42 \<and>
      255 \<le> fade_rate d * (d - fade_out d - 2) \<and> 255 \<le> fade_rate d * fade_out d \<and> fade_out d \<le> d - 40"
  proof (cases "d < 70")
    case True
    with assms(1) have "d \<in> set [50..69]" unfolding set_upto atLeastAtMost_iff by linarith
    with short show ?thesis by (simp only: list_all_iff)
  qed (use long assms in auto)
  then show "10 \<le> fade_out d" "fade_out d \<le> 30" "16 \<le> fade_rate d" "fade_rate d \<le> 42"
    "255 \<le> fade_rate d * (d - fade_out d - 2)" "255 \<le> fade_rate d * fade_out d" "fade_out d \<le> d - 40" by simp_all
qed

text \<open>The opacity of a message \<open>n\<close> frames after it was set up: fade in, hold, fade out.\<close>

definition fade_level :: "int \<Rightarrow> int \<Rightarrow> int" where
  "fade_level d n =
     (if n < 2 then 0
      else if n < d - fade_out d then min 255 (fade_rate d * (n - 1))
      else max 0 (255 - fade_rate d * (n - (d - fade_out d) + 1)))"

definition fade_control :: "int \<Rightarrow> int \<Rightarrow> u8" where
  "fade_control d n = (if n < 2 then 0 else if n < d - fade_out d then 1 else 2)"

lemma fade_level_range: "50 \<le> d \<Longrightarrow> d \<le> 255 \<Longrightarrow> 0 \<le> n \<Longrightarrow> 0 \<le> fade_level d n \<and> fade_level d n \<le> 255"
proof -
  assume d: "50 \<le> d" "d \<le> 255" "0 \<le> n"
  have "0 \<le> fade_rate d * (n - 1)" if "2 \<le> n" using fade_facts(3) [OF d(1,2)] that by simp
  moreover have "0 \<le> fade_rate d * (n - (d - fade_out d) + 1)" if "d - fade_out d \<le> n"
    using fade_facts(3) [OF d(1,2)] that by simp
  ultimately show ?thesis by (auto simp: fade_level_def)
qed

lemma uint_level: "0 \<le> v \<Longrightarrow> v \<le> 255 \<Longrightarrow> uint (of_int v :: u8) = v"
  by (simp add: uint_word_of_int)

lemma fade_step_Some:
  assumes "1 < t" "uint alpha = v"
    and "control' = (if t - 1 = d - 2 then 1 else if t - 1 = fade_out d then 2 else control)"
    and "v' = (if control' = 1 then v + fade_rate d else if control' = 2 then v - fade_rate d else v)"
  shows "fade_step d (t, control, alpha) = Some (t - 1, control', of_int (clamp_opacity v'))"
  unfolding fade_step_def Let_def prod.case using assms(1) by (simp only: assms(2-4) if_False not_le [symmetric] simp_thms)

lemma fade_step_level:
  assumes "50 \<le> d" "d \<le> 255" "0 \<le> n" "n + 1 < d"
  shows "fade_step d (d - n, fade_control d n, of_int (fade_level d n)) =
    Some (d - (n + 1), fade_control d (n + 1), of_int (fade_level d (n + 1)))"
proof -
  note facts = fade_facts [OF assms(1,2)]
  let ?r = "fade_rate d" and ?o = "fade_out d"
  have now: "uint (of_int (fade_level d n) :: u8) = fade_level d n"
    using fade_level_range [OF assms(1-3)] by (simp add: uint_level)
  have up: "?r * n = ?r * (n - 1) + ?r" "?r * (n + 1 - (d - ?o) + 1) = ?r * (n - (d - ?o) + 1) + ?r"
    by (simp_all add: algebra_simps)
  have control: "fade_control d (n + 1) = (if d - n - 1 = d - 2 then 1 else if d - n - 1 = ?o then 2 else fade_control d n)"
    using facts(1,7) assms(3) by (auto simp: fade_control_def)
  let ?v = "if fade_control d (n + 1) = 1 then fade_level d n + ?r
    else if fade_control d (n + 1) = 2 then fade_level d n - ?r else fade_level d n"
  have step: "fade_step d (d - n, fade_control d n, of_int (fade_level d n)) =
      Some (d - n - 1, fade_control d (n + 1), of_int (clamp_opacity ?v))"
    by (rule fade_step_Some) (use assms(4) now control in simp_all)
  have "clamp_opacity ?v = fade_level d (n + 1)"
  proof -
    consider "n = 0" | (inside) "1 \<le> n" "n + 1 < d - ?o" | (turn) "n + 1 = d - ?o" | (down) "d - ?o \<le> n"
      using assms by linarith
    then show ?thesis
    proof cases
      case 1
      then show ?thesis by (simp add: fade_control_def fade_level_def clamp_opacity_def)
    next
      case inside
      have "0 \<le> ?r * (n - 1)" using facts(3) inside by simp
      moreover have "fade_control d (n + 1) = 1" "fade_level d n = min 255 (?r * (n - 1))"
        "fade_level d (n + 1) = min 255 (?r * (n - 1) + ?r)"
        using inside up facts(3) by (cases "n = 1"; simp add: fade_level_def fade_control_def)+
      ultimately show ?thesis using facts(3) by (simp add: clamp_opacity_def)
    next
      case turn
      then have n: "2 \<le> n" "n - 1 = d - ?o - 2" using facts assms by linarith+
      have "fade_level d n = 255" using turn n(1) facts(5) unfolding fade_level_def n(2) by simp
      moreover have "fade_level d (n + 1) = max 0 (255 - ?r)" "fade_control d (n + 1) = 2"
        using turn n(1) by (simp_all add: fade_level_def fade_control_def)
      ultimately show ?thesis using facts(3) by (simp add: clamp_opacity_def)
    next
      case down
      have "0 \<le> ?r * (n - (d - ?o) + 1)" using facts(3) down by simp
      moreover have n: "2 \<le> n" using down facts by simp
      moreover have "fade_level d n = max 0 (255 - ?r * (n - (d - ?o) + 1))" "fade_control d (n + 1) = 2"
        "fade_level d (n + 1) = max 0 (255 - (?r * (n - (d - ?o) + 1) + ?r))"
        using down n up by (simp_all add: fade_level_def fade_control_def)
      ultimately show ?thesis using facts(3) by (simp add: clamp_opacity_def)
    qed
  qed
  with step show ?thesis by (simp add: algebra_simps)
qed

section \<open>A message from its first to its last frame\<close>

text \<open>The current actor owns slot \<open>i\<close> and nothing about map, session or gate has changed.\<close>

definition overlay_live :: "game \<Rightarrow> shop_state \<Rightarrow> nat \<Rightarrow> overlay_world \<Rightarrow> bool" where
  "overlay_live g st i w \<longleftrightarrow> (let a = gCurrentActorPointer (overlay_shop w); p = additional_actor_data w a in
     a \<noteq> 0 \<and> p \<noteq> 0 \<and> find_slot w a = Some i \<and> slot_paad (slots w ! i) = p \<and> \<not> actor_uninitialized w a \<and>
     (unk58 (actors (overlay_shop w) a) = 0x140 \<or> unk58 (actors (overlay_shop w) a) = 0x144) \<and>
     \<not> slot_stale g st w (slots w ! i))"

definition fade_of :: "overlay_world \<Rightarrow> int \<times> u8 \<times> u8" where
  "fade_of w = (let a = gCurrentActorPointer (overlay_shop w); p = additional_actor_data w a in
     (timer (paads w p), actor_control_state w a, opacity (paads w p)))"

definition overlay_run :: "game \<Rightarrow> shop_state \<Rightarrow> nat \<Rightarrow> overlay_world \<Rightarrow> overlay_world" where
  "overlay_run g st n = (\<lambda>w. fst (func_menu_80027988 g st w)) ^^ n"

lemma live_frame:
  assumes "overlay_live g st i w"
  shows "func_menu_80027988 g st w =
    overlay_frame (gCurrentActorPointer (overlay_shop w))
      (additional_actor_data w (gCurrentActorPointer (overlay_shop w))) i w"
  using assms by (auto simp: overlay_live_def func_menu_80027988_def Let_def)

lemma find_slot_frame [simp]:
  "find_slot (w\<lparr>paads := ps, actor_control_state := cs\<rparr>) a = find_slot w a"
  by (simp add: find_slot_def)

lemma live_step:
  assumes "overlay_live g st i w" "fade_step (uint (label_frames (slot_label (slots w ! i)))) (fade_of w) = Some s"
  shows "overlay_live g st i (fst (func_menu_80027988 g st w)) \<and> fade_of (fst (func_menu_80027988 g st w)) = s \<and>
    slots (fst (func_menu_80027988 g st w)) = slots w"
proof -
  obtain t control alpha where s: "s = (t, control, alpha)" by (cases s)
  from assms show ?thesis
    unfolding live_frame [OF assms(1)]
    by (simp add: overlay_frame_def fade_of_def Let_def s overlay_live_def actor_uninitialized_def
        slot_stale_def)
qed

lemma live_end:
  assumes "overlay_live g st i w" "fade_step (uint (label_frames (slot_label (slots w ! i)))) (fade_of w) = None"
  shows "func_menu_80027988 g st w = dismiss (gCurrentActorPointer (overlay_shop w))
      (additional_actor_data w (gCurrentActorPointer (overlay_shop w))) (Some i) w"
  using assms unfolding live_frame [OF assms(1)] by (simp add: overlay_frame_def fade_of_def Let_def)

lemma live_run:
  assumes "overlay_live g st i w" "d = uint (label_frames (slot_label (slots w ! i)))" "50 \<le> d" "d \<le> 255"
    "fade_of w = (d - 1, 0, 0)" "int n + 1 < d"
  shows "overlay_live g st i (overlay_run g st n w) \<and> slots (overlay_run g st n w) = slots w \<and>
    fade_of (overlay_run g st n w) = (d - 1 - int n, fade_control d (int n + 1), of_int (fade_level d (int n + 1)))"
  using assms(6)
proof (induction n)
  case 0
  then show ?case using assms by (simp add: overlay_run_def fade_control_def fade_level_def)
next
  case (Suc n)
  let ?w = "overlay_run g st n w"
  from Suc have IH: "overlay_live g st i ?w" "slots ?w = slots w"
    "fade_of ?w = (d - (int n + 1), fade_control d (int n + 1), of_int (fade_level d (int n + 1)))"
    by (simp_all add: algebra_simps)
  have step: "fade_step (uint (label_frames (slot_label (slots ?w ! i)))) (fade_of ?w) =
      Some (d - (int n + 1 + 1), fade_control d (int n + 1 + 1), of_int (fade_level d (int n + 1 + 1)))"
    unfolding IH(2,3) assms(2) [symmetric] using Suc.prems by (intro fade_step_level [OF assms(3,4)]) simp_all
  have next_run: "overlay_run g st (Suc n) w = fst (func_menu_80027988 g st ?w)" by (simp add: overlay_run_def)
  from live_step [OF IH(1) step] IH(2) show ?case unfolding next_run by (simp add: algebra_simps)
qed

lemma dismissed_slot:
  assumes "find_slot w a = Some i" "length (slots w) = OVERLAY_SLOTS"
  shows "slot_actor (slots (fst (dismiss a p (Some i) w)) ! i) = 0"
proof -
  from assms have "i < OVERLAY_SLOTS" by (auto simp: find_slot_def find_Some_iff simp del: upt_rec_numeral)
  with assms(2) show ?thesis by (simp add: dismiss_def Let_def free_slot_def)
qed

text \<open>
  a purchase message that stays current lives for exactly the frames of its label.  After its first
  frame, for every label length the host may send (50 to 255), frame \<open>n\<close> shows the closed fade curve,
  which reaches full opacity, and zero before the end; the last frame then clears the text, frees the
  slot and deletes the actor.
\<close>

theorem overlay_lifetime:
  assumes "overlay_live g st i w" and "length (slots w) = OVERLAY_SLOTS"
    and "d = uint (label_frames (slot_label (slots w ! i)))" and "50 \<le> d" and "d \<le> 255"
    and "fade_of w = (d - 1, 0, 0)"
  shows "(\<forall>n. int n + 1 < d \<longrightarrow> fade_of (overlay_run g st n w) =
      (d - 1 - int n, fade_control d (int n + 1), of_int (fade_level d (int n + 1)))) \<and>
    fade_level d (d - fade_out d - 1) = 255 \<and> fade_level d (d - 1) = 0 \<and>
    (\<exists>w'. func_menu_80027988 g st (overlay_run g st (nat (d - 2)) w) =
       (w', [Delete_Actor (gCurrentActorPointer (overlay_shop (overlay_run g st (nat (d - 2)) w)))]) \<and>
       slot_actor (slots w' ! i) = 0)"
proof -
  note facts = fade_facts [OF assms(4,5)]
  have peak: "fade_level d (d - fade_out d - 1) = 255" using facts(1,5,7) by (simp add: fade_level_def algebra_simps)
  have gone: "fade_level d (d - 1) = 0" using facts(1,6) assms(4) by (simp add: fade_level_def)
  let ?w = "overlay_run g st (nat (d - 2)) w"
  from live_run [OF assms(1,3-6), of "nat (d - 2)"] assms(4)
  have last_frame: "overlay_live g st i ?w" "slots ?w = slots w" "fst (fade_of ?w) = 1" by simp_all
  then have "fade_step (uint (label_frames (slot_label (slots ?w ! i)))) (fade_of ?w) = None"
    by (cases "fade_of ?w") (simp add: fade_step_def)
  note finish = live_end [OF last_frame(1) this]
  have found: "find_slot ?w (gCurrentActorPointer (overlay_shop ?w)) = Some i"
    using last_frame(1) by (simp add: overlay_live_def Let_def)
  have calls: "snd (dismiss a p s v) = [Delete_Actor a]" for a p s v by (simp add: dismiss_def Let_def)
  have "\<exists>w'. func_menu_80027988 g st ?w = (w', [Delete_Actor (gCurrentActorPointer (overlay_shop ?w))]) \<and>
       slot_actor (slots w' ! i) = 0"
    unfolding finish using dismissed_slot [OF found] assms(2) last_frame(2) calls
    by (intro exI [of _ "fst (dismiss (gCurrentActorPointer (overlay_shop ?w))
      (additional_actor_data ?w (gCurrentActorPointer (overlay_shop ?w))) (Some i) ?w)"]) (simp add: prod_eq_iff)
  with live_run [OF assms(1,3-6)] peak gone show ?thesis by blast
qed

section \<open>The pool\<close>

lemma claim_slot_spec:
  "claim_slot m gen ss = (ss', occupied, free) \<Longrightarrow>
     length ss' = length ss \<and> occupied \<le> length ss \<and> (free = None \<longleftrightarrow> occupied = length ss) \<and>
     (\<forall>i. free = Some i \<longrightarrow> i < length ss \<and> slot_actor (ss' ! i) = 0) \<and>
     (\<forall>j < length ss. ss' ! j = (if slot_actor (ss ! j) \<noteq> 0 \<and> (slot_map (ss ! j) \<noteq> m \<or> slot_generation (ss ! j) \<noteq> gen)
        then (ss ! j)\<lparr>slot_actor := 0\<rparr> else ss ! j))"
proof (induction ss arbitrary: ss' occupied free)
  case (Cons s ss)
  obtain ss1 o1 f1 where rest: "claim_slot m gen ss = (ss1, o1, f1)" by (cases "claim_slot m gen ss")
  define h where "h = (if slot_actor s \<noteq> 0 \<and> (slot_map s \<noteq> m \<or> slot_generation s \<noteq> gen) then s\<lparr>slot_actor := 0\<rparr> else s)"
  from Cons.prems rest have res: "ss' = h # ss1" "occupied = (if slot_actor h \<noteq> 0 then Suc o1 else o1)"
    "free = (if slot_actor h \<noteq> 0 then map_option Suc f1 else Some 0)"
    by (auto simp: h_def Let_def split: if_splits)
  note IH = Cons.IH [OF rest]
  have "\<forall>j < length (s # ss). ss' ! j = (if slot_actor ((s # ss) ! j) \<noteq> 0 \<and>
      (slot_map ((s # ss) ! j) \<noteq> m \<or> slot_generation ((s # ss) ! j) \<noteq> gen)
        then ((s # ss) ! j)\<lparr>slot_actor := 0\<rparr> else (s # ss) ! j)"
  proof (intro allI impI)
    fix j assume "j < length (s # ss)"
    with IH show "ss' ! j = (if slot_actor ((s # ss) ! j) \<noteq> 0 \<and>
      (slot_map ((s # ss) ! j) \<noteq> m \<or> slot_generation ((s # ss) ! j) \<noteq> gen)
        then ((s # ss) ! j)\<lparr>slot_actor := 0\<rparr> else (s # ss) ! j)"
      by (cases j) (simp_all add: res h_def)
  qed
  with IH show ?case by (auto simp: res)
qed simp

text \<open>A message of the present map and session that belongs to another actor is never overwritten.\<close>

lemma open_keeps_messages:
  assumes "overlay_open g st a p w = Inr (w', calls, i)" "length (slots w) = OVERLAY_SLOTS" "j < OVERLAY_SLOTS"
    "slot_actor (slots w ! j) \<noteq> 0" "slot_map (slots w ! j) = shop_map (overlay_shop w)"
    "slot_generation (slots w ! j) = ap_apshop_generation st"
  shows "j \<noteq> i \<and> slots w' ! j = slots w ! j \<and> length (slots w') = OVERLAY_SLOTS"
proof -
  obtain ss occupied f where claim: "claim_slot (shop_map (overlay_shop w)) (ap_apshop_generation st) (slots w) = (ss, occupied, f)"
    by (cases "claim_slot (shop_map (overlay_shop w)) (ap_apshop_generation st) (slots w)")
  from assms(1) claim obtain s where f: "f = Some i" and w': "slots w' = ss[i := s]"
    by (auto simp: overlay_open_def Let_def split: if_splits prod.splits option.splits)
  note spec = claim_slot_spec [OF claim]
  have "ss ! j = slots w ! j" using spec assms by simp
  moreover from spec f have "slot_actor (ss ! i) = 0" by blast
  ultimately have "j \<noteq> i" using assms(4) by auto
  with spec w' assms(2) \<open>ss ! j = slots w ! j\<close> show ?thesis by simp
qed

section \<open>A concrete message\<close>

definition example_message :: overlay_world where
  "example_message = \<lparr>overlay_shop = example_shopper\<lparr>actors := (\<lambda>_. \<lparr>unk58 = 0x140, object_properties_bitfield = 0x10\<rparr>)\<rparr>,
     actor_control_state = (\<lambda>_. 0), additional_actor_data = (\<lambda>_. 64), unk178 = (\<lambda>_. 0),
     paads = (\<lambda>_. \<lparr>upper = None, lower = None, opacity = 0, timer = 129, overlay_owner = 1\<rparr>),
     shop_paads = (\<lambda>_. example_paad), spawner_tied_actor = 0,
     slots = replicate 8 \<lparr>slot_actor = 16, slot_paad = 64, slot_map = 7, slot_generation = 1, slot_label = pending_label\<rparr>\<rparr>"

lemma example_message_live: "overlay_live (bound_game 4 2) example_shop 0 example_message"
proof -
  have "find_slot example_message 16 = Some 0"
    unfolding find_slot_def find_Some_iff by (intro exI [of _ 0]) (simp add: example_message_def)
  moreover have "gCurrentActorPointer (overlay_shop example_message) = 16"
    "additional_actor_data example_message = (\<lambda>_. 64)" "slots example_message ! 0 =
      \<lparr>slot_actor = 16, slot_paad = 64, slot_map = 7, slot_generation = 1, slot_label = pending_label\<rparr>"
    "unk58 (actors (overlay_shop example_message) 16) = 0x140"
    "\<not> actor_uninitialized example_message 16" "shop_map (overlay_shop example_message) = 7"
    by (simp_all add: example_message_def example_shopper_def actor_uninitialized_def)
  moreover have "shop_generation example_shop = 1" by (simp add: example_shop_def)
  ultimately show ?thesis
    by (simp add: overlay_live_def slot_stale_def mode_has_def ap_apshop_generation_def)
qed

theorem overlay_lifetime_witness:
  "fade_of (overlay_run (bound_game 4 2) example_shop 50 example_message) = (79, 1, 255) \<and> fade_level 130 129 = 0"
proof -
  have slot: "slots example_message ! 0 =
      \<lparr>slot_actor = 16, slot_paad = 64, slot_map = 7, slot_generation = 1, slot_label = pending_label\<rparr>"
    by (simp add: example_message_def)
  have d: "(130 :: int) = uint (label_frames (slot_label (slots example_message ! 0)))"
    by (simp only: slot overlay_slot.select_convs) (simp add: pending_label_def)
  have size: "length (slots example_message) = OVERLAY_SLOTS" by (simp add: example_message_def)
  have start: "fade_of example_message = (130 - 1, 0, 0)" by (simp add: fade_of_def example_message_def)
  from overlay_lifetime [OF example_message_live size d _ _ start]
  have "fade_of (overlay_run (bound_game 4 2) example_shop 50 example_message) =
      (130 - 1 - 50, fade_control 130 51, of_int (fade_level 130 51)) \<and> fade_level 130 129 = 0"
    by (auto dest: spec [of _ 50])
  then show ?thesis by (simp add: fade_control_def fade_level_def fade_out_def fade_rate_def)
qed

end
