(* ===== verification/Session.thy ===== *)
theory Session
  imports Shops
begin

text \<open>
  The session driver \<^verbatim>\<open>mod/ap.c\<close> with its policies \<^verbatim>\<open>mod/policy.h\<close>, and the collectable patch of
  \<^verbatim>\<open>mod/gameplay.c\<close>.  The native companion is outside the repository's mod: what it answers to
  each import is a field of the environment, and the calls made to it are listed in order.  On the MIPS
  target \<^verbatim>\<open>char\<close> is signed, so a path byte and a name byte are compared as \<open>uint\<close> against \<open>sint\<close>.
\<close>

section \<open>Policies\<close>

definition ap_first_move_level :: "u8 \<Rightarrow> u32 \<Rightarrow> u8" where
  "ap_first_move_level current granted = (if current = 0 \<and> granted \<noteq> 0 then 1 else current)"

definition ap_safe_frame :: "bool \<Rightarrow> u8 \<Rightarrow> bool \<Rightarrow> bool \<Rightarrow> bool \<Rightarrow> bool \<Rightarrow> bool" where
  "ap_safe_frame adventure file player cutscene transition paused \<longleftrightarrow>
     adventure \<and> file = 0 \<and> player \<and> \<not> cutscene \<and> \<not> transition \<and> \<not> paused"

definition path_owner :: string where "path_owner = ''odrannnn_dk64_archipelago/''"
definition path_extension :: string where "path_extension = ''.bin''"

text \<open>The bytes of a C string before its terminator.\<close>

definition c_string :: "u8 list \<Rightarrow> u8 list" where
  "c_string = takeWhile (\<lambda>c. c \<noteq> 0)"

text \<open>\<open>if (c == '\\') c = '/';\<close> with the character codes.\<close>

definition slash :: "u8 \<Rightarrow> u8" where "slash c = (if c = 92 then 47 else c)"

definition ap_owns_save_path :: "u8 list cptr \<Rightarrow> u8 list \<Rightarrow> bool" where
  "ap_owns_save_path path save_name \<longleftrightarrow>
     (case path of Null \<Rightarrow> False | Ptr a bytes \<Rightarrow>
        let path = c_string bytes; len = length path;
          owner_len = length path_owner; suffix_len = owner_len + 35 + 4
        in if len \<le> suffix_len then False
           else let start = len - suffix_len in
             (path ! (start - 1) = 47 \<or> path ! (start - 1) = 92) \<and>
             (\<forall>i \<in> set [0..<owner_len].
                slash (path ! (start + i)) = of_char (path_owner ! i)) \<and>
             (\<forall>i \<in> set [0..<35]. uint (path ! (start + owner_len + i)) = sint (save_name ! i)) \<and>
             (\<forall>i \<in> set [0..<4]. path ! (len - 4 + i) = of_char (path_extension ! i)))"

section \<open>The path rule as a pattern\<close>

lemma split4:
  fixes xs :: "'a list"
  assumes "length xs = n + Suc 0 + a + b + c"
  shows "xs = take n xs @ [xs ! n] @ take a (drop (Suc n) xs) @ take b (drop (Suc n + a) xs) @ drop (Suc n + a + b) xs"
proof -
  have "xs = take n xs @ drop n xs" by simp
  also have "drop n xs = [xs ! n] @ drop (Suc n) xs" using assms by (simp add: Cons_nth_drop_Suc)
  also have "drop (Suc n) xs = take a (drop (Suc n) xs) @ drop (Suc n + a) xs"
    using append_take_drop_id [of a "drop (Suc n) xs"] by (simp add: drop_drop add.commute)
  also have "drop (Suc n + a) xs = take b (drop (Suc n + a) xs) @ drop (Suc n + a + b) xs"
    using append_take_drop_id [of b "drop (Suc n + a) xs"] by (simp add: drop_drop add.commute add.left_commute)
  finally show ?thesis by simp
qed

text \<open>
  a save path is accepted exactly when it ends in a separator, the mod's own directory (either
  separator closing it), the first 35 characters of the configured save name, and the extension.
\<close>

theorem owns_save_path_iff:
  assumes "length name = 36" and "\<forall>c \<in> set (take 35 name). c < 128"
  shows "ap_owns_save_path (Ptr a bytes) name \<longleftrightarrow>
    (\<exists>pre sep dir. c_string bytes = pre @ [sep] @ dir @ take 35 name @ map of_char path_extension \<and>
       (sep = 47 \<or> sep = 92) \<and> map slash dir = map of_char path_owner)"
proof -
  define p where "p = c_string bytes"
  have signed: "sint (name ! i) = uint (name ! i)" if "i < 35" for i
  proof -
    have "take 35 name ! i \<in> set (take 35 name)" using that assms(1) by (intro nth_mem) simp
    with assms(2) that have "name ! i < 128" by simp
    then have "uint (name ! i) < 128" by (simp add: word_less_def)
    moreover have "0 \<le> uint (name ! i)" by simp
    ultimately have "- 128 \<le> uint (name ! i)" by linarith
    with \<open>uint (name ! i) < 128\<close> show ?thesis by (simp add: sint_uint signed_take_bit_int_eq_self_iff)
  qed
  have lens: "length path_owner = 26" "length path_extension = 4" by (simp_all add: path_owner_def path_extension_def)
  show ?thesis
  proof
    assume "ap_owns_save_path (Ptr a bytes) name"
    then have long: "65 < length p" and sep: "p ! (length p - 65 - 1) = 47 \<or> p ! (length p - 65 - 1) = 92"
      and dir: "\<forall>i < 26. slash (p ! (length p - 65 + i)) = of_char (path_owner ! i)"
      and nm: "\<forall>i < 35. uint (p ! (length p - 65 + 26 + i)) = sint (name ! i)"
      and ext: "\<forall>i < 4. p ! (length p - 4 + i) = of_char (path_extension ! i)"
      by (auto simp: ap_owns_save_path_def Let_def lens p_def [symmetric] simp del: upt_rec_numeral
          split: if_splits)
    define n where "n = length p - 66"
    have len: "length p = n + Suc 0 + 26 + 35 + 4" using long by (simp add: n_def)
    have parts: "take 26 (drop (Suc n) p) = map (\<lambda>i. p ! (length p - 65 + i)) [0..<26]"
      "take 35 (drop (Suc n + 26) p) = map (\<lambda>i. p ! (length p - 65 + 26 + i)) [0..<35]"
      "drop (Suc n + 26 + 35) p = map (\<lambda>i. p ! (length p - 4 + i)) [0..<4]"
      using len by (auto intro!: nth_equalityI simp del: upt_rec_numeral)
    have "take 35 (drop (Suc n + 26) p) = take 35 name"
    proof -
      have "\<forall>i < 35. p ! (length p - 65 + 26 + i) = name ! i" using nm signed by (simp add: word_uint_eq_iff)
      then show ?thesis unfolding parts using assms(1) by (auto intro!: nth_equalityI simp del: upt_rec_numeral)
    qed
    moreover have "map slash (take 26 (drop (Suc n) p)) = map of_char path_owner"
      unfolding parts using dir lens by (auto intro!: nth_equalityI simp del: upt_rec_numeral)
    moreover have "drop (Suc n + 26 + 35) p = map of_char path_extension"
      unfolding parts using ext lens by (auto intro!: nth_equalityI simp del: upt_rec_numeral)
    moreover have "p ! n = 47 \<or> p ! n = 92" using sep long by (simp add: n_def)
    ultimately show "\<exists>pre sep dir. c_string bytes = pre @ [sep] @ dir @ take 35 name @ map of_char path_extension \<and>
       (sep = 47 \<or> sep = 92) \<and> map slash dir = map of_char path_owner"
      using split4 [OF len] unfolding p_def [symmetric] by metis
  next
    assume "\<exists>pre sep dir. c_string bytes = pre @ [sep] @ dir @ take 35 name @ map of_char path_extension \<and>
       (sep = 47 \<or> sep = 92) \<and> map slash dir = map of_char path_owner"
    then obtain pre sep dir where p: "p = pre @ [sep] @ dir @ take 35 name @ map of_char path_extension"
      and sep: "sep = 47 \<or> sep = 92" and dir: "map slash dir = map of_char path_owner" unfolding p_def by blast
    from dir have ld: "length dir = 26" using lens by (metis length_map)
    have len: "length p = length pre + 66" using assms(1) by (simp add: p ld lens)
    have "slash (dir ! i) = of_char (path_owner ! i)" if "i < 26" for i
      using arg_cong [OF dir, of "\<lambda>xs. xs ! i"] that ld lens by simp
    then show "ap_owns_save_path (Ptr a bytes) name"
      using sep signed assms(1)
      by (auto simp: ap_owns_save_path_def Let_def p_def [symmetric] len lens p nth_append ld
          simp del: upt_rec_numeral)
  qed
qed

section \<open>The session driver\<close>

record ap_session =
  initialized :: u32
  enabled :: u32
  status :: u32
  error :: u32
  frames :: u32
  save_name :: "u8 list"
  active_checks :: ap_check_set
  observed_checks :: ap_check_set
  native_shop_labels :: "ap_shop_label list"

definition initial_session :: ap_session where
  "initial_session = \<lparr>initialized = 0, enabled = 0, status = 3, error = 0, frames = 0,
     save_name = replicate 36 0, active_checks = no_checks, observed_checks = no_checks, native_shop_labels = []\<rparr>"

text \<open>Host configuration and the answers of the companion while the mod starts.\<close>

record ap_host =
  config_enabled :: u32
  D_global_asm_807467E0 :: u8
  config_strings :: "string list"
  config_team :: u32
  config_slot :: u32
  configure_result :: u32
  configured_name :: "u8 list"
  save_file_path :: "u8 list cptr"
  start_result :: u32

datatype ap_call =
    Stop
  | Configure "string list" u32 u32
  | Change_Save_File "u8 list"
  | Start "u8 list cptr"
  | Tick u32
  | Labels nat
  | Draw_Status

definition ap_fail :: "ap_session \<Rightarrow> ap_session \<times> ap_call list" where
  "ap_fail s = (s\<lparr>enabled := 0, status := 2\<rparr>, [Stop])"

definition ap_init :: "ap_host \<Rightarrow> ap_session \<Rightarrow> ap_session \<times> ap_call list" where
  "ap_init h s =
     (if initialized s \<noteq> 0 then (s, [])
      else let s = s\<lparr>initialized := 1\<rparr> in
        if config_enabled h \<noteq> 1 then (s, [])
        else if D_global_asm_807467E0 h \<noteq> 0 then ap_fail s
        else let calls = [Configure (config_strings h) (config_team h) (config_slot h)];
            (s, calls) =
              (if configure_result h \<noteq> 0 then
                 let s = s\<lparr>save_name := configured_name h\<rparr>;
                     calls = calls @ [Change_Save_File (configured_name h)];
                     (s, calls) =
                       (if ap_owns_save_path (save_file_path h) (save_name s)
                        then (s\<lparr>status := start_result h\<rparr>, calls @ [Start (save_file_path h)]) else (s, calls))
                 in (s\<lparr>enabled := (if status s = 0 then 1 else 0)\<rparr>, calls)
               else (s, calls))
          in if enabled s = 0 then (case ap_fail s of (s, stop) \<Rightarrow> (s, calls @ stop))
             else (s\<lparr>active_checks := snd (ap_check_add (snd (ap_check_add (active_checks s) 14041180)) 14041181)\<rparr>, calls))"

text \<open>What one frame reads of the game and of the companion.\<close>

record ap_frame_input =
  frame_player :: bool
  cutscene_active :: "8 word"
  transition_flags :: u8
  fade_nonzero :: bool
  frame_properties :: u32
  permanent_flag :: "u16 \<Rightarrow> bool"
  frame_save_path :: "u8 list cptr"
  tick_answer :: "u32 \<Rightarrow> u32"
  labels_answer :: u32
  labels_written :: "ap_shop_label list"

definition observe_flags :: "ap_frame_input \<Rightarrow> ap_check_set \<Rightarrow> ap_check_set \<Rightarrow> ap_check_set" where
  "observe_flags inp active observed =
     fold (\<lambda>i obs. if ap_check_has_index active i \<and> loc_detector (ap_locations ! i) = AP_DETECT_STOCK_FLAG \<and>
            permanent_flag inp (loc_flag (ap_locations ! i))
          then snd (ap_check_event obs active (loc_id (ap_locations ! i))) else obs)
       [0..<AP_LOCATION_COUNT] observed"

definition frame_safe :: "game \<Rightarrow> ap_frame_input \<Rightarrow> bool" where
  "frame_safe g inp = ap_safe_frame
     (game_mode g = GAME_MODE_ADVENTURE g \<and> game_mode_copy g = GAME_MODE_ADVENTURE g) (current_file g)
     (frame_player inp) (cutscene_active inp \<noteq> 0) (transition_flags inp AND 1 \<noteq> 0 \<or> fade_nonzero inp)
     (frame_properties inp AND 3 \<noteq> 0)"

definition checks_mask :: "ap_check_set \<Rightarrow> u32" where
  "checks_mask observed =
     (if ap_check_has observed 14041180 then 1 else 0) OR (if ap_check_has observed 14041181 then 2 else 0)"

definition grant_moves :: "u32 \<Rightarrow> u8 list \<Rightarrow> u8 list" where
  "grant_moves answer moves_owned =
     fold (\<lambda>kong ms. ms[kong := ap_first_move_level (ms ! kong) (drop_bit kong answer AND 1)]) [0..<5] moves_owned"

text \<open>
  The exchange with the companion: the observed checks go out, status and error come back, and with the
  shop gate on the labels go to the shop state \<open>shop\<close>.  The five \<open>moves\<close> bytes are the list \<open>ms\<close>.
\<close>

definition frame_checks :: "game \<Rightarrow> ap_frame_input \<Rightarrow> ap_session \<Rightarrow> ap_session \<times> u32" where
  "frame_checks g inp s =
     (if frame_safe g inp then
        (s\<lparr>observed_checks := observe_flags inp (active_checks s) (observed_checks s)\<rparr>,
         checks_mask (observe_flags inp (active_checks s) (observed_checks s)))
      else (s, 0))"

definition take_answer :: "u32 \<Rightarrow> ap_session \<Rightarrow> ap_session" where
  "take_answer answer s = s\<lparr>status := drop_bit 16 answer AND 3, error := drop_bit 24 answer\<rparr>"

definition take_labels ::
  "game \<Rightarrow> ap_frame_input \<Rightarrow> ap_session \<Rightarrow> shop_state \<Rightarrow> int \<times> ap_session \<times> shop_state \<times> ap_call list" where
  "take_labels g inp s shop =
     (if \<not> mode_has g AP_GAMEPLAY_SHOPS then (1, s, shop, [])
      else let s = s\<lparr>native_shop_labels := labels_written inp\<rparr>; call = [Labels AP_SHOP_COUNT] in
        if labels_answer inp = 0xFFFFFFFE then (1, s, shop, call)
        else if 120 < labels_answer inp then (0, s, shop, call)
        else case ap_apshop_set_labels shop (Ptr 4 (native_shop_labels s)) (labels_answer inp) of
          (accepted, shop) \<Rightarrow> (accepted, s, shop, call))"

definition ap_exchange ::
  "game \<Rightarrow> ap_frame_input \<Rightarrow> ap_session \<Rightarrow> shop_state \<Rightarrow> u8 list
     \<Rightarrow> ap_session \<times> shop_state \<times> u8 list \<times> ap_call list" where
  "ap_exchange g inp s shop ms =
     (case frame_checks g inp s of (s, checks) \<Rightarrow>
        let answer = tick_answer inp checks in
        case take_labels g inp (take_answer answer s) shop of (accepted, s, shop, calls) \<Rightarrow>
          if accepted = 0 then (case ap_fail s of (s, stop) \<Rightarrow> (s, shop, ms, Tick checks # calls @ stop))
          else if \<not> frame_safe g inp \<or> status s \<noteq> 1 then (s, shop, ms, Tick checks # calls)
          else (s, shop, grant_moves answer ms, Tick checks # calls))"

definition ap_frame ::
  "game \<Rightarrow> ap_frame_input \<Rightarrow> ap_session \<Rightarrow> shop_state \<Rightarrow> u8 list
     \<Rightarrow> ap_session \<times> shop_state \<times> u8 list \<times> ap_call list" where
  "ap_frame g inp s shop ms =
     (if status s = 3 then (s, shop, ms, [])
      else if enabled s = 0 then (s, shop, ms, [Draw_Status])
      else let s = s\<lparr>frames := frames s + 1\<rparr> in
        if frames s mod 6 \<noteq> 0 then (s, shop, ms, [Draw_Status])
        else if \<not> ap_owns_save_path (frame_save_path inp) (save_name s) then
          (case ap_fail s of (s, stop) \<Rightarrow> (s, shop, ms, Draw_Status # stop))
        else case ap_exchange g inp s shop ms of
          (s, shop, ms, calls) \<Rightarrow> (s, shop, ms, Draw_Status # calls))"

text \<open>The status line.\<close>

definition status_text :: "game \<Rightarrow> ap_session \<Rightarrow> string" where
  "status_text g s =
     (if current_file g \<noteq> 0 then ''AP TEST: USE SAVE 1''
      else if status s = 2 then
        (if error s = 2 then ''AP TEST: WRONG SEED'' else if error s = 3 then ''AP TEST: CHECK SLOT / PASSWORD''
         else if error s = 4 then ''AP TEST: UNSUPPORTED WORLD'' else if error s = 5 then ''AP TEST: SAVE JOURNAL ERROR''
         else ''AP TEST: CONFIG / PROTOCOL ERROR'')
      else if status s = 0 \<and> error s = 7 then ''AP TEST: NETWORK / TLS RETRY''
      else if status s = 1 then ''AP DIRECT TEST: CONNECTED'' else ''AP DIRECT TEST: CONNECTING'')"

section \<open>The collectable patch\<close>

record collect_input =
  hud_blocked :: "nat \<Rightarrow> u8"
  banana_flag :: "int option"

datatype collect_call =
    Stock_Change int u8 "16 word"
  | Collect_Flag "16 word" u8
  | Refresh_Hud u8

definition changeCollectableCount :: "game \<Rightarrow> collect_input \<Rightarrow> int \<Rightarrow> u8 \<Rightarrow> 16 word \<Rightarrow> collect_call list" where
  "changeCollectableCount g inp item player amount =
     (if mode_has g AP_GAMEPLAY_REWARDS \<and> current_file g = 0 \<and> player = 0 \<and>
         game_mode g = GAME_MODE_ADVENTURE g \<and> game_mode_copy g = GAME_MODE_ADVENTURE g \<and>
         item = 8 \<and> 0 < sint amount then
        (if hud_blocked inp (nat item) = 0 then
           (case banana_flag inp of None \<Rightarrow> [] | Some f \<Rightarrow> [Collect_Flag (of_int f) 1]) @ [Refresh_Hud player]
         else [])
      else [Stock_Change item player amount])"

section \<open>What a frame may do\<close>

lemma grant_nth:
  assumes "length ms = 5" "k < 5"
  shows "grant_moves answer ms ! k = ap_first_move_level (ms ! k) (drop_bit k answer AND 1)"
    and "length (grant_moves answer ms) = 5"
proof -
  from assms(1) obtain a b c d e where ms: "ms = [a, b, c, d, e]"
    by (auto simp: length_Suc_conv eval_nat_numeral)
  from assms(2) have "k = 0 \<or> k = 1 \<or> k = 2 \<or> k = 3 \<or> k = 4" by auto
  then show "grant_moves answer ms ! k = ap_first_move_level (ms ! k) (drop_bit k answer AND 1)"
    by (auto simp: grant_moves_def ms eval_nat_numeral upt_conv_Cons)
  show "length (grant_moves answer ms) = 5"
    unfolding grant_moves_def ms by (simp add: eval_nat_numeral upt_conv_Cons)
qed

lemma checks_mask_less: "checks_mask c < 4"
  by (simp add: checks_mask_def)

lemma exchange_cases:
  assumes "ap_exchange g inp s shop ms = (s', shop', ms', calls)"
  defines "c \<equiv> snd (frame_checks g inp s)"
  shows "Tick c' \<in> set calls \<longleftrightarrow> c' = c" "Stop \<in> set calls \<longrightarrow> enabled s' = 0 \<and> status s' = 2"
    "ms' = ms \<or> ms' = grant_moves (tick_answer inp c) ms \<and> frame_safe g inp \<and> status s' = 1"
proof -
  obtain s1 where checks: "frame_checks g inp s = (s1, c)" by (cases "frame_checks g inp s") (simp add: c_def)
  obtain accepted s2 shop1 sent where labels: "take_labels g inp (take_answer (tick_answer inp c) s1) shop =
      (accepted, s2, shop1, sent)" by (cases "take_labels g inp (take_answer (tick_answer inp c) s1) shop")
  have sent: "set sent \<subseteq> {Labels AP_SHOP_COUNT}"
    using labels by (auto simp: take_labels_def Let_def split: if_splits prod.splits)
  from assms(1) have run: "(if accepted = 0 then (s2\<lparr>enabled := 0, status := 2\<rparr>, shop1, ms, Tick c # sent @ [Stop])
       else if \<not> frame_safe g inp \<or> status s2 \<noteq> 1 then (s2, shop1, ms, Tick c # sent)
       else (s2, shop1, grant_moves (tick_answer inp c) ms, Tick c # sent)) = (s', shop', ms', calls)"
    by (auto simp: ap_exchange_def checks labels ap_fail_def Let_def split: if_splits)
  show "Tick c' \<in> set calls \<longleftrightarrow> c' = c" "Stop \<in> set calls \<longrightarrow> enabled s' = 0 \<and> status s' = 2"
    "ms' = ms \<or> ms' = grant_moves (tick_answer inp c) ms \<and> frame_safe g inp \<and> status s' = 1"
    using run sent by (auto split: if_splits)
qed

text \<open>
  a frame can only do what its guards allow.  Move bytes change only from zero to one, on a safe
  frame of an enabled session whose save path is its own, with the companion connected and the bit of
  that Kong granted; the companion is asked at most on every sixth frame, with a mask of the two test
  checks that is zero unless the frame is safe; and a stopped session ends in the disabled error state.
\<close>

theorem ap_frame_guarded:
  assumes "ap_frame g inp s shop ms = (s', shop', ms', calls)" and "length ms = 5"
  shows "length ms' = 5 \<and>
    (\<forall>k < 5. ms' ! k = ms ! k \<or> ms ! k = 0 \<and> ms' ! k = 1 \<and> frame_safe g inp \<and> enabled s \<noteq> 0 \<and> status s' = 1 \<and>
       ap_owns_save_path (frame_save_path inp) (save_name s) \<and>
       (\<exists>c. Tick c \<in> set calls \<and> drop_bit k (tick_answer inp c) AND 1 \<noteq> 0)) \<and>
    (\<forall>c. Tick c \<in> set calls \<longrightarrow> c < 4 \<and> (c \<noteq> 0 \<longrightarrow> frame_safe g inp) \<and> (frames s + 1) mod 6 = 0 \<and> enabled s \<noteq> 0) \<and>
    (Stop \<in> set calls \<longrightarrow> enabled s' = 0 \<and> status s' = 2)"
proof (cases "status s = 3 \<or> enabled s = 0 \<or> (frames s + 1) mod 6 \<noteq> 0 \<or>
    \<not> ap_owns_save_path (frame_save_path inp) (save_name s)")
  case True
  then have "ms' = ms \<and> set calls \<subseteq> {Draw_Status, Stop} \<and> (Stop \<in> set calls \<longrightarrow> enabled s' = 0 \<and> status s' = 2)"
    using assms(1) by (auto simp: ap_frame_def Let_def ap_fail_def split: if_splits)
  with assms(2) show ?thesis by blast
next
  case False
  let ?s = "s\<lparr>frames := frames s + 1\<rparr>"
  obtain calls' where run: "ap_exchange g inp ?s shop ms = (s', shop', ms', calls')" and calls: "calls = Draw_Status # calls'"
    using assms(1) False by (auto simp: ap_frame_def Let_def split: prod.splits)
  define c where "c = snd (frame_checks g inp ?s)"
  note ex = exchange_cases [OF run, folded c_def]
  have c: "c < 4" "c \<noteq> 0 \<longrightarrow> frame_safe g inp" using checks_mask_less by (simp_all add: c_def frame_checks_def)
  have moved: "length ms' = 5 \<and> (\<forall>k < 5. ms' ! k = ms ! k \<or> ms ! k = 0 \<and> ms' ! k = 1 \<and> frame_safe g inp \<and>
      status s' = 1 \<and> drop_bit k (tick_answer inp c) AND 1 \<noteq> 0)"
    using ex(3) grant_nth(1) [OF assms(2)] grant_nth(2) [OF assms(2), of 0] assms(2) by (auto simp: ap_first_move_level_def split: if_splits)
  have stop: "Stop \<in> set calls \<longrightarrow> enabled s' = 0 \<and> status s' = 2" using ex(2) calls by simp
  have tick: "Tick c' \<in> set calls \<longleftrightarrow> c' = c" for c' using ex(1) calls by simp
  from False have live: "enabled s \<noteq> 0" "(frames s + 1) mod 6 = 0" "ap_owns_save_path (frame_save_path inp) (save_name s)"
    by simp_all
  show ?thesis
    using moved live c by (intro conjI stop) (auto simp: tick)
qed

section \<open>Concrete runs\<close>

definition example_name :: "u8 list" where
  "example_name = replicate 35 97 @ [0]"

definition example_path :: "u8 list" where
  "example_path = [47] @ map of_char path_owner @ replicate 35 97 @ map of_char path_extension @ [0]"

lemma example_path_string:
  "c_string example_path = [] @ [47] @ map of_char path_owner @ take 35 example_name @ map of_char path_extension"
proof -
  have ended: "c_string (xs @ [0]) = xs" if "0 \<notin> set xs" for xs
    using that by (induction xs) (auto simp: c_string_def)
  have "0 \<notin> set ([47] @ map of_char path_owner @ replicate 35 97 @ map of_char path_extension :: u8 list)"
    by (simp add: path_owner_def path_extension_def)
  from ended [OF this] show ?thesis by (simp add: example_path_def example_name_def)
qed

theorem owns_save_path_iff_witness: "ap_owns_save_path (Ptr 0 example_path) example_name"
proof -
  have "map slash (map of_char path_owner) = map of_char path_owner" by (simp add: path_owner_def slash_def)
  then have "\<exists>pre sep dir. c_string example_path = pre @ [sep] @ dir @ take 35 example_name @ map of_char path_extension \<and>
       (sep = 47 \<or> sep = 92) \<and> map slash dir = map of_char path_owner"
    using example_path_string by blast
  moreover have "length example_name = 36" "\<forall>c \<in> set (take 35 example_name). c < 128" by (simp_all add: example_name_def)
  ultimately show ?thesis using owns_save_path_iff by blast
qed

definition example_input :: ap_frame_input where
  "example_input = \<lparr>frame_player = True, cutscene_active = 0, transition_flags = 0, fade_nonzero = False,
     frame_properties = 0, permanent_flag = (\<lambda>_. False), frame_save_path = Ptr 0 example_path,
     tick_answer = (\<lambda>_. 0x10001), labels_answer = 0, labels_written = []\<rparr>"

definition example_session :: ap_session where
  "example_session = initial_session\<lparr>enabled := 1, status := 1, frames := 5, save_name := example_name\<rparr>"

theorem ap_frame_guarded_witness:
  "\<exists>s' shop' ms' calls. ap_frame (example_game 0) example_input example_session empty_shop [0, 1, 0, 0, 0] =
     (s', shop', ms', calls) \<and> length ms' = 5 \<and> ms' ! 1 = 1"
proof -
  obtain s' shop' ms' calls where run: "ap_frame (example_game 0) example_input example_session empty_shop [0, 1, 0, 0, 0] =
     (s', shop', ms', calls)" by (metis surj_pair)
  from ap_frame_guarded [OF run] have "length ms' = 5 \<and> ms' ! 1 = 1" by (auto dest: spec [of _ 1])
  with run show ?thesis by blast
qed

end
