(* ===== verification/CoopTables.thy ===== *)
theory CoopTables
  imports Prelude
begin

text \<open>
  The metadata tables of the co-op mod, row by row: \<^verbatim>\<open>travel_ids.h\<close>, \<^verbatim>\<open>world_ids.h\<close> with
  \<^verbatim>\<open>world_expansion.inc\<close>, \<^verbatim>\<open>collectible_ids.h\<close> and \<^verbatim>\<open>transition_routes.inc\<close>.  Long tables are
  split into parts that follow the source lines.  Fields have the types of the source.
\<close>

type_synonym s8 = "8 word"
type_synonym s16 = "16 word"

datatype CoopWarpTag = WarpTag (warp_flag: u16) (warp_map: u8) (required_item: s16)
datatype CoopWorldUnlock = WorldUnlock (unlock_flag: u16) (unlock_level: u8) (prerequisite: s8)
datatype CoopWorldRequirement =
  WorldRequirement (requirement_flag: u16) (requirement_first: u16) (requirement_count: u8) (requirement_minimum: u8)
datatype CoopGoldenBanana =
  GoldenBanana (gb_flag: u16) (gb_prop: u16) (gb_prop_type: u16) (gb_barrel: u8) (gb_map: u8) (gb_level: u8) (gb_kong: u8)
datatype CoopPickup = Pickup (pickup_object: u16) (pickup_type: u16) (pickup_map: u8) (pickup_kong: u8) (pickup_amount: u8)
datatype CoopActorPickup =
  ActorPickup (actor_flag: u16) (actor_object: u16) (actor_type: u8) (actor_map: u8) (actor_level: u8) (actor_kong: u8)
    (actor_amount: u8)
datatype CoopTransitionRoute = Route (route_source: u8) (route_destination: u8) (route_exit: s8)

section \<open>Warps and world unlocks\<close>

definition coop_warp_tags :: "CoopWarpTag list" where
  "coop_warp_tags = [
   WarpTag 32 7 (- 1), WarpTag 33 7 (- 1), WarpTag 40 7 (- 1), WarpTag 41 7 (- 1), WarpTag 37 7 (- 1),
   WarpTag 35 7 (- 1), WarpTag 36 7 (- 1), WarpTag 34 7 (- 1), WarpTag 38 7 (- 1), WarpTag 39 7 175,
   WarpTag 88 20 (- 1), WarpTag 89 20 (- 1), WarpTag 90 20 (- 1), WarpTag 91 20 (- 1), WarpTag 141 26 (- 1),
   WarpTag 145 26 (- 1), WarpTag 149 26 (- 1), WarpTag 148 26 (- 1), WarpTag 150 26 (- 1),
   WarpTag 147 26 (- 1), WarpTag 143 26 (- 1), WarpTag 142 26 (- 1), WarpTag 146 26 (- 1),
   WarpTag 144 26 (- 1), WarpTag 169 30 (- 1), WarpTag 170 30 (- 1), WarpTag 175 30 (- 1),
   WarpTag 172 30 (- 1), WarpTag 174 30 (- 1), WarpTag 173 30 (- 1), WarpTag 171 30 (- 1),
   WarpTag 177 30 (- 1), WarpTag 178 30 (- 1), WarpTag 433 34 (- 1), WarpTag 434 34 (- 1),
   WarpTag 435 34 (- 1), WarpTag 436 34 (- 1), WarpTag 438 34 (- 1), WarpTag 442 34 (- 1),
   WarpTag 437 34 (- 1), WarpTag 439 34 (- 1), WarpTag 440 34 (- 1), WarpTag 441 34 (- 1),
   WarpTag 79 38 (- 1), WarpTag 80 38 (- 1), WarpTag 86 38 (- 1), WarpTag 82 38 (- 1), WarpTag 81 38 (- 1),
   WarpTag 87 38 (- 1), WarpTag 83 38 (- 1), WarpTag 84 38 (- 1), WarpTag 85 38 (- 1), WarpTag 237 48 (- 1),
   WarpTag 238 48 (- 1), WarpTag 239 48 (- 1), WarpTag 240 48 (- 1), WarpTag 241 48 (- 1),
   WarpTag 242 48 (- 1), WarpTag 243 48 (- 1), WarpTag 244 48 (- 1), WarpTag 245 48 (- 1),
   WarpTag 246 48 (- 1), WarpTag 283 72 (- 1), WarpTag 284 72 (- 1), WarpTag 286 72 (- 1),
   WarpTag 285 72 (- 1), WarpTag 291 72 (- 1), WarpTag 289 72 (- 1), WarpTag 287 72 (- 1),
   WarpTag 288 72 (- 1), WarpTag 290 72 (- 1), WarpTag 333 87 (- 1), WarpTag 328 87 (- 1),
   WarpTag 332 87 (- 1), WarpTag 327 87 (- 1), WarpTag 330 87 (- 1), WarpTag 334 87 (- 1),
   WarpTag 336 87 (- 1), WarpTag 329 87 (- 1), WarpTag 331 87 (- 1), WarpTag 335 87 (- 1),
   WarpTag 337 112 (- 1), WarpTag 339 112 (- 1), WarpTag 341 112 (- 1), WarpTag 342 112 (- 1),
   WarpTag 340 112 (- 1), WarpTag 338 112 (- 1)]"

definition coop_world_base :: "CoopWorldUnlock list" where
  "coop_world_base = [
   WorldUnlock 50 1 (- 1), WorldUnlock 76 1 0, WorldUnlock 158 3 (- 1), WorldUnlock 230 4 (- 1),
   WorldUnlock 231 4 (- 1), WorldUnlock 232 4 (- 1), WorldUnlock 233 4 (- 1), WorldUnlock 234 4 (- 1),
   WorldUnlock 248 4 (- 1), WorldUnlock 251 4 (- 1), WorldUnlock 109 2 (- 1), WorldUnlock 110 2 (- 1),
   WorldUnlock 111 2 (- 1), WorldUnlock 119 2 (- 1), WorldUnlock 120 2 (- 1), WorldUnlock 129 2 (- 1),
   WorldUnlock 133 2 (- 1), WorldUnlock 151 2 (- 1)]"

definition coop_world_expansion :: "CoopWorldUnlock list" where
  "coop_world_expansion = [
   WorldUnlock 7 0 (- 1), WorldUnlock 13 0 (- 1), WorldUnlock 14 0 (- 1), WorldUnlock 15 0 (- 1),
   WorldUnlock 16 0 (- 1), WorldUnlock 30 0 (- 1), WorldUnlock 43 0 (- 1), WorldUnlock 0 0 (- 1),
   WorldUnlock 46 0 (- 1), WorldUnlock 47 1 (- 1), WorldUnlock 48 1 (- 1), WorldUnlock 53 1 (- 1),
   WorldUnlock 55 1 (- 1), WorldUnlock 69 1 (- 1), WorldUnlock 78 1 (- 1), WorldUnlock 108 1 (- 1),
   WorldUnlock 152 2 (- 1), WorldUnlock 153 3 (- 1), WorldUnlock 155 3 (- 1), WorldUnlock 156 3 (- 1),
   WorldUnlock 159 3 (- 1), WorldUnlock 161 3 (- 1), WorldUnlock 162 3 (- 1), WorldUnlock 179 3 (- 1),
   WorldUnlock 180 3 (- 1), WorldUnlock 181 3 (- 1), WorldUnlock 185 3 (- 1), WorldUnlock 186 3 (- 1),
   WorldUnlock 187 3 (- 1), WorldUnlock 188 3 (- 1), WorldUnlock 189 3 (- 1), WorldUnlock 190 3 (- 1),
   WorldUnlock 203 3 (- 1), WorldUnlock 207 4 (- 1), WorldUnlock 208 4 (- 1), WorldUnlock 210 4 (- 1),
   WorldUnlock 212 4 (- 1), WorldUnlock 213 4 54, WorldUnlock 218 4 (- 1), WorldUnlock 220 4 (- 1),
   WorldUnlock 222 4 (- 1), WorldUnlock 223 4 (- 1), WorldUnlock 229 4 (- 1), WorldUnlock 258 4 (- 1),
   WorldUnlock 265 5 (- 1), WorldUnlock 266 5 (- 1), WorldUnlock 267 5 (- 1), WorldUnlock 280 5 (- 1),
   WorldUnlock 296 5 (- 1), WorldUnlock 300 5 (- 1), WorldUnlock 302 5 (- 1), WorldUnlock 304 6 (- 1),
   WorldUnlock 307 6 (- 1), WorldUnlock 312 6 (- 1), WorldUnlock 321 6 (- 1), WorldUnlock 324 6 (- 1),
   WorldUnlock 343 6 (- 1), WorldUnlock 344 6 (- 1), WorldUnlock 345 6 (- 1), WorldUnlock 346 6 (- 1),
   WorldUnlock 347 6 (- 1), WorldUnlock 348 6 (- 1), WorldUnlock 352 6 (- 1), WorldUnlock 385 255 (- 1),
   WorldUnlock 393 255 (- 1), WorldUnlock 397 255 (- 1), WorldUnlock 399 255 (- 1), WorldUnlock 400 255 (- 1),
   WorldUnlock 401 255 (- 1), WorldUnlock 405 255 (- 1), WorldUnlock 407 255 (- 1), WorldUnlock 408 255 (- 1),
   WorldUnlock 409 255 (- 1), WorldUnlock 417 255 (- 1), WorldUnlock 418 255 (- 1), WorldUnlock 426 7 (- 1),
   WorldUnlock 430 7 (- 1), WorldUnlock 770 8 (- 1), WorldUnlock 771 8 (- 1), WorldUnlock 772 8 (- 1),
   WorldUnlock 773 8 (- 1), WorldUnlock 774 8 (- 1)]"

definition coop_world_unlocks :: "CoopWorldUnlock list" where
  "coop_world_unlocks = coop_world_base @ coop_world_expansion"

definition coop_world_requirements :: "CoopWorldRequirement list" where
  "coop_world_requirements = [
   WorldRequirement 46 70 1 1, WorldRequirement 108 71 1 1, WorldRequirement 152 72 1 1,
   WorldRequirement 203 73 1 1, WorldRequirement 258 74 1 1, WorldRequirement 302 75 1 1,
   WorldRequirement 352 76 1 1, WorldRequirement 393 40 20 20, WorldRequirement 393 2198 1 1,
   WorldRequirement 771 78 2 2, WorldRequirement 772 60 10 4]"

section \<open>Collectibles\<close>

definition coop_golden_bananas_1 :: "CoopGoldenBanana list" where
  "coop_golden_bananas_1 = [
   GoldenBanana 1 65535 65535 32 7 0 2, GoldenBanana 2 65535 65535 31 7 0 3, GoldenBanana 3 1 116 255 37 0 0,
   GoldenBanana 4 105 116 255 7 0 0, GoldenBanana 5 72 116 255 7 0 0, GoldenBanana 8 104 116 255 7 0 3,
   GoldenBanana 9 63 116 255 12 0 3, GoldenBanana 10 4 116 255 13 0 2, GoldenBanana 11 65535 65535 34 7 0 2,
   GoldenBanana 12 3 116 255 33 0 4, GoldenBanana 18 77 116 255 7 0 1, GoldenBanana 19 79 116 255 7 0 2,
   GoldenBanana 20 68 116 255 7 0 0, GoldenBanana 21 76 116 255 7 0 3, GoldenBanana 22 80 116 255 7 0 4,
   GoldenBanana 23 82 116 255 7 0 1, GoldenBanana 24 65535 65535 255 6 0 1,
   GoldenBanana 25 65535 65535 255 7 0 4, GoldenBanana 28 65535 65535 33 7 0 4,
   GoldenBanana 31 30 116 255 7 0 1, GoldenBanana 49 35 116 255 38 1 4, GoldenBanana 51 38 116 255 38 1 0,
   GoldenBanana 52 65535 65535 35 38 1 4, GoldenBanana 54 163 116 255 38 1 1,
   GoldenBanana 56 6 116 255 21 1 1, GoldenBanana 57 6 116 255 19 1 0, GoldenBanana 58 6 116 255 22 1 3,
   GoldenBanana 59 65535 65535 0 24 1 4, GoldenBanana 60 65535 65535 0 23 1 2,
   GoldenBanana 62 65535 65535 33 38 1 0, GoldenBanana 63 235 116 255 38 1 1,
   GoldenBanana 64 9 116 255 16 1 4, GoldenBanana 65 126 116 255 16 1 3, GoldenBanana 67 91 116 255 16 1 1,
   GoldenBanana 68 65535 65535 255 38 1 2, GoldenBanana 71 170 116 255 20 1 3,
   GoldenBanana 72 43 116 255 20 1 2, GoldenBanana 73 65535 65535 2 20 1 2, GoldenBanana 75 72 116 255 14 1 3,
   GoldenBanana 77 108 116 255 20 1 0, GoldenBanana 112 2 116 255 29 2 0, GoldenBanana 113 44 116 255 26 2 1,
   GoldenBanana 114 41 116 255 26 2 4, GoldenBanana 115 42 116 255 26 2 2,
   GoldenBanana 116 65535 65535 16 26 2 3, GoldenBanana 118 120 116 255 26 2 2,
   GoldenBanana 121 99 116 255 26 2 4, GoldenBanana 122 126 116 255 26 2 0,
   GoldenBanana 123 35 116 255 26 2 3, GoldenBanana 124 130 116 255 26 2 3,
   GoldenBanana 125 62 116 255 26 2 2, GoldenBanana 126 96 116 255 26 2 1,
   GoldenBanana 127 124 116 255 26 2 4, GoldenBanana 128 7 116 255 36 2 0,
   GoldenBanana 130 264 116 255 26 2 0, GoldenBanana 134 65535 65535 13 26 2 1,
   GoldenBanana 135 65535 65535 0 26 2 1, GoldenBanana 136 65535 65535 14 26 2 4,
   GoldenBanana 137 65535 65535 15 26 2 2, GoldenBanana 139 98 116 255 27 2 3,
   GoldenBanana 154 50 116 255 30 3 4, GoldenBanana 157 47 116 255 49 3 0,
   GoldenBanana 163 65535 65535 6 30 3 1, GoldenBanana 164 65535 65535 7 30 3 2,
   GoldenBanana 165 65535 65535 255 39 3 0, GoldenBanana 166 6 116 255 31 3 4,
   GoldenBanana 167 15 116 255 51 3 1, GoldenBanana 182 14 116 255 30 3 4, GoldenBanana 183 0 116 255 47 3 2,
   GoldenBanana 184 65535 65535 0 47 3 3, GoldenBanana 191 14 116 255 45 3 3,
   GoldenBanana 192 107 116 255 30 3 2, GoldenBanana 193 46 116 255 30 3 0,
   GoldenBanana 197 65535 65535 1 43 3 4, GoldenBanana 198 65535 65535 0 43 3 1,
   GoldenBanana 199 14 116 255 43 3 2, GoldenBanana 200 65535 65535 0 46 3 0,
   GoldenBanana 201 33 116 255 46 3 3, GoldenBanana 202 65535 65535 3 179 3 3,
   GoldenBanana 204 45 116 255 30 3 1, GoldenBanana 205 0 116 255 52 4 3]"

definition coop_golden_bananas_2 :: "CoopGoldenBanana list" where
  "coop_golden_bananas_2 = [
   GoldenBanana 209 80 116 255 48 4 3, GoldenBanana 211 65535 65535 18 48 4 1,
   GoldenBanana 214 40 116 255 48 4 1, GoldenBanana 215 65535 65535 255 55 4 4,
   GoldenBanana 216 3 116 255 56 4 1, GoldenBanana 217 2 116 255 58 4 2, GoldenBanana 219 43 116 255 48 4 0,
   GoldenBanana 221 13 116 255 61 4 4, GoldenBanana 224 65535 65535 0 63 4 2,
   GoldenBanana 225 2 116 255 71 4 4, GoldenBanana 226 0 116 255 70 4 2,
   GoldenBanana 227 65535 65535 8 64 4 3, GoldenBanana 228 3 116 255 64 4 0,
   GoldenBanana 235 65535 65535 3 59 4 0, GoldenBanana 247 1 116 255 60 4 3,
   GoldenBanana 249 87 116 255 48 4 2, GoldenBanana 250 65535 65535 21 48 4 1,
   GoldenBanana 253 62 116 255 48 4 4, GoldenBanana 254 57 116 22 48 4 0, GoldenBanana 259 1 116 255 82 5 2,
   GoldenBanana 260 0 116 255 93 5 3, GoldenBanana 261 8 116 255 91 5 0, GoldenBanana 262 1 116 255 92 5 1,
   GoldenBanana 263 65535 65535 0 90 5 4, GoldenBanana 264 1 116 255 94 5 2,
   GoldenBanana 268 62 116 255 72 5 4, GoldenBanana 270 40 116 255 72 5 4, GoldenBanana 271 16 116 255 98 5 2,
   GoldenBanana 274 1 116 255 100 5 1, GoldenBanana 275 1 116 255 86 5 0, GoldenBanana 276 1 116 255 89 5 0,
   GoldenBanana 278 0 116 255 95 5 4, GoldenBanana 279 2 116 255 84 5 3, GoldenBanana 281 3 116 255 85 5 2,
   GoldenBanana 293 4 116 255 200 5 1, GoldenBanana 294 65535 65535 6 72 5 1,
   GoldenBanana 295 65535 65535 7 72 5 3, GoldenBanana 297 41 116 255 72 5 3,
   GoldenBanana 298 50 116 19 72 5 0, GoldenBanana 301 30 648 255 189 7 3,
   GoldenBanana 305 65535 65535 1 88 6 1, GoldenBanana 306 65535 65535 0 105 6 2,
   GoldenBanana 308 3 116 255 108 6 2, GoldenBanana 309 13 116 255 108 6 3,
   GoldenBanana 310 8 116 255 112 6 1, GoldenBanana 311 65535 65535 0 112 6 4,
   GoldenBanana 313 3 116 255 114 6 0, GoldenBanana 314 7 116 255 113 6 4,
   GoldenBanana 315 65535 65535 0 151 6 3, GoldenBanana 316 65535 65535 0 163 6 2,
   GoldenBanana 318 65535 65535 255 106 6 0, GoldenBanana 319 65535 65535 0 164 6 4,
   GoldenBanana 320 8 116 255 164 6 0, GoldenBanana 322 6 116 255 166 6 4, GoldenBanana 323 1 116 255 168 6 2,
   GoldenBanana 325 65535 65535 255 185 6 3, GoldenBanana 326 15 116 255 163 6 0,
   GoldenBanana 350 65535 65535 9 87 6 1, GoldenBanana 351 4 116 255 167 6 3,
   GoldenBanana 353 13 116 255 163 6 1, GoldenBanana 381 4 116 255 34 7 0,
   GoldenBanana 398 65535 65535 255 34 7 2, GoldenBanana 402 65535 65535 1 173 7 3,
   GoldenBanana 403 9 116 255 174 7 3, GoldenBanana 404 65535 65535 255 34 7 0,
   GoldenBanana 406 65535 65535 10 170 7 4, GoldenBanana 410 65535 65535 255 34 7 1,
   GoldenBanana 411 5 116 255 194 7 0, GoldenBanana 415 65535 65535 2 193 7 2,
   GoldenBanana 416 65535 65535 2 195 7 1, GoldenBanana 419 77 116 255 34 7 0,
   GoldenBanana 420 43 116 255 34 7 3, GoldenBanana 421 47 116 255 34 7 2, GoldenBanana 422 45 116 255 34 7 4,
   GoldenBanana 423 46 116 255 34 7 1, GoldenBanana 424 65535 65535 255 34 7 4,
   GoldenBanana 425 65535 65535 255 34 7 3, GoldenBanana 428 65535 65535 11 34 7 1,
   GoldenBanana 429 3 116 255 97 7 2, GoldenBanana 431 86 116 255 34 7 4]"

definition coop_golden_bananas :: "CoopGoldenBanana list" where
  "coop_golden_bananas = coop_golden_bananas_1 @ coop_golden_bananas_2"

lemmas coop_golden_bananas_parts = coop_golden_bananas_1_def coop_golden_bananas_2_def

definition coop_pickup_start :: "u16 list" where
  "coop_pickup_start = [0, 226, 489, 734, 979, 1250, 1444, 1697, 1700]"

definition coop_pickups_1 :: "CoopPickup list" where
  "coop_pickups_1 = [
   Pickup 12 36 4 1 0, Pickup 49 36 4 1 0, Pickup 14 36 4 1 0, Pickup 60 520 4 1 5, Pickup 41 36 4 1 0,
   Pickup 19 10 4 1 1, Pickup 20 10 4 1 1, Pickup 21 10 4 1 1, Pickup 35 10 4 1 1, Pickup 36 10 4 1 1,
   Pickup 16 520 4 1 5, Pickup 59 10 4 1 1, Pickup 37 520 4 1 5, Pickup 9 13 7 0 1, Pickup 11 13 7 0 1,
   Pickup 12 13 7 0 1, Pickup 15 13 7 0 1, Pickup 223 517 7 2 5, Pickup 24 43 7 0 5, Pickup 6 10 7 1 1,
   Pickup 8 13 7 0 1, Pickup 13 10 7 1 1, Pickup 365 518 7 4 5, Pickup 297 517 7 2 5, Pickup 19 39 7 4 0,
   Pickup 303 39 7 4 0, Pickup 23 22 7 3 1, Pickup 25 22 7 3 1, Pickup 91 22 7 3 1, Pickup 320 31 7 4 1,
   Pickup 106 22 7 3 1, Pickup 17 43 7 0 5, Pickup 167 29 7 0 0, Pickup 127 13 7 0 1, Pickup 128 13 7 0 1,
   Pickup 129 13 7 0 1, Pickup 10 29 7 0 0, Pickup 323 31 7 4 1, Pickup 148 13 7 0 1, Pickup 149 13 7 0 1,
   Pickup 150 13 7 0 1, Pickup 21 517 7 2 5, Pickup 4 10 7 1 1, Pickup 184 13 7 0 1, Pickup 185 13 7 0 1,
   Pickup 181 10 7 1 1, Pickup 191 13 7 0 1, Pickup 192 13 7 0 1, Pickup 107 36 7 1 0, Pickup 314 28 7 3 0,
   Pickup 176 29 7 0 0, Pickup 196 13 7 0 1, Pickup 197 13 7 0 1, Pickup 198 13 7 0 1, Pickup 60 517 7 2 5,
   Pickup 54 43 7 0 5, Pickup 302 39 7 4 0, Pickup 253 30 7 2 1, Pickup 305 39 7 4 0, Pickup 304 39 7 4 0,
   Pickup 85 520 7 1 5, Pickup 248 30 7 2 1, Pickup 207 13 7 0 1, Pickup 301 35 7 2 0, Pickup 300 35 7 2 0,
   Pickup 243 35 7 2 0, Pickup 348 36 7 1 0, Pickup 322 31 7 4 1, Pickup 371 10 7 1 1, Pickup 16 10 7 1 1,
   Pickup 255 28 7 3 0, Pickup 232 29 7 0 0, Pickup 66 519 7 3 5, Pickup 259 29 7 0 0, Pickup 170 29 7 0 0,
   Pickup 306 29 7 0 0, Pickup 126 28 7 3 0, Pickup 333 520 7 1 5, Pickup 125 520 7 1 5, Pickup 372 43 7 0 5,
   Pickup 335 518 7 4 5, Pickup 318 28 7 3 0, Pickup 173 36 7 1 0, Pickup 182 10 7 1 1, Pickup 180 10 7 1 1,
   Pickup 37 43 7 0 5, Pickup 138 29 7 0 0, Pickup 233 29 7 0 0, Pickup 319 31 7 4 1, Pickup 239 35 7 2 0,
   Pickup 308 36 7 1 0, Pickup 112 13 7 0 1, Pickup 92 43 7 0 5, Pickup 172 13 7 0 1, Pickup 117 43 7 0 5,
   Pickup 204 36 7 1 0, Pickup 110 22 7 3 1, Pickup 139 29 7 0 0, Pickup 241 39 7 4 0, Pickup 190 22 7 3 1,
   Pickup 189 22 7 3 1, Pickup 222 35 7 2 0, Pickup 221 35 7 2 0, Pickup 193 22 7 3 1, Pickup 144 520 7 1 5,
   Pickup 116 36 7 1 0, Pickup 199 520 7 1 5, Pickup 200 520 7 1 5, Pickup 351 36 7 1 0, Pickup 202 520 7 1 5,
   Pickup 367 10 7 1 1, Pickup 370 10 7 1 1, Pickup 368 10 7 1 1, Pickup 369 10 7 1 1, Pickup 362 10 7 1 1,
   Pickup 213 31 7 4 1, Pickup 214 31 7 4 1, Pickup 215 31 7 4 1, Pickup 216 31 7 4 1, Pickup 218 31 7 4 1,
   Pickup 219 519 7 3 5, Pickup 220 519 7 3 5, Pickup 227 519 7 3 5, Pickup 228 519 7 3 5,
   Pickup 229 519 7 3 5, Pickup 230 519 7 3 5, Pickup 194 43 7 0 5, Pickup 235 519 7 3 5,
   Pickup 236 519 7 3 5, Pickup 237 519 7 3 5, Pickup 165 36 7 1 0, Pickup 317 31 7 4 1, Pickup 164 36 7 1 0,
   Pickup 166 36 7 1 0, Pickup 257 39 7 4 0, Pickup 244 39 7 4 0, Pickup 311 28 7 3 0, Pickup 312 28 7 3 0,
   Pickup 250 30 7 2 1, Pickup 251 30 7 2 1, Pickup 254 30 7 2 1, Pickup 273 30 7 2 1, Pickup 252 30 7 2 1,
   Pickup 169 30 7 2 1, Pickup 171 30 7 2 1]"

definition coop_pickups_2 :: "CoopPickup list" where
  "coop_pickups_2 = [
   Pickup 260 30 7 2 1, Pickup 264 30 7 2 1, Pickup 265 30 7 2 1, Pickup 270 30 7 2 1, Pickup 271 30 7 2 1,
   Pickup 272 30 7 2 1, Pickup 274 30 7 2 1, Pickup 256 30 7 2 1, Pickup 276 30 7 2 1, Pickup 280 30 7 2 1,
   Pickup 275 30 7 2 1, Pickup 288 517 7 2 5, Pickup 364 518 7 4 5, Pickup 18 10 7 1 1, Pickup 174 35 7 2 0,
   Pickup 238 35 7 2 0, Pickup 334 518 7 4 5, Pickup 240 39 7 4 0, Pickup 350 36 7 1 0, Pickup 316 35 7 2 0,
   Pickup 315 35 7 2 0, Pickup 292 29 7 0 0, Pickup 307 28 7 3 0, Pickup 309 28 7 3 0, Pickup 310 28 7 3 0,
   Pickup 246 28 7 3 0, Pickup 247 28 7 3 0, Pickup 313 28 7 3 0, Pickup 336 518 7 4 5, Pickup 337 518 7 4 5,
   Pickup 187 22 7 3 1, Pickup 186 22 7 3 1, Pickup 183 22 7 3 1, Pickup 188 22 7 3 1, Pickup 361 10 7 1 1,
   Pickup 203 31 7 4 1, Pickup 329 31 7 4 1, Pickup 330 31 7 4 1, Pickup 331 31 7 4 1, Pickup 332 31 7 4 1,
   Pickup 201 518 7 4 5, Pickup 293 35 7 2 0, Pickup 175 517 7 2 5, Pickup 286 35 7 2 0, Pickup 321 35 7 2 0,
   Pickup 108 29 7 0 0, Pickup 195 28 7 3 0, Pickup 109 29 7 0 0, Pickup 29 28 12 3 0, Pickup 30 28 12 3 0,
   Pickup 14 22 12 3 1, Pickup 25 22 12 3 1, Pickup 16 22 12 3 1, Pickup 17 22 12 3 1, Pickup 18 22 12 3 1,
   Pickup 15 22 12 3 1, Pickup 26 22 12 3 1, Pickup 27 22 12 3 1, Pickup 6 517 13 2 5, Pickup 7 517 13 2 5,
   Pickup 9 35 13 2 0, Pickup 10 35 13 2 0, Pickup 1 517 13 2 5, Pickup 8 517 13 2 5, Pickup 25 28 33 3 0,
   Pickup 31 39 33 4 0, Pickup 16 31 33 4 1, Pickup 19 31 33 4 1, Pickup 20 31 33 4 1, Pickup 21 31 33 4 1,
   Pickup 22 31 33 4 1, Pickup 26 28 33 3 0, Pickup 2 518 33 4 5, Pickup 23 518 33 4 5, Pickup 24 28 33 3 0,
   Pickup 27 39 33 4 0, Pickup 30 39 33 4 0, Pickup 7 43 37 0 5, Pickup 2 29 37 0 0, Pickup 6 29 37 0 0,
   Pickup 3 43 37 0 5, Pickup 75 10 16 1 1, Pickup 76 10 16 1 1, Pickup 77 10 16 1 1, Pickup 47 10 16 1 1,
   Pickup 51 30 16 2 1, Pickup 52 30 16 2 1, Pickup 53 30 16 2 1, Pickup 54 30 16 2 1, Pickup 55 30 16 2 1,
   Pickup 56 30 16 2 1, Pickup 57 30 16 2 1, Pickup 58 30 16 2 1, Pickup 59 36 16 1 0, Pickup 507 28 16 3 0,
   Pickup 84 10 16 1 1, Pickup 505 28 16 3 0, Pickup 504 39 16 4 0, Pickup 116 517 16 2 5,
   Pickup 66 35 16 2 0, Pickup 501 35 16 2 0, Pickup 73 10 16 1 1, Pickup 71 10 16 1 1, Pickup 74 10 16 1 1,
   Pickup 35 520 16 1 5, Pickup 33 520 16 1 5, Pickup 34 520 16 1 5, Pickup 85 10 16 1 1, Pickup 83 10 16 1 1,
   Pickup 506 28 16 3 0, Pickup 82 22 16 3 1, Pickup 86 22 16 3 1, Pickup 87 22 16 3 1, Pickup 88 22 16 3 1,
   Pickup 89 22 16 3 1, Pickup 68 30 16 2 1, Pickup 69 31 16 4 1, Pickup 70 31 16 4 1, Pickup 115 31 16 4 1,
   Pickup 121 518 16 4 5, Pickup 118 518 16 4 5, Pickup 119 518 16 4 5, Pickup 120 518 16 4 5,
   Pickup 122 518 16 4 5, Pickup 123 31 16 4 1, Pickup 500 35 16 2 0, Pickup 502 39 16 4 0,
   Pickup 503 39 16 4 0, Pickup 508 28 16 3 0, Pickup 509 36 16 1 0, Pickup 510 36 16 1 0,
   Pickup 511 36 16 1 0, Pickup 512 36 16 1 0, Pickup 513 36 16 1 0, Pickup 29 29 19 0 0, Pickup 30 29 19 0 0,
   Pickup 46 13 20 0 1, Pickup 23 29 20 0 0, Pickup 50 13 20 0 1, Pickup 103 29 20 0 0, Pickup 54 13 20 0 1,
   Pickup 55 13 20 0 1, Pickup 56 13 20 0 1, Pickup 57 13 20 0 1]"

definition coop_pickups_3 :: "CoopPickup list" where
  "coop_pickups_3 = [
   Pickup 58 13 20 0 1, Pickup 59 13 20 0 1, Pickup 60 13 20 0 1, Pickup 61 13 20 0 1, Pickup 62 13 20 0 1,
   Pickup 63 13 20 0 1, Pickup 64 13 20 0 1, Pickup 65 13 20 0 1, Pickup 47 29 20 0 0, Pickup 44 29 20 0 0,
   Pickup 45 29 20 0 0, Pickup 49 13 20 0 1, Pickup 73 22 20 3 1, Pickup 74 22 20 3 1, Pickup 75 22 20 3 1,
   Pickup 76 22 20 3 1, Pickup 118 22 20 3 1, Pickup 120 519 20 3 5, Pickup 121 519 20 3 5,
   Pickup 124 517 20 2 5, Pickup 13 28 20 3 0, Pickup 131 28 20 3 0, Pickup 132 28 20 3 0,
   Pickup 134 30 20 2 1, Pickup 135 30 20 2 1, Pickup 136 30 20 2 1, Pickup 137 30 20 2 1,
   Pickup 138 30 20 2 1, Pickup 139 30 20 2 1, Pickup 141 35 20 2 0, Pickup 142 35 20 2 0,
   Pickup 130 517 20 2 5, Pickup 13 36 21 1 0, Pickup 14 36 21 1 0, Pickup 7 28 22 3 0, Pickup 8 28 22 3 0,
   Pickup 9 28 22 3 0, Pickup 26 39 24 4 0, Pickup 31 39 24 4 0, Pickup 33 39 24 4 0, Pickup 34 39 24 4 0,
   Pickup 392 35 38 2 0, Pickup 63 519 38 3 5, Pickup 435 35 38 2 0, Pickup 315 43 38 0 5,
   Pickup 81 36 38 1 0, Pickup 270 10 38 1 1, Pickup 256 22 38 3 1, Pickup 96 520 38 1 5,
   Pickup 253 10 38 1 1, Pickup 254 10 38 1 1, Pickup 255 10 38 1 1, Pickup 93 13 38 0 1, Pickup 94 13 38 0 1,
   Pickup 95 13 38 0 1, Pickup 271 10 38 1 1, Pickup 56 31 38 4 1, Pickup 269 10 38 1 1, Pickup 261 22 38 3 1,
   Pickup 259 22 38 3 1, Pickup 257 22 38 3 1, Pickup 337 31 38 4 1, Pickup 252 10 38 1 1,
   Pickup 49 31 38 4 1, Pickup 260 22 38 3 1, Pickup 339 10 38 1 1, Pickup 54 30 38 2 1, Pickup 53 30 38 2 1,
   Pickup 52 30 38 2 1, Pickup 51 30 38 2 1, Pickup 50 30 38 2 1, Pickup 318 43 38 0 5, Pickup 88 43 38 0 5,
   Pickup 89 43 38 0 5, Pickup 86 43 38 0 5, Pickup 178 36 38 1 0, Pickup 341 10 38 1 1, Pickup 340 10 38 1 1,
   Pickup 151 29 38 0 0, Pickup 338 31 38 4 1, Pickup 258 22 38 3 1, Pickup 148 29 38 0 0,
   Pickup 437 35 38 2 0, Pickup 433 35 38 2 0, Pickup 359 22 38 3 1, Pickup 129 29 38 0 0,
   Pickup 47 29 38 0 0, Pickup 55 29 38 0 0, Pickup 78 36 38 1 0, Pickup 79 36 38 1 0, Pickup 241 36 38 1 0,
   Pickup 284 13 38 0 1, Pickup 285 13 38 0 1, Pickup 286 13 38 0 1, Pickup 97 43 38 0 5,
   Pickup 117 39 38 4 0, Pickup 118 39 38 4 0, Pickup 136 39 38 4 0, Pickup 137 39 38 4 0,
   Pickup 139 13 38 0 1, Pickup 140 13 38 0 1, Pickup 276 13 38 0 1, Pickup 300 13 38 0 1,
   Pickup 309 43 38 0 5, Pickup 306 43 38 0 5, Pickup 314 43 38 0 5, Pickup 116 29 38 0 0,
   Pickup 155 29 38 0 0, Pickup 319 29 38 0 0, Pickup 48 31 38 4 1, Pickup 262 22 38 3 1,
   Pickup 263 22 38 3 1, Pickup 264 22 38 3 1, Pickup 265 10 38 1 1, Pickup 273 10 38 1 1,
   Pickup 274 10 38 1 1, Pickup 275 10 38 1 1, Pickup 342 10 38 1 1, Pickup 347 520 38 1 5,
   Pickup 343 520 38 1 5, Pickup 344 520 38 1 5, Pickup 345 520 38 1 5, Pickup 346 520 38 1 5,
   Pickup 356 36 38 1 0, Pickup 350 36 38 1 0, Pickup 355 36 38 1 0, Pickup 348 36 38 1 0,
   Pickup 121 22 38 3 1, Pickup 360 22 38 3 1, Pickup 361 22 38 3 1, Pickup 362 22 38 3 1,
   Pickup 363 22 38 3 1, Pickup 364 519 38 3 5, Pickup 365 519 38 3 5, Pickup 366 519 38 3 5,
   Pickup 367 519 38 3 5, Pickup 368 519 38 3 5, Pickup 369 519 38 3 5, Pickup 525 39 38 4 0,
   Pickup 307 30 38 2 1, Pickup 371 30 38 2 1, Pickup 372 30 38 2 1, Pickup 373 30 38 2 1,
   Pickup 374 30 38 2 1, Pickup 436 35 38 2 0]"

definition coop_pickups_4 :: "CoopPickup list" where
  "coop_pickups_4 = [
   Pickup 375 28 38 3 0, Pickup 376 28 38 3 0, Pickup 384 517 38 2 5, Pickup 385 517 38 2 5,
   Pickup 386 517 38 2 5, Pickup 387 517 38 2 5, Pickup 388 517 38 2 5, Pickup 389 517 38 2 5,
   Pickup 390 35 38 2 0, Pickup 391 35 38 2 0, Pickup 439 28 38 3 0, Pickup 393 31 38 4 1,
   Pickup 394 31 38 4 1, Pickup 395 31 38 4 1, Pickup 396 31 38 4 1, Pickup 397 31 38 4 1,
   Pickup 398 31 38 4 1, Pickup 399 31 38 4 1, Pickup 400 31 38 4 1, Pickup 401 31 38 4 1,
   Pickup 402 31 38 4 1, Pickup 403 518 38 4 5, Pickup 404 518 38 4 5, Pickup 405 518 38 4 5,
   Pickup 406 518 38 4 5, Pickup 407 39 38 4 0, Pickup 408 39 38 4 0, Pickup 409 31 38 4 1,
   Pickup 410 31 38 4 1, Pickup 411 31 38 4 1, Pickup 412 31 38 4 1, Pickup 413 31 38 4 1,
   Pickup 414 31 38 4 1, Pickup 524 39 38 4 0, Pickup 440 28 38 3 0, Pickup 370 28 38 3 0,
   Pickup 518 35 38 2 0, Pickup 434 35 38 2 0, Pickup 438 28 38 3 0, Pickup 238 35 38 2 0,
   Pickup 296 35 38 2 0, Pickup 326 35 38 2 0, Pickup 377 28 38 3 0, Pickup 441 28 38 3 0,
   Pickup 442 28 38 3 0, Pickup 443 28 38 3 0, Pickup 444 28 38 3 0, Pickup 445 28 38 3 0,
   Pickup 446 39 38 4 0, Pickup 447 39 38 4 0, Pickup 448 39 38 4 0, Pickup 449 39 38 4 0,
   Pickup 450 29 38 0 0, Pickup 451 29 38 0 0, Pickup 452 29 38 0 0, Pickup 150 13 26 0 1,
   Pickup 463 36 26 1 0, Pickup 433 39 26 4 0, Pickup 445 518 26 4 5, Pickup 199 29 26 0 0,
   Pickup 197 29 26 0 0, Pickup 201 29 26 0 0, Pickup 200 29 26 0 0, Pickup 202 29 26 0 0,
   Pickup 444 518 26 4 5, Pickup 432 518 26 4 5, Pickup 431 518 26 4 5, Pickup 180 13 26 0 1,
   Pickup 152 13 26 0 1, Pickup 149 13 26 0 1, Pickup 148 13 26 0 1, Pickup 151 13 26 0 1,
   Pickup 89 13 26 0 1, Pickup 183 13 26 0 1, Pickup 182 13 26 0 1, Pickup 167 13 26 0 1,
   Pickup 193 13 26 0 1, Pickup 194 13 26 0 1, Pickup 226 10 26 1 1, Pickup 232 10 26 1 1,
   Pickup 233 10 26 1 1, Pickup 234 10 26 1 1, Pickup 235 10 26 1 1, Pickup 229 10 26 1 1,
   Pickup 160 13 26 0 1, Pickup 153 13 26 0 1, Pickup 154 13 26 0 1, Pickup 228 10 26 1 1,
   Pickup 230 10 26 1 1, Pickup 231 10 26 1 1, Pickup 204 39 26 4 0, Pickup 203 39 26 4 0,
   Pickup 181 13 26 0 1, Pickup 198 29 26 0 0, Pickup 159 13 26 0 1, Pickup 161 13 26 0 1,
   Pickup 166 39 26 4 0, Pickup 186 13 26 0 1, Pickup 185 13 26 0 1, Pickup 195 39 26 4 0,
   Pickup 247 10 26 1 1, Pickup 207 29 26 0 0, Pickup 208 29 26 0 0, Pickup 220 29 26 0 0,
   Pickup 221 10 26 1 1, Pickup 222 10 26 1 1, Pickup 223 10 26 1 1, Pickup 224 10 26 1 1,
   Pickup 225 10 26 1 1, Pickup 227 10 26 1 1, Pickup 239 10 26 1 1, Pickup 243 10 26 1 1,
   Pickup 244 10 26 1 1, Pickup 246 10 26 1 1, Pickup 206 520 26 1 5, Pickup 248 520 26 1 5,
   Pickup 249 520 26 1 5, Pickup 250 520 26 1 5, Pickup 251 520 26 1 5, Pickup 252 520 26 1 5,
   Pickup 253 520 26 1 5, Pickup 255 520 26 1 5, Pickup 254 520 26 1 5, Pickup 256 520 26 1 5,
   Pickup 257 36 26 1 0, Pickup 258 36 26 1 0, Pickup 259 36 26 1 0, Pickup 468 39 26 4 0,
   Pickup 260 28 26 3 0, Pickup 266 28 26 3 0, Pickup 363 30 26 2 1, Pickup 272 28 26 3 0,
   Pickup 361 30 26 2 1, Pickup 271 28 26 3 0, Pickup 269 28 26 3 0, Pickup 274 28 26 3 0,
   Pickup 276 36 26 1 0, Pickup 277 36 26 1 0, Pickup 362 30 26 2 1, Pickup 289 22 26 3 1,
   Pickup 290 22 26 3 1, Pickup 291 22 26 3 1, Pickup 292 22 26 3 1, Pickup 293 22 26 3 1]"

definition coop_pickups_5 :: "CoopPickup list" where
  "coop_pickups_5 = [
   Pickup 294 22 26 3 1, Pickup 295 22 26 3 1, Pickup 296 22 26 3 1, Pickup 297 22 26 3 1,
   Pickup 298 22 26 3 1, Pickup 299 22 26 3 1, Pickup 300 22 26 3 1, Pickup 301 22 26 3 1,
   Pickup 302 22 26 3 1, Pickup 303 22 26 3 1, Pickup 304 22 26 3 1, Pickup 305 22 26 3 1,
   Pickup 306 22 26 3 1, Pickup 307 22 26 3 1, Pickup 327 22 26 3 1, Pickup 328 519 26 3 5,
   Pickup 334 519 26 3 5, Pickup 330 519 26 3 5, Pickup 331 519 26 3 5, Pickup 332 519 26 3 5,
   Pickup 333 519 26 3 5, Pickup 329 519 26 3 5, Pickup 335 519 26 3 5, Pickup 337 519 26 3 5,
   Pickup 338 519 26 3 5, Pickup 270 28 26 3 0, Pickup 288 28 26 3 0, Pickup 359 30 26 2 1,
   Pickup 360 30 26 2 1, Pickup 273 28 26 3 0, Pickup 341 36 26 1 0, Pickup 342 36 26 1 0,
   Pickup 340 36 26 1 0, Pickup 343 36 26 1 0, Pickup 339 36 26 1 0, Pickup 349 28 26 3 0,
   Pickup 350 28 26 3 0, Pickup 351 28 26 3 0, Pickup 352 28 26 3 0, Pickup 353 28 26 3 0,
   Pickup 354 30 26 2 1, Pickup 355 30 26 2 1, Pickup 356 30 26 2 1, Pickup 357 30 26 2 1,
   Pickup 358 30 26 2 1, Pickup 345 36 26 1 0, Pickup 275 28 26 3 0, Pickup 344 36 26 1 0,
   Pickup 346 36 26 1 0, Pickup 347 36 26 1 0, Pickup 364 35 26 2 0, Pickup 365 35 26 2 0,
   Pickup 366 35 26 2 0, Pickup 367 35 26 2 0, Pickup 368 35 26 2 0, Pickup 369 30 26 2 1,
   Pickup 370 30 26 2 1, Pickup 371 30 26 2 1, Pickup 372 30 26 2 1, Pickup 373 30 26 2 1,
   Pickup 374 30 26 2 1, Pickup 375 30 26 2 1, Pickup 376 30 26 2 1, Pickup 377 30 26 2 1,
   Pickup 378 30 26 2 1, Pickup 379 517 26 2 5, Pickup 380 517 26 2 5, Pickup 381 517 26 2 5,
   Pickup 382 517 26 2 5, Pickup 383 517 26 2 5, Pickup 384 517 26 2 5, Pickup 385 517 26 2 5,
   Pickup 386 517 26 2 5, Pickup 387 517 26 2 5, Pickup 388 517 26 2 5, Pickup 389 35 26 2 0,
   Pickup 390 35 26 2 0, Pickup 391 35 26 2 0, Pickup 392 35 26 2 0, Pickup 393 35 26 2 0,
   Pickup 394 35 26 2 0, Pickup 395 35 26 2 0, Pickup 407 31 26 4 1, Pickup 413 31 26 4 1,
   Pickup 411 31 26 4 1, Pickup 409 31 26 4 1, Pickup 408 31 26 4 1, Pickup 406 31 26 4 1,
   Pickup 410 31 26 4 1, Pickup 412 31 26 4 1, Pickup 414 31 26 4 1, Pickup 415 31 26 4 1,
   Pickup 396 31 26 4 1, Pickup 398 31 26 4 1, Pickup 397 31 26 4 1, Pickup 399 31 26 4 1,
   Pickup 400 31 26 4 1, Pickup 401 31 26 4 1, Pickup 402 31 26 4 1, Pickup 403 31 26 4 1,
   Pickup 404 31 26 4 1, Pickup 405 31 26 4 1, Pickup 424 39 26 4 0, Pickup 425 39 26 4 0,
   Pickup 426 39 26 4 0, Pickup 427 39 26 4 0, Pickup 428 518 26 4 5, Pickup 429 518 26 4 5,
   Pickup 430 518 26 4 5, Pickup 448 39 26 4 0, Pickup 447 39 26 4 0, Pickup 446 518 26 4 5,
   Pickup 434 39 26 4 0, Pickup 435 39 26 4 0, Pickup 436 39 26 4 0, Pickup 437 39 26 4 0,
   Pickup 438 39 26 4 0, Pickup 439 39 26 4 0, Pickup 440 39 26 4 0, Pickup 441 39 26 4 0,
   Pickup 442 518 26 4 5, Pickup 443 518 26 4 5, Pickup 196 39 26 4 0, Pickup 210 29 26 0 0,
   Pickup 211 29 26 0 0, Pickup 451 29 26 0 0, Pickup 452 39 26 4 0, Pickup 453 39 26 4 0,
   Pickup 454 39 26 4 0, Pickup 455 35 26 2 0, Pickup 456 35 26 2 0, Pickup 457 35 26 2 0,
   Pickup 458 28 26 3 0, Pickup 459 28 26 3 0, Pickup 460 28 26 3 0, Pickup 461 36 26 1 0,
   Pickup 462 36 26 1 0, Pickup 464 39 26 4 0, Pickup 465 39 26 4 0, Pickup 466 39 26 4 0,
   Pickup 467 39 26 4 0, Pickup 348 36 26 1 0, Pickup 3 43 29 0 5, Pickup 4 43 29 0 5, Pickup 5 43 29 0 5]"

definition coop_pickups_6 :: "CoopPickup list" where
  "coop_pickups_6 = [
   Pickup 6 29 29 0 0, Pickup 9 43 36 0 5, Pickup 10 43 36 0 5, Pickup 11 43 36 0 5, Pickup 12 35 36 2 0,
   Pickup 13 35 36 2 0, Pickup 15 35 36 2 0, Pickup 7 43 110 0 5, Pickup 5 43 110 0 5, Pickup 4 43 110 0 5,
   Pickup 2 43 110 0 5, Pickup 429 39 30 4 0, Pickup 434 36 30 1 0, Pickup 210 28 30 3 0,
   Pickup 213 28 30 3 0, Pickup 317 35 30 2 0, Pickup 208 28 30 3 0, Pickup 431 39 30 4 0,
   Pickup 430 39 30 4 0, Pickup 142 29 30 0 0, Pickup 112 13 30 0 1, Pickup 113 13 30 0 1,
   Pickup 114 13 30 0 1, Pickup 115 13 30 0 1, Pickup 116 13 30 0 1, Pickup 445 13 30 0 1,
   Pickup 444 13 30 0 1, Pickup 446 13 30 0 1, Pickup 211 28 30 3 0, Pickup 123 36 30 1 0,
   Pickup 126 36 30 1 0, Pickup 127 36 30 1 0, Pickup 124 36 30 1 0, Pickup 433 36 30 1 0,
   Pickup 133 43 30 0 5, Pickup 134 43 30 0 5, Pickup 135 43 30 0 5, Pickup 138 39 30 4 0,
   Pickup 136 39 30 4 0, Pickup 125 36 30 1 0, Pickup 139 29 30 0 0, Pickup 140 29 30 0 0,
   Pickup 141 29 30 0 0, Pickup 164 10 30 1 1, Pickup 165 10 30 1 1, Pickup 101 520 30 1 5,
   Pickup 144 520 30 1 5, Pickup 150 10 30 1 1, Pickup 151 10 30 1 1, Pickup 152 10 30 1 1,
   Pickup 153 10 30 1 1, Pickup 154 10 30 1 1, Pickup 155 10 30 1 1, Pickup 156 10 30 1 1,
   Pickup 157 10 30 1 1, Pickup 158 10 30 1 1, Pickup 159 10 30 1 1, Pickup 160 10 30 1 1,
   Pickup 161 10 30 1 1, Pickup 162 10 30 1 1, Pickup 163 10 30 1 1, Pickup 166 520 30 1 5,
   Pickup 167 520 30 1 5, Pickup 168 520 30 1 5, Pickup 169 520 30 1 5, Pickup 170 520 30 1 5,
   Pickup 171 520 30 1 5, Pickup 176 36 30 1 0, Pickup 177 36 30 1 0, Pickup 178 36 30 1 0,
   Pickup 179 36 30 1 0, Pickup 193 36 30 1 0, Pickup 191 36 30 1 0, Pickup 192 36 30 1 0,
   Pickup 209 28 30 3 0, Pickup 316 35 30 2 0, Pickup 219 31 30 4 1, Pickup 253 31 30 4 1,
   Pickup 254 31 30 4 1, Pickup 255 31 30 4 1, Pickup 256 31 30 4 1, Pickup 257 31 30 4 1,
   Pickup 258 31 30 4 1, Pickup 259 31 30 4 1, Pickup 260 31 30 4 1, Pickup 261 31 30 4 1,
   Pickup 262 31 30 4 1, Pickup 263 31 30 4 1, Pickup 264 31 30 4 1, Pickup 265 31 30 4 1,
   Pickup 266 31 30 4 1, Pickup 267 31 30 4 1, Pickup 268 31 30 4 1, Pickup 269 31 30 4 1,
   Pickup 270 31 30 4 1, Pickup 271 31 30 4 1, Pickup 275 518 30 4 5, Pickup 276 518 30 4 5,
   Pickup 277 518 30 4 5, Pickup 278 518 30 4 5, Pickup 279 518 30 4 5, Pickup 280 39 30 4 0,
   Pickup 281 39 30 4 0, Pickup 282 39 30 4 0, Pickup 283 39 30 4 0, Pickup 284 39 30 4 0,
   Pickup 285 39 30 4 0, Pickup 295 30 30 2 1, Pickup 296 30 30 2 1, Pickup 297 30 30 2 1,
   Pickup 298 30 30 2 1, Pickup 299 30 30 2 1, Pickup 300 30 30 2 1, Pickup 301 30 30 2 1,
   Pickup 302 30 30 2 1, Pickup 308 30 30 2 1, Pickup 309 30 30 2 1, Pickup 303 30 30 2 1,
   Pickup 304 30 30 2 1, Pickup 305 30 30 2 1, Pickup 306 30 30 2 1, Pickup 307 30 30 2 1,
   Pickup 312 517 30 2 5, Pickup 313 517 30 2 5, Pickup 314 35 30 2 0, Pickup 315 35 30 2 0,
   Pickup 320 22 30 3 1, Pickup 321 22 30 3 1, Pickup 322 22 30 3 1, Pickup 323 22 30 3 1,
   Pickup 324 22 30 3 1, Pickup 325 22 30 3 1, Pickup 326 22 30 3 1, Pickup 327 22 30 3 1,
   Pickup 328 22 30 3 1, Pickup 329 22 30 3 1, Pickup 330 22 30 3 1, Pickup 331 22 30 3 1,
   Pickup 332 519 30 3 5, Pickup 333 519 30 3 5, Pickup 342 519 30 3 5, Pickup 343 519 30 3 5,
   Pickup 344 519 30 3 5, Pickup 345 519 30 3 5]"

definition coop_pickups_7 :: "CoopPickup list" where
  "coop_pickups_7 = [
   Pickup 346 28 30 3 0, Pickup 347 28 30 3 0, Pickup 348 28 30 3 0, Pickup 416 517 30 2 5,
   Pickup 417 517 30 2 5, Pickup 418 517 30 2 5, Pickup 419 517 30 2 5, Pickup 420 28 30 3 0,
   Pickup 421 28 30 3 0, Pickup 422 28 30 3 0, Pickup 423 29 30 0 0, Pickup 424 29 30 0 0,
   Pickup 425 29 30 0 0, Pickup 426 35 30 2 0, Pickup 427 35 30 2 0, Pickup 428 35 30 2 0,
   Pickup 432 36 30 1 0, Pickup 103 39 30 4 0, Pickup 129 39 30 4 0, Pickup 414 39 30 4 0,
   Pickup 415 39 30 4 0, Pickup 435 39 30 4 0, Pickup 436 39 30 4 0, Pickup 437 39 30 4 0,
   Pickup 438 39 30 4 0, Pickup 439 39 30 4 0, Pickup 440 39 30 4 0, Pickup 137 39 30 4 0,
   Pickup 442 13 30 0 1, Pickup 443 13 30 0 1, Pickup 120 35 30 2 0, Pickup 121 35 30 2 0,
   Pickup 122 39 30 4 0, Pickup 447 39 30 4 0, Pickup 448 39 30 4 0, Pickup 7 518 31 4 5, Pickup 8 518 31 4 5,
   Pickup 9 518 31 4 5, Pickup 10 518 31 4 5, Pickup 11 518 31 4 5, Pickup 12 39 31 4 0, Pickup 14 39 31 4 0,
   Pickup 13 39 31 4 0, Pickup 35 35 43 2 0, Pickup 15 10 43 1 1, Pickup 16 10 43 1 1, Pickup 17 10 43 1 1,
   Pickup 18 10 43 1 1, Pickup 19 520 43 1 5, Pickup 20 520 43 1 5, Pickup 24 39 43 4 0, Pickup 25 39 43 4 0,
   Pickup 26 39 43 4 0, Pickup 27 517 43 2 5, Pickup 28 517 43 2 5, Pickup 29 517 43 2 5, Pickup 33 35 43 2 0,
   Pickup 34 35 43 2 0, Pickup 5 28 44 3 0, Pickup 6 28 44 3 0, Pickup 7 28 44 3 0, Pickup 8 28 44 3 0,
   Pickup 0 28 45 3 0, Pickup 1 28 45 3 0, Pickup 2 28 45 3 0, Pickup 75 519 46 3 5, Pickup 73 28 46 3 0,
   Pickup 72 28 46 3 0, Pickup 5 22 46 3 1, Pickup 71 22 46 3 1, Pickup 70 22 46 3 1, Pickup 69 22 46 3 1,
   Pickup 66 29 46 0 0, Pickup 67 29 46 0 0, Pickup 68 29 46 0 0, Pickup 64 13 46 0 1, Pickup 65 13 46 0 1,
   Pickup 74 519 46 3 5, Pickup 21 13 46 0 1, Pickup 25 13 46 0 1, Pickup 26 13 46 0 1, Pickup 27 13 46 0 1,
   Pickup 28 13 46 0 1, Pickup 29 13 46 0 1, Pickup 62 13 46 0 1, Pickup 63 13 46 0 1, Pickup 38 22 46 3 1,
   Pickup 39 22 46 3 1, Pickup 40 22 46 3 1, Pickup 41 22 46 3 1, Pickup 42 22 46 3 1, Pickup 30 519 47 3 5,
   Pickup 7 30 47 2 1, Pickup 8 30 47 2 1, Pickup 9 30 47 2 1, Pickup 10 30 47 2 1, Pickup 11 30 47 2 1,
   Pickup 31 519 47 3 5, Pickup 17 517 47 2 5, Pickup 18 35 47 2 0, Pickup 16 35 47 2 0, Pickup 6 35 47 2 0,
   Pickup 19 35 47 2 0, Pickup 21 43 49 0 5, Pickup 22 43 49 0 5, Pickup 20 43 49 0 5, Pickup 23 43 49 0 5,
   Pickup 1 43 54 0 5, Pickup 2 43 54 0 5, Pickup 5 43 54 0 5, Pickup 4 29 54 0 0, Pickup 3 29 54 0 0,
   Pickup 115 13 48 0 1, Pickup 131 13 48 0 1, Pickup 132 13 48 0 1, Pickup 136 13 48 0 1,
   Pickup 140 13 48 0 1, Pickup 141 13 48 0 1, Pickup 142 13 48 0 1, Pickup 143 13 48 0 1,
   Pickup 144 13 48 0 1, Pickup 145 13 48 0 1, Pickup 146 13 48 0 1, Pickup 147 13 48 0 1,
   Pickup 148 13 48 0 1, Pickup 149 13 48 0 1, Pickup 150 13 48 0 1, Pickup 151 13 48 0 1,
   Pickup 152 13 48 0 1, Pickup 153 13 48 0 1, Pickup 154 13 48 0 1, Pickup 155 13 48 0 1,
   Pickup 156 13 48 0 1, Pickup 157 13 48 0 1, Pickup 158 13 48 0 1, Pickup 159 13 48 0 1,
   Pickup 160 13 48 0 1, Pickup 161 13 48 0 1, Pickup 162 13 48 0 1, Pickup 163 13 48 0 1,
   Pickup 164 13 48 0 1, Pickup 165 13 48 0 1, Pickup 166 43 48 0 5, Pickup 167 43 48 0 5]"

definition coop_pickups_8 :: "CoopPickup list" where
  "coop_pickups_8 = [
   Pickup 168 43 48 0 5, Pickup 169 29 48 0 0, Pickup 170 29 48 0 0, Pickup 171 29 48 0 0,
   Pickup 178 29 48 0 0, Pickup 179 29 48 0 0, Pickup 180 29 48 0 0, Pickup 181 29 48 0 0,
   Pickup 182 29 48 0 0, Pickup 183 29 48 0 0, Pickup 184 10 48 1 1, Pickup 185 10 48 1 1,
   Pickup 186 10 48 1 1, Pickup 187 10 48 1 1, Pickup 188 10 48 1 1, Pickup 189 10 48 1 1,
   Pickup 190 10 48 1 1, Pickup 191 10 48 1 1, Pickup 192 10 48 1 1, Pickup 193 10 48 1 1,
   Pickup 194 10 48 1 1, Pickup 195 10 48 1 1, Pickup 196 10 48 1 1, Pickup 197 10 48 1 1,
   Pickup 198 10 48 1 1, Pickup 199 10 48 1 1, Pickup 200 10 48 1 1, Pickup 201 10 48 1 1,
   Pickup 202 10 48 1 1, Pickup 203 10 48 1 1, Pickup 263 30 48 2 1, Pickup 204 30 48 2 1,
   Pickup 205 30 48 2 1, Pickup 207 520 48 1 5, Pickup 208 520 48 1 5, Pickup 209 520 48 1 5,
   Pickup 210 520 48 1 5, Pickup 211 520 48 1 5, Pickup 212 520 48 1 5, Pickup 213 520 48 1 5,
   Pickup 214 520 48 1 5, Pickup 215 36 48 1 0, Pickup 216 36 48 1 0, Pickup 217 36 48 1 0,
   Pickup 218 36 48 1 0, Pickup 219 36 48 1 0, Pickup 220 36 48 1 0, Pickup 326 28 48 3 0,
   Pickup 330 28 48 3 0, Pickup 496 28 48 3 0, Pickup 495 28 48 3 0, Pickup 237 30 48 2 1,
   Pickup 238 30 48 2 1, Pickup 239 30 48 2 1, Pickup 240 30 48 2 1, Pickup 241 30 48 2 1,
   Pickup 242 30 48 2 1, Pickup 243 30 48 2 1, Pickup 244 30 48 2 1, Pickup 245 30 48 2 1,
   Pickup 246 30 48 2 1, Pickup 247 30 48 2 1, Pickup 248 30 48 2 1, Pickup 249 30 48 2 1,
   Pickup 250 30 48 2 1, Pickup 251 30 48 2 1, Pickup 252 30 48 2 1, Pickup 253 30 48 2 1,
   Pickup 254 30 48 2 1, Pickup 255 30 48 2 1, Pickup 256 30 48 2 1, Pickup 257 30 48 2 1,
   Pickup 258 30 48 2 1, Pickup 259 30 48 2 1, Pickup 260 30 48 2 1, Pickup 261 30 48 2 1,
   Pickup 262 30 48 2 1, Pickup 206 30 48 2 1, Pickup 264 10 48 1 1, Pickup 265 10 48 1 1,
   Pickup 266 10 48 1 1, Pickup 267 517 48 2 5, Pickup 268 517 48 2 5, Pickup 269 517 48 2 5,
   Pickup 270 517 48 2 5, Pickup 271 517 48 2 5, Pickup 272 35 48 2 0, Pickup 273 35 48 2 0,
   Pickup 274 35 48 2 0, Pickup 275 35 48 2 0, Pickup 276 35 48 2 0, Pickup 277 35 48 2 0,
   Pickup 278 35 48 2 0, Pickup 279 35 48 2 0, Pickup 280 35 48 2 0, Pickup 281 35 48 2 0,
   Pickup 282 35 48 2 0, Pickup 283 35 48 2 0, Pickup 284 22 48 3 1, Pickup 285 22 48 3 1,
   Pickup 286 22 48 3 1, Pickup 287 22 48 3 1, Pickup 288 22 48 3 1, Pickup 289 22 48 3 1,
   Pickup 290 22 48 3 1, Pickup 291 22 48 3 1, Pickup 292 22 48 3 1, Pickup 293 22 48 3 1,
   Pickup 294 22 48 3 1, Pickup 295 22 48 3 1, Pickup 296 22 48 3 1, Pickup 297 22 48 3 1,
   Pickup 298 22 48 3 1, Pickup 299 22 48 3 1, Pickup 300 22 48 3 1, Pickup 301 22 48 3 1,
   Pickup 302 22 48 3 1, Pickup 303 22 48 3 1, Pickup 304 22 48 3 1, Pickup 305 22 48 3 1,
   Pickup 306 22 48 3 1, Pickup 307 22 48 3 1, Pickup 308 22 48 3 1, Pickup 309 22 48 3 1,
   Pickup 310 22 48 3 1, Pickup 311 22 48 3 1, Pickup 312 22 48 3 1, Pickup 313 22 48 3 1,
   Pickup 327 519 48 3 5, Pickup 315 519 48 3 5, Pickup 316 519 48 3 5, Pickup 320 519 48 3 5,
   Pickup 321 519 48 3 5, Pickup 322 28 48 3 0, Pickup 323 28 48 3 0, Pickup 324 28 48 3 0,
   Pickup 233 36 48 1 0, Pickup 232 36 48 1 0, Pickup 331 28 48 3 0, Pickup 332 28 48 3 0,
   Pickup 333 28 48 3 0, Pickup 334 31 48 4 1, Pickup 335 31 48 4 1, Pickup 336 31 48 4 1,
   Pickup 337 31 48 4 1]"

definition coop_pickups_9 :: "CoopPickup list" where
  "coop_pickups_9 = [
   Pickup 338 31 48 4 1, Pickup 339 31 48 4 1, Pickup 340 31 48 4 1, Pickup 314 517 48 2 5,
   Pickup 342 31 48 4 1, Pickup 343 31 48 4 1, Pickup 344 518 48 4 5, Pickup 345 518 48 4 5,
   Pickup 346 518 48 4 5, Pickup 348 39 48 4 0, Pickup 349 39 48 4 0, Pickup 350 39 48 4 0,
   Pickup 352 39 48 4 0, Pickup 353 39 48 4 0, Pickup 354 39 48 4 0, Pickup 355 39 48 4 0,
   Pickup 356 39 48 4 0, Pickup 357 39 48 4 0, Pickup 358 39 48 4 0, Pickup 359 39 48 4 0,
   Pickup 360 39 48 4 0, Pickup 234 36 48 1 0, Pickup 325 28 48 3 0, Pickup 231 36 48 1 0,
   Pickup 2 520 56 1 5, Pickup 4 520 56 1 5, Pickup 4 36 57 1 0, Pickup 5 36 57 1 0, Pickup 8 36 58 1 0,
   Pickup 7 36 58 1 0, Pickup 6 36 58 1 0, Pickup 3 517 58 2 5, Pickup 3 43 59 0 5, Pickup 4 29 59 0 0,
   Pickup 5 29 59 0 0, Pickup 6 29 59 0 0, Pickup 6 519 60 3 5, Pickup 15 43 61 0 5, Pickup 16 35 61 2 0,
   Pickup 17 35 61 2 0, Pickup 18 35 61 2 0, Pickup 22 28 61 3 0, Pickup 23 28 61 3 0, Pickup 24 28 61 3 0,
   Pickup 5 519 62 3 5, Pickup 6 519 62 3 5, Pickup 7 519 62 3 5, Pickup 8 518 62 4 5, Pickup 9 39 62 4 0,
   Pickup 10 39 62 4 0, Pickup 11 39 62 4 0, Pickup 7 517 63 2 5, Pickup 2 43 64 0 5, Pickup 30 43 64 0 5,
   Pickup 31 43 64 0 5, Pickup 32 10 64 1 1, Pickup 33 10 64 1 1, Pickup 34 10 64 1 1, Pickup 35 10 64 1 1,
   Pickup 36 10 64 1 1, Pickup 37 10 64 1 1, Pickup 38 10 64 1 1, Pickup 39 519 64 3 5, Pickup 40 31 64 4 1,
   Pickup 41 31 64 4 1, Pickup 42 31 64 4 1, Pickup 43 31 64 4 1, Pickup 44 31 64 4 1, Pickup 45 31 64 4 1,
   Pickup 46 31 64 4 1, Pickup 47 31 64 4 1, Pickup 48 31 64 4 1, Pickup 49 31 64 4 1, Pickup 50 31 64 4 1,
   Pickup 51 31 64 4 1, Pickup 52 31 64 4 1, Pickup 53 31 64 4 1, Pickup 54 31 64 4 1, Pickup 55 31 64 4 1,
   Pickup 56 31 64 4 1, Pickup 57 31 64 4 1, Pickup 58 31 64 4 1, Pickup 59 31 64 4 1, Pickup 60 31 64 4 1,
   Pickup 61 518 64 4 5, Pickup 65 518 64 4 5, Pickup 63 518 64 4 5, Pickup 62 518 64 4 5,
   Pickup 64 518 64 4 5, Pickup 6 517 70 2 5, Pickup 1 517 70 2 5, Pickup 3 518 71 4 5, Pickup 1 43 188 0 5,
   Pickup 0 43 188 0 5, Pickup 108 520 72 1 5, Pickup 348 39 72 4 0, Pickup 109 520 72 1 5,
   Pickup 145 518 72 4 5, Pickup 146 518 72 4 5, Pickup 144 31 72 4 1, Pickup 66 13 72 0 1,
   Pickup 67 13 72 0 1, Pickup 68 13 72 0 1, Pickup 69 13 72 0 1, Pickup 70 13 72 0 1, Pickup 71 13 72 0 1,
   Pickup 72 13 72 0 1, Pickup 73 13 72 0 1, Pickup 74 13 72 0 1, Pickup 75 13 72 0 1, Pickup 76 43 72 0 5,
   Pickup 77 43 72 0 5, Pickup 78 43 72 0 5, Pickup 79 29 72 0 0, Pickup 80 29 72 0 0, Pickup 81 29 72 0 0,
   Pickup 91 29 72 0 0, Pickup 90 29 72 0 0, Pickup 89 29 72 0 0, Pickup 182 520 72 1 5,
   Pickup 178 517 72 2 5, Pickup 180 517 72 2 5, Pickup 179 517 72 2 5, Pickup 203 28 72 3 0,
   Pickup 88 30 72 2 1, Pickup 97 30 72 2 1, Pickup 101 30 72 2 1, Pickup 99 30 72 2 1, Pickup 102 10 72 1 1,
   Pickup 103 10 72 1 1, Pickup 104 10 72 1 1, Pickup 105 10 72 1 1, Pickup 206 28 72 3 0,
   Pickup 111 520 72 1 5, Pickup 112 520 72 1 5, Pickup 113 520 72 1 5, Pickup 114 520 72 1 5,
   Pickup 154 39 72 4 0, Pickup 155 39 72 4 0, Pickup 156 39 72 4 0, Pickup 118 36 72 1 0,
   Pickup 119 36 72 1 0, Pickup 120 36 72 1 0, Pickup 121 36 72 1 0]"

definition coop_pickups_10 :: "CoopPickup list" where
  "coop_pickups_10 = [
   Pickup 98 30 72 2 1, Pickup 160 10 72 1 1, Pickup 125 31 72 4 1, Pickup 126 31 72 4 1,
   Pickup 127 31 72 4 1, Pickup 141 31 72 4 1, Pickup 140 31 72 4 1, Pickup 139 31 72 4 1,
   Pickup 131 31 72 4 1, Pickup 132 31 72 4 1, Pickup 133 31 72 4 1, Pickup 134 31 72 4 1,
   Pickup 135 31 72 4 1, Pickup 136 31 72 4 1, Pickup 137 31 72 4 1, Pickup 138 31 72 4 1,
   Pickup 128 31 72 4 1, Pickup 129 31 72 4 1, Pickup 130 31 72 4 1, Pickup 142 31 72 4 1,
   Pickup 143 31 72 4 1, Pickup 63 13 72 0 1, Pickup 64 13 72 0 1, Pickup 65 13 72 0 1, Pickup 147 518 72 4 5,
   Pickup 148 518 72 4 5, Pickup 149 518 72 4 5, Pickup 208 519 72 3 5, Pickup 151 39 72 4 0,
   Pickup 152 39 72 4 0, Pickup 153 39 72 4 0, Pickup 115 39 72 4 0, Pickup 116 39 72 4 0,
   Pickup 117 39 72 4 0, Pickup 157 39 72 4 0, Pickup 158 39 72 4 0, Pickup 159 39 72 4 0,
   Pickup 161 10 72 1 1, Pickup 162 10 72 1 1, Pickup 164 10 72 1 1, Pickup 100 10 72 1 1,
   Pickup 163 10 72 1 1, Pickup 174 30 72 2 1, Pickup 166 30 72 2 1, Pickup 167 30 72 2 1,
   Pickup 168 30 72 2 1, Pickup 169 30 72 2 1, Pickup 170 30 72 2 1, Pickup 171 30 72 2 1,
   Pickup 172 30 72 2 1, Pickup 173 30 72 2 1, Pickup 165 30 72 2 1, Pickup 176 517 72 2 5,
   Pickup 177 517 72 2 5, Pickup 92 517 72 2 5, Pickup 93 517 72 2 5, Pickup 94 517 72 2 5,
   Pickup 95 517 72 2 5, Pickup 183 35 72 2 0, Pickup 184 35 72 2 0, Pickup 185 35 72 2 0,
   Pickup 186 35 72 2 0, Pickup 187 35 72 2 0, Pickup 188 35 72 2 0, Pickup 189 35 72 2 0,
   Pickup 190 35 72 2 0, Pickup 191 35 72 2 0, Pickup 192 22 72 3 1, Pickup 196 22 72 3 1,
   Pickup 194 22 72 3 1, Pickup 195 22 72 3 1, Pickup 193 22 72 3 1, Pickup 201 22 72 3 1,
   Pickup 198 22 72 3 1, Pickup 200 22 72 3 1, Pickup 197 22 72 3 1, Pickup 199 22 72 3 1,
   Pickup 205 519 72 3 5, Pickup 212 39 72 4 0, Pickup 207 519 72 3 5, Pickup 150 518 72 4 5,
   Pickup 213 39 72 4 0, Pickup 85 39 72 4 0, Pickup 211 39 72 4 0, Pickup 204 28 72 3 0,
   Pickup 214 28 72 3 0, Pickup 215 28 72 3 0, Pickup 216 28 72 3 0, Pickup 217 28 72 3 0,
   Pickup 218 28 72 3 0, Pickup 219 28 72 3 0, Pickup 220 28 72 3 0, Pickup 221 28 72 3 0,
   Pickup 122 519 72 3 5, Pickup 123 519 72 3 5, Pickup 124 519 72 3 5, Pickup 202 519 72 3 5,
   Pickup 3 519 84 3 5, Pickup 4 30 85 2 1, Pickup 5 30 85 2 1, Pickup 6 30 85 2 1, Pickup 7 30 85 2 1,
   Pickup 8 30 85 2 1, Pickup 2 13 86 0 1, Pickup 3 13 86 0 1, Pickup 4 13 86 0 1, Pickup 5 13 86 0 1,
   Pickup 6 13 86 0 1, Pickup 7 13 86 0 1, Pickup 8 13 86 0 1, Pickup 9 43 86 0 5, Pickup 2 43 89 0 5,
   Pickup 8 518 90 4 5, Pickup 9 518 90 4 5, Pickup 10 518 90 4 5, Pickup 11 518 90 4 5, Pickup 9 43 91 0 5,
   Pickup 16 29 91 0 0, Pickup 11 29 91 0 0, Pickup 2 10 92 1 1, Pickup 3 10 92 1 1, Pickup 4 10 92 1 1,
   Pickup 5 10 92 1 1, Pickup 6 10 92 1 1, Pickup 7 520 92 1 5, Pickup 8 36 92 1 0, Pickup 9 36 92 1 0,
   Pickup 10 36 92 1 0, Pickup 11 36 92 1 0, Pickup 3 519 93 3 5, Pickup 1 519 93 3 5, Pickup 0 517 94 2 5,
   Pickup 17 35 98 2 0, Pickup 18 35 98 2 0, Pickup 2 43 186 0 5, Pickup 3 29 186 0 0, Pickup 4 43 186 0 5,
   Pickup 5 29 186 0 0, Pickup 6 43 186 0 5, Pickup 7 29 186 0 0, Pickup 1 43 186 0 5, Pickup 0 520 200 1 5,
   Pickup 1 520 200 1 5, Pickup 2 520 200 1 5]"

definition coop_pickups_11 :: "CoopPickup list" where
  "coop_pickups_11 = [
   Pickup 46 13 87 0 1, Pickup 52 13 87 0 1, Pickup 53 13 87 0 1, Pickup 54 13 87 0 1, Pickup 55 13 87 0 1,
   Pickup 72 13 87 0 1, Pickup 73 13 87 0 1, Pickup 74 13 87 0 1, Pickup 75 13 87 0 1, Pickup 76 13 87 0 1,
   Pickup 77 13 87 0 1, Pickup 97 13 87 0 1, Pickup 79 13 87 0 1, Pickup 96 13 87 0 1, Pickup 95 13 87 0 1,
   Pickup 90 13 87 0 1, Pickup 91 13 87 0 1, Pickup 92 13 87 0 1, Pickup 93 13 87 0 1, Pickup 94 13 87 0 1,
   Pickup 78 13 87 0 1, Pickup 99 13 87 0 1, Pickup 81 13 87 0 1, Pickup 98 13 87 0 1, Pickup 80 13 87 0 1,
   Pickup 100 13 87 0 1, Pickup 101 13 87 0 1, Pickup 102 13 87 0 1, Pickup 103 13 87 0 1,
   Pickup 104 13 87 0 1, Pickup 105 13 87 0 1, Pickup 106 13 87 0 1, Pickup 107 13 87 0 1,
   Pickup 108 13 87 0 1, Pickup 109 13 87 0 1, Pickup 110 13 87 0 1, Pickup 111 13 87 0 1,
   Pickup 112 13 87 0 1, Pickup 113 13 87 0 1, Pickup 114 13 87 0 1, Pickup 115 13 87 0 1,
   Pickup 116 13 87 0 1, Pickup 117 13 87 0 1, Pickup 118 13 87 0 1, Pickup 119 13 87 0 1,
   Pickup 120 13 87 0 1, Pickup 121 13 87 0 1, Pickup 122 13 87 0 1, Pickup 123 13 87 0 1,
   Pickup 124 13 87 0 1, Pickup 125 22 87 3 1, Pickup 126 22 87 3 1, Pickup 127 22 87 3 1,
   Pickup 128 22 87 3 1, Pickup 129 22 87 3 1, Pickup 130 22 87 3 1, Pickup 131 22 87 3 1,
   Pickup 132 22 87 3 1, Pickup 133 22 87 3 1, Pickup 134 22 87 3 1, Pickup 135 22 87 3 1,
   Pickup 136 22 87 3 1, Pickup 137 22 87 3 1, Pickup 138 22 87 3 1, Pickup 139 22 87 3 1,
   Pickup 140 22 87 3 1, Pickup 141 22 87 3 1, Pickup 142 22 87 3 1, Pickup 143 22 87 3 1,
   Pickup 144 22 87 3 1, Pickup 145 22 87 3 1, Pickup 146 22 87 3 1, Pickup 147 22 87 3 1,
   Pickup 148 22 87 3 1, Pickup 149 22 87 3 1, Pickup 150 22 87 3 1, Pickup 151 22 87 3 1,
   Pickup 152 22 87 3 1, Pickup 153 22 87 3 1, Pickup 154 22 87 3 1, Pickup 155 22 87 3 1,
   Pickup 156 22 87 3 1, Pickup 157 22 87 3 1, Pickup 158 22 87 3 1, Pickup 159 22 87 3 1,
   Pickup 160 22 87 3 1, Pickup 161 22 87 3 1, Pickup 162 22 87 3 1, Pickup 163 22 87 3 1,
   Pickup 164 22 87 3 1, Pickup 165 22 87 3 1, Pickup 166 22 87 3 1, Pickup 167 22 87 3 1,
   Pickup 168 22 87 3 1, Pickup 169 22 87 3 1, Pickup 170 519 87 3 5, Pickup 173 29 87 0 0,
   Pickup 174 29 87 0 0, Pickup 175 29 87 0 0, Pickup 176 29 87 0 0, Pickup 177 29 87 0 0,
   Pickup 178 29 87 0 0, Pickup 179 28 87 3 0, Pickup 180 28 87 3 0, Pickup 181 28 87 3 0,
   Pickup 182 28 87 3 0, Pickup 183 28 87 3 0, Pickup 187 39 87 4 0, Pickup 188 39 87 4 0,
   Pickup 189 39 87 4 0, Pickup 190 39 87 4 0, Pickup 191 39 87 4 0, Pickup 192 39 87 4 0,
   Pickup 196 35 87 2 0, Pickup 197 35 87 2 0, Pickup 209 36 87 1 0, Pickup 194 520 87 1 5,
   Pickup 206 36 87 1 0, Pickup 207 36 87 1 0, Pickup 208 36 87 1 0, Pickup 210 520 87 1 5,
   Pickup 200 36 87 1 0, Pickup 201 36 87 1 0, Pickup 6 519 88 3 5, Pickup 7 28 88 3 0, Pickup 8 28 88 3 0,
   Pickup 9 28 88 3 0, Pickup 13 520 88 1 5, Pickup 11 520 88 1 5, Pickup 12 520 88 1 5,
   Pickup 18 519 108 3 5, Pickup 19 28 108 3 0, Pickup 20 28 108 3 0, Pickup 36 35 108 2 0,
   Pickup 37 35 108 2 0, Pickup 38 35 108 2 0, Pickup 38 43 112 0 5, Pickup 42 518 112 4 5,
   Pickup 43 518 112 4 5, Pickup 44 39 112 4 0, Pickup 45 39 112 4 0, Pickup 46 39 112 4 0,
   Pickup 48 520 112 1 5, Pickup 49 36 112 1 0, Pickup 50 36 112 1 0]"

definition coop_pickups_12 :: "CoopPickup list" where
  "coop_pickups_12 = [
   Pickup 51 36 112 1 0, Pickup 11 519 113 3 5, Pickup 12 519 113 3 5, Pickup 13 519 113 3 5,
   Pickup 20 518 113 4 5, Pickup 21 39 113 4 0, Pickup 22 39 113 4 0, Pickup 23 39 113 4 0,
   Pickup 7 43 114 0 5, Pickup 8 43 114 0 5, Pickup 9 43 114 0 5, Pickup 6 28 151 3 0, Pickup 7 28 151 3 0,
   Pickup 8 28 151 3 0, Pickup 9 31 151 4 1, Pickup 10 31 151 4 1, Pickup 11 31 151 4 1, Pickup 12 31 151 4 1,
   Pickup 13 31 151 4 1, Pickup 14 31 151 4 1, Pickup 15 31 151 4 1, Pickup 16 31 151 4 1,
   Pickup 17 31 151 4 1, Pickup 18 31 151 4 1, Pickup 19 31 151 4 1, Pickup 20 31 151 4 1,
   Pickup 21 31 151 4 1, Pickup 22 31 151 4 1, Pickup 23 31 151 4 1, Pickup 24 31 151 4 1,
   Pickup 25 31 151 4 1, Pickup 26 31 151 4 1, Pickup 27 31 151 4 1, Pickup 28 31 151 4 1,
   Pickup 29 31 151 4 1, Pickup 30 31 151 4 1, Pickup 31 31 151 4 1, Pickup 32 31 151 4 1,
   Pickup 33 31 151 4 1, Pickup 34 31 151 4 1, Pickup 35 31 151 4 1, Pickup 36 31 151 4 1,
   Pickup 37 31 151 4 1, Pickup 38 31 151 4 1, Pickup 46 39 151 4 0, Pickup 47 39 151 4 0,
   Pickup 48 39 151 4 0, Pickup 49 36 151 1 0, Pickup 50 36 151 1 0, Pickup 51 36 151 1 0,
   Pickup 16 43 163 0 5, Pickup 17 29 163 0 0, Pickup 18 29 163 0 0, Pickup 19 29 163 0 0,
   Pickup 20 29 163 0 0, Pickup 23 39 163 4 0, Pickup 24 39 163 4 0, Pickup 25 39 163 4 0,
   Pickup 27 35 163 2 0, Pickup 28 35 163 2 0, Pickup 29 35 163 2 0, Pickup 30 520 163 1 5,
   Pickup 31 520 163 1 5, Pickup 32 520 163 1 5, Pickup 33 520 163 1 5, Pickup 39 39 164 4 0,
   Pickup 40 39 164 4 0, Pickup 38 39 164 4 0, Pickup 30 43 164 0 5, Pickup 37 518 164 4 5,
   Pickup 7 39 166 4 0, Pickup 8 39 166 4 0, Pickup 9 39 166 4 0, Pickup 10 39 166 4 0, Pickup 0 519 167 3 5,
   Pickup 6 28 167 3 0, Pickup 7 28 167 3 0, Pickup 3 517 168 2 5, Pickup 4 517 168 2 5, Pickup 5 517 168 2 5,
   Pickup 6 517 168 2 5, Pickup 7 517 168 2 5, Pickup 8 517 168 2 5, Pickup 16 35 168 2 0,
   Pickup 17 35 168 2 0, Pickup 18 35 168 2 0, Pickup 24 30 183 2 1, Pickup 16 30 183 2 1,
   Pickup 15 517 183 2 5, Pickup 18 30 183 2 1, Pickup 17 517 183 2 5, Pickup 20 30 183 2 1,
   Pickup 19 517 183 2 5, Pickup 22 30 183 2 1, Pickup 21 517 183 2 5, Pickup 23 517 183 2 5,
   Pickup 25 35 183 2 0, Pickup 26 35 183 2 0, Pickup 27 35 183 2 0, Pickup 28 35 183 2 0,
   Pickup 32 36 183 1 0, Pickup 33 36 183 1 0, Pickup 34 36 183 1 0, Pickup 5 29 187 0 0, Pickup 6 29 187 0 0,
   Pickup 7 29 187 0 0, Pickup 8 29 187 0 0, Pickup 9 29 187 0 0, Pickup 20 29 176 0 0, Pickup 19 29 176 0 0,
   Pickup 18 29 176 0 0]"

definition coop_pickups :: "CoopPickup list" where
  "coop_pickups = coop_pickups_1 @ coop_pickups_2 @ coop_pickups_3 @ coop_pickups_4 @ coop_pickups_5 @ coop_pickups_6 @ coop_pickups_7 @ coop_pickups_8 @ coop_pickups_9 @ coop_pickups_10 @ coop_pickups_11 @ coop_pickups_12"

lemmas coop_pickups_parts = coop_pickups_1_def coop_pickups_2_def coop_pickups_3_def coop_pickups_4_def coop_pickups_5_def coop_pickups_6_def coop_pickups_7_def coop_pickups_8_def coop_pickups_9_def coop_pickups_10_def coop_pickups_11_def coop_pickups_12_def

definition coop_actor_pickups :: "CoopActorPickup list" where
  "coop_actor_pickups = [
   ActorPickup 620 2 91 4 0 1 10, ActorPickup 621 44 139 7 0 0 0, ActorPickup 622 35 91 7 0 1 10,
   ActorPickup 623 20 114 7 0 0 10, ActorPickup 624 46 111 7 0 4 10, ActorPickup 625 43 113 7 0 2 10,
   ActorPickup 626 41 91 7 0 1 10, ActorPickup 627 40 114 7 0 0 10, ActorPickup 628 39 114 7 0 0 10,
   ActorPickup 629 42 112 7 0 3 10, ActorPickup 630 38 112 7 0 3 10, ActorPickup 631 45 111 7 0 4 10,
   ActorPickup 632 47 111 7 0 4 10, ActorPickup 633 37 113 7 0 2 10, ActorPickup 634 0 112 12 0 3 10,
   ActorPickup 635 0 113 13 0 2 10, ActorPickup 636 1 112 16 1 3 10, ActorPickup 637 3 112 16 1 3 10,
   ActorPickup 638 4 111 16 1 4 10, ActorPickup 639 3 112 20 1 3 10, ActorPickup 640 4 113 20 1 2 10,
   ActorPickup 641 7 113 20 1 2 10, ActorPickup 642 5 91 21 1 1 10, ActorPickup 643 1 113 23 1 2 10,
   ActorPickup 644 2 111 24 1 4 10, ActorPickup 645 1 111 24 1 4 10, ActorPickup 646 3 139 24 1 0 0,
   ActorPickup 647 34 111 26 2 4 10, ActorPickup 648 32 111 26 2 4 10, ActorPickup 649 30 113 26 2 2 10,
   ActorPickup 650 28 112 26 2 3 10, ActorPickup 651 26 91 26 2 1 10, ActorPickup 652 24 91 26 2 1 10,
   ActorPickup 653 21 114 26 2 0 10, ActorPickup 654 23 114 26 2 0 10, ActorPickup 655 18 114 26 2 0 10,
   ActorPickup 656 25 91 26 2 1 10, ActorPickup 657 27 112 26 2 3 10, ActorPickup 658 29 112 26 2 3 10,
   ActorPickup 659 31 113 26 2 2 10, ActorPickup 660 33 111 26 2 4 10, ActorPickup 661 35 139 26 2 0 0,
   ActorPickup 662 20 91 30 3 1 10, ActorPickup 663 28 112 30 3 3 10, ActorPickup 664 26 113 30 3 2 10,
   ActorPickup 665 24 113 30 3 2 10, ActorPickup 666 22 111 30 3 4 10, ActorPickup 667 19 91 30 3 1 10,
   ActorPickup 668 15 114 30 3 0 10, ActorPickup 669 14 114 30 3 0 10, ActorPickup 670 18 91 30 3 1 10,
   ActorPickup 671 17 111 30 3 4 10, ActorPickup 672 23 111 30 3 4 10, ActorPickup 673 25 113 30 3 2 10,
   ActorPickup 674 27 112 30 3 3 10, ActorPickup 675 29 112 30 3 3 10, ActorPickup 676 17 139 34 7 0 0,
   ActorPickup 677 15 139 34 7 0 0, ActorPickup 678 16 139 34 7 0 0, ActorPickup 679 4 113 36 2 2 10,
   ActorPickup 680 29 114 38 1 0 10, ActorPickup 681 41 91 38 1 1 10, ActorPickup 682 30 114 38 1 0 10,
   ActorPickup 683 31 114 38 1 0 10, ActorPickup 684 32 91 38 1 1 10, ActorPickup 685 38 139 38 1 0 0,
   ActorPickup 686 61 91 48 4 1 10, ActorPickup 687 47 139 48 4 0 0, ActorPickup 688 42 112 48 4 3 10,
   ActorPickup 689 40 114 48 4 0 10, ActorPickup 690 46 139 48 4 0 0, ActorPickup 691 60 111 48 4 4 10,
   ActorPickup 692 62 112 48 4 3 10, ActorPickup 693 0 114 49 3 0 10, ActorPickup 694 1 139 49 3 0 0,
   ActorPickup 695 1 91 57 4 1 10, ActorPickup 696 9 114 61 4 0 10, ActorPickup 697 11 113 64 4 2 10,
   ActorPickup 698 9 113 64 4 2 10, ActorPickup 699 1 111 71 4 4 10, ActorPickup 700 16 91 72 5 1 10,
   ActorPickup 701 10 111 72 5 4 10, ActorPickup 702 20 112 72 5 3 10, ActorPickup 703 21 139 72 5 0 0,
   ActorPickup 704 18 113 72 5 2 10, ActorPickup 705 11 114 72 5 0 10, ActorPickup 706 15 91 72 5 1 10,
   ActorPickup 707 17 111 72 5 4 10, ActorPickup 708 29 112 72 5 3 10, ActorPickup 709 14 114 72 5 0 10,
   ActorPickup 710 0 112 84 5 3 10, ActorPickup 711 0 113 85 5 2 10, ActorPickup 712 0 114 86 5 0 10,
   ActorPickup 713 8 139 87 6 0 0, ActorPickup 714 10 91 87 6 1 10, ActorPickup 715 3 91 88 6 1 10,
   ActorPickup 716 2 112 93 5 3 10, ActorPickup 717 0 111 95 5 4 10, ActorPickup 718 2 139 97 7 0 0,
   ActorPickup 719 1 113 98 5 2 10, ActorPickup 720 12 91 100 5 1 10, ActorPickup 721 1 113 105 6 2 10,
   ActorPickup 722 8 113 108 6 2 10, ActorPickup 723 5 91 112 6 1 10, ActorPickup 724 3 114 112 6 0 10,
   ActorPickup 725 4 112 113 6 3 10, ActorPickup 726 6 111 113 6 4 10, ActorPickup 727 7 91 163 6 1 10,
   ActorPickup 728 9 113 163 6 2 10, ActorPickup 729 6 111 163 6 4 10, ActorPickup 730 8 113 163 6 2 10,
   ActorPickup 731 10 111 163 6 4 10, ActorPickup 732 1 114 164 6 0 10, ActorPickup 733 3 111 164 6 4 10,
   ActorPickup 734 0 111 166 6 4 10, ActorPickup 735 7 139 176 7 0 0, ActorPickup 736 9 139 176 7 0 0,
   ActorPickup 737 3 91 183 6 1 10, ActorPickup 738 2 112 183 6 3 10, ActorPickup 739 4 139 193 7 0 0]"

section \<open>Routes\<close>

definition coop_transition_routes_1 :: "CoopTransitionRoute list" where
  "coop_transition_routes_1 = [
   Route 4 7 2, Route 7 4 0, Route 7 12 0, Route 7 13 0, Route 7 33 0, Route 7 169 1, Route 12 7 1,
   Route 13 7 5, Route 16 38 1, Route 19 38 5, Route 20 38 2, Route 21 38 6, Route 22 38 3, Route 23 38 7,
   Route 24 38 4, Route 26 29 0, Route 26 36 0, Route 26 175 1, Route 29 26 3, Route 30 31 0, Route 30 43 0,
   Route 30 43 1, Route 30 43 2, Route 30 44 0, Route 30 45 0, Route 30 46 0, Route 30 46 1, Route 30 47 0,
   Route 30 47 1, Route 30 49 0, Route 30 174 1, Route 30 179 0, Route 31 30 11, Route 33 7 8, Route 34 169 0,
   Route 34 173 0, Route 34 174 0, Route 34 175 0, Route 34 178 0, Route 34 194 0, Route 36 26 8,
   Route 38 16 0, Route 38 19 0, Route 38 20 0, Route 38 21 0, Route 38 22 0, Route 38 23 0, Route 38 24 0,
   Route 38 173 1, Route 43 30 1, Route 43 30 2, Route 43 30 3, Route 44 30 4, Route 45 30 5, Route 46 30 6,
   Route 46 30 7, Route 47 30 8, Route 47 30 9, Route 48 52 0, Route 48 56 0, Route 48 57 0, Route 48 58 0,
   Route 48 59 0, Route 48 61 0, Route 48 62 0, Route 48 62 3, Route 48 63 0, Route 48 64 0, Route 48 64 1,
   Route 48 64 2, Route 48 64 3, Route 48 64 4, Route 48 70 0, Route 48 71 0, Route 48 178 1, Route 49 30 10,
   Route 52 48 23, Route 56 48 3, Route 57 48 2, Route 58 48 1, Route 59 48 4, Route 61 48 6, Route 61 62 2,
   Route 62 48 5, Route 62 48 7, Route 62 61 1, Route 63 48 14, Route 64 48 8, Route 64 48 9, Route 64 48 10]"

definition coop_transition_routes_2 :: "CoopTransitionRoute list" where
  "coop_transition_routes_2 = [
   Route 64 48 11, Route 64 48 12, Route 70 48 15, Route 71 48 13, Route 72 84 0, Route 72 85 0,
   Route 72 86 0, Route 72 89 0, Route 72 90 0, Route 72 91 0, Route 72 92 0, Route 72 93 0, Route 72 94 0,
   Route 72 95 0, Route 72 98 0, Route 72 100 0, Route 72 194 1, Route 72 200 0, Route 84 72 5, Route 85 72 3,
   Route 86 72 2, Route 87 88 0, Route 87 105 0, Route 87 113 0, Route 87 114 0, Route 87 114 1,
   Route 87 151 0, Route 87 151 2, Route 87 164 0, Route 87 166 0, Route 87 167 0, Route 87 168 0,
   Route 87 183 0, Route 87 193 1, Route 88 87 11, Route 89 72 19, Route 90 72 15, Route 91 72 14,
   Route 92 72 17, Route 93 72 16, Route 94 72 20, Route 95 72 4, Route 98 72 30, Route 100 72 1,
   Route 105 87 14, Route 108 183 4, Route 112 183 3, Route 113 87 7, Route 114 87 12, Route 114 87 13,
   Route 151 87 2, Route 151 87 5, Route 151 163 0, Route 163 151 4, Route 164 87 1, Route 164 87 15,
   Route 166 87 9, Route 167 87 16, Route 168 87 8, Route 168 87 20, Route 169 7 0, Route 169 34 2,
   Route 173 34 3, Route 173 38 0, Route 174 30 0, Route 174 34 5, Route 175 26 0, Route 175 34 4,
   Route 178 34 6, Route 178 48 0, Route 179 30 21, Route 183 87 4, Route 183 108 0, Route 183 112 0,
   Route 193 34 11, Route 193 87 0, Route 194 34 10, Route 194 72 0, Route 200 72 18]"

definition coop_transition_routes :: "CoopTransitionRoute list" where
  "coop_transition_routes = coop_transition_routes_1 @ coop_transition_routes_2"

lemmas coop_transition_routes_parts = coop_transition_routes_1_def coop_transition_routes_2_def

definition coop_bblast_completion_routes :: "CoopTransitionRoute list" where
  "coop_bblast_completion_routes = [
   Route 37 7 7, Route 41 38 11, Route 54 30 16, Route 110 26 15, Route 187 87 17]"

section \<open>Sizes\<close>

lemma length_coop_tables [simp]:
  "length coop_warp_tags = 87" "length coop_world_unlocks = 100" "length coop_world_requirements = 11"
  "length coop_actor_pickups = 120" "length coop_bblast_completion_routes = 5"
  by (simp_all add: coop_warp_tags_def coop_world_unlocks_def coop_world_base_def coop_world_expansion_def
      coop_world_requirements_def coop_actor_pickups_def coop_bblast_completion_routes_def)

lemma length_coop_golden_bananas [simp]: "length coop_golden_bananas = 161"
  by (simp add: coop_golden_bananas_def coop_golden_bananas_parts)

lemma length_coop_transition_routes [simp]: "length coop_transition_routes = 169"
  by (simp add: coop_transition_routes_def coop_transition_routes_parts)

lemma length_coop_pickups [simp]: "length coop_pickups = 1700"
  by (simp add: coop_pickups_def coop_pickups_parts)

end
