(* ===== verification/CoopIds.thy ===== *)
theory CoopIds
  imports CoopTables
begin

text \<open>
  Stable item numbers of the co-op mod: \<^verbatim>\<open>progression_ids.h\<close>, \<^verbatim>\<open>troff_ids.h\<close> and the id and flag
  translations of \<^verbatim>\<open>items_policy.h\<close>.  Every id is below \<open>COOP_ITEMS\<close>, far below the width of the
  unsigned C type, and each subtraction of the code is guarded, so ids are natural numbers here.
\<close>

section \<open>Ranges\<close>

abbreviation (input) COOP_WARP_TAG_COUNT :: nat where "COOP_WARP_TAG_COUNT \<equiv> 87"
abbreviation (input) COOP_WORLD_UNLOCK_COUNT :: nat where "COOP_WORLD_UNLOCK_COUNT \<equiv> 100"
abbreviation (input) COOP_WORLD_REQUIREMENT_COUNT :: nat where "COOP_WORLD_REQUIREMENT_COUNT \<equiv> 11"
abbreviation (input) COOP_SNIDE_FIRST :: nat where "COOP_SNIDE_FIRST \<equiv> 80"
abbreviation (input) COOP_SNIDE_COUNT :: nat where "COOP_SNIDE_COUNT \<equiv> 40"
abbreviation (input) COOP_MEDAL_FIRST :: nat where "COOP_MEDAL_FIRST \<equiv> 120"
abbreviation (input) COOP_GB_FIRST :: nat where "COOP_GB_FIRST \<equiv> 160"
abbreviation (input) COOP_PICKUP_FIRST :: nat where "COOP_PICKUP_FIRST \<equiv> 321"
abbreviation (input) COOP_ACTOR_PICKUP_FIRST :: nat where "COOP_ACTOR_PICKUP_FIRST \<equiv> 2021"
abbreviation (input) COOP_PROGRESSION_FIRST :: nat where "COOP_PROGRESSION_FIRST \<equiv> 2141"
abbreviation (input) COOP_KONG_FIRST :: nat where "COOP_KONG_FIRST \<equiv> 2141"
abbreviation (input) COOP_LOBBY :: nat where "COOP_LOBBY \<equiv> 2145"
abbreviation (input) COOP_KEY_TURN_FIRST :: nat where "COOP_KEY_TURN_FIRST \<equiv> 2146"
abbreviation (input) COOP_KLUMSY_FREE :: nat where "COOP_KLUMSY_FREE \<equiv> 2154"
abbreviation (input) COOP_MOVE_FIRST :: nat where "COOP_MOVE_FIRST \<equiv> 2155"
abbreviation (input) COOP_SLAM_FIRST :: nat where "COOP_SLAM_FIRST \<equiv> 2170"
abbreviation (input) COOP_BELT_FIRST :: nat where "COOP_BELT_FIRST \<equiv> 2172"
abbreviation (input) COOP_GUN_FIRST :: nat where "COOP_GUN_FIRST \<equiv> 2174"
abbreviation (input) COOP_GUN_UPGRADE_FIRST :: nat where "COOP_GUN_UPGRADE_FIRST \<equiv> 2179"
abbreviation (input) COOP_INSTRUMENT_FIRST :: nat where "COOP_INSTRUMENT_FIRST \<equiv> 2181"
abbreviation (input) COOP_INSTRUMENT_UPGRADE_FIRST :: nat where "COOP_INSTRUMENT_UPGRADE_FIRST \<equiv> 2186"
abbreviation (input) COOP_MELON_FIRST :: nat where "COOP_MELON_FIRST \<equiv> 2189"
abbreviation (input) COOP_TRAINING_FIRST :: nat where "COOP_TRAINING_FIRST \<equiv> 2191"
abbreviation (input) COOP_TRAINING_SPAWNED :: nat where "COOP_TRAINING_SPAWNED \<equiv> 2191"
abbreviation (input) COOP_TRAINING_SKILL_FIRST :: nat where "COOP_TRAINING_SKILL_FIRST \<equiv> 2192"
abbreviation (input) COOP_TRAINING_COMPLETE :: nat where "COOP_TRAINING_COMPLETE \<equiv> 2196"
abbreviation (input) COOP_FIRST_SLAM :: nat where "COOP_FIRST_SLAM \<equiv> 2197"
abbreviation (input) COOP_WARP_FIRST :: nat where "COOP_WARP_FIRST \<equiv> 2199"
abbreviation (input) COOP_BLOCKER_FIRST :: nat where "COOP_BLOCKER_FIRST \<equiv> 2286"
abbreviation (input) COOP_WORLD_FIRST :: nat where "COOP_WORLD_FIRST \<equiv> 2294"
abbreviation (input) COOP_PROGRESSION_END :: nat where "COOP_PROGRESSION_END \<equiv> 2394"
abbreviation (input) COOP_TROFF_FIRST :: nat where "COOP_TROFF_FIRST \<equiv> 2394"
abbreviation (input) COOP_TROFF_LEVELS :: nat where "COOP_TROFF_LEVELS \<equiv> 7"
abbreviation (input) COOP_TROFF_KONGS :: nat where "COOP_TROFF_KONGS \<equiv> 5"
abbreviation (input) COOP_TROFF_CAPACITY :: nat where "COOP_TROFF_CAPACITY \<equiv> 100"
abbreviation (input) COOP_TROFF_BUCKETS :: nat where "COOP_TROFF_BUCKETS \<equiv> 35"
abbreviation (input) COOP_TROFF_END :: nat where "COOP_TROFF_END \<equiv> 5894"
abbreviation (input) COOP_JAPES_BOULDER_BUNCH :: nat where "COOP_JAPES_BOULDER_BUNCH \<equiv> 5894"
abbreviation (input) COOP_KROOL_DEFEATED :: nat where "COOP_KROOL_DEFEATED \<equiv> 5895"
abbreviation (input) COOP_ARCADE_COINS_PAID :: nat where "COOP_ARCADE_COINS_PAID \<equiv> 5896"
abbreviation (input) COOP_ITEMS :: nat where "COOP_ITEMS \<equiv> 5897"
abbreviation (input) COOP_FACTORY_ARCADE_LEVER :: nat where "COOP_FACTORY_ARCADE_LEVER \<equiv> 2309"
abbreviation (input) COOP_ITEM_WORDS :: nat where "COOP_ITEM_WORDS \<equiv> 192"

section \<open>Progression\<close>

definition progression_flags :: "int list" where
  "progression_flags = [0x6, 0x42, 0x46, 0x75, 0x1BB, 0x1BC, 0x1BD, 0x1BE, 0x1BF, 0x1C0, 0x1C1, 0x1C2, 0x1C3, 0x315]"

definition training_flags :: "int list" where
  "training_flags = [0x17F, 0x182, 0x183, 0x184, 0x185, 0x187, 0x180, 0x179]"

definition coop_progression_flag :: "nat \<Rightarrow> int" where
  "coop_progression_flag i =
     (if COOP_WORLD_FIRST \<le> i \<and> i < COOP_PROGRESSION_END then uint (unlock_flag (coop_world_unlocks ! (i - COOP_WORLD_FIRST)))
      else if COOP_BLOCKER_FIRST \<le> i \<and> i < COOP_WORLD_FIRST then 0x1CD + int i - int COOP_BLOCKER_FIRST
      else if COOP_WARP_FIRST \<le> i \<and> i < COOP_BLOCKER_FIRST then uint (warp_flag (coop_warp_tags ! (i - COOP_WARP_FIRST)))
      else if COOP_TRAINING_FIRST \<le> i \<and> i < COOP_WARP_FIRST then training_flags ! (i - COOP_TRAINING_FIRST)
      else if COOP_PROGRESSION_FIRST \<le> i \<and> i < COOP_MOVE_FIRST then progression_flags ! (i - COOP_PROGRESSION_FIRST)
      else - 1)"

text \<open>The destination of a move id: Kong (five for all), inventory byte, value, and bit mode.\<close>

definition coop_progression_move :: "nat \<Rightarrow> (nat \<times> nat \<times> nat \<times> bool) option" where
  "coop_progression_move i =
     (if COOP_MOVE_FIRST \<le> i \<and> i < COOP_SLAM_FIRST then
        Some ((i - COOP_MOVE_FIRST) div 3, 0, 1 + (i - COOP_MOVE_FIRST) mod 3, False)
      else if COOP_SLAM_FIRST \<le> i \<and> i < COOP_BELT_FIRST then Some (5, 1, 2 + i - COOP_SLAM_FIRST, False)
      else if COOP_BELT_FIRST \<le> i \<and> i < COOP_GUN_FIRST then Some (5, 3, 1 + i - COOP_BELT_FIRST, False)
      else if COOP_GUN_FIRST \<le> i \<and> i < COOP_GUN_UPGRADE_FIRST then Some (i - COOP_GUN_FIRST, 2, 1, True)
      else if COOP_GUN_UPGRADE_FIRST \<le> i \<and> i < COOP_INSTRUMENT_FIRST then
        Some (5, 2, 2 * 2 ^ (i - COOP_GUN_UPGRADE_FIRST), True)
      else if COOP_INSTRUMENT_FIRST \<le> i \<and> i < COOP_INSTRUMENT_UPGRADE_FIRST then Some (i - COOP_INSTRUMENT_FIRST, 4, 1, True)
      else if COOP_INSTRUMENT_UPGRADE_FIRST \<le> i \<and> i < COOP_MELON_FIRST then
        Some (5, 4, 2 * 2 ^ (i - COOP_INSTRUMENT_UPGRADE_FIRST), True)
      else None)"

section \<open>Troff 'n' Scoff payments\<close>

definition coop_troff_id :: "nat \<Rightarrow> nat \<Rightarrow> nat \<Rightarrow> nat" where
  "coop_troff_id level kong amount =
     (if COOP_TROFF_LEVELS \<le> level \<or> COOP_TROFF_KONGS \<le> kong \<or> amount = 0 \<or> COOP_TROFF_CAPACITY < amount
      then COOP_TROFF_END
      else COOP_TROFF_FIRST + (level * COOP_TROFF_KONGS + kong) * COOP_TROFF_CAPACITY + amount - 1)"

definition coop_troff_bucket :: "nat \<Rightarrow> (nat \<times> nat \<times> nat) option" where
  "coop_troff_bucket i =
     (if i < COOP_TROFF_FIRST \<or> COOP_TROFF_END \<le> i then None
      else let index = i - COOP_TROFF_FIRST; bucket = index div COOP_TROFF_CAPACITY
        in Some (bucket div COOP_TROFF_KONGS, bucket mod COOP_TROFF_KONGS, index mod COOP_TROFF_CAPACITY + 1))"

lemma troff_bucket_id:
  "coop_troff_bucket i = Some (level, kong, amount) \<longleftrightarrow>
     level < COOP_TROFF_LEVELS \<and> kong < COOP_TROFF_KONGS \<and> 0 < amount \<and> amount \<le> COOP_TROFF_CAPACITY \<and>
     i = coop_troff_id level kong amount"
proof
  assume a: "coop_troff_bucket i = Some (level, kong, amount)"
  define k where "k = i - COOP_TROFF_FIRST"
  from a have k: "k < 3500" "i = COOP_TROFF_FIRST + k" "level = k div 100 div 5" "kong = k div 100 mod 5" "amount = k mod 100 + 1"
    by (auto simp: coop_troff_bucket_def Let_def k_def split: if_splits)
  have "level < 7" "kong < 5" "amount \<le> 100" "0 < amount" using k by (auto simp: less_mult_imp_div_less)
  moreover have "(level * 5 + kong) * 100 + amount = k + 1" using k(3-5) by presburger
  ultimately show "level < COOP_TROFF_LEVELS \<and> kong < COOP_TROFF_KONGS \<and> 0 < amount \<and> amount \<le> COOP_TROFF_CAPACITY \<and>
     i = coop_troff_id level kong amount"
    using k(2) by (simp add: coop_troff_id_def)
next
  assume a: "level < COOP_TROFF_LEVELS \<and> kong < COOP_TROFF_KONGS \<and> 0 < amount \<and> amount \<le> COOP_TROFF_CAPACITY \<and>
     i = coop_troff_id level kong amount"
  define b where "b = level * 5 + kong"
  from a have b: "b < 35" "b div 5 = level" "b mod 5 = kong" by (auto simp: b_def)
  from a have i: "i - COOP_TROFF_FIRST = b * 100 + (amount - 1)" "COOP_TROFF_FIRST \<le> i" "i < COOP_TROFF_END"
    using b(1) by (auto simp: coop_troff_id_def b_def)
  have small: "amount - 1 < 100" using a by linarith
  then have "(b * 100 + (amount - 1)) div 100 = b" "(b * 100 + (amount - 1)) mod 100 = amount - 1"
    by (simp_all only: div_mult_self3 mod_mult_self3 div_less mod_less)
  with i b a show "coop_troff_bucket i = Some (level, kong, amount)" by (simp add: coop_troff_bucket_def Let_def)
qed

section \<open>Items and flags\<close>

definition key_flags :: "int list" where
  "key_flags = [0x1A, 0x4A, 0x8A, 0xA8, 0xEC, 0x124, 0x13D, 0x17C]"

definition coop_item_flag :: "nat \<Rightarrow> int" where
  "coop_item_flag i =
     (if i < 40 then 0x1D5 + int i
      else if i < 60 then 0x24D + int i - 40
      else if i < 70 then 0x261 + int i - 60
      else if i < 78 then key_flags ! (i - 70)
      else if i = 78 then 0x84
      else if i = 79 then 0x17B
      else if i = COOP_JAPES_BOULDER_BUNCH then 0x01D
      else if i = COOP_KROOL_DEFEATED then 0x1B0
      else if i = COOP_ARCADE_COINS_PAID then 0x083
      else if i < COOP_MEDAL_FIRST then 0x1FD + int i - int COOP_SNIDE_FIRST
      else if i < COOP_GB_FIRST then 0x225 + int i - int COOP_MEDAL_FIRST
      else if i < COOP_PICKUP_FIRST then uint (gb_flag (coop_golden_bananas ! (i - COOP_GB_FIRST)))
      else if COOP_ACTOR_PICKUP_FIRST \<le> i \<and> i < COOP_PROGRESSION_FIRST then
        uint (actor_flag (coop_actor_pickups ! (i - COOP_ACTOR_PICKUP_FIRST)))
      else coop_progression_flag i)"

definition coop_item_id :: "int \<Rightarrow> int" where
  "coop_item_id flag =
     (if flag < 0 then - 1
      else case find (\<lambda>i. coop_item_flag i = flag) [0..<COOP_PICKUP_FIRST] of Some i \<Rightarrow> int i
      | None \<Rightarrow> (case find (\<lambda>i. coop_item_flag i = flag) [COOP_ACTOR_PICKUP_FIRST..<COOP_PROGRESSION_END] of Some i \<Rightarrow> int i
        | None \<Rightarrow> if flag = 0x01D then int COOP_JAPES_BOULDER_BUNCH
            else if flag = 0x1B0 then int COOP_KROOL_DEFEATED
            else if flag = 0x083 then int COOP_ARCADE_COINS_PAID else - 1))"

definition coop_snide_capacity :: "nat \<Rightarrow> nat \<Rightarrow> nat" where
  "coop_snide_capacity level kong = (if level = 7 \<and> kong = 3 then 6 else 5)"

definition coop_item_gb :: "nat \<Rightarrow> (nat \<times> nat) option" where
  "coop_item_gb i =
     (if COOP_SNIDE_FIRST \<le> i \<and> i < COOP_MEDAL_FIRST then Some ((i - COOP_SNIDE_FIRST) div 5, (i - COOP_SNIDE_FIRST) mod 5)
      else if COOP_GB_FIRST \<le> i \<and> i < COOP_PICKUP_FIRST then
        Some (unat (gb_level (coop_golden_bananas ! (i - COOP_GB_FIRST))), unat (gb_kong (coop_golden_bananas ! (i - COOP_GB_FIRST))))
      else None)"

text \<open>The loop \<open>while (level < 7 && index >= coop_pickup_start[level + 1]) ++level\<close>.\<close>

function pickup_level_from :: "nat \<Rightarrow> nat \<Rightarrow> nat" where
  "pickup_level_from index level =
     (if level < 7 \<and> unat (coop_pickup_start ! (level + 1)) \<le> index then pickup_level_from index (level + 1) else level)"
  by pat_completeness auto
termination by (relation "measure (\<lambda>(index, level). 7 - level)") auto

declare pickup_level_from.simps [simp del]

definition coop_pickup_level :: "nat \<Rightarrow> nat" where
  "coop_pickup_level index = pickup_level_from index 0"

section \<open>Distinct flags\<close>

text \<open>The ids that stand for a permanent flag, and their flags run by run.\<close>

definition flagged_ids :: "nat list" where
  "flagged_ids = [0..<COOP_PICKUP_FIRST] @ [COOP_ACTOR_PICKUP_FIRST..<COOP_MOVE_FIRST] @
     [COOP_TRAINING_FIRST..<COOP_PROGRESSION_END] @ [COOP_JAPES_BOULDER_BUNCH..<COOP_ITEMS]"

definition flag_runs :: "int list" where
  "flag_runs = map int [0x1D5..<0x1FD] @ map int [0x24D..<0x26B] @ key_flags @ [0x84, 0x17B] @ map int [0x1FD..<0x24D] @
     map (uint \<circ> gb_flag) coop_golden_bananas @ map (uint \<circ> actor_flag) coop_actor_pickups @ progression_flags @
     training_flags @ map (uint \<circ> warp_flag) coop_warp_tags @ map int [0x1CD..<0x1D5] @
     map (uint \<circ> unlock_flag) coop_world_unlocks @ [0x1D, 0x1B0, 0x83]"

lemma table_run: "length t = n \<Longrightarrow> map (\<lambda>i. f (t ! (i - a))) [a..<a + n] = map f t"
  by (auto intro!: nth_equalityI)

lemma int_run: "b = a + n \<Longrightarrow> map (\<lambda>i. int c + int i - int a) [a..<b] = map int [c..<c + n]"
  by (auto intro!: nth_equalityI)

lemma upt_split: "i \<le> j \<Longrightarrow> j \<le> k \<Longrightarrow> [i..<k] = [i..<j] @ [j..<k]"
  using upt_add_eq_append [of i j "k - j"] by simp

lemma flagged_split:
  "flagged_ids = [0..<40] @ [40..<60] @ [60..<70] @ [70..<78] @ [78, 79] @ [80..<120] @ [120..<160] @ [160..<321] @
     [2021..<2141] @ [2141..<2155] @ [2191..<2199] @ [2199..<2286] @ [2286..<2294] @ [2294..<2394] @ [5894, 5895, 5896]"
proof -
  have "[0..<321] = [0..<40] @ [40..<60] @ [60..<70] @ [70..<78] @ [78..<80] @ [80..<120] @ [120..<160] @ [160..<321 :: nat]"
    by (simp only: upt_split [of 0 40 321] upt_split [of 40 60 321] upt_split [of 60 70 321] upt_split [of 70 78 321]
        upt_split [of 78 80 321] upt_split [of 80 120 321] upt_split [of 120 160 321] append.assoc zero_le numeral_le_iff
        le_num_simps less_num_simps)
  moreover have "[2021..<2155] = [2021..<2141] @ [2141..<2155 :: nat]" by (rule upt_split) simp_all
  moreover have "[2191..<2394] = [2191..<2199] @ [2199..<2286] @ [2286..<2294] @ [2294..<2394 :: nat]"
    by (simp only: upt_split [of 2191 2199 2394] upt_split [of 2199 2286 2394] upt_split [of 2286 2294 2394]
        numeral_le_iff le_num_simps less_num_simps)
  moreover have "[78..<80] = [78, 79 :: nat]" "[5894..<5897] = [5894, 5895, 5896 :: nat]" by (simp_all add: upt_rec)
  ultimately show ?thesis by (simp only: flagged_ids_def append.assoc)
qed

lemma flags_of_ids: "map coop_item_flag flagged_ids = flag_runs"
proof -
  have runs: "map coop_item_flag [0..<40] = map int [0x1D5..<0x1FD]" "map coop_item_flag [40..<60] = map int [0x24D..<0x261]"
    "map coop_item_flag [60..<70] = map int [0x261..<0x26B]" "map coop_item_flag [80..<120] = map int [0x1FD..<0x225]"
    "map coop_item_flag [120..<160] = map int [0x225..<0x24D]" "map coop_item_flag [2286..<2294] = map int [0x1CD..<0x1D5]"
    by (auto intro!: nth_equalityI simp: coop_item_flag_def coop_progression_flag_def simp del: upt_rec_numeral)
  have tables: "map coop_item_flag [160..<321] = map (uint \<circ> gb_flag) coop_golden_bananas"
    "map coop_item_flag [2021..<2141] = map (uint \<circ> actor_flag) coop_actor_pickups"
    "map coop_item_flag [2199..<2286] = map (uint \<circ> warp_flag) coop_warp_tags"
    "map coop_item_flag [2294..<2394] = map (uint \<circ> unlock_flag) coop_world_unlocks"
    by (auto intro!: nth_equalityI simp: coop_item_flag_def coop_progression_flag_def simp del: upt_rec_numeral)
  have short: "map coop_item_flag [70..<78] = key_flags" "map coop_item_flag [2141..<2155] = progression_flags"
    "map coop_item_flag [2191..<2199] = training_flags"
    by (auto intro!: nth_equalityI simp: coop_item_flag_def coop_progression_flag_def key_flags_def progression_flags_def
        training_flags_def simp del: upt_rec_numeral)
  have joined: "map int [0x24D..<0x26B] = map int [0x24D..<0x261] @ map int [0x261..<0x26B]"
    "map int [0x1FD..<0x24D] = map int [0x1FD..<0x225] @ map int [0x225..<0x24D]"
    unfolding map_append [symmetric] by (rule arg_cong [where f = "map int"], rule upt_split; simp)+
  have single: "map coop_item_flag [78, 79] = [0x84, 0x17B]" "map coop_item_flag [5894, 5895, 5896] = [0x1D, 0x1B0, 0x83]"
    by (simp_all add: coop_item_flag_def)
  show ?thesis
    by (simp only: flagged_split map_append runs tables short single flag_runs_def joined append.assoc)
qed

text \<open>Two sorted lists without a common element.\<close>

fun disjoint_sorted :: "'a::linorder list \<Rightarrow> 'a list \<Rightarrow> bool" where
  "disjoint_sorted [] ys = True"
| "disjoint_sorted (x # xs) [] = True"
| "disjoint_sorted (x # xs) (y # ys) =
     (if x < y then disjoint_sorted xs (y # ys) else if y < x then disjoint_sorted (x # xs) ys else False)"

lemma disjoint_sorted_sets:
  "sorted_wrt (<) xs \<Longrightarrow> sorted_wrt (<) ys \<Longrightarrow> disjoint_sorted xs ys \<Longrightarrow> set xs \<inter> set ys = {}"
proof (induction xs ys rule: disjoint_sorted.induct)
  case (3 x xs y ys)
  then show ?case by (auto split: if_splits)
qed simp_all

lemma sorted_run: "successively (<) xs \<Longrightarrow> sorted_wrt (<) (xs :: int list)"
  using successively_conv_sorted_wrt [of "(<) :: int \<Rightarrow> int \<Rightarrow> bool"] by (simp add: transp_on_less)

definition scattered_flags :: "int list" where
  "scattered_flags = key_flags @ [0x84, 0x17B] @ progression_flags @ training_flags @ [0x1D, 0x1B0, 0x83]"

abbreviation (input) gb_flags :: "int list" where "gb_flags \<equiv> map (uint \<circ> gb_flag) coop_golden_bananas"
abbreviation (input) warp_flags :: "int list" where "warp_flags \<equiv> map (uint \<circ> warp_flag) coop_warp_tags"
abbreviation (input) unlock_flags :: "int list" where "unlock_flags \<equiv> map (uint \<circ> unlock_flag) coop_world_unlocks"

lemma gb_sorted: "sorted_wrt (<) gb_flags"
  by (rule sorted_run) (simp add: coop_golden_bananas_def coop_golden_bananas_parts)

lemma warp_sorted: "sorted_wrt (<) (sort warp_flags)"
  by (rule sorted_run) (simp add: coop_warp_tags_def)

lemma unlock_sorted: "sorted_wrt (<) (sort unlock_flags)"
  by (rule sorted_run) (simp add: coop_world_unlocks_def coop_world_base_def coop_world_expansion_def)

lemma scattered_sorted: "sorted_wrt (<) (sort scattered_flags)"
  by (rule sorted_run) (simp add: scattered_flags_def key_flags_def progression_flags_def training_flags_def)

lemma gb_warp: "disjoint_sorted gb_flags (sort warp_flags)"
  by (simp add: coop_golden_bananas_def coop_golden_bananas_parts coop_warp_tags_def)

lemma gb_unlock: "disjoint_sorted gb_flags (sort unlock_flags)"
  by (simp add: coop_golden_bananas_def coop_golden_bananas_parts coop_world_unlocks_def coop_world_base_def
      coop_world_expansion_def)

lemma gb_scattered: "disjoint_sorted gb_flags (sort scattered_flags)"
  by (simp add: coop_golden_bananas_def coop_golden_bananas_parts scattered_flags_def key_flags_def
      progression_flags_def training_flags_def)

lemma warp_unlock: "disjoint_sorted (sort warp_flags) (sort unlock_flags)"
  by (simp add: coop_warp_tags_def coop_world_unlocks_def coop_world_base_def coop_world_expansion_def)

lemma warp_scattered: "disjoint_sorted (sort warp_flags) (sort scattered_flags)"
  by (simp add: coop_warp_tags_def scattered_flags_def key_flags_def progression_flags_def training_flags_def)

lemma unlock_scattered: "disjoint_sorted (sort unlock_flags) (sort scattered_flags)"
  by (simp add: coop_world_unlocks_def coop_world_base_def coop_world_expansion_def scattered_flags_def key_flags_def
      progression_flags_def training_flags_def)

text \<open>The flags given by ranges fill two intervals; no scattered flag and no table enters them.\<close>

lemma actor_run: "map (uint \<circ> actor_flag) coop_actor_pickups = map int [0x26C..<0x2E4]"
  by (simp add: coop_actor_pickups_def)

definition in_ranges :: "int \<Rightarrow> bool" where
  "in_ranges f \<longleftrightarrow> 0x1CD \<le> f \<and> f < 0x26B \<or> 0x26C \<le> f \<and> f < 0x2E4"

lemma tables_outside:
  "list_all (\<lambda>f. \<not> in_ranges f) gb_flags" "list_all (\<lambda>f. \<not> in_ranges f) warp_flags"
  "list_all (\<lambda>f. \<not> in_ranges f) unlock_flags" "list_all (\<lambda>f. \<not> in_ranges f) scattered_flags"
  by (simp_all add: in_ranges_def coop_golden_bananas_def coop_golden_bananas_parts coop_warp_tags_def
      coop_world_unlocks_def coop_world_base_def coop_world_expansion_def scattered_flags_def key_flags_def
      progression_flags_def training_flags_def)

lemma sorted_distinct: "sorted_wrt (<) (sort xs) \<Longrightarrow> distinct (xs :: int list)"
  by (simp add: strict_sorted_iff)

lemma flag_runs_distinct: "distinct flag_runs"
proof -
  have ranges: "map int [0x1CD..<0x26B] = map int [0x1CD..<0x1D5] @ map int [0x1D5..<0x1FD] @ map int [0x1FD..<0x24D] @
      map int [0x24D..<0x26B]"
    by (simp only: map_append [symmetric] upt_split [of 461 469 619] upt_split [of 469 509 619]
        upt_split [of 509 589 619] numeral_le_iff le_num_simps less_num_simps)
  let ?r = "map int [0x1CD..<0x26B] @ map int [0x26C..<0x2E4]"
  let ?t = "gb_flags @ warp_flags @ unlock_flags @ scattered_flags"
  have "distinct ?r" by (auto simp: distinct_map inj_on_def simp del: upt_rec_numeral)
  moreover have "distinct ?t"
    using disjoint_sorted_sets [OF gb_sorted warp_sorted gb_warp] disjoint_sorted_sets [OF gb_sorted unlock_sorted gb_unlock]
      disjoint_sorted_sets [OF gb_sorted scattered_sorted gb_scattered]
      disjoint_sorted_sets [OF warp_sorted unlock_sorted warp_unlock]
      disjoint_sorted_sets [OF warp_sorted scattered_sorted warp_scattered]
      disjoint_sorted_sets [OF unlock_sorted scattered_sorted unlock_scattered]
      sorted_distinct [OF warp_sorted] sorted_distinct [OF unlock_sorted] sorted_distinct [OF scattered_sorted]
      gb_sorted [unfolded strict_sorted_iff]
    by (simp only: distinct_append set_append set_sort Int_Un_distrib Un_empty simp_thms)
  moreover have "in_ranges f" if "f \<in> set ?r" for f
    using that by (auto simp: in_ranges_def simp del: upt_rec_numeral)
  moreover have "\<not> in_ranges f" if "f \<in> set ?t" for f
    using that tables_outside by (simp only: set_append list_all_iff) blast
  ultimately have "distinct (?r @ ?t)" by (simp only: distinct_append) blast
  moreover have "mset flag_runs = mset (?r @ ?t)"
    unfolding flag_runs_def ranges actor_run scattered_flags_def by (simp only: mset_append ac_simps)
  ultimately show ?thesis using mset_eq_imp_distinct_iff by blast
qed

lemma flag_inj: "i \<in> set flagged_ids \<Longrightarrow> j \<in> set flagged_ids \<Longrightarrow> coop_item_flag i = coop_item_flag j \<Longrightarrow> i = j"
  using flag_runs_distinct flags_of_ids by (metis distinct_map inj_onD)

section \<open>Translating between ids and flags\<close>

lemma flagged_members:
  "i \<in> set flagged_ids \<longleftrightarrow> i < COOP_PICKUP_FIRST \<or> COOP_ACTOR_PICKUP_FIRST \<le> i \<and> i < COOP_MOVE_FIRST \<or>
     COOP_TRAINING_FIRST \<le> i \<and> i < COOP_PROGRESSION_END \<or> COOP_JAPES_BOULDER_BUNCH \<le> i \<and> i < COOP_ITEMS"
  by (simp add: flagged_ids_def del: upt_rec_numeral)

lemma flag_nonneg: "i \<in> set flagged_ids \<Longrightarrow> 0 \<le> coop_item_flag i"
proof -
  have "list_all (\<lambda>f. 0 \<le> f) flag_runs"
    by (auto simp: list_all_iff flag_runs_def key_flags_def progression_flags_def training_flags_def
        simp del: upt_rec_numeral)
  then show "i \<in> set flagged_ids \<Longrightarrow> 0 \<le> coop_item_flag i"
    unfolding flags_of_ids [symmetric] by (simp add: list_all_iff)
qed

lemma unflagged: "i \<notin> set flagged_ids \<Longrightarrow> coop_item_flag i = - 1"
proof -
  assume "i \<notin> set flagged_ids"
  then consider "321 \<le> i" "i < 2021" | "2155 \<le> i" "i < 2191" | "2394 \<le> i" "i < 5894" | "5897 \<le> i"
    unfolding flagged_members by linarith
  then show ?thesis by cases (simp_all add: coop_item_flag_def coop_progression_flag_def)
qed

lemma find_unique:
  assumes "i \<in> set xs" "P i" "\<And>j. j \<in> set xs \<Longrightarrow> P j \<Longrightarrow> j = i"
  shows "find P xs = Some i"
  using assms(1,3)
proof (induction xs)
  case (Cons x xs)
  show ?case
  proof (cases "P x")
    case True
    with Cons.prems(2) [of x] show ?thesis by simp
  next
    case False
    with assms(2) Cons.prems(1) have "i \<in> set xs" by auto
    then have "find P xs = Some i" by (rule Cons.IH) (rule Cons.prems(2), simp_all)
    with False show ?thesis by simp
  qed
qed simp

lemma item_id_of_flag: "i \<in> set flagged_ids \<Longrightarrow> coop_item_id (coop_item_flag i) = int i"
proof -
  assume i: "i \<in> set flagged_ids"
  note pos = flag_nonneg [OF i]
  have same: "j = i" if "j < COOP_PICKUP_FIRST \<or> COOP_ACTOR_PICKUP_FIRST \<le> j \<and> j < COOP_PROGRESSION_END"
    "coop_item_flag j = coop_item_flag i" for j
  proof (cases "j \<in> set flagged_ids")
    case True
    with flag_inj [OF True i] that(2) show ?thesis by simp
  next
    case False
    with that(2) unflagged [OF False] pos show ?thesis by simp
  qed
  consider (low) "i < COOP_PICKUP_FIRST" | (mid) "COOP_ACTOR_PICKUP_FIRST \<le> i" "i < COOP_PROGRESSION_END"
    | (high) "i = COOP_JAPES_BOULDER_BUNCH \<or> i = COOP_KROOL_DEFEATED \<or> i = COOP_ARCADE_COINS_PAID"
    using i unfolding flagged_members by linarith
  then show ?thesis
  proof cases
    case low
    have "find (\<lambda>j. coop_item_flag j = coop_item_flag i) [0..<COOP_PICKUP_FIRST] = Some i"
      by (rule find_unique) (use low same in \<open>auto simp del: upt_rec_numeral\<close>)
    with pos show ?thesis by (simp add: coop_item_id_def del: upt_rec_numeral)
  next
    case mid
    have "find (\<lambda>j. coop_item_flag j = coop_item_flag i) [0..<COOP_PICKUP_FIRST] = None"
      using mid by (auto simp: find_None_iff simp del: upt_rec_numeral dest!: same [rotated])
    moreover have "find (\<lambda>j. coop_item_flag j = coop_item_flag i) [COOP_ACTOR_PICKUP_FIRST..<COOP_PROGRESSION_END] = Some i"
      by (rule find_unique) (use mid same in \<open>auto simp del: upt_rec_numeral\<close>)
    ultimately show ?thesis using pos by (simp add: coop_item_id_def del: upt_rec_numeral)
  next
    case high
    have "find (\<lambda>j. coop_item_flag j = coop_item_flag i) [0..<COOP_PICKUP_FIRST] = None"
      "find (\<lambda>j. coop_item_flag j = coop_item_flag i) [COOP_ACTOR_PICKUP_FIRST..<COOP_PROGRESSION_END] = None"
      using high by (auto simp: find_None_iff simp del: upt_rec_numeral dest!: same [rotated])
    with pos high show ?thesis by (auto simp: coop_item_id_def coop_item_flag_def simp del: upt_rec_numeral)
  qed
qed

lemma item_id_cases:
  obtains (unknown) "coop_item_id flag = - 1" "flag \<notin> coop_item_flag ` set flagged_ids"
  | (known) i where "coop_item_id flag = int i" "i \<in> set flagged_ids" "coop_item_flag i = flag"
proof (cases "flag \<in> coop_item_flag ` set flagged_ids")
  case True
  then obtain i where i: "i \<in> set flagged_ids" "flag = coop_item_flag i" by blast
  show ?thesis by (rule known [of i]) (simp_all add: i item_id_of_flag)
next
  case False
  show ?thesis
  proof (cases "flag < 0")
    case True
    then have "coop_item_id flag = - 1" by (simp add: coop_item_id_def)
    from unknown [OF this False] show ?thesis .
  next
    case pos: False
    have none: "coop_item_flag i \<noteq> flag" for i
      using False unflagged [of i] pos by (cases "i \<in> set flagged_ids") auto
    then have finds: "find (\<lambda>j. coop_item_flag j = flag) xs = None" for xs by (simp add: find_None_iff)
    from none [of 5894] none [of 5895] none [of 5896] have "flag \<noteq> 0x1D" "flag \<noteq> 0x1B0" "flag \<noteq> 0x83"
      by (simp_all add: coop_item_flag_def)
    with pos have "coop_item_id flag = - 1" by (simp add: coop_item_id_def finds)
    from unknown [OF this False] show ?thesis .
  qed
qed

text \<open>
  the wire numbers and the permanent flags of the game are in bijection: an id is found for a flag
  exactly when it is one of the 661 flag-backed ids and the flag is its own, so no two shared items use
  one flag and no unknown flag ever becomes a shared item.
\<close>

theorem item_flag_bijection:
  "coop_item_id flag = int i \<longleftrightarrow> i \<in> set flagged_ids \<and> coop_item_flag i = flag"
proof (cases flag rule: item_id_cases)
  case unknown
  then show ?thesis by auto
next
  case (known j)
  with flag_inj [of i j] show ?thesis by auto
qed

section \<open>The level of a pickup\<close>

lemma pickup_level_spec:
  "level \<le> 7 \<Longrightarrow> unat (coop_pickup_start ! level) \<le> index \<Longrightarrow>
     level \<le> pickup_level_from index level \<and> pickup_level_from index level \<le> 7 \<and>
     unat (coop_pickup_start ! pickup_level_from index level) \<le> index \<and>
     (pickup_level_from index level < 7 \<longrightarrow> index < unat (coop_pickup_start ! (pickup_level_from index level + 1)))"
proof (induction index level rule: pickup_level_from.induct)
  case (1 index level)
  show ?case
  proof (cases "level < 7 \<and> unat (coop_pickup_start ! (level + 1)) \<le> index")
    case True
    with 1 show ?thesis by (simp add: pickup_level_from.simps [of index level])
  next
    case False
    with 1 show ?thesis by (auto simp: pickup_level_from.simps [of index level])
  qed
qed

text \<open>
  C17: the search for the level of a colored-banana or coin pickup ends at the one level whose
  interval of ordinals holds the index; every table index it reads is in range.
\<close>

theorem pickup_level_unique:
  assumes "index < length coop_pickups"
  shows "coop_pickup_level index < length coop_pickup_start - 1 \<and>
    (\<forall>level. level < 8 \<longrightarrow> (unat (coop_pickup_start ! level) \<le> index \<and> index < unat (coop_pickup_start ! (level + 1)) \<longleftrightarrow>
       level = coop_pickup_level index))"
proof -
  define l where "l = coop_pickup_level index"
  have "l \<le> 7 \<and> unat (coop_pickup_start ! l) \<le> index \<and> (l < 7 \<longrightarrow> index < unat (coop_pickup_start ! (l + 1)))"
    using pickup_level_spec [of 0 index] by (simp add: l_def coop_pickup_level_def coop_pickup_start_def)
  moreover have "unat (coop_pickup_start ! 8) = 1700" by (simp add: coop_pickup_start_def)
  ultimately have l: "l < 8" "unat (coop_pickup_start ! l) \<le> index" "index < unat (coop_pickup_start ! (l + 1))"
    using assms by (cases "l = 7"; simp)+
  have "sorted_wrt (<) (map unat coop_pickup_start)" and size: "length coop_pickup_start = 9"
    by (simp_all add: coop_pickup_start_def)
  then have mono: "unat (coop_pickup_start ! a) \<le> unat (coop_pickup_start ! b)" if "a \<le> b" "b < 9" for a b
    using that sorted_wrt_nth_less [of "(<)" "map unat coop_pickup_start" a b] by (cases "a = b") simp_all
  have only: "level = l" if "level < 8" "unat (coop_pickup_start ! level) \<le> index" "index < unat (coop_pickup_start ! (level + 1))" for level
    using l that mono [of "level + 1" l] mono [of "l + 1" level] by (cases level l rule: linorder_cases) simp_all
  have "\<forall>level. level < 8 \<longrightarrow> (unat (coop_pickup_start ! level) \<le> index \<and> index < unat (coop_pickup_start ! (level + 1)) \<longleftrightarrow>
      level = l)"
    using only l(2,3) by blast
  with l(1) show ?thesis by (simp only: l_def [symmetric] size) simp
qed

theorem pickup_level_unique_witness: "coop_pickup_level 500 = 2"
proof -
  have "unat (coop_pickup_start ! 2) = 489" "unat (coop_pickup_start ! (2 + 1)) = 734"
    by (simp_all add: coop_pickup_start_def)
  with pickup_level_unique [of 500] show ?thesis by (auto dest!: spec [of _ 2])
qed

end
