(* ===== verification/FileLock.thy ===== *)
theory FileLock
  imports Prelude
begin

text \<open>
  The contract both co-op channels share: a session locks onto the save file it first plays, and after
  another file has been seen the channel stays off until the program restarts.
\<close>

locale file_lock =
  fixes lock :: "'s \<Rightarrow> u32"
    and changed :: "'s \<Rightarrow> u32"
    and active :: "'s \<Rightarrow> bool"
    and step :: "'s \<Rightarrow> 's \<Rightarrow> bool"
    and ok :: "'s \<Rightarrow> bool"
  assumes step_ok: "ok s \<Longrightarrow> step s s' \<Longrightarrow> ok s'"
    and step_lock: "ok s \<Longrightarrow> step s s' \<Longrightarrow> lock s \<noteq> 0 \<Longrightarrow> lock s' = lock s"
    and step_changed: "ok s \<Longrightarrow> step s s' \<Longrightarrow> changed s \<noteq> 0 \<Longrightarrow> changed s' \<noteq> 0"
    and ok_changed: "ok s \<Longrightarrow> changed s \<noteq> 0 \<Longrightarrow> \<not> active s"
begin

lemma run:
  "step\<^sup>*\<^sup>* s s' \<Longrightarrow> ok s \<Longrightarrow>
     ok s' \<and> (lock s \<noteq> 0 \<longrightarrow> lock s' = lock s) \<and> (changed s \<noteq> 0 \<longrightarrow> changed s' \<noteq> 0)"
proof (induction rule: rtranclp_induct)
  case (step y z)
  with step_ok [of y z] step_lock [of y z] step_changed [of y z] show ?case by auto
qed simp

lemma run_off: "step\<^sup>*\<^sup>* s s' \<Longrightarrow> ok s \<Longrightarrow> changed s \<noteq> 0 \<Longrightarrow> \<not> active s'"
  using run [of s s'] ok_changed [of s'] by simp

end

end
