(* ===== verification/CoopItems.thy ===== *)
theory CoopItems
  imports CoopIds FileLock
begin

text \<open>
  The portable co-op item policy \<^verbatim>\<open>items_policy.h\<close>: ownership bit sets, the dependency rules a
  complete snapshot must satisfy, and the session state with its four operations.  Ownership is an
  array of 192 words; the abstraction \<open>owned_ids\<close> is the set of owned item numbers.
\<close>

section \<open>Ownership words\<close>

definition coop_item_has :: "u32 list \<Rightarrow> nat \<Rightarrow> bool" where
  "coop_item_has ws i \<longleftrightarrow> i < COOP_ITEMS \<and> ws ! (i div 32) AND bit32 (i mod 32) \<noteq> 0"

text \<open>\<open>words[id / 32] |= 1u << (id % 32)\<close>\<close>

definition coop_item_set :: "nat \<Rightarrow> u32 list \<Rightarrow> u32 list" where
  "coop_item_set i ws = ws[i div 32 := ws ! (i div 32) OR bit32 (i mod 32)]"

definition owned_ids :: "u32 list \<Rightarrow> nat set" where
  "owned_ids ws = {i. coop_item_has ws i}"

definition words_ok :: "u32 list \<Rightarrow> bool" where
  "words_ok ws \<longleftrightarrow> length ws = COOP_ITEM_WORDS"

definition words_union :: "u32 list \<Rightarrow> u32 list \<Rightarrow> u32 list" where
  "words_union a b = map2 (OR) a b"

lemma has_bit: "coop_item_has ws i \<longleftrightarrow> i < COOP_ITEMS \<and> bit (ws ! (i div 32)) (i mod 32)"
  by (simp add: coop_item_has_def and_bit32)

lemma length_set [simp]: "length (coop_item_set i ws) = length ws"
  by (simp add: coop_item_set_def)

lemma length_union [simp]: "words_ok a \<Longrightarrow> words_ok b \<Longrightarrow> words_ok (words_union a b)"
  by (simp add: words_ok_def words_union_def)

lemma has_set:
  assumes "words_ok ws" "i < COOP_ITEMS"
  shows "coop_item_has (coop_item_set i ws) j \<longleftrightarrow> coop_item_has ws j \<or> j = i"
proof -
  have same: "j = i \<longleftrightarrow> j div 32 = i div 32 \<and> j mod 32 = i mod 32" by (metis div_mult_mod_eq)
  have "i div 32 < length ws" using assms by (simp add: words_ok_def)
  then have "bit (coop_item_set i ws ! (j div 32)) (j mod 32) \<longleftrightarrow> bit (ws ! (j div 32)) (j mod 32) \<or> j = i"
    by (cases "j div 32 = i div 32") (auto simp: coop_item_set_def bit_or_iff same)
  with assms(2) show ?thesis by (auto simp: has_bit)
qed

lemma has_union:
  assumes "words_ok a" "words_ok b"
  shows "coop_item_has (words_union a b) i \<longleftrightarrow> coop_item_has a i \<or> coop_item_has b i"
proof (cases "i < COOP_ITEMS")
  case True
  then have "i div 32 < 192" by simp
  with assms show ?thesis by (auto simp: has_bit words_union_def words_ok_def bit_or_iff)
qed (simp add: has_bit)

lemma owned_union: "words_ok a \<Longrightarrow> words_ok b \<Longrightarrow> owned_ids (words_union a b) = owned_ids a \<union> owned_ids b"
  by (auto simp: owned_ids_def has_union)

section \<open>Dependencies\<close>

text \<open>
  The rules of \<^verbatim>\<open>coop_items_dependencies\<close> and \<^verbatim>\<open>coop_items_full_dependencies\<close> read the words
  only through \<^verbatim>\<open>coop_item_has\<close>, the test of the unused high bits apart; they are predicates on
  that test here.  A return of zero is \<open>False\<close>.
\<close>

definition page_rules :: "(nat \<Rightarrow> bool) \<Rightarrow> bool" where
  "page_rules has \<longleftrightarrow>
     (\<forall>i \<in> set [0..<COOP_SNIDE_COUNT]. \<not> (has (COOP_SNIDE_FIRST + i) \<and> \<not> has i)) \<and>
     (\<forall>i \<in> set [0..<15]. \<not> ((i mod 3 \<noteq> 0 \<and> has (COOP_MOVE_FIRST + i)) \<and> \<not> has (COOP_MOVE_FIRST + i - 1))) \<and>
     \<not> (has (COOP_SLAM_FIRST + 1) \<and> \<not> has COOP_SLAM_FIRST) \<and>
     \<not> (has (COOP_BELT_FIRST + 1) \<and> \<not> has COOP_BELT_FIRST) \<and>
     \<not> (has (COOP_MELON_FIRST + 1) \<and> \<not> has COOP_MELON_FIRST) \<and>
     (\<forall>i \<in> set [0..<4]. \<not> (has (COOP_TRAINING_SKILL_FIRST + i) \<and> \<not> has COOP_TRAINING_SPAWNED)) \<and>
     (if has COOP_TRAINING_COMPLETE \<or> has COOP_FIRST_SLAM then
        has COOP_TRAINING_SPAWNED \<and> (\<forall>i \<in> set [0..<4]. has (COOP_TRAINING_SKILL_FIRST + i)) else True) \<and>
     (if has COOP_KLUMSY_FREE then has COOP_LOBBY \<and> (\<forall>i \<in> set [0..<8]. has (COOP_KEY_TURN_FIRST + i)) else True)"

definition coop_items_dependencies :: "u32 list \<Rightarrow> bool" where
  "coop_items_dependencies ws \<longleftrightarrow>
     (\<forall>i \<in> set [COOP_ITEMS..<COOP_ITEM_WORDS * 32]. ws ! (i div 32) AND bit32 (i mod 32) = 0) \<and>
     page_rules (coop_item_has ws)"

text \<open>The scan of one feeding bucket: after the first milestone that is missing none may follow.\<close>

fun no_gap :: "bool \<Rightarrow> bool list \<Rightarrow> bool" where
  "no_gap gap [] = True"
| "no_gap gap (have # hs) = (if \<not> have then no_gap True hs else if gap then False else no_gap gap hs)"

definition bucket_bits :: "(nat \<Rightarrow> bool) \<Rightarrow> nat \<Rightarrow> bool list" where
  "bucket_bits has bucket =
     map (\<lambda>amount. has (COOP_TROFF_FIRST + bucket * COOP_TROFF_CAPACITY + amount)) [0..<COOP_TROFF_CAPACITY]"

definition requirement_owned :: "(nat \<Rightarrow> bool) \<Rightarrow> CoopWorldRequirement \<Rightarrow> nat" where
  "requirement_owned has r =
     sum_list (map (\<lambda>p. if has (unat (requirement_first r) + p) then 1 else 0) [0..<unat (requirement_count r)])"

definition world_rules :: "(nat \<Rightarrow> bool) \<Rightarrow> nat \<Rightarrow> bool" where
  "world_rules has i \<longleftrightarrow>
     \<not> ((0 \<le> sint (prerequisite (coop_world_unlocks ! i)) \<and> has (COOP_WORLD_FIRST + i)) \<and>
        \<not> has (COOP_WORLD_FIRST + nat (sint (prerequisite (coop_world_unlocks ! i))))) \<and>
     (if has (COOP_WORLD_FIRST + i) then
        \<forall>r \<in> set coop_world_requirements. requirement_flag r \<noteq> unlock_flag (coop_world_unlocks ! i) \<or>
          unat (requirement_minimum r) \<le> requirement_owned has r
      else True)"

definition warp_rule :: "(nat \<Rightarrow> bool) \<Rightarrow> nat \<Rightarrow> bool" where
  "warp_rule has i \<longleftrightarrow>
     \<not> ((0 \<le> sint (required_item (coop_warp_tags ! i)) \<and> has (COOP_WARP_FIRST + i)) \<and>
        \<not> has (nat (sint (required_item (coop_warp_tags ! i)))))"

definition complete_rules :: "(nat \<Rightarrow> bool) \<Rightarrow> bool" where
  "complete_rules has \<longleftrightarrow>
     (\<forall>i \<in> set [0..<8]. \<not> (has (COOP_KEY_TURN_FIRST + i) \<and> (\<not> has (70 + i) \<or> \<not> has COOP_LOBBY))) \<and>
     \<not> (has COOP_KROOL_DEFEATED \<and> \<not> has COOP_KLUMSY_FREE) \<and>
     \<not> (has COOP_ARCADE_COINS_PAID \<and> (\<not> has COOP_FACTORY_ARCADE_LEVER \<or> \<not> has (COOP_GB_FIRST + 54))) \<and>
     (\<forall>i \<in> set [0..<COOP_WARP_TAG_COUNT]. warp_rule has i) \<and>
     (\<forall>i \<in> set [0..<COOP_WORLD_UNLOCK_COUNT]. world_rules has i)"

definition coop_items_full_dependencies :: "u32 list \<Rightarrow> bool" where
  "coop_items_full_dependencies ws \<longleftrightarrow>
     coop_items_dependencies ws \<and>
     (\<forall>bucket \<in> set [0..<COOP_TROFF_BUCKETS]. no_gap False (bucket_bits (coop_item_has ws) bucket)) \<and>
     complete_rules (coop_item_has ws)"

section \<open>Rules closed under union\<close>

text \<open>
  A small calculus: tests that a union can only pass if a part does, tests a union passes if a part
  does, and negated ones, compose to rules that hold of a union when they hold of both parts.
\<close>

type_synonym owns = "nat \<Rightarrow> bool"

definition join :: "owns \<Rightarrow> owns \<Rightarrow> owns" where "join f g = (\<lambda>i. f i \<or> g i)"

definition prime :: "(owns \<Rightarrow> bool) \<Rightarrow> bool" where "prime M \<longleftrightarrow> (\<forall>f g. M (join f g) \<longrightarrow> M f \<or> M g)"
definition upward :: "(owns \<Rightarrow> bool) \<Rightarrow> bool" where "upward N \<longleftrightarrow> (\<forall>f g. N f \<or> N g \<longrightarrow> N (join f g))"
definition downward :: "(owns \<Rightarrow> bool) \<Rightarrow> bool" where "downward D \<longleftrightarrow> (\<forall>f g. D (join f g) \<longrightarrow> D f \<and> D g)"
definition closed :: "(owns \<Rightarrow> bool) \<Rightarrow> bool" where "closed P \<longleftrightarrow> (\<forall>f g. P f \<longrightarrow> P g \<longrightarrow> P (join f g))"

named_theorems closure \<open>rules of the union calculus\<close>

lemma prime_rules [closure]:
  "prime (\<lambda>h. h x)"
  "prime M \<Longrightarrow> prime N \<Longrightarrow> prime (\<lambda>h. M h \<or> N h)"
  "prime M \<Longrightarrow> prime (\<lambda>h. c \<and> M h)"
  unfolding prime_def join_def by blast+

lemma upward_rules [closure]:
  "upward (\<lambda>h. h x)"
  "upward M \<Longrightarrow> upward N \<Longrightarrow> upward (\<lambda>h. M h \<and> N h)"
  "upward M \<Longrightarrow> upward (\<lambda>h. c \<or> M h)"
  "(\<And>i. upward (N' i)) \<Longrightarrow> upward (\<lambda>h. \<forall>i \<in> S. N' i h)"
  unfolding upward_def join_def by blast+

lemma downward_rules [closure]:
  "downward (\<lambda>h. \<not> h x)"
  "downward D \<Longrightarrow> downward E \<Longrightarrow> downward (\<lambda>h. D h \<or> E h)"
  unfolding downward_def join_def by blast+

lemma closed_rules [closure]:
  "closed P \<Longrightarrow> closed Q \<Longrightarrow> closed (\<lambda>h. P h \<and> Q h)"
  "(\<And>i. closed (P' i)) \<Longrightarrow> closed (\<lambda>h. \<forall>i \<in> S. P' i h)"
  "prime M \<Longrightarrow> downward D \<Longrightarrow> closed (\<lambda>h. \<not> (M h \<and> D h))"
  "prime M \<Longrightarrow> upward N \<Longrightarrow> closed (\<lambda>h. if M h then N h else True)"
  unfolding closed_def prime_def upward_def downward_def by (meson | metis)+

lemma requirement_upward [closure]: "upward (\<lambda>h. n \<le> requirement_owned h r)"
proof -
  have "requirement_owned f r \<le> requirement_owned (join f g) r" "requirement_owned g r \<le> requirement_owned (join f g) r" for f g
    unfolding requirement_owned_def by (rule sum_list_mono; simp add: join_def)+
  then show ?thesis unfolding upward_def by (meson le_trans)
qed

lemma page_closed: "closed page_rules"
  unfolding page_rules_def [abs_def] by (intro closure)

lemma complete_closed: "closed complete_rules"
  unfolding complete_rules_def [abs_def] warp_rule_def world_rules_def by (intro closure)

section \<open>Merging snapshots\<close>

lemma has_union_join: "words_ok a \<Longrightarrow> words_ok b \<Longrightarrow> coop_item_has (words_union a b) = join (coop_item_has a) (coop_item_has b)"
  using has_union by (simp add: join_def fun_eq_iff)

lemma raw_union:
  assumes "words_ok a" "words_ok b" "i < COOP_ITEM_WORDS * 32"
  shows "words_union a b ! (i div 32) AND bit32 (i mod 32) = 0 \<longleftrightarrow>
    a ! (i div 32) AND bit32 (i mod 32) = 0 \<and> b ! (i div 32) AND bit32 (i mod 32) = 0"
proof -
  have "i div 32 < 192" using assms(3) by simp
  with assms(1,2) have "words_union a b ! (i div 32) = a ! (i div 32) OR b ! (i div 32)"
    by (simp add: words_union_def words_ok_def)
  moreover have "w AND bit32 k = 0 \<longleftrightarrow> \<not> (k < 32 \<and> bit w k)" for w k using and_bit32 [of w k] by blast
  ultimately show ?thesis by (auto simp: bit_or_iff)
qed

lemma no_gap_true: "no_gap True hs \<longleftrightarrow> (\<forall>k < length hs. \<not> hs ! k)"
  by (induction hs) (auto simp: less_Suc_eq_0_disj)

lemma no_gap_iff: "no_gap False hs \<longleftrightarrow> (\<forall>k < length hs. hs ! k \<longrightarrow> (\<forall>j < k. hs ! j))"
proof (induction hs)
  case (Cons h hs)
  have below: "(\<forall>j < Suc k. (h # hs) ! j) \<longleftrightarrow> h \<and> (\<forall>j < k. hs ! j)" for k by (simp add: All_less_Suc2)
  have "(\<forall>k < length (h # hs). (h # hs) ! k \<longrightarrow> (\<forall>j < k. (h # hs) ! j)) \<longleftrightarrow>
      (\<forall>k < length hs. hs ! k \<longrightarrow> h \<and> (\<forall>j < k. hs ! j))"
    by (simp add: All_less_Suc2 below)
  with Cons.IH show ?case by (cases h) (simp_all add: no_gap_true)
qed simp

text \<open>The amount a snapshot says was fed into a bucket.\<close>

definition coop_fed :: "u32 list \<Rightarrow> nat \<Rightarrow> nat" where
  "coop_fed ws bucket = length (takeWhile (\<lambda>b. b) (bucket_bits (coop_item_has ws) bucket))"

lemma bucket_bits_simps [simp]:
  "length (bucket_bits has bucket) = COOP_TROFF_CAPACITY"
  "k < COOP_TROFF_CAPACITY \<Longrightarrow> bucket_bits has bucket ! k = has (COOP_TROFF_FIRST + bucket * COOP_TROFF_CAPACITY + k)"
  by (simp_all add: bucket_bits_def del: upt_rec_numeral)

lemma fed_le: "coop_fed ws bucket \<le> COOP_TROFF_CAPACITY"
  using length_takeWhile_le [of "\<lambda>b. b" "bucket_bits (coop_item_has ws) bucket"] by (simp add: coop_fed_def)

lemma fed_bits:
  assumes "no_gap False (bucket_bits (coop_item_has ws) bucket)" "k < COOP_TROFF_CAPACITY"
  shows "coop_item_has ws (COOP_TROFF_FIRST + bucket * COOP_TROFF_CAPACITY + k) \<longleftrightarrow> k < coop_fed ws bucket"
proof -
  let ?b = "bucket_bits (coop_item_has ws) bucket"
  have "?b ! k \<longleftrightarrow> k < length (takeWhile (\<lambda>b. b) ?b)"
  proof
    assume "?b ! k"
    with assms have "\<forall>j \<le> k. ?b ! j" by (auto simp: no_gap_iff le_less)
    then show "k < length (takeWhile (\<lambda>b. b) ?b)"
      using assms(2) Suc_le_lessD by (intro Suc_le_lessD length_takeWhile_less_P_nth) simp_all
  next
    assume "k < length (takeWhile (\<lambda>b. b) ?b)"
    from set_takeWhileD [OF nth_mem [OF this]] takeWhile_nth [OF this] show "?b ! k" by simp
  qed
  with assms(2) show ?thesis by (simp add: coop_fed_def)
qed

lemma nat_same_below: "(\<And>k. k < n \<Longrightarrow> k < x \<longleftrightarrow> k < y) \<Longrightarrow> x \<le> n \<Longrightarrow> y \<le> n \<Longrightarrow> x = (y :: nat)"
  by (metis less_irrefl linorder_neqE_nat order.strict_trans2)

lemma bucket_union:
  assumes ok: "words_ok a" "words_ok b"
    and gaps: "no_gap False (bucket_bits (coop_item_has a) bucket)" "no_gap False (bucket_bits (coop_item_has b) bucket)"
  shows "no_gap False (bucket_bits (coop_item_has (words_union a b)) bucket)"
    "coop_fed (words_union a b) bucket = max (coop_fed a bucket) (coop_fed b bucket)"
proof -
  have merged: "coop_item_has (words_union a b) (COOP_TROFF_FIRST + bucket * COOP_TROFF_CAPACITY + k) \<longleftrightarrow>
      k < max (coop_fed a bucket) (coop_fed b bucket)" if "k < COOP_TROFF_CAPACITY" for k
    unfolding less_max_iff_disj has_union [OF ok] fed_bits [OF gaps(1) that] fed_bits [OF gaps(2) that] ..
  then show gap: "no_gap False (bucket_bits (coop_item_has (words_union a b)) bucket)"
    unfolding no_gap_iff by auto
  show "coop_fed (words_union a b) bucket = max (coop_fed a bucket) (coop_fed b bucket)"
  proof (rule nat_same_below [of COOP_TROFF_CAPACITY])
    fix k :: nat assume k: "k < COOP_TROFF_CAPACITY"
    show "k < coop_fed (words_union a b) bucket \<longleftrightarrow> k < max (coop_fed a bucket) (coop_fed b bucket)"
      using merged [OF k] fed_bits [OF gap k] by blast
  qed (simp_all add: fed_le)
qed

text \<open>
  C12: merging is safe without coordination: the bitwise union of two snapshots that satisfy every
  dependency rule satisfies them too, and in each of the 35 feeding buckets it means the larger of the
  two payments, never their sum.
\<close>

theorem merge_keeps_dependencies:
  assumes "words_ok a" and "words_ok b"
    and "coop_items_full_dependencies a" and "coop_items_full_dependencies b"
  shows "coop_items_full_dependencies (words_union a b) \<and> owned_ids (words_union a b) = owned_ids a \<union> owned_ids b \<and>
    (\<forall>bucket < COOP_TROFF_BUCKETS. coop_fed (words_union a b) bucket = max (coop_fed a bucket) (coop_fed b bucket))"
proof -
  note ok = assms(1,2) and join = has_union_join [OF assms(1,2)]
  have gaps: "no_gap False (bucket_bits (coop_item_has w) bucket)" if "bucket < COOP_TROFF_BUCKETS" "w = a \<or> w = b" for bucket w
    using assms(3,4) that by (auto simp: coop_items_full_dependencies_def simp del: upt_rec_numeral)
  have "\<forall>bucket \<in> set [0..<COOP_TROFF_BUCKETS]. no_gap False (bucket_bits (coop_item_has (words_union a b)) bucket)"
    using bucket_union(1) [OF ok] gaps by (simp del: upt_rec_numeral)
  moreover have "\<forall>i \<in> set [COOP_ITEMS..<COOP_ITEM_WORDS * 32]. words_union a b ! (i div 32) AND bit32 (i mod 32) = 0"
  proof
    fix i assume i: "i \<in> set [COOP_ITEMS..<COOP_ITEM_WORDS * 32]"
    then have "i < COOP_ITEM_WORDS * 32" by (simp del: upt_rec_numeral)
    from raw_union [OF ok this] i assms(3,4) show "words_union a b ! (i div 32) AND bit32 (i mod 32) = 0"
      unfolding coop_items_full_dependencies_def coop_items_dependencies_def by blast
  qed
  moreover have "page_rules (coop_item_has (words_union a b))" "complete_rules (coop_item_has (words_union a b))"
    using assms(3,4) page_closed complete_closed unfolding join
    by (simp_all only: coop_items_full_dependencies_def coop_items_dependencies_def closed_def simp_thms)
  ultimately have "coop_items_full_dependencies (words_union a b)"
    unfolding coop_items_full_dependencies_def coop_items_dependencies_def by blast
  with bucket_union(2) [OF ok] gaps owned_union [OF ok] show ?thesis by simp
qed

text \<open>Two peers: one has opened the lobby, the other has fed three bananas into bucket nought.\<close>

definition lobby_snapshot :: "u32 list" where
  "lobby_snapshot = coop_item_set COOP_LOBBY (replicate 192 0)"

definition fed_snapshot :: "u32 list" where
  "fed_snapshot = coop_item_set 2394 (coop_item_set 2395 (coop_item_set 2396 (replicate 192 0)))"

lemma nothing_owned: "\<not> coop_item_has (replicate 192 0) i"
  by (auto simp: has_bit)

lemma snapshot_simps:
  "words_ok lobby_snapshot" "words_ok fed_snapshot"
  "coop_item_has lobby_snapshot = (\<lambda>i. i = COOP_LOBBY)"
  "coop_item_has fed_snapshot = (\<lambda>i. i = 2394 \<or> i = 2395 \<or> i = 2396)"
  using nothing_owned by (auto simp: lobby_snapshot_def fed_snapshot_def words_ok_def has_set fun_eq_iff)

lemma high_bits:
  assumes "words_ok ws" "\<forall>i \<in> set [COOP_ITEMS..<COOP_ITEM_WORDS * 32]. ws ! (i div 32) AND bit32 (i mod 32) = 0" "j < 5888"
  shows "\<forall>i \<in> set [COOP_ITEMS..<COOP_ITEM_WORDS * 32]. coop_item_set j ws ! (i div 32) AND bit32 (i mod 32) = 0"
proof
  fix i assume i: "i \<in> set [COOP_ITEMS..<COOP_ITEM_WORDS * 32]"
  then have "184 \<le> i div 32" using div_le_mono [of 5897 i 32] by (simp del: upt_rec_numeral)
  moreover have "j div 32 < 184" using assms(3) by (simp add: div_less_iff_less_mult)
  ultimately have "i div 32 \<noteq> j div 32" by simp
  with i assms(2) show "coop_item_set j ws ! (i div 32) AND bit32 (i mod 32) = 0" by (simp add: coop_item_set_def del: upt_rec_numeral)
qed

lemma lobby_complete: "coop_items_full_dependencies lobby_snapshot"
proof -
  have "\<forall>i \<in> set [COOP_ITEMS..<COOP_ITEM_WORDS * 32]. lobby_snapshot ! (i div 32) AND bit32 (i mod 32) = 0"
    unfolding lobby_snapshot_def by (rule high_bits) (auto simp: words_ok_def simp del: upt_rec_numeral)
  then show ?thesis
    by (simp add: coop_items_full_dependencies_def coop_items_dependencies_def page_rules_def complete_rules_def
        warp_rule_def world_rules_def snapshot_simps no_gap_iff del: upt_rec_numeral)
qed

lemma fed_complete: "coop_items_full_dependencies fed_snapshot"
proof -
  have "\<forall>i \<in> set [COOP_ITEMS..<COOP_ITEM_WORDS * 32]. fed_snapshot ! (i div 32) AND bit32 (i mod 32) = 0"
    unfolding fed_snapshot_def by (intro high_bits) (auto simp: words_ok_def simp del: upt_rec_numeral)
  moreover have "no_gap False (bucket_bits (\<lambda>i. i = 2394 \<or> i = 2395 \<or> i = 2396) bucket)" for bucket
    unfolding no_gap_iff by (auto; presburger)
  ultimately show ?thesis
    by (simp add: coop_items_full_dependencies_def coop_items_dependencies_def page_rules_def complete_rules_def
        warp_rule_def world_rules_def snapshot_simps del: upt_rec_numeral)
qed

theorem merge_keeps_dependencies_witness:
  "coop_items_full_dependencies (words_union lobby_snapshot fed_snapshot) \<and>
   coop_fed (words_union lobby_snapshot fed_snapshot) 0 = max (coop_fed lobby_snapshot 0) (coop_fed fed_snapshot 0)"
  using merge_keeps_dependencies [OF snapshot_simps(1,2) lobby_complete fed_complete] by simp

section \<open>The session\<close>

record CoopItemInput =
  enabled :: u32
  input_file :: u32
  ready :: u32
  owned :: "u32 list"
  request :: "u32 list"
  session_hi :: u32
  session_lo :: u32
  scope :: u32

record CoopItemResult =
  result_status :: u32
  apply_words :: "u32 list"
  acknowledged :: "u32 list"
  result_session_hi :: u32
  result_session_lo :: u32
  result_scope :: u32

record CoopItems =
  input :: CoopItemInput
  result :: CoopItemResult
  locked_file :: u32
  file_changed :: u32
  applying :: u32
  save_pending :: u32
  counter_error :: u32
  hud_pending :: u32
  troff_pending :: u32
  refresh_enabled :: u32
  refresh_pending :: u32
  refresh_map :: u32
  baseline :: u32
  join_role :: u32
  bound :: u32
  deferred :: u32
  live_snapshot :: u32
  world_save_pending :: u32
  previous :: "u32 list"
  wait_reason :: u32
  wait_id :: u32
  peer_same_map :: u32
  training_scene_pending :: u32

abbreviation (input) update_input :: "(CoopItemInput \<Rightarrow> CoopItemInput) \<Rightarrow> CoopItems \<Rightarrow> CoopItems" where
  "update_input f g \<equiv> g\<lparr>input := f (input g)\<rparr>"

definition no_words :: "u32 list" where "no_words = replicate COOP_ITEM_WORDS 0"

definition coop_items_wait :: "CoopItems \<Rightarrow> u32 \<Rightarrow> u32 \<Rightarrow> CoopItems" where
  "coop_items_wait g reason i =
     (if wait_reason g = 0 \<or> i < wait_id g then g\<lparr>wait_reason := reason, wait_id := i\<rparr> else g)"

definition request_item :: "nat \<Rightarrow> CoopItems \<Rightarrow> CoopItems" where
  "request_item i g = update_input (\<lambda>n. n\<lparr>request := coop_item_set i (request n)\<rparr>) g"

definition coop_items_note :: "CoopItems \<Rightarrow> nat \<Rightarrow> CoopItems" where
  "coop_items_note g i =
     (if join_role g \<noteq> 0 \<and> ready (input g) \<noteq> 0 \<and> scope (input g) \<noteq> 0 \<and> bound g \<noteq> 0 then request_item i g else g)"

text \<open>The choice of the session's file at the start of every frame.\<close>

definition lock_file :: "u32 \<Rightarrow> u32 \<Rightarrow> u32 \<Rightarrow> CoopItems \<Rightarrow> CoopItems" where
  "lock_file enable adventure file g =
     (if enable \<noteq> 0 \<and> adventure \<noteq> 0 \<and> file < 3 then
        if locked_file g = 0 then g\<lparr>locked_file := file + 1\<rparr>
        else if locked_file g \<noteq> file + 1 then g\<lparr>file_changed := 1\<rparr> else g
      else g)"

definition coop_items_prepare :: "CoopItems \<Rightarrow> u32 \<Rightarrow> u32 \<Rightarrow> u32 \<Rightarrow> CoopItems" where
  "coop_items_prepare g enable adventure file =
     (let g = lock_file enable adventure file g;
          on = (if file_changed g \<noteq> 0 then 0 else enable);
          g = update_input (\<lambda>n. n\<lparr>enabled := on, input_file := locked_file g,
            ready := (if on \<noteq> 0 \<and> counter_error g = 0 \<and> adventure \<noteq> 0 \<and> file < 3 \<and> locked_file g = file + 1 then 1 else 0)\<rparr>) g
      in if enabled (input g) \<noteq> 0 then g
         else (update_input (\<lambda>n. n\<lparr>request := no_words\<rparr>) g)
           \<lparr>save_pending := 0, world_save_pending := 0, hud_pending := 0, refresh_pending := 0\<rparr>)"

definition coop_items_receive :: "CoopItems \<Rightarrow> CoopItemResult \<Rightarrow> CoopItems" where
  "coop_items_receive g r =
     (let changed = (result_session_hi r \<noteq> session_hi (input g) \<or> result_session_lo r \<noteq> session_lo (input g) \<or>
            result_scope r \<noteq> scope (input g));
          g = (if changed \<or> result_status r = 4 then g\<lparr>bound := 0\<rparr> else g);
          g = (if result_status r = 2 \<or> result_status r = 3 then g\<lparr>bound := 1\<rparr> else g)
      in (update_input (\<lambda>n. n\<lparr>request := map2 (\<lambda>q a. if changed then 0 else q AND NOT a) (request n) (acknowledged r),
            session_hi := result_session_hi r, session_lo := result_session_lo r, scope := result_scope r\<rparr>) g)
         \<lparr>result := r\<rparr>)"

definition coop_items_observe ::
  "CoopItems \<Rightarrow> u32 \<Rightarrow> int \<Rightarrow> u32 \<Rightarrow> u32 \<Rightarrow> u32 \<Rightarrow> u32 \<Rightarrow> u32 \<Rightarrow> CoopItems" where
  "coop_items_observe g join_mode flag v type already_owned adventure file =
     (if join_mode = 0 \<or> enabled (input g) = 0 \<or> ready (input g) = 0 \<or> applying g \<noteq> 0 \<or> v = 0 \<or> type \<noteq> 0 \<or>
         already_owned \<noteq> 0 \<or> adventure = 0 \<or> 3 \<le> file \<or> locked_file g \<noteq> file + 1 \<or> scope (input g) = 0 \<or>
         (result_status (result g) \<noteq> 2 \<and> result_status (result g) \<noteq> 3) then g
      else let i = coop_item_id flag in if 0 \<le> i then request_item (nat i) g else g)"

text \<open>The policy's operations, in any order and with any arguments.\<close>

inductive items_step :: "CoopItems \<Rightarrow> CoopItems \<Rightarrow> bool" where
  prepared: "items_step g (coop_items_prepare g enable adventure file)"
| received: "words_ok (acknowledged r) \<Longrightarrow> items_step g (coop_items_receive g r)"
| noted: "i < COOP_ITEMS \<Longrightarrow> items_step g (coop_items_note g i)"
| observed: "items_step g (coop_items_observe g join_mode flag v type already_owned adventure file)"
| waited: "items_step g (coop_items_wait g reason w)"

inductive_cases items_stepE: "items_step g g'"

definition items_ok :: "CoopItems \<Rightarrow> bool" where
  "items_ok g \<longleftrightarrow> words_ok (request (input g)) \<and>
     (ready (input g) \<noteq> 0 \<longrightarrow> enabled (input g) \<noteq> 0 \<and> locked_file g \<noteq> 0 \<and> input_file (input g) = locked_file g \<and>
        counter_error g = 0) \<and>
     (enabled (input g) = 0 \<longrightarrow> owned_ids (request (input g)) = {}) \<and>
     (file_changed g \<noteq> 0 \<longrightarrow> enabled (input g) = 0)"

lemma no_words_ok [simp]: "words_ok no_words" "owned_ids no_words = {}"
  using nothing_owned by (simp_all add: no_words_def words_ok_def owned_ids_def)

lemma request_item_simps [simp]:
  "enabled (input (request_item i g)) = enabled (input g)" "ready (input (request_item i g)) = ready (input g)"
  "input_file (input (request_item i g)) = input_file (input g)" "scope (input (request_item i g)) = scope (input g)"
  "locked_file (request_item i g) = locked_file g" "file_changed (request_item i g) = file_changed g"
  "counter_error (request_item i g) = counter_error g"
  "request (input (request_item i g)) = coop_item_set i (request (input g))"
  by (simp_all add: request_item_def)

lemma item_id_bound: "coop_item_id flag = int i \<Longrightarrow> i < COOP_ITEMS"
  by (cases flag rule: item_id_cases) (auto simp: flagged_members)

lemma request_ok:
  "items_ok g \<Longrightarrow> ready (input g) \<noteq> 0 \<Longrightarrow> i < COOP_ITEMS \<Longrightarrow> items_ok (request_item i g)"
  by (auto simp: items_ok_def words_ok_def)

lemma set_owned: "words_ok ws \<Longrightarrow> i < COOP_ITEMS \<Longrightarrow> owned_ids (coop_item_set i ws) = insert i (owned_ids ws)"
  by (auto simp: owned_ids_def has_set)

lemma prepare_ok:
  assumes "items_ok g"
  shows "items_ok (coop_items_prepare g enable adventure file) \<and>
    (locked_file g \<noteq> 0 \<longrightarrow> locked_file (coop_items_prepare g enable adventure file) = locked_file g) \<and>
    (file_changed g \<noteq> 0 \<longrightarrow> file_changed (coop_items_prepare g enable adventure file) \<noteq> 0)"
proof -
  define h where "h = lock_file enable adventure file g"
  have h: "locked_file g \<noteq> 0 \<longrightarrow> locked_file h = locked_file g" "file_changed g \<noteq> 0 \<longrightarrow> file_changed h \<noteq> 0"
    "request (input h) = request (input g)"
    by (auto simp: h_def lock_file_def)
  have nonzero: "file + 1 \<noteq> 0" if "file < 3"
  proof
    assume "file + 1 = 0"
    then have "file = - 1" by (simp add: eq_neg_iff_add_eq_0)
    with that show False by simp
  qed
  show ?thesis
    using assms h nonzero unfolding coop_items_prepare_def h_def [symmetric] Let_def items_ok_def
    by (auto split: if_splits)
qed

lemma receive_ok:
  assumes "items_ok g" "words_ok (acknowledged r)"
  shows "items_ok (coop_items_receive g r) \<and> locked_file (coop_items_receive g r) = locked_file g \<and>
    file_changed (coop_items_receive g r) = file_changed g \<and>
    (\<forall>i. coop_item_has (request (input (coop_items_receive g r))) i \<longleftrightarrow>
       coop_item_has (request (input g)) i \<and> \<not> coop_item_has (acknowledged r) i \<and>
       result_session_hi r = session_hi (input g) \<and> result_session_lo r = session_lo (input g) \<and>
       result_scope r = scope (input g))"
proof -
  let ?same = "result_session_hi r = session_hi (input g) \<and> result_session_lo r = session_lo (input g) \<and>
    result_scope r = scope (input g)"
  let ?q = "request (input (coop_items_receive g r))"
  have q: "?q = map2 (\<lambda>q a. if \<not> ?same then 0 else q AND NOT a) (request (input g)) (acknowledged r)"
    by (simp add: coop_items_receive_def Let_def)
  have kept: "enabled (input (coop_items_receive g r)) = enabled (input g)" "ready (input (coop_items_receive g r)) = ready (input g)"
    "input_file (input (coop_items_receive g r)) = input_file (input g)" "locked_file (coop_items_receive g r) = locked_file g"
    "file_changed (coop_items_receive g r) = file_changed g" "counter_error (coop_items_receive g r) = counter_error g"
    by (simp_all add: coop_items_receive_def Let_def)
  have lens: "words_ok (request (input g))" using assms(1) by (simp add: items_ok_def)
  have ok: "words_ok ?q" using lens assms(2) by (simp add: q words_ok_def)
  have has: "coop_item_has ?q i \<longleftrightarrow> coop_item_has (request (input g)) i \<and> \<not> coop_item_has (acknowledged r) i \<and> ?same" for i
  proof (cases "i < COOP_ITEMS")
    case True
    then have "i div 32 < 192" by simp
    with lens assms(2) have word: "?q ! (i div 32) = (if \<not> ?same then 0
        else request (input g) ! (i div 32) AND NOT (acknowledged r ! (i div 32)))"
      unfolding q by (simp add: words_ok_def)
    from True show ?thesis unfolding has_bit word by (auto simp: bit_and_iff bit_not_iff)
  qed (simp add: has_bit)
  then have "owned_ids ?q \<subseteq> owned_ids (request (input g))" by (auto simp: owned_ids_def)
  with assms(1) ok kept have "items_ok (coop_items_receive g r)" by (auto simp: items_ok_def)
  with kept has show ?thesis by blast
qed

lemma note_cases: "coop_items_note g i = g \<or>
    join_role g \<noteq> 0 \<and> ready (input g) \<noteq> 0 \<and> scope (input g) \<noteq> 0 \<and> bound g \<noteq> 0 \<and>
      coop_items_note g i = request_item i g"
  by (simp add: coop_items_note_def)

lemma observe_cases:
  "coop_items_observe g j flag v t have_it adv f0 = g \<or>
   (\<exists>i. coop_item_id flag = int i \<and> ready (input g) \<noteq> 0 \<and> i < COOP_ITEMS \<and> v \<noteq> 0 \<and> have_it = 0 \<and> applying g = 0 \<and>
      scope (input g) \<noteq> 0 \<and> coop_items_observe g j flag v t have_it adv f0 = request_item i g)"
proof (cases flag rule: item_id_cases)
  case unknown
  then show ?thesis by (simp add: coop_items_observe_def)
next
  case (known i)
  with item_id_bound [of flag i] show ?thesis by (simp add: coop_items_observe_def)
qed

lemma items_step_lock:
  assumes "items_ok g" "items_step g g'"
  shows "items_ok g' \<and> (locked_file g \<noteq> 0 \<longrightarrow> locked_file g' = locked_file g) \<and>
    (file_changed g \<noteq> 0 \<longrightarrow> file_changed g' \<noteq> 0)"
  using assms(2)
proof (rule items_stepE)
  fix enable adventure f0 assume "g' = coop_items_prepare g enable adventure f0"
  with prepare_ok [OF assms(1)] show ?thesis by simp
next
  fix r assume "words_ok (acknowledged r)" "g' = coop_items_receive g r"
  with receive_ok [OF assms(1), of r] show ?thesis by simp
next
  fix i assume "i < COOP_ITEMS" "g' = coop_items_note g i"
  with note_cases [of g i] request_ok [OF assms(1), of i] assms(1) show ?thesis by auto
next
  fix j flag v t have_it adv f0 assume "g' = coop_items_observe g j flag v t have_it adv f0"
  with observe_cases [of g j flag v t have_it adv f0] request_ok [OF assms(1)] assms(1) show ?thesis by auto
next
  fix reason w assume "g' = coop_items_wait g reason w"
  with assms(1) show ?thesis by (simp add: coop_items_wait_def items_ok_def)
qed

interpretation items_lock:
  file_lock locked_file file_changed "\<lambda>g. enabled (input g) \<noteq> 0 \<or> ready (input g) \<noteq> 0 \<or> owned_ids (request (input g)) \<noteq> {}"
    items_step items_ok
proof unfold_locales
  fix g g' assume a: "items_ok g" "items_step g g'"
  from items_step_lock [OF a] show "items_ok g'" "locked_file g \<noteq> 0 \<Longrightarrow> locked_file g' = locked_file g"
    "file_changed g \<noteq> 0 \<Longrightarrow> file_changed g' \<noteq> 0" by simp_all
next
  fix g assume "items_ok g" "file_changed g \<noteq> 0"
  then show "\<not> (enabled (input g) \<noteq> 0 \<or> ready (input g) \<noteq> 0 \<or> owned_ids (request (input g)) \<noteq> {})"
    by (auto simp: items_ok_def)
qed

text \<open>
  C13: a co-op session never leaves its save file.  Once a file is locked it stays locked, and after one
  frame on another file the channel is off for good: in every later state it is disabled and not ready,
  and no item request is outstanding.
\<close>

theorem items_leave_file:
  assumes "items_ok g" and "enable \<noteq> 0" and "adventure \<noteq> 0" and "f0 < 3"
    and "locked_file g \<noteq> 0" and "locked_file g \<noteq> f0 + 1"
    and "items_step\<^sup>*\<^sup>* (coop_items_prepare g enable adventure f0) g'"
  shows "locked_file g' = locked_file g \<and> enabled (input g') = 0 \<and> ready (input g') = 0 \<and>
    owned_ids (request (input g')) = {}"
proof -
  let ?g = "coop_items_prepare g enable adventure f0"
  have changed: "file_changed ?g \<noteq> 0"
    using assms(2-6) by (auto simp: coop_items_prepare_def lock_file_def Let_def)
  have ok: "items_ok ?g" "locked_file ?g = locked_file g" using prepare_ok [OF assms(1)] assms(5) by simp_all
  from items_lock.run [OF assms(7) ok(1)] items_lock.run_off [OF assms(7) ok(1) changed] ok(2) assms(5)
  show ?thesis by auto
qed


section \<open>A concrete session\<close>

definition example_items_session :: CoopItems where
  "example_items_session = \<lparr>input = \<lparr>enabled = 1, input_file = 1, ready = 1, owned = no_words, request = no_words,
       session_hi = 1, session_lo = 2, scope = 3\<rparr>,
     result = \<lparr>result_status = 2, apply_words = no_words, acknowledged = no_words, result_session_hi = 1,
       result_session_lo = 2, result_scope = 3\<rparr>,
     locked_file = 1, file_changed = 0, applying = 0, save_pending = 0, counter_error = 0, hud_pending = 0,
     troff_pending = 0, refresh_enabled = 0, refresh_pending = 0, refresh_map = 0, baseline = 1, join_role = 1, bound = 1,
     deferred = 0, live_snapshot = 1, world_save_pending = 0, previous = no_words, wait_reason = 0, wait_id = 0,
     peer_same_map = 0, training_scene_pending = 0\<rparr>"

lemma example_items_ok: "items_ok example_items_session"
  by (simp add: items_ok_def example_items_session_def)

theorem items_leave_file_witness:
  "enabled (input (coop_items_observe (coop_items_prepare example_items_session 1 1 2) 1 11 1 0 0 1 2)) = 0"
proof -
  have step: "items_step (coop_items_prepare example_items_session 1 1 2)
      (coop_items_observe (coop_items_prepare example_items_session 1 1 2) 1 11 1 0 0 1 2)" by (rule items_step.observed)
  show ?thesis
    using items_leave_file [OF example_items_ok _ _ _ _ _ r_into_rtranclp [where r = items_step, OF step]]
    by (simp add: example_items_session_def)
qed


end
