(* ===== verification/CoopScene.thy ===== *)
theory CoopScene
  imports CoopTables
begin

text \<open>
  The loaded scene of co-op: instance scripts of props, actors and their spawners, with the table of
  permanent world changes that may be shown in a loaded map (\<^verbatim>\<open>world_live_game.h\<close>) and the adapters of
  \<^verbatim>\<open>coop.c\<close> it calls: collectible sources, script states and the special actors.  The code first checks
  that every object of a change is loaded and idle, then changes them; the theorems say that the change
  is all or nothing and never interrupts a sequence the local player started.
\<close>

section \<open>State\<close>

datatype actor_kind =
  ACTOR_LLAMA | ACTOR_SEAL | ACTOR_SEAL_0 | ACTOR_RABBIT_RACE | ACTOR_BEANSTALK | ACTOR_MERMAID | ACTOR_OTHER

text \<open>\<open>properties\<close> is \<^verbatim>\<open>object_properties_bitfield\<close>, whose bit 4 marks an initialized actor.\<close>

record live_actor =
  kind :: actor_kind
  properties :: u32
  noclip :: u8
  control_state :: u8
  control_state_progress :: u8

record Prop_ScriptData =
  unk44 :: s16
  unk48 :: u8
  unk54 :: s8
  unk60 :: u8
  unk62 :: s16
  unk66 :: u8

record live_prop =
  unk8A :: s16
  object_type :: s16
  unk7C :: "Prop_ScriptData option"

text \<open>
  A spawner: \<open>spawn_flag\<close> is the third of its spawn values as the code reads it, cast to \<open>short\<close>;
  \<open>tied_type\<close> is the type of its actor as an \<open>unsigned short\<close>, if it has one.
\<close>

record ActorSpawner =
  spawner_id :: s16
  spawner_type :: s16
  tied_type :: "u16 option"
  spawn_flag :: s16

text \<open>What the mod asks of the game, in order.\<close>

datatype coop_call =
  SaveGame | RefreshHud |
  SelectState nat int |
  NotifySpawner int int |
  DetachProp int | RemoveProp int | RemoveSpawner nat |
  DeleteActor nat |
  SetModel nat int | SetScale nat | SetChannel nat int int

text \<open>
  \<open>script_slots\<close> is \<^verbatim>\<open>D_global_asm_807F6240\<close>, \<open>scene_props\<close> the array \<^verbatim>\<open>D_global_asm_807F6000\<close> when it
  is loaded, \<open>actors\<close> the registry \<^verbatim>\<open>D_global_asm_807FB930\<close> up to its count, \<open>spawners\<close> the list behind
  \<^verbatim>\<open>actor_spawner_pointer\<close>.  \<open>flags\<close> are the permanent flags of the save.
\<close>

record live_game =
  flags :: "int \<Rightarrow> bool"
  coop_calls :: "coop_call list"
  script_slots :: "s16 list"
  scene_props :: "(int \<Rightarrow> live_prop) option"
  actors :: "live_actor option list"
  spawners :: "ActorSpawner list"

text \<open>
  Answers of the stock game: the current map, the prop that belongs to an object handle
  (\<^verbatim>\<open>func_global_asm_80659470\<close>), the actor type of a golden banana, and which seal actors are nearer to
  the cage than to the race, a floating-point comparison of positions.
\<close>

record live_env =
  env_map :: int
  prop_index :: "int \<Rightarrow> int"
  golden_banana_type :: u16
  seal_at_cage :: "nat \<Rightarrow> bool"

definition call_game :: "coop_call \<Rightarrow> 'a live_game_scheme \<Rightarrow> 'a live_game_scheme" where
  "call_game c s = s\<lparr>coop_calls := coop_calls s @ [c]\<rparr>"

abbreviation (input) on_map :: "'e live_env_scheme \<Rightarrow> u32 \<Rightarrow> bool" where
  "on_map e m \<equiv> word_of_int (env_map e) = m"

section \<open>Collectible sources\<close>

definition coop_collectible_prop_ready ::
  "'e live_env_scheme \<Rightarrow> 'a live_game_scheme \<Rightarrow> nat \<Rightarrow> nat \<Rightarrow> bool" where
  "coop_collectible_prop_ready e s object type =
     (if object \<ge> 600 then False
      else case scene_props s of None \<Rightarrow> False | Some props \<Rightarrow>
        let handle = sint (script_slots s ! object)
        in if handle < 0 then False
           else let i = prop_index e handle
             in i \<ge> 0 \<and> unat (unk8A (props i)) = object \<and> unat (object_type (props i)) = type)"

definition coop_collectible_prop_retire ::
  "'e live_env_scheme \<Rightarrow> nat \<Rightarrow> nat \<Rightarrow> 'a live_game_scheme \<Rightarrow> 'a live_game_scheme" where
  "coop_collectible_prop_retire e object type s =
     (if \<not> coop_collectible_prop_ready e s object type then s
      else let handle = sint (script_slots s ! object)
        in call_game (RemoveProp handle) (call_game (DetachProp handle) s))"

text \<open>
  The first spawner with the object's number and type decides; it fails when an actor of another type
  is tied to it.  A spawner is named by its place in the list.
\<close>

definition actor_type_of :: "ActorSpawner \<Rightarrow> u16" where
  "actor_type_of sp = spawner_type sp + 0x10"

definition coop_collectible_actor_source :: "'a live_game_scheme \<Rightarrow> nat \<Rightarrow> nat \<Rightarrow> nat option" where
  "coop_collectible_actor_source s object type =
     (case find (\<lambda>i. unat (spawner_id (spawners s ! i)) = object \<and> unat (actor_type_of (spawners s ! i)) = type)
         [0..<length (spawners s)] of
        None \<Rightarrow> None
      | Some i \<Rightarrow>
          (case tied_type (spawners s ! i) of None \<Rightarrow> Some i
           | Some t \<Rightarrow> if unat t \<noteq> type then None else Some i))"

definition coop_collectible_actor_ready :: "'a live_game_scheme \<Rightarrow> nat \<Rightarrow> nat \<Rightarrow> bool" where
  "coop_collectible_actor_ready s object type \<longleftrightarrow> coop_collectible_actor_source s object type \<noteq> None"

definition retire_spawner :: "nat option \<Rightarrow> 'a live_game_scheme \<Rightarrow> 'a live_game_scheme" where
  "retire_spawner sp s = (case sp of None \<Rightarrow> s | Some i \<Rightarrow> call_game (RemoveSpawner i) s)"

definition coop_collectible_actor_retire :: "nat \<Rightarrow> nat \<Rightarrow> 'a live_game_scheme \<Rightarrow> 'a live_game_scheme" where
  "coop_collectible_actor_retire object type s = retire_spawner (coop_collectible_actor_source s object type) s"

definition coop_collectible_reward_actor_source :: "'e live_env_scheme \<Rightarrow> 'a live_game_scheme \<Rightarrow> int \<Rightarrow> nat option" where
  "coop_collectible_reward_actor_source e s flag =
     find (\<lambda>i. actor_type_of (spawners s ! i) = golden_banana_type e \<and> spawn_flag (spawners s ! i) = word_of_int flag)
       [0..<length (spawners s)]"

definition coop_collectible_reward_actor_retire :: "'e live_env_scheme \<Rightarrow> int \<Rightarrow> 'a live_game_scheme \<Rightarrow> 'a live_game_scheme"
  where "coop_collectible_reward_actor_retire e flag s = retire_spawner (coop_collectible_reward_actor_source e s flag) s"

section \<open>The table of loaded world changes\<close>

datatype live_mode =
  DIRECT | REPLAY | PERMANENT | REQUIRE | NOOP | CONTINUE_GALLEON | REVEAL | MERMAID | ISLES_TROMBONE | LLAMA_FREE |
  LLAMA_WATER | SEAL | MUSHROOM_SWITCH | RABBIT | BEANSTALK

datatype CoopLiveWorldState =
  LiveWorld (live_map: u16) (live_flag: u16) (live_object: u16) (live_state: u8) (live_mode: live_mode)

definition coop_live_world_states_1 :: "CoopLiveWorldState list" where
  "coop_live_world_states_1 = [
   LiveWorld 7 0 26 20 DIRECT, LiveWorld 7 0 27 20 DIRECT, LiveWorld 7 7 52 20 DIRECT,
   LiveWorld 7 7 53 20 DIRECT, LiveWorld 7 7 51 20 DIRECT, LiveWorld 7 13 56 20 DIRECT,
   LiveWorld 7 13 65 7 DIRECT, LiveWorld 7 14 58 20 DIRECT, LiveWorld 7 14 63 7 DIRECT,
   LiveWorld 7 15 59 20 DIRECT, LiveWorld 7 15 64 7 DIRECT, LiveWorld 7 16 57 20 DIRECT,
   LiveWorld 7 16 62 7 DIRECT, LiveWorld 7 30 39 20 DIRECT, LiveWorld 7 30 40 20 DIRECT,
   LiveWorld 26 110 22 20 DIRECT, LiveWorld 26 110 176 20 DIRECT, LiveWorld 26 129 45 20 DIRECT,
   LiveWorld 30 153 2 20 DIRECT, LiveWorld 30 153 6 20 DIRECT, LiveWorld 30 153 7 20 DIRECT,
   LiveWorld 30 161 3 20 DIRECT, LiveWorld 30 161 8 20 DIRECT, LiveWorld 30 161 9 20 DIRECT,
   LiveWorld 30 155 4 20 DIRECT, LiveWorld 30 155 10 20 DIRECT, LiveWorld 30 155 11 20 DIRECT,
   LiveWorld 38 47 159 20 DIRECT, LiveWorld 38 47 160 20 DIRECT, LiveWorld 38 47 64 20 DIRECT,
   LiveWorld 38 48 157 20 DIRECT, LiveWorld 38 48 158 20 DIRECT, LiveWorld 38 48 141 20 DIRECT,
   LiveWorld 48 207 23 20 DIRECT, LiveWorld 48 207 24 20 DIRECT, LiveWorld 48 207 25 20 DIRECT,
   LiveWorld 48 208 28 20 DIRECT, LiveWorld 48 208 26 20 DIRECT, LiveWorld 48 208 27 20 DIRECT,
   LiveWorld 48 210 29 20 DIRECT, LiveWorld 48 210 30 20 DIRECT, LiveWorld 7 46 44 20 DIRECT,
   LiveWorld 7 46 55 20 DIRECT, LiveWorld 7 46 282 20 DIRECT, LiveWorld 38 108 8 20 DIRECT,
   LiveWorld 38 108 9 20 DIRECT, LiveWorld 38 108 10 20 DIRECT, LiveWorld 38 108 11 20 DIRECT,
   LiveWorld 38 108 236 20 DIRECT, LiveWorld 26 152 70 20 DIRECT, LiveWorld 26 152 71 20 DIRECT,
   LiveWorld 26 152 72 20 DIRECT, LiveWorld 26 152 73 20 DIRECT, LiveWorld 26 152 74 20 DIRECT,
   LiveWorld 30 203 34 20 DIRECT, LiveWorld 30 203 35 20 DIRECT, LiveWorld 30 203 36 20 DIRECT,
   LiveWorld 30 203 37 20 DIRECT, LiveWorld 30 203 38 20 DIRECT, LiveWorld 48 258 21 20 DIRECT,
   LiveWorld 48 258 22 20 DIRECT, LiveWorld 48 258 59 20 DIRECT, LiveWorld 48 258 71 20 DIRECT,
   LiveWorld 48 258 82 20 DIRECT, LiveWorld 72 302 35 20 DIRECT, LiveWorld 72 302 36 20 DIRECT,
   LiveWorld 72 302 37 20 DIRECT, LiveWorld 72 302 38 20 DIRECT, LiveWorld 87 352 11 20 DIRECT,
   LiveWorld 87 352 12 20 DIRECT, LiveWorld 87 352 13 20 DIRECT, LiveWorld 176 385 57 20 DIRECT,
   LiveWorld 176 385 73 20 DIRECT, LiveWorld 7 43 277 0 REPLAY, LiveWorld 38 78 68 0 REPLAY,
   LiveWorld 38 78 156 0 REPLAY, LiveWorld 26 119 316 0 REPLAY, LiveWorld 26 133 60 0 REPLAY,
   LiveWorld 26 151 78 0 REPLAY, LiveWorld 26 151 76 0 REPLAY, LiveWorld 26 151 262 0 REPLAY,
   LiveWorld 30 159 33 0 REPLAY, LiveWorld 30 162 5 0 REPLAY, LiveWorld 30 162 12 0 REPLAY,
   LiveWorld 30 185 63 0 REPLAY, LiveWorld 72 265 31 0 REPLAY, LiveWorld 72 266 30 0 REPLAY,
   LiveWorld 72 267 29 0 REPLAY, LiveWorld 87 324 32 0 REPLAY, LiveWorld 16 69 4 0 REPLAY,
   LiveWorld 16 69 10 0 REPLAY, LiveWorld 112 312 17 30 PERMANENT, LiveWorld 163 343 40 0 REPLAY,
   LiveWorld 163 344 41 0 REPLAY, LiveWorld 163 345 42 0 REPLAY, LiveWorld 163 346 43 0 REPLAY,
   LiveWorld 163 347 44 0 REPLAY, LiveWorld 163 348 45 0 REPLAY, LiveWorld 187 324 0 0 REPLAY,
   LiveWorld 187 324 1 0 REPLAY, LiveWorld 187 324 2 0 REPLAY, LiveWorld 187 324 3 0 REPLAY,
   LiveWorld 194 408 0 0 REPLAY, LiveWorld 194 409 1 0 REPLAY, LiveWorld 26 120 97 0 REPLAY,
   LiveWorld 26 120 98 0 REPLAY, LiveWorld 26 120 119 0 REPLAY, LiveWorld 30 179 13 0 REPLAY,
   LiveWorld 30 180 69 0 REPLAY, LiveWorld 30 181 67 0 REPLAY, LiveWorld 30 181 14 0 REPLAY,
   LiveWorld 61 218 6 0 REPLAY, LiveWorld 61 218 2 0 REQUIRE, LiveWorld 48 218 65535 0 NOOP,
   LiveWorld 62 222 1 0 REPLAY, LiveWorld 48 222 65535 0 NOOP, LiveWorld 48 223 45 0 REPLAY,
   LiveWorld 62 223 3 0 REPLAY, LiveWorld 64 229 11 0 REPLAY, LiveWorld 48 229 65535 0 NOOP,
   LiveWorld 166 321 5 0 REPLAY, LiveWorld 87 321 65535 0 NOOP]"

definition coop_live_world_states_2 :: "CoopLiveWorldState list" where
  "coop_live_world_states_2 = [
   LiveWorld 26 109 23 20 PERMANENT, LiveWorld 26 109 29 20 PERMANENT, LiveWorld 26 109 16 10 PERMANENT,
   LiveWorld 26 111 0 10 PERMANENT, LiveWorld 26 111 263 0 REPLAY, LiveWorld 26 111 1 0 REQUIRE,
   LiveWorld 26 111 2 0 REQUIRE, LiveWorld 26 111 3 0 REQUIRE, LiveWorld 26 111 4 0 REQUIRE,
   LiveWorld 26 111 5 0 REQUIRE, LiveWorld 26 111 6 0 REQUIRE, LiveWorld 26 111 7 0 REQUIRE,
   LiveWorld 26 111 8 0 REQUIRE, LiveWorld 26 111 9 0 REQUIRE, LiveWorld 26 111 10 0 REQUIRE,
   LiveWorld 26 111 11 0 REQUIRE, LiveWorld 26 111 12 0 REQUIRE, LiveWorld 26 111 13 0 REQUIRE,
   LiveWorld 30 156 39 0 CONTINUE_GALLEON, LiveWorld 30 156 81 0 CONTINUE_GALLEON,
   LiveWorld 48 212 37 50 PERMANENT, LiveWorld 48 212 39 12 PERMANENT, LiveWorld 48 213 37 50 PERMANENT,
   LiveWorld 48 213 39 0 REPLAY, LiveWorld 48 220 43 20 PERMANENT, LiveWorld 34 430 60 40 PERMANENT,
   LiveWorld 34 430 0 100 PERMANENT, LiveWorld 34 430 86 0 REVEAL, LiveWorld 44 186 0 0 REPLAY,
   LiveWorld 44 187 1 0 REPLAY, LiveWorld 44 188 2 0 REPLAY, LiveWorld 44 189 3 0 REPLAY,
   LiveWorld 44 190 4 0 REPLAY, LiveWorld 45 186 65535 0 MERMAID, LiveWorld 45 187 65535 0 MERMAID,
   LiveWorld 45 188 65535 0 MERMAID, LiveWorld 45 189 65535 0 MERMAID, LiveWorld 45 190 65535 0 MERMAID,
   LiveWorld 34 426 49 0 ISLES_TROMBONE, LiveWorld 173 399 16 0 REPLAY, LiveWorld 173 399 15 0 REPLAY,
   LiveWorld 174 401 10 0 REPLAY, LiveWorld 174 401 12 0 REPLAY, LiveWorld 170 407 0 10 PERMANENT,
   LiveWorld 170 407 2 0 REPLAY, LiveWorld 175 397 12 20 PERMANENT, LiveWorld 175 397 13 10 PERMANENT,
   LiveWorld 189 393 29 0 REPLAY, LiveWorld 189 393 30 0 REVEAL, LiveWorld 173 400 4 0 REPLAY,
   LiveWorld 173 400 17 0 REPLAY]"

definition coop_live_world_states_3 :: "CoopLiveWorldState list" where
  "coop_live_world_states_3 = [
   LiveWorld 178 405 9 0 REPLAY, LiveWorld 178 405 4 0 REPLAY, LiveWorld 85 280 0 0 REPLAY,
   LiveWorld 72 296 0 0 REPLAY, LiveWorld 72 296 1 0 REPLAY, LiveWorld 72 296 2 0 REPLAY,
   LiveWorld 72 296 3 0 REPLAY, LiveWorld 72 296 4 0 REPLAY, LiveWorld 72 296 56 0 REPLAY,
   LiveWorld 72 300 52 0 REPLAY, LiveWorld 88 304 3 0 REPLAY, LiveWorld 105 307 1 0 REPLAY,
   LiveWorld 105 307 1 0 REVEAL, LiveWorld 17 771 3 0 REPLAY, LiveWorld 17 772 4 0 REPLAY,
   LiveWorld 17 770 5 0 REPLAY, LiveWorld 17 770 45 0 REPLAY, LiveWorld 17 770 46 0 REPLAY,
   LiveWorld 17 770 47 0 REPLAY, LiveWorld 17 770 48 0 REPLAY, LiveWorld 17 770 32 0 REPLAY,
   LiveWorld 17 770 14 0 REPLAY, LiveWorld 17 770 8 0 REPLAY, LiveWorld 17 770 38 0 REPLAY,
   LiveWorld 17 770 17 0 REPLAY, LiveWorld 17 770 9 0 REPLAY, LiveWorld 17 770 36 0 REPLAY,
   LiveWorld 17 770 10 0 REPLAY, LiveWorld 17 770 15 0 REPLAY, LiveWorld 17 770 30 0 REPLAY,
   LiveWorld 17 770 11 0 REPLAY, LiveWorld 17 770 16 0 REPLAY, LiveWorld 17 770 34 0 REPLAY,
   LiveWorld 17 770 13 0 REPLAY, LiveWorld 17 770 12 0 REPLAY, LiveWorld 17 770 502 0 REPLAY,
   LiveWorld 17 770 31 0 REQUIRE, LiveWorld 17 770 33 0 REQUIRE, LiveWorld 17 770 35 0 REQUIRE,
   LiveWorld 17 770 37 0 REQUIRE, LiveWorld 17 770 39 0 REQUIRE, LiveWorld 38 53 26 0 REPLAY,
   LiveWorld 38 53 27 0 REPLAY, LiveWorld 38 53 28 0 REPLAY, LiveWorld 38 53 29 0 REPLAY,
   LiveWorld 38 53 30 0 REPLAY, LiveWorld 38 53 163 0 REVEAL, LiveWorld 38 55 40 0 REPLAY]"

definition coop_live_world_states_4 :: "CoopLiveWorldState list" where
  "coop_live_world_states_4 = [
   LiveWorld 38 55 39 0 REPLAY, LiveWorld 38 55 16 0 REPLAY, LiveWorld 38 55 17 0 REPLAY,
   LiveWorld 38 55 18 0 REPLAY, LiveWorld 38 55 19 0 REPLAY, LiveWorld 38 55 20 0 REPLAY,
   LiveWorld 170 417 8 0 REPLAY, LiveWorld 170 418 9 0 REPLAY, LiveWorld 17 773 89 0 REPLAY,
   LiveWorld 17 774 88 0 REPLAY, LiveWorld 38 50 13 0 REPLAY, LiveWorld 38 50 14 0 REPLAY,
   LiveWorld 38 50 15 0 REPLAY, LiveWorld 38 50 65535 0 LLAMA_FREE, LiveWorld 20 50 22 0 REPLAY,
   LiveWorld 20 76 22 0 REPLAY, LiveWorld 20 76 24 0 REPLAY, LiveWorld 20 76 65535 0 LLAMA_WATER,
   LiveWorld 38 76 65535 0 NOOP, LiveWorld 30 158 56 0 REPLAY, LiveWorld 30 158 65535 0 SEAL,
   LiveWorld 39 158 65535 0 NOOP, LiveWorld 48 230 65535 0 NOOP, LiveWorld 48 231 65535 0 NOOP,
   LiveWorld 48 232 65535 0 NOOP, LiveWorld 48 233 65535 0 NOOP, LiveWorld 48 234 65535 0 NOOP,
   LiveWorld 64 230 13 0 MUSHROOM_SWITCH, LiveWorld 64 231 14 0 MUSHROOM_SWITCH,
   LiveWorld 64 232 15 0 MUSHROOM_SWITCH, LiveWorld 64 233 16 0 MUSHROOM_SWITCH,
   LiveWorld 64 234 12 0 MUSHROOM_SWITCH, LiveWorld 48 248 65535 0 RABBIT, LiveWorld 48 251 65535 0 BEANSTALK,
   LiveWorld 38 69 65535 0 NOOP, LiveWorld 87 312 65535 0 NOOP, LiveWorld 87 343 65535 0 NOOP,
   LiveWorld 87 344 65535 0 NOOP, LiveWorld 87 345 65535 0 NOOP, LiveWorld 87 346 65535 0 NOOP,
   LiveWorld 87 347 65535 0 NOOP, LiveWorld 87 348 65535 0 NOOP]"

definition coop_live_world_states :: "CoopLiveWorldState list" where
  "coop_live_world_states = coop_live_world_states_1 @ coop_live_world_states_2 @ coop_live_world_states_3 @ coop_live_world_states_4"

lemmas coop_live_world_states_parts = coop_live_world_states_1_def coop_live_world_states_2_def coop_live_world_states_3_def coop_live_world_states_4_def

definition coop_live_world_transient_eligible :: "CoopLiveWorldState \<Rightarrow> bool" where
  "coop_live_world_transient_eligible r \<longleftrightarrow>
     live_mode r = DIRECT \<and> live_flag r \<noteq> 0x02E \<and> live_flag r \<noteq> 0x06C \<and> live_flag r \<noteq> 0x098 \<and>
     live_flag r \<noteq> 0x0CB \<and> live_flag r \<noteq> 0x102 \<and> live_flag r \<noteq> 0x12E \<and> live_flag r \<noteq> 0x160"

text \<open>The rows of one flag on the current map: a reviewed unit.\<close>

definition unit_rows :: "'e live_env_scheme \<Rightarrow> int \<Rightarrow> CoopLiveWorldState list" where
  "unit_rows e f = filter (\<lambda>r. on_map e (ucast (live_map r)) \<and> uint (live_flag r) = f) coop_live_world_states"

definition coop_live_world_has_flag :: "'e live_env_scheme \<Rightarrow> int \<Rightarrow> bool" where
  "coop_live_world_has_flag e f \<longleftrightarrow> unit_rows e f \<noteq> []"

section \<open>Scripts\<close>

definition coop_live_world_find_object :: "'a live_game_scheme \<Rightarrow> u16 \<Rightarrow> nat option" where
  "coop_live_world_find_object s object = find (\<lambda>i. script_slots s ! i = object) [0..<600]"

definition coop_live_world_set_object :: "u16 \<Rightarrow> int \<Rightarrow> 'a live_game_scheme \<Rightarrow> bool \<times> 'a live_game_scheme" where
  "coop_live_world_set_object object state s =
     (case coop_live_world_find_object s object of None \<Rightarrow> (False, s)
      | Some slot \<Rightarrow> (True, call_game (SelectState slot state) s))"

text \<open>The script of the prop behind the first slot that names the object.\<close>

definition object_script :: "'e live_env_scheme \<Rightarrow> 'a live_game_scheme \<Rightarrow> u16 \<Rightarrow> (int \<times> Prop_ScriptData) option" where
  "object_script e s object =
     (case coop_live_world_find_object s object of None \<Rightarrow> None
      | Some slot \<Rightarrow>
          let p = prop_index e (sint (script_slots s ! slot))
          in if p < 0 then None
             else case scene_props s of None \<Rightarrow> None | Some props \<Rightarrow>
               (case unk7C (props p) of None \<Rightarrow> None | Some d \<Rightarrow> Some (p, d)))"

definition put_script :: "int \<Rightarrow> Prop_ScriptData \<Rightarrow> 'a live_game_scheme \<Rightarrow> 'a live_game_scheme" where
  "put_script p d s =
     s\<lparr>scene_props := map_option (\<lambda>props. props(p := (props p)\<lparr>unk7C := Some d\<rparr>)) (scene_props s)\<rparr>"

definition coop_live_world_object_raw_state :: "'e live_env_scheme \<Rightarrow> 'a live_game_scheme \<Rightarrow> u16 \<Rightarrow> nat option" where
  "coop_live_world_object_raw_state e s object = map_option (\<lambda>(p, d). unat (unk48 d)) (object_script e s object)"

definition coop_live_world_reveal_object :: "'e live_env_scheme \<Rightarrow> u16 \<Rightarrow> 'a live_game_scheme \<Rightarrow> bool \<times> 'a live_game_scheme"
  where
  "coop_live_world_reveal_object e object s =
     (case object_script e s object of None \<Rightarrow> (False, s)
      | Some (p, d) \<Rightarrow> (True, put_script p (d\<lparr>unk60 := 1, unk62 := 0xFF, unk66 := 0xFF\<rparr>) s))"

definition coop_live_world_isles_trombone_ready :: "'e live_env_scheme \<Rightarrow> 'a live_game_scheme \<Rightarrow> bool" where
  "coop_live_world_isles_trombone_ready e s \<longleftrightarrow>
     (case coop_live_world_object_raw_state e s 0x31 of None \<Rightarrow> False | Some raw \<Rightarrow> raw \<le> 6)"

definition coop_live_world_isles_trombone_refresh ::
  "'e live_env_scheme \<Rightarrow> 'a live_game_scheme \<Rightarrow> bool \<times> 'a live_game_scheme" where
  "coop_live_world_isles_trombone_refresh e s =
     (case object_script e s 0x31 of None \<Rightarrow> (False, s)
      | Some (p, d) \<Rightarrow>
          if unat (unk48 d) > 6 then (False, s)
          else if unat (unk48 d) \<ge> 3 then (True, s)
          else (True, put_script p (d\<lparr>unk48 := 6, unk54 := 2\<rparr>) (call_game (NotifySpawner 9 0) s)))"

definition coop_live_world_mushroom_switch_ready :: "'e live_env_scheme \<Rightarrow> 'a live_game_scheme \<Rightarrow> u16 \<Rightarrow> bool" where
  "coop_live_world_mushroom_switch_ready e s object \<longleftrightarrow>
     (case coop_live_world_object_raw_state e s object of None \<Rightarrow> False | Some switch_state \<Rightarrow>
        case coop_live_world_object_raw_state e s 0x0B of None \<Rightarrow> False | Some board_state \<Rightarrow>
          (switch_state \<le> 1 \<or> 20 \<le> switch_state \<and> switch_state \<le> 22) \<and> (board_state \<le> 4 \<or> board_state = 7))"

text \<open>This search runs over all slots without leaving its loop, so the last slot is taken.\<close>

definition last_slot :: "'a live_game_scheme \<Rightarrow> u16 \<Rightarrow> nat option" where
  "last_slot s object = find (\<lambda>i. script_slots s ! i = object) (rev [0..<600])"

definition cannon_switches :: "'a live_game_scheme \<Rightarrow> nat" where
  "cannon_switches s = length (filter (flags s) [0xE6, 0xE7, 0xE8, 0xE9, 0xEA])"

definition coop_live_world_mushroom_switch_refresh ::
  "'e live_env_scheme \<Rightarrow> u16 \<Rightarrow> 'a live_game_scheme \<Rightarrow> bool \<times> 'a live_game_scheme" where
  "coop_live_world_mushroom_switch_refresh e object s =
     (if \<not> coop_live_world_mushroom_switch_ready e s object then (False, s)
      else case (last_slot s object, last_slot s 0x0B, coop_live_world_object_raw_state e s 0x0B) of
        (Some switch_slot, Some board_slot, Some board_state) \<Rightarrow>
          let s = call_game (SelectState switch_slot 0) s;
              count = cannon_switches s
          in (True, if board_state \<noteq> 7 \<and> count > board_state then call_game (SelectState board_slot (int count)) s else s)
      | _ \<Rightarrow> (False, s))"

section \<open>Actors\<close>

definition live_kind :: "actor_kind \<Rightarrow> live_actor \<Rightarrow> bool" where
  "live_kind k a \<longleftrightarrow> kind a = k \<and> properties a AND 0x10 \<noteq> 0"

definition live_actors :: "actor_kind \<Rightarrow> 'a live_game_scheme \<Rightarrow> live_actor list" where
  "live_actors k s = filter (live_kind k) (List.map_filter id (actors s))"

text \<open>The place of the first initialized actor of a kind.\<close>

definition first_actor :: "actor_kind \<Rightarrow> 'a live_game_scheme \<Rightarrow> (nat \<times> live_actor) option" where
  "first_actor k s =
     (case find (\<lambda>i. case actors s ! i of None \<Rightarrow> False | Some a \<Rightarrow> live_kind k a) [0..<length (actors s)] of
        None \<Rightarrow> None | Some i \<Rightarrow> Some (i, the (actors s ! i)))"

definition put_actor :: "nat \<Rightarrow> live_actor \<Rightarrow> 'a live_game_scheme \<Rightarrow> 'a live_game_scheme" where
  "put_actor i a s = s\<lparr>actors := (actors s)[i := Some a]\<rparr>"

definition coop_live_world_llama_free_ready :: "'a live_game_scheme \<Rightarrow> bool" where
  "coop_live_world_llama_free_ready s \<longleftrightarrow> list_all (\<lambda>a. control_state a = 5) (live_actors ACTOR_LLAMA s)"

definition coop_live_world_llama_free_refresh :: "'a live_game_scheme \<Rightarrow> bool \<times> 'a live_game_scheme" where
  "coop_live_world_llama_free_refresh s =
     (case first_actor ACTOR_LLAMA s of None \<Rightarrow> (True, s)
      | Some (i, a) \<Rightarrow> if control_state a \<noteq> 5 then (False, s) else (True, call_game (DeleteActor i) s))"

definition coop_live_world_llama_water_ready :: "'a live_game_scheme \<Rightarrow> bool" where
  "coop_live_world_llama_water_ready s \<longleftrightarrow>
     list_all (\<lambda>a. control_state a = 0 \<or> control_state a = 39) (live_actors ACTOR_LLAMA s)"

definition coop_live_world_llama_water_refresh :: "'a live_game_scheme \<Rightarrow> bool \<times> 'a live_game_scheme" where
  "coop_live_world_llama_water_refresh s =
     (case first_actor ACTOR_LLAMA s of None \<Rightarrow> (True, s)
      | Some (i, a) \<Rightarrow>
          if control_state a = 39 then (True, s)
          else if control_state a \<noteq> 0 then (False, s)
          else (True, put_actor i (a\<lparr>control_state := 39, control_state_progress := 4\<rparr>) s))"

definition coop_live_world_is_seal :: "live_actor option \<Rightarrow> bool" where
  "coop_live_world_is_seal a = (case a of None \<Rightarrow> False
     | Some a \<Rightarrow> (kind a = ACTOR_SEAL \<or> kind a = ACTOR_SEAL_0) \<and> properties a AND 0x10 \<noteq> 0)"

definition coop_live_world_seal_ready :: "'a live_game_scheme \<Rightarrow> bool" where
  "coop_live_world_seal_ready s \<longleftrightarrow>
     list_all (\<lambda>a. coop_live_world_is_seal a \<longrightarrow>
       control_state (the a) = 0 \<or> control_state (the a) = 40 \<and> control_state_progress (the a) = 0) (actors s)"

definition free_seal :: "bool \<Rightarrow> live_actor option \<Rightarrow> live_actor option" where
  "free_seal at_cage actor =
     (if coop_live_world_is_seal actor \<and> (control_state (the actor) = 0 \<or> at_cage)
      then Some ((the actor)\<lparr>control_state := 40, control_state_progress := 0\<rparr>) else actor)"

definition coop_live_world_seal_refresh :: "'e live_env_scheme \<Rightarrow> 'a live_game_scheme \<Rightarrow> bool \<times> 'a live_game_scheme" where
  "coop_live_world_seal_refresh e s =
     (if \<not> coop_live_world_seal_ready s then (False, s)
      else (True, s\<lparr>actors := map (\<lambda>i. free_seal (seal_at_cage e i) (actors s ! i)) [0..<length (actors s)]\<rparr>))"

definition coop_live_world_rabbit_ready :: "'a live_game_scheme \<Rightarrow> bool" where
  "coop_live_world_rabbit_ready s \<longleftrightarrow>
     list_all (\<lambda>a. control_state a = 0x1E \<or> control_state a = 0x40) (live_actors ACTOR_RABBIT_RACE s)"

definition coop_live_world_rabbit_refresh :: "'a live_game_scheme \<Rightarrow> bool \<times> 'a live_game_scheme" where
  "coop_live_world_rabbit_refresh s = (coop_live_world_rabbit_ready s, s)"

definition coop_live_world_beanstalk_ready :: "'a live_game_scheme \<Rightarrow> bool" where
  "coop_live_world_beanstalk_ready s =
     (case first_actor ACTOR_BEANSTALK s of None \<Rightarrow> True
      | Some (i, a) \<Rightarrow> control_state a = 0 \<or> control_state a = 1 \<or> control_state a = 2 \<or> control_state a = 3)"

definition coop_live_world_beanstalk_refresh :: "'a live_game_scheme \<Rightarrow> bool \<times> 'a live_game_scheme" where
  "coop_live_world_beanstalk_refresh s =
     (case first_actor ACTOR_BEANSTALK s of None \<Rightarrow> (True, s)
      | Some (i, a) \<Rightarrow>
          if control_state a = 1 \<or> control_state a = 2 \<or> control_state a = 3 then (True, s)
          else if control_state a \<noteq> 0 then (False, s)
          else
            let s = call_game (SetChannel i 0 0) (call_game (SetScale i) (call_game (SetModel i 0x597) s))
            in (True, put_actor i (a\<lparr>noclip := 2, properties := properties a OR 4, control_state := 3,
                 control_state_progress := 0\<rparr>) s))"

definition coop_live_world_mermaid_ready :: "'a live_game_scheme \<Rightarrow> bool" where
  "coop_live_world_mermaid_ready s =
     (case first_actor ACTOR_MERMAID s of None \<Rightarrow> False
      | Some (i, a) \<Rightarrow> control_state a = 30 \<or> control_state a = 31 \<or> control_state a = 32 \<or> control_state a = 39)"

definition pearls :: "'a live_game_scheme \<Rightarrow> nat" where
  "pearls s = length (filter (flags s) [0xBA, 0xBB, 0xBC, 0xBD, 0xBE])"

definition coop_live_world_mermaid_refresh :: "'a live_game_scheme \<Rightarrow> bool \<times> 'a live_game_scheme" where
  "coop_live_world_mermaid_refresh s =
     (case first_actor ACTOR_MERMAID s of None \<Rightarrow> (False, s)
      | Some (i, a) \<Rightarrow>
          if \<not> coop_live_world_mermaid_ready s then (False, s)
          else if control_state a = 39 \<or> control_state a = 32 then (True, s)
          else
            let state = (if flags s 0xBF then 32 else if pearls s = 5 then 39 else if pearls s \<noteq> 0 then 31 else 30)
            in (True, put_actor i (a\<lparr>control_state := state, control_state_progress := 0\<rparr>) s))"

section \<open>Units\<close>

definition coop_live_world_galleon_state_valid :: "u16 \<Rightarrow> nat \<Rightarrow> bool" where
  "coop_live_world_galleon_state_valid object raw \<longleftrightarrow>
     (if raw = 0 then True
      else if object = 0x027 then 10 \<le> raw \<and> raw \<le> 17 \<or> 26 \<le> raw \<and> raw \<le> 28
      else if object = 0x051 then 10 \<le> raw \<and> raw \<le> 14
      else False)"

text \<open>One row of \<^verbatim>\<open>coop_live_world_ready\<close>: the object is loaded where the mode needs it, and idle.\<close>

definition row_ready :: "'e live_env_scheme \<Rightarrow> 'a live_game_scheme \<Rightarrow> CoopLiveWorldState \<Rightarrow> bool" where
  "row_ready e s r =
     (case live_mode r of
        NOOP \<Rightarrow> True
      | MERMAID \<Rightarrow> coop_live_world_mermaid_ready s
      | LLAMA_FREE \<Rightarrow> coop_live_world_llama_free_ready s
      | LLAMA_WATER \<Rightarrow> coop_live_world_llama_water_ready s
      | SEAL \<Rightarrow> coop_live_world_seal_ready s
      | MUSHROOM_SWITCH \<Rightarrow> coop_live_world_mushroom_switch_ready e s (live_object r)
      | RABBIT \<Rightarrow> coop_live_world_rabbit_ready s
      | BEANSTALK \<Rightarrow> coop_live_world_beanstalk_ready s
      | ISLES_TROMBONE \<Rightarrow> coop_live_world_find_object s (live_object r) \<noteq> None \<and> coop_live_world_isles_trombone_ready e s
      | CONTINUE_GALLEON \<Rightarrow> coop_live_world_find_object s (live_object r) \<noteq> None \<and>
          (case coop_live_world_object_raw_state e s (live_object r) of None \<Rightarrow> False
           | Some raw \<Rightarrow> coop_live_world_galleon_state_valid (live_object r) raw)
      | REVEAL \<Rightarrow> coop_live_world_find_object s (live_object r) \<noteq> None \<and>
          coop_live_world_object_raw_state e s (live_object r) \<noteq> None
      | _ \<Rightarrow> coop_live_world_find_object s (live_object r) \<noteq> None)"

definition coop_live_world_ready :: "'e live_env_scheme \<Rightarrow> 'a live_game_scheme \<Rightarrow> int \<Rightarrow> bool" where
  "coop_live_world_ready e s f \<longleftrightarrow> list_all (row_ready e s) (unit_rows e f) \<and> unit_rows e f \<noteq> []"

definition row_refresh ::
  "'e live_env_scheme \<Rightarrow> CoopLiveWorldState \<Rightarrow> 'a live_game_scheme \<Rightarrow> bool \<times> 'a live_game_scheme" where
  "row_refresh e r s =
     (case live_mode r of
        NOOP \<Rightarrow> (True, s)
      | REQUIRE \<Rightarrow> (True, s)
      | MERMAID \<Rightarrow> coop_live_world_mermaid_refresh s
      | ISLES_TROMBONE \<Rightarrow> coop_live_world_isles_trombone_refresh e s
      | LLAMA_FREE \<Rightarrow> coop_live_world_llama_free_refresh s
      | LLAMA_WATER \<Rightarrow> coop_live_world_llama_water_refresh s
      | SEAL \<Rightarrow> coop_live_world_seal_refresh e s
      | MUSHROOM_SWITCH \<Rightarrow> coop_live_world_mushroom_switch_refresh e (live_object r) s
      | RABBIT \<Rightarrow> coop_live_world_rabbit_refresh s
      | BEANSTALK \<Rightarrow> coop_live_world_beanstalk_refresh s
      | REVEAL \<Rightarrow> coop_live_world_reveal_object e (live_object r) s
      | CONTINUE_GALLEON \<Rightarrow>
          (case coop_live_world_object_raw_state e s (live_object r) of None \<Rightarrow> (False, s)
           | Some raw \<Rightarrow> if raw \<noteq> 0 then (True, s) else coop_live_world_set_object (live_object r) (uint (live_state r)) s)
      | _ \<Rightarrow> coop_live_world_set_object (live_object r) (uint (live_state r)) s)"

fun refresh_rows ::
  "'e live_env_scheme \<Rightarrow> CoopLiveWorldState list \<Rightarrow> 'a live_game_scheme \<Rightarrow> bool \<times> 'a live_game_scheme" where
  "refresh_rows e [] s = (True, s)"
| "refresh_rows e (r # rs) s = (case row_refresh e r s of (done, s) \<Rightarrow> if done then refresh_rows e rs s else (False, s))"

definition coop_live_world_refresh ::
  "'e live_env_scheme \<Rightarrow> int \<Rightarrow> 'a live_game_scheme \<Rightarrow> bool \<times> 'a live_game_scheme" where
  "coop_live_world_refresh e f s =
     (if \<not> coop_live_world_ready e s f then (False, s) else refresh_rows e (unit_rows e f) s)"

section \<open>Reversible switches\<close>

definition reversible_object :: "'e live_env_scheme \<Rightarrow> nat \<Rightarrow> bool \<Rightarrow> (u16 \<times> int) option" where
  "reversible_object e toggle desired =
     (if toggle = 0 \<and> on_map e 30 then Some (if desired then 0 else 1, 10)
      else if toggle = 1 \<and> on_map e 48 then Some (if desired then 4 else 5, 10)
      else if toggle = 2 \<and> on_map e 194 then Some (6, if desired then 2 else 6)
      else None)"

definition coop_live_reversible_ready :: "'e live_env_scheme \<Rightarrow> 'a live_game_scheme \<Rightarrow> nat \<Rightarrow> bool \<Rightarrow> bool" where
  "coop_live_reversible_ready e s toggle desired =
     (case reversible_object e toggle desired of None \<Rightarrow> False
      | Some (object, state) \<Rightarrow> coop_live_world_find_object s object \<noteq> None)"

definition coop_live_reversible_refresh ::
  "'e live_env_scheme \<Rightarrow> nat \<Rightarrow> bool \<Rightarrow> 'a live_game_scheme \<Rightarrow> bool \<times> 'a live_game_scheme" where
  "coop_live_reversible_refresh e toggle desired s =
     (case reversible_object e toggle desired of None \<Rightarrow> (False, s)
      | Some (object, state) \<Rightarrow> coop_live_world_set_object object state s)"


end
