(* ===== verification/CoopGame.thy ===== *)
theory CoopGame
  imports CoopItems CoopScene
begin

text \<open>
  The game side of the co-op item channel: the part of the save the mod reads and writes, and
  \<^verbatim>\<open>progression_game.h\<close>, \<^verbatim>\<open>troff_game.h\<close>, the map lists and the capture of
  \<^verbatim>\<open>items_game.h\<close>.  Inventory fields are words of the width they have in the save; the code reads
  them into \<open>unsigned\<close> variables, which are natural numbers here (every sum the code forms stays far
  below $2^{32}$).  What the stock game and the loaded scene answer is a record of functions.
\<close>

section \<open>State\<close>

record CoopCharacterProgress =
  progression :: "u8 list"
  coins :: u16
  coloured :: "u16 list"
  fed :: "u16 list"
  golden :: "u16 list"

text \<open>
  The save next to the loaded scene, of which it is an extension: \<open>pickup_bits level ordinal\<close> are the
  save bits of ordinary pickups and \<open>fed_cache\<close> is the per-level Troff 'n' Scoff total.
\<close>

record coop_game = live_game +
  pickup_bits :: "nat \<Rightarrow> nat \<Rightarrow> bool"
  kongs :: "CoopCharacterProgress list"
  melons :: u8
  fed_cache :: "u16 list"

text \<open>
  Answers besides those about the scene: whether a flag or pickup write goes through (another mod may
  cancel it in the game's flag event), the pickups the loaded setups have per level, the level index of
  the current map, the HUD pointer, and the queue of pending collectible credits.
\<close>

record coop_env = live_env +
  flag_accepted :: "coop_game \<Rightarrow> int \<Rightarrow> bool"
  pickup_accepted :: "coop_game \<Rightarrow> nat \<Rightarrow> nat \<Rightarrow> bool"
  pickup_total :: "nat \<Rightarrow> int"
  env_level :: nat
  hud_loaded :: bool
  reward_queued :: bool

definition set_flag :: "coop_env \<Rightarrow> int \<Rightarrow> coop_game \<Rightarrow> coop_game" where
  "set_flag e f s = (if flag_accepted e s f then s\<lparr>flags := (flags s)(f := True)\<rparr> else s)"

definition set_pickup :: "coop_env \<Rightarrow> nat \<Rightarrow> nat \<Rightarrow> coop_game \<Rightarrow> coop_game" where
  "set_pickup e ordinal level s =
     (if pickup_accepted e s ordinal level
      then s\<lparr>pickup_bits := (pickup_bits s)(level := (pickup_bits s level)(ordinal := True))\<rparr> else s)"

definition update_kong :: "nat \<Rightarrow> (CoopCharacterProgress \<Rightarrow> CoopCharacterProgress) \<Rightarrow> coop_game \<Rightarrow> coop_game" where
  "update_kong k f s = s\<lparr>kongs := (kongs s)[k := f (kongs s ! k)]\<rparr>"

abbreviation (input) kong_have :: "coop_game \<Rightarrow> nat \<Rightarrow> nat \<Rightarrow> u8" where
  "kong_have s k field \<equiv> progression (kongs s ! k) ! field"

section \<open>Progression\<close>

definition coop_progression_owned :: "coop_game \<Rightarrow> nat \<Rightarrow> bool" where
  "coop_progression_owned s i =
     (if i < COOP_PROGRESSION_FIRST \<or> COOP_PROGRESSION_END \<le> i then False
      else if i < COOP_MOVE_FIRST \<or> COOP_TRAINING_FIRST \<le> i then flags s (coop_progression_flag i)
      else if COOP_MELON_FIRST \<le> i then 2 + i - COOP_MELON_FIRST \<le> unat (melons s)
      else case coop_progression_move i of None \<Rightarrow> False
           | Some (kong, field, v, bits) \<Rightarrow>
               list_all (\<lambda>k. kong = 5 \<or> k = kong \<longrightarrow>
                 (if bits then kong_have s k field AND of_nat v \<noteq> 0 else v \<le> unat (kong_have s k field))) [0..<5])"

definition coop_progression_valid :: "coop_game \<Rightarrow> bool" where
  "coop_progression_valid s \<longleftrightarrow>
     unat (melons s) \<le> 3 \<and>
     list_all (\<lambda>k. let p = progression (kongs s ! k); first = progression (kongs s ! 0) in
        unat (p ! 0) \<le> 3 \<and> unat (p ! 1) \<le> 3 \<and> unat (p ! 2) \<le> 7 \<and> unat (p ! 3) \<le> 2 \<and> unat (p ! 4) \<le> 15 \<and>
        \<not> (flags s 0x180 \<and> p ! 1 = 0) \<and>
        p ! 1 = first ! 1 \<and> p ! 3 = first ! 3 \<and> p ! 2 AND 6 = first ! 2 AND 6 \<and> p ! 4 AND 14 = first ! 4 AND 14) [0..<5]"

definition coop_training_prerequisites :: "coop_game \<Rightarrow> bool" where
  "coop_training_prerequisites s \<longleftrightarrow> flags s 0x17F \<and> list_all (\<lambda>i. flags s (0x182 + int i)) [0..<4]"

text \<open>The requirement table: how many items of a row are owned, by their flags.\<close>

definition flags_owned :: "coop_game \<Rightarrow> CoopWorldRequirement \<Rightarrow> nat" where
  "flags_owned s r =
     sum_list (map (\<lambda>p. if flags s (coop_item_flag (unat (requirement_first r) + p)) then 1 else 0) [0..<unat (requirement_count r)])"

definition world_refused :: "coop_game \<Rightarrow> CoopWorldUnlock \<Rightarrow> nat \<Rightarrow> bool \<Rightarrow> bool" where
  "world_refused s u here refresh \<longleftrightarrow>
     here = unat (unlock_level u) \<and> \<not> refresh \<or>
     0 \<le> sint (prerequisite u) \<and> \<not> flags s (uint (unlock_flag (coop_world_unlocks ! nat (sint (prerequisite u))))) \<or>
     list_ex (\<lambda>r. requirement_flag r = unlock_flag u \<and> flags_owned s r < unat (requirement_minimum r)) coop_world_requirements"

definition warp_refused :: "coop_env \<Rightarrow> coop_game \<Rightarrow> CoopWarpTag \<Rightarrow> bool" where
  "warp_refused e s pad \<longleftrightarrow>
     word_of_int (env_map e) = (ucast (warp_map pad) :: u32) \<or>
     0 \<le> sint (required_item pad) \<and> \<not> flags s (coop_item_flag (nat (sint (required_item pad))))"

definition kong_levels :: "nat list" where "kong_levels = [0, 1, 1, 2]"

definition event_refused :: "coop_game \<Rightarrow> nat \<Rightarrow> nat \<Rightarrow> bool" where
  "event_refused s i here =
     (if i < COOP_LOBBY then here = kong_levels ! (i - COOP_KONG_FIRST)
      else here = 7 \<or>
        COOP_KEY_TURN_FIRST \<le> i \<and> i < COOP_KLUMSY_FREE \<and>
          (\<not> flags s (coop_item_flag (70 + i - COOP_KEY_TURN_FIRST)) \<or> \<not> flags s (coop_item_flag COOP_LOBBY)) \<or>
        i = COOP_KLUMSY_FREE \<and>
          (\<not> flags s (coop_item_flag COOP_LOBBY) \<or>
           \<not> list_all (\<lambda>j. flags s (coop_item_flag (COOP_KEY_TURN_FIRST + j))) [0..<8]))"

definition raise_slam :: "coop_game \<Rightarrow> coop_game" where
  "raise_slam s = fold (\<lambda>k. update_kong k (\<lambda>p. if unat (progression p ! 1) < 1 then p\<lparr>progression := (progression p)[1 := 1]\<rparr> else p))
     [0..<5] s"

definition grant_move :: "nat \<times> nat \<times> nat \<times> bool \<Rightarrow> coop_game \<Rightarrow> coop_game" where
  "grant_move move s = (case move of (kong, field, v, bits) \<Rightarrow>
     fold (\<lambda>k s. if kong = 5 \<or> k = kong then
         update_kong k (\<lambda>p. if bits then p\<lparr>progression := (progression p)[field := progression p ! field OR of_nat v]\<rparr>
           else if unat (progression p ! field) < v then p\<lparr>progression := (progression p)[field := of_nat v]\<rparr> else p) s
       else s) [0..<5] s)"

definition coop_progression_apply ::
  "coop_env \<Rightarrow> coop_game \<Rightarrow> nat \<Rightarrow> bool \<Rightarrow> nat \<Rightarrow> bool \<Rightarrow> bool \<times> coop_game" where
  "coop_progression_apply e s i safe here refresh =
     (if \<not> safe \<or> \<not> hud_loaded e \<or> i < COOP_PROGRESSION_FIRST \<or> COOP_PROGRESSION_END \<le> i then (False, s)
      else if COOP_WORLD_FIRST \<le> i then
        (let u = coop_world_unlocks ! (i - COOP_WORLD_FIRST) in
         if world_refused s u here refresh then (False, s)
         else let s = set_flag e (uint (unlock_flag u)) s in (coop_progression_owned s i, s))
      else if 8 \<le> here then (False, s)
      else if COOP_WARP_FIRST \<le> i then
        (if i < COOP_BLOCKER_FIRST \<and> warp_refused e s (coop_warp_tags ! (i - COOP_WARP_FIRST)) then (False, s)
         else let s = set_flag e (coop_progression_flag i) s in (coop_progression_owned s i, s))
      else if COOP_TRAINING_FIRST \<le> i then
        (if COOP_TRAINING_SKILL_FIRST \<le> i \<and> i < COOP_TRAINING_COMPLETE \<and> \<not> flags s 0x17F then (False, s)
         else if (i = COOP_TRAINING_COMPLETE \<or> i = COOP_FIRST_SLAM) \<and> \<not> coop_training_prerequisites s then (False, s)
         else let s = set_flag e (coop_progression_flag i) s in
              if \<not> coop_progression_owned s i then (False, s)
              else let s = (if i = COOP_FIRST_SLAM then raise_slam s else s) in (coop_progression_owned s i, s))
      else if i < COOP_MOVE_FIRST then
        (if event_refused s i here then (False, s)
         else let s = set_flag e (coop_progression_flag i) s in (coop_progression_owned s i, s))
      else if \<not> flags s 0x180 then (False, s)
      else if COOP_MELON_FIRST \<le> i then
        (let v = 2 + i - COOP_MELON_FIRST; s = (if unat (melons s) < v then s\<lparr>melons := of_nat v\<rparr> else s)
         in (coop_progression_owned s i, s))
      else case coop_progression_move i of None \<Rightarrow> (False, s)
           | Some move \<Rightarrow> let s = grant_move move s in (coop_progression_owned s i, s))"

section \<open>Troff 'n' Scoff\<close>

definition coop_troff_owned :: "coop_game \<Rightarrow> nat \<Rightarrow> bool" where
  "coop_troff_owned s i =
     (case coop_troff_bucket i of None \<Rightarrow> False
      | Some (level, kong, amount) \<Rightarrow> amount \<le> unat (fed (kongs s ! kong) ! level))"

definition level_fed :: "coop_game \<Rightarrow> nat \<Rightarrow> nat" where
  "level_fed s level = sum_list (map (\<lambda>k. unat (fed (kongs s ! k) ! level)) [0..<COOP_TROFF_KONGS])"

definition overfull :: "CoopCharacterProgress \<Rightarrow> nat \<Rightarrow> bool" where
  "overfull p level \<longleftrightarrow> unat (fed p ! level) + unat (coloured p ! level) > COOP_TROFF_CAPACITY"

definition pay_troff :: "nat \<Rightarrow> nat \<Rightarrow> nat \<Rightarrow> coop_game \<Rightarrow> coop_game" where
  "pay_troff level kong paid_total s =
     (update_kong kong (\<lambda>p. p\<lparr>coloured := (coloured p)[level := of_nat (unat (coloured p ! level) - 1)],
        fed := (fed p)[level := of_nat (unat (fed p ! level) + 1)]\<rparr>) s)
       \<lparr>fed_cache := (fed_cache s)[level := of_nat (paid_total + 1)]\<rparr>"

definition coop_troff_apply :: "coop_env \<Rightarrow> CoopItems \<Rightarrow> coop_game \<Rightarrow> nat \<Rightarrow> bool \<Rightarrow> bool \<times> CoopItems \<times> coop_game" where
  "coop_troff_apply e g s i safe =
     (case coop_troff_bucket i of None \<Rightarrow> (False, g, s)
      | Some (level, kong, amount) \<Rightarrow>
          if \<not> safe \<or> bound g = 0 \<or> \<not> hud_loaded e \<or> env_map e = 42 then (False, g, s)
          else
            let p = kongs s ! kong; paid = unat (fed p ! level); available = unat (coloured p ! level) in
            if overfull p level then (False, g\<lparr>counter_error := 1\<rparr>, s)
            else if amount \<noteq> paid + 1 \<or> available = 0 then (False, g, s)
            else if list_ex (\<lambda>k. overfull (kongs s ! k) level) [0..<COOP_TROFF_KONGS] then (False, g\<lparr>counter_error := 1\<rparr>, s)
            else
              let paid_total = level_fed s level in
              if unat (fed_cache s ! level) > paid_total then (False, g\<lparr>counter_error := 1\<rparr>, s)
              else
                let s = pay_troff level kong paid_total s in
                if unat (coloured (kongs s ! kong) ! level) \<noteq> available - 1 \<or> unat (fed (kongs s ! kong) ! level) \<noteq> paid + 1 \<or>
                   unat (fed_cache s ! level) \<noteq> paid_total + 1 then (False, g\<lparr>counter_error := 1\<rparr>, s)
                else (True, g\<lparr>previous := coop_item_set i (previous g), save_pending := 1\<rparr>, s))"

section \<open>Ownership and counters\<close>

definition pickup_ordinal :: "nat \<Rightarrow> nat" where
  "pickup_ordinal i = (let index = i - COOP_PICKUP_FIRST in index - unat (coop_pickup_start ! coop_pickup_level index))"

definition coop_item_owned :: "coop_game \<Rightarrow> nat \<Rightarrow> bool" where
  "coop_item_owned s i =
     (if i = COOP_JAPES_BOULDER_BUNCH then flags s 0x01D
      else if i = COOP_KROOL_DEFEATED then flags s 0x1B0
      else if i = COOP_ARCADE_COINS_PAID then flags s 0x083
      else if COOP_TROFF_FIRST \<le> i \<and> i < COOP_TROFF_END then coop_troff_owned s i
      else if COOP_PROGRESSION_FIRST \<le> i then coop_progression_owned s i
      else if i < COOP_PICKUP_FIRST \<or> COOP_ACTOR_PICKUP_FIRST \<le> i then flags s (coop_item_flag i)
      else pickup_bits s (coop_pickup_level (i - COOP_PICKUP_FIRST)) (pickup_ordinal i))"

text \<open>\<open>counts[level][kong]\<close>: the golden bananas owned by their permanent flags.\<close>

definition owned_bananas :: "coop_game \<Rightarrow> nat \<Rightarrow> nat \<Rightarrow> nat" where
  "owned_bananas s level kong =
     length (filter (\<lambda>i. coop_item_gb i = Some (level, kong) \<and> coop_item_owned s i) [COOP_SNIDE_FIRST..<COOP_PICKUP_FIRST])"

definition blueprint_missing :: "coop_game \<Rightarrow> bool" where
  "blueprint_missing s \<longleftrightarrow>
     list_ex (\<lambda>i. coop_item_gb i \<noteq> None \<and> coop_item_owned s i \<and> i < COOP_MEDAL_FIRST \<and>
       \<not> flags s (0x1D5 + int i - int COOP_SNIDE_FIRST)) [COOP_SNIDE_FIRST..<COOP_PICKUP_FIRST]"

definition kong_counters_valid :: "coop_game \<Rightarrow> nat \<Rightarrow> nat \<Rightarrow> bool" where
  "kong_counters_valid s l k \<longleftrightarrow>
     unat (golden (kongs s ! k) ! l) = owned_bananas s l k \<and> unat (coins (kongs s ! k)) \<le> 999 \<and>
     unat (coloured (kongs s ! k) ! l) + unat (fed (kongs s ! k) ! l) \<le> 100"

definition coop_items_counters_valid :: "coop_env \<Rightarrow> coop_game \<Rightarrow> bool" where
  "coop_items_counters_valid e s \<longleftrightarrow>
     coop_progression_valid s \<and> \<not> blueprint_missing s \<and>
     list_all (\<lambda>l. pickup_total e l = uint (coop_pickup_start ! (l + 1)) - uint (coop_pickup_start ! l) \<and>
        list_all (\<lambda>k. kong_counters_valid s l k) [0..<5]) [0..<8]"

section \<open>Maps\<close>

definition coop_items_main_world :: "int \<Rightarrow> bool" where
  "coop_items_main_world m \<longleftrightarrow> m = 34 \<or> m = 7 \<or> m = 38 \<or> m = 26 \<or> m = 30 \<or> m = 48 \<or> m = 72 \<or> m = 87"

definition coop_items_safe_map :: "int \<Rightarrow> bool" where
  "coop_items_safe_map m \<longleftrightarrow> coop_items_main_world m \<or> m = 171"

definition coop_combat_map :: "int \<Rightarrow> bool" where
  "coop_combat_map m \<longleftrightarrow> m \<in> set
     [4, 7, 12, 13, 16, 19, 20, 21, 22, 23, 24, 38, 26, 30, 43, 46, 47, 49, 179, 48, 52, 57, 58, 59, 60, 61, 62, 64, 70, 71,
      72, 84, 85, 86, 91, 92, 93, 94, 95, 200, 87, 88, 105, 108, 112, 113, 114, 151, 163, 164, 166, 183, 17, 34,
      169, 173, 175, 193]"

definition coop_items_snapshot_map :: "int \<Rightarrow> bool" where
  "coop_items_snapshot_map m \<longleftrightarrow>
     coop_items_safe_map m \<or> m = 176 \<or> coop_combat_map m \<or> m = 174 \<or> m = 178 \<or> m = 187 \<or> m = 194 \<or> m = 44 \<or> m = 45 \<or> m = 170"

definition coop_items_apply_map :: "int \<Rightarrow> bool" where
  "coop_items_apply_map m \<longleftrightarrow> m \<noteq> 176 \<and> coop_items_snapshot_map m"

abbreviation (input) COOP_WORLD_TRAINING_EXIT :: nat where "COOP_WORLD_TRAINING_EXIT \<equiv> 2375"

definition coop_training_ground_apply_id :: "nat \<Rightarrow> bool" where
  "coop_training_ground_apply_id i \<longleftrightarrow>
     COOP_TRAINING_SPAWNED \<le> i \<and> i \<le> COOP_FIRST_SLAM \<or> i = COOP_WORLD_TRAINING_EXIT"

section \<open>Capture\<close>

text \<open>The flags visible in an overlay map, added to the published words.\<close>

definition observed_words :: "coop_game \<Rightarrow> u32 list \<Rightarrow> u32 list" where
  "observed_words s ws =
     fold (\<lambda>i ws. let flag = coop_item_flag i in if 0 \<le> flag \<and> flags s flag then coop_item_set i ws else ws)
       [0..<COOP_ITEMS] ws"

definition note_new :: "u32 list \<Rightarrow> CoopItems \<Rightarrow> CoopItems" where
  "note_new observed g =
     fold (\<lambda>i g. if coop_item_has observed i \<and> \<not> coop_item_has (previous g) i then coop_items_note g i else g)
       [0..<COOP_ITEMS] g"

definition capture_owned :: "coop_game \<Rightarrow> CoopItems \<Rightarrow> CoopItems" where
  "capture_owned s g =
     fold (\<lambda>i g. if coop_item_owned s i
         then let g = update_input (\<lambda>n. n\<lparr>owned := coop_item_set i (owned n)\<rparr>) g
              in if baseline g \<noteq> 0 \<and> \<not> coop_item_has (previous g) i then coop_items_note g i else g
         else g)
       [0..<COOP_ITEMS] (update_input (\<lambda>n. n\<lparr>owned := no_words\<rparr>) g)"

definition coop_items_capture :: "coop_env \<Rightarrow> coop_game \<Rightarrow> CoopItems \<Rightarrow> u32 \<Rightarrow> u32 \<Rightarrow> u32 \<Rightarrow> CoopItems" where
  "coop_items_capture e s g enable adventure file =
     (let g = coop_items_prepare g enable adventure file;
          g = g\<lparr>deferred := 0, live_snapshot := 0\<rparr>
      in if ready (input g) = 0 then g
         else if \<not> coop_items_snapshot_map (env_map e) \<or> reward_queued e then
           (if baseline g \<noteq> 0 then
              let g = g\<lparr>deferred := 1\<rparr> in
              if reward_queued e then g
              else let observed = observed_words s (owned (input g)) in
                if coop_items_full_dependencies observed
                then let g = note_new observed g
                     in (update_input (\<lambda>n. n\<lparr>owned := observed\<rparr>) g)\<lparr>previous := observed\<rparr>
                else g
            else update_input (\<lambda>n. n\<lparr>ready := 0\<rparr>) g)
         else if \<not> coop_items_counters_valid e s then (update_input (\<lambda>n. n\<lparr>ready := 0\<rparr>) g)\<lparr>counter_error := 1\<rparr>
         else
           let g = capture_owned s g in
           if \<not> coop_items_full_dependencies (owned (input g)) then (update_input (\<lambda>n. n\<lparr>ready := 0\<rparr>) g)\<lparr>counter_error := 1\<rparr>
           else
             let g = g\<lparr>previous := owned (input g), baseline := 1, live_snapshot := 1\<rparr>
             in if \<not> coop_items_apply_map (env_map e) then g\<lparr>deferred := 1\<rparr> else g)"

definition coop_items_save_world_lobby :: "coop_env \<Rightarrow> CoopItems \<Rightarrow> coop_game \<Rightarrow> bool \<Rightarrow> CoopItems \<times> coop_game" where
  "coop_items_save_world_lobby e g s calm =
     (if world_save_pending g = 0 \<or> \<not> calm \<or> env_map e \<noteq> 194 \<or> reward_queued e then (g, s)
      else (g\<lparr>world_save_pending := 0, save_pending := 0\<rparr>, call_game SaveGame s))"

end
