(* ===== verification/CoopApply.thy ===== *)
theory CoopApply
  imports CoopGame
begin

text \<open>
  Applying a peer's items: \<^verbatim>\<open>coop_items_apply\<close> of \<^verbatim>\<open>items_game.h\<close> with the collectible sources it
  retires.  The loop over all item numbers is a recursion over the list of ids in which one step may
  end the loop, as \<^verbatim>\<open>break\<close> does.
\<close>

section \<open>Collectible sources\<close>

definition banana_ready :: "coop_env \<Rightarrow> coop_game \<Rightarrow> CoopGoldenBanana \<Rightarrow> bool" where
  "banana_ready e s gb \<longleftrightarrow>
     (if \<not> on_map e (ucast (gb_map gb)) then True
      else if gb_prop gb \<noteq> 0xFFFF \<and> \<not> coop_collectible_prop_ready e s (unat (gb_prop gb)) (unat (gb_prop_type gb)) then False
      else if gb_barrel gb \<noteq> 0xFF \<and> \<not> coop_collectible_actor_ready s (unat (gb_barrel gb)) 0x1C then False
      else True)"

definition coop_collectible_source_ready :: "coop_env \<Rightarrow> coop_game \<Rightarrow> nat \<Rightarrow> bool" where
  "coop_collectible_source_ready e s i \<longleftrightarrow>
     (if COOP_PICKUP_FIRST \<le> i \<and> i < COOP_ACTOR_PICKUP_FIRST then
        let p = coop_pickups ! (i - COOP_PICKUP_FIRST)
        in \<not> on_map e (ucast (pickup_map p)) \<or> coop_collectible_prop_ready e s (unat (pickup_object p)) (unat (pickup_type p))
      else if COOP_ACTOR_PICKUP_FIRST \<le> i \<and> i < COOP_PROGRESSION_FIRST then
        let a = coop_actor_pickups ! (i - COOP_ACTOR_PICKUP_FIRST)
        in \<not> on_map e (ucast (actor_map a)) \<or> coop_collectible_actor_ready s (unat (actor_object a)) (unat (actor_type a))
      else if COOP_GB_FIRST \<le> i \<and> i < COOP_PICKUP_FIRST then banana_ready e s (coop_golden_bananas ! (i - COOP_GB_FIRST))
      else if i = COOP_JAPES_BOULDER_BUNCH then \<not> on_map e 7 \<or> coop_collectible_actor_ready s 6 0x3D
      else True)"

definition retire_banana :: "coop_env \<Rightarrow> CoopGoldenBanana \<Rightarrow> coop_game \<Rightarrow> coop_game" where
  "retire_banana e gb s =
     (if \<not> on_map e (ucast (gb_map gb)) then s
      else
        let s = (if gb_prop gb \<noteq> 0xFFFF then coop_collectible_prop_retire e (unat (gb_prop gb)) (unat (gb_prop_type gb)) s else s);
            s = (if gb_barrel gb \<noteq> 0xFF then coop_collectible_actor_retire (unat (gb_barrel gb)) 0x1C s else s)
        in coop_collectible_reward_actor_retire e (uint (gb_flag gb)) s)"

definition coop_collectible_source_retire :: "coop_env \<Rightarrow> nat \<Rightarrow> coop_game \<Rightarrow> coop_game" where
  "coop_collectible_source_retire e i s =
     (if COOP_PICKUP_FIRST \<le> i \<and> i < COOP_ACTOR_PICKUP_FIRST then
        let p = coop_pickups ! (i - COOP_PICKUP_FIRST)
        in if on_map e (ucast (pickup_map p)) then coop_collectible_prop_retire e (unat (pickup_object p)) (unat (pickup_type p)) s else s
      else if COOP_ACTOR_PICKUP_FIRST \<le> i \<and> i < COOP_PROGRESSION_FIRST then
        let a = coop_actor_pickups ! (i - COOP_ACTOR_PICKUP_FIRST)
        in if on_map e (ucast (actor_map a)) then coop_collectible_actor_retire (unat (actor_object a)) (unat (actor_type a)) s else s
      else if COOP_GB_FIRST \<le> i \<and> i < COOP_PICKUP_FIRST then retire_banana e (coop_golden_bananas ! (i - COOP_GB_FIRST)) s
      else if i = COOP_JAPES_BOULDER_BUNCH \<and> on_map e 7 then coop_collectible_actor_retire 6 0x3D s
      else s)"

section \<open>Wait reasons\<close>

abbreviation (input) COOP_TRACE_WAIT_NONE :: u32 where "COOP_TRACE_WAIT_NONE \<equiv> 0"
abbreviation (input) COOP_TRACE_WAIT_LOCAL_AREA :: u32 where "COOP_TRACE_WAIT_LOCAL_AREA \<equiv> 1"
abbreviation (input) COOP_TRACE_WAIT_REWARD_QUEUE :: u32 where "COOP_TRACE_WAIT_REWARD_QUEUE \<equiv> 2"
abbreviation (input) COOP_TRACE_WAIT_HUD :: u32 where "COOP_TRACE_WAIT_HUD \<equiv> 3"
abbreviation (input) COOP_TRACE_WAIT_SAME_LEVEL_ITEM :: u32 where "COOP_TRACE_WAIT_SAME_LEVEL_ITEM \<equiv> 4"
abbreviation (input) COOP_TRACE_WAIT_SAVE_UNSAFE :: u32 where "COOP_TRACE_WAIT_SAVE_UNSAFE \<equiv> 5"
abbreviation (input) COOP_TRACE_WAIT_PROGRESSION_CONTEXT :: u32 where "COOP_TRACE_WAIT_PROGRESSION_CONTEXT \<equiv> 6"
abbreviation (input) COOP_TRACE_WAIT_TROFF :: u32 where "COOP_TRACE_WAIT_TROFF \<equiv> 7"
abbreviation (input) COOP_TRACE_WAIT_COUNTER :: u32 where "COOP_TRACE_WAIT_COUNTER \<equiv> 8"
abbreviation (input) COOP_TRACE_WAIT_FILE :: u32 where "COOP_TRACE_WAIT_FILE \<equiv> 9"
abbreviation (input) COOP_TRACE_WAIT_SNAPSHOT :: u32 where "COOP_TRACE_WAIT_SNAPSHOT \<equiv> 10"
abbreviation (input) NO_ITEM :: u32 where "NO_ITEM \<equiv> 0xFFFFFFFF"

definition wait_item :: "u32 \<Rightarrow> nat \<Rightarrow> CoopItems \<Rightarrow> CoopItems" where
  "wait_item reason i g = coop_items_wait g reason (of_nat i)"

text \<open>\<open>g->previous[id / 32] |= 1u << (id % 32)\<close>: the item is known to the peer.\<close>

definition note_previous :: "nat \<Rightarrow> CoopItems \<Rightarrow> CoopItems" where
  "note_previous i g = g\<lparr>previous := coop_item_set i (previous g)\<rparr>"

section \<open>The frame of an application\<close>

text \<open>
  The values \<^verbatim>\<open>coop_items_apply\<close> computes before its loop; the loop's state is the session, the game
  and \<open>live_world_applied\<close>, and a step answers whether it left the loop.
\<close>

record apply_frame =
  calm :: bool
  training_ground :: bool
  live_only :: bool
  safe_save :: bool

type_synonym apply_state = "CoopItems \<times> coop_game \<times> bool"

definition world_row :: "nat \<Rightarrow> CoopWorldUnlock" where
  "world_row i = coop_world_unlocks ! (i - COOP_WORLD_FIRST)"

definition exact_live_world :: "coop_env \<Rightarrow> bool \<Rightarrow> CoopItems \<Rightarrow> nat \<Rightarrow> bool" where
  "exact_live_world e calm_now g i \<longleftrightarrow>
     COOP_WORLD_FIRST \<le> i \<and> i < COOP_PROGRESSION_END \<and> calm_now \<and> refresh_enabled g \<noteq> 0 \<and>
     coop_live_world_has_flag e (uint (unlock_flag (world_row i)))"

section \<open>Progression items\<close>

definition note_owned_progression :: "coop_game \<Rightarrow> CoopItems \<Rightarrow> CoopItems" where
  "note_owned_progression s g =
     fold (\<lambda>p g. if coop_progression_owned s p then note_previous p g else g) [COOP_PROGRESSION_FIRST..<COOP_PROGRESSION_END] g"

definition progression_granted :: "coop_env \<Rightarrow> apply_frame \<Rightarrow> nat \<Rightarrow> bool \<Rightarrow> bool \<Rightarrow> apply_state \<Rightarrow> apply_state" where
  "progression_granted e fr i refresh live_world st = (case st of (g, s, applied) \<Rightarrow>
     let f = uint (unlock_flag (world_row i));
         (live, s) = (if refresh then coop_live_world_refresh e f s else (False, s));
         applied = (if live_world \<and> live then True else applied);
         g = (if training_ground fr \<and> i = COOP_TRAINING_COMPLETE \<and> peer_same_map g \<noteq> 0 then g\<lparr>training_scene_pending := 1\<rparr> else g);
         g = note_owned_progression s g
     in (g\<lparr>save_pending := 1\<rparr>, s, applied))"

definition progression_step :: "coop_env \<Rightarrow> apply_frame \<Rightarrow> nat \<Rightarrow> apply_state \<Rightarrow> bool \<times> apply_state" where
  "progression_step e fr i st = (case st of (g, s, applied) \<Rightarrow>
     if \<not> coop_progression_valid s then (True, g\<lparr>counter_error := 1\<rparr>, s, applied)
     else
       let live_world = exact_live_world e (calm fr) g i;
           safe = (safe_save fr \<or> live_world \<or> training_ground fr \<and> coop_training_ground_apply_id i);
           loaded_world = (COOP_WORLD_FIRST \<le> i \<and> env_level e = unat (unlock_level (world_row i)));
           refresh = (live_world \<or> loaded_world \<or> training_ground fr \<and> i = COOP_WORLD_TRAINING_EXIT)
       in if \<not> safe then (False, wait_item COOP_TRACE_WAIT_LOCAL_AREA i g, s, applied)
          else if live_world \<and> \<not> coop_live_world_ready e s (uint (unlock_flag (world_row i))) then
            (False, wait_item COOP_TRACE_WAIT_PROGRESSION_CONTEXT i g, s, applied)
          else if loaded_world \<and> refresh_enabled g \<noteq> 0 \<and> \<not> live_world then
            (False, wait_item COOP_TRACE_WAIT_LOCAL_AREA i g, s, applied)
          else (case coop_progression_apply e s i safe (env_level e) (refresh_enabled g \<noteq> 0) of (granted, s) \<Rightarrow>
            if granted then (False, progression_granted e fr i refresh live_world (g, s, applied))
            else (False, wait_item COOP_TRACE_WAIT_PROGRESSION_CONTEXT i g, s, applied)))"

section \<open>Collectibles\<close>

text \<open>
  The source of an item: level, Kong and amount of its credit and the map it lies on.  The ranges
  are disjoint, so each assignment of the code is one branch; an item of none of them keeps the
  initial values.
\<close>

record collectible =
  item_level :: nat
  item_kong :: nat
  item_amount :: nat
  source_map :: u32

definition collectible_of :: "nat \<Rightarrow> collectible" where
  "collectible_of i =
     (if COOP_PICKUP_FIRST \<le> i \<and> i < COOP_ACTOR_PICKUP_FIRST then
        let index = i - COOP_PICKUP_FIRST; p = coop_pickups ! index
        in \<lparr>item_level = coop_pickup_level index, item_kong = unat (pickup_kong p), item_amount = unat (pickup_amount p),
            source_map = ucast (pickup_map p)\<rparr>
      else if COOP_ACTOR_PICKUP_FIRST \<le> i \<and> i < COOP_PROGRESSION_FIRST then
        let a = coop_actor_pickups ! (i - COOP_ACTOR_PICKUP_FIRST)
        in \<lparr>item_level = unat (actor_level a), item_kong = unat (actor_kong a), item_amount = unat (actor_amount a),
            source_map = ucast (actor_map a)\<rparr>
      else if i = COOP_JAPES_BOULDER_BUNCH then \<lparr>item_level = 0, item_kong = 4, item_amount = 5, source_map = 7\<rparr>
      else case coop_item_gb i of
        Some (level, kong) \<Rightarrow> \<lparr>item_level = level, item_kong = kong, item_amount = 1,
          source_map = (if COOP_GB_FIRST \<le> i then ucast (gb_map (coop_golden_bananas ! (i - COOP_GB_FIRST))) else NO_ITEM)\<rparr>
      | None \<Rightarrow> \<lparr>item_level = 0, item_kong = 0, item_amount = 1, source_map = NO_ITEM\<rparr>)"

definition is_pickup :: "nat \<Rightarrow> bool" where
  "is_pickup i \<longleftrightarrow> COOP_PICKUP_FIRST \<le> i \<and> i < COOP_ACTOR_PICKUP_FIRST"

definition is_actor :: "nat \<Rightarrow> bool" where
  "is_actor i \<longleftrightarrow> COOP_ACTOR_PICKUP_FIRST \<le> i \<and> i < COOP_PROGRESSION_FIRST"

text \<open>The counter the pointer \<open>counter\<close> designates; a rainbow coin has none of its own.\<close>

datatype counter = Golden | Coloured | Coins

definition read_counter :: "counter \<Rightarrow> nat \<Rightarrow> CoopCharacterProgress \<Rightarrow> u16" where
  "read_counter c level p = (case c of Golden \<Rightarrow> golden p ! level | Coloured \<Rightarrow> coloured p ! level | Coins \<Rightarrow> coins p)"

definition write_counter :: "counter \<Rightarrow> nat \<Rightarrow> nat \<Rightarrow> CoopCharacterProgress \<Rightarrow> CoopCharacterProgress" where
  "write_counter c level v p =
     (case c of Golden \<Rightarrow> p\<lparr>golden := (golden p)[level := of_nat v]\<rparr>
      | Coloured \<Rightarrow> p\<lparr>coloured := (coloured p)[level := of_nat v]\<rparr>
      | Coins \<Rightarrow> p\<lparr>coins := of_nat v\<rparr>)"

datatype credit = NoCredit | RainbowCredit "nat list" | CounterCredit counter nat nat

text \<open>\<open>100 - fed\<close> of the code is an unsigned difference.\<close>

definition counter_capacity :: "counter \<Rightarrow> nat \<Rightarrow> nat \<Rightarrow> coop_game \<Rightarrow> nat" where
  "counter_capacity c level kong s =
     (case c of Golden \<Rightarrow> coop_snide_capacity level kong
      | Coloured \<Rightarrow> unat (100 - (ucast (fed (kongs s ! kong) ! level) :: u32))
      | Coins \<Rightarrow> 999)"

text \<open>The checks before the permanent write: wait, an inconsistent counter, or the credit to make.\<close>

datatype prepared = Wait u32 | Inconsistent | Credit credit

definition counter_credit :: "nat \<Rightarrow> coop_game \<Rightarrow> prepared" where
  "counter_credit i s =
     (let c = collectible_of i; level = item_level c; kong = item_kong c;
          which = (if coop_item_gb i \<noteq> None then Golden else if item_amount c \<noteq> 0 then Coloured else Coins);
          before = unat (read_counter which level (kongs s ! kong));
          amount = (if item_amount c = 0 then 1 else item_amount c)
      in if before + amount > counter_capacity which level kong s then Inconsistent
         else Credit (CounterCredit which before amount))"

definition rainbow_credit :: "coop_game \<Rightarrow> prepared" where
  "rainbow_credit s =
     (let before = map (\<lambda>k. unat (coins (kongs s ! k))) [0..<5]
      in if list_ex (\<lambda>b. b > 994) before then Inconsistent else Credit (RainbowCredit before))"

definition prepare_credit :: "coop_env \<Rightarrow> apply_frame \<Rightarrow> nat \<Rightarrow> coop_game \<Rightarrow> prepared" where
  "prepare_credit e fr i s =
     (let gb = (coop_item_gb i \<noteq> None)
      in if i = COOP_ARCADE_COINS_PAID \<and> (\<not> safe_save fr \<or> env_level e = 2) then Wait COOP_TRACE_WAIT_SAVE_UNSAFE
         else if gb \<or> is_pickup i \<or> is_actor i \<or> i = COOP_JAPES_BOULDER_BUNCH then
           if \<not> safe_save fr then Wait COOP_TRACE_WAIT_SAVE_UNSAFE
           else if \<not> hud_loaded e then Wait COOP_TRACE_WAIT_HUD
           else if on_map e (source_map (collectible_of i)) \<and> \<not> coop_collectible_source_ready e s i then
             Wait COOP_TRACE_WAIT_SAME_LEVEL_ITEM
           else if gb \<and> i < COOP_MEDAL_FIRST \<and> \<not> flags s (0x1D5 + int i - int COOP_SNIDE_FIRST) then
             Wait COOP_TRACE_WAIT_PROGRESSION_CONTEXT
           else if is_actor i \<and> item_amount (collectible_of i) = 0 then rainbow_credit s
           else counter_credit i s
         else Credit NoCredit)"

text \<open>
  A peer's colored bananas that bring the total to 75 award the Kong's medal.  The medal is derived
  here, so it is requested from the host.
\<close>

definition award_medal :: "coop_env \<Rightarrow> nat \<Rightarrow> nat \<Rightarrow> CoopItems \<times> coop_game \<Rightarrow> CoopItems \<times> coop_game" where
  "award_medal e level kong st = (case st of (g, s) \<Rightarrow>
     let medal = COOP_MEDAL_FIRST + level * 5 + kong
     in if \<not> coop_item_owned s medal then
          let s = set_flag e (coop_item_flag medal) s
          in (if coop_item_owned s medal then coop_items_note g medal else g, s)
        else (g, s))"

definition counts_to_medal :: "nat \<Rightarrow> bool" where
  "counts_to_medal i \<longleftrightarrow>
     (is_pickup i \<and> pickup_amount (coop_pickups ! (i - COOP_PICKUP_FIRST)) \<noteq> 0 \<or> is_actor i \<or> i = COOP_JAPES_BOULDER_BUNCH) \<and>
     item_level (collectible_of i) < 7"

definition commit_counter ::
  "coop_env \<Rightarrow> nat \<Rightarrow> counter \<Rightarrow> nat \<Rightarrow> nat \<Rightarrow> CoopItems \<times> coop_game \<Rightarrow> bool \<times> CoopItems \<times> coop_game" where
  "commit_counter e i which before amount st = (case st of (g, s) \<Rightarrow>
     let level = item_level (collectible_of i); kong = item_kong (collectible_of i)
     in if unat (read_counter which level (kongs s ! kong)) \<noteq> before then (True, g\<lparr>counter_error := 1\<rparr>, s)
        else
          let s = update_kong kong (write_counter which level (before + amount)) s;
              g = (if coop_item_gb i \<noteq> None then g\<lparr>hud_pending := 1\<rparr> else g)
          in (False,
            if counts_to_medal i \<and>
               75 \<le> unat (read_counter which level (kongs s ! kong)) + unat (fed (kongs s ! kong) ! level)
            then award_medal e level kong (g, s) else (g, s)))"

definition commit_rainbow :: "nat list \<Rightarrow> CoopItems \<times> coop_game \<Rightarrow> bool \<times> CoopItems \<times> coop_game" where
  "commit_rainbow before st = (case st of (g, s) \<Rightarrow>
     if list_ex (\<lambda>k. unat (coins (kongs s ! k)) \<noteq> before ! k) [0..<5] then (True, g\<lparr>counter_error := 1\<rparr>, s)
     else (False, g, fold (\<lambda>k. update_kong k (\<lambda>p. p\<lparr>coins := of_nat (before ! k + 5)\<rparr>)) [0..<5] s))"

definition commit_credit ::
  "coop_env \<Rightarrow> nat \<Rightarrow> credit \<Rightarrow> CoopItems \<times> coop_game \<Rightarrow> bool \<times> CoopItems \<times> coop_game" where
  "commit_credit e i c st =
     (case c of NoCredit \<Rightarrow> (False, st)
      | RainbowCredit before \<Rightarrow> commit_rainbow before st
      | CounterCredit which before amount \<Rightarrow> commit_counter e i which before amount st)"

definition permanent_write :: "coop_env \<Rightarrow> nat \<Rightarrow> coop_game \<Rightarrow> coop_game" where
  "permanent_write e i s =
     (if is_pickup i then
        set_pickup e (pickup_ordinal i) (item_level (collectible_of i)) s
      else set_flag e (coop_item_flag i) s)"

definition collectible_step :: "coop_env \<Rightarrow> apply_frame \<Rightarrow> nat \<Rightarrow> apply_state \<Rightarrow> bool \<times> apply_state" where
  "collectible_step e fr i st = (case st of (g, s, applied) \<Rightarrow>
     case prepare_credit e fr i s of
       Wait reason \<Rightarrow> (False, wait_item reason i g, s, applied)
     | Inconsistent \<Rightarrow> (True, g\<lparr>counter_error := 1\<rparr>, s, applied)
     | Credit c \<Rightarrow>
         let s = permanent_write e i s
         in if \<not> coop_item_owned s i then (False, g, s, applied)
            else case commit_credit e i c (g, s) of (broke, g, s) \<Rightarrow>
              if broke then (True, g, s, applied)
              else
                let s = (if on_map e (source_map (collectible_of i)) then coop_collectible_source_retire e i s else s)
                in (False, (note_previous i g)\<lparr>save_pending := 1\<rparr>, s, applied))"

section \<open>One item\<close>

definition troff_step :: "coop_env \<Rightarrow> apply_frame \<Rightarrow> nat \<Rightarrow> apply_state \<Rightarrow> bool \<times> apply_state" where
  "troff_step e fr i st = (case st of (g, s, applied) \<Rightarrow>
     case coop_troff_apply e g s i (safe_save fr) of (paid, g, s) \<Rightarrow>
       let g = (if paid then g else wait_item COOP_TRACE_WAIT_TROFF i (g\<lparr>troff_pending := 1\<rparr>))
       in (counter_error g \<noteq> 0, g, s, applied))"

definition item_step :: "coop_env \<Rightarrow> apply_frame \<Rightarrow> nat \<Rightarrow> apply_state \<Rightarrow> bool \<times> apply_state" where
  "item_step e fr i st = (case st of (g, s, applied) \<Rightarrow>
     if \<not> coop_item_has (apply_words (result g)) i \<or> coop_item_owned s i then (False, g, s, applied)
     else if live_only fr \<and> \<not> exact_live_world e (calm fr) g i then
       (False, wait_item COOP_TRACE_WAIT_LOCAL_AREA i g, s, applied)
     else if COOP_TROFF_FIRST \<le> i \<and> i < COOP_TROFF_END then troff_step e fr i (g, s, applied)
     else if COOP_PROGRESSION_FIRST \<le> i \<and> i < COOP_PROGRESSION_END then progression_step e fr i (g, s, applied)
     else collectible_step e fr i (g, s, applied))"

fun apply_ids :: "coop_env \<Rightarrow> apply_frame \<Rightarrow> nat list \<Rightarrow> apply_state \<Rightarrow> apply_state" where
  "apply_ids e fr [] st = st"
| "apply_ids e fr (i # ids) st =
     (case item_step e fr i st of (broke, st) \<Rightarrow> if broke then st else apply_ids e fr ids st)"

section \<open>Training completion and saving\<close>

definition derive_training :: "coop_env \<Rightarrow> apply_frame \<Rightarrow> CoopItems \<Rightarrow> coop_game \<Rightarrow> CoopItems \<times> coop_game" where
  "derive_training e fr g s =
     (if counter_error g = 0 \<and> (safe_save fr \<or> training_ground fr) \<and> hud_loaded e \<and> coop_training_prerequisites s \<and>
         \<not> coop_item_has (apply_words (result g)) COOP_TRAINING_COMPLETE \<and> \<not> coop_item_owned s COOP_TRAINING_COMPLETE
      then
        let s = set_flag e (coop_item_flag COOP_TRAINING_COMPLETE) s
        in if coop_item_owned s COOP_TRAINING_COMPLETE then
             let g = (note_previous COOP_TRAINING_COMPLETE (coop_items_note g COOP_TRAINING_COMPLETE))\<lparr>save_pending := 1\<rparr>
             in (if training_ground fr \<and> peer_same_map g \<noteq> 0 then g\<lparr>training_scene_pending := 1\<rparr> else g, s)
           else (g, s)
      else (g, s))"

definition save_applied :: "coop_env \<Rightarrow> bool \<Rightarrow> CoopItems \<times> coop_game \<Rightarrow> CoopItems \<times> coop_game" where
  "save_applied e save_now st = (case st of (g, s) \<Rightarrow>
     if counter_error g \<noteq> 0 then (update_input (\<lambda>n. n\<lparr>ready := 0\<rparr>) g, s)
     else
       let (g, s) = (if save_now \<and> hud_pending g \<noteq> 0 \<and> hud_loaded e then (g\<lparr>hud_pending := 0\<rparr>, call_game RefreshHud s) else (g, s))
       in if save_now \<and> save_pending g \<noteq> 0 then (g\<lparr>save_pending := 0\<rparr>, call_game SaveGame s) else (g, s))"

definition pending_live_world :: "coop_env \<Rightarrow> CoopItems \<Rightarrow> coop_game \<Rightarrow> bool" where
  "pending_live_world e g s \<longleftrightarrow>
     list_ex (\<lambda>i. coop_item_has (apply_words (result g)) i \<and> \<not> coop_item_owned s i \<and>
       coop_live_world_has_flag e (uint (unlock_flag (world_row i)))) [COOP_WORLD_FIRST..<COOP_PROGRESSION_END]"

definition receiving :: "CoopItems \<Rightarrow> bool" where
  "receiving g \<longleftrightarrow> result_status (result g) = 2 \<or> result_status (result g) = 3"

definition apply_session :: "coop_env \<Rightarrow> apply_frame \<Rightarrow> CoopItems \<Rightarrow> coop_game \<Rightarrow> CoopItems \<times> coop_game" where
  "apply_session e fr g s =
     (let (g, s, applied) =
        (if receiving g then
           (case apply_ids e fr [0..<COOP_ITEMS] (g\<lparr>applying := 1\<rparr>, s, False) of (g, s, applied) \<Rightarrow>
              case derive_training e fr g s of (g, s) \<Rightarrow> (g\<lparr>applying := 0\<rparr>, s, applied))
         else (g, s, False))
      in save_applied e (safe_save fr \<or> training_ground fr \<or> applied) (g, s))"

definition coop_items_apply :: "coop_env \<Rightarrow> CoopItems \<Rightarrow> coop_game \<Rightarrow> bool \<Rightarrow> CoopItems \<times> coop_game" where
  "coop_items_apply e g s safe_to_save =
     (let g = g\<lparr>troff_pending := 0, training_scene_pending := 0, wait_reason := COOP_TRACE_WAIT_NONE, wait_id := NO_ITEM\<rparr>
      in if ready (input g) = 0 then (coop_items_wait g COOP_TRACE_WAIT_SNAPSHOT NO_ITEM, s)
         else
           let fr = \<lparr>calm = safe_to_save, training_ground = (safe_to_save \<and> env_map e = 176),
                 live_only = (deferred g \<noteq> 0 \<and> \<not> (safe_to_save \<and> env_map e = 176)),
                 safe_save = (safe_to_save \<and> coop_items_apply_map (env_map e))\<rparr>
           in if live_only fr \<and> \<not> (calm fr \<and> refresh_enabled g \<noteq> 0 \<and> receiving g \<and> pending_live_world e g s) then
                (coop_items_wait g COOP_TRACE_WAIT_LOCAL_AREA NO_ITEM, s)
              else if file_changed g \<noteq> 0 then (coop_items_wait g COOP_TRACE_WAIT_FILE NO_ITEM, s)
              else if counter_error g \<noteq> 0 then (coop_items_wait g COOP_TRACE_WAIT_COUNTER NO_ITEM, s)
              else if reward_queued e then (coop_items_wait g COOP_TRACE_WAIT_REWARD_QUEUE NO_ITEM, s)
              else apply_session e fr g s)"

end
