(* ===== verification/CoopGrants.thy ===== *)
theory CoopGrants
  imports CoopApply
begin

text \<open>
  What applying a peer's items does to the save: it keeps the counters consistent with the flags, takes
  nothing away, gives nothing that was not sent, and remembers what it gave.
\<close>

section \<open>Ownership by flags\<close>

definition game_shape :: "coop_game \<Rightarrow> bool" where
  "game_shape s \<longleftrightarrow> 5 \<le> length (kongs s) \<and> 8 \<le> length (fed_cache s) \<and>
     (\<forall>p \<in> set (kongs s). length (progression p) = 6 \<and> length (coloured p) = 14 \<and> length (fed p) = 14 \<and>
        length (golden p) = 14)"

definition consistent :: "coop_env \<Rightarrow> coop_game \<Rightarrow> bool" where
  "consistent e s \<longleftrightarrow> game_shape s \<and> coop_items_counters_valid e s"

lemma owned_flag: "i \<in> set flagged_ids \<Longrightarrow> coop_item_owned s i \<longleftrightarrow> flags s (coop_item_flag i)"
  unfolding flagged_members coop_item_owned_def
  by (auto simp: coop_progression_owned_def coop_item_flag_def)

lemma gb_range: "coop_item_gb i = Some lk \<Longrightarrow> i < COOP_PICKUP_FIRST \<and> COOP_SNIDE_FIRST \<le> i \<and> i \<in> set flagged_ids"
  unfolding flagged_members by (auto simp: coop_item_gb_def split: if_splits)

lemma gb_bounds: "coop_item_gb i = Some (level, kong) \<Longrightarrow> level < 8 \<and> kong < 5"
proof -
  have tab: "list_all (\<lambda>g. unat (gb_level g) < 8 \<and> unat (gb_kong g) < 5) coop_golden_bananas"
    by (simp add: coop_golden_bananas_def coop_golden_bananas_parts)
  show "coop_item_gb i = Some (level, kong) \<Longrightarrow> level < 8 \<and> kong < 5"
    using tab by (auto simp: coop_item_gb_def list_all_length div_less_iff_less_mult split: if_splits)
qed

definition banana_ids :: "coop_game \<Rightarrow> nat \<Rightarrow> nat \<Rightarrow> nat set" where
  "banana_ids s level kong = {i. coop_item_gb i = Some (level, kong) \<and> flags s (coop_item_flag i)}"

lemma owned_bananas_card: "owned_bananas s level kong = card (banana_ids s level kong)"
proof -
  let ?P = "\<lambda>i. coop_item_gb i = Some (level, kong) \<and> coop_item_owned s i"
  have "set (filter ?P [COOP_SNIDE_FIRST..<COOP_PICKUP_FIRST]) = banana_ids s level kong"
    using gb_range owned_flag by (auto simp: banana_ids_def simp del: upt_rec_numeral)
  then show ?thesis
    unfolding owned_bananas_def by (metis distinct_card distinct_filter distinct_upt)
qed

lemma finite_banana_ids: "finite (banana_ids s level kong)"
  by (rule finite_subset [of _ "{..<COOP_PICKUP_FIRST}"]) (auto simp: banana_ids_def dest: gb_range)

section \<open>Writing a flag\<close>

abbreviation (input) with_flag :: "int \<Rightarrow> coop_game \<Rightarrow> coop_game" where
  "with_flag f s \<equiv> s\<lparr>flags := (flags s)(f := True)\<rparr>"

lemma banana_ids_flag:
  assumes "i \<in> set flagged_ids"
  shows "banana_ids (with_flag (coop_item_flag i) s) level kong =
    (if coop_item_gb i = Some (level, kong) then insert i (banana_ids s level kong) else banana_ids s level kong)"
proof -
  have "coop_item_flag j = coop_item_flag i \<longleftrightarrow> j = i" if "coop_item_gb j = Some (level, kong)" for j
    using gb_range [OF that] flag_inj [OF _ assms] by blast
  then show ?thesis by (auto simp: banana_ids_def)
qed

lemma owned_bananas_flag:
  assumes "i \<in> set flagged_ids" "\<not> coop_item_owned s i"
  shows "owned_bananas (with_flag (coop_item_flag i) s) level kong =
    owned_bananas s level kong + (if coop_item_gb i = Some (level, kong) then 1 else 0)"
proof -
  have "i \<notin> banana_ids s level kong" using assms owned_flag by (simp add: banana_ids_def)
  then show ?thesis
    by (simp add: owned_bananas_card banana_ids_flag [OF assms(1)] finite_banana_ids)
qed

lemma blueprint_missing_iff:
  "blueprint_missing s \<longleftrightarrow>
     (\<exists>i. COOP_SNIDE_FIRST \<le> i \<and> i < COOP_MEDAL_FIRST \<and> flags s (0x1FD + int i - 80) \<and> \<not> flags s (0x1D5 + int i - 80))"
proof -
  have row: "coop_item_gb i \<noteq> None \<and> coop_item_owned s i \<and> i < COOP_MEDAL_FIRST \<and> \<not> flags s (0x1D5 + int i - int COOP_SNIDE_FIRST) \<longleftrightarrow>
      i < COOP_MEDAL_FIRST \<and> flags s (0x1FD + int i - 80) \<and> \<not> flags s (0x1D5 + int i - 80)" if "COOP_SNIDE_FIRST \<le> i" for i
  proof (cases "i < COOP_MEDAL_FIRST")
    case True
    with that owned_flag [of i s] show ?thesis unfolding flagged_members by (simp add: coop_item_gb_def coop_item_flag_def)
  qed simp
  have "blueprint_missing s \<longleftrightarrow> (\<exists>i. i \<in> {COOP_SNIDE_FIRST..<COOP_PICKUP_FIRST} \<and> (i < COOP_MEDAL_FIRST \<and>
      flags s (0x1FD + int i - 80) \<and> \<not> flags s (0x1D5 + int i - 80)))"
    unfolding blueprint_missing_def list_ex_iff set_upt Bex_def by (rule ex_cong1) (use row in auto)
  then show ?thesis by auto
qed

text \<open>A flag that is neither a golden banana nor the slam gift leaves the counters consistent.\<close>

lemma training_flag: "coop_item_flag COOP_FIRST_SLAM = 0x180" "COOP_FIRST_SLAM \<in> set flagged_ids"
  unfolding flagged_members by (simp_all add: coop_item_flag_def coop_progression_flag_def training_flags_def)

lemma not_slam: "i \<in> set flagged_ids \<Longrightarrow> i \<noteq> COOP_FIRST_SLAM \<Longrightarrow> coop_item_flag i \<noteq> 0x180"
  using flag_inj [of i COOP_FIRST_SLAM] training_flag by auto

lemma snide_flag:
  assumes "i \<in> set flagged_ids" "COOP_SNIDE_FIRST \<le> j" "j < COOP_MEDAL_FIRST" "coop_item_flag i = 0x1FD + int j - 80"
  shows "i = j"
proof (rule flag_inj)
  show "j \<in> set flagged_ids" using assms(3) unfolding flagged_members by simp
  show "coop_item_flag i = coop_item_flag j" using assms(2-4) by (simp add: coop_item_flag_def)
qed (rule assms(1))

lemma blueprint_flag:
  assumes "i \<in> set flagged_ids" "\<not> blueprint_missing s"
    and "COOP_SNIDE_FIRST \<le> i \<Longrightarrow> i < COOP_MEDAL_FIRST \<Longrightarrow> flags s (0x1D5 + int i - 80)"
  shows "\<not> blueprint_missing (with_flag (coop_item_flag i) s)"
proof
  assume "blueprint_missing (with_flag (coop_item_flag i) s)"
  then obtain j where j: "COOP_SNIDE_FIRST \<le> j" "j < COOP_MEDAL_FIRST" "flags (with_flag (coop_item_flag i) s) (0x1FD + int j - 80)"
    "\<not> flags (with_flag (coop_item_flag i) s) (0x1D5 + int j - 80)" unfolding blueprint_missing_iff by blast
  then have off: "\<not> flags s (0x1D5 + int j - 80)" by (auto split: if_splits)
  show False
  proof (cases "coop_item_flag i = 0x1FD + int j - 80")
    case True
    from snide_flag [OF assms(1) j(1,2) True] assms(3) j(1,2) off show False by simp
  next
    case False
    with j(3) have "flags s (0x1FD + int j - 80)" by (simp split: if_splits)
    with j(1,2) off assms(2) show False unfolding blueprint_missing_iff by blast
  qed
qed

lemma progression_valid_flag: "f \<noteq> 0x180 \<Longrightarrow> coop_progression_valid (with_flag f s) = coop_progression_valid s"
  by (simp add: coop_progression_valid_def)

lemma counters_valid_iff:
  "coop_items_counters_valid e s \<longleftrightarrow> coop_progression_valid s \<and> \<not> blueprint_missing s \<and>
     (\<forall>l < 8. pickup_total e l = uint (coop_pickup_start ! (l + 1)) - uint (coop_pickup_start ! l)) \<and>
     (\<forall>l < 8. \<forall>k < 5. kong_counters_valid s l k)"
  unfolding coop_items_counters_valid_def list_all_iff set_upt by (auto simp: atLeastLessThan_def)

lemma consistent_flag:
  assumes "consistent e s" "i \<in> set flagged_ids" "coop_item_gb i = None" "i \<noteq> COOP_FIRST_SLAM"
  shows "consistent e (with_flag (coop_item_flag i) s)"
proof (cases "coop_item_owned s i")
  case True
  with owned_flag [OF assms(2)] have "with_flag (coop_item_flag i) s = s" by (simp add: fun_upd_idem)
  with assms(1) show ?thesis by simp
next
  case False
  have "\<not> (COOP_SNIDE_FIRST \<le> i \<and> i < COOP_MEDAL_FIRST)" using assms(3) by (simp add: coop_item_gb_def split: if_splits)
  with blueprint_flag [OF assms(2), of s] assms(1)
  have "\<not> blueprint_missing (with_flag (coop_item_flag i) s)" by (auto simp: consistent_def counters_valid_iff)
  with assms(1,3) owned_bananas_flag [OF assms(2) False] progression_valid_flag [OF not_slam [OF assms(2,4)], of s]
  show ?thesis
    by (simp add: consistent_def counters_valid_iff kong_counters_valid_def game_shape_def)
qed

section \<open>Writing a Kong's inventory\<close>

lemma kongs_update:
  assumes "5 \<le> length (kongs s)" "k < 5" "j < 5"
  shows "kongs (update_kong k f s) ! j = (if j = k then f (kongs s ! k) else kongs s ! j)"
  using assms by (simp add: update_kong_def nth_list_update)

lemma update_kong_simps [simp]:
  "flags (update_kong k f s) = flags s" "pickup_bits (update_kong k f s) = pickup_bits s"
  "melons (update_kong k f s) = melons s" "fed_cache (update_kong k f s) = fed_cache s"
  "length (kongs (update_kong k f s)) = length (kongs s)"
  by (simp_all add: update_kong_def)

lemma banana_ids_cong: "flags s' = flags s \<Longrightarrow> banana_ids s' level kong = banana_ids s level kong"
  by (simp add: banana_ids_def)

lemma owned_bananas_cong: "flags s' = flags s \<Longrightarrow> owned_bananas s' level kong = owned_bananas s level kong"
  by (simp only: owned_bananas_card banana_ids_cong [of s' s])

lemma blueprint_cong: "flags s' = flags s \<Longrightarrow> blueprint_missing s' = blueprint_missing s"
  by (simp add: blueprint_missing_iff)

lemma shape_member:
  assumes "game_shape s" "k < 5"
  shows "kongs s ! k \<in> set (kongs s)"
proof (rule nth_mem)
  show "k < length (kongs s)" using assms(2) conjunct1 [OF assms(1) [unfolded game_shape_def]] by linarith
qed

lemma shape_lengths:
  assumes "game_shape s" "k < 5"
  shows "length (progression (kongs s ! k)) = 6" "length (coloured (kongs s ! k)) = 14" "length (fed (kongs s ! k)) = 14"
    "length (golden (kongs s ! k)) = 14" "5 \<le> length (kongs s)" "8 \<le> length (fed_cache s)"
proof -
  from assms(1) have "\<forall>p \<in> set (kongs s). length (progression p) = 6 \<and> length (coloured p) = 14 \<and> length (fed p) = 14 \<and>
        length (golden p) = 14" and len: "5 \<le> length (kongs s)" "8 \<le> length (fed_cache s)"
    unfolding game_shape_def by blast+
  from bspec [OF this(1) shape_member [OF assms]]
  show "length (progression (kongs s ! k)) = 6" "length (coloured (kongs s ! k)) = 14" "length (fed (kongs s ! k)) = 14"
    "length (golden (kongs s ! k)) = 14" "5 \<le> length (kongs s)" "8 \<le> length (fed_cache s)"
    using len by simp_all
qed

lemma shape_update:
  assumes "game_shape s" "k < 5"
    and "length (progression (f (kongs s ! k))) = 6" "length (coloured (f (kongs s ! k))) = 14"
    "length (fed (f (kongs s ! k))) = 14" "length (golden (f (kongs s ! k))) = 14"
  shows "game_shape (update_kong k f s)"
  using assms unfolding game_shape_def update_kong_def by (auto dest!: set_update_subset_insert [THEN subsetD])

lemma progression_valid_cong:
  assumes "flags s' = flags s" "melons s' = melons s" "\<And>k. k < 5 \<Longrightarrow> progression (kongs s' ! k) = progression (kongs s ! k)"
  shows "coop_progression_valid s' = coop_progression_valid s"
proof -
  have "progression (kongs s' ! 0) = progression (kongs s ! 0)" by (rule assms(3)) simp
  then show ?thesis
    unfolding coop_progression_valid_def list_all_iff set_upt Let_def assms(1,2) by (auto simp: assms(3))
qed

text \<open>An inventory write that respects the capacities keeps the save consistent.\<close>

lemma consistent_update:
  assumes "consistent e s" "k < 5" "game_shape (update_kong k f s)"
    and "progression (f (kongs s ! k)) = progression (kongs s ! k)" "golden (f (kongs s ! k)) = golden (kongs s ! k)"
    and "unat (coins (f (kongs s ! k))) \<le> 999"
    and "\<And>l. l < 8 \<Longrightarrow> unat (coloured (f (kongs s ! k)) ! l) + unat (fed (f (kongs s ! k)) ! l) \<le> 100"
  shows "consistent e (update_kong k f s)"
proof -
  note at = kongs_update [OF shape_lengths(5) [OF _ assms(2)] assms(2), of s _ f]
  have shape: "game_shape s" using assms(1) by (simp add: consistent_def)
  have valid: "coop_progression_valid (update_kong k f s) = coop_progression_valid s"
    by (rule progression_valid_cong) (simp_all add: at [OF shape] assms(4))
  have counters: "kong_counters_valid (update_kong k f s) l j" if "l < 8" "j < 5" for l j
  proof -
    have "kong_counters_valid s l j" using assms(1) that by (simp add: consistent_def counters_valid_iff)
    with assms(5-7) that show ?thesis
      by (cases "j = k")
        (simp_all add: kong_counters_valid_def at [OF shape] owned_bananas_cong [OF update_kong_simps(1)])
  qed
  with assms(1,3) valid show ?thesis
    unfolding consistent_def counters_valid_iff by (simp add: blueprint_cong [OF update_kong_simps(1)])
qed

lemma consistent_cong:
  assumes "flags s' = flags s" "melons s' = melons s" "kongs s' = kongs s" "length (fed_cache s') = length (fed_cache s)"
  shows "consistent e s' = consistent e s"
  using assms owned_bananas_cong [OF assms(1)] blueprint_cong [OF assms(1)] progression_valid_cong [of s' s]
  by (simp add: consistent_def counters_valid_iff kong_counters_valid_def game_shape_def)

lemma consistent_call [simp]: "consistent e (call_game c s) = consistent e s"
  by (rule consistent_cong) (simp_all add: call_game_def)

section \<open>Ownership only grows\<close>

definition kong_le :: "CoopCharacterProgress \<Rightarrow> CoopCharacterProgress \<Rightarrow> bool" where
  "kong_le p q \<longleftrightarrow>
     (\<forall>j \<in> {0, 1, 3}. progression p ! j \<le> progression q ! j) \<and>
     (\<forall>j \<in> {2, 4}. \<forall>v. progression p ! j AND v \<noteq> 0 \<longrightarrow> progression q ! j AND v \<noteq> 0) \<and>
     (\<forall>l < 8. fed p ! l \<le> fed q ! l)"

definition game_le :: "coop_game \<Rightarrow> coop_game \<Rightarrow> bool" where
  "game_le s t \<longleftrightarrow> (\<forall>f. flags s f \<longrightarrow> flags t f) \<and> (\<forall>l b. pickup_bits s l b \<longrightarrow> pickup_bits t l b) \<and>
     melons s \<le> melons t \<and> (\<forall>k < 5. kong_le (kongs s ! k) (kongs t ! k))"

lemma kong_le_refl [simp]: "kong_le p p"
  by (simp add: kong_le_def)

lemma game_le_refl [simp]: "game_le s s"
  by (simp add: game_le_def)

lemma kong_le_trans: "kong_le p q \<Longrightarrow> kong_le q r \<Longrightarrow> kong_le p r"
  unfolding kong_le_def by (meson order_trans)

lemma game_le_trans: "game_le s t \<Longrightarrow> game_le t u \<Longrightarrow> game_le s u"
  unfolding game_le_def by (meson kong_le_trans order_trans)

lemma move_fields:
  "coop_progression_move i = Some (kong, field, v, bits) \<Longrightarrow>
     (if bits then field \<in> {2, 4} else field \<in> {0, 1, 3}) \<and> kong \<le> 5 \<and> v < 256 \<and> 0 < v"
proof -
  have all: "list_all (\<lambda>i. case coop_progression_move i of None \<Rightarrow> True | Some (kong, field, v, bits) \<Rightarrow>
      (if bits then field \<in> {2, 4} else field \<in> {0, 1, 3}) \<and> kong \<le> 5 \<and> v < 256 \<and> 0 < v) [COOP_MOVE_FIRST..<COOP_MELON_FIRST]"
    by (simp add: coop_progression_move_def)
  assume i: "coop_progression_move i = Some (kong, field, v, bits)"
  have "COOP_MOVE_FIRST \<le> i \<and> i < COOP_MELON_FIRST" using i by (auto simp: coop_progression_move_def split: if_splits)
  then have "i \<in> set [COOP_MOVE_FIRST..<COOP_MELON_FIRST]" by (simp only: set_upt atLeastLessThan_iff)
  from bspec [OF all [unfolded list_all_iff] this]
  show "(if bits then field \<in> {2, 4} else field \<in> {0, 1, 3}) \<and> kong \<le> 5 \<and> v < 256 \<and> 0 < v"
    unfolding i option.case prod.case .
qed

lemma troff_owned_mono:
  "game_le s t \<Longrightarrow> coop_troff_owned s i \<Longrightarrow> coop_troff_owned t i"
proof -
  assume le: "game_le s t" and owned: "coop_troff_owned s i"
  then obtain level kong amount where b: "coop_troff_bucket i = Some (level, kong, amount)" "amount \<le> unat (fed (kongs s ! kong) ! level)"
    by (auto simp: coop_troff_owned_def split: option.splits)
  then have "level < 8" "kong < 5" using troff_bucket_id [of i level kong amount] by simp_all
  with le have "fed (kongs s ! kong) ! level \<le> fed (kongs t ! kong) ! level" by (simp add: game_le_def kong_le_def)
  with b show "coop_troff_owned t i" by (simp add: coop_troff_owned_def word_le_nat_alt)
qed


text \<open>The test of one Kong's move: a tier reached, or a bit set.\<close>

definition move_have :: "nat \<Rightarrow> nat \<Rightarrow> bool \<Rightarrow> CoopCharacterProgress \<Rightarrow> bool" where
  "move_have field v bits p \<longleftrightarrow>
     (if bits then progression p ! field AND of_nat v \<noteq> 0 else v \<le> unat (progression p ! field))"

lemma move_owned:
  "coop_progression_move i = Some (kong, field, v, bits) \<Longrightarrow>
     coop_item_owned s i \<longleftrightarrow> (\<forall>k < 5. kong = 5 \<or> k = kong \<longrightarrow> move_have field v bits (kongs s ! k))"
proof -
  assume m: "coop_progression_move i = Some (kong, field, v, bits)"
  then have "COOP_MOVE_FIRST \<le> i" "i < COOP_MELON_FIRST" by (auto simp: coop_progression_move_def split: if_splits)
  with m show ?thesis
    by (auto simp: coop_item_owned_def coop_progression_owned_def list_all_iff move_have_def)
qed

lemma melon_owned:
  "COOP_MELON_FIRST \<le> i \<Longrightarrow> i < COOP_TRAINING_FIRST \<Longrightarrow>
     coop_item_owned s i \<longleftrightarrow> 2 + i - COOP_MELON_FIRST \<le> unat (melons s)"
  by (simp add: coop_item_owned_def coop_progression_owned_def)

lemma troff_owned: "COOP_TROFF_FIRST \<le> i \<Longrightarrow> i < COOP_TROFF_END \<Longrightarrow> coop_item_owned s i = coop_troff_owned s i"
  by (simp add: coop_item_owned_def)

lemma pickup_owned:
  "COOP_PICKUP_FIRST \<le> i \<Longrightarrow> i < COOP_ACTOR_PICKUP_FIRST \<Longrightarrow>
     coop_item_owned s i \<longleftrightarrow> pickup_bits s (coop_pickup_level (i - COOP_PICKUP_FIRST)) (pickup_ordinal i)"
  by (simp add: coop_item_owned_def)

lemma item_kinds:
  assumes "i < COOP_ITEMS"
  obtains (flag) "i \<in> set flagged_ids" | (pickup) "COOP_PICKUP_FIRST \<le> i" "i < COOP_ACTOR_PICKUP_FIRST"
  | (move) kong field v bits where "coop_progression_move i = Some (kong, field, v, bits)"
  | (melon) "COOP_MELON_FIRST \<le> i" "i < COOP_TRAINING_FIRST"
  | (troff) "COOP_TROFF_FIRST \<le> i" "i < COOP_TROFF_END"
proof -
  have "\<exists>m. coop_progression_move i = Some m" if "COOP_MOVE_FIRST \<le> i" "i < COOP_MELON_FIRST"
    using that by (auto simp: coop_progression_move_def)
  note some = this
  consider "i \<in> set flagged_ids" | "COOP_PICKUP_FIRST \<le> i" "i < COOP_ACTOR_PICKUP_FIRST"
    | "COOP_MOVE_FIRST \<le> i" "i < COOP_MELON_FIRST" | "COOP_MELON_FIRST \<le> i" "i < COOP_TRAINING_FIRST"
    | "COOP_TROFF_FIRST \<le> i" "i < COOP_TROFF_END"
    using assms unfolding flagged_members by linarith
  then show thesis
  proof cases
    case 3
    from some [OF this] obtain kong field v bits where "coop_progression_move i = Some (kong, field, v, bits)"
      by (metis prod_cases4)
    then show thesis by (rule move)
  qed (use flag pickup melon troff in blast)+
qed

lemma owned_mono:
  assumes "game_le s t" "i < COOP_ITEMS" "coop_item_owned s i"
  shows "coop_item_owned t i"
  using assms(2)
proof (cases i rule: item_kinds)
  case flag
  with assms show ?thesis by (simp add: owned_flag game_le_def)
next
  case pickup
  with assms show ?thesis by (simp add: pickup_owned game_le_def)
next
  case (move kong field v bits)
  have "move_have field v bits (kongs t ! k)" if "k < 5" "move_have field v bits (kongs s ! k)" for k
  proof -
    have "kong_le (kongs s ! k) (kongs t ! k)" using assms(1) that(1) by (simp add: game_le_def)
    with that(2) move_fields [OF move] show ?thesis
      by (cases bits) (auto simp: move_have_def kong_le_def word_le_nat_alt)
  qed
  with assms(3) show ?thesis by (simp add: move_owned [OF move])
next
  case melon
  have "unat (melons s) \<le> unat (melons t)" using assms(1) by (simp add: game_le_def word_le_nat_alt)
  with assms(3) melon show ?thesis by (simp add: melon_owned)
next
  case troff
  with assms troff_owned_mono show ?thesis by (simp add: troff_owned)
qed

section \<open>Granting a move\<close>

text \<open>What else an item brings: the lower tiers of the same inventory byte, and fewer melons.\<close>

definition implied :: "nat \<Rightarrow> nat \<Rightarrow> bool" where
  "implied i j \<longleftrightarrow> j = i \<or>
     COOP_MELON_FIRST \<le> j \<and> j \<le> i \<and> i < COOP_TRAINING_FIRST \<or>
     (case coop_progression_move i of None \<Rightarrow> False | Some (kong, field, v, bits) \<Rightarrow>
        case coop_progression_move j of None \<Rightarrow> False | Some (kong', field', v', bits') \<Rightarrow>
          kong' = kong \<and> field' = field \<and> (if bits then v' = v else v' \<le> v))"

text \<open>The game after a grant of item \<open>i\<close>.\<close>

definition granting :: "coop_env \<Rightarrow> nat \<Rightarrow> coop_game \<Rightarrow> coop_game \<Rightarrow> bool" where
  "granting e i s t \<longleftrightarrow> (consistent e s \<longrightarrow> consistent e t) \<and> game_le s t \<and>
     (\<forall>j < COOP_ITEMS. coop_item_owned t j \<longrightarrow> coop_item_owned s j \<or> implied i j)"

lemma granting_refl [simp]: "granting e i s s"
  by (simp add: granting_def)

lemma owned_with_flag:
  assumes "i \<in> set flagged_ids" "j < COOP_ITEMS"
  shows "coop_item_owned (with_flag (coop_item_flag i) s) j \<longleftrightarrow> coop_item_owned s j \<or> j = i"
  using assms(2)
proof (cases j rule: item_kinds)
  case flag
  with flag_inj [OF flag assms(1)] show ?thesis by (auto simp: owned_flag)
next
  case pickup
  with assms(1) show ?thesis unfolding flagged_members by (auto simp: pickup_owned)
next
  case (move kong field v bits)
  then have "COOP_MOVE_FIRST \<le> j \<and> j < COOP_MELON_FIRST" by (auto simp: coop_progression_move_def split: if_splits)
  then have "j \<noteq> i" using assms(1) unfolding flagged_members by auto
  then show ?thesis by (simp add: move_owned [OF move])
next
  case melon
  with assms(1) show ?thesis unfolding flagged_members by (auto simp: melon_owned)
next
  case troff
  moreover have "coop_troff_owned (with_flag (coop_item_flag i) s) j = coop_troff_owned s j"
    by (simp add: coop_troff_owned_def split: option.split)
  moreover have "j \<noteq> i" using troff assms(1) unfolding flagged_members by auto
  ultimately show ?thesis by (simp add: troff_owned)
qed

lemma flag_le [simp]: "game_le s (with_flag f s)"
  by (simp add: game_le_def)

lemma granting_flag:
  "i \<in> set flagged_ids \<Longrightarrow> coop_item_gb i = None \<Longrightarrow> i \<noteq> COOP_FIRST_SLAM \<Longrightarrow> granting e i s (with_flag (coop_item_flag i) s)"
  using consistent_flag owned_with_flag by (auto simp: granting_def implied_def)

lemma set_flag_cases: "set_flag e f s = s \<or> set_flag e f s = with_flag f s"
  by (simp add: set_flag_def)

text \<open>Writing the inventories of several Kongs.\<close>

definition written_kongs :: "(nat \<Rightarrow> bool) \<Rightarrow> (nat \<Rightarrow> CoopCharacterProgress \<Rightarrow> CoopCharacterProgress) \<Rightarrow> coop_game \<Rightarrow> coop_game" where
  "written_kongs c h s =
     s\<lparr>kongs := map (\<lambda>j. if j < 5 \<and> c j then h j (kongs s ! j) else kongs s ! j) [0..<length (kongs s)]\<rparr>"

lemma fold_update_part:
  "n \<le> length (kongs s) \<Longrightarrow> fold (\<lambda>k s. if c k then update_kong k (h k) s else s) [0..<n] s =
     s\<lparr>kongs := map (\<lambda>j. if j < n \<and> c j then h j (kongs s ! j) else kongs s ! j) [0..<length (kongs s)]\<rparr>"
proof (induction n)
  case 0
  then show ?case by (simp add: map_nth)
next
  case (Suc n)
  let ?m = "\<lambda>n. map (\<lambda>j. if j < n \<and> c j then h j (kongs s ! j) else kongs s ! j) [0..<length (kongs s)]"
  have n: "n < length (kongs s)" using Suc.prems by simp
  define F where "F = fold (\<lambda>k s. if c k then update_kong k (h k) s else s) [0..<n] s"
  have F: "F = s\<lparr>kongs := ?m n\<rparr>" unfolding F_def using Suc by simp
  have set_n: "(?m n)[n := h n (kongs s ! n)] = ?m (Suc n)" if "c n"
    using that n by (intro nth_equalityI) (auto simp: nth_list_update)
  have keep_n: "?m n = ?m (Suc n)" if "\<not> c n"
    using that by (auto simp: less_Suc_eq)
  have "fold (\<lambda>k s. if c k then update_kong k (h k) s else s) [0..<Suc n] s = (if c n then update_kong n (h n) F else F)"
    by (simp add: F_def)
  also have "\<dots> = s\<lparr>kongs := ?m (Suc n)\<rparr>"
  proof (cases "c n")
    case True
    have "?m n ! n = kongs s ! n" using n by simp
    then have "update_kong n (h n) F = s\<lparr>kongs := (?m n)[n := h n (kongs s ! n)]\<rparr>" by (simp add: F update_kong_def)
    with True show ?thesis unfolding set_n [OF True] by simp
  next
    case False
    then show ?thesis unfolding F keep_n [OF False] by simp
  qed
  finally show ?case .
qed

lemma fold_update:
  "5 \<le> length (kongs s) \<Longrightarrow> fold (\<lambda>k s. if c k then update_kong k (h k) s else s) [0..<5] s = written_kongs c h s"
  by (simp only: fold_update_part written_kongs_def)

lemma written_kongs_simps [simp]:
  "flags (written_kongs c h s) = flags s" "pickup_bits (written_kongs c h s) = pickup_bits s"
  "melons (written_kongs c h s) = melons s" "fed_cache (written_kongs c h s) = fed_cache s"
  "coop_calls (written_kongs c h s) = coop_calls s" "length (kongs (written_kongs c h s)) = length (kongs s)"
  by (simp_all add: written_kongs_def)

lemma written_kongs_nth:
  "5 \<le> length (kongs s) \<Longrightarrow> j < 5 \<Longrightarrow> kongs (written_kongs c h s) ! j = (if c j then h j (kongs s ! j) else kongs s ! j)"
  by (simp add: written_kongs_def)

lemma shape_written:
  assumes "game_shape s"
    and "\<And>j p. j < 5 \<Longrightarrow> length (progression p) = 6 \<Longrightarrow> length (coloured p) = 14 \<Longrightarrow> length (fed p) = 14 \<Longrightarrow> length (golden p) = 14 \<Longrightarrow>
      length (progression (h j p)) = 6 \<and> length (coloured (h j p)) = 14 \<and> length (fed (h j p)) = 14 \<and> length (golden (h j p)) = 14"
  shows "game_shape (written_kongs c h s)"
proof -
  have all: "\<forall>p \<in> set (kongs s). length (progression p) = 6 \<and> length (coloured p) = 14 \<and> length (fed p) = 14 \<and>
      length (golden p) = 14" and sizes: "5 \<le> length (kongs s)" "8 \<le> length (fed_cache s)"
    using assms(1) unfolding game_shape_def by blast+
  have "length (progression q) = 6 \<and> length (coloured q) = 14 \<and> length (fed q) = 14 \<and> length (golden q) = 14"
    if "q \<in> set (kongs (written_kongs c h s))" for q
  proof -
    from that obtain j where j: "j < length (kongs s)" "q = (if j < 5 \<and> c j then h j (kongs s ! j) else kongs s ! j)"
      by (auto simp: written_kongs_def)
    from bspec [OF all nth_mem [OF j(1)]] assms(2) [of j "kongs s ! j"] j(2) show ?thesis by (cases "j < 5 \<and> c j") auto
  qed
  with sizes show ?thesis unfolding game_shape_def by simp
qed

section \<open>The inventory bytes stay in range\<close>

definition tiers_ok :: "u8 list \<Rightarrow> bool" where
  "tiers_ok p \<longleftrightarrow> unat (p ! 0) \<le> 3 \<and> unat (p ! 1) \<le> 3 \<and> unat (p ! 2) \<le> 7 \<and> unat (p ! 3) \<le> 2 \<and> unat (p ! 4) \<le> 15"

definition shared_same :: "u8 list \<Rightarrow> u8 list \<Rightarrow> bool" where
  "shared_same p q \<longleftrightarrow> p ! 1 = q ! 1 \<and> p ! 3 = q ! 3 \<and> p ! 2 AND 6 = q ! 2 AND 6 \<and> p ! 4 AND 14 = q ! 4 AND 14"

lemma below_all: "(\<forall>k \<in> {0..<n}. P k) \<longleftrightarrow> (\<forall>k < (n :: nat). P k)"
  by auto

lemma progression_valid_iff:
  "coop_progression_valid s \<longleftrightarrow> unat (melons s) \<le> 3 \<and>
     (\<forall>k < 5. tiers_ok (progression (kongs s ! k)) \<and> \<not> (flags s 0x180 \<and> progression (kongs s ! k) ! 1 = 0) \<and>
        shared_same (progression (kongs s ! k)) (progression (kongs s ! 0)))"
  unfolding coop_progression_valid_def list_all_iff Let_def tiers_ok_def shared_same_def set_upt below_all conj_assoc ..

definition raised :: "bool \<Rightarrow> nat \<Rightarrow> nat \<Rightarrow> u8 list \<Rightarrow> u8 list" where
  "raised bits field v p =
     (if bits then p[field := p ! field OR of_nat v] else if unat (p ! field) < v then p[field := of_nat v] else p)"

lemma or_below: "unat (a :: 'a::len word) < 2 ^ n \<Longrightarrow> unat b < 2 ^ n \<Longrightarrow> unat (a OR b) < 2 ^ n"
proof -
  assume "unat a < 2 ^ n" "unat b < 2 ^ n"
  then have "take_bit n (unat a OR unat b) = unat a OR unat b"
    by (simp add: take_bit_or take_bit_nat_eq_self)
  then show "unat (a OR b) < 2 ^ n" unfolding unsigned_or_eq take_bit_nat_eq_self_iff .
qed

lemma or_small:
  fixes a :: u8
  shows "unat a \<le> 7 \<Longrightarrow> unat b \<le> 7 \<Longrightarrow> unat (a OR b) \<le> 7" "unat a \<le> 15 \<Longrightarrow> unat b \<le> 15 \<Longrightarrow> unat (a OR b) \<le> 15"
  using or_below [of a 3 b] or_below [of a 4 b] by simp_all

text \<open>The moves the mod knows, by inventory byte.\<close>

definition moves :: "(nat \<times> nat \<times> nat \<times> bool) list" where
  "moves = [
     (0, 0, 1, False), (0, 0, 2, False), (0, 0, 3, False), (0, 2, 1, True), (0, 4, 1, True),
     (1, 0, 1, False), (1, 0, 2, False), (1, 0, 3, False), (1, 2, 1, True), (1, 4, 1, True),
     (2, 0, 1, False), (2, 0, 2, False), (2, 0, 3, False), (2, 2, 1, True), (2, 4, 1, True),
     (3, 0, 1, False), (3, 0, 2, False), (3, 0, 3, False), (3, 2, 1, True), (3, 4, 1, True),
     (4, 0, 1, False), (4, 0, 2, False), (4, 0, 3, False), (4, 2, 1, True), (4, 4, 1, True),
     (5, 1, 2, False), (5, 1, 3, False), (5, 3, 1, False), (5, 3, 2, False), (5, 2, 2, True),
     (5, 2, 4, True), (5, 4, 2, True), (5, 4, 4, True), (5, 4, 8, True)]"

lemma move_in_moves: "coop_progression_move i = Some m \<Longrightarrow> m \<in> set moves"
proof -
  have all: "list_all (\<lambda>i. the (coop_progression_move i) \<in> set moves) [COOP_MOVE_FIRST..<COOP_MELON_FIRST]"
    by (simp add: coop_progression_move_def moves_def)
  assume i: "coop_progression_move i = Some m"
  have "COOP_MOVE_FIRST \<le> i \<and> i < COOP_MELON_FIRST" using i by (auto simp: coop_progression_move_def split: if_splits)
  then have "i \<in> set [COOP_MOVE_FIRST..<COOP_MELON_FIRST]" by (simp only: set_upt atLeastLessThan_iff)
  from bspec [OF all [unfolded list_all_iff] this] show "m \<in> set moves" unfolding i by simp
qed

lemma moves_cases:
  assumes "(kong, field, v, bits) \<in> set moves"
  obtains (special) "kong < 5" "field = 0" "v \<le> 3" "\<not> bits" | (slam) "kong = 5" "field = 1" "2 \<le> v" "v \<le> 3" "\<not> bits"
  | (belt) "kong = 5" "field = 3" "v \<le> 2" "\<not> bits"
  | (gun) "kong < 5" "field = 2" "v = 1" "bits" | (gun_upgrade) "kong = 5" "field = 2" "v = 2 \<or> v = 4" "bits"
  | (instrument) "kong < 5" "field = 4" "v = 1" "bits" | (instrument_upgrade) "kong = 5" "field = 4" "v = 2 \<or> v = 4 \<or> v = 8" "bits"
  using assms unfolding moves_def by (auto simp del: upt_rec_numeral)

lemma raised_tiers:
  assumes "(kong, field, v, bits) \<in> set moves" "length p = 6" "tiers_ok p"
  shows "tiers_ok (raised bits field v p)"
  using assms(1)
proof (cases rule: moves_cases)
  case gun_upgrade
  then show ?thesis using assms(2,3) or_small(1) [of "p ! 2"] by (auto simp: tiers_ok_def raised_def)
next
  case instrument_upgrade
  then show ?thesis using assms(2,3) or_small(2) [of "p ! 4"] by (auto simp: tiers_ok_def raised_def)
next
  case gun
  then show ?thesis using assms(2,3) or_small(1) [of "p ! 2"] by (auto simp: tiers_ok_def raised_def)
next
  case instrument
  then show ?thesis using assms(2,3) or_small(2) [of "p ! 4"] by (auto simp: tiers_ok_def raised_def)
qed (use assms(2,3) in \<open>auto simp: tiers_ok_def raised_def unat_of_nat\<close>)

lemma raised_slam:
  assumes "(kong, field, v, bits) \<in> set moves" "length p = 6" "p ! 1 \<noteq> 0"
  shows "raised bits field v p ! 1 \<noteq> 0"
  using assms(1)
proof (cases rule: moves_cases)
  case slam
  then have "v = 2 \<or> v = 3" by auto
  with slam assms(2,3) show ?thesis by (auto simp: raised_def)
qed (use assms(2,3) in \<open>auto simp: raised_def\<close>)

lemma raised_shared_all:
  assumes "(5, field, v, bits) \<in> set moves" "length p = 6" "length q = 6" "shared_same p q"
  shows "shared_same (raised bits field v p) (raised bits field v q)"
  using assms(1)
proof (cases rule: moves_cases)
  case gun_upgrade
  then show ?thesis using assms(2-4) by (auto simp: shared_same_def raised_def bit.conj_disj_distrib2)
next
  case instrument_upgrade
  then show ?thesis using assms(2-4) by (auto simp: shared_same_def raised_def bit.conj_disj_distrib2)
qed (use assms(2-4) in \<open>auto simp: shared_same_def raised_def\<close>)

lemma raised_shared_one:
  assumes "(kong, field, v, bits) \<in> set moves" "kong < 5" "length p = 6"
  shows "shared_same (raised bits field v p) p"
  using assms(1)
proof (cases rule: moves_cases)
  case gun
  then show ?thesis using assms(3) by (auto simp: shared_same_def raised_def bit.conj_disj_distrib2)
next
  case instrument
  then show ?thesis using assms(3) by (auto simp: shared_same_def raised_def bit.conj_disj_distrib2)
qed (use assms(2,3) in \<open>auto simp: shared_same_def raised_def\<close>)

lemma shared_same_trans: "shared_same p q \<Longrightarrow> shared_same q r \<Longrightarrow> shared_same p r"
  and shared_same_sym: "shared_same p q \<Longrightarrow> shared_same q p"
  and shared_same_refl [simp]: "shared_same p p"
  by (simp_all add: shared_same_def)

section \<open>Granting progression\<close>

text \<open>A rewrite of the inventory bytes alone keeps the counters; the bytes have their own conditions.\<close>

definition with_progression :: "(u8 list \<Rightarrow> u8 list) \<Rightarrow> CoopCharacterProgress \<Rightarrow> CoopCharacterProgress" where
  "with_progression f p = p\<lparr>progression := f (progression p)\<rparr>"

lemma consistent_progression:
  assumes "consistent e s" "\<And>p. length p = 6 \<Longrightarrow> length (f p) = 6"
    and "coop_progression_valid (written_kongs c (\<lambda>k. with_progression f) s)"
  shows "consistent e (written_kongs c (\<lambda>k. with_progression f) s)"
proof -
  let ?t = "written_kongs c (\<lambda>k. with_progression f) s"
  have shape: "game_shape s" using assms(1) by (simp add: consistent_def)
  then have len: "5 \<le> length (kongs s)" by (simp add: game_shape_def)
  have "game_shape ?t" by (rule shape_written [OF shape]) (simp add: with_progression_def assms(2))
  moreover have "kong_counters_valid ?t l k" if "l < 8" "k < 5" for l k
    using assms(1) that
    by (simp add: consistent_def counters_valid_iff kong_counters_valid_def written_kongs_nth [OF len] with_progression_def
        owned_bananas_cong [OF written_kongs_simps(1)])
  ultimately show ?thesis
    using assms(1,3) by (simp add: consistent_def counters_valid_iff blueprint_cong [OF written_kongs_simps(1)])
qed

lemma grant_move_written:
  "5 \<le> length (kongs s) \<Longrightarrow> grant_move (kong, field, v, bits) s =
     written_kongs (\<lambda>k. kong = 5 \<or> k = kong) (\<lambda>k. with_progression (raised bits field v)) s"
proof -
  assume len: "5 \<le> length (kongs s)"
  have eq: "(\<lambda>p. if bits then p\<lparr>progression := (progression p)[field := progression p ! field OR of_nat v]\<rparr>
           else if unat (progression p ! field) < v then p\<lparr>progression := (progression p)[field := of_nat v]\<rparr> else p) =
        with_progression (raised bits field v)"
    by (auto simp: with_progression_def raised_def)
  show ?thesis
    unfolding grant_move_def prod.case eq
    by (rule fold_update [OF len, of "\<lambda>k. kong = 5 \<or> k = kong" "\<lambda>k. with_progression (raised bits field v)"])
qed

lemma raise_slam_written:
  "5 \<le> length (kongs s) \<Longrightarrow> raise_slam s = written_kongs (\<lambda>k. True) (\<lambda>k. with_progression (raised False 1 1)) s"
proof -
  assume len: "5 \<le> length (kongs s)"
  have eq: "(\<lambda>p. if unat (progression p ! 1) < 1 then p\<lparr>progression := (progression p)[1 := 1]\<rparr> else p) =
        with_progression (raised False 1 1)"
    by (auto simp: with_progression_def raised_def)
  show ?thesis
    unfolding raise_slam_def eq
    by (rule fold_update [OF len, of "\<lambda>k. True" "\<lambda>k. with_progression (raised False 1 1)", unfolded if_True])
qed

lemma length_raised [simp]: "length (raised bits field v p) = length p"
  by (simp add: raised_def)

lemma move_valid:
  assumes "consistent e s" "(kong, field, v, bits) \<in> set moves"
  shows "coop_progression_valid (grant_move (kong, field, v, bits) s)"
proof -
  have shape: "game_shape s" and valid: "coop_progression_valid s"
    using assms(1) by (simp_all add: consistent_def counters_valid_iff)
  have len: "5 \<le> length (kongs s)" using shape by (simp add: game_shape_def)
  let ?q = "\<lambda>k. progression (kongs s ! k)"
  have size: "length (?q k) = 6" if "k < 5" for k using shape_lengths(1) [OF shape that] .
  have old: "tiers_ok (?q k)" "flags s 0x180 \<longrightarrow> ?q k ! 1 \<noteq> 0" "shared_same (?q k) (?q 0)" if "k < 5" for k
    using valid that by (auto simp: progression_valid_iff)
  let ?c = "\<lambda>k. kong = 5 \<or> k = kong"
  let ?n = "\<lambda>k. if ?c k then raised bits field v (?q k) else ?q k"
  have new: "progression (kongs (grant_move (kong, field, v, bits) s) ! k) = ?n k" if "k < 5" for k
    using that by (simp add: grant_move_written [OF len] written_kongs_nth [OF len] with_progression_def)
  have tiers: "tiers_ok (?n k)" if "k < 5" for k
    using raised_tiers [OF assms(2) size [OF that] old(1) [OF that]] old(1) [OF that] by simp
  have slam: "flags s 0x180 \<longrightarrow> ?n k ! 1 \<noteq> 0" if "k < 5" for k
    using raised_slam [OF assms(2) size [OF that]] old(2) [OF that] by simp
  have shared: "shared_same (?n k) (?n 0)" if "k < 5" for k
  proof (cases "kong = 5")
    case True
    with raised_shared_all [of field v bits "?q k" "?q 0"] assms(2) size old(3) that show ?thesis by simp
  next
    case False
    have "kong < 5" using assms(2) False by (cases rule: moves_cases) simp_all
    with raised_shared_one [OF assms(2)] size that have "shared_same (?n j) (?q j)" if "j < 5" for j using that by simp
    with that show ?thesis using old(3) [OF that] by (meson shared_same_trans shared_same_sym zero_less_numeral)
  qed
  have fl: "flags (grant_move (kong, field, v, bits) s) = flags s" "melons (grant_move (kong, field, v, bits) s) = melons s"
    by (simp_all add: grant_move_written [OF len])
  show ?thesis
    unfolding progression_valid_iff fl using valid tiers slam shared new
    by (auto simp: progression_valid_iff)
qed

lemma raised_kong_le:
  assumes "if bits then field \<in> {2, 4} else field \<in> {0, 1, 3}" "length (progression p) = 6" "v < 256"
  shows "kong_le p (with_progression (raised bits field v) p)"
proof -
  have "a AND w \<noteq> 0 \<Longrightarrow> (a OR b) AND w \<noteq> 0" for a b w :: u8
    unfolding bit.conj_disj_distrib2 by (simp add: bit_eq_iff bit_or_iff) blast
  moreover have "unat a < v \<Longrightarrow> a \<le> of_nat v" for a :: u8
    using assms(3) by (simp add: word_le_nat_alt unat_of_nat)
  ultimately show ?thesis
    using assms(1,2) by (cases bits) (auto simp: kong_le_def with_progression_def raised_def)
qed

lemma written_le:
  assumes "game_shape s" "\<And>k. k < 5 \<Longrightarrow> c k \<Longrightarrow> kong_le (kongs s ! k) (h k (kongs s ! k))"
  shows "game_le s (written_kongs c h s)"
proof -
  have "5 \<le> length (kongs s)" using assms(1) by (simp add: game_shape_def)
  with assms(2) show ?thesis by (auto simp: game_le_def written_kongs_nth)
qed

text \<open>What a grant adds to the moves of a Kong.\<close>

lemma moves_hit:
  "list_all (\<lambda>(kong, field, v, bits). list_all (\<lambda>(kong', field', v', bits').
      field' = field \<and> (kong = 5 \<or> kong' = 5 \<or> kong = kong') \<longrightarrow>
      bits' = bits \<and> ((if bits then (of_nat v :: u8) AND of_nat v' \<noteq> 0 else v' \<le> v) \<longrightarrow>
        kong' = kong \<and> (if bits then v' = v else v' \<le> v))) moves) moves"
  by (simp add: moves_def)

lemma move_have_raised:
  assumes "(kong, field, v, bits) \<in> set moves" "(kong', field', v', bits') \<in> set moves"
    and "length (progression p) = 6" "kong = 5 \<or> kong' = 5 \<or> kong = kong'"
    and "move_have field' v' bits' (with_progression (raised bits field v) p)" "\<not> move_have field' v' bits' p"
  shows "kong' = kong \<and> field' = field \<and> (if bits then v' = v else v' \<le> v)"
proof -
  have range: "field < 6" "v < 256" using assms(1) by (cases rule: moves_cases; auto)+
  have f: "field' = field"
  proof (rule ccontr)
    assume "field' \<noteq> field"
    then have "move_have field' v' bits' (with_progression (raised bits field v) p) = move_have field' v' bits' p"
      by (simp add: move_have_def with_progression_def raised_def)
    with assms(5,6) show False by simp
  qed
  have hit: "bits' = bits \<and> ((if bits then (of_nat v :: u8) AND of_nat v' \<noteq> 0 else v' \<le> v) \<longrightarrow>
        kong' = kong \<and> (if bits then v' = v else v' \<le> v))"
    using bspec [OF bspec [OF moves_hit [unfolded list_all_iff] assms(1), unfolded prod.case list_all_iff] assms(2)] f assms(4)
    by simp
  have "if bits then (of_nat v :: u8) AND of_nat v' \<noteq> 0 else v' \<le> v"
  proof (cases bits)
    case True
    let ?a = "progression p ! field" and ?w = "of_nat v' :: u8"
    have "(?a OR of_nat v) AND ?w \<noteq> 0" "?a AND ?w = 0"
      using assms(3,5,6) hit True f range(1) by (simp_all add: move_have_def with_progression_def raised_def)
    then have "of_nat v AND ?w \<noteq> (0 :: u8)" by (simp add: bit.conj_disj_distrib2)
    with True show ?thesis by simp
  next
    case False
    then show ?thesis
      using assms(3,5,6) hit f range by (auto simp: move_have_def with_progression_def raised_def unat_of_nat split: if_splits)
  qed
  with hit f show ?thesis by blast
qed

lemma owned_kongs_cong:
  assumes "flags t = flags s" "pickup_bits t = pickup_bits s" "melons t = melons s"
    and "\<And>k. k < 5 \<Longrightarrow> fed (kongs t ! k) = fed (kongs s ! k)"
    and "i < COOP_ITEMS" "coop_progression_move i = None"
  shows "coop_item_owned t i = coop_item_owned s i"
  using assms(5)
proof (cases i rule: item_kinds)
  case troff
  have "coop_troff_owned t i = coop_troff_owned s i"
    using assms(4) troff_bucket_id [of i] by (auto simp: coop_troff_owned_def split: option.splits)
  then show ?thesis by (simp only: troff_owned [OF troff])
qed (use assms in \<open>simp_all add: owned_flag pickup_owned melon_owned\<close>)

lemma grant_move_granting:
  assumes "consistent e s" "coop_progression_move i = Some (kong, field, v, bits)"
  shows "granting e i s (grant_move (kong, field, v, bits) s)"
proof -
  let ?t = "grant_move (kong, field, v, bits) s"
  have shape: "game_shape s" using assms(1) by (simp add: consistent_def)
  have len: "5 \<le> length (kongs s)" using shape by (simp add: game_shape_def)
  note m = move_in_moves [OF assms(2)] and w = grant_move_written [OF len, of kong field v bits]
  have at: "kongs ?t ! k = (if kong = 5 \<or> k = kong then with_progression (raised bits field v) (kongs s ! k) else kongs s ! k)"
    if "k < 5" for k using that by (simp add: w written_kongs_nth [OF len])
  have "consistent e ?t"
    unfolding w by (rule consistent_progression [OF assms(1)]) (simp_all add: move_valid [OF assms(1) m] w [symmetric])
  moreover have "game_le s ?t"
    unfolding w using move_fields [OF assms(2)] shape_lengths(1) [OF shape]
    by (intro written_le [OF shape] raised_kong_le) auto
  moreover have "implied i j" if "j < COOP_ITEMS" "coop_item_owned ?t j" "\<not> coop_item_owned s j" for j
  proof (cases "coop_progression_move j")
    case None
    have "coop_item_owned ?t j = coop_item_owned s j"
      by (rule owned_kongs_cong) (use that(1) None in \<open>simp_all add: w written_kongs_nth [OF len] with_progression_def\<close>)
    with that show ?thesis by simp
  next
    case (Some m')
    obtain kong' field' v' bits' where m': "m' = (kong', field', v', bits')" by (metis prod_cases4)
    note j = Some [unfolded m']
    from that(3) obtain k where k: "k < 5" "kong' = 5 \<or> k = kong'" "\<not> move_have field' v' bits' (kongs s ! k)"
      by (auto simp: move_owned [OF j])
    from that(2) k(1,2) have new: "move_have field' v' bits' (kongs ?t ! k)" unfolding move_owned [OF j] by blast
    have touched: "kong = 5 \<or> k = kong" using new k at [OF k(1)] by (auto split: if_splits)
    with new at [OF k(1)] have "move_have field' v' bits' (with_progression (raised bits field v) (kongs s ! k))" by simp
    from move_have_raised [OF m move_in_moves [OF j] shape_lengths(1) [OF shape k(1)] _ this k(3)] touched k(2)
    have "kong' = kong \<and> field' = field \<and> (if bits then v' = v else v' \<le> v)" by auto
    then show ?thesis by (simp add: implied_def assms(2) j)
  qed
  ultimately show ?thesis by (auto simp: granting_def)
qed

lemma move_granted:
  assumes "consistent e s" "coop_progression_move i = Some (kong, field, v, bits)"
  shows "coop_item_owned (grant_move (kong, field, v, bits) s) i"
proof -
  have shape: "game_shape s" using assms(1) by (simp add: consistent_def)
  have len: "5 \<le> length (kongs s)" using shape by (simp add: game_shape_def)
  have range: "field < 6" "v < 256" "bits \<longrightarrow> v \<in> {1, 2, 4, 8}" using move_in_moves [OF assms(2)] by (cases rule: moves_cases; auto)+
  have "(a OR of_nat v) AND of_nat v \<noteq> (0 :: u8)" if bits for a :: u8
    using range(3) that by (auto simp: bit.conj_disj_distrib2)
  then show ?thesis
    using range shape_lengths(1) [OF shape]
    by (auto simp: move_owned [OF assms(2)] grant_move_written [OF len] written_kongs_nth [OF len] move_have_def
        with_progression_def raised_def unat_of_nat)
qed

lemma melon_granting:
  assumes "consistent e s" "COOP_MELON_FIRST \<le> i" "i < COOP_TRAINING_FIRST" "unat (melons s) < 2 + i - COOP_MELON_FIRST"
  shows "granting e i s (s\<lparr>melons := of_nat (2 + i - COOP_MELON_FIRST)\<rparr>)"
proof -
  let ?t = "s\<lparr>melons := of_nat (2 + i - COOP_MELON_FIRST)\<rparr>"
  have m: "unat (melons ?t) = 2 + i - COOP_MELON_FIRST" proof -
    have "i = 2189 \<or> i = 2190" using assms(2,3) by linarith
    then show ?thesis by auto
  qed
  have "coop_progression_valid ?t"
    using assms m by (auto simp: consistent_def counters_valid_iff progression_valid_iff)
  then have "consistent e ?t"
    using assms(1) owned_bananas_cong [of ?t s] blueprint_cong [of ?t s]
    by (simp add: consistent_def counters_valid_iff kong_counters_valid_def game_shape_def)
  moreover have "game_le s ?t" using assms(4) m by (simp add: game_le_def word_le_nat_alt)
  moreover have "coop_item_owned s j \<or> implied i j" if "j < COOP_ITEMS" "coop_item_owned ?t j" for j
    using that(1)
  proof (cases j rule: item_kinds)
    case melon
    with that(2) m have "j \<le> i" by (simp add: melon_owned)
    with melon assms(3) show ?thesis by (simp add: implied_def)
  next
    case troff
    have "coop_troff_owned ?t j = coop_troff_owned s j" by (simp add: coop_troff_owned_def split: option.split)
    with that(2) troff show ?thesis by (simp add: troff_owned)
  qed (use that(2) in \<open>simp_all add: owned_flag pickup_owned move_owned\<close>)
  ultimately show ?thesis by (simp add: granting_def)
qed

lemma slam_granting:
  assumes "consistent e s"
  shows "granting e COOP_FIRST_SLAM s (raise_slam (with_flag (coop_item_flag COOP_FIRST_SLAM) s))"
proof -
  let ?s = "with_flag (coop_item_flag COOP_FIRST_SLAM) s"
  have shape: "game_shape s" using assms by (simp add: consistent_def)
  then have shape': "game_shape ?s" by (simp add: game_shape_def)
  have len: "5 \<le> length (kongs ?s)" using shape' by (simp add: game_shape_def)
  have valid: "coop_progression_valid s" using assms by (simp add: consistent_def counters_valid_iff)
  define h where "h = with_progression (raised False 1 1)"
  let ?t = "written_kongs (\<lambda>k. True) (\<lambda>k. h) ?s"
  note w = raise_slam_written [OF len, folded h_def]
  let ?q = "\<lambda>k. progression (kongs s ! k)"
  have size: "length (?q k) = 6" if "k < 5" for k using shape_lengths(1) [OF shape that] .
  have at: "kongs ?t ! k = h (kongs s ! k)" if "k < 5" for k
    using that len by (simp add: written_kongs_nth)
  have old: "tiers_ok (?q k)" "shared_same (?q k) (?q 0)" if "k < 5" for k
    using valid that by (auto simp: progression_valid_iff)
  have new: "tiers_ok (raised False 1 1 (?q k))" "raised False 1 1 (?q k) ! 1 \<noteq> 0"
    "shared_same (raised False 1 1 (?q k)) (raised False 1 1 (?q 0))" if "k < 5" for k
    using old [OF that] size [OF that] size [of 0]
    by (auto simp: tiers_ok_def shared_same_def raised_def unsigned_eq_0_iff)
  have t_valid: "coop_progression_valid ?t"
    unfolding progression_valid_iff using valid new at by (auto simp: progression_valid_iff with_progression_def h_def)
  have flagged: "COOP_FIRST_SLAM \<in> set flagged_ids" by (rule training_flag)
  have "\<not> blueprint_missing ?s" "owned_bananas ?s l k = owned_bananas s l k" for l k
  proof -
    show "\<not> blueprint_missing ?s"
      by (rule blueprint_flag [OF flagged]) (use assms in \<open>simp_all add: consistent_def counters_valid_iff\<close>)
    show "owned_bananas ?s l k = owned_bananas s l k"
      unfolding owned_bananas_card banana_ids_flag [OF flagged] by (simp add: coop_item_gb_def)
  qed
  moreover have "game_shape ?t" by (rule shape_written [OF shape']) (simp add: with_progression_def h_def)
  moreover have "golden (h p) = golden p" "coins (h p) = coins p" "coloured (h p) = coloured p" "fed (h p) = fed p" for p
    by (simp_all add: h_def with_progression_def)
  moreover have "blueprint_missing ?t = blueprint_missing ?s" "owned_bananas ?t l k = owned_bananas ?s l k" for l k
    by (rule blueprint_cong owned_bananas_cong, rule written_kongs_simps)+
  ultimately have "consistent e ?t"
    using assms t_valid unfolding consistent_def counters_valid_iff kong_counters_valid_def by (simp add: at)
  moreover have "game_le s ?t"
    by (rule game_le_trans [OF flag_le], rule written_le [OF shape'], unfold h_def, rule raised_kong_le) (simp_all add: size)
  moreover have "coop_item_owned s j \<or> implied COOP_FIRST_SLAM j" if "j < COOP_ITEMS" "coop_item_owned ?t j" for j
  proof (cases "coop_progression_move j")
    case None
    have "coop_item_owned ?t j = coop_item_owned ?s j"
      by (rule owned_kongs_cong) (use that(1) None len in \<open>simp_all add: written_kongs_nth with_progression_def h_def\<close>)
    with that owned_with_flag [OF flagged that(1)] show ?thesis by (auto simp: implied_def)
  next
    case (Some m')
    obtain kong' field' v' bits' where m': "m' = (kong', field', v', bits')" by (metis prod_cases4)
    note j = Some [unfolded m']
    have "move_have field' v' bits' (kongs s ! k)"
      if "k < 5" "move_have field' v' bits' (h (kongs s ! k))" for k
      using move_in_moves [OF j]
      by (cases rule: moves_cases)
        (use that size [OF that(1)] in \<open>auto simp: move_have_def with_progression_def raised_def h_def split: if_splits\<close>)
    with that(2) show ?thesis by (auto simp: move_owned [OF j] at)
  qed
  ultimately show ?thesis unfolding w by (auto simp: granting_def)
qed

definition grant_result :: "coop_env \<Rightarrow> nat \<Rightarrow> coop_game \<Rightarrow> bool \<times> coop_game \<Rightarrow> bool" where
  "grant_result e i s r \<longleftrightarrow> (if fst r then granting e i s (snd r) \<and> coop_item_owned (snd r) i else snd r = s)"

lemma progression_item:
  "COOP_PROGRESSION_FIRST \<le> i \<Longrightarrow> i < COOP_PROGRESSION_END \<Longrightarrow> coop_item_owned s i = coop_progression_owned s i"
  by (simp add: coop_item_owned_def)

lemma progression_item_flag:
  "COOP_PROGRESSION_FIRST \<le> i \<Longrightarrow> i < COOP_PROGRESSION_END \<Longrightarrow> coop_progression_flag i = coop_item_flag i"
  by (simp add: coop_item_flag_def)

lemma progression_not_gb: "COOP_PROGRESSION_FIRST \<le> i \<Longrightarrow> coop_item_gb i = None"
  by (simp add: coop_item_gb_def)

lemma refused [simp]: "grant_result e i s (False, s)"
  by (simp add: grant_result_def)

lemma flag_result:
  assumes "i \<in> set flagged_ids" "COOP_PROGRESSION_FIRST \<le> i" "i < COOP_PROGRESSION_END" "i \<noteq> COOP_FIRST_SLAM"
  shows "grant_result e i s (coop_progression_owned (set_flag e (coop_item_flag i) s) i, set_flag e (coop_item_flag i) s)"
proof -
  have "coop_item_owned (with_flag (coop_item_flag i) s) i"
    using owned_with_flag [OF assms(1)] assms(3) by simp
  with set_flag_cases [of e "coop_item_flag i" s] granting_flag [OF assms(1) progression_not_gb [OF assms(2)] assms(4)]
  show ?thesis
    by (auto simp: grant_result_def progression_item [OF assms(2,3)])
qed

lemma world_flag:
  "COOP_WORLD_FIRST \<le> i \<Longrightarrow> i < COOP_PROGRESSION_END \<Longrightarrow>
     uint (unlock_flag (coop_world_unlocks ! (i - COOP_WORLD_FIRST))) = coop_item_flag i"
  by (simp add: coop_item_flag_def coop_progression_flag_def)

lemma slam_result:
  assumes "consistent e s" "i = COOP_FIRST_SLAM"
  shows "grant_result e i s
    (if \<not> coop_progression_owned (set_flag e (coop_item_flag i) s) i then (False, set_flag e (coop_item_flag i) s)
     else (coop_progression_owned (raise_slam (set_flag e (coop_item_flag i) s)) i, raise_slam (set_flag e (coop_item_flag i) s)))"
proof -
  have len: "5 \<le> length (kongs s)" using assms(1) by (simp add: consistent_def game_shape_def)
  have own: "coop_progression_owned t 2197 = flags t 0x180" for t
    using owned_flag [of 2197 t] training_flag progression_item [of 2197 t] by simp
  have keep: "flags (raise_slam t) = flags t" if "5 \<le> length (kongs t)" for t
    by (simp add: raise_slam_written [OF that])
  have item: "coop_item_owned t 2197 = flags t 0x180" for t using own progression_item [of 2197 t] by simp
  show ?thesis
  proof (cases "flag_accepted e s (coop_item_flag i)")
    case True
    then have "set_flag e (coop_item_flag i) s = with_flag (coop_item_flag i) s" by (simp add: set_flag_def)
    with slam_granting [OF assms(1)] assms(2) training_flag keep [of "with_flag (coop_item_flag i) s"] len
    show ?thesis by (simp add: grant_result_def own item)
  next
    case False
    then have s: "set_flag e (coop_item_flag i) s = s" by (simp add: set_flag_def)
    show ?thesis
    proof (cases "flags s 0x180")
      case True
      then have "with_flag (coop_item_flag i) s = s" using assms(2) training_flag by (simp add: fun_upd_idem)
      with slam_granting [OF assms(1)] assms(2) True keep [OF len] show ?thesis
        unfolding s by (simp add: grant_result_def own item)
    qed (use assms(2) s in \<open>simp add: grant_result_def own\<close>)
  qed
qed

lemma melon_result:
  assumes "consistent e s" "COOP_MELON_FIRST \<le> i" "i < COOP_TRAINING_FIRST"
  shows "grant_result e i s (let v = 2 + i - COOP_MELON_FIRST; s = (if unat (melons s) < v then s\<lparr>melons := of_nat v\<rparr> else s)
    in (coop_progression_owned s i, s))"
proof -
  have item: "coop_progression_owned t i \<longleftrightarrow> 2 + i - COOP_MELON_FIRST \<le> unat (melons t)" for t
    using assms(2,3) by (simp add: coop_progression_owned_def)
  have own: "coop_item_owned t i \<longleftrightarrow> 2 + i - COOP_MELON_FIRST \<le> unat (melons t)" for t
    using melon_owned [OF assms(2,3)] .
  have "i = 2189 \<or> i = 2190" using assms(2,3) by linarith
  then have v: "unat (of_nat (2 + i - COOP_MELON_FIRST) :: u8) = 2 + i - COOP_MELON_FIRST" by auto
  show ?thesis
  proof (cases "unat (melons s) < 2 + i - COOP_MELON_FIRST")
    case True
    with melon_granting [OF assms True] v show ?thesis by (simp only: Let_def if_True grant_result_def fst_conv snd_conv item own) simp
  next
    case False
    then show ?thesis by (simp only: Let_def if_False grant_result_def fst_conv snd_conv item own granting_refl) simp
  qed
qed

lemma move_result:
  assumes "consistent e s" "coop_progression_move i = Some m" "COOP_PROGRESSION_FIRST \<le> i" "i < COOP_PROGRESSION_END"
  shows "grant_result e i s (coop_progression_owned (grant_move m s) i, grant_move m s)"
proof -
  obtain kong field v bits where m: "m = (kong, field, v, bits)" by (metis prod_cases4)
  from grant_move_granting [OF assms(1) assms(2) [unfolded m]] move_granted [OF assms(1) assms(2) [unfolded m]]
  show ?thesis by (simp add: grant_result_def m progression_item [OF assms(3,4), symmetric])
qed

lemma progression_apply_result:
  assumes "consistent e s"
  shows "grant_result e i s (coop_progression_apply e s i safe here refresh)"
proof (cases "\<not> safe \<or> \<not> hud_loaded e \<or> i < COOP_PROGRESSION_FIRST \<or> COOP_PROGRESSION_END \<le> i")
  case True
  then show ?thesis unfolding coop_progression_apply_def by (simp only: if_True refused)
next
  case False
  then have i: "COOP_PROGRESSION_FIRST \<le> i" "i < COOP_PROGRESSION_END" by auto
  note flag = progression_item_flag [OF i]
  note branches = refused if_split [where P = "grant_result e i s", THEN iffD2] conjI impI
  consider (world) "COOP_WORLD_FIRST \<le> i" | (warp) "\<not> COOP_WORLD_FIRST \<le> i" "COOP_WARP_FIRST \<le> i"
    | (training) "\<not> COOP_WORLD_FIRST \<le> i" "\<not> COOP_WARP_FIRST \<le> i" "COOP_TRAINING_FIRST \<le> i"
    | (event) "\<not> COOP_WORLD_FIRST \<le> i" "\<not> COOP_WARP_FIRST \<le> i" "\<not> COOP_TRAINING_FIRST \<le> i" "i < COOP_MOVE_FIRST"
    | (move) "\<not> COOP_WORLD_FIRST \<le> i" "\<not> COOP_WARP_FIRST \<le> i" "\<not> COOP_TRAINING_FIRST \<le> i" "\<not> i < COOP_MOVE_FIRST"
    by linarith
  then show ?thesis
  proof cases
    case world
    have "i \<in> set flagged_ids" "i \<noteq> COOP_FIRST_SLAM" using world i(2) unfolding flagged_members by auto
    from flag_result [OF this(1) i this(2)] show ?thesis
      unfolding coop_progression_apply_def if_not_P [OF False] if_P [OF world] Let_def world_flag [OF world i(2)]
      by (simp only: refused split: if_split) blast
  next
    case warp
    have "i \<in> set flagged_ids" "i \<noteq> COOP_FIRST_SLAM" using warp i(2) unfolding flagged_members by auto
    from flag_result [OF this(1) i this(2)] show ?thesis
      unfolding coop_progression_apply_def if_not_P [OF False] if_not_P [OF warp(1)] if_P [OF warp(2)] Let_def flag
      by (simp only: refused split: if_split) blast
  next
    case training
    have m: "i \<in> set flagged_ids" using training i(2) unfolding flagged_members by auto
    from training slam_result [OF assms, of i] flag_result [OF m i, of e s] show ?thesis
      unfolding coop_progression_apply_def if_not_P [OF False] if_not_P [OF training(1)] if_not_P [OF training(2)]
        if_P [OF training(3)] Let_def flag
      by (cases "i = COOP_FIRST_SLAM") (auto simp: grant_result_def)
  next
    case event
    have "i \<in> set flagged_ids" "i \<noteq> COOP_FIRST_SLAM" using event i unfolding flagged_members by auto
    from flag_result [OF this(1) i this(2)] show ?thesis
      unfolding coop_progression_apply_def if_not_P [OF False] if_not_P [OF event(1)] if_not_P [OF event(2)]
        if_not_P [OF event(3)] if_P [OF event(4)] Let_def flag
      by (simp only: refused split: if_split) blast
  next
    case move
    show ?thesis
    proof (cases "COOP_MELON_FIRST \<le> i")
      case True
      with melon_result [OF assms True] move(3) show ?thesis
        unfolding coop_progression_apply_def if_not_P [OF False] if_not_P [OF move(1)] if_not_P [OF move(2)]
          if_not_P [OF move(3)] if_not_P [OF move(4)] if_P [OF True]
        by (simp only: refused split: if_split) simp
    next
      case no_melon: False
      show ?thesis
      proof (cases "coop_progression_move i")
        case None
        then show ?thesis
          unfolding coop_progression_apply_def if_not_P [OF False] if_not_P [OF move(1)] if_not_P [OF move(2)]
            if_not_P [OF move(3)] if_not_P [OF move(4)] if_not_P [OF no_melon] by simp
      next
        case (Some m)
        from move_result [OF assms Some i] show ?thesis
          unfolding coop_progression_apply_def if_not_P [OF False] if_not_P [OF move(1)] if_not_P [OF move(2)]
            if_not_P [OF move(3)] if_not_P [OF move(4)] if_not_P [OF no_melon] Some option.case Let_def
          by (simp only: refused split: if_split) blast
      qed
    qed
  qed
qed

end
