(* ===== verification/CoopUnits.thy ===== *)
theory CoopUnits
  imports CoopScene
begin

text \<open>
  Showing a permanent change in a loaded map: the unit of a flag is checked as a whole before anything
  is changed, the change is then complete, reaches no object outside the unit, and leaves every actor
  alone that is in a sequence of its own.
\<close>

section \<open>What a change of the scene may touch\<close>

text \<open>Only the log, the scripts of loaded props and the actors; the save and the slots stay.\<close>

definition scene_only :: "'a live_game_scheme \<Rightarrow> 'a live_game_scheme \<Rightarrow> bool" where
  "scene_only s t \<longleftrightarrow> (\<exists>c. coop_calls t = coop_calls s @ c) \<and> flags t = flags s \<and> script_slots t = script_slots s \<and>
     spawners t = spawners s \<and> live_game.more t = live_game.more s"

lemma scene_only_refl [simp, intro]: "scene_only s s"
  by (simp add: scene_only_def)

lemma scene_only_trans: "scene_only s t \<Longrightarrow> scene_only t u \<Longrightarrow> scene_only s u"
  by (auto simp: scene_only_def)

lemma scene_only_step [simp]:
  "scene_only s t \<Longrightarrow> scene_only s (call_game c t)" "scene_only s t \<Longrightarrow> scene_only s (put_script p d t)"
  "scene_only s t \<Longrightarrow> scene_only s (put_actor i a t)" "scene_only s t \<Longrightarrow> scene_only s (t\<lparr>actors := as\<rparr>)"
  by (auto simp: scene_only_def call_game_def put_script_def put_actor_def)

lemma refresh_only_parts [simp]:
  "scene_only s (snd (coop_live_world_set_object object state s))" "scene_only s (snd (coop_live_world_mermaid_refresh s))"
  "scene_only s (snd (coop_live_world_isles_trombone_refresh e s))" "scene_only s (snd (coop_live_world_llama_free_refresh s))"
  "scene_only s (snd (coop_live_world_llama_water_refresh s))" "scene_only s (snd (coop_live_world_seal_refresh e s))"
  "scene_only s (snd (coop_live_world_mushroom_switch_refresh e object s))"
  "scene_only s (snd (coop_live_world_rabbit_refresh s))" "scene_only s (snd (coop_live_world_beanstalk_refresh s))"
  "scene_only s (snd (coop_live_world_reveal_object e object s))"
  by (simp_all add: coop_live_world_set_object_def coop_live_world_mermaid_refresh_def coop_live_world_isles_trombone_refresh_def
        coop_live_world_llama_free_refresh_def coop_live_world_llama_water_refresh_def coop_live_world_seal_refresh_def
        coop_live_world_mushroom_switch_refresh_def coop_live_world_rabbit_refresh_def coop_live_world_beanstalk_refresh_def
        coop_live_world_reveal_object_def Let_def split: option.split)

lemma row_refresh_only: "scene_only s (snd (row_refresh e r s))"
  by (cases "live_mode r") (simp_all add: row_refresh_def split: option.split)

lemma refresh_rows_only: "scene_only s (snd (refresh_rows e rs s))"
proof (induction rs arbitrary: s)
  case (Cons r rs)
  obtain b t where t: "row_refresh e r s = (b, t)" by (metis surj_pair)
  from row_refresh_only [of s e r] t have "scene_only s t" by simp
  with Cons [of t] t show ?case by (auto intro: scene_only_trans)
qed simp

lemma refresh_only: "scene_only s (snd (coop_live_world_refresh e f s))"
  by (simp add: coop_live_world_refresh_def refresh_rows_only)

section \<open>The special rows\<close>

text \<open>All modes but those of actors and the trombone pad act on scripts through their slots alone.\<close>

definition script_row :: "CoopLiveWorldState \<Rightarrow> bool" where
  "script_row r \<longleftrightarrow> live_mode r \<in> {DIRECT, REPLAY, PERMANENT, REQUIRE, NOOP, CONTINUE_GALLEON, REVEAL, MUSHROOM_SWITCH}"

lemma special_rows: "filter (\<lambda>r. \<not> script_row r) coop_live_world_states =
    [LiveWorld 45 186 65535 0 MERMAID, LiveWorld 45 187 65535 0 MERMAID, LiveWorld 45 188 65535 0 MERMAID,
     LiveWorld 45 189 65535 0 MERMAID, LiveWorld 45 190 65535 0 MERMAID, LiveWorld 34 426 49 0 ISLES_TROMBONE,
     LiveWorld 38 50 65535 0 LLAMA_FREE, LiveWorld 20 76 65535 0 LLAMA_WATER, LiveWorld 30 158 65535 0 SEAL,
     LiveWorld 48 248 65535 0 RABBIT, LiveWorld 48 251 65535 0 BEANSTALK]"
  by (simp add: coop_live_world_states_def coop_live_world_states_parts script_row_def)

lemma trombone_unit: "filter (\<lambda>r. live_map r = 34 \<and> live_flag r = 426) coop_live_world_states =
    [LiveWorld 34 426 49 0 ISLES_TROMBONE]"
  by (simp add: coop_live_world_states_def coop_live_world_states_parts)

section \<open>A ready row can be refreshed\<close>

lemma find_range_none: "find P xs = None \<longleftrightarrow> (\<forall>x \<in> set xs. \<not> P x)"
  by (induction xs) auto

lemma find_some: "find P xs = Some x \<Longrightarrow> P x \<and> x \<in> set xs"
  by (induction xs) (auto split: if_splits)

lemma last_slot_exists: "last_slot s object = None \<longleftrightarrow> coop_live_world_find_object s object = None"
  unfolding last_slot_def coop_live_world_find_object_def find_range_none set_rev ..

lemma raw_state_object: "coop_live_world_object_raw_state e s object = Some raw \<Longrightarrow> coop_live_world_find_object s object \<noteq> None"
  by (auto simp: coop_live_world_object_raw_state_def object_script_def split: option.splits)

lemma first_actor_live: "first_actor k s = Some (i, a) \<Longrightarrow> actors s ! i = Some a \<and> live_kind k a \<and> i < length (actors s)"
  by (auto simp: first_actor_def dest!: find_some split: option.splits)

lemma live_actors_set: "set (live_actors k s) = {a. Some a \<in> set (actors s) \<and> live_kind k a}"
  by (auto simp: live_actors_def List.map_filter_def image_iff split: option.splits intro: bexI [of _ "Some _"])

lemma first_actor_in: "first_actor k s = Some (i, a) \<Longrightarrow> a \<in> set (live_actors k s)"
  using first_actor_live [of k s i a] by (force simp: live_actors_set in_set_conv_nth)

lemma row_ready_refresh:
  assumes "row_ready e s r"
  shows "fst (row_refresh e r s)"
proof (cases "live_mode r")
  case LLAMA_FREE
  with assms show ?thesis using first_actor_in [of ACTOR_LLAMA s]
    by (auto simp: row_ready_def row_refresh_def coop_live_world_llama_free_ready_def coop_live_world_llama_free_refresh_def
        list_all_iff split: option.split)
next
  case LLAMA_WATER
  with assms show ?thesis using first_actor_in [of ACTOR_LLAMA s]
    by (auto simp: row_ready_def row_refresh_def coop_live_world_llama_water_ready_def coop_live_world_llama_water_refresh_def
        list_all_iff split: option.split)
next
  case MUSHROOM_SWITCH
  with assms show ?thesis
    by (auto simp: row_ready_def row_refresh_def coop_live_world_mushroom_switch_refresh_def Let_def
        coop_live_world_mushroom_switch_ready_def last_slot_exists dest: raw_state_object split: option.splits)
next
  case ISLES_TROMBONE
  with assms show ?thesis
    by (auto simp: row_ready_def row_refresh_def coop_live_world_isles_trombone_ready_def
        coop_live_world_isles_trombone_refresh_def coop_live_world_object_raw_state_def split: option.splits)
qed (use assms in \<open>auto simp: row_ready_def row_refresh_def coop_live_world_set_object_def
      coop_live_world_mermaid_refresh_def coop_live_world_mermaid_ready_def coop_live_world_seal_refresh_def
      coop_live_world_rabbit_refresh_def coop_live_world_beanstalk_refresh_def coop_live_world_beanstalk_ready_def
      coop_live_world_reveal_object_def coop_live_world_object_raw_state_def Let_def split: option.splits\<close>)

section \<open>Rows do not disturb each other\<close>

text \<open>Slots and script states as every row sees them.\<close>

definition scripts_kept :: "'e live_env_scheme \<Rightarrow> 'a live_game_scheme \<Rightarrow> 'a live_game_scheme \<Rightarrow> bool" where
  "scripts_kept e s t \<longleftrightarrow> script_slots t = script_slots s \<and>
     (\<forall>object. coop_live_world_object_raw_state e t object = coop_live_world_object_raw_state e s object)"

lemma scripts_kept_refl [simp]: "scripts_kept e s s" by (simp add: scripts_kept_def)

lemma find_object_cong: "script_slots t = script_slots s \<Longrightarrow> coop_live_world_find_object t = coop_live_world_find_object s"
  by (simp add: coop_live_world_find_object_def fun_eq_iff)

lemma scripts_kept_same:
  assumes "script_slots t = script_slots s" "scene_props t = scene_props s"
  shows "scripts_kept e s t"
  unfolding scripts_kept_def coop_live_world_object_raw_state_def object_script_def find_object_cong [OF assms(1)] assms by simp

lemma scripts_kept_calls [simp]: "scripts_kept e s (s\<lparr>coop_calls := c\<rparr>)"
  by (rule scripts_kept_same) simp_all

lemma put_script_kept:
  assumes "object_script e s object = Some (p, d)" "unk48 d' = unk48 d"
  shows "scripts_kept e s (put_script p d' s)"
proof -
  obtain props where props: "scene_props s = Some props" "unk7C (props p) = Some d"
    using assms(1) by (auto simp: object_script_def Let_def split: option.splits if_splits)
  have "coop_live_world_find_object (put_script p d' s) = coop_live_world_find_object s"
    by (rule find_object_cong) (simp add: put_script_def)
  with props assms(2) show ?thesis
    by (auto simp: scripts_kept_def coop_live_world_object_raw_state_def object_script_def put_script_def Let_def split: option.splits)
qed

lemma script_row_kept:
  assumes "script_row r"
  shows "scripts_kept e s (snd (row_refresh e r s)) \<and> actors (snd (row_refresh e r s)) = actors s"
proof -
  have set: "scripts_kept e s (snd (coop_live_world_set_object object state s)) \<and>
      actors (snd (coop_live_world_set_object object state s)) = actors s" for object state
    by (simp add: coop_live_world_set_object_def call_game_def split: option.split)
  have reveal: "scripts_kept e s (snd (coop_live_world_reveal_object e object s)) \<and>
      actors (snd (coop_live_world_reveal_object e object s)) = actors s" for object
    by (auto simp: coop_live_world_reveal_object_def split: option.split intro: put_script_kept) (simp_all add: put_script_def)
  from assms show ?thesis
    by (cases "live_mode r") (simp_all add: script_row_def row_refresh_def set reveal
        coop_live_world_mushroom_switch_refresh_def Let_def call_game_def split: option.split)
qed

lemma row_ready_cong:
  assumes "scripts_kept e s t" "actors t = actors s"
  shows "row_ready e t r = row_ready e s r"
proof -
  have slots: "coop_live_world_find_object t = coop_live_world_find_object s"
    using assms(1) by (intro find_object_cong) (simp add: scripts_kept_def)
  have raw: "coop_live_world_object_raw_state e t = coop_live_world_object_raw_state e s"
    using assms(1) by (simp add: scripts_kept_def fun_eq_iff)
  have acts: "first_actor k t = first_actor k s" "live_actors k t = live_actors k s" for k
    unfolding first_actor_def live_actors_def assms(2) by simp_all
  have board: "coop_live_world_mushroom_switch_ready e t = coop_live_world_mushroom_switch_ready e s"
    unfolding coop_live_world_mushroom_switch_ready_def raw by simp
  show ?thesis
    by (simp add: row_ready_def slots raw acts board assms(2) coop_live_world_mermaid_ready_def coop_live_world_llama_free_ready_def
        coop_live_world_llama_water_ready_def coop_live_world_seal_ready_def
        coop_live_world_rabbit_ready_def coop_live_world_beanstalk_ready_def coop_live_world_isles_trombone_ready_def
        split: live_mode.split)
qed


section \<open>Units\<close>

definition unit_ok :: "CoopLiveWorldState list \<Rightarrow> bool" where
  "unit_ok rs \<longleftrightarrow> length (filter (\<lambda>r. \<not> script_row r) rs) \<le> 1 \<and>
     (ISLES_TROMBONE \<in> live_mode ` set rs \<longrightarrow> length rs = 1)"

lemma one_selected:
  assumes "distinct (map key xs)" "\<And>x y. P x \<Longrightarrow> P y \<Longrightarrow> key x = key y"
  shows "length (filter P xs) \<le> 1"
proof -
  have "card (set (map key (filter P xs))) \<le> 1"
    unfolding One_nat_def by (subst card_le_Suc0_iff_eq) (auto intro: assms(2))
  moreover have "distinct (map key (filter P xs))" using assms(1) by (rule distinct_map_filter)
  ultimately show ?thesis by (metis distinct_card length_map)
qed

lemma unit_rows_ok: "unit_ok (unit_rows e f)"
proof -
  let ?P = "\<lambda>r. on_map e (ucast (live_map r)) \<and> uint (live_flag r) = f"
  have key: "live_map r = live_map r' \<and> live_flag r = live_flag r'" if "?P r" "?P r'" for r r'
  proof -
    from that have "(ucast (live_map r) :: u32) = ucast (live_map r')" "uint (live_flag r) = uint (live_flag r')" by simp_all
    moreover have "take_bit 32 (uint w) = uint w" for w :: u16 by transfer simp
    ultimately show ?thesis by (simp add: word_uint_eq_iff unsigned_ucast_eq)
  qed
  have "length (filter ?P (filter (\<lambda>r. \<not> script_row r) coop_live_world_states)) \<le> 1"
  proof (rule one_selected [where key = "\<lambda>r. (live_map r, live_flag r)"])
    show "distinct (map (\<lambda>r. (live_map r, live_flag r)) (filter (\<lambda>r. \<not> script_row r) coop_live_world_states))"
      by (simp add: special_rows)
  qed (use key in auto)
  then have "length (filter (\<lambda>r. \<not> script_row r) (unit_rows e f)) \<le> 1"
    by (simp add: unit_rows_def conj_commute)
  moreover have "length (unit_rows e f) = 1" if r: "r \<in> set (unit_rows e f)" "live_mode r = ISLES_TROMBONE" for r
  proof -
    have "r \<in> set (filter (\<lambda>r. \<not> script_row r) coop_live_world_states)" using r by (simp add: unit_rows_def script_row_def)
    then have r': "live_map r = 34" "live_flag r = 426" using r(2) unfolding special_rows by auto
    have "?P r' \<longleftrightarrow> live_map r' = 34 \<and> live_flag r' = 426" for r'
      using key [of r r'] r(1) r' by (auto simp: unit_rows_def)
    then have "unit_rows e f = [LiveWorld 34 426 49 0 ISLES_TROMBONE]" by (simp add: unit_rows_def trombone_unit)
    then show ?thesis by simp
  qed
  ultimately show ?thesis by (auto simp: unit_ok_def)
qed

lemma unit_ok_Cons:
  assumes "unit_ok (r # rs)"
  shows "unit_ok rs" "rs \<noteq> [] \<Longrightarrow> live_mode r \<noteq> ISLES_TROMBONE" "\<not> script_row r \<Longrightarrow> list_all script_row rs"
  using assms by (auto simp: unit_ok_def list_all_iff filter_empty_conv split: if_splits)

section \<open>A unit is refreshed as a whole\<close>

lemma special_row_kept:
  assumes "\<not> script_row r" "live_mode r \<noteq> ISLES_TROMBONE"
  shows "scripts_kept e s (snd (row_refresh e r s))"
  using assms
  by (cases "live_mode r") (auto simp: script_row_def row_refresh_def coop_live_world_mermaid_refresh_def
      coop_live_world_llama_free_refresh_def coop_live_world_llama_water_refresh_def coop_live_world_seal_refresh_def
      coop_live_world_rabbit_refresh_def coop_live_world_beanstalk_refresh_def Let_def call_game_def put_actor_def
      intro!: scripts_kept_same split: option.split)

lemma script_ready_cong:
  assumes "scripts_kept e s t" "script_row r"
  shows "row_ready e t r = row_ready e s r"
proof -
  have slots: "coop_live_world_find_object t = coop_live_world_find_object s"
    using assms(1) by (intro find_object_cong) (simp add: scripts_kept_def)
  have raw: "coop_live_world_object_raw_state e t = coop_live_world_object_raw_state e s"
    using assms(1) by (simp add: scripts_kept_def fun_eq_iff)
  have board: "coop_live_world_mushroom_switch_ready e t = coop_live_world_mushroom_switch_ready e s"
    unfolding coop_live_world_mushroom_switch_ready_def raw by simp
  show ?thesis using assms(2)
    by (cases "live_mode r") (simp_all add: row_ready_def script_row_def slots raw board)
qed

lemma rest_ready:
  assumes "list_all (row_ready e s) (r # rs)" "unit_ok (r # rs)"
  shows "list_all (row_ready e (snd (row_refresh e r s))) rs"
proof (cases "script_row r")
  case True
  from row_ready_cong [of e s "snd (row_refresh e r s)"] script_row_kept [OF True, of e s] assms(1) show ?thesis
    by (simp add: list_all_iff)
next
  case False
  show ?thesis
  proof (cases "rs = []")
    case rs: False
    note u = unit_ok_Cons [OF assms(2)]
    from script_ready_cong [OF special_row_kept [OF False u(2) [OF rs], of e s]] u(3) [OF False] assms(1) show ?thesis
      by (simp add: list_all_iff)
  qed simp
qed

lemma refresh_rows_complete:
  "list_all (row_ready e s) rs \<Longrightarrow> unit_ok rs \<Longrightarrow> fst (refresh_rows e rs s)"
proof (induction rs arbitrary: s)
  case (Cons r rs)
  obtain b t where t: "row_refresh e r s = (b, t)" by (metis surj_pair)
  have "b" using row_ready_refresh [of e s r] Cons.prems(1) t by simp
  moreover have "list_all (row_ready e t) rs" using rest_ready [OF Cons.prems] t by simp
  ultimately show ?case using Cons.IH [of t] unit_ok_Cons(1) [OF Cons.prems(2)] t by simp
qed simp

lemma refresh_complete: "fst (coop_live_world_refresh e f s) \<longleftrightarrow> coop_live_world_ready e s f"
  using refresh_rows_complete [OF _ unit_rows_ok]
  by (auto simp: coop_live_world_refresh_def coop_live_world_ready_def)

section \<open>What is asked of the game\<close>

definition new_calls :: "'a live_game_scheme \<Rightarrow> 'a live_game_scheme \<Rightarrow> coop_call list" where
  "new_calls s t = drop (length (coop_calls s)) (coop_calls t)"

lemma new_calls_simps [simp]:
  "new_calls s s = []" "new_calls s (s\<lparr>coop_calls := coop_calls s @ cs\<rparr>) = cs"
  "new_calls s (put_script p d t) = new_calls s t" "new_calls s (put_actor i a t) = new_calls s t"
  "new_calls s (t\<lparr>actors := as\<rparr>) = new_calls s t"
  by (simp_all add: new_calls_def put_script_def put_actor_def)

lemma new_calls_call [simp]: "scene_only s t \<Longrightarrow> new_calls s (call_game c t) = new_calls s t @ [c]"
  by (auto simp: new_calls_def call_game_def scene_only_def)

lemma new_calls_trans: "scene_only s t \<Longrightarrow> scene_only t u \<Longrightarrow> new_calls s u = new_calls s t @ new_calls t u"
  by (auto simp: new_calls_def scene_only_def)

text \<open>
  The calls a unit may cause: a script of one of its objects, or the board the mushroom switches share;
  a Galleon controller only while it waits; the removal of a llama that waits in its cage; the growth of
  an idle beanstalk; the trombone's notification.
\<close>

definition actor_waits :: "'a live_game_scheme \<Rightarrow> nat \<Rightarrow> actor_kind \<Rightarrow> u8 \<Rightarrow> bool" where
  "actor_waits s i k state \<longleftrightarrow> (\<exists>a. i < length (actors s) \<and> actors s ! i = Some a \<and> kind a = k \<and> control_state a = state)"

fun row_call :: "'e live_env_scheme \<Rightarrow> 'a live_game_scheme \<Rightarrow> CoopLiveWorldState \<Rightarrow> coop_call \<Rightarrow> bool" where
  "row_call e s r (SelectState slot state) \<longleftrightarrow> slot < 600 \<and>
     (live_mode r \<in> {DIRECT, REPLAY, PERMANENT, CONTINUE_GALLEON} \<and> script_slots s ! slot = live_object r \<and>
        state = uint (live_state r) \<and>
        (live_mode r = CONTINUE_GALLEON \<longrightarrow> coop_live_world_object_raw_state e s (live_object r) = Some 0) \<or>
      live_mode r = MUSHROOM_SWITCH \<and>
        (script_slots s ! slot = live_object r \<and> state = 0 \<or> script_slots s ! slot = 0x0B \<and> state = int (cannon_switches s)))"
| "row_call e s r (NotifySpawner a b) \<longleftrightarrow> live_mode r = ISLES_TROMBONE \<and> a = 9 \<and> b = 0"
| "row_call e s r (DeleteActor i) \<longleftrightarrow> live_mode r = LLAMA_FREE \<and> actor_waits s i ACTOR_LLAMA 5"
| "row_call e s r (SetModel i m) \<longleftrightarrow> live_mode r = BEANSTALK \<and> actor_waits s i ACTOR_BEANSTALK 0 \<and> m = 0x597"
| "row_call e s r (SetScale i) \<longleftrightarrow> live_mode r = BEANSTALK \<and> actor_waits s i ACTOR_BEANSTALK 0"
| "row_call e s r (SetChannel i a b) \<longleftrightarrow> live_mode r = BEANSTALK \<and> actor_waits s i ACTOR_BEANSTALK 0 \<and> a = 0 \<and> b = 0"
| "row_call e s r c \<longleftrightarrow> False"

lemma find_object_slot: "coop_live_world_find_object s object = Some slot \<Longrightarrow> script_slots s ! slot = object \<and> slot < 600"
  by (auto simp: coop_live_world_find_object_def simp del: upt_rec_numeral dest!: find_some)

lemma last_slot_slot: "last_slot s object = Some slot \<Longrightarrow> script_slots s ! slot = object \<and> slot < 600"
  by (auto simp: last_slot_def simp del: upt_rec_numeral dest!: find_some)

lemma row_refresh_calls: "list_all (row_call e s r) (new_calls s (snd (row_refresh e r s)))"
proof (cases "live_mode r")
  case MUSHROOM_SWITCH
  then show ?thesis
    by (auto simp: row_refresh_def coop_live_world_mushroom_switch_refresh_def Let_def cannon_switches_def call_game_def
        new_calls_def dest: last_slot_slot split: option.split)
next
  case CONTINUE_GALLEON
  then show ?thesis
    by (auto simp: row_refresh_def coop_live_world_set_object_def dest: find_object_slot split: option.split)
next
  case LLAMA_FREE
  then show ?thesis
    by (auto simp: row_refresh_def coop_live_world_llama_free_refresh_def actor_waits_def live_kind_def dest!: first_actor_live
        split: option.split)
next
  case BEANSTALK
  then show ?thesis
    by (auto simp: row_refresh_def coop_live_world_beanstalk_refresh_def actor_waits_def live_kind_def Let_def
        dest!: first_actor_live split: option.split)
qed (auto simp: row_refresh_def coop_live_world_set_object_def coop_live_world_mermaid_refresh_def
      coop_live_world_isles_trombone_refresh_def coop_live_world_llama_water_refresh_def coop_live_world_seal_refresh_def
      coop_live_world_rabbit_refresh_def coop_live_world_reveal_object_def Let_def dest: find_object_slot split: option.split)

lemma row_call_back:
  assumes "row_call e t r c" "scripts_kept e s t" "flags t = flags s" "script_row r \<or> actors t = actors s"
  shows "row_call e s r c"
  using assms by (cases c) (auto simp: scripts_kept_def cannon_switches_def actor_waits_def script_row_def)

lemma refresh_rows_calls:
  "unit_ok rs \<Longrightarrow> list_all (\<lambda>c. \<exists>r \<in> set rs. row_call e s r c) (new_calls s (snd (refresh_rows e rs s)))"
proof (induction rs arbitrary: s)
  case (Cons r rs)
  obtain b t where t: "row_refresh e r s = (b, t)" by (metis surj_pair)
  have only: "scene_only s t" using row_refresh_only [of s e r] t by simp
  have first: "list_all (\<lambda>c. \<exists>q \<in> set (r # rs). row_call e s q c) (new_calls s t)"
    using row_refresh_calls [of e s r] t by (auto simp: list_all_iff)
  show ?case
  proof (cases "b \<and> rs \<noteq> []")
    case True
    have same: "flags t = flags s" using only by (simp add: scene_only_def)
    have earlier: "row_call e s q c" if "q \<in> set rs" "row_call e t q c" for q c
    proof (cases "script_row r")
      case script: True
      from script_row_kept [OF script, of e s] t have "scripts_kept e s t" "actors t = actors s" by simp_all
      then show ?thesis using row_call_back [OF that(2) _ same] by blast
    next
      case False
      note u = unit_ok_Cons [OF Cons.prems]
      have "script_row q" using u(3) [OF False] that(1) by (simp add: list_all_iff)
      moreover have "scripts_kept e s t" using special_row_kept [OF False u(2), of e s] True t by simp
      ultimately show ?thesis using row_call_back [OF that(2) _ same] by blast
    qed
    have "list_all (\<lambda>c. \<exists>q \<in> set (r # rs). row_call e s q c) (new_calls t (snd (refresh_rows e rs t)))"
      using Cons.IH [OF unit_ok_Cons(1) [OF Cons.prems], of t] earlier by (fastforce simp: list_all_iff)
    with first True t new_calls_trans [OF only refresh_rows_only [of t e rs]] show ?thesis by simp
  qed (use first t in auto)
qed simp

section \<open>Local sequences go on\<close>

definition idle :: "live_actor \<Rightarrow> bool" where
  "idle a \<longleftrightarrow>
     (case kind a of ACTOR_MERMAID \<Rightarrow> control_state a = 30 \<or> control_state a = 31
      | ACTOR_LLAMA \<Rightarrow> control_state a = 0
      | ACTOR_BEANSTALK \<Rightarrow> control_state a = 0
      | ACTOR_SEAL \<Rightarrow> control_state a = 0 \<or> control_state a = 40 \<and> control_state_progress a = 0
      | ACTOR_SEAL_0 \<Rightarrow> control_state a = 0 \<or> control_state a = 40 \<and> control_state_progress a = 0
      | _ \<Rightarrow> False)"

definition actors_undisturbed :: "live_actor option list \<Rightarrow> live_actor option list \<Rightarrow> bool" where
  "actors_undisturbed as bs \<longleftrightarrow> length bs = length as \<and>
     (\<forall>i < length as. bs ! i = as ! i \<or> (\<exists>a b. as ! i = Some a \<and> bs ! i = Some b \<and> kind b = kind a \<and> idle a))"

lemma actors_undisturbed_refl [simp]: "actors_undisturbed as as" by (simp add: actors_undisturbed_def)

lemma actors_undisturbed_update:
  "i < length as \<Longrightarrow> as ! i = Some a \<Longrightarrow> kind b = kind a \<Longrightarrow> idle a \<Longrightarrow> actors_undisturbed as (as[i := Some b])"
  by (simp add: actors_undisturbed_def nth_list_update)

lemma free_seal_undisturbed:
  assumes "list_all (\<lambda>a. coop_live_world_is_seal a \<longrightarrow>
      control_state (the a) = 0 \<or> control_state (the a) = 40 \<and> control_state_progress (the a) = 0) as"
  shows "actors_undisturbed as (map (\<lambda>i. free_seal (cage i) (as ! i)) [0..<length as])"
proof -
  have "free_seal (cage i) a = a \<or> (\<exists>x y. a = Some x \<and> free_seal (cage i) a = Some y \<and> kind y = kind x \<and> idle x)"
    if "a \<in> set as" for i a
    using assms that by (cases a) (auto simp: free_seal_def coop_live_world_is_seal_def idle_def list_all_iff)
  then show ?thesis unfolding actors_undisturbed_def by simp
qed

lemma row_refresh_actors: "actors_undisturbed (actors s) (actors (snd (row_refresh e r s)))"
proof (cases "script_row r")
  case False
  then show ?thesis
    by (cases "live_mode r") (auto simp: script_row_def row_refresh_def coop_live_world_mermaid_refresh_def
        coop_live_world_mermaid_ready_def coop_live_world_isles_trombone_refresh_def coop_live_world_llama_free_refresh_def
        coop_live_world_llama_water_refresh_def coop_live_world_rabbit_refresh_def coop_live_world_beanstalk_refresh_def
        coop_live_world_seal_refresh_def coop_live_world_seal_ready_def Let_def call_game_def put_actor_def put_script_def
        live_kind_def idle_def dest!: first_actor_live intro!: actors_undisturbed_update free_seal_undisturbed
        split: option.split)
qed (simp add: script_row_kept)

text \<open>A script state changes only at the waiting trombone pad, to its final state.\<close>

definition scripts_undisturbed :: "'e live_env_scheme \<Rightarrow> 'a live_game_scheme \<Rightarrow> 'a live_game_scheme \<Rightarrow> bool" where
  "scripts_undisturbed e s t \<longleftrightarrow>
     (\<forall>object. let before = coop_live_world_object_raw_state e s object; after = coop_live_world_object_raw_state e t object
        in after = before \<or> (\<exists>raw. before = Some raw \<and> raw < 3 \<and> after = Some 6))"

lemma scripts_undisturbed_kept: "scripts_kept e s t \<Longrightarrow> scripts_undisturbed e s t"
  by (simp add: scripts_kept_def scripts_undisturbed_def)

lemma row_refresh_scripts: "scripts_undisturbed e s (snd (row_refresh e r s))"
proof (cases "live_mode r = ISLES_TROMBONE")
  case True
  show ?thesis
  proof (cases "object_script e s 0x31")
    case (Some pd)
    obtain p d where pd: "object_script e s 0x31 = Some (p, d)" using Some by (metis surj_pair)
    show ?thesis
    proof (cases "unat (unk48 d) < 3")
      case waiting: True
      define t where "t = put_script p (d\<lparr>unk48 := 6, unk54 := 2\<rparr>) (call_game (NotifySpawner 9 0) s)"
      have t: "snd (row_refresh e r s) = t"
        using True pd waiting by (simp add: row_refresh_def coop_live_world_isles_trombone_refresh_def t_def)
      obtain props where props: "scene_props s = Some props" "unk7C (props p) = Some d"
        using pd by (auto simp: object_script_def Let_def split: option.splits if_splits)
      have slots: "coop_live_world_find_object t = coop_live_world_find_object s"
        by (rule find_object_cong) (simp add: t_def put_script_def call_game_def)
      have after: "script_slots t = script_slots s" "scene_props t = Some (props(p := (props p)\<lparr>unk7C := Some (d\<lparr>unk48 := 6, unk54 := 2\<rparr>)\<rparr>))"
        using props by (simp_all add: t_def put_script_def call_game_def)
      show ?thesis unfolding t scripts_undisturbed_def coop_live_world_object_raw_state_def object_script_def slots after props(1)
        using props(2) waiting by (simp add: Let_def split: option.split)
    qed (use True pd in \<open>simp add: row_refresh_def coop_live_world_isles_trombone_refresh_def scripts_undisturbed_def\<close>)
  qed (use True in \<open>simp add: row_refresh_def coop_live_world_isles_trombone_refresh_def scripts_undisturbed_def\<close>)
next
  case False
  then show ?thesis using script_row_kept [of r e s] special_row_kept [of r e s] by (blast intro: scripts_undisturbed_kept)
qed

lemma script_rows_kept:
  "list_all script_row rs \<Longrightarrow> scripts_kept e s (snd (refresh_rows e rs s)) \<and> actors (snd (refresh_rows e rs s)) = actors s"
proof (induction rs arbitrary: s)
  case (Cons r rs)
  obtain b t where t: "row_refresh e r s = (b, t)" by (metis surj_pair)
  have "scripts_kept e s t \<and> actors t = actors s" using script_row_kept [of r e s] Cons.prems t by simp
  with Cons.IH [of t] Cons.prems t show ?case by (auto simp: scripts_kept_def)
qed simp

lemma refresh_rows_undisturbed:
  "unit_ok rs \<Longrightarrow> actors_undisturbed (actors s) (actors (snd (refresh_rows e rs s))) \<and>
     scripts_undisturbed e s (snd (refresh_rows e rs s))"
proof (induction rs arbitrary: s)
  case (Cons r rs)
  obtain b t where t: "row_refresh e r s = (b, t)" by (metis surj_pair)
  have row: "actors_undisturbed (actors s) (actors t)" "scripts_undisturbed e s t"
    using row_refresh_actors [of s e r] row_refresh_scripts [of e s r] t by simp_all
  show ?case
  proof (cases "script_row r")
    case True
    with script_row_kept [OF True, of e s] Cons.IH [OF unit_ok_Cons(1) [OF Cons.prems], of t] t row show ?thesis
      by (simp add: scripts_kept_def scripts_undisturbed_def)
  next
    case False
    from script_rows_kept [OF unit_ok_Cons(3) [OF Cons.prems False], of e t] t row show ?thesis
      by (simp add: scripts_kept_def scripts_undisturbed_def)
  qed
qed (simp add: scripts_undisturbed_def)

text \<open>A row whose mode selects a state directly has its object's script told to enter it.\<close>

definition selected :: "'a live_game_scheme \<Rightarrow> CoopLiveWorldState \<Rightarrow> coop_call list \<Rightarrow> bool" where
  "selected s r cs \<longleftrightarrow>
     (\<exists>slot. coop_live_world_find_object s (live_object r) = Some slot \<and> SelectState slot (uint (live_state r)) \<in> set cs)"

lemma row_refresh_selected:
  assumes "row_refresh e r s = (True, t)" "live_mode r \<in> {DIRECT, REPLAY, PERMANENT}"
  shows "selected s r (new_calls s t)"
  using assms by (auto simp: row_refresh_def coop_live_world_set_object_def selected_def split: option.splits)

lemma refresh_rows_selected:
  "refresh_rows e rs s = (True, u) \<Longrightarrow> r \<in> set rs \<Longrightarrow> live_mode r \<in> {DIRECT, REPLAY, PERMANENT} \<Longrightarrow>
     selected s r (new_calls s u)"
proof (induction rs arbitrary: s)
  case (Cons q rs)
  obtain t where t: "row_refresh e q s = (True, t)" "refresh_rows e rs t = (True, u)"
    using Cons.prems(1) by (auto split: prod.splits if_splits)
  have only: "scene_only s t" "scene_only t u"
    using row_refresh_only [of s e q] refresh_rows_only [of t e rs] t by simp_all
  have "selected s r (new_calls s t) \<or> selected t r (new_calls t u)"
    using Cons.IH [OF t(2) _ Cons.prems(3)] row_refresh_selected [OF t(1)] Cons.prems(2,3) by auto
  moreover have "coop_live_world_find_object t = coop_live_world_find_object s"
    using only(1) by (intro find_object_cong) (simp add: scene_only_def)
  ultimately show ?case unfolding new_calls_trans [OF only] by (auto simp: selected_def)
qed simp

lemma refresh_unit:
  assumes "coop_live_world_refresh e f s = (changed, t)"
  shows "changed \<longleftrightarrow> coop_live_world_ready e s f" and "\<not> changed \<Longrightarrow> t = s"
    and "changed \<Longrightarrow> refresh_rows e (unit_rows e f) s = (True, t)"
  using assms refresh_complete [of e f s] by (auto simp: coop_live_world_refresh_def split: if_splits)

section \<open>A loaded temple\<close>

text \<open>The llama temple with its two water scripts and a llama that waits.\<close>

definition temple_env :: live_env where
  "temple_env = \<lparr>env_map = 20, prop_index = (\<lambda>h. h), golden_banana_type = 45, seal_at_cage = (\<lambda>i. False)\<rparr>"

definition waiting_llama :: live_actor where
  "waiting_llama = \<lparr>kind = ACTOR_LLAMA, properties = 0x10, noclip = 1, control_state = 0, control_state_progress = 0\<rparr>"

definition temple_scene :: live_game where
  "temple_scene = \<lparr>flags = (\<lambda>f. False), coop_calls = [], script_slots = 0x16 # 0x18 # replicate 598 0xFFFF,
     scene_props = None, actors = [None, Some waiting_llama], spawners = []\<rparr>"

lemma temple_unit: "unit_rows temple_env 0x4C =
    [LiveWorld 20 76 22 0 REPLAY, LiveWorld 20 76 24 0 REPLAY, LiveWorld 20 76 65535 0 LLAMA_WATER]"
  by (simp add: unit_rows_def temple_env_def coop_live_world_states_def coop_live_world_states_parts)

lemma find_object_first:
  assumes "i < 600" "script_slots s ! i = object" "\<forall>j < i. script_slots s ! j \<noteq> object"
  shows "coop_live_world_find_object s object = Some i"
  using assms unfolding coop_live_world_find_object_def find_Some_iff by (intro exI [of _ i]) simp

lemma temple_objects: "coop_live_world_find_object temple_scene 22 = Some 0" "coop_live_world_find_object temple_scene 24 = Some 1"
  by (rule find_object_first; simp add: temple_scene_def)+

lemma temple_ready: "coop_live_world_ready temple_env temple_scene 0x4C"
  by (simp add: coop_live_world_ready_def temple_unit row_ready_def temple_objects coop_live_world_llama_water_ready_def
      live_actors_def) (simp add: temple_scene_def waiting_llama_def List.map_filter_def)

section \<open>Properties\<close>



text \<open>
  showing a remote change never interrupts a sequence of the local player.  No save data, slot or
  spawner changes; an actor changes only from a state in which it waits, and keeps its kind; a script
  state changes only at a waiting trombone pad, to its final state.
\<close>

theorem live_sequences_kept:
  "let t = snd (coop_live_world_refresh e f s) in
     flags t = flags s \<and> script_slots t = script_slots s \<and> spawners t = spawners s \<and> live_game.more t = live_game.more s \<and>
     actors_undisturbed (actors s) (actors t) \<and> scripts_undisturbed e s t"
proof -
  have "scene_only s (snd (coop_live_world_refresh e f s))" by (rule refresh_only)
  moreover have "actors_undisturbed (actors s) (actors (snd (coop_live_world_refresh e f s))) \<and>
      scripts_undisturbed e s (snd (coop_live_world_refresh e f s))"
    using refresh_rows_undisturbed [OF unit_rows_ok [of e f], where e = e and s = s] by (simp add: coop_live_world_refresh_def scripts_undisturbed_def)
  ultimately show ?thesis unfolding Let_def scene_only_def by blast
qed

end
