(* ===== verification/CoopGuarantees.thy ===== *)
theory CoopGuarantees
  imports CoopGrants CoopUnits
begin

text \<open>
  The guarantees of one application of a peer's items: the save stays consistent, nothing owned is lost,
  nothing is gained that was not sent or derived, and what was gained is never offered back.
\<close>

section \<open>Troff 'n' Scoff\<close>

lemma kong_facts:
  assumes "consistent e s" "k < 5" "l < 8"
  shows "unat (coloured (kongs s ! k) ! l) + unat (fed (kongs s ! k) ! l) \<le> 100" "unat (coins (kongs s ! k)) \<le> 999"
    "unat (golden (kongs s ! k) ! l) = owned_bananas s l k"
  using assms by (auto simp: consistent_def counters_valid_iff kong_counters_valid_def)

definition paid_kong :: "nat \<Rightarrow> CoopCharacterProgress \<Rightarrow> CoopCharacterProgress" where
  "paid_kong level p = p\<lparr>coloured := (coloured p)[level := of_nat (unat (coloured p ! level) - 1)],
     fed := (fed p)[level := of_nat (unat (fed p ! level) + 1)]\<rparr>"

lemma pay_troff_paid:
  "pay_troff level kong n s = (update_kong kong (paid_kong level) s)\<lparr>fed_cache := (fed_cache s)[level := of_nat (n + 1)]\<rparr>"
  by (simp add: pay_troff_def paid_kong_def [abs_def] fun_eq_iff)

lemma small_u16: "n < 65536 \<Longrightarrow> unat (of_nat n :: u16) = n"
  by (simp add: unat_of_nat)

lemma paid_counts:
  assumes "unat (coloured p ! level) + unat (fed p ! level) \<le> 100" "unat (coloured p ! level) \<noteq> 0" "level < 8"
    and "length (coloured p) = 14" "length (fed p) = 14"
  shows "unat (coloured (paid_kong level p) ! l) = unat (coloured p ! l) - (if l = level then 1 else 0)"
    "unat (fed (paid_kong level p) ! l) = unat (fed p ! l) + (if l = level then 1 else 0)"
proof -
  have "unat (coloured p ! level) < 200" "unat (fed p ! level) < 200" using assms(1) by linarith+
  then show "unat (coloured (paid_kong level p) ! l) = unat (coloured p ! l) - (if l = level then 1 else 0)"
    "unat (fed (paid_kong level p) ! l) = unat (fed p ! l) + (if l = level then 1 else 0)"
    using assms(3-5) by (auto simp: paid_kong_def nth_list_update small_u16 simp del: of_nat_add of_nat_Suc)
qed

lemma level_fed_bound: "consistent e s \<Longrightarrow> level < 8 \<Longrightarrow> level_fed s level \<le> 500"
proof -
  assume "consistent e s" "level < 8"
  then have "unat (fed (kongs s ! k) ! level) \<le> 100" if "k < 5" for k using kong_facts(1) [of e s k level] that by simp
  then have "\<forall>x \<in> set (map (\<lambda>k. unat (fed (kongs s ! k) ! level)) [0..<5]). x \<le> 100" by (simp del: upt_rec_numeral)
  from sum_list_mono2 [of "map (\<lambda>k. unat (fed (kongs s ! k) ! level)) [0..<5]" "replicate 5 100"] this
  show "level_fed s level \<le> 500" by (simp add: level_fed_def sum_list_replicate nth_append del: upt_rec_numeral)
qed

lemma pay_troff_granting:
  assumes "consistent e s" "coop_troff_bucket i = Some (level, kong, unat (fed (kongs s ! kong) ! level) + 1)"
    and "unat (coloured (kongs s ! kong) ! level) \<noteq> 0"
  shows "granting e i s (pay_troff level kong n s)" "coop_item_owned (pay_troff level kong n s) i"
proof -
  let ?t = "pay_troff level kong n s"
  have i: "level < 7" "kong < 5" "COOP_TROFF_FIRST \<le> i" "i < COOP_TROFF_END"
    using assms(2) troff_bucket_id [of i level kong] by (auto simp: coop_troff_bucket_def split: if_splits)
  then have l8: "level < 8" by simp
  have shape: "game_shape s" using assms(1) by (simp add: consistent_def)
  have len: "5 \<le> length (kongs s)" using shape by (simp add: game_shape_def)
  note counts = paid_counts [OF kong_facts(1) [OF assms(1) i(2) l8] assms(3) l8 shape_lengths(2,3) [OF shape i(2)]]
  have at: "kongs ?t ! k = (if k = kong then paid_kong level (kongs s ! kong) else kongs s ! k)" if "k < 5" for k
    using that by (simp add: pay_troff_paid kongs_update [OF len i(2)])
  have same: "flags ?t = flags s" "pickup_bits ?t = pickup_bits s" "melons ?t = melons s" by (simp_all add: pay_troff_paid)
  have fields: "progression (paid_kong level p) = progression p" "golden (paid_kong level p) = golden p"
    "coins (paid_kong level p) = coins p" "length (coloured (paid_kong level p)) = length (coloured p)"
    "length (fed (paid_kong level p)) = length (fed p)" for p by (simp_all add: paid_kong_def)
  have "consistent e (update_kong kong (paid_kong level) s)"
  proof (rule consistent_update [OF assms(1) i(2)])
    show "game_shape (update_kong kong (paid_kong level) s)"
      by (rule shape_update [OF shape i(2)]) (simp_all add: fields shape_lengths [OF shape i(2)])
    show "unat (coloured (paid_kong level (kongs s ! kong)) ! l) + unat (fed (paid_kong level (kongs s ! kong)) ! l) \<le> 100"
      if "l < 8" for l unfolding counts using kong_facts(1) [OF assms(1) i(2) that] assms(3) by auto
  qed (simp_all add: fields kong_facts(2) [OF assms(1) i(2) l8])
  then have "consistent e ?t" unfolding pay_troff_paid by (subst consistent_cong [of _ "update_kong kong (paid_kong level) s"]) simp_all
  moreover have "game_le s ?t"
  proof -
    have "kong_le (kongs s ! kong) (paid_kong level (kongs s ! kong))"
      by (simp add: kong_le_def fields word_le_nat_alt counts)
    with at same show ?thesis by (simp add: game_le_def)
  qed
  moreover have troff: "coop_troff_owned ?t j \<longleftrightarrow> coop_troff_owned s j \<or> j = i" for j
  proof (cases "coop_troff_bucket j")
    case None
    then show ?thesis using assms(2) by (auto simp: coop_troff_owned_def)
  next
    case (Some b)
    obtain l k a where b: "b = (l, k, a)" by (metis prod_cases3)
    have j: "l < 7" "k < 5" "j = coop_troff_id l k a" using Some troff_bucket_id [of j l k a] by (simp_all add: b)
    have same_id: "j = i \<longleftrightarrow> l = level \<and> k = kong \<and> a = unat (fed (kongs s ! kong) ! level) + 1"
    proof
      assume "j = i"
      from trans [OF Some [unfolded b this, symmetric] assms(2)]
      show "l = level \<and> k = kong \<and> a = unat (fed (kongs s ! kong) ! level) + 1" by auto
    next
      assume "l = level \<and> k = kong \<and> a = unat (fed (kongs s ! kong) ! level) + 1"
      then show "j = i" using assms(2) j(3) unfolding troff_bucket_id by metis
    qed
    have own: "coop_troff_owned u j \<longleftrightarrow> a \<le> unat (fed (kongs u ! k) ! l)" for u
      unfolding coop_troff_owned_def Some b by simp
    have "unat (fed (kongs ?t ! k) ! l) = unat (fed (kongs s ! k) ! l) + (if k = kong \<and> l = level then 1 else 0)"
    proof (cases "k = kong")
      case True
      then show ?thesis using at [OF i(2)] counts(2) [of l] by (simp only: if_True simp_thms)
    qed (simp add: at [OF j(2)])
    then show ?thesis unfolding own same_id by (cases "k = kong \<and> l = level") auto
  qed
  moreover have "coop_item_owned ?t j = coop_item_owned s j" if "j < COOP_ITEMS" "\<not> (COOP_TROFF_FIRST \<le> j \<and> j < COOP_TROFF_END)" for j
    using that(1)
  proof (cases j rule: item_kinds)
    case (move k f v b)
    have "move_have f v b (kongs ?t ! q) = move_have f v b (kongs s ! q)" if "q < 5" for q
      by (simp add: at [OF that] move_have_def fields)
    then show ?thesis unfolding move_owned [OF move] by blast
  qed (use that(2) same in \<open>simp_all add: owned_flag pickup_owned melon_owned\<close>)
  ultimately have parts: "consistent e ?t" "game_le s ?t" "\<And>j. coop_troff_owned ?t j \<longleftrightarrow> coop_troff_owned s j \<or> j = i"
    "\<And>j. j < COOP_ITEMS \<Longrightarrow> \<not> (COOP_TROFF_FIRST \<le> j \<and> j < COOP_TROFF_END) \<Longrightarrow> coop_item_owned ?t j = coop_item_owned s j"
    by blast+
  have "coop_item_owned s j \<or> implied i j" if "j < COOP_ITEMS" "coop_item_owned ?t j" for j
  proof (cases "COOP_TROFF_FIRST \<le> j \<and> j < COOP_TROFF_END")
    case True
    with that(2) parts(3) [of j] show ?thesis by (auto simp: troff_owned implied_def)
  qed (use that parts(4) [OF that(1)] in simp)
  with parts(1,2) show "granting e i s ?t" unfolding granting_def by blast
  show "coop_item_owned ?t i" using troff [of i] troff_owned [OF i(3,4)] by simp
qed

lemma not_overfull: "consistent e s \<Longrightarrow> k < 5 \<Longrightarrow> l < 8 \<Longrightarrow> \<not> overfull (kongs s ! k) l"
  using kong_facts(1) [of e s k l] by (simp add: overfull_def)

lemma troff_apply_result:
  assumes "consistent e s"
  shows "case coop_troff_apply e g s i safe of (paid, g', t) \<Rightarrow>
    if paid then granting e i s t \<and> coop_item_owned t i \<and> g' = (note_previous i g)\<lparr>save_pending := 1\<rparr>
    else t = s \<and> (g' = g \<or> g' = g\<lparr>counter_error := 1\<rparr>)"
proof (cases "coop_troff_bucket i")
  case None
  then show ?thesis by (simp add: coop_troff_apply_def)
next
  case (Some b)
  obtain level kong amount where b: "b = (level, kong, amount)" by (metis prod_cases3)
  have i: "level < 7" "kong < 5" using Some troff_bucket_id [of i level kong amount] by (simp_all add: b)
  then have l8: "level < 8" by simp
  let ?p = "kongs s ! kong"
  have shape: "game_shape s" using assms by (simp add: consistent_def)
  have len: "5 \<le> length (kongs s)" "level < length (fed_cache s)" using shape l8 by (simp_all add: game_shape_def)
  have paid: "unat (coloured (kongs (pay_troff level kong n s) ! kong) ! level) = unat (coloured ?p ! level) - 1"
    "unat (fed (kongs (pay_troff level kong n s) ! kong) ! level) = unat (fed ?p ! level) + 1"
    "unat (fed_cache (pay_troff level kong n s) ! level) = n + 1"
    if "unat (coloured ?p ! level) \<noteq> 0" "n \<le> 500" for n
    using paid_counts [OF kong_facts(1) [OF assms i(2) l8] that(1) l8 shape_lengths(2,3) [OF shape i(2)], of level] that(2) len
    by (simp_all add: pay_troff_paid kongs_update [OF len(1) i(2) i(2)] small_u16 del: of_nat_add of_nat_Suc)
  show ?thesis
    unfolding coop_troff_apply_def Some b option.case prod.case Let_def
    using pay_troff_granting [OF assms, of i level kong "level_fed s level"] Some b paid [OF _ level_fed_bound [OF assms l8]]
    by (simp add: note_previous_def)
qed

section \<open>Collectibles\<close>

definition collectible_id :: "nat \<Rightarrow> bool" where
  "collectible_id i \<longleftrightarrow> i < COOP_PROGRESSION_FIRST \<or> COOP_TROFF_END \<le> i \<and> i < COOP_ITEMS"

lemma pickup_kongs: "list_all (\<lambda>p. unat (pickup_kong p) < 5) coop_pickups"
  by (simp add: coop_pickups_def coop_pickups_parts)

lemma actor_bounds: "list_all (\<lambda>a. unat (actor_kong a) < 5 \<and> unat (actor_level a) < 8) coop_actor_pickups"
  by (simp add: coop_actor_pickups_def)

lemma pickup_start: "coop_pickup_level index < 8" "unat (coop_pickup_start ! coop_pickup_level index) \<le> index"
proof -
  have "unat (coop_pickup_start ! 0) \<le> index" by (simp add: coop_pickup_start_def)
  from pickup_level_spec [OF _ this]
  show "coop_pickup_level index < 8" "unat (coop_pickup_start ! coop_pickup_level index) \<le> index"
    by (simp_all add: coop_pickup_level_def)
qed

lemma u8_bound: "unat (x :: u8) < 256"
  using unsigned_less [of x, where 'a = nat] by simp

lemma credit_bounds:
  "item_kong (collectible_of i) < 5" "item_level (collectible_of i) < 8" "item_amount (collectible_of i) < 256"
proof -
  consider (pickup) "COOP_PICKUP_FIRST \<le> i \<and> i < COOP_ACTOR_PICKUP_FIRST"
    | (actor) "\<not> (COOP_PICKUP_FIRST \<le> i \<and> i < COOP_ACTOR_PICKUP_FIRST)" "COOP_ACTOR_PICKUP_FIRST \<le> i \<and> i < COOP_PROGRESSION_FIRST"
    | (other) "\<not> (COOP_PICKUP_FIRST \<le> i \<and> i < COOP_ACTOR_PICKUP_FIRST)" "\<not> (COOP_ACTOR_PICKUP_FIRST \<le> i \<and> i < COOP_PROGRESSION_FIRST)"
    by blast
  then have "item_kong (collectible_of i) < 5 \<and> item_level (collectible_of i) < 8 \<and> item_amount (collectible_of i) < 256"
  proof cases
    case pickup
    have "unat (pickup_kong (coop_pickups ! (i - COOP_PICKUP_FIRST))) < 5"
      using spec [OF pickup_kongs [unfolded list_all_length], of "i - COOP_PICKUP_FIRST"] pickup by (simp add: less_diff_conv2)
    with u8_bound [of "pickup_amount (coop_pickups ! (i - COOP_PICKUP_FIRST))"] pickup_start(1)
    show ?thesis unfolding collectible_of_def if_P [OF pickup] by (simp add: Let_def)
  next
    case actor
    have "unat (actor_kong (coop_actor_pickups ! (i - COOP_ACTOR_PICKUP_FIRST))) < 5"
      "unat (actor_level (coop_actor_pickups ! (i - COOP_ACTOR_PICKUP_FIRST))) < 8"
      using spec [OF actor_bounds [unfolded list_all_length], of "i - COOP_ACTOR_PICKUP_FIRST"] actor(2) by (simp_all add: less_diff_conv2)
    with u8_bound [of "actor_amount (coop_actor_pickups ! (i - COOP_ACTOR_PICKUP_FIRST))"]
    show ?thesis unfolding collectible_of_def if_not_P [OF actor(1)] if_P [OF actor(2)] by (simp add: Let_def)
  next
    case other
    show ?thesis
      unfolding collectible_of_def if_not_P [OF other(1)] if_not_P [OF other(2)]
      using gb_bounds [of i] by (auto split: option.split)
  qed
  then show "item_kong (collectible_of i) < 5" "item_level (collectible_of i) < 8" "item_amount (collectible_of i) < 256"
    by auto
qed

text \<open>The permanent write, once it went through: the item is owned and nothing else changed.\<close>

definition written :: "nat \<Rightarrow> coop_game \<Rightarrow> coop_game \<Rightarrow> bool" where
  "written i s t \<longleftrightarrow> kongs t = kongs s \<and> melons t = melons s \<and> fed_cache t = fed_cache s \<and> game_le s t \<and>
     (\<forall>j < COOP_ITEMS. coop_item_owned t j \<longleftrightarrow> coop_item_owned s j \<or> j = i) \<and>
     flags t = (if is_pickup i then flags s else (flags s)(coop_item_flag i := True))"

lemma pickup_coordinates:
  assumes "is_pickup i" "is_pickup j"
  shows "coop_pickup_level (j - COOP_PICKUP_FIRST) = coop_pickup_level (i - COOP_PICKUP_FIRST) \<and>
    pickup_ordinal j = pickup_ordinal i \<longleftrightarrow> j = i"
  using assms pickup_start(2) [of "i - COOP_PICKUP_FIRST"] pickup_start(2) [of "j - COOP_PICKUP_FIRST"]
  by (auto simp: is_pickup_def pickup_ordinal_def Let_def) linarith

lemma set_pickup_written:
  assumes "is_pickup i"
  shows "written i s (s\<lparr>pickup_bits := (pickup_bits s)(coop_pickup_level (i - COOP_PICKUP_FIRST) :=
    (pickup_bits s (coop_pickup_level (i - COOP_PICKUP_FIRST)))(pickup_ordinal i := True))\<rparr>)" (is "written i s ?t")
proof -
  have "coop_item_owned ?t j \<longleftrightarrow> coop_item_owned s j \<or> j = i" if "j < COOP_ITEMS" for j
    using that
  proof (cases j rule: item_kinds)
    case pickup
    then have "is_pickup j" by (simp add: is_pickup_def)
    from pickup_coordinates [OF assms this] show ?thesis unfolding pickup_owned [OF pickup] by auto
  next
    case troff
    have "coop_troff_owned ?t j = coop_troff_owned s j" by (simp add: coop_troff_owned_def split: option.split)
    with troff assms show ?thesis by (auto simp: troff_owned is_pickup_def)
  next
    case flag
    then have "j \<noteq> i" using assms unfolding flagged_members is_pickup_def by auto
    with flag show ?thesis by (simp add: owned_flag)
  next
    case (move kong field v bits)
    then have "COOP_MOVE_FIRST \<le> j" by (auto simp: coop_progression_move_def split: if_splits)
    then have "j \<noteq> i" using assms unfolding is_pickup_def by auto
    then show ?thesis by (simp add: move_owned [OF move])
  next
    case melon
    with assms show ?thesis by (auto simp: melon_owned is_pickup_def)
  qed
  with assms show ?thesis by (simp add: written_def game_le_def)
qed

lemma permanent_written:
  assumes "collectible_id i" "\<not> coop_item_owned s i" "coop_item_owned (permanent_write e i s) i"
  shows "written i s (permanent_write e i s)"
proof (cases "is_pickup i")
  case True
  have "item_level (collectible_of i) = coop_pickup_level (i - COOP_PICKUP_FIRST)"
    using True by (simp add: collectible_of_def is_pickup_def Let_def)
  then have w: "permanent_write e i s = (if pickup_accepted e s (pickup_ordinal i) (coop_pickup_level (i - COOP_PICKUP_FIRST))
      then s\<lparr>pickup_bits := (pickup_bits s)(coop_pickup_level (i - COOP_PICKUP_FIRST) :=
        (pickup_bits s (coop_pickup_level (i - COOP_PICKUP_FIRST)))(pickup_ordinal i := True))\<rparr> else s)"
    using True by (simp add: permanent_write_def set_pickup_def)
  from assms(2,3) set_pickup_written [OF True, of s] show ?thesis unfolding w by (auto split: if_splits)
next
  case False
  with assms(1) have flagged: "i \<in> set flagged_ids" unfolding flagged_members collectible_id_def is_pickup_def by auto
  from False have "permanent_write e i s = set_flag e (coop_item_flag i) s" by (simp add: permanent_write_def)
  with assms(2,3) set_flag_cases [of e "coop_item_flag i" s] have "permanent_write e i s = with_flag (coop_item_flag i) s" by auto
  with False owned_with_flag [OF flagged] show ?thesis by (simp add: written_def)
qed

lemma not_slam_collectible: "collectible_id i \<Longrightarrow> i \<noteq> COOP_FIRST_SLAM"
  by (auto simp: collectible_id_def)

lemma written_consistent:
  assumes "consistent e s" "collectible_id i" "coop_item_gb i = None" "written i s t"
  shows "consistent e t"
proof (cases "is_pickup i")
  case True
  with assms(1,4) show ?thesis by (subst consistent_cong [of t s]) (simp_all add: written_def)
next
  case False
  have flagged: "i \<in> set flagged_ids" using assms(2) False unfolding flagged_members collectible_id_def is_pickup_def by auto
  have "consistent e t = consistent e (with_flag (coop_item_flag i) s)"
    by (rule consistent_cong) (use assms(4) False in \<open>simp_all add: written_def\<close>)
  with consistent_flag [OF assms(1) flagged assms(3) not_slam_collectible [OF assms(2)]] show ?thesis by simp
qed

section \<open>Committing a credit\<close>

text \<open>
  What a step of the loop leaves of the game, for the item it was about: the save is consistent, nothing
  is lost, and every new item is implied by it or is a medal.
\<close>

abbreviation (input) is_medal :: "nat \<Rightarrow> bool" where
  "is_medal j \<equiv> COOP_MEDAL_FIRST \<le> j \<and> j < COOP_GB_FIRST"

definition gained :: "coop_env \<Rightarrow> nat \<Rightarrow> coop_game \<Rightarrow> coop_game \<Rightarrow> bool" where
  "gained e i s t \<longleftrightarrow> consistent e t \<and> game_le s t \<and>
     (\<forall>j < COOP_ITEMS. coop_item_owned t j \<longrightarrow> coop_item_owned s j \<or> implied i j \<or> is_medal j)"

lemma gained_refl: "consistent e s \<Longrightarrow> gained e i s s"
  by (simp add: gained_def)

lemma gained_granting: "consistent e s \<Longrightarrow> granting e i s t \<Longrightarrow> gained e i s t"
  by (auto simp: gained_def granting_def)

lemma same_save:
  assumes "flags t = flags s" "pickup_bits t = pickup_bits s" "melons t = melons s" "kongs t = kongs s" "fed_cache t = fed_cache s"
  shows "consistent e t = consistent e s" "game_le u t = game_le u s" "coop_item_owned t j = coop_item_owned s j"
proof -
  show "consistent e t = consistent e s" using assms by (intro consistent_cong) simp_all
  show "game_le u t = game_le u s" using assms by (simp add: game_le_def)
  have "coop_troff_owned t j = coop_troff_owned s j" "coop_progression_owned t j = coop_progression_owned s j"
    using assms by (simp_all add: coop_troff_owned_def coop_progression_owned_def split: option.split)
  with assms show "coop_item_owned t j = coop_item_owned s j" by (simp add: coop_item_owned_def)
qed

lemma same_save_call [simp]:
  "consistent e (call_game c s) = consistent e s" "game_le u (call_game c s) = game_le u s"
  "coop_item_owned (call_game c s) j = coop_item_owned s j"
  by (rule same_save; simp add: call_game_def)+

text \<open>What only reaches the scene is no change of the save.\<close>

lemma scene_only_save:
  assumes "scene_only s (t :: coop_game)"
  shows "flags t = flags s" "pickup_bits t = pickup_bits s" "melons t = melons s" "kongs t = kongs s" "fed_cache t = fed_cache s"
  using assms by (cases s; cases t; simp add: scene_only_def)+

lemma same_save_scene:
  assumes "scene_only s t"
  shows "consistent e t = consistent e s" "game_le u t = game_le u s" "coop_item_owned t j = coop_item_owned s j"
  by (rule same_save; rule scene_only_save [OF assms])+

lemma retire_only_parts [simp]:
  fixes s :: coop_game
  assumes "scene_only s t"
  shows "scene_only s (coop_collectible_prop_retire e object type t)" "scene_only s (coop_collectible_actor_retire object type t)"
    "scene_only s (coop_collectible_reward_actor_retire e flag t)"
  using assms by (simp_all add: coop_collectible_prop_retire_def coop_collectible_actor_retire_def
      coop_collectible_reward_actor_retire_def retire_spawner_def Let_def split: option.split)

lemma retire_only: "scene_only s (coop_collectible_source_retire e i s)"
proof -
  have "scene_only s (retire_banana e gb s)" for gb
    by (cases "gb_prop gb = 0xFFFF"; cases "gb_barrel gb = 0xFF") (simp_all add: retire_banana_def Let_def)
  then show ?thesis unfolding coop_collectible_source_retire_def Let_def by (simp split del: if_split split: if_split)
qed

lemmas same_save_retire [simp] = same_save_scene [OF retire_only]

text \<open>A write of one counter, after the permanent write.\<close>

lemma written_fields [simp]:
  "progression (write_counter c level v p) = progression p" "fed (write_counter c level v p) = fed p"
  "length (coloured (write_counter c level v p)) = length (coloured p)"
  "length (golden (write_counter c level v p)) = length (golden p)"
  "c \<noteq> Golden \<Longrightarrow> golden (write_counter c level v p) = golden p"
  "c \<noteq> Coloured \<Longrightarrow> coloured (write_counter c level v p) = coloured p"
  "c \<noteq> Coins \<Longrightarrow> coins (write_counter c level v p) = coins p"
  by (cases c; simp add: write_counter_def)+

lemma counter_kong_le [simp]: "kong_le p (write_counter c level v p)"
  by (simp add: kong_le_def)

lemma kong_write_le: "game_shape s \<Longrightarrow> kong < 5 \<Longrightarrow> game_le s (update_kong kong (write_counter c level v) s)"
  by (auto simp: game_le_def kongs_update game_shape_def)

lemma kong_write_owned:
  assumes "game_shape s" "kong < 5" "j < COOP_ITEMS"
  shows "coop_item_owned (update_kong kong (write_counter c level v) s) j = coop_item_owned s j"
proof -
  let ?t = "update_kong kong (write_counter c level v) s"
  have len: "5 \<le> length (kongs s)" using assms(1) by (simp add: game_shape_def)
  have at: "progression (kongs ?t ! k) = progression (kongs s ! k)" "fed (kongs ?t ! k) = fed (kongs s ! k)" if "k < 5" for k
    using that by (simp_all add: kongs_update [OF len assms(2)])
  show ?thesis
  proof (cases "coop_progression_move j")
    case None
    show ?thesis by (rule owned_kongs_cong) (use assms(3) None at in simp_all)
  next
    case (Some m)
    obtain k' f' v' b' where m: "coop_progression_move j = Some (k', f', v', b')" using Some by (metis prod_cases4)
    have "move_have f' v' b' (kongs ?t ! k) = move_have f' v' b' (kongs s ! k)" if "k < 5" for k
      by (simp add: move_have_def at [OF that])
    then show ?thesis unfolding move_owned [OF m] by blast
  qed
qed

lemma counter_at:
  assumes "level < 8" "length (coloured p) = 14" "length (golden p) = 14" "v < 65536"
  shows "unat (read_counter c level (write_counter c level v p)) = v"
  using assms by (cases c) (simp_all add: read_counter_def write_counter_def small_u16)

lemma coloured_write:
  assumes "consistent e s" "kong < 5" "level < 8" "unat (coloured (kongs s ! kong) ! level) + amount + unat (fed (kongs s ! kong) ! level) \<le> 100"
  shows "consistent e (update_kong kong (write_counter Coloured level (unat (coloured (kongs s ! kong) ! level) + amount)) s)"
proof -
  have shape: "game_shape s" using assms(1) by (simp add: consistent_def)
  note lens = shape_lengths [OF shape assms(2)]
  show ?thesis
  proof (rule consistent_update [OF assms(1,2)])
    show "game_shape (update_kong kong (write_counter Coloured level (unat (coloured (kongs s ! kong) ! level) + amount)) s)"
      by (rule shape_update [OF shape assms(2)]) (simp_all add: lens)
    fix l :: nat assume l: "l < 8"
    have "unat (coloured (write_counter Coloured level (unat (coloured (kongs s ! kong) ! level) + amount) (kongs s ! kong)) ! l) =
      (if l = level then unat (coloured (kongs s ! kong) ! level) + amount else unat (coloured (kongs s ! kong) ! l))"
      using assms(3,4) lens l by (auto simp: write_counter_def nth_list_update small_u16 simp del: of_nat_add)
    with assms(4) kong_facts(1) [OF assms(1,2) l]
    show "unat (coloured (write_counter Coloured level (unat (coloured (kongs s ! kong) ! level) + amount) (kongs s ! kong)) ! l) +
      unat (fed (write_counter Coloured level (unat (coloured (kongs s ! kong) ! level) + amount) (kongs s ! kong)) ! l) \<le> 100"
      by auto
  qed (use kong_facts(2) [OF assms(1-3)] in simp_all)
qed

lemma coins_write:
  assumes "consistent e s" "kong < 5" "v \<le> 999"
  shows "consistent e (update_kong kong (write_counter Coins level v) s)"
proof -
  have shape: "game_shape s" using assms(1) by (simp add: consistent_def)
  note lens = shape_lengths [OF shape assms(2)]
  show ?thesis
  proof (rule consistent_update [OF assms(1,2)])
    show "game_shape (update_kong kong (write_counter Coins level v) s)"
      by (rule shape_update [OF shape assms(2)]) (simp_all add: lens)
  qed (use assms(3) kong_facts(1) [OF assms(1,2)] in \<open>simp_all add: write_counter_def small_u16\<close>)
qed

lemma golden_write:
  assumes "consistent e s" "coop_item_gb i = Some (level, kong)" "written i s t" "\<not> coop_item_owned s i"
    and "i < COOP_MEDAL_FIRST \<Longrightarrow> flags s (0x1D5 + int i - int COOP_SNIDE_FIRST)"
    and "v = unat (golden (kongs s ! kong) ! level) + 1" "v \<le> 6"
  shows "consistent e (update_kong kong (write_counter Golden level v) t)"
    (is "consistent e ?u")
proof -
  have lk: "level < 8" "kong < 5" using gb_bounds [OF assms(2)] by auto
  have i: "i \<in> set flagged_ids" "i < COOP_PICKUP_FIRST" using gb_range [OF assms(2)] by auto
  then have f: "flags t = (flags s)(coop_item_flag i := True)" and kt: "kongs t = kongs s" "melons t = melons s" "fed_cache t = fed_cache s"
    using assms(3) by (auto simp: written_def is_pickup_def)
  have shape: "game_shape s" using assms(1) by (simp add: consistent_def)
  then have shape_t: "game_shape t" using kt by (simp add: game_shape_def)
  have len: "5 \<le> length (kongs t)" using shape_t by (simp add: game_shape_def)
  note lens = shape_lengths [OF shape lk(2)]
  have flags_u: "flags ?u = flags (with_flag (coop_item_flag i) s)" by (simp add: f)
  have at: "kongs ?u ! k = (if k = kong then write_counter Golden level v (kongs s ! kong)
      else kongs s ! k)" if "k < 5" for k
    using that kt by (simp add: kongs_update [OF len lk(2)])
  have "game_shape ?u" by (rule shape_update [OF shape_t lk(2)]) (simp_all add: kt lens)
  moreover have "coop_progression_valid ?u"
  proof -
    have "coop_progression_valid ?u = coop_progression_valid (with_flag (coop_item_flag i) s)"
      by (rule progression_valid_cong [OF flags_u]) (simp_all add: kt at)
    with progression_valid_flag [OF not_slam [OF i(1)]] i(2) assms(1) show ?thesis
      by (simp add: consistent_def counters_valid_iff)
  qed
  moreover have "\<not> blueprint_missing ?u"
    unfolding blueprint_cong [OF flags_u]
    by (rule blueprint_flag [OF i(1)]) (use assms(1,5) in \<open>simp_all add: consistent_def counters_valid_iff\<close>)
  moreover have "kong_counters_valid ?u l k" if "l < 8" "k < 5" for l k
  proof -
    have "owned_bananas ?u l k = owned_bananas s l k + (if level = l \<and> kong = k then 1 else 0)"
      unfolding owned_bananas_cong [OF flags_u] owned_bananas_flag [OF i(1) assms(4)] by (simp add: assms(2))
    moreover have "unat (golden (write_counter Golden level v (kongs s ! kong)) ! l) =
        unat (golden (kongs s ! kong) ! l) + (if l = level then 1 else 0)"
      using assms(6,7) lens lk(1) that by (auto simp: write_counter_def nth_list_update small_u16 simp del: of_nat_add of_nat_Suc)
    ultimately show ?thesis
      using kong_facts [OF assms(1) that(2,1)] unfolding kong_counters_valid_def at [OF that(2)]
      by (cases "k = kong") auto
  qed
  ultimately show ?thesis using assms(1) by (simp add: consistent_def counters_valid_iff)
qed

text \<open>The counter a credit names, after the checks of \<open>counter_credit\<close>.\<close>

lemma counter_credit_facts:
  assumes "counter_credit i s = Credit (CounterCredit which before amount)"
  shows "before = unat (read_counter which (item_level (collectible_of i)) (kongs s ! item_kong (collectible_of i)))"
    "before + amount \<le> counter_capacity which (item_level (collectible_of i)) (item_kong (collectible_of i)) s"
    "which = Golden \<longleftrightarrow> coop_item_gb i \<noteq> None" "amount < 256" "which = Golden \<Longrightarrow> amount = 1"
proof -
  have gb1: "item_amount (collectible_of i) = 1" if "coop_item_gb i \<noteq> None"
    using that gb_range [of i] by (auto simp: collectible_of_def)
  show "before = unat (read_counter which (item_level (collectible_of i)) (kongs s ! item_kong (collectible_of i)))"
    "before + amount \<le> counter_capacity which (item_level (collectible_of i)) (item_kong (collectible_of i)) s"
    "which = Golden \<longleftrightarrow> coop_item_gb i \<noteq> None" "amount < 256" "which = Golden \<Longrightarrow> amount = 1"
    using assms credit_bounds(3) [of i] gb1 by (auto simp: counter_credit_def Let_def split: if_splits)
qed

lemma coloured_capacity:
  assumes "consistent e s" "level < 8" "kong < 5"
  shows "counter_capacity Coloured level kong s = 100 - unat (fed (kongs s ! kong) ! level)"
proof -
  let ?f = "fed (kongs s ! kong) ! level"
  have f: "unat ?f \<le> 100" using kong_facts(1) [OF assms(1,3,2)] by linarith
  then have "unat (ucast ?f :: u32) = unat ?f" by (simp add: unsigned_ucast_eq take_bit_nat_eq_self)
  with f have "unat (100 - (ucast ?f :: u32)) = 100 - unat ?f" by (subst unat_sub) (simp_all add: word_le_nat_alt)
  then show ?thesis by (simp add: counter_capacity_def)
qed

lemma counter_consistent:
  assumes "consistent e s" "collectible_id i" "\<not> coop_item_owned s i" "written i s t"
    and "counter_credit i s = Credit (CounterCredit which before amount)"
    and "coop_item_gb i \<noteq> None \<Longrightarrow> i < COOP_MEDAL_FIRST \<Longrightarrow> flags s (0x1D5 + int i - int COOP_SNIDE_FIRST)"
  shows "consistent e (update_kong (item_kong (collectible_of i)) (write_counter which (item_level (collectible_of i)) (before + amount)) t)"
proof -
  let ?k = "item_kong (collectible_of i)" and ?l = "item_level (collectible_of i)"
  have kt: "kongs t = kongs s" using assms(4) by (simp add: written_def)
  note facts = counter_credit_facts [OF assms(5)] and b = credit_bounds [of i]
  show ?thesis
  proof (cases which)
    case Golden
    then obtain level kong where gb: "coop_item_gb i = Some (level, kong)" using facts(3) by auto
    then have lk: "?l = level" "?k = kong" using gb_range [OF gb] by (auto simp: collectible_of_def)
    have "before + amount = unat (golden (kongs s ! kong) ! level) + 1" "before + amount \<le> 6"
      using facts Golden lk by (auto simp: read_counter_def counter_capacity_def coop_snide_capacity_def split: if_splits)
    from golden_write [OF assms(1) gb assms(4,3) assms(6) this] gb Golden lk
    show ?thesis by simp
  next
    case Coloured
    then have "coop_item_gb i = None" using facts(3) by (metis counter.distinct(1,3))
    note ct = written_consistent [OF assms(1,2) this assms(4)]
    have "before = unat (coloured (kongs t ! ?k) ! ?l)" using facts(1) Coloured kt by (simp add: read_counter_def)
    moreover have "before + amount + unat (fed (kongs t ! ?k) ! ?l) \<le> 100"
      using facts(2) Coloured coloured_capacity [OF assms(1) b(2,1)] kong_facts(1) [OF assms(1) b(1,2)] kt by simp
    ultimately show ?thesis using coloured_write [OF ct b(1,2)] Coloured by simp
  next
    case Coins
    then have "coop_item_gb i = None" using facts(3) by (metis counter.distinct(1,3))
    note ct = written_consistent [OF assms(1,2) this assms(4)]
    show ?thesis using coins_write [OF ct b(1)] facts(2) Coins by (simp add: counter_capacity_def)
  qed
qed

section \<open>What the session remembers\<close>

definition remembers :: "coop_game \<Rightarrow> coop_game \<Rightarrow> CoopItems \<Rightarrow> CoopItems \<Rightarrow> bool" where
  "remembers s t g g' \<longleftrightarrow> result g' = result g \<and>
     (words_ok (previous g) \<longrightarrow> words_ok (previous g') \<and>
        (\<forall>j < COOP_ITEMS. coop_item_has (previous g) j \<longrightarrow> coop_item_has (previous g') j) \<and>
        (\<forall>j < COOP_ITEMS. coop_item_owned t j \<longrightarrow> coop_item_owned s j \<or> coop_item_has (previous g') j \<or> is_medal j)) \<and>
     (words_ok (request (input g)) \<longrightarrow> words_ok (request (input g')) \<and>
        (\<forall>j. coop_item_has (request (input g')) j \<longrightarrow> coop_item_has (request (input g)) j \<or> is_medal j))"

text \<open>A step of the loop about item \<open>i\<close>.\<close>

definition stepped :: "coop_env \<Rightarrow> nat \<Rightarrow> apply_state \<Rightarrow> apply_state \<Rightarrow> bool" where
  "stepped e i st st' \<longleftrightarrow> (case (st, st') of ((g, s, a), (g', t, a')) \<Rightarrow> gained e i s t \<and> remembers s t g g')"

lemma remembers_same:
  "previous g' = previous g \<Longrightarrow> result g' = result g \<Longrightarrow> request (input g') = request (input g) \<Longrightarrow> remembers s s g g'"
  by (simp add: remembers_def)

lemma wait_item_fields [simp]:
  "previous (wait_item r i g) = previous g" "result (wait_item r i g) = result g" "input (wait_item r i g) = input g"
  "counter_error (wait_item r i g) = counter_error g"
  by (simp_all add: wait_item_def coop_items_wait_def)

lemma stepped_same:
  "consistent e s \<Longrightarrow> previous g' = previous g \<Longrightarrow> result g' = result g \<Longrightarrow> input g' = input g \<Longrightarrow>
     stepped e i (g, s, a) (g', s, a')"
  by (simp add: stepped_def gained_refl remembers_same)

lemma note_fields:
  "previous (coop_items_note g i) = previous g" "result (coop_items_note g i) = result g"
  "request (input (coop_items_note g i)) = request (input g) \<or>
     request (input (coop_items_note g i)) = coop_item_set i (request (input g))"
  by (simp_all add: coop_items_note_def request_item_def)

lemma note_medal:
  assumes "words_ok (request (input g))" "is_medal i" "request (input g') = request (input (coop_items_note g i))"
  shows "words_ok (request (input g'))"
    "coop_item_has (request (input g')) j \<Longrightarrow> coop_item_has (request (input g)) j \<or> is_medal j"
proof -
  have i: "i < COOP_ITEMS" using assms(2) by simp
  show "words_ok (request (input g'))" using note_fields(3) [of g i] assms(1,3) by (auto simp: words_ok_def)
  show "coop_item_has (request (input g')) j \<Longrightarrow> coop_item_has (request (input g)) j \<or> is_medal j"
    using note_fields(3) [of g i] has_set [OF assms(1) i, of j] assms(2,3) by auto
qed

section \<open>The collectible branch\<close>

lemma medal_flag:
  assumes "is_medal i"
  shows "i \<in> set flagged_ids" "coop_item_gb i = None" "i \<noteq> COOP_FIRST_SLAM"
  using assms unfolding flagged_members by (simp_all add: coop_item_gb_def)

lemma award_medal_result:
  assumes "consistent e s" "level < 7" "kong < 5" "award_medal e level kong (g, s) = (g', t)"
  shows "consistent e t" "game_le s t" "previous g' = previous g" "result g' = result g"
    "\<And>j. j < COOP_ITEMS \<Longrightarrow> coop_item_owned t j \<Longrightarrow> coop_item_owned s j \<or> is_medal j"
    "request (input g') = request (input g) \<or>
       (\<exists>i. is_medal i \<and> request (input g') = request (input (coop_items_note g i)))"
proof -
  define m where "m = COOP_MEDAL_FIRST + level * 5 + kong"
  have m: "is_medal m" using assms(2,3) by (auto simp: m_def)
  have t: "t = s \<or> t = with_flag (coop_item_flag m) s" and g: "g' = g \<or> g' = coop_items_note g m"
    using assms(4) set_flag_cases [of e "coop_item_flag m" s]
    by (auto simp: award_medal_def m_def [symmetric] Let_def split: if_splits)
  show "consistent e t" using t consistent_flag [OF assms(1) medal_flag [OF m]] assms(1) by auto
  show "game_le s t" using t by auto
  show "previous g' = previous g" "result g' = result g" using g note_fields [of g m] by auto
  show "coop_item_owned s j \<or> is_medal j" if "j < COOP_ITEMS" "coop_item_owned t j" for j
    using t that owned_with_flag [OF medal_flag(1) [OF m] that(1)] m by auto
  show "request (input g') = request (input g) \<or>
       (\<exists>i. is_medal i \<and> request (input g') = request (input (coop_items_note g i)))"
    using g m by auto
qed

text \<open>The result of a commit, told from the state before the permanent write.\<close>

definition committed :: "coop_env \<Rightarrow> nat \<Rightarrow> coop_game \<Rightarrow> CoopItems \<Rightarrow> CoopItems \<times> coop_game \<Rightarrow> bool" where
  "committed e i s g r \<longleftrightarrow> (case r of (g', t) \<Rightarrow> consistent e t \<and> game_le s t \<and> previous g' = previous g \<and> result g' = result g \<and>
     (\<forall>j < COOP_ITEMS. coop_item_owned t j \<longrightarrow> coop_item_owned s j \<or> j = i \<or> is_medal j) \<and>
     (request (input g') = request (input g) \<or>
       (\<exists>m. is_medal m \<and> request (input g') = request (input (coop_items_note g m)))))"

lemma commit_counter_result:
  assumes "consistent e s" "collectible_id i" "\<not> coop_item_owned s i" "written i s t"
    and "counter_credit i s = Credit (CounterCredit which before amount)"
    and "coop_item_gb i \<noteq> None \<Longrightarrow> i < COOP_MEDAL_FIRST \<Longrightarrow> flags s (0x1D5 + int i - int COOP_SNIDE_FIRST)"
    and "commit_counter e i which before amount (g, t) = (broke, r)"
  shows "\<not> broke \<and> committed e i s g r"
proof -
  let ?k = "item_kong (collectible_of i)" and ?l = "item_level (collectible_of i)"
  define u where "u = update_kong ?k (write_counter which ?l (before + amount)) t"
  define h where "h = (if coop_item_gb i \<noteq> None then g\<lparr>hud_pending := 1\<rparr> else g)"
  note facts = counter_credit_facts [OF assms(5)] and b = credit_bounds [of i]
  have kt: "kongs t = kongs s" and le: "game_le s t" and own: "\<And>j. j < COOP_ITEMS \<Longrightarrow> coop_item_owned t j \<longleftrightarrow> coop_item_owned s j \<or> j = i"
    using assms(4) by (simp_all add: written_def)
  have shape_t: "game_shape t" using assms(1,4) by (simp add: consistent_def game_shape_def written_def)
  have cu: "consistent e u" unfolding u_def by (rule counter_consistent [OF assms(1-6)])
  have le_u: "game_le s u" unfolding u_def by (rule game_le_trans [OF le kong_write_le [OF shape_t b(1)]])
  have own_u: "coop_item_owned u j \<longleftrightarrow> coop_item_owned s j \<or> j = i" if "j < COOP_ITEMS" for j
    unfolding u_def kong_write_owned [OF shape_t b(1) that] by (rule own [OF that])
  have h: "previous h = previous g" "result h = result g" "input h = input g" "join_role h = join_role g" "bound h = bound g"
    by (simp_all add: h_def)
  have r: "\<not> broke" "r = (h, u) \<or> ?l < 7 \<and> r = award_medal e ?l ?k (h, u)"
    using assms(7) facts(1) kt unfolding commit_counter_def u_def h_def counts_to_medal_def prod.case Let_def
    by (auto split: if_splits)
  from r(2) show ?thesis
  proof
    assume "r = (h, u)"
    with cu le_u own_u h r(1) show ?thesis by (auto simp: committed_def)
  next
    assume m: "?l < 7 \<and> r = award_medal e ?l ?k (h, u)"
    obtain g' v where r': "award_medal e ?l ?k (h, u) = (g', v)" by (metis surj_pair)
    from m have l7: "?l < 7" by simp
    note a = award_medal_result [OF cu l7 b(1) r']
    have "request (input (coop_items_note h j)) = request (input (coop_items_note g j))" for j
      by (simp add: coop_items_note_def request_item_def h)
    with a(6) h have "request (input g') = request (input g) \<or>
       (\<exists>m. is_medal m \<and> request (input g') = request (input (coop_items_note g m)))" by simp
    moreover have "coop_item_owned s j \<or> j = i \<or> is_medal j" if "j < COOP_ITEMS" "coop_item_owned v j" for j
      using a(5) [OF that] own_u [OF that(1)] by blast
    ultimately show ?thesis
      using r(1) m r' a(1-4) game_le_trans [OF le_u a(2)] h by (simp add: committed_def)
  qed
qed

lemma commit_rainbow_result:
  assumes "consistent e s" "collectible_id i" "coop_item_gb i = None" "written i s t"
    and "rainbow_credit s = Credit (RainbowCredit before)" "commit_rainbow before (g, t) = (broke, r)"
  shows "\<not> broke \<and> committed e i s g r"
proof -
  define h where "h = (\<lambda>k p. p\<lparr>coins := of_nat (before ! k + 5)\<rparr> :: CoopCharacterProgress)"
  have ct: "consistent e t" by (rule written_consistent [OF assms(1-4)])
  then have shape: "game_shape t" by (simp add: consistent_def)
  then have len: "5 \<le> length (kongs t)" by (simp add: game_shape_def)
  have kt: "kongs t = kongs s" and le: "game_le s t" and own: "\<And>j. j < COOP_ITEMS \<Longrightarrow> coop_item_owned t j \<longleftrightarrow> coop_item_owned s j \<or> j = i"
    using assms(4) by (simp_all add: written_def)
  have before: "before = map (\<lambda>k. unat (coins (kongs s ! k))) [0..<5]" "list_all (\<lambda>b. b \<le> 994) before"
    using assms(5) by (auto simp: rainbow_credit_def Let_def list_ex_iff list_all_iff not_less split: if_splits simp del: upt_rec_numeral)
  then have b: "before ! k = unat (coins (kongs t ! k))" "before ! k \<le> 994" if "k < 5" for k
    using that kt by (simp_all add: list_all_length del: upt_rec_numeral)
  let ?u = "written_kongs (\<lambda>k. True) h t"
  have "\<not> list_ex (\<lambda>k. unat (coins (kongs t ! k)) \<noteq> before ! k) [0..<5]"
    using b by (auto simp: list_ex_iff simp del: upt_rec_numeral)
  then have r: "\<not> broke" "r = (g, ?u)"
    using assms(6) fold_update [OF len, of "\<lambda>k. True" h] by (simp_all add: commit_rainbow_def h_def)
  have fields: "progression (h k p) = progression p" "coloured (h k p) = coloured p" "fed (h k p) = fed p" "golden (h k p) = golden p"
    "coins (h k p) = of_nat (before ! k + 5)" for k p by (simp_all add: h_def)
  have at: "kongs ?u ! k = h k (kongs t ! k)" if "k < 5" for k using that by (simp add: written_kongs_nth [OF len])
  have "game_shape ?u" by (rule shape_written [OF shape]) (simp add: fields)
  moreover have "kong_counters_valid ?u l k" if "l < 8" "k < 5" for l k
  proof -
    have "unat (of_nat (before ! k + 5) :: u16) \<le> 999" using b(2) [OF that(2)] by (simp add: small_u16 del: of_nat_add)
    with kong_facts [OF ct that(2,1)] show ?thesis
      unfolding kong_counters_valid_def at [OF that(2)] fields owned_bananas_cong [OF written_kongs_simps(1)] by simp
  qed
  moreover have "coop_progression_valid ?u"
    using ct progression_valid_cong [of ?u t] by (simp add: at fields consistent_def counters_valid_iff)
  ultimately have cu: "consistent e ?u"
    using ct by (simp add: consistent_def counters_valid_iff blueprint_cong [OF written_kongs_simps(1)])
  have "game_le t ?u" by (rule written_le [OF shape]) (simp add: kong_le_def fields)
  then have le_u: "game_le s ?u" by (rule game_le_trans [OF le])
  have "coop_item_owned ?u j = coop_item_owned t j" if "j < COOP_ITEMS" for j
  proof (cases "coop_progression_move j")
    case None
    show ?thesis by (rule owned_kongs_cong) (use that None in \<open>simp_all add: at fields\<close>)
  next
    case (Some m)
    obtain k' f' v' b' where m: "coop_progression_move j = Some (k', f', v', b')" using Some by (metis prod_cases4)
    have "move_have f' v' b' (kongs ?u ! k) = move_have f' v' b' (kongs t ! k)" if "k < 5" for k
      by (simp add: move_have_def at [OF that] fields)
    then show ?thesis unfolding move_owned [OF m] by blast
  qed
  with cu le_u own r show ?thesis by (simp add: committed_def)
qed

lemma prepared_branch:
  "(if A then Wait a else if G \<or> P \<or> Q \<or> B then
      if W1 then Wait w1 else if W2 then Wait w2 else if W3 then Wait w3 else if G \<and> M \<and> \<not> F then Wait w4
      else if Q \<and> Z then R else C
    else Credit NoCredit) = Credit c \<Longrightarrow> c = NoCredit \<and> \<not> G \<or> R = Credit c \<and> Q \<or> C = Credit c \<and> (G \<and> M \<longrightarrow> F)"
  by (auto split: if_splits)

lemma prepare_credit_cases:
  assumes "prepare_credit e fr i s = Credit c"
  obtains (none) "c = NoCredit" "coop_item_gb i = None"
  | (rainbow) before where "c = RainbowCredit before" "rainbow_credit s = Credit (RainbowCredit before)" "coop_item_gb i = None"
  | (counter) which before amount where "c = CounterCredit which before amount"
    "counter_credit i s = Credit (CounterCredit which before amount)"
    "coop_item_gb i \<noteq> None \<Longrightarrow> i < COOP_MEDAL_FIRST \<Longrightarrow> flags s (0x1D5 + int i - int COOP_SNIDE_FIRST)"
proof -
  have rc: "\<exists>before. c = RainbowCredit before" if "rainbow_credit s = Credit c" for c
    using that by (auto simp: rainbow_credit_def Let_def split: if_splits)
  have cc: "\<exists>which before amount. c = CounterCredit which before amount" if "counter_credit i s = Credit c" for c
    using that by (auto simp: counter_credit_def Let_def split: if_splits)
  have actor: "is_actor i \<Longrightarrow> coop_item_gb i = None" by (simp add: is_actor_def coop_item_gb_def)
  from prepared_branch [OF assms [unfolded prepare_credit_def Let_def]]
  consider "c = NoCredit" "coop_item_gb i = None" | "rainbow_credit s = Credit c" "is_actor i"
    | "counter_credit i s = Credit c" "coop_item_gb i \<noteq> None \<Longrightarrow> i < COOP_MEDAL_FIRST \<Longrightarrow> flags s (0x1D5 + int i - int COOP_SNIDE_FIRST)"
    by blast
  then show thesis
  proof cases
    case 2
    with rc [OF 2(1)] actor show thesis by (auto intro: rainbow)
  next
    case 3
    with cc [OF 3(1)] show thesis by (auto intro: counter)
  qed (use none in blast)
qed

lemma commit_credit_result:
  assumes "consistent e s" "collectible_id i" "\<not> coop_item_owned s i" "written i s t"
    and "prepare_credit e fr i s = Credit c" "commit_credit e i c (g, t) = (broke, r)"
  shows "\<not> broke \<and> committed e i s g r"
  using assms(5)
proof (cases rule: prepare_credit_cases)
  case none
  with assms(6) have "\<not> broke" "r = (g, t)" by (auto simp: commit_credit_def)
  with written_consistent [OF assms(1,2) none(2) assms(4)] assms(4) show ?thesis by (auto simp: committed_def written_def)
next
  case (rainbow before)
  with commit_rainbow_result [OF assms(1,2) rainbow(3) assms(4) rainbow(2), of g broke r] assms(6) show ?thesis by (simp add: commit_credit_def)
next
  case (counter which before amount)
  with commit_counter_result [OF assms(1-4) counter(2,3), of g broke r] assms(6) show ?thesis by (simp add: commit_credit_def)
qed

lemma permanent_unwritten:
  assumes "collectible_id i" "i < COOP_ITEMS" "\<not> coop_item_owned (permanent_write e i s) i"
  shows "permanent_write e i s = s"
proof (cases "is_pickup i")
  case True
  have l: "item_level (collectible_of i) = coop_pickup_level (i - COOP_PICKUP_FIRST)"
    using True by (simp add: collectible_of_def is_pickup_def Let_def)
  from set_pickup_written [OF True, of s] assms(2,3) True show ?thesis
    unfolding permanent_write_def set_pickup_def l written_def by (auto split: if_splits)
next
  case False
  have flagged: "i \<in> set flagged_ids" using assms(1) False unfolding flagged_members collectible_id_def is_pickup_def by auto
  from set_flag_cases [of e "coop_item_flag i" s] owned_with_flag [OF flagged assms(2), of s] assms(3) False
  show ?thesis unfolding permanent_write_def by auto
qed

lemma implied_self [simp]: "implied i i"
  by (simp add: implied_def)

lemma collectible_step_result:
  assumes "consistent e s" "collectible_id i" "i < COOP_ITEMS" "\<not> coop_item_owned s i"
    and "collectible_step e fr i (g, s, a) = (broke, st')"
  shows "stepped e i (g, s, a) st'"
proof (cases "prepare_credit e fr i s")
  case (Wait r)
  with assms(5) have "st' = (wait_item r i g, s, a)" by (simp add: collectible_step_def)
  with stepped_same [OF assms(1)] show ?thesis by simp
next
  case Inconsistent
  with assms(5) have "st' = (g\<lparr>counter_error := 1\<rparr>, s, a)" by (simp add: collectible_step_def)
  with stepped_same [OF assms(1)] show ?thesis by simp
next
  case (Credit c)
  let ?t = "permanent_write e i s"
  show ?thesis
  proof (cases "coop_item_owned ?t i")
    case False
    note same = permanent_unwritten [OF assms(2,3) False]
    from assms(5) Credit False have "st' = (g, s, a)" by (simp add: collectible_step_def same)
    with stepped_same [OF assms(1)] show ?thesis by simp
  next
    case True
    note w = permanent_written [OF assms(2,4) True]
    obtain br g' u where cm: "commit_credit e i c (g, ?t) = (br, g', u)" by (metis prod_cases3)
    from commit_credit_result [OF assms(1,2,4) w Credit cm] have ok: "\<not> br" "committed e i s g (g', u)" by auto
    define u' where "u' = (if on_map e (source_map (collectible_of i)) then coop_collectible_source_retire e i u else u)"
    have st': "st' = ((note_previous i g')\<lparr>save_pending := 1\<rparr>, u', a)"
      using assms(5) Credit True cm ok(1) by (simp add: collectible_step_def u'_def Let_def)
    have u': "consistent e u' = consistent e u" "game_le s u' = game_le s u" "coop_item_owned u' j = coop_item_owned u j" for j
      by (simp_all add: u'_def)
    have c: "consistent e u'" "game_le s u'" "previous g' = previous g" "result g' = result g"
      "\<And>j. j < COOP_ITEMS \<Longrightarrow> coop_item_owned u' j \<Longrightarrow> coop_item_owned s j \<or> j = i \<or> is_medal j"
      "request (input g') = request (input g) \<or> (\<exists>m. is_medal m \<and> request (input g') = request (input (coop_items_note g m)))"
      using ok(2) by (auto simp: committed_def u')
    have "gained e i s u'" unfolding gained_def using c(1,2) by (blast dest: c(5) intro: implied_self)
    moreover have "words_ok (request (input g')) \<and>
        (\<forall>j. coop_item_has (request (input g')) j \<longrightarrow> coop_item_has (request (input g)) j \<or> is_medal j)"
      if "words_ok (request (input g))"
      using c(6)
    proof
      assume "\<exists>m. is_medal m \<and> request (input g') = request (input (coop_items_note g m))"
      then obtain m where "is_medal m" "request (input g') = request (input (coop_items_note g m))" by blast
      from note_medal [OF that this] show ?thesis by blast
    qed (use that in simp)
    moreover have "coop_item_owned s j \<or> j = i \<or> is_medal j" if "j < COOP_ITEMS" "coop_item_owned u' j" for j
      by (rule c(5) [OF that])
    ultimately have "remembers s u' g ((note_previous i g')\<lparr>save_pending := 1\<rparr>)"
      unfolding remembers_def
      using c(3,4) assms(3) by (simp add: note_previous_def has_set words_ok_def [symmetric]) (auto simp: words_ok_def)
    with \<open>gained e i s u'\<close> show ?thesis by (simp add: stepped_def st')
  qed
qed

section \<open>The progression branch\<close>

lemma note_owned_fold:
  assumes "words_ok (previous g)" "\<forall>p \<in> set ps. p < COOP_ITEMS"
  shows "let g' = fold (\<lambda>p g. if own p then note_previous p g else g) ps g in
    result g' = result g \<and> input g' = input g \<and> words_ok (previous g') \<and>
    (\<forall>j < COOP_ITEMS. coop_item_has (previous g') j \<longleftrightarrow> coop_item_has (previous g) j \<or> j \<in> set ps \<and> own j)"
  using assms
proof (induction ps arbitrary: g)
  case (Cons p ps)
  show ?case
  proof (cases "own p")
    case True
    have ok: "words_ok (previous (note_previous p g))" using Cons.prems(1) by (simp add: note_previous_def words_ok_def)
    have "coop_item_has (previous (note_previous p g)) j \<longleftrightarrow> coop_item_has (previous g) j \<or> j = p" for j
      using has_set [OF Cons.prems(1), of p] Cons.prems(2) by (simp add: note_previous_def)
    with Cons.IH [OF ok] Cons.prems(2) True show ?thesis by (auto simp: Let_def note_previous_def)
  next
    case False
    with Cons.IH [OF Cons.prems(1)] Cons.prems(2) show ?thesis by (auto simp: Let_def)
  qed
qed (simp add: Let_def)

lemma note_owned_progression_result:
  assumes "words_ok (previous g)"
  shows "words_ok (previous (note_owned_progression s g))"
    "\<And>j. j < COOP_ITEMS \<Longrightarrow> coop_item_has (previous (note_owned_progression s g)) j \<longleftrightarrow>
       coop_item_has (previous g) j \<or> COOP_PROGRESSION_FIRST \<le> j \<and> j < COOP_PROGRESSION_END \<and> coop_item_owned s j"
proof -
  let ?ps = "[COOP_PROGRESSION_FIRST..<COOP_PROGRESSION_END]"
  have "\<forall>p \<in> set ?ps. p < COOP_ITEMS" by (simp del: upt_rec_numeral)
  from note_owned_fold [OF assms this, of "coop_progression_owned s"]
  have n: "words_ok (previous (note_owned_progression s g))" "\<forall>j < COOP_ITEMS. coop_item_has (previous (note_owned_progression s g)) j \<longleftrightarrow>
      coop_item_has (previous g) j \<or> j \<in> set ?ps \<and> coop_progression_owned s j"
    unfolding note_owned_progression_def Let_def by blast+
  show "words_ok (previous (note_owned_progression s g))" by (rule n)
  show "coop_item_has (previous (note_owned_progression s g)) j \<longleftrightarrow>
       coop_item_has (previous g) j \<or> COOP_PROGRESSION_FIRST \<le> j \<and> j < COOP_PROGRESSION_END \<and> coop_item_owned s j"
    if "j < COOP_ITEMS" for j
  proof -
    have mem: "j \<in> set ?ps \<longleftrightarrow> COOP_PROGRESSION_FIRST \<le> j \<and> j < COOP_PROGRESSION_END"
      by (simp only: set_upt atLeastLessThan_iff)
    have own: "P \<and> Q \<longrightarrow> (x \<longleftrightarrow> y) \<Longrightarrow> (z \<or> (P \<and> Q) \<and> y \<longleftrightarrow> z \<or> P \<and> Q \<and> x)" for P Q x y z by blast
    show ?thesis unfolding n(2) [rule_format, OF that] mem by (rule own) (simp add: progression_item)
  qed
qed

lemma note_owned_progression_fields [simp]:
  "result (note_owned_progression s g) = result g" "input (note_owned_progression s g) = input g"
proof -
  have "result (fold (\<lambda>p g. if own p then note_previous p g else g) ps g) = result g \<and>
      input (fold (\<lambda>p g. if own p then note_previous p g else g) ps g) = input g" for own ps g
    by (induction ps arbitrary: g) (simp_all add: note_previous_def)
  then show "result (note_owned_progression s g) = result g" "input (note_owned_progression s g) = input g"
    unfolding note_owned_progression_def by blast+
qed

lemma implied_progression:
  assumes "implied i j" "COOP_PROGRESSION_FIRST \<le> i" "i < COOP_PROGRESSION_END"
  shows "COOP_PROGRESSION_FIRST \<le> j \<and> j < COOP_PROGRESSION_END"
proof -
  have "COOP_MOVE_FIRST \<le> j \<and> j < COOP_MELON_FIRST" if "coop_progression_move j = Some m" for m
    using that by (auto simp: coop_progression_move_def split: if_splits)
  with assms show ?thesis by (auto simp: implied_def split: option.splits)
qed

lemma progression_granted_result:
  assumes "COOP_PROGRESSION_FIRST \<le> i" "i < COOP_PROGRESSION_END" "consistent e s" "granting e i s t"
  shows "stepped e i (g, s, a) (progression_granted e fr i refresh live (g, t, a))"
proof -
  define u where "u = (if refresh then snd (coop_live_world_refresh e (uint (unlock_flag (world_row i))) t) else t)"
  define h where "h = (if training_ground fr \<and> i = COOP_TRAINING_COMPLETE \<and> peer_same_map g \<noteq> 0 then g\<lparr>training_scene_pending := 1\<rparr> else g)"
  have h: "previous h = previous g" "result h = result g" "input h = input g" by (simp_all add: h_def)
  obtain a' where r: "progression_granted e fr i refresh live (g, t, a) = ((note_owned_progression u h)\<lparr>save_pending := 1\<rparr>, u, a')"
    by (cases refresh; cases "coop_live_world_refresh e (uint (unlock_flag (world_row i))) t")
      (simp_all add: progression_granted_def u_def h_def Let_def)
  have "scene_only t u" by (simp add: u_def refresh_only)
  note u = same_save_scene [OF this]
  have new: "coop_item_owned s j \<or> implied i j" if "j < COOP_ITEMS" "coop_item_owned u j" for j
    using assms(4) that u(3) by (auto simp: granting_def)
  have "gained e i s u" using gained_granting [OF assms(3,4)] by (simp add: gained_def u)
  moreover have "remembers s u g ((note_owned_progression u h)\<lparr>save_pending := 1\<rparr>)"
  proof -
    have "coop_item_owned s j \<or> coop_item_has (previous (note_owned_progression u h)) j"
      if "words_ok (previous g)" "j < COOP_ITEMS" "coop_item_owned u j" for j
      using new [OF that(2,3)] implied_progression [OF _ assms(1,2), of j] that(3)
        note_owned_progression_result(2) [where g = h and j = j and s = u] that(1,2) h by auto
    moreover have "words_ok (previous (note_owned_progression u h)) \<and>
        (\<forall>j < COOP_ITEMS. coop_item_has (previous g) j \<longrightarrow> coop_item_has (previous (note_owned_progression u h)) j)"
      if "words_ok (previous g)"
      using note_owned_progression_result(1) [where g = h and s = u] note_owned_progression_result(2) [where g = h and s = u] that
      unfolding h by simp
    ultimately show ?thesis unfolding remembers_def by (auto simp: h)
  qed
  ultimately show ?thesis by (simp add: stepped_def r)
qed

lemma progression_step_result:
  assumes "COOP_PROGRESSION_FIRST \<le> i" "i < COOP_PROGRESSION_END" "consistent e s"
    and "progression_step e fr i (g, s, a) = (broke, st')"
  shows "stepped e i (g, s, a) st'"
proof -
  have same: "stepped e i (g, s, a) (g', s, a)" if "g' = g\<lparr>counter_error := 1\<rparr> \<or> (\<exists>r. g' = wait_item r i g)" for g'
    using that stepped_same [OF assms(3), of g'] by auto
  from assms(4) consider "\<exists>g'. st' = (g', s, a) \<and> (g' = g\<lparr>counter_error := 1\<rparr> \<or> (\<exists>r. g' = wait_item r i g))"
    | safe refresh live granted t where "coop_progression_apply e s i safe (env_level e) (refresh_enabled g \<noteq> 0) = (granted, t)"
      "st' = (if granted then progression_granted e fr i refresh live (g, t, a)
        else (wait_item COOP_TRACE_WAIT_PROGRESSION_CONTEXT i g, t, a))"
    unfolding progression_step_def Let_def prod.case
    by (auto split: if_split_asm prod.split_asm)
  then show ?thesis
  proof cases
    case 1
    with same show ?thesis by blast
  next
    case (2 safe refresh live granted t)
    with progression_apply_result [OF assms(3), of i safe "env_level e" "refresh_enabled g \<noteq> 0"]
    have "if granted then granting e i s t \<and> coop_item_owned t i else t = s"
      unfolding grant_result_def 2(1) fst_conv snd_conv by simp
    with 2(2) progression_granted_result [OF assms(1-3), of t] same [of "wait_item COOP_TRACE_WAIT_PROGRESSION_CONTEXT i g"]
    show ?thesis by (cases granted) auto
  qed
qed

section \<open>One item\<close>

lemma troff_step_result:
  assumes "consistent e s" "i < COOP_ITEMS" "COOP_TROFF_FIRST \<le> i" "troff_step e fr i (g, s, a) = (broke, st')"
  shows "stepped e i (g, s, a) st'"
proof -
  obtain paid h t where r: "coop_troff_apply e g s i (safe_save fr) = (paid, h, t)" by (metis prod_cases3)
  note res = troff_apply_result [OF assms(1), where g = g and i = i and safe = "safe_save fr", unfolded r prod.case]
  define g' where "g' = (if paid then h else wait_item COOP_TRACE_WAIT_TROFF i (h\<lparr>troff_pending := 1\<rparr>))"
  have st': "st' = (g', t, a)" using assms(4) r by (simp add: troff_step_def Let_def g'_def)
  show ?thesis
  proof (cases paid)
    case True
    then have p: "granting e i s t" "g' = (note_previous i g)\<lparr>save_pending := 1\<rparr>" using res by (simp_all add: g'_def)
    have only: "implied i j \<Longrightarrow> j = i" for j
      using assms(3) by (simp add: implied_def coop_progression_move_def)
    have new: "coop_item_owned s j \<or> j = i" if "j < COOP_ITEMS" "coop_item_owned t j" for j
      using p(1) that only [of j] by (auto simp: granting_def)
    have "remembers s t g g'"
      unfolding remembers_def p(2) using new has_set [of "previous g" i] assms(2)
      by (auto simp: note_previous_def words_ok_def [symmetric]) (auto simp: words_ok_def)
    with gained_granting [OF assms(1) p(1)] show ?thesis by (simp add: stepped_def st')
  next
    case False
    with res st' stepped_same [OF assms(1), of g' g] show ?thesis by (auto simp: g'_def)
  qed
qed

lemma item_step_result:
  assumes "consistent e s" "i < COOP_ITEMS" "item_step e fr i (g, s, a) = (broke, st')"
  shows "stepped e i (g, s, a) st'" "\<not> coop_item_has (apply_words (result g)) i \<Longrightarrow> st' = (g, s, a)"
proof -
  show "\<not> coop_item_has (apply_words (result g)) i \<Longrightarrow> st' = (g, s, a)"
    using assms(3) by (simp add: item_step_def)
  from assms(3) consider "st' = (g, s, a)" | "st' = (wait_item COOP_TRACE_WAIT_LOCAL_AREA i g, s, a)"
    | "\<not> coop_item_owned s i" "COOP_TROFF_FIRST \<le> i" "troff_step e fr i (g, s, a) = (broke, st')"
    | "\<not> coop_item_owned s i" "COOP_PROGRESSION_FIRST \<le> i" "i < COOP_PROGRESSION_END" "progression_step e fr i (g, s, a) = (broke, st')"
    | "\<not> coop_item_owned s i" "\<not> (COOP_TROFF_FIRST \<le> i \<and> i < COOP_TROFF_END)" "\<not> (COOP_PROGRESSION_FIRST \<le> i \<and> i < COOP_PROGRESSION_END)"
      "collectible_step e fr i (g, s, a) = (broke, st')"
    unfolding item_step_def prod.case by (auto split: if_split_asm)
  then show "stepped e i (g, s, a) st'"
  proof cases
    case 1
    with stepped_same [OF assms(1)] show ?thesis by simp
  next
    case 2
    with stepped_same [OF assms(1)] show ?thesis by simp
  next
    case 3
    with troff_step_result [OF assms(1,2) 3(2,3)] show ?thesis by simp
  next
    case 4
    with progression_step_result [OF 4(2,3) assms(1) 4(4)] show ?thesis by simp
  next
    case 5
    then have "collectible_id i" using assms(2) by (auto simp: collectible_id_def)
    from collectible_step_result [OF assms(1) this assms(2) 5(1,4)] show ?thesis .
  qed
qed

section \<open>The whole loop\<close>

definition sent :: "u32 list \<Rightarrow> nat \<Rightarrow> bool" where
  "sent ws j \<longleftrightarrow> (\<exists>i. coop_item_has ws i \<and> implied i j)"

definition ran :: "coop_env \<Rightarrow> CoopItems \<times> coop_game \<Rightarrow> CoopItems \<times> coop_game \<Rightarrow> bool" where
  "ran e st st' \<longleftrightarrow> (case (st, st') of ((g, s), (g', t)) \<Rightarrow> consistent e t \<and> game_le s t \<and> remembers s t g g' \<and>
     (\<forall>j < COOP_ITEMS. coop_item_owned t j \<longrightarrow> coop_item_owned s j \<or> sent (apply_words (result g)) j \<or> is_medal j))"

lemma remembers_trans:
  assumes "remembers s t g h" "remembers t u h k"
  shows "remembers s u g k"
  unfolding remembers_def
proof (intro conjI impI allI)
  show "result k = result g" using assms by (simp add: remembers_def)
next
  assume "words_ok (previous g)"
  with assms(1) have h: "words_ok (previous h)" "\<And>j. j < COOP_ITEMS \<Longrightarrow> coop_item_has (previous g) j \<Longrightarrow> coop_item_has (previous h) j"
    "\<And>j. j < COOP_ITEMS \<Longrightarrow> coop_item_owned t j \<Longrightarrow> coop_item_owned s j \<or> coop_item_has (previous h) j \<or> is_medal j"
    unfolding remembers_def by blast+
  from h(1) assms(2) have k: "words_ok (previous k)" "\<And>j. j < COOP_ITEMS \<Longrightarrow> coop_item_has (previous h) j \<Longrightarrow> coop_item_has (previous k) j"
    "\<And>j. j < COOP_ITEMS \<Longrightarrow> coop_item_owned u j \<Longrightarrow> coop_item_owned t j \<or> coop_item_has (previous k) j \<or> is_medal j"
    unfolding remembers_def by blast+
  show "words_ok (previous k)" by (rule k)
  show "coop_item_has (previous k) j" if "j < COOP_ITEMS" "coop_item_has (previous g) j" for j
    using that h(2) k(2) by blast
  show "coop_item_owned s j \<or> coop_item_has (previous k) j \<or> is_medal j" if "j < COOP_ITEMS" "coop_item_owned u j" for j
    using that h(3) k(2,3) by blast
next
  assume "words_ok (request (input g))"
  with assms(1) have h: "words_ok (request (input h))"
    "\<And>j. coop_item_has (request (input h)) j \<Longrightarrow> coop_item_has (request (input g)) j \<or> is_medal j"
    unfolding remembers_def by blast+
  from h(1) assms(2) have k: "words_ok (request (input k))"
    "\<And>j. coop_item_has (request (input k)) j \<Longrightarrow> coop_item_has (request (input h)) j \<or> is_medal j"
    unfolding remembers_def by blast+
  show "words_ok (request (input k))" by (rule k)
  show "coop_item_has (request (input g)) j \<or> is_medal j" if "coop_item_has (request (input k)) j" for j
    using that h(2) k(2) by blast
qed

lemma ran_refl: "consistent e s \<Longrightarrow> ran e (g, s) (g, s)"
  by (simp add: ran_def remembers_same)

lemma ran_trans: "ran e (g, s) (h, t) \<Longrightarrow> ran e (h, t) (k, u) \<Longrightarrow> ran e (g, s) (k, u)"
proof -
  assume a: "ran e (g, s) (h, t)" "ran e (h, t) (k, u)"
  then have r: "result h = result g" by (simp add: ran_def remembers_def)
  have "coop_item_owned s j \<or> sent (apply_words (result g)) j \<or> is_medal j" if "j < COOP_ITEMS" "coop_item_owned u j" for j
  proof -
    from a(2) that r have "coop_item_owned t j \<or> sent (apply_words (result g)) j \<or> is_medal j" unfolding ran_def prod.case by fastforce
    with a(1) that(1) show ?thesis unfolding ran_def prod.case by blast
  qed
  with a show ?thesis unfolding ran_def prod.case by (blast intro: game_le_trans remembers_trans)
qed

lemma item_step_ran:
  assumes "consistent e s" "i < COOP_ITEMS" "item_step e fr i (g, s, a) = (broke, g', t, a')"
  shows "ran e (g, s) (g', t)"
proof (cases "coop_item_has (apply_words (result g)) i")
  case True
  from item_step_result(1) [OF assms] have "gained e i s t" "remembers s t g g'" by (simp_all add: stepped_def)
  with True show ?thesis unfolding ran_def gained_def sent_def prod.case by blast
next
  case False
  from item_step_result(2) [OF assms False] ran_refl [OF assms(1)] show ?thesis by simp
qed

lemma apply_ids_ran:
  assumes "\<forall>i \<in> set ids. i < COOP_ITEMS" "consistent e s" "apply_ids e fr ids (g, s, a) = (g', t, a')"
  shows "ran e (g, s) (g', t)"
  using assms
proof (induction ids arbitrary: g s a)
  case Nil
  then show ?case using ran_refl by simp
next
  case (Cons i ids)
  obtain broke h u b where st: "item_step e fr i (g, s, a) = (broke, h, u, b)" by (metis prod_cases4)
  have step: "ran e (g, s) (h, u)" using item_step_ran [OF Cons.prems(2) _ st] Cons.prems(1) by simp
  show ?case
  proof (cases broke)
    case True
    with Cons.prems(3) st step show ?thesis by simp
  next
    case False
    have "consistent e u" using step by (simp add: ran_def)
    with Cons.IH [of u h b] Cons.prems False st have "ran e (h, u) (g', t)" by simp
    with step show ?thesis by (rule ran_trans)
  qed
qed

text \<open>After the loop: the training completion the peer did not send, and the writes of the save.\<close>

definition applied_result :: "coop_env \<Rightarrow> CoopItems \<times> coop_game \<Rightarrow> CoopItems \<times> coop_game \<Rightarrow> bool" where
  "applied_result e st st' \<longleftrightarrow> (case (st, st') of ((g, s), (g', t)) \<Rightarrow> consistent e t \<and> game_le s t \<and>
     (\<forall>j < COOP_ITEMS. coop_item_owned t j \<longrightarrow>
        coop_item_owned s j \<or> sent (apply_words (result g)) j \<or> is_medal j \<or> j = COOP_TRAINING_COMPLETE) \<and>
     (words_ok (previous g) \<longrightarrow> (\<forall>j < COOP_ITEMS. coop_item_owned t j \<longrightarrow>
        coop_item_owned s j \<or> coop_item_has (previous g') j \<or> is_medal j)) \<and>
     (words_ok (request (input g)) \<longrightarrow> (\<forall>j. coop_item_has (request (input g')) j \<longrightarrow>
        coop_item_has (request (input g)) j \<or> is_medal j \<or> j = COOP_TRAINING_COMPLETE)))"

lemma ran_applied: "ran e (g, s) (g', t) \<Longrightarrow> applied_result e (g, s) (g', t)"
  unfolding ran_def applied_result_def remembers_def prod.case by blast

lemma derive_training_result:
  assumes "ran e (g, s) (h, t)" "derive_training e fr h t = (g', u)"
  shows "applied_result e (g, s) (g', u)"
proof -
  let ?i = COOP_TRAINING_COMPLETE
  have i: "?i \<in> set flagged_ids" "coop_item_gb ?i = None" "?i \<noteq> COOP_FIRST_SLAM" "?i < COOP_ITEMS"
    unfolding flagged_members by (simp_all add: coop_item_gb_def)
  have ct: "consistent e t" and le: "game_le s t" using assms(1) by (simp_all add: ran_def)
  show ?thesis
  proof (cases "(g', u) = (h, t)")
    case True
    with ran_applied [OF assms(1)] show ?thesis by simp
  next
    case False
    then have u: "u = with_flag (coop_item_flag ?i) t"
      and g': "previous g' = coop_item_set ?i (previous h)" "request (input g') = request (input (coop_items_note h ?i))"
      using assms(2) set_flag_cases [of e "coop_item_flag ?i" t] note_fields(1) [of h ?i] owned_with_flag [OF i(1,4), of t]
      by (auto simp: derive_training_def Let_def note_previous_def split: if_splits)
    have own: "coop_item_owned u j \<longleftrightarrow> coop_item_owned t j \<or> j = ?i" if "j < COOP_ITEMS" for j
      unfolding u by (rule owned_with_flag [OF i(1) that])
    have c: "consistent e u" "game_le s u"
      using consistent_flag [OF ct i(1-3)] game_le_trans [OF le flag_le] by (simp_all add: u)
    have p: "coop_item_owned s j \<or> coop_item_has (previous g') j \<or> is_medal j"
      if "words_ok (previous g)" "j < COOP_ITEMS" "coop_item_owned u j" for j
    proof -
      from assms(1) that(1) have "words_ok (previous h)" by (simp add: ran_def remembers_def)
      from has_set [OF this i(4), of j] own [OF that(2)] that assms(1) show ?thesis
        unfolding ran_def remembers_def prod.case g' by blast
    qed
    have q: "coop_item_has (request (input g)) j \<or> is_medal j \<or> j = ?i"
      if "words_ok (request (input g))" "coop_item_has (request (input g')) j" for j
    proof -
      from assms(1) that(1) have h: "words_ok (request (input h))" by (simp add: ran_def remembers_def)
      have "coop_item_has (request (input h)) j \<or> j = ?i"
        using note_fields(3) [of h ?i] has_set [OF h i(4), of j] that(2) g'(2) by auto
      with assms(1) that(1) show ?thesis unfolding ran_def remembers_def prod.case by blast
    qed
    have o: "coop_item_owned s j \<or> sent (apply_words (result g)) j \<or> is_medal j \<or> j = ?i" if "j < COOP_ITEMS" "coop_item_owned u j" for j
      using own [OF that(1)] that assms(1) unfolding ran_def prod.case by blast
    show ?thesis unfolding applied_result_def prod.case using c p q o by blast
  qed
qed

section \<open>The guarantees\<close>

lemma applied_cong:
  assumes "previous h = previous g" "result h = result g" "request (input h) = request (input g)"
    and "previous h' = previous g'" "request (input h') = request (input g')"
    and "consistent e t' = consistent e t" "game_le s t' = game_le s t" "\<And>j. coop_item_owned t' j = coop_item_owned t j"
  shows "applied_result e (h, s) (h', t') = applied_result e (g, s) (g', t)"
  using assms by (simp add: applied_result_def)

lemma applied_refl:
  "consistent e s \<Longrightarrow> previous g' = previous g \<Longrightarrow> request (input g') = request (input g) \<Longrightarrow> applied_result e (g, s) (g', s)"
  by (simp add: applied_result_def)

lemma save_applied_fields:
  assumes "save_applied e now (g, s) = (g', t)"
  shows "previous g' = previous g" "request (input g') = request (input g)"
    "consistent e' t = consistent e' s" "game_le u t = game_le u s" "coop_item_owned t j = coop_item_owned s j"
  using assms by (auto simp: save_applied_def Let_def split: if_splits)

lemma apply_session_result:
  assumes "consistent e s" "apply_session e fr g s = (g', t)"
  shows "applied_result e (g, s) (g', t)"
proof (cases "receiving g")
  case False
  with assms(2) have "save_applied e (safe_save fr \<or> training_ground fr) (g, s) = (g', t)" by (simp add: apply_session_def)
  from save_applied_fields [OF this] applied_cong [of g g g' g e t s s] applied_refl [OF assms(1), of g g]
  show ?thesis by simp
next
  case True
  obtain h u a where ids: "apply_ids e fr [0..<COOP_ITEMS] (g\<lparr>applying := 1\<rparr>, s, False) = (h, u, a)" by (metis prod_cases3)
  obtain k v where tr: "derive_training e fr h u = (k, v)" by (metis surj_pair)
  have save: "save_applied e (safe_save fr \<or> training_ground fr \<or> a) (k\<lparr>applying := 0\<rparr>, v) = (g', t)"
    using assms(2) True ids tr by (simp add: apply_session_def del: upt_rec_numeral)
  have "\<forall>i \<in> set [0..<COOP_ITEMS]. i < COOP_ITEMS" by (simp del: upt_rec_numeral)
  from derive_training_result [OF apply_ids_ran [OF this assms(1) ids] tr]
  have r: "applied_result e (g\<lparr>applying := 1\<rparr>, s) (k, v)" .
  from save_applied_fields [OF save] have "applied_result e (g, s) (g', t) = applied_result e (g\<lparr>applying := 1\<rparr>, s) (k, v)"
    by (intro applied_cong) simp_all
  with r show ?thesis by simp
qed

lemma wait_fields [simp]:
  "previous (coop_items_wait g r i) = previous g" "input (coop_items_wait g r i) = input g" "result (coop_items_wait g r i) = result g"
  by (simp_all add: coop_items_wait_def)

lemma apply_result:
  assumes "consistent e s" "coop_items_apply e g s calm_now = (g', t)"
  shows "applied_result e (g, s) (g', t)"
proof -
  define h where "h = g\<lparr>troff_pending := 0, training_scene_pending := 0, wait_reason := COOP_TRACE_WAIT_NONE, wait_id := NO_ITEM\<rparr>"
  have h: "previous h = previous g" "result h = result g" "input h = input g" by (simp_all add: h_def)
  from assms(2) consider r where "g' = coop_items_wait h r NO_ITEM" "t = s" | fr where "apply_session e fr h s = (g', t)"
    unfolding coop_items_apply_def h_def [symmetric] Let_def by (auto split: if_split_asm)
  then show ?thesis
  proof cases
    case 1
    with applied_refl [OF assms(1)] h show ?thesis by simp
  next
    case 2
    from apply_session_result [OF assms(1) this] show ?thesis
      using applied_cong [OF h(1,2) arg_cong [where f = request, OF h(3)], of g' g'] by simp
  qed
qed

lemma apply_ungated:
  assumes "coop_items_apply e g s calm_now = (g', t)" "t \<noteq> s"
  shows "ready (input g) \<noteq> 0 \<and> file_changed g = 0 \<and> counter_error g = 0 \<and> \<not> reward_queued e"
proof -
  define h where "h = g\<lparr>troff_pending := 0, training_scene_pending := 0, wait_reason := COOP_TRACE_WAIT_NONE, wait_id := NO_ITEM\<rparr>"
  have h: "input h = input g" "file_changed h = file_changed g" "counter_error h = counter_error g" by (simp_all add: h_def)
  show ?thesis
    using assms unfolding coop_items_apply_def h_def [symmetric] Let_def h by (auto split: if_split_asm)
qed

end
