(* ===== verification/CoopCapture.thy ===== *)
theory CoopCapture
  imports CoopGuarantees
begin

text \<open>
  The snapshot a session publishes: \<^verbatim>\<open>coop_items_capture\<close> against the specification that the
  published words are exactly the owned items and satisfy every dependency rule; the properties of
  one application; and what follows when a peer's items arrive in an order the code does not check.
\<close>

section \<open>Captured words\<close>

lemma observed_fold:
  assumes "\<forall>i \<in> set ids. i < COOP_ITEMS" "words_ok ws"
  shows "words_ok (fold (\<lambda>i ws. if own i then coop_item_set i ws else ws) ids ws) \<and>
    (\<forall>j. coop_item_has (fold (\<lambda>i ws. if own i then coop_item_set i ws else ws) ids ws) j \<longleftrightarrow>
       coop_item_has ws j \<or> j \<in> set ids \<and> own j)"
  using assms
proof (induction ids arbitrary: ws)
  case (Cons i ids)
  show ?case
  proof (cases "own i")
    case True
    have "words_ok (coop_item_set i ws)" using Cons.prems(2) by (simp add: words_ok_def)
    with Cons.IH [OF _ this] Cons.prems True has_set [OF Cons.prems(2), of i] show ?thesis by auto
  next
    case False
    with Cons show ?thesis by auto
  qed
qed simp

lemma and_bit32_eq: "w AND bit32 k = (if bit w k then bit32 k else 0)"
  by (rule bit_word_eqI) (auto simp: bit_and_iff)

lemma capture_fold:
  assumes "\<forall>i \<in> set ids. i < COOP_ITEMS" "words_ok (owned (input g))"
  shows "let g' = fold (\<lambda>i g. if coop_item_owned s i
         then let g = update_input (\<lambda>n. n\<lparr>owned := coop_item_set i (owned n)\<rparr>) g
              in if baseline g \<noteq> 0 \<and> \<not> coop_item_has (previous g) i then coop_items_note g i else g
         else g) ids g in
    words_ok (owned (input g')) \<and> (\<forall>j. coop_item_has (owned (input g')) j \<longleftrightarrow>
       coop_item_has (owned (input g)) j \<or> j \<in> set ids \<and> coop_item_owned s j) \<and>
    ready (input g') = ready (input g) \<and> counter_error g' = counter_error g \<and> previous g' = previous g \<and>
    (\<forall>k \<ge> COOP_ITEMS. owned (input g') ! (k div 32) AND bit32 (k mod 32) = owned (input g) ! (k div 32) AND bit32 (k mod 32))"
  using assms
proof (induction ids arbitrary: g)
  case Nil
  then show ?case by (simp add: Let_def)
next
  case (Cons i ids)
  show ?case
  proof (cases "coop_item_owned s i")
    case False
    with Cons show ?thesis by (auto simp: Let_def)
  next
    case True
    define h where "h = update_input (\<lambda>n. n\<lparr>owned := coop_item_set i (owned n)\<rparr>) g"
    define k where "k = (if baseline h \<noteq> 0 \<and> \<not> coop_item_has (previous h) i then coop_items_note h i else h)"
    have i: "i < COOP_ITEMS" using Cons.prems(1) by simp
    have k: "owned (input k) = coop_item_set i (owned (input g))" "ready (input k) = ready (input g)"
      "counter_error k = counter_error g" "previous k = previous g"
      by (simp_all add: k_def h_def coop_items_note_def request_item_def)
    have ok: "words_ok (owned (input k))" using Cons.prems(2) by (simp add: k words_ok_def)
    have high: "coop_item_set i (owned (input g)) ! (n div 32) AND bit32 (n mod 32) =
        owned (input g) ! (n div 32) AND bit32 (n mod 32)" if "COOP_ITEMS \<le> n" for n
    proof -
      have "i \<noteq> n" using i that by simp
      then have "i div 32 \<noteq> n div 32 \<or> i mod 32 \<noteq> n mod 32" by (metis div_mult_mod_eq)
      moreover have "i div 32 < length (owned (input g))" using i Cons.prems(2) by (simp add: words_ok_def)
      ultimately have "bit (coop_item_set i (owned (input g)) ! (n div 32)) (n mod 32) = bit (owned (input g) ! (n div 32)) (n mod 32)"
        by (cases "i div 32 = n div 32") (auto simp: coop_item_set_def bit_or_iff)
      then show ?thesis unfolding and_bit32_eq by simp
    qed
    have IH: "let g' = fold (\<lambda>i g. if coop_item_owned s i
         then let g = update_input (\<lambda>n. n\<lparr>owned := coop_item_set i (owned n)\<rparr>) g
              in if baseline g \<noteq> 0 \<and> \<not> coop_item_has (previous g) i then coop_items_note g i else g
         else g) ids k in
      words_ok (owned (input g')) \<and> (\<forall>j. coop_item_has (owned (input g')) j \<longleftrightarrow>
         coop_item_has (owned (input k)) j \<or> j \<in> set ids \<and> coop_item_owned s j) \<and>
      ready (input g') = ready (input k) \<and> counter_error g' = counter_error k \<and> previous g' = previous k \<and>
      (\<forall>n \<ge> COOP_ITEMS. owned (input g') ! (n div 32) AND bit32 (n mod 32) = owned (input k) ! (n div 32) AND bit32 (n mod 32))"
      by (rule Cons.IH) (use Cons.prems ok in simp_all)
    have "(if coop_item_owned s i
         then let g = update_input (\<lambda>n. n\<lparr>owned := coop_item_set i (owned n)\<rparr>) g
              in if baseline g \<noteq> 0 \<and> \<not> coop_item_has (previous g) i then coop_items_note g i else g
         else g) = k" using True by (simp add: k_def h_def Let_def)
    with IH True high show ?thesis
      unfolding fold_simps Let_def by (auto simp: k has_set [OF Cons.prems(2) i])
  qed
qed

section \<open>The published snapshot\<close>

definition item_rules :: "(nat \<Rightarrow> bool) \<Rightarrow> bool" where
  "item_rules has \<longleftrightarrow> page_rules has \<and>
     (\<forall>bucket \<in> set [0..<COOP_TROFF_BUCKETS]. no_gap False (bucket_bits has bucket)) \<and> complete_rules has"

definition owned_now :: "coop_game \<Rightarrow> nat \<Rightarrow> bool" where
  "owned_now s = (\<lambda>i. i < COOP_ITEMS \<and> coop_item_owned s i)"

lemma full_dependencies_iff:
  "coop_items_full_dependencies ws \<longleftrightarrow>
     (\<forall>i \<in> set [COOP_ITEMS..<COOP_ITEM_WORDS * 32]. ws ! (i div 32) AND bit32 (i mod 32) = 0) \<and> item_rules (coop_item_has ws)"
  unfolding coop_items_full_dependencies_def coop_items_dependencies_def item_rules_def by blast

lemma capture_owned_result:
  "words_ok (owned (input (capture_owned s g)))" "coop_item_has (owned (input (capture_owned s g))) = owned_now s"
  "ready (input (capture_owned s g)) = ready (input g)" "counter_error (capture_owned s g) = counter_error g"
  "coop_items_full_dependencies (owned (input (capture_owned s g))) = item_rules (owned_now s)"
proof -
  let ?h = "update_input (\<lambda>n. n\<lparr>owned := no_words\<rparr>) g"
  have bound: "\<forall>i \<in> set [0..<COOP_ITEMS]. i < COOP_ITEMS" by (simp only: set_upt atLeastLessThan_iff ball_simps) auto
  have ok: "words_ok (owned (input ?h))" by simp
  have mem: "j \<in> set [0..<COOP_ITEMS] \<longleftrightarrow> j < COOP_ITEMS" for j by (simp only: set_upt atLeastLessThan_iff) simp
  have none: "\<not> coop_item_has no_words j" for j using nothing_owned by (simp add: no_words_def)
  note c = capture_fold [OF bound ok, of s, folded capture_owned_def, unfolded Let_def mem]
  from c show w: "words_ok (owned (input (capture_owned s g)))" "ready (input (capture_owned s g)) = ready (input g)"
    "counter_error (capture_owned s g) = counter_error g"
    unfolding capture_owned_def Let_def by simp_all
  from c none show has: "coop_item_has (owned (input (capture_owned s g))) = owned_now s"
    unfolding capture_owned_def Let_def owned_now_def by (auto simp: fun_eq_iff)
  have "owned (input (capture_owned s g)) ! (i div 32) AND bit32 (i mod 32) = 0" if "i \<in> set [COOP_ITEMS..<COOP_ITEM_WORDS * 32]" for i
  proof -
    have i: "COOP_ITEMS \<le> i" "i < COOP_ITEM_WORDS * 32" using that by (simp_all only: set_upt atLeastLessThan_iff)
    then have "i div 32 < 192" by simp
    with c i(1) show ?thesis unfolding capture_owned_def Let_def by (simp add: no_words_def)
  qed
  with has show "coop_items_full_dependencies (owned (input (capture_owned s g))) = item_rules (owned_now s)"
    unfolding full_dependencies_iff by simp
qed

lemma prepare_ready:
  "ready (input (coop_items_prepare g enable adventure f0)) \<noteq> 0 \<Longrightarrow>
     counter_error g = 0 \<and> counter_error (coop_items_prepare g enable adventure f0) = 0"
  unfolding coop_items_prepare_def lock_file_def Let_def by (auto split: if_splits)

lemma capture_snapshot:
  assumes "ready (input (coop_items_prepare g enable adventure f0)) \<noteq> 0"
    and "coop_items_snapshot_map (env_map e)" "\<not> reward_queued e"
  shows "let g' = coop_items_capture e s g enable adventure f0 in
    if coop_items_counters_valid e s \<and> item_rules (owned_now s)
    then ready (input g') \<noteq> 0 \<and> counter_error g' = 0 \<and> coop_item_has (owned (input g')) = owned_now s \<and>
      previous g' = owned (input g') \<and> baseline g' = 1 \<and> (deferred g' = 0 \<longleftrightarrow> coop_items_apply_map (env_map e))
    else ready (input g') = 0 \<and> counter_error g' = 1"
proof -
  define h where "h = (coop_items_prepare g enable adventure f0)\<lparr>deferred := 0, live_snapshot := 0\<rparr>"
  have h: "ready (input h) \<noteq> 0" "counter_error h = 0" "deferred h = 0" using assms(1) prepare_ready [OF assms(1)] by (simp_all add: h_def)
  define k where "k = capture_owned s h"
  note k = capture_owned_result [of s h, folded k_def]
  have def: "coop_items_capture e s g enable adventure f0 =
    (if \<not> coop_items_counters_valid e s then (update_input (\<lambda>n. n\<lparr>ready := 0\<rparr>) h)\<lparr>counter_error := 1\<rparr>
     else if \<not> coop_items_full_dependencies (owned (input k)) then (update_input (\<lambda>n. n\<lparr>ready := 0\<rparr>) k)\<lparr>counter_error := 1\<rparr>
     else if \<not> coop_items_apply_map (env_map e) then k\<lparr>previous := owned (input k), baseline := 1, live_snapshot := 1, deferred := 1\<rparr>
       else k\<lparr>previous := owned (input k), baseline := 1, live_snapshot := 1\<rparr>)"
    using h(1) assms(2,3) unfolding coop_items_capture_def Let_def h_def [symmetric] k_def by simp
  have "deferred k = 0"
  proof -
    have "deferred (fold (\<lambda>i g. if coop_item_owned s i
         then let g = update_input (\<lambda>n. n\<lparr>owned := coop_item_set i (owned n)\<rparr>) g
              in if baseline g \<noteq> 0 \<and> \<not> coop_item_has (previous g) i then coop_items_note g i else g
         else g) ids g) = deferred g" for ids g
      by (induction ids arbitrary: g) (simp_all add: Let_def coop_items_note_def request_item_def)
    then show ?thesis unfolding k_def capture_owned_def by (simp add: h)
  qed
  then show ?thesis unfolding def Let_def using h k by auto
qed

lemma capture_keeps_dependencies:
  assumes "words_ok (owned (input g))" "baseline g \<noteq> 0 \<Longrightarrow> counter_error g = 0 \<Longrightarrow> coop_items_full_dependencies (owned (input g))"
    and "ready (input (coop_items_capture e s g enable adventure f0)) \<noteq> 0"
  shows "coop_items_full_dependencies (owned (input (coop_items_capture e s g enable adventure f0)))"
proof -
  define h where "h = (coop_items_prepare g enable adventure f0)\<lparr>deferred := 0, live_snapshot := 0\<rparr>"
  have fields: "owned (input h) = owned (input g)" "baseline h = baseline g"
    by (auto simp: h_def coop_items_prepare_def lock_file_def Let_def)
  have ready: "ready (input h) \<noteq> 0"
  proof
    assume "ready (input h) = 0"
    with assms(3) show False unfolding coop_items_capture_def Let_def h_def [symmetric] by simp
  qed
  then have err: "counter_error g = 0" using prepare_ready [of g enable adventure f0] by (simp add: h_def)
  show ?thesis
  proof (cases "\<not> coop_items_snapshot_map (env_map e) \<or> reward_queued e")
    case True
    with assms(3) ready have b: "baseline g \<noteq> 0"
      unfolding coop_items_capture_def Let_def h_def [symmetric] fields by (auto split: if_splits)
    define ws where "ws = observed_words s (owned (input g))"
    have "owned (input (coop_items_capture e s g enable adventure f0)) =
        (if \<not> reward_queued e \<and> coop_items_full_dependencies ws then ws else owned (input g))"
      using ready True b unfolding coop_items_capture_def Let_def h_def [symmetric] ws_def
      by (simp add: fields)
    with assms(2) [OF b err] show ?thesis by simp
  next
    case False
    define k where "k = capture_owned s h"
    from assms(3) False ready have dep: "coop_items_full_dependencies (owned (input k))"
      unfolding coop_items_capture_def Let_def h_def [symmetric] k_def by (auto split: if_splits)
    have "owned (input (coop_items_capture e s g enable adventure f0)) = owned (input k)"
      using assms(3) False ready dep unfolding coop_items_capture_def Let_def h_def [symmetric] k_def
      by (auto split: if_splits)
    with dep show ?thesis by simp
  qed
qed

section \<open>A final boss a peer sends too early\<close>

lemma apply_ids_skip:
  "\<forall>i \<in> set ids. \<not> coop_item_has (apply_words (result g)) i \<Longrightarrow>
     apply_ids e fr (ids @ rest) (g, s, a) = apply_ids e fr rest (g, s, a)"
  by (induction ids) (simp_all add: item_step_def)

lemma klumsy_simps:
  "coop_item_flag COOP_KLUMSY_FREE = 0x315" "coop_item_flag COOP_KROOL_DEFEATED = 0x1B0"
  "coop_item_owned s COOP_KLUMSY_FREE = flags s 0x315" "coop_item_owned s COOP_KROOL_DEFEATED = flags s 0x1B0"
  by (simp_all add: coop_item_flag_def coop_progression_flag_def progression_flags_def coop_item_owned_def
      coop_progression_owned_def)

lemma klumsy_refused: "coop_progression_apply e s COOP_KLUMSY_FREE safe 7 refresh = (False, s)"
  by (simp add: coop_progression_apply_def event_refused_def)

lemma krool_unchecked: "prepare_credit e fr COOP_KROOL_DEFEATED s = Credit NoCredit"
  by (simp add: prepare_credit_def coop_item_gb_def is_pickup_def is_actor_def Let_def)

lemma krool_source: "source_map (collectible_of COOP_KROOL_DEFEATED) = NO_ITEM"
  by (simp add: collectible_of_def coop_item_gb_def)

lemma krool_permanent:
  "flag_accepted e s 0x1B0 \<Longrightarrow> permanent_write e COOP_KROOL_DEFEATED s = with_flag 0x1B0 s"
  by (simp add: permanent_write_def is_pickup_def set_flag_def klumsy_simps)

lemma krool_step:
  assumes "coop_item_has (apply_words (result g)) COOP_KROOL_DEFEATED" "\<not> flags s 0x1B0" "flag_accepted e s 0x1B0"
    and "\<not> live_only fr" "env_map e = 34"
  shows "item_step e fr COOP_KROOL_DEFEATED (g, s, a) =
    (False, (note_previous COOP_KROOL_DEFEATED g)\<lparr>save_pending := 1\<rparr>, with_flag 0x1B0 s, a)"
  using assms
  by (simp add: item_step_def klumsy_simps collectible_step_def krool_unchecked krool_permanent krool_source commit_credit_def)

lemma klumsy_step:
  assumes "consistent e s" "\<not> flags s 0x315" "\<not> live_only fr" "env_level e = 7"
    and "coop_item_has (apply_words (result g)) COOP_KLUMSY_FREE"
  shows "\<exists>r. item_step e fr COOP_KLUMSY_FREE (g, s, a) = (False, wait_item r COOP_KLUMSY_FREE g, s, a)"
proof -
  have valid: "coop_progression_valid s" using assms(1) by (simp add: consistent_def counters_valid_iff)
  show ?thesis
    using assms(2-5) valid
    by (auto simp: item_step_def klumsy_simps progression_step_def klumsy_refused Let_def exact_live_world_def)
qed


lemma two_item_run:
  assumes "consistent e s" "env_map e = 34" "env_level e = 7" "\<not> flags s 0x315" "\<not> flags s 0x1B0" "flag_accepted e s 0x1B0"
    and "\<not> live_only fr" "\<forall>i. coop_item_has (apply_words (result g)) i \<longleftrightarrow> i = COOP_KLUMSY_FREE \<or> i = COOP_KROOL_DEFEATED"
  shows "\<exists>r. apply_ids e fr [0..<COOP_ITEMS] (g, s, a) =
    ((note_previous COOP_KROOL_DEFEATED (wait_item r COOP_KLUMSY_FREE g))\<lparr>save_pending := 1\<rparr>, with_flag 0x1B0 s, a)"
proof -
  have split: "[0..<COOP_ITEMS] = [0..<2154] @ 2154 # [2155..<5895] @ 5895 # [5896..<5897]"
  proof -
    have "[0..<COOP_ITEMS] = [0..<2154] @ [2154..<COOP_ITEMS]" by (rule upt_split) simp_all
    also have "[2154..<COOP_ITEMS] = 2154 # [2155..<COOP_ITEMS]" by (subst upt_rec) simp
    also have "[2155..<COOP_ITEMS] = [2155..<5895] @ [5895..<COOP_ITEMS]" by (rule upt_split) simp_all
    also have "[5895..<COOP_ITEMS] = 5895 # [5896..<COOP_ITEMS]" by (subst upt_rec) simp
    finally show ?thesis .
  qed
  have none: "\<forall>i \<in> set ids. \<not> coop_item_has (apply_words (result h)) i"
    if "result h = result g" "COOP_KLUMSY_FREE \<notin> set ids" "COOP_KROOL_DEFEATED \<notin> set ids" for h :: CoopItems and ids
    using that assms(8) by auto
  have ends: "apply_ids e fr [5896..<5897] (h, t, a) = (h, t, a)" if "result h = result g" for h t a
    using apply_ids_skip [of "[5896..<5897]" h e fr "[]" t a] none [OF that, of "[5896..<5897]"] by simp
  obtain r where r: "item_step e fr COOP_KLUMSY_FREE (g, s, a) = (False, wait_item r COOP_KLUMSY_FREE g, s, a)"
    using klumsy_step [OF assms(1,4,7,3), of g a] assms(8) by blast
  define h where "h = wait_item r COOP_KLUMSY_FREE g"
  have h: "item_step e fr COOP_KLUMSY_FREE (g, s, a) = (False, h, s, a)" "result h = result g"
    using r by (simp_all add: h_def)
  have "apply_ids e fr [0..<COOP_ITEMS] (g, s, a) = apply_ids e fr (2154 # [2155..<5895] @ 5895 # [5896..<5897]) (g, s, a)"
    unfolding split by (rule apply_ids_skip, rule none) (simp_all del: upt_rec_numeral)
  also have "\<dots> = apply_ids e fr ([2155..<5895] @ 5895 # [5896..<5897]) (h, s, a)" by (simp add: h del: upt_rec_numeral)
  also have "\<dots> = apply_ids e fr (5895 # [5896..<5897]) (h, s, a)"
    by (rule apply_ids_skip, rule none) (simp_all add: h del: upt_rec_numeral)
  also have "\<dots> = ((note_previous COOP_KROOL_DEFEATED h)\<lparr>save_pending := 1\<rparr>, with_flag 0x1B0 s, a)"
    using krool_step [of h s e fr a] assms(2,5-8) h(2) ends [of "(note_previous COOP_KROOL_DEFEATED h)\<lparr>save_pending := 1\<rparr>"]
    by (simp add: note_previous_def del: upt_rec_numeral)
  finally show ?thesis unfolding h_def by blast
qed

lemma krool_rules_fail: "flags t 0x1B0 \<Longrightarrow> \<not> flags t 0x315 \<Longrightarrow> \<not> item_rules (owned_now t)"
  by (simp add: item_rules_def complete_rules_def owned_now_def klumsy_simps)

lemma krool_apply:
  assumes "consistent e s" "env_map e = 34" "env_level e = 7" "\<not> reward_queued e" "\<not> flags s 0x315" "\<not> flags s 0x1B0"
    and "flag_accepted e s 0x1B0" "ready (input g) \<noteq> 0" "deferred g = 0" "file_changed g = 0" "counter_error g = 0" "receiving g"
    and "\<forall>i. coop_item_has (apply_words (result g)) i \<longleftrightarrow> i = COOP_KLUMSY_FREE \<or> i = COOP_KROOL_DEFEATED"
    and "coop_items_apply e g s True = (g', t)"
  shows "flags t 0x1B0 \<and> \<not> flags t 0x315 \<and> SaveGame \<in> set (coop_calls t) \<and>
    counter_error g' = 0 \<and> file_changed g' = 0 \<and> locked_file g' = locked_file g"
proof -
  define h where "h = g\<lparr>troff_pending := 0, training_scene_pending := 0, wait_reason := COOP_TRACE_WAIT_NONE, wait_id := NO_ITEM\<rparr>"
  define fr where "fr = \<lparr>calm = True, training_ground = False, live_only = False, safe_save = True\<rparr>"
  have h: "input h = input g" "deferred h = deferred g" "file_changed h = file_changed g" "counter_error h = counter_error g"
    "result h = result g" "locked_file h = locked_file g" by (simp_all add: h_def)
  have map: "coop_items_apply_map (env_map e)"
    using assms(2) by (simp add: coop_items_apply_map_def coop_items_snapshot_map_def coop_items_safe_map_def coop_items_main_world_def)
  have run: "apply_session e fr h s = (g', t)"
    using assms(2,4,8-11,14) map unfolding coop_items_apply_def h_def [symmetric] Let_def by (simp add: fr_def h)
  obtain r where r: "apply_ids e fr [0..<COOP_ITEMS] (h\<lparr>applying := 1\<rparr>, s, False) =
      ((note_previous COOP_KROOL_DEFEATED (wait_item r COOP_KLUMSY_FREE (h\<lparr>applying := 1\<rparr>)))\<lparr>save_pending := 1\<rparr>, with_flag 0x1B0 s, False)"
    using two_item_run [OF assms(1-3,5-7), of fr "h\<lparr>applying := 1\<rparr>" False] assms(13) h by (auto simp: fr_def)
  define k where "k = wait_item r COOP_KLUMSY_FREE (h\<lparr>applying := 1\<rparr>)"
  note k = r [folded k_def]
  have fields: "counter_error k = 0" "file_changed k = 0" "locked_file k = locked_file g"
    using h assms(10,11) by (simp_all add: k_def wait_item_def coop_items_wait_def)
  obtain p u where tr: "derive_training e fr ((note_previous COOP_KROOL_DEFEATED k)\<lparr>save_pending := 1\<rparr>) (with_flag 0x1B0 s) = (p, u)"
    by (metis surj_pair)
  have u: "flags u 0x1B0" "\<not> flags u 0x315" "save_pending p = 1" "counter_error p = 0" "file_changed p = 0" "locked_file p = locked_file g"
    using tr assms(5) fields by (auto simp: derive_training_def Let_def note_previous_def set_flag_def coop_item_flag_def
        coop_progression_flag_def training_flags_def coop_items_note_def request_item_def split: if_splits)
  have "save_applied e True (p\<lparr>applying := 0\<rparr>, u) = (g', t)"
    using run k tr assms(12) h by (simp add: apply_session_def receiving_def fr_def del: upt_rec_numeral)
  with u show ?thesis by (auto simp: save_applied_def call_game_def Let_def split: if_splits)
qed

section \<open>A concrete save\<close>

definition fresh_progress :: CoopCharacterProgress where
  "fresh_progress = \<lparr>progression = replicate 6 0, coins = 0, coloured = replicate 14 0, fed = replicate 14 0, golden = replicate 14 0\<rparr>"

definition fresh_game :: coop_game where
  "fresh_game = \<lparr>flags = (\<lambda>f. False), coop_calls = [], script_slots = replicate 600 0, scene_props = None, actors = [],
     spawners = [], pickup_bits = (\<lambda>l b. False), kongs = replicate 6 fresh_progress, melons = 1,
     fed_cache = replicate 8 0\<rparr>"

text \<open>DK Isles, with every write accepted and no collectible source loaded.\<close>

definition isles_env :: coop_env where
  "isles_env = \<lparr>env_map = 34, prop_index = (\<lambda>h. - 1), golden_banana_type = 45, seal_at_cage = (\<lambda>i. False),
     flag_accepted = (\<lambda>s f. True), pickup_accepted = (\<lambda>s b l. True),
     pickup_total = (\<lambda>l. uint (coop_pickup_start ! (l + 1)) - uint (coop_pickup_start ! l)),
     env_level = 7, hud_loaded = True, reward_queued = False\<rparr>"

definition sent_words :: "u32 list" where
  "sent_words = coop_item_set COOP_KROOL_DEFEATED (coop_item_set COOP_KLUMSY_FREE no_words)"

definition receiving_session :: CoopItems where
  "receiving_session = example_items_session\<lparr>result := (result example_items_session)\<lparr>apply_words := sent_words\<rparr>\<rparr>"

lemma fresh_consistent: "consistent isles_env fresh_game"
proof -
  have at: "kongs fresh_game ! k = fresh_progress" if "k < 5" for k using that by (simp add: fresh_game_def)
  have "coop_progression_valid fresh_game"
    unfolding progression_valid_iff using at at [of 0]
    by (simp add: fresh_progress_def tiers_ok_def) (simp add: fresh_game_def)
  moreover have "\<not> blueprint_missing fresh_game" unfolding blueprint_missing_iff by (simp add: fresh_game_def)
  moreover have "kong_counters_valid fresh_game l k" if "l < 8" "k < 5" for l k
  proof -
    have "owned_bananas fresh_game l k = 0" unfolding owned_bananas_card banana_ids_def by (simp add: fresh_game_def)
    with that show ?thesis unfolding kong_counters_valid_def at [OF that(2)] by (simp add: fresh_progress_def)
  qed
  moreover have "game_shape fresh_game" by (simp add: game_shape_def fresh_game_def fresh_progress_def)
  ultimately show ?thesis by (simp add: consistent_def counters_valid_iff isles_env_def)
qed

lemma receiving_session_simps [simp]:
  "ready (input receiving_session) = 1" "deferred receiving_session = 0" "file_changed receiving_session = 0"
  "counter_error receiving_session = 0" "receiving receiving_session" "baseline receiving_session = 1"
  "words_ok (previous receiving_session)" "words_ok (request (input receiving_session))" "words_ok (owned (input receiving_session))"
  by (simp_all add: receiving_session_def example_items_session_def receiving_def)

lemma sent_words_has: "coop_item_has (apply_words (result receiving_session)) i \<longleftrightarrow> i = COOP_KLUMSY_FREE \<or> i = COOP_KROOL_DEFEATED"
proof -
  have ok: "words_ok (coop_item_set COOP_KLUMSY_FREE no_words)" using no_words_ok(1) by (simp add: words_ok_def)
  have "\<not> coop_item_has no_words i" using nothing_owned by (simp add: no_words_def)
  then show ?thesis
    by (auto simp: receiving_session_def sent_words_def has_set [OF ok] has_set [OF no_words_ok(1)])
qed

section \<open>Properties\<close>

text \<open>
  C20: applying a peer's items keeps the save in order: with banana counters equal to the owned bananas,
  capacities respected and inventory bytes in range before, they are so after every application, whatever
  was sent, whichever flag writes another mod cancels, and also when the loop stops early.
\<close>

theorem apply_keeps_save_consistent:
  assumes "consistent e s"
  shows "consistent e (snd (coop_items_apply e g s calm_now))"
proof -
  obtain g' t where r: "coop_items_apply e g s calm_now = (g', t)" by (metis surj_pair)
  from apply_result [OF assms r] show ?thesis by (simp add: applied_result_def r)
qed

theorem apply_keeps_save_consistent_witness:
  "consistent isles_env (snd (coop_items_apply isles_env receiving_session fresh_game True))"
  by (rule apply_keeps_save_consistent [OF fresh_consistent])

text \<open>
  C21: an application loses nothing and invents nothing.  Every owned item stays owned; every new one was
  sent, is a lower tier or smaller melon count of one that was sent, is a banana medal, or is the
  training completion; and the save changes at all only in a ready session on its own file, with no
  counter error and no reward waiting to be credited.
\<close>

theorem apply_exact:
  assumes "consistent e s" and "coop_items_apply e g s calm_now = (g', t)"
  shows "(\<forall>j < COOP_ITEMS. coop_item_owned s j \<longrightarrow> coop_item_owned t j) \<and>
    (\<forall>j < COOP_ITEMS. coop_item_owned t j \<longrightarrow> coop_item_owned s j \<or>
       (\<exists>i. coop_item_has (apply_words (result g)) i \<and> implied i j) \<or>
       COOP_MEDAL_FIRST \<le> j \<and> j < COOP_GB_FIRST \<or> j = COOP_TRAINING_COMPLETE) \<and>
    (t \<noteq> s \<longrightarrow> ready (input g) \<noteq> 0 \<and> file_changed g = 0 \<and> counter_error g = 0 \<and> \<not> reward_queued e)"
proof -
  have r: "game_le s t" "\<forall>j < COOP_ITEMS. coop_item_owned t j \<longrightarrow>
        coop_item_owned s j \<or> sent (apply_words (result g)) j \<or> is_medal j \<or> j = COOP_TRAINING_COMPLETE"
    using apply_result [OF assms] unfolding applied_result_def prod.case by blast+
  from owned_mono [OF r(1)] r(2) apply_ungated [OF assms(2)] show ?thesis unfolding sent_def by blast
qed

theorem apply_exact_witness:
  "\<not> coop_item_owned (snd (coop_items_apply isles_env receiving_session fresh_game True)) 78"
proof -
  obtain g' t where r: "coop_items_apply isles_env receiving_session fresh_game True = (g', t)" by (metis surj_pair)
  have "\<not> coop_item_owned fresh_game 78" by (simp add: coop_item_owned_def fresh_game_def)
  moreover have "\<not> (COOP_MEDAL_FIRST \<le> 78 \<and> 78 < COOP_GB_FIRST) \<and> 78 \<noteq> COOP_TRAINING_COMPLETE \<and> 78 < (5897 :: nat)" by simp
  moreover have "\<not> (\<exists>i. coop_item_has (apply_words (result receiving_session)) i \<and> implied i 78)"
    by (auto simp: sent_words_has implied_def coop_progression_move_def)
  ultimately show ?thesis using apply_exact [OF fresh_consistent r] unfolding r snd_conv by blast
qed

text \<open>
  C22: no echo.  After an application every new item but a medal is marked as known to the peers, so the
  next snapshot does not offer it back, and the only requests an application adds are for rewards derived
  locally: medals and the training completion.
\<close>

theorem apply_no_echo:
  assumes "consistent e s" and "coop_items_apply e g s calm_now = (g', t)"
    and "words_ok (previous g)" and "words_ok (request (input g))"
  shows "(\<forall>j < COOP_ITEMS. coop_item_owned t j \<longrightarrow> coop_item_owned s j \<or> coop_item_has (previous g') j \<or>
       COOP_MEDAL_FIRST \<le> j \<and> j < COOP_GB_FIRST) \<and>
    (\<forall>j. coop_item_has (request (input g')) j \<longrightarrow> coop_item_has (request (input g)) j \<or>
       COOP_MEDAL_FIRST \<le> j \<and> j < COOP_GB_FIRST \<or> j = COOP_TRAINING_COMPLETE)"
  using apply_result [OF assms(1,2)] assms(3,4) unfolding applied_result_def prod.case by blast

theorem apply_no_echo_witness:
  "\<not> coop_item_has (request (input (fst (coop_items_apply isles_env receiving_session fresh_game True)))) COOP_KROOL_DEFEATED"
proof -
  obtain g' t where r: "coop_items_apply isles_env receiving_session fresh_game True = (g', t)" by (metis surj_pair)
  have "\<not> coop_item_has (request (input receiving_session)) COOP_KROOL_DEFEATED"
    using nothing_owned by (simp add: receiving_session_def example_items_session_def no_words_def)
  with apply_no_echo [OF fresh_consistent r] show ?thesis by (auto simp: r)
qed

text \<open>
  C23: a snapshot taken on a reviewed map is exactly the truth or nothing.  If the save's counters check and
  its items satisfy the dependency rules, the published words are the owned items, they become the
  baseline, and the session defers writing just when the map does not allow it; otherwise the session
  stops with a counter error and publishes nothing.
\<close>

theorem capture_truth_or_nothing:
  assumes "ready (input (coop_items_prepare g enable adventure f0)) \<noteq> 0"
    and "coop_items_snapshot_map (env_map e)" and "\<not> reward_queued e"
  shows "let g' = coop_items_capture e s g enable adventure f0 in
    if coop_items_counters_valid e s \<and> item_rules (owned_now s)
    then ready (input g') \<noteq> 0 \<and> counter_error g' = 0 \<and> coop_item_has (owned (input g')) = owned_now s \<and>
      previous g' = owned (input g') \<and> baseline g' = 1 \<and> (deferred g' = 0 \<longleftrightarrow> coop_items_apply_map (env_map e))
    else ready (input g') = 0 \<and> counter_error g' = 1"
  by (rule capture_snapshot [OF assms])

lemma isles_facts: "coop_items_snapshot_map (env_map isles_env)" "coop_items_apply_map (env_map isles_env)" "\<not> reward_queued isles_env"
  by (simp_all add: isles_env_def coop_items_apply_map_def coop_items_snapshot_map_def coop_items_safe_map_def coop_items_main_world_def)

lemma fresh_rules: "item_rules (owned_now fresh_game)"
proof -
  have "owned_now fresh_game i = False" for i
  proof (cases "i < COOP_ITEMS")
    case True
    then show ?thesis
    proof (cases i rule: item_kinds)
      case (move kong field v bits)
      define k where "k = (if kong = 5 then 0 else kong)"
      have f: "field < 6" "0 < v" "kong \<le> 5" using move_fields [OF move] by (auto split: if_splits)
      then have k: "k < 5" "kong = 5 \<or> k = kong" by (auto simp: k_def)
      have "\<not> move_have field v bits (kongs fresh_game ! k)"
        using f k(1) by (simp add: move_have_def fresh_game_def fresh_progress_def)
      with k have "\<not> coop_item_owned fresh_game i" unfolding move_owned [OF move] by blast
      then show ?thesis by (simp add: owned_now_def)
    qed (auto simp: owned_now_def owned_flag pickup_owned melon_owned troff_owned coop_troff_owned_def fresh_game_def
        fresh_progress_def coop_troff_bucket_def Let_def split: option.splits)
  qed (simp add: owned_now_def)
  then have "owned_now fresh_game = (\<lambda>i. False)" by auto
  then show ?thesis
    by (simp add: item_rules_def page_rules_def complete_rules_def warp_rule_def world_rules_def no_gap_iff del: upt_rec_numeral)
qed

theorem capture_truth_or_nothing_witness:
  "coop_item_has (owned (input (coop_items_capture isles_env fresh_game receiving_session 1 1 0))) = owned_now fresh_game"
proof -
  have "ready (input (coop_items_prepare receiving_session 1 1 0)) \<noteq> 0"
    by (simp add: coop_items_prepare_def lock_file_def receiving_session_def example_items_session_def)
  from capture_truth_or_nothing [OF this isles_facts(1,3), of fresh_game] fresh_rules fresh_consistent
  show ?thesis by (simp add: Let_def consistent_def)
qed

text \<open>
  C24: a session never publishes a snapshot that breaks a dependency rule: also in overlay maps, where
  the last snapshot is extended by the flags visible there, a ready session's words satisfy all of them.
\<close>

theorem published_dependencies:
  assumes "words_ok (owned (input g))"
    and "baseline g \<noteq> 0 \<Longrightarrow> counter_error g = 0 \<Longrightarrow> coop_items_full_dependencies (owned (input g))"
    and "ready (input (coop_items_capture e s g enable adventure f0)) \<noteq> 0"
  shows "coop_items_full_dependencies (owned (input (coop_items_capture e s g enable adventure f0)))"
  by (rule capture_keeps_dependencies [OF assms])

lemma nothing_complete: "coop_items_full_dependencies no_words"
proof -
  have none: "coop_item_has no_words = (\<lambda>i. False)" using nothing_owned by (simp add: no_words_def fun_eq_iff)
  have "no_words ! (i div 32) AND bit32 (i mod 32) = 0" if "i \<in> set [COOP_ITEMS..<COOP_ITEM_WORDS * 32]" for i
  proof -
    have "i < COOP_ITEM_WORDS * 32" using that by (simp_all only: set_upt atLeastLessThan_iff)
    then have "i div 32 < 192" by simp
    then show ?thesis by (simp add: no_words_def)
  qed
  then show ?thesis
    unfolding full_dependencies_iff none
    by (simp add: item_rules_def page_rules_def complete_rules_def warp_rule_def world_rules_def no_gap_iff del: upt_rec_numeral)
qed

theorem published_dependencies_witness:
  "coop_items_full_dependencies (owned (input (coop_items_capture (isles_env\<lparr>env_map := 42\<rparr>) fresh_game receiving_session 1 1 0)))"
proof (rule published_dependencies)
  have g: "owned (input receiving_session) = no_words" by (simp add: receiving_session_def example_items_session_def)
  show "words_ok (owned (input receiving_session))" by simp
  show "coop_items_full_dependencies (owned (input receiving_session))" unfolding g by (rule nothing_complete)
  have shop: "\<not> coop_items_snapshot_map 42"
    by (simp add: coop_items_snapshot_map_def coop_items_safe_map_def coop_items_main_world_def coop_combat_map_def)
  have kept: "ready (input (note_new os k)) = ready (input k)" for os k
  proof -
    have "ready (input (fold (\<lambda>i g. if coop_item_has os i \<and> \<not> coop_item_has (previous g) i then coop_items_note g i else g) ids k)) =
        ready (input k)" for ids
      by (induction ids arbitrary: k) (simp_all add: coop_items_note_def request_item_def)
    then show ?thesis by (simp only: note_new_def)
  qed
  show "ready (input (coop_items_capture (isles_env\<lparr>env_map := 42\<rparr>) fresh_game receiving_session 1 1 0)) \<noteq> 0"
    using shop by (simp add: coop_items_capture_def coop_items_prepare_def lock_file_def receiving_session_def
        example_items_session_def isles_env_def Let_def kept)
qed



end
