(* ===== verification/CoopPolicies.thy ===== *)
theory CoopPolicies
  imports Complex_Main FileLock
begin

text \<open>
  The portable co-op policies: the first gate of Japes (\<^verbatim>\<open>gate_policy.h\<close>), map lifecycle
  (\<^verbatim>\<open>lifecycle_policy.h\<close>), the single-slot menu (\<^verbatim>\<open>menu_slot_policy.h\<close>), pose numbers
  (\<^verbatim>\<open>animation_policy.h\<close>) and host recovery (\<^verbatim>\<open>recovery_policy.h\<close>).  Every field is a 32-bit
  word, as in the ABI.
\<close>

section \<open>The shared gate\<close>

record CoopGateInput =
  gate_enabled :: u32
  gate_file :: u32
  gate_ready :: u32
  gate_open :: u32
  gate_request :: u32
  gate_session_hi :: u32
  gate_session_lo :: u32
  gate_scope :: u32

record CoopGateResult =
  gate_status :: u32
  gate_apply :: u32
  gate_acknowledged :: u32
  gate_result_hi :: u32
  gate_result_lo :: u32
  gate_result_scope :: u32

record CoopGate =
  gate_input :: CoopGateInput
  gate_result :: CoopGateResult
  gate_locked_file :: u32
  gate_file_changed :: u32
  gate_applying :: u32

definition no_gate_result :: CoopGateResult where
  "no_gate_result = \<lparr>gate_status = 0, gate_apply = 0, gate_acknowledged = 0, gate_result_hi = 0, gate_result_lo = 0,
     gate_result_scope = 0\<rparr>"

definition flag_word :: "bool \<Rightarrow> u32" where "flag_word b = (if b then 1 else 0)"

definition coop_gate_prepare :: "CoopGate \<Rightarrow> u32 \<Rightarrow> u32 \<Rightarrow> u32 \<Rightarrow> u32 \<Rightarrow> u32 \<Rightarrow> CoopGate" where
  "coop_gate_prepare g enable adventure file in_japes open_now =
     (let g = (if enable \<noteq> 0 \<and> adventure \<noteq> 0 \<and> file < 3 then
            if gate_locked_file g = 0 then g\<lparr>gate_locked_file := file + 1\<rparr>
            else if gate_locked_file g \<noteq> file + 1 then g\<lparr>gate_file_changed := 1\<rparr> else g
          else g);
          on = enable \<noteq> 0 \<and> gate_file_changed g = 0;
          is_ready = (on \<and> adventure \<noteq> 0 \<and> in_japes \<noteq> 0 \<and> file < 3 \<and> gate_locked_file g = file + 1);
          n = (gate_input g)\<lparr>gate_enabled := flag_word on, gate_file := gate_locked_file g,
            gate_ready := flag_word is_ready, gate_open := flag_word (is_ready \<and> open_now \<noteq> 0)\<rparr>
      in if is_ready then g\<lparr>gate_input := n\<rparr>
         else g\<lparr>gate_input := n\<lparr>gate_request := 0, gate_session_hi := 0, gate_session_lo := 0, gate_scope := 0\<rparr>,
                gate_result := no_gate_result\<rparr>)"

definition coop_gate_receive :: "CoopGate \<Rightarrow> CoopGateResult \<Rightarrow> CoopGate" where
  "coop_gate_receive g r =
     (let n = gate_input g;
          n = (if gate_result_hi r \<noteq> gate_session_hi n \<or> gate_result_lo r \<noteq> gate_session_lo n \<or>
                 gate_result_scope r \<noteq> gate_scope n \<or> gate_status r \<noteq> 2 \<or> gate_apply r \<noteq> 0
               then n\<lparr>gate_request := 0\<rparr> else n)
      in g\<lparr>gate_input := n\<lparr>gate_session_hi := gate_result_hi r, gate_session_lo := gate_result_lo r,
             gate_scope := gate_result_scope r\<rparr>, gate_result := r\<rparr>)"

definition coop_gate_defer ::
  "CoopGate \<Rightarrow> u32 \<Rightarrow> int \<Rightarrow> u32 \<Rightarrow> u32 \<Rightarrow> u32 \<Rightarrow> u32 \<Rightarrow> u32 \<Rightarrow> u32 \<times> CoopGate" where
  "coop_gate_defer g join_mode flag v type file adventure in_japes =
     (if join_mode = 0 \<or> gate_enabled (gate_input g) = 0 \<or> gate_applying g \<noteq> 0 \<or> adventure = 0 \<or> in_japes = 0 \<or>
         flag \<noteq> 0 \<or> type \<noteq> 0 then (0, g)
      else (1, if v \<noteq> 0 \<and> gate_ready (gate_input g) \<noteq> 0 \<and> file + 1 = gate_locked_file g \<and>
                  gate_status (gate_result g) = 2 \<and> gate_scope (gate_input g) \<noteq> 0 \<and> gate_open (gate_input g) = 0
               then g\<lparr>gate_input := (gate_input g)\<lparr>gate_request := 1\<rparr>\<rparr> else g))"

inductive gate_step :: "CoopGate \<Rightarrow> CoopGate \<Rightarrow> bool" where
  prepared: "gate_step g (coop_gate_prepare g enable adventure file in_japes open_now)"
| received: "gate_step g (coop_gate_receive g r)"
| deferred: "gate_step g (snd (coop_gate_defer g join_mode flag v type file adventure in_japes))"

inductive_cases gate_stepE: "gate_step g g'"

definition gate_ok :: "CoopGate \<Rightarrow> bool" where
  "gate_ok g \<longleftrightarrow>
     (gate_ready (gate_input g) \<noteq> 0 \<longrightarrow> gate_enabled (gate_input g) \<noteq> 0 \<and> gate_locked_file g \<noteq> 0 \<and>
        gate_file (gate_input g) = gate_locked_file g) \<and>
     (gate_request (gate_input g) \<noteq> 0 \<longrightarrow> gate_ready (gate_input g) \<noteq> 0 \<and> gate_scope (gate_input g) \<noteq> 0 \<and>
        gate_status (gate_result g) = 2) \<and>
     (gate_file_changed g \<noteq> 0 \<longrightarrow> gate_enabled (gate_input g) = 0)"

lemma file_word: "file < 3 \<Longrightarrow> file + 1 \<noteq> (0 :: u32)"
proof
  assume "file < 3" "file + 1 = 0"
  then have "file = - 1" by (simp add: eq_neg_iff_add_eq_0)
  with \<open>file < 3\<close> show False by simp
qed

lemma gate_prepare_ok:
  assumes "gate_ok g" "h = coop_gate_prepare g enable adventure file in_japes open_now"
  shows "gate_ok h \<and> (gate_locked_file g \<noteq> 0 \<longrightarrow> gate_locked_file h = gate_locked_file g) \<and>
    (gate_file_changed g \<noteq> 0 \<longrightarrow> gate_file_changed h \<noteq> 0)"
proof -
  define k where "k = (if enable \<noteq> 0 \<and> adventure \<noteq> 0 \<and> file < 3 then
            if gate_locked_file g = 0 then g\<lparr>gate_locked_file := file + 1\<rparr>
            else if gate_locked_file g \<noteq> file + 1 then g\<lparr>gate_file_changed := 1\<rparr> else g
          else g)"
  have k: "gate_locked_file g \<noteq> 0 \<longrightarrow> gate_locked_file k = gate_locked_file g"
    "gate_file_changed g \<noteq> 0 \<longrightarrow> gate_file_changed k \<noteq> 0" "gate_input k = gate_input g" "gate_result k = gate_result g"
    by (auto simp: k_def)
  define on where "on \<longleftrightarrow> enable \<noteq> 0 \<and> gate_file_changed k = 0"
  define rd where "rd \<longleftrightarrow> on \<and> adventure \<noteq> 0 \<and> in_japes \<noteq> 0 \<and> file < 3 \<and> gate_locked_file k = file + 1"
  have h: "gate_locked_file h = gate_locked_file k" "gate_file_changed h = gate_file_changed k"
    "gate_enabled (gate_input h) = flag_word on" "gate_ready (gate_input h) = flag_word rd"
    "gate_file (gate_input h) = gate_locked_file k"
    "gate_request (gate_input h) = (if rd then gate_request (gate_input g) else 0)"
    "gate_scope (gate_input h) = (if rd then gate_scope (gate_input g) else 0)"
    "gate_result h = (if rd then gate_result g else no_gate_result)"
    unfolding assms(2) coop_gate_prepare_def k_def [symmetric] Let_def on_def [symmetric] rd_def [symmetric]
    by (simp_all add: k)
  from assms(1) k file_word show ?thesis
    unfolding gate_ok_def h by (auto simp: flag_word_def rd_def on_def split: if_splits)
qed

lemma gate_step_lock:
  assumes "gate_ok g" "gate_step g h"
  shows "gate_ok h \<and> (gate_locked_file g \<noteq> 0 \<longrightarrow> gate_locked_file h = gate_locked_file g) \<and>
    (gate_file_changed g \<noteq> 0 \<longrightarrow> gate_file_changed h \<noteq> 0)"
  using assms(2)
proof (rule gate_stepE)
  fix enable adventure f in_japes open_now assume "h = coop_gate_prepare g enable adventure f in_japes open_now"
  from gate_prepare_ok [OF assms(1) this] show ?thesis .
next
  fix r assume "h = coop_gate_receive g r"
  with assms(1) show ?thesis by (auto simp: coop_gate_receive_def gate_ok_def Let_def)
next
  fix j flag v t f a n assume "h = snd (coop_gate_defer g j flag v t f a n)"
  with assms(1) show ?thesis by (auto simp: coop_gate_defer_def gate_ok_def)
qed

interpretation gate_lock:
  file_lock gate_locked_file gate_file_changed
    "\<lambda>g. gate_enabled (gate_input g) \<noteq> 0 \<or> gate_ready (gate_input g) \<noteq> 0 \<or> gate_request (gate_input g) \<noteq> 0"
    gate_step gate_ok
proof unfold_locales
  fix g h assume a: "gate_ok g" "gate_step g h"
  from gate_step_lock [OF a] show "gate_ok h" "gate_locked_file g \<noteq> 0 \<Longrightarrow> gate_locked_file h = gate_locked_file g"
    "gate_file_changed g \<noteq> 0 \<Longrightarrow> gate_file_changed h \<noteq> 0" by simp_all
next
  fix g assume "gate_ok g" "gate_file_changed g \<noteq> 0"
  then show "\<not> (gate_enabled (gate_input g) \<noteq> 0 \<or> gate_ready (gate_input g) \<noteq> 0 \<or> gate_request (gate_input g) \<noteq> 0)"
    by (auto simp: gate_ok_def)
qed

text \<open>
  A guest never grants or clears the shared gate on its own.  In every reachable state, while the
  session is enabled and not applying the host's decision, each of its writes to the gate is withheld;
  an outstanding request means a ready session of the locked file, confirmed by the host, and none
  survives a change of file.
\<close>

theorem gate_writes_deferred:
  assumes "gate_step\<^sup>*\<^sup>* g h" and "gate_ok g"
    and "join_mode \<noteq> 0" and "gate_enabled (gate_input h) \<noteq> 0" and "gate_applying h = 0"
    and "adventure \<noteq> 0" and "in_japes \<noteq> 0" and "coop_gate_defer h join_mode 0 v 0 f0 adventure in_japes = (r, h')"
  shows "r = 1 \<and> gate_open (gate_input h') = gate_open (gate_input h) \<and> gate_file_changed h' = 0 \<and>
    (gate_request (gate_input h') \<noteq> 0 \<longrightarrow> gate_ready (gate_input h') \<noteq> 0 \<and> gate_status (gate_result h') = 2 \<and>
       gate_scope (gate_input h') \<noteq> 0 \<and> gate_file (gate_input h') = gate_locked_file h') \<and>
    (gate_locked_file g \<noteq> 0 \<longrightarrow> gate_locked_file h' = gate_locked_file g)"
proof -
  from gate_lock.run [OF assms(1,2)] have h: "gate_ok h" "gate_locked_file g \<noteq> 0 \<longrightarrow> gate_locked_file h = gate_locked_file g"
    by simp_all
  have "gate_step h h'" using gate_step.deferred [of h join_mode 0 v 0 f0 adventure in_japes] assms(8) by simp
  from gate_step_lock [OF h(1) this] have h': "gate_ok h'" by simp
  from assms(3-8) have same: "r = 1" "gate_open (gate_input h') = gate_open (gate_input h)"
    "gate_locked_file h' = gate_locked_file h" "gate_file_changed h' = gate_file_changed h"
    by (auto simp: coop_gate_defer_def)
  moreover have "gate_file_changed h = 0" using h(1) assms(4) by (auto simp: gate_ok_def)
  ultimately show ?thesis using h h' by (auto simp: gate_ok_def)
qed


lemma gate_writes_deferred_witness:
  "let g = \<lparr>gate_input = \<lparr>gate_enabled = 1, gate_file = 2, gate_ready = 1, gate_open = 0, gate_request = 0,
         gate_session_hi = 7, gate_session_lo = 9, gate_scope = 5\<rparr>,
       gate_result = \<lparr>gate_status = 2, gate_apply = 0, gate_acknowledged = 0, gate_result_hi = 7, gate_result_lo = 9,
         gate_result_scope = 5\<rparr>, gate_locked_file = 2, gate_file_changed = 0, gate_applying = 0\<rparr>;
       h = snd (coop_gate_defer g 1 0 1 0 1 1 1)
   in gate_request (gate_input h) = 1 \<and> gate_ready (gate_input h) \<noteq> 0 \<and> gate_open (gate_input h) = 0"
proof -
  define g where "g = \<lparr>gate_input = \<lparr>gate_enabled = 1, gate_file = 2, gate_ready = 1, gate_open = 0, gate_request = 0,
         gate_session_hi = 7, gate_session_lo = 9, gate_scope = 5\<rparr>,
       gate_result = \<lparr>gate_status = 2, gate_apply = 0, gate_acknowledged = 0, gate_result_hi = 7, gate_result_lo = 9,
         gate_result_scope = 5\<rparr>, gate_locked_file = 2, gate_file_changed = 0, gate_applying = 0\<rparr>"
  define h where "h = snd (coop_gate_defer g 1 0 1 0 1 1 1)"
  have ok: "gate_ok g" by (simp add: g_def gate_ok_def)
  have req: "gate_request (gate_input h) = 1" by (simp add: h_def g_def coop_gate_defer_def)
  have "coop_gate_defer g 1 0 1 0 1 1 1 = (fst (coop_gate_defer g 1 0 1 0 1 1 1), h)" by (simp add: h_def)
  from gate_writes_deferred [OF rtranclp.rtrancl_refl ok _ _ _ _ _ this] req
  have "gate_ready (gate_input h) \<noteq> 0" "gate_open (gate_input h) = gate_open (gate_input g)"
    by (simp_all add: g_def)
  with req show ?thesis unfolding Let_def g_def [symmetric] h_def [symmetric] by (simp add: g_def)
qed

section \<open>Map lifecycle\<close>

record CoopMapLifecycle =
  lifecycle_map :: int
  lifecycle_serial :: u32

definition coop_map_lifecycle_changed :: "CoopMapLifecycle \<Rightarrow> u32 \<Rightarrow> u32 \<Rightarrow> bool \<times> CoopMapLifecycle" where
  "coop_map_lifecycle_changed l m serial =
     (lifecycle_serial l \<noteq> serial \<or> lifecycle_map l \<noteq> sint m,
      l\<lparr>lifecycle_serial := serial, lifecycle_map := sint m\<rparr>)"

lemma lifecycle_once:
  "fst (coop_map_lifecycle_changed (snd (coop_map_lifecycle_changed l m s)) n t) \<longleftrightarrow> m \<noteq> n \<or> s \<noteq> t"
  by (auto simp: coop_map_lifecycle_changed_def signed_word_eqI)

section \<open>The single-slot file menu\<close>

definition coop_file_menu_count :: "u32 \<Rightarrow> u32" where
  "coop_file_menu_count single_slot = (if single_slot \<noteq> 0 then 2 else 4)"

definition coop_file_menu_delete_index :: "u32 \<Rightarrow> u32" where
  "coop_file_menu_delete_index single_slot = (if single_slot \<noteq> 0 then 1 else 2)"

definition coop_file_menu_file :: "u32 \<Rightarrow> u32 \<Rightarrow> u32" where
  "coop_file_menu_file single_slot selection =
     (if single_slot \<noteq> 0 then 0 else if selection = 3 then 2 else selection)"

definition coop_delete_menu_count :: "u32 \<Rightarrow> u32" where
  "coop_delete_menu_count single_slot = (if single_slot \<noteq> 0 then 1 else 3)"

lemma u32_below_4: "(s :: u32) < 4 \<longleftrightarrow> s = 0 \<or> s = 1 \<or> s = 2 \<or> s = 3"
proof -
  have "s < 4 \<longleftrightarrow> unat s < 4" by (simp add: word_less_nat_alt)
  also have "\<dots> \<longleftrightarrow> unat s = 0 \<or> unat s = 1 \<or> unat s = 2 \<or> unat s = 3" by auto
  also have "\<dots> \<longleftrightarrow> s = 0 \<or> s = 1 \<or> s = 2 \<or> s = 3" by (simp add: word_unat_eq_iff)
  finally show ?thesis .
qed

lemma u32_below_2: "(s :: u32) < 2 \<longleftrightarrow> s = 0 \<or> s = 1"
proof -
  have "s < 2 \<longleftrightarrow> unat s < 2" by (simp add: word_less_nat_alt)
  also have "\<dots> \<longleftrightarrow> unat s = 0 \<or> unat s = 1" by auto
  also have "\<dots> \<longleftrightarrow> s = 0 \<or> s = 1" by (simp add: word_unat_eq_iff)
  finally show ?thesis .
qed

text \<open>Every entry but the delete entry names a file the delete menu offers, and no two name the same one.\<close>

lemma file_menu_entries:
  assumes "s < coop_file_menu_count k" "t < coop_file_menu_count k"
    and "s \<noteq> coop_file_menu_delete_index k" "t \<noteq> coop_file_menu_delete_index k"
  shows "coop_file_menu_file k s < coop_delete_menu_count k \<and> (coop_file_menu_file k s = coop_file_menu_file k t \<longleftrightarrow> s = t)"
proof (cases "k = 0")
  case True
  then have "s < 4" "t < 4" "s \<noteq> 2" "t \<noteq> 2"
    using assms by (simp_all add: coop_file_menu_count_def coop_file_menu_delete_index_def)
  then show ?thesis using True
    by (auto simp: u32_below_4 coop_file_menu_file_def coop_delete_menu_count_def)
next
  case False
  then have "s < 2" "t < 2" "s \<noteq> 1" "t \<noteq> 1"
    using assms by (simp_all add: coop_file_menu_count_def coop_file_menu_delete_index_def)
  then have "s = 0" "t = 0" by (simp_all add: u32_below_2)
  then show ?thesis using False by (simp add: coop_file_menu_file_def coop_delete_menu_count_def)
qed

section \<open>Pose numbers\<close>

text \<open>A C \<^verbatim>\<open>float\<close>: the values the comparisons of the code tell apart.\<close>

datatype c_float = NotANumber | MinusInf | PlusInf | Fin rat

fun float_le :: "c_float \<Rightarrow> c_float \<Rightarrow> bool" where
  "float_le (Fin x) (Fin y) = (x \<le> y)"
| "float_le MinusInf y = (y \<noteq> NotANumber)"
| "float_le x PlusInf = (x \<noteq> NotANumber)"
| "float_le _ _ = False"

definition float_less :: "c_float \<Rightarrow> c_float \<Rightarrow> bool" where
  "float_less x y = (float_le x y \<and> x \<noteq> y)"

text \<open>The table is the local pose table, 110 rows of seven columns; \<open>None\<close> is the null pointer.\<close>

definition coop_animation_rows :: "u32 \<Rightarrow> u32 \<Rightarrow> u32" where
  "coop_animation_rows start stop =
     (if start < 16 \<or> start > 131072 \<or> stop < start \<or> stop > 131072 \<or> start AND 1 \<noteq> 0 then 0
      else if stop - start = 110 * 7 * 2 then 110 else 0)"

definition coop_animation_clip :: "u16 list option \<Rightarrow> nat \<Rightarrow> nat \<Rightarrow> nat \<Rightarrow> int" where
  "coop_animation_clip table rows kong pose =
     (case table of None \<Rightarrow> - 1
      | Some t \<Rightarrow>
          if rows \<noteq> 110 \<or> kong \<ge> 5 \<or> pose = 0 \<or> pose > rows then - 1
          else let clip = unat (t ! ((pose - 1) * 7 + kong)) in if clip < 2048 then int clip else - 1)"

definition coop_animation_find :: "u16 list option \<Rightarrow> nat \<Rightarrow> nat \<Rightarrow> int \<Rightarrow> nat" where
  "coop_animation_find table rows kong clip =
     (if table = None \<or> rows \<noteq> 110 \<or> kong \<ge> 5 \<or> clip < 0 \<or> clip \<ge> 2048 then 0
      else case find (\<lambda>row. coop_animation_clip table rows kong row = clip) [1..<Suc rows] of
             Some row \<Rightarrow> row | None \<Rightarrow> 0)"

definition coop_animation_valid_frame :: "c_float \<Rightarrow> bool" where
  "coop_animation_valid_frame frame \<longleftrightarrow> float_le (Fin 0) frame \<and> float_le frame (Fin 254)"

definition coop_animation_frame :: "c_float \<Rightarrow> nat \<Rightarrow> c_float" where
  "coop_animation_frame frame n =
     (if \<not> coop_animation_valid_frame frame \<or> n = 0 \<or> n > 255 then Fin 0
      else let last = Fin (of_nat (n - 1)) in if float_less frame last then frame else last)"

lemma valid_frame_iff: "coop_animation_valid_frame f \<longleftrightarrow> (\<exists>x. f = Fin x \<and> 0 \<le> x \<and> x \<le> 254)"
  by (cases f) (auto simp: coop_animation_valid_frame_def)

lemma animation_frame_in_clip:
  "0 < n \<Longrightarrow> \<exists>x. coop_animation_frame f n = Fin x \<and> 0 \<le> x \<and> x \<le> of_nat (n - 1) \<and> x \<le> 254"
proof (cases "coop_animation_valid_frame f \<and> n \<le> 255")
  case True
  then obtain x where x: "f = Fin x" "0 \<le> x" "x \<le> 254" by (auto simp: valid_frame_iff)
  have "n - 1 \<le> 254" using True by arith
  then have "of_nat (n - 1) \<le> (of_nat 254 :: rat)" by (rule of_nat_mono)
  then have "of_nat (n - 1) \<le> (254 :: rat)" by simp
  then show "0 < n \<Longrightarrow> ?thesis" using True x
    by (auto simp: coop_animation_frame_def float_less_def Let_def)
qed (auto simp: coop_animation_frame_def)

lemma animation_find_sound:
  assumes "coop_animation_find t rows k c = p" "p \<noteq> 0"
  shows "p \<le> 110 \<and> coop_animation_clip t rows k p = c \<and> (\<forall>q. 0 < q \<and> q < p \<longrightarrow> coop_animation_clip t rows k q \<noteq> c)"
proof -
  from assms have "rows = 110" and
    f: "find (\<lambda>row. coop_animation_clip t rows k row = c) [1..<Suc rows] = Some p"
    by (auto simp: coop_animation_find_def split: if_splits option.splits simp del: upt_Suc upt_rec_numeral)
  from f obtain i where i: "i < length [1..<Suc rows]" "coop_animation_clip t rows k ([1..<Suc rows] ! i) = c"
      "p = [1..<Suc rows] ! i" "\<forall>j<i. coop_animation_clip t rows k ([1..<Suc rows] ! j) \<noteq> c"
    unfolding find_Some_iff by blast
  from i(1,3) have p: "p = Suc i" "i < rows" by (simp_all add: nth_upt del: upt_Suc)
  have "coop_animation_clip t rows k q \<noteq> c" if "0 < q" "q < p" for q
    using i(1,4) that p by (auto simp: nth_upt gr0_conv_Suc simp del: upt_Suc)
  with i(2,3) p \<open>rows = 110\<close> show ?thesis by auto
qed

lemma animation_find_complete:
  assumes "coop_animation_clip t 110 k q = c" "0 \<le> c"
  shows "coop_animation_find t 110 k c \<noteq> 0"
proof -
  from assms obtain u where u: "t = Some u" "k < 5" "0 < q" "q \<le> 110" "c < 2048"
    by (cases t) (auto simp: coop_animation_clip_def Let_def split: if_splits)
  have "find (\<lambda>row. coop_animation_clip t 110 k row = c) [1..<Suc 110] \<noteq> None"
    using assms(1) u(3,4) by (auto simp: find_None_iff simp del: upt_rec_numeral upt_Suc intro!: exI [of _ q])
  then obtain p where p: "find (\<lambda>row. coop_animation_clip t 110 k row = c) [1..<Suc 110] = Some p" by blast
  then have "p \<in> set [1..<Suc 110]" by (auto simp: find_Some_iff simp del: upt_rec_numeral upt_Suc)
  with p u assms(2) show ?thesis
    by (simp add: coop_animation_find_def del: upt_rec_numeral upt_Suc)
qed

section \<open>Host recovery\<close>

record CoopHostRecovery =
  stable_frames :: u32
  checkpoint :: u32
  attempted :: u32
  promoted :: u32
  recovery_failed :: u32

definition no_recovery :: CoopHostRecovery where
  "no_recovery = \<lparr>stable_frames = 0, checkpoint = 0, attempted = 0, promoted = 0, recovery_failed = 0\<rparr>"

definition coop_recovery_use_host_copy :: "u32 \<Rightarrow> u32 \<Rightarrow> bool" where
  "coop_recovery_use_host_copy role copy \<longleftrightarrow> copy = 1 \<or> (copy = 0 \<and> role = 1)"

abbreviation (input) "RECOVERY_NONE \<equiv> 0 :: u32"
abbreviation (input) "RECOVERY_BUILDING \<equiv> 1 :: u32"
abbreviation (input) "RECOVERY_READY \<equiv> 2 :: u32"
abbreviation (input) "RECOVERY_NO_CHECKPOINT \<equiv> 3 :: u32"
abbreviation (input) "RECOVERY_WAIT_SAFE \<equiv> 4 :: u32"
abbreviation (input) "RECOVERY_START \<equiv> 5 :: u32"
abbreviation (input) "RECOVERY_FAILED \<equiv> 6 :: u32"
abbreviation (input) "RECOVERY_ACTIVE \<equiv> 7 :: u32"
abbreviation (input) "RECOVERY_STANDBY \<equiv> 1 :: u32"
abbreviation (input) "RECOVERY_PROMOTE \<equiv> 2 :: u32"

definition coop_host_recovery_update ::
  "CoopHostRecovery \<Rightarrow> u32 \<Rightarrow> bool \<Rightarrow> bool \<Rightarrow> bool \<Rightarrow> u32 \<Rightarrow> u32 \<times> CoopHostRecovery" where
  "coop_host_recovery_update r join link checkpoint_safe promotion_safe command =
     (if join = 0 then (if promoted r \<noteq> 0 then RECOVERY_ACTIVE else RECOVERY_NONE, r)
      else if link then
        let r = r\<lparr>attempted := 0, recovery_failed := 0\<rparr> in
        if \<not> checkpoint_safe then
          (if command \<noteq> 0 then RECOVERY_BUILDING else RECOVERY_NONE, r\<lparr>stable_frames := 0, checkpoint := 0\<rparr>)
        else
          let r = (if stable_frames r < 120 then r\<lparr>stable_frames := stable_frames r + 1\<rparr> else r);
              r = (if stable_frames r \<ge> 120 then r\<lparr>checkpoint := 1\<rparr> else r)
          in (if command = 0 then RECOVERY_NONE
              else if checkpoint r \<noteq> 0 then RECOVERY_READY else RECOVERY_BUILDING, r)
      else
        let r = r\<lparr>stable_frames := 0\<rparr> in
        if command \<noteq> RECOVERY_PROMOTE then
          let r = r\<lparr>attempted := 0, recovery_failed := 0\<rparr>
          in (if checkpoint r \<noteq> 0 \<and> command = RECOVERY_STANDBY then RECOVERY_READY else RECOVERY_NONE, r)
        else if recovery_failed r \<noteq> 0 then (RECOVERY_FAILED, r)
        else if checkpoint r = 0 then (RECOVERY_NO_CHECKPOINT, r)
        else if \<not> promotion_safe then (RECOVERY_WAIT_SAFE, r)
        else if attempted r \<noteq> 0 then (RECOVERY_FAILED, r)
        else (RECOVERY_START, r\<lparr>attempted := 1\<rparr>))"

definition coop_host_recovery_complete :: "CoopHostRecovery \<Rightarrow> u32 \<Rightarrow> CoopHostRecovery" where
  "coop_host_recovery_complete r success =
     r\<lparr>recovery_failed := (if success = 0 then 1 else 0), promoted := success\<rparr>"

text \<open>
  The history of a guest session, newest first: the frames it polled, and the completed attempts.
\<close>

datatype recovery_event =
    RecoveryFrame (link_up: bool) (save_safe: bool) (may_promote: bool) (recovery_command: u32)
  | RecoveryComplete u32

fun recovery_after :: "u32 \<Rightarrow> recovery_event list \<Rightarrow> CoopHostRecovery" where
  "recovery_after join [] = no_recovery"
| "recovery_after join (RecoveryFrame c s p cmd # es) =
     snd (coop_host_recovery_update (recovery_after join es) join c s p cmd)"
| "recovery_after join (RecoveryComplete success # es) =
     coop_host_recovery_complete (recovery_after join es) success"

fun poll_frames :: "recovery_event list \<Rightarrow> (bool \<times> bool) list" where
  "poll_frames [] = []"
| "poll_frames (RecoveryFrame c s p cmd # es) = (c, s) # poll_frames es"
| "poll_frames (RecoveryComplete success # es) = poll_frames es"

text \<open>
  The specification reads the frames only: a checkpoint stands when some 120 consecutive frames were
  connected and safe, and since then no connected frame was unsafe.
\<close>

definition converged_run :: "(bool \<times> bool) list \<Rightarrow> nat" where
  "converged_run fs = length (takeWhile (\<lambda>f. f = (True, True)) fs)"

definition checkpoint_earned :: "(bool \<times> bool) list \<Rightarrow> bool" where
  "checkpoint_earned fs \<longleftrightarrow>
     (\<exists>k\<in>set [0..<Suc (length fs)]. (True, False) \<notin> set (take k fs) \<and> 120 \<le> converged_run (drop k fs))"

lemma checkpoint_earned_iff:
  "checkpoint_earned fs \<longleftrightarrow> (\<exists>k\<le>length fs. (True, False) \<notin> set (take k fs) \<and> 120 \<le> converged_run (drop k fs))"
  unfolding checkpoint_earned_def set_upt atLeastLessThan_iff less_Suc_eq_le Bex_def by simp

lemma checkpoint_earned_Nil [simp]: "\<not> checkpoint_earned []"
  by (simp add: checkpoint_earned_iff converged_run_def)

lemma checkpoint_earned_Cons:
  "checkpoint_earned (f # fs) \<longleftrightarrow> 120 \<le> converged_run (f # fs) \<or> (f \<noteq> (True, False) \<and> checkpoint_earned fs)"
proof -
  have "checkpoint_earned (f # fs) \<longleftrightarrow>
      (\<exists>k\<le>Suc (length fs). (True, False) \<notin> set (take k (f # fs)) \<and> 120 \<le> converged_run (drop k (f # fs)))"
    by (simp add: checkpoint_earned_iff)
  also have "\<dots> \<longleftrightarrow> 120 \<le> converged_run (f # fs) \<or>
      (\<exists>k\<le>length fs. f \<noteq> (True, False) \<and> (True, False) \<notin> set (take k fs) \<and> 120 \<le> converged_run (drop k fs))"
    (is "(\<exists>k\<le>_. ?P k) \<longleftrightarrow> _")
  proof -
    have "(\<exists>k\<le>Suc n. ?P k) \<longleftrightarrow> ?P 0 \<or> (\<exists>k\<le>n. ?P (Suc k))" for n
      using Ex_less_Suc2 [of "Suc n" ?P] unfolding less_Suc_eq_le .
    then show ?thesis by auto
  qed
  finally show ?thesis by (auto simp: checkpoint_earned_iff)
qed

lemma stable_count: "unat (w :: u32) < 120 \<Longrightarrow> unat (w + 1) = Suc (unat w)"
  by (simp add: unatSuc unat_eq_0 word_less_nat_alt unat_word_ariths)

lemma recovery_history:
  assumes "join \<noteq> 0"
  shows "unat (stable_frames (recovery_after join es)) = min 120 (converged_run (poll_frames es)) \<and>
    (checkpoint (recovery_after join es) \<noteq> 0 \<longleftrightarrow> checkpoint_earned (poll_frames es))"
proof (induction es)
  case Nil then show ?case by (simp add: no_recovery_def converged_run_def)
next
  case (Cons e es)
  show ?case
  proof (cases e)
    case (RecoveryComplete s) with Cons show ?thesis by (simp add: coop_host_recovery_complete_def)
  next
    case (RecoveryFrame c s p cmd)
    define r where "r = recovery_after join es"
    consider "\<not> c" | "c" "\<not> s" | "c" "s" by blast
    then show ?thesis
    proof cases
      case 1
      have "stable_frames (snd (coop_host_recovery_update r join c s p cmd)) = 0"
        "checkpoint (snd (coop_host_recovery_update r join c s p cmd)) = checkpoint r"
        using 1 assms by (simp_all add: coop_host_recovery_update_def Let_def)
      with Cons RecoveryFrame 1 show ?thesis
        by (simp add: r_def [symmetric] converged_run_def checkpoint_earned_Cons)
    next
      case 2
      have "stable_frames (snd (coop_host_recovery_update r join c s p cmd)) = 0"
        "checkpoint (snd (coop_host_recovery_update r join c s p cmd)) = 0"
        using 2 assms by (simp_all add: coop_host_recovery_update_def Let_def)
      with Cons RecoveryFrame 2 show ?thesis
        by (simp add: r_def [symmetric] converged_run_def checkpoint_earned_Cons)
    next
      case 3
      let ?q = "snd (coop_host_recovery_update r join c s p cmd)"
      have st: "stable_frames ?q = (if stable_frames r < 120 then stable_frames r + 1 else stable_frames r)"
        and cp: "checkpoint ?q = (if stable_frames ?q \<ge> 120 then 1 else checkpoint r)"
        using 3 assms by (simp_all add: coop_host_recovery_update_def Let_def)
      have run: "converged_run ((c, s) # poll_frames es) = Suc (converged_run (poll_frames es))"
        using 3 by (simp add: converged_run_def)
      have u: "unat (stable_frames ?q) = min 120 (Suc (converged_run (poll_frames es)))"
        using Cons.IH stable_count [of "stable_frames r"] unfolding st r_def [symmetric]
        by (auto simp: word_less_nat_alt min_def split: if_splits)
      then have "stable_frames ?q \<ge> 120 \<longleftrightarrow> 120 \<le> Suc (converged_run (poll_frames es))"
        by (simp add: word_le_nat_alt)
      with u run Cons.IH RecoveryFrame 3 cp show ?thesis
        by (simp add: r_def [symmetric] checkpoint_earned_Cons)
    qed
  qed
qed


lemma converged_frames:
  "poll_frames (replicate n (RecoveryFrame True True p cmd)) = replicate n (True, True)"
  by (induction n) simp_all


end
