(* ===== verification/CoopTransition.thy ===== *)
theory CoopTransition
  imports CoopTables
begin

text \<open>
  Shared transitions (\<^verbatim>\<open>transition_policy.h\<close>): the host's allowed routes, the packed wire
  word, capture of a transition at its loading edge, and the guest's decision to follow.
  Counters are words; a flag the code only tests is a \<open>bool\<close>; map and exit numbers that come
  from signed variables are \<open>int\<close>.
\<close>

section \<open>Routes\<close>

definition COOP_MAP_COUNT :: u32 where "COOP_MAP_COUNT = 216"

definition is_route :: "u32 \<Rightarrow> u32 \<Rightarrow> int \<Rightarrow> CoopTransitionRoute \<Rightarrow> bool" where
  "is_route s d e r \<longleftrightarrow> ucast (route_source r) = s \<and> ucast (route_destination r) = d \<and> sint (route_exit r) = e"

definition coop_transition_ordinary_route_allowed :: "u32 \<Rightarrow> u32 \<Rightarrow> int \<Rightarrow> bool" where
  "coop_transition_ordinary_route_allowed s d e = list_ex (is_route s d e) coop_transition_routes"

definition coop_transition_bblast_completion :: "u32 \<Rightarrow> u32 \<Rightarrow> int \<Rightarrow> bool" where
  "coop_transition_bblast_completion s d e = list_ex (is_route s d e) coop_bblast_completion_routes"

definition coop_transition_route_allowed :: "u32 \<Rightarrow> u32 \<Rightarrow> int \<Rightarrow> bool" where
  "coop_transition_route_allowed s d e \<longleftrightarrow>
     coop_transition_ordinary_route_allowed s d e \<or> coop_transition_bblast_completion s d e"

definition coop_transition_pack :: "u32 \<Rightarrow> u32 \<Rightarrow> int \<Rightarrow> u32" where
  "coop_transition_pack s d e =
     (s AND 0xFF) OR push_bit 8 (d AND 0xFF) OR push_bit 16 (word_of_int e AND 0xFF)"

definition coop_transition_source :: "u32 \<Rightarrow> u32" where
  "coop_transition_source route = route AND 0xFF"

definition coop_transition_destination :: "u32 \<Rightarrow> u32" where
  "coop_transition_destination route = drop_bit 8 route AND 0xFF"

definition coop_transition_exit :: "u32 \<Rightarrow> int" where
  "coop_transition_exit route =
     (let e = uint (drop_bit 16 route AND 0xFF) in if e \<ge> 128 then e - 256 else e)"

definition coop_transition_route_is_bblast :: "u32 \<Rightarrow> bool" where
  "coop_transition_route_is_bblast route \<longleftrightarrow>
     route AND 0xFF000000 = 0 \<and>
     coop_transition_bblast_completion (coop_transition_source route) (coop_transition_destination route)
       (coop_transition_exit route)"

text \<open>The trigger's centre, when the route has one.\<close>

definition coop_transition_bblast_trigger :: "u32 \<Rightarrow> (int \<times> int) option" where
  "coop_transition_bblast_trigger route =
     (if \<not> coop_transition_route_is_bblast route then None
      else if coop_transition_source route = 37 then Some (0x056B, 0x056C)
      else if coop_transition_source route = 41 then Some (0x04B0, 0x0506)
      else if coop_transition_source route = 54 then Some (0x03B6, 0x040C)
      else if coop_transition_source route = 110 then Some (0x04B0, 0x0506)
      else if coop_transition_source route = 187 then Some (0x06C7, 0x02AA)
      else None)"

definition coop_transition_valid :: "u32 \<Rightarrow> u32 \<Rightarrow> bool" where
  "coop_transition_valid ticket route =
     (if ticket = 0 \<or> route = 0 \<or> route AND 0xFF000000 \<noteq> 0 then ticket = 0 \<and> route = 0
      else coop_transition_source route < COOP_MAP_COUNT \<and> coop_transition_destination route < COOP_MAP_COUNT \<and>
        coop_transition_route_allowed (coop_transition_source route) (coop_transition_destination route)
          (coop_transition_exit route))"

section \<open>The wire word\<close>

lemma byte_mask: "(0xFF :: 'a::len word) = mask 8" by (simp add: mask_eq_exp_minus_1)

lemma high_mask: "(0xFF000000 :: u32) = push_bit 24 (mask 8)" by (simp add: mask_eq_exp_minus_1 push_bit_eq_mult)

lemma small_and_mask: "s < (256 :: u32) \<Longrightarrow> s AND 0xFF = s"
  by (simp add: byte_mask and_mask_mod_2p word_less_def)

lemma pack_source: "coop_transition_source (coop_transition_pack s d e) = s AND 0xFF"
  by (rule bit_word_eqI) (auto simp: coop_transition_source_def coop_transition_pack_def byte_mask bit_simps)

lemma pack_destination: "coop_transition_destination (coop_transition_pack s d e) = d AND 0xFF"
  by (rule bit_word_eqI)
    (auto simp: coop_transition_destination_def coop_transition_pack_def byte_mask bit_simps)

lemma pack_exit_byte: "drop_bit 16 (coop_transition_pack s d e) AND 0xFF = word_of_int e AND 0xFF"
  by (rule bit_word_eqI) (auto simp: coop_transition_pack_def byte_mask bit_simps)

lemma pack_high: "coop_transition_pack s d e AND 0xFF000000 = 0"
  by (rule bit_word_eqI) (auto simp: coop_transition_pack_def byte_mask high_mask bit_simps)

lemma pack_exit:
  assumes "- 128 \<le> e" "e \<le> 127" shows "coop_transition_exit (coop_transition_pack s d e) = e"
proof -
  have "uint ((word_of_int e :: u32) AND 0xFF) = e mod 256"
    by (simp add: byte_mask and_mask_wi uint_word_of_int take_bit_eq_mod mod_mod_cancel)
  moreover have "e mod 256 = (if e < 0 then e + 256 else e)"
    using assms by (smt (verit) mod_add_self2 mod_pos_pos_trivial)
  ultimately show ?thesis using assms unfolding coop_transition_exit_def pack_exit_byte Let_def by simp
qed

lemma pack_fields:
  assumes "s < 256" "d < 256" "- 128 \<le> e" "e \<le> 127"
  shows "coop_transition_source (coop_transition_pack s d e) = s"
    "coop_transition_destination (coop_transition_pack s d e) = d"
    "coop_transition_exit (coop_transition_pack s d e) = e"
  using assms by (simp_all add: pack_source pack_destination pack_exit small_and_mask)

text \<open>Every field of a route of the tables fits its byte.\<close>

lemma is_route_bounds:
  assumes "is_route s d e r" shows "s < 256 \<and> d < 256 \<and> - 128 \<le> e \<and> e \<le> 127"
proof -
  have u: "ucast (w :: u8) < (256 :: u32)" for w
    using u8_less [of w] by (simp add: word_less_nat_alt unsigned_ucast_eq take_bit_eq_mod)
  have "- 128 \<le> sint (w :: s8) \<and> sint w \<le> 127" for w
    using sint_ge [of w] sint_lt [of w] by simp
  with assms u show ?thesis by (auto simp: is_route_def)
qed

lemma route_allowed_ex:
  "coop_transition_route_allowed s d e \<longleftrightarrow>
     (\<exists>r \<in> set coop_transition_routes \<union> set coop_bblast_completion_routes. is_route s d e r)"
  by (auto simp: coop_transition_route_allowed_def coop_transition_ordinary_route_allowed_def
      coop_transition_bblast_completion_def list_ex_iff)

lemma allowed_bounds:
  "coop_transition_route_allowed s d e \<Longrightarrow> s < 256 \<and> d < 256 \<and> - 128 \<le> e \<and> e \<le> 127"
  using is_route_bounds by (auto simp: route_allowed_ex)

lemma allowed_source_nonzero: "coop_transition_route_allowed s d e \<Longrightarrow> s \<noteq> 0"
proof -
  have "list_all (\<lambda>r. route_source r \<noteq> 0) (coop_transition_routes @ coop_bblast_completion_routes)"
    by (simp add: coop_transition_routes_def coop_transition_routes_parts coop_bblast_completion_routes_def)
  moreover have "ucast (w :: u8) = (0 :: u32) \<longleftrightarrow> w = 0" for w
    using u8_less [of w] by (simp add: word_unat_eq_iff unsigned_ucast_eq take_bit_eq_mod)
  ultimately show "coop_transition_route_allowed s d e \<Longrightarrow> s \<noteq> 0"
    by (auto simp: route_allowed_ex is_route_def list_all_iff)
qed

lemma pack_valid:
  assumes "coop_transition_route_allowed s d e" "s < COOP_MAP_COUNT" "d < COOP_MAP_COUNT" "t \<noteq> 0"
  shows "coop_transition_valid t (coop_transition_pack s d e)"
proof -
  note b = allowed_bounds [OF assms(1)]
  then have f: "coop_transition_source (coop_transition_pack s d e) = s"
    "coop_transition_destination (coop_transition_pack s d e) = d"
    "coop_transition_exit (coop_transition_pack s d e) = e" by (simp_all add: pack_fields)
  have "coop_transition_pack s d e \<noteq> 0"
  proof
    assume "coop_transition_pack s d e = 0"
    with f(1) have "s = 0" by (simp add: coop_transition_source_def)
    with allowed_source_nonzero [OF assms(1)] show False by simp
  qed
  then show ?thesis using assms f by (simp add: coop_transition_valid_def pack_high)
qed

section \<open>Capture and follow\<close>

record CoopTransitionCapture =
  was_loading :: bool
  ticket_counter :: u32
  capture_ticket :: u32
  capture_route :: u32
  hold_frames :: u32

record CoopTransitionFollow =
  follow_connected :: bool
  seen_ticket :: u32
  follow_pending :: bool
  follow_source :: u32

definition no_capture :: CoopTransitionCapture where
  "no_capture = \<lparr>was_loading = False, ticket_counter = 0, capture_ticket = 0, capture_route = 0, hold_frames = 0\<rparr>"

text \<open>The result is \<open>*ticket\<close>, \<open>*route\<close> and the capture state.\<close>

definition coop_transition_capture ::
  "CoopTransitionCapture \<Rightarrow> bool \<Rightarrow> bool \<Rightarrow> bool \<Rightarrow> bool \<Rightarrow> bool \<Rightarrow> bool \<Rightarrow> u32 \<Rightarrow> int \<Rightarrow> int \<Rightarrow>
     u32 \<times> u32 \<times> CoopTransitionCapture" where
  "coop_transition_capture c link host shared_events ordinary_eligible shared_eligible loading source_map next_map next_exit =
     (if \<not> link then
        (0, 0, c\<lparr>was_loading := loading, hold_frames := 0, capture_ticket := 0, capture_route := 0\<rparr>)
      else
        let ordinary = 0 \<le> next_map \<and> next_map < uint COOP_MAP_COUNT \<and>
              coop_transition_ordinary_route_allowed source_map (word_of_int next_map) next_exit;
            bblast = 0 \<le> next_map \<and> next_map < uint COOP_MAP_COUNT \<and>
              coop_transition_bblast_completion source_map (word_of_int next_map) next_exit;
            c = (if loading \<and> \<not> was_loading c \<and> source_map < COOP_MAP_COUNT \<and>
                   (host \<and> ordinary \<and> ordinary_eligible \<or> shared_events \<and> bblast \<and> shared_eligible)
                 then let t = ticket_counter c + 1; t = (if t = 0 then 1 else t)
                      in c\<lparr>ticket_counter := t, capture_ticket := t,
                           capture_route := coop_transition_pack source_map (word_of_int next_map) next_exit,
                           hold_frames := 300\<rparr>
                 else c);
            c = c\<lparr>was_loading := loading\<rparr>
        in if hold_frames c \<noteq> 0 \<and> coop_transition_valid (capture_ticket c) (capture_route c)
           then (capture_ticket c, capture_route c, c\<lparr>hold_frames := hold_frames c - 1\<rparr>)
           else (0, 0, c))"

definition coop_transition_should_follow ::
  "CoopTransitionFollow \<Rightarrow> bool \<Rightarrow> bool \<Rightarrow> bool \<Rightarrow> bool \<Rightarrow> bool \<Rightarrow> u32 \<Rightarrow> u32 \<Rightarrow> u32 \<Rightarrow> u32 \<Rightarrow> bool \<times> CoopTransitionFollow"
  where
  "coop_transition_should_follow f link ordinary_follow shared_events playing loading local_map remote_flags ticket route =
     (if \<not> link then (False, f\<lparr>follow_connected := False, seen_ticket := 0, follow_pending := False\<rparr>)
      else
        let f = (if \<not> follow_connected f then f\<lparr>follow_connected := True, seen_ticket := 0, follow_pending := False\<rparr> else f)
        in if ticket = 0 \<and> route = 0 then (False, f)
           else if \<not> coop_transition_valid ticket route then (False, f)
           else
             let source = coop_transition_source route;
                 f = (if ticket \<noteq> seen_ticket f
                      then f\<lparr>seen_ticket := ticket, follow_source := source, follow_pending := local_map = source\<rparr>
                      else if follow_pending f \<and> local_map \<noteq> follow_source f then f\<lparr>follow_pending := False\<rparr>
                      else f);
                 authorized = ordinary_follow \<and> coop_transition_ordinary_route_allowed source
                       (coop_transition_destination route) (coop_transition_exit route) \<or>
                   shared_events \<and> coop_transition_route_is_bblast route
             in (follow_pending f \<and> authorized \<and> playing \<and> \<not> loading \<and> local_map = source \<and>
                   remote_flags AND 1 \<noteq> 0 \<and> remote_flags AND 2 = 0, f))"

definition coop_transition_consumed :: "CoopTransitionFollow \<Rightarrow> CoopTransitionFollow" where
  "coop_transition_consumed f = f\<lparr>follow_pending := False\<rparr>"

section \<open>What a capture publishes\<close>

text \<open>The frames of a session, newest first.\<close>

record capture_frame =
  cf_link :: bool
  cf_host :: bool
  cf_shared :: bool
  cf_ordinary_eligible :: bool
  cf_shared_eligible :: bool
  cf_loading :: bool
  cf_source :: u32
  cf_next_map :: int
  cf_next_exit :: int

fun capture_after :: "capture_frame list \<Rightarrow> u32 \<times> u32 \<times> CoopTransitionCapture" where
  "capture_after [] = (0, 0, no_capture)"
| "capture_after (f # fs) =
     coop_transition_capture (snd (snd (capture_after fs))) (cf_link f) (cf_host f) (cf_shared f)
       (cf_ordinary_eligible f) (cf_shared_eligible f) (cf_loading f) (cf_source f) (cf_next_map f) (cf_next_exit f)"

text \<open>
  The specification: a loading edge on an allowed, eligible route is a capture; captures are numbered
  from 1; the newest capture is shown for 300 frames, unless the link goes down.
\<close>

definition frame_route :: "capture_frame \<Rightarrow> u32" where
  "frame_route f = coop_transition_pack (cf_source f) (word_of_int (cf_next_map f)) (cf_next_exit f)"

definition eligible :: "capture_frame \<Rightarrow> bool" where
  "eligible f \<longleftrightarrow> cf_source f < COOP_MAP_COUNT \<and> 0 \<le> cf_next_map f \<and> cf_next_map f < 216 \<and>
     (cf_host f \<and> cf_ordinary_eligible f \<and>
        coop_transition_ordinary_route_allowed (cf_source f) (word_of_int (cf_next_map f)) (cf_next_exit f) \<or>
      cf_shared f \<and> cf_shared_eligible f \<and>
        coop_transition_bblast_completion (cf_source f) (word_of_int (cf_next_map f)) (cf_next_exit f))"

fun captures :: "capture_frame list \<Rightarrow> bool" where
  "captures [] = False"
| "captures (f # fs) = (cf_link f \<and> cf_loading f \<and> \<not> (fs \<noteq> [] \<and> cf_loading (hd fs)) \<and> eligible f)"

fun capture_count :: "capture_frame list \<Rightarrow> nat" where
  "capture_count [] = 0"
| "capture_count (f # fs) = (if captures (f # fs) then Suc (capture_count fs) else capture_count fs)"

fun capture_age :: "capture_frame list \<Rightarrow> nat option" where
  "capture_age [] = None"
| "capture_age (f # fs) =
     (if \<not> cf_link f then None else if captures (f # fs) then Some 0 else map_option Suc (capture_age fs))"

definition published_transition :: "capture_frame list \<Rightarrow> u32 \<times> u32" where
  "published_transition fs =
     (case capture_age fs of
        None \<Rightarrow> (0, 0)
      | Some k \<Rightarrow> if k < 300 then (of_nat (capture_count fs), frame_route (fs ! k)) else (0, 0))"

lemma map_count: "uint COOP_MAP_COUNT = 216" by (simp add: COOP_MAP_COUNT_def)

lemma eligible_valid:
  assumes "eligible f" "t \<noteq> 0" shows "coop_transition_valid t (frame_route f)"
proof -
  have "(word_of_int (cf_next_map f) :: u32) < COOP_MAP_COUNT"
    using assms(1) by (simp add: eligible_def word_less_def map_count uint_word_of_int)
  with assms show ?thesis
    unfolding frame_route_def
    by (intro pack_valid) (auto simp: eligible_def coop_transition_route_allowed_def)
qed

lemma capture_age_captured: "capture_age fs = Some k \<Longrightarrow> k < length fs \<and> captures (drop k fs) \<and> eligible (fs ! k)"
  by (induction fs arbitrary: k) (auto split: if_splits)

lemma capture_count_le: "capture_count fs \<le> length fs"
  by (induction fs) auto

lemma capture_age_count: "capture_age fs = Some k \<Longrightarrow> 0 < capture_count fs"
  by (induction fs arbitrary: k) (auto split: if_splits)

definition capture_matches :: "capture_frame list \<Rightarrow> CoopTransitionCapture \<Rightarrow> bool" where
  "capture_matches fs c \<longleftrightarrow>
     was_loading c = (fs \<noteq> [] \<and> cf_loading (hd fs)) \<and> ticket_counter c = of_nat (capture_count fs) \<and>
     hold_frames c = (case capture_age fs of None \<Rightarrow> 0 | Some k \<Rightarrow> of_nat (299 - k)) \<and>
     (\<forall>k. capture_age fs = Some k \<and> k < 299 \<longrightarrow>
        capture_ticket c = of_nat (capture_count fs) \<and> capture_route c = frame_route (fs ! k))"

lemma capture_unfold:
  "coop_transition_capture c (cf_link f) (cf_host f) (cf_shared f)
       (cf_ordinary_eligible f) (cf_shared_eligible f) (cf_loading f) (cf_source f) (cf_next_map f) (cf_next_exit f) =
     (if \<not> cf_link f then
        (0, 0, c\<lparr>was_loading := cf_loading f, hold_frames := 0, capture_ticket := 0, capture_route := 0\<rparr>)
      else
        let c = (if cf_loading f \<and> \<not> was_loading c \<and> eligible f
                 then let t = ticket_counter c + 1; t = (if t = 0 then 1 else t)
                      in c\<lparr>ticket_counter := t, capture_ticket := t, capture_route := frame_route f, hold_frames := 300\<rparr>
                 else c);
            c = c\<lparr>was_loading := cf_loading f\<rparr>
        in if hold_frames c \<noteq> 0 \<and> coop_transition_valid (capture_ticket c) (capture_route c)
           then (capture_ticket c, capture_route c, c\<lparr>hold_frames := hold_frames c - 1\<rparr>)
           else (0, 0, c))"
proof -
  have "(cf_loading f \<and> \<not> was_loading c \<and> cf_source f < COOP_MAP_COUNT \<and>
      (cf_host f \<and> (0 \<le> cf_next_map f \<and> cf_next_map f < uint COOP_MAP_COUNT \<and>
         coop_transition_ordinary_route_allowed (cf_source f) (word_of_int (cf_next_map f)) (cf_next_exit f)) \<and>
         cf_ordinary_eligible f \<or>
       cf_shared f \<and> (0 \<le> cf_next_map f \<and> cf_next_map f < uint COOP_MAP_COUNT \<and>
         coop_transition_bblast_completion (cf_source f) (word_of_int (cf_next_map f)) (cf_next_exit f)) \<and>
         cf_shared_eligible f)) \<longleftrightarrow> cf_loading f \<and> \<not> was_loading c \<and> eligible f"
    unfolding eligible_def map_count by blast
  then show ?thesis unfolding coop_transition_capture_def frame_route_def Let_def by simp
qed

lemma hold_nonzero: "0 < n \<Longrightarrow> n \<le> 300 \<Longrightarrow> (of_nat n :: u32) \<noteq> 0"
  by (auto simp: word_unat_eq_iff unat_of_nat take_bit_eq_mod)

lemma capture_step_new:
  assumes "capture_matches fs c" "Suc (length fs) < 2 ^ 32" "captures (f # fs)"
  shows "coop_transition_capture c (cf_link f) (cf_host f) (cf_shared f)
       (cf_ordinary_eligible f) (cf_shared_eligible f) (cf_loading f) (cf_source f) (cf_next_map f) (cf_next_exit f) =
     (of_nat (Suc (capture_count fs)), frame_route f,
      \<lparr>was_loading = True, ticket_counter = of_nat (Suc (capture_count fs)), capture_ticket = of_nat (Suc (capture_count fs)),
       capture_route = frame_route f, hold_frames = 299\<rparr>)"
proof -
  from assms(3) have f: "cf_link f" "cf_loading f" "eligible f" and nl: "\<not> was_loading c"
    using assms(1) by (auto simp: capture_matches_def)
  have "Suc (capture_count fs) < 2 ^ 32" using capture_count_le [of fs] assms(2) by linarith
  then have n: "(of_nat (Suc (capture_count fs)) :: u32) \<noteq> 0"
    by (auto simp: word_unat_eq_iff unat_of_nat take_bit_eq_mod simp del: of_nat_Suc)
  have t: "ticket_counter c + 1 = of_nat (Suc (capture_count fs))"
    using assms(1) by (simp add: capture_matches_def)
  show ?thesis
    unfolding capture_unfold Let_def t using f nl n eligible_valid [OF f(3) n]
    by (simp del: of_nat_Suc)
qed

lemma capture_step_old:
  assumes "capture_matches fs c" "Suc (length fs) < 2 ^ 32" "cf_link f" "\<not> captures (f # fs)"
    and "capture_age fs = Some k" "k < 299"
  shows "coop_transition_capture c (cf_link f) (cf_host f) (cf_shared f)
       (cf_ordinary_eligible f) (cf_shared_eligible f) (cf_loading f) (cf_source f) (cf_next_map f) (cf_next_exit f) =
     (of_nat (capture_count fs), frame_route (fs ! k),
      c\<lparr>was_loading := cf_loading f, hold_frames := of_nat (299 - Suc k)\<rparr>)"
proof -
  have nc: "\<not> (cf_loading f \<and> \<not> was_loading c \<and> eligible f)"
    using assms(1,3,4) by (auto simp: capture_matches_def)
  have c: "hold_frames c = of_nat (299 - k)" "capture_ticket c = of_nat (capture_count fs)"
    "capture_route c = frame_route (fs ! k)" using assms(1,5,6) by (auto simp: capture_matches_def)
  have "capture_count fs < 2 ^ 32" using capture_count_le [of fs] assms(2) by linarith
  then have n: "(of_nat (capture_count fs) :: u32) \<noteq> 0"
    using capture_age_count [OF assms(5)] by (auto simp: word_unat_eq_iff unat_of_nat take_bit_eq_mod)
  have v: "coop_transition_valid (of_nat (capture_count fs)) (frame_route (fs ! k))"
    using capture_age_captured [OF assms(5)] n by (intro eligible_valid) simp_all
  have h: "(of_nat (299 - k) :: u32) \<noteq> 0" using assms(6) by (intro hold_nonzero) simp_all
  have "299 - k = Suc (299 - Suc k)" using assms(6) by simp
  then have m: "(of_nat (299 - k) :: u32) - 1 = of_nat (299 - Suc k)" by simp
  show ?thesis unfolding capture_unfold Let_def if_not_P [OF nc] using assms(3) v h m by (simp add: c)
qed

lemma capture_step_none:
  assumes "capture_matches fs c" "cf_link f" "\<not> captures (f # fs)" "\<And>k. capture_age fs = Some k \<Longrightarrow> 299 \<le> k"
  shows "coop_transition_capture c (cf_link f) (cf_host f) (cf_shared f)
       (cf_ordinary_eligible f) (cf_shared_eligible f) (cf_loading f) (cf_source f) (cf_next_map f) (cf_next_exit f) =
     (0, 0, c\<lparr>was_loading := cf_loading f\<rparr>) \<and> hold_frames c = 0"
proof -
  have nc: "\<not> (cf_loading f \<and> \<not> was_loading c \<and> eligible f)"
    using assms(1-3) by (auto simp: capture_matches_def)
  have h: "hold_frames c = 0" using assms(1,4) by (auto simp: capture_matches_def split: option.splits)
  show ?thesis unfolding capture_unfold Let_def if_not_P [OF nc] using assms(2) h by simp
qed

lemma capture_step:
  assumes "capture_matches fs c" "Suc (length fs) < 2 ^ 32"
    and "coop_transition_capture c (cf_link f) (cf_host f) (cf_shared f)
       (cf_ordinary_eligible f) (cf_shared_eligible f) (cf_loading f) (cf_source f) (cf_next_map f) (cf_next_exit f) = (t, r, c')"
  shows "capture_matches (f # fs) c' \<and> (t, r) = published_transition (f # fs)"
proof -
  consider (down) "\<not> cf_link f" | (new) "captures (f # fs)"
    | (old) k where "cf_link f" "\<not> captures (f # fs)" "capture_age fs = Some k" "k < 299"
    | (none) "cf_link f" "\<not> captures (f # fs)" "\<And>k. capture_age fs = Some k \<Longrightarrow> 299 \<le> k"
    by (metis not_le)
  then show ?thesis
  proof cases
    case down
    then have "t = 0" "r = 0" "c' = c\<lparr>was_loading := cf_loading f, hold_frames := 0, capture_ticket := 0, capture_route := 0\<rparr>"
      using assms(3) by (simp_all add: coop_transition_capture_def)
    with assms(1) down show ?thesis
      by (simp add: capture_matches_def published_transition_def)
  next
    case new
    then have "cf_link f" "cf_loading f" by simp_all
    with new assms(3) show ?thesis
      unfolding capture_step_new [OF assms(1,2) new]
      by (auto simp: capture_matches_def published_transition_def simp del: captures.simps)
  next
    case old
    then have "capture_age (f # fs) = Some (Suc k)" "capture_count (f # fs) = capture_count fs"
      by (simp_all del: captures.simps)
    with old assms(1,3) show ?thesis
      unfolding capture_step_old [OF assms(1,2) old]
      by (auto simp: capture_matches_def published_transition_def simp del: captures.simps capture_age.simps capture_count.simps)
  next
    case none
    have s: "t = 0" "r = 0" "c' = c\<lparr>was_loading := cf_loading f\<rparr>" "hold_frames c = 0"
      using capture_step_none [OF assms(1) none] assms(3) by simp_all
    have "capture_count (f # fs) = capture_count fs" using none(2) by (simp del: captures.simps)
    moreover have "300 \<le> j" if "capture_age (f # fs) = Some j" for j
      using that none by (auto simp del: captures.simps)
    then have "published_transition (f # fs) = (0, 0)"
      "(case capture_age (f # fs) of None \<Rightarrow> 0 | Some k \<Rightarrow> of_nat (299 - k)) = (0 :: u32)"
      "\<not> (\<exists>k. capture_age (f # fs) = Some k \<and> k < 299)"
      by (fastforce simp: published_transition_def simp del: captures.simps capture_age.simps split: option.split)+
    ultimately show ?thesis using s assms(1)
      by (auto simp: capture_matches_def simp del: captures.simps capture_age.simps capture_count.simps)
  qed
qed

lemma transition_capture_spec:
  assumes "length fs < 2 ^ 32"
  shows "(fst (capture_after fs), fst (snd (capture_after fs))) = published_transition fs"
proof -
  have "capture_matches fs (snd (snd (capture_after fs))) \<and>
      (fst (capture_after fs), fst (snd (capture_after fs))) = published_transition fs"
    using assms
  proof (induction fs)
    case Nil then show ?case by (simp add: capture_matches_def published_transition_def no_capture_def)
  next
    case (Cons f fs)
    then have "capture_matches fs (snd (snd (capture_after fs)))" by simp
    moreover obtain t r c' where "capture_after (f # fs) = (t, r, c')" by (rule prod_cases3)
    ultimately show ?case using capture_step [of fs "snd (snd (capture_after fs))" f t r c'] Cons.prems by simp
  qed
  then show ?thesis by simp
qed


text \<open>
  Capture implements its specification.  Over any history of frames (fewer than $2^{32}$), the words
  the host publishes are those of the newest capture: its ticket is its number, its route the packed
  map, destination and exit of the loading edge, it is shown for 300 frames and withdrawn when the link
  goes down, and otherwise both words are zero.
\<close>

theorem transition_capture_refines:
  assumes "length fs < 2 ^ 32"
  shows "(fst (capture_after fs), fst (snd (capture_after fs))) = published_transition fs"
  by (rule transition_capture_spec [OF assms])

definition japes_door :: "bool \<Rightarrow> capture_frame" where
  "japes_door loading = \<lparr>cf_link = True, cf_host = True, cf_shared = False, cf_ordinary_eligible = True,
     cf_shared_eligible = False, cf_loading = loading, cf_source = 7, cf_next_map = 4, cf_next_exit = 0\<rparr>"

lemma japes_allowed: "coop_transition_ordinary_route_allowed 7 4 0"
proof -
  have "Route 7 4 0 \<in> set coop_transition_routes"
    by (simp add: coop_transition_routes_def coop_transition_routes_parts)
  then show ?thesis
    by (auto simp: coop_transition_ordinary_route_allowed_def list_ex_iff is_route_def intro!: bexI [of _ "Route 7 4 0"])
qed

lemma japes_eligible: "eligible (japes_door b)"
  by (simp add: eligible_def japes_door_def japes_allowed COOP_MAP_COUNT_def)

lemma transition_capture_refines_witness:
  "fst (capture_after [japes_door True, japes_door False]) = 1 \<and>
   coop_transition_destination (fst (snd (capture_after [japes_door True, japes_door False]))) = 4"
proof -
  have "captures [japes_door True, japes_door False]" "\<not> captures [japes_door False]"
    using japes_eligible [of True] by (simp_all add: japes_door_def)
  then have "published_transition [japes_door True, japes_door False] = (1, coop_transition_pack 7 4 0)"
    by (simp add: published_transition_def frame_route_def japes_door_def del: captures.simps)
  with transition_capture_refines [of "[japes_door True, japes_door False]"] show ?thesis
    by (simp add: pack_destination del: capture_after.simps)
qed

section \<open>Following\<close>

text \<open>A guest's later polls: the inputs of \<^verbatim>\<open>coop_transition_should_follow\<close> besides ticket and route.\<close>

datatype follow_poll = FollowPoll (fp_ordinary: bool) (fp_shared: bool) (fp_playing: bool) (fp_loading: bool) (fp_map: u32) (fp_flags: u32)

fun follow_polls :: "CoopTransitionFollow \<Rightarrow> u32 \<Rightarrow> u32 \<Rightarrow> follow_poll list \<Rightarrow> bool list" where
  "follow_polls f t r [] = []"
| "follow_polls f t r (FollowPoll w s a l m fl # ps) =
     (let (b, f') = coop_transition_should_follow f True w s a l m fl t r in b # follow_polls f' t r ps)"

lemma should_follow_facts:
  assumes "coop_transition_should_follow f True w s a l m fl t r = (b, f')" "t \<noteq> 0"
  shows "follow_connected f' \<and> (b \<longrightarrow> coop_transition_valid t r \<and> m = coop_transition_source r \<and> a \<and> \<not> l \<and>
      seen_ticket f' = t \<and> follow_pending f' \<and>
      (w \<and> coop_transition_ordinary_route_allowed m (coop_transition_destination r) (coop_transition_exit r) \<or>
       s \<and> coop_transition_route_is_bblast r))"
  using assms by (auto simp: coop_transition_should_follow_def Let_def split: if_splits)

lemma should_follow_spent:
  assumes "coop_transition_should_follow f True w s a l m fl t r = (b, f')"
    and "follow_connected f" "seen_ticket f = t" "\<not> follow_pending f"
  shows "\<not> b \<and> f' = f"
  using assms by (auto simp: coop_transition_should_follow_def Let_def split: if_splits)

lemma follow_polls_spent:
  assumes "follow_connected f" "seen_ticket f = t" "\<not> follow_pending f"
  shows "True \<notin> set (follow_polls f t r ps)"
proof (induction ps)
  case (Cons p ps)
  obtain w s a l m fl where p: "p = FollowPoll w s a l m fl" by (cases p)
  obtain b f' where e: "coop_transition_should_follow f True w s a l m fl t r = (b, f')" by fastforce
  from should_follow_spent [OF e assms] Cons e p show ?case by simp
qed simp

text \<open>
  C15: a guest that follows goes where the host went, and goes once.  When the guest decides to follow
  the words a host published, some frame of the host among its last 300 was an eligible loading edge
  that left the guest's own map, and the unpacked destination and exit are that frame's; once the
  transition is consumed, no later poll of the same words follows again.
\<close>

theorem guest_follows_host:
  assumes "length fs < 2 ^ 32" "capture_after fs = (t, r, c)" "t \<noteq> 0"
    and "coop_transition_should_follow f True w s a l m fl t r = (True, f')"
  shows "(\<exists>k. k < 300 \<and> k < length fs \<and> captures (drop k fs) \<and> cf_source (fs ! k) = m \<and>
      uint (coop_transition_destination r) = cf_next_map (fs ! k) \<and> coop_transition_exit r = cf_next_exit (fs ! k)) \<and>
    True \<notin> set (follow_polls (coop_transition_consumed f') t r ps)"
proof -
  have "(t, r) = published_transition fs" using transition_capture_spec [OF assms(1)] assms(2) by simp
  with assms(3) obtain k where k: "capture_age fs = Some k" "k < 300" "r = frame_route (fs ! k)"
    by (auto simp: published_transition_def split: option.splits if_splits)
  note a = capture_age_captured [OF k(1)]
  note q = should_follow_facts [OF assms(4,3)]
  let ?f = "fs ! k"
  have al: "coop_transition_route_allowed (cf_source ?f) (word_of_int (cf_next_map ?f)) (cf_next_exit ?f)"
    using a by (auto simp: eligible_def coop_transition_route_allowed_def)
  note u = pack_fields [of "cf_source ?f" "word_of_int (cf_next_map ?f)" "cf_next_exit ?f"] allowed_bounds [OF al]
  have "uint (word_of_int (cf_next_map ?f) :: u32) = cf_next_map ?f"
    using a by (simp add: eligible_def uint_word_of_int)
  with u q a k have "\<exists>k. k < 300 \<and> k < length fs \<and> captures (drop k fs) \<and> cf_source (fs ! k) = m \<and>
      uint (coop_transition_destination r) = cf_next_map (fs ! k) \<and> coop_transition_exit r = cf_next_exit (fs ! k)"
    by (intro exI [of _ k]) (simp add: frame_route_def)
  moreover have "True \<notin> set (follow_polls (coop_transition_consumed f') t r ps)"
    using q by (intro follow_polls_spent) (simp_all add: coop_transition_consumed_def)
  ultimately show ?thesis by blast
qed

lemma guest_follows_host_witness:
  "let p = FollowPoll True False True False 7 1;
       f = \<lparr>follow_connected = True, seen_ticket = 0, follow_pending = False, follow_source = 0\<rparr>;
       r = coop_transition_pack 7 4 0;
       g = coop_transition_should_follow f True True False True False 7 1 1 r
   in fst g \<and> follow_polls (coop_transition_consumed (snd g)) 1 r [p] = [False]"
proof -
  define f where "f = \<lparr>follow_connected = True, seen_ticket = 0, follow_pending = False, follow_source = 0\<rparr>"
  define r where "r = coop_transition_pack 7 4 0"
  define g where "g = coop_transition_should_follow f True True False True False 7 1 1 r"
  let ?fs = "[japes_door True, japes_door False]"
  have "captures ?fs" "\<not> captures [japes_door False]"
    using japes_eligible [of True] by (simp_all add: japes_door_def)
  then have "published_transition ?fs = (1, r)"
    by (simp add: published_transition_def frame_route_def japes_door_def r_def del: captures.simps)
  with transition_capture_spec [of ?fs] have e: "capture_after ?fs = (1, r, snd (snd (capture_after ?fs)))"
    by (simp add: prod_eq_iff del: capture_after.simps)
  have v: "coop_transition_valid 1 r"
    unfolding r_def by (rule pack_valid)
      (simp_all add: coop_transition_route_allowed_def japes_allowed COOP_MAP_COUNT_def)
  have "coop_transition_source r = 7" "coop_transition_destination r = 4" "coop_transition_exit r = 0"
    unfolding r_def by (simp_all add: pack_fields)
  with v have fg: "fst g"
    by (simp add: g_def coop_transition_should_follow_def f_def Let_def japes_allowed)
  then have "coop_transition_should_follow f True True False True False 7 1 1 r = (True, snd g)"
    by (simp add: g_def prod_eq_iff)
  from guest_follows_host [OF _ e _ this, of "[FollowPoll True False True False 7 1]"] fg show ?thesis
    unfolding Let_def f_def [symmetric] r_def [symmetric] g_def [symmetric]
    by (auto simp: split_def)
qed

end
