(* ===== verification/Printf.thy ===== *)
theory Printf
  imports Prelude "HOL-Library.Signed_Division"
begin

text \<open>
  The patches' own \<^verbatim>\<open>printf\<close>: \<^verbatim>\<open>_Litob\<close> (\<^verbatim>\<open>xlitob.c\<close>), \<^verbatim>\<open>_Putfld\<close> and \<^verbatim>\<open>_Printf\<close>
  (\<^verbatim>\<open>xprintf.c\<close>).  The build targets MIPS o32, so \<open>int\<close>, \<open>long\<close> and pointers have 32 bits and
  \<open>long long\<close> has 64.  A format is the characters before its terminator; reading \<open>*s\<close> at the end gives
  the terminator, and moving past it is the fault \<open>PastTerminator\<close>.  An argument that is absent or of
  another type is \<open>BadArgument\<close> (undefined in C).  The conversion of floating-point values
  (\<^verbatim>\<open>xldtob.c\<close>) is a parameter.
\<close>

section \<open>Integers to digits\<close>

type_synonym u64 = "64 word"

abbreviation (input) FLAGS_SPACE :: u32 where "FLAGS_SPACE \<equiv> 1"
abbreviation (input) FLAGS_PLUS :: u32 where "FLAGS_PLUS \<equiv> 2"
abbreviation (input) FLAGS_MINUS :: u32 where "FLAGS_MINUS \<equiv> 4"
abbreviation (input) FLAGS_HASH :: u32 where "FLAGS_HASH \<equiv> 8"
abbreviation (input) FLAGS_ZERO :: u32 where "FLAGS_ZERO \<equiv> 16"

record Pft =
  pf_v :: u64
  pf_s :: string
  pf_n0 :: int
  pf_nz0 :: int
  pf_n1 :: int
  pf_nz1 :: int
  pf_n2 :: int
  pf_nz2 :: int
  pf_prec :: int
  pf_width :: int
  pf_nchar :: u32
  pf_flags :: u32
  pf_qual :: char

abbreviation (input) NUL :: char where "NUL \<equiv> CHR 0x00"

definition ldigs :: string where "ldigs = ''0123456789abcdef''"
definition udigs :: string where "udigs = ''0123456789ABCDEF''"

text \<open>\<^verbatim>\<open>__divdi3_recomp\<close> is C's truncating signed division.\<close>

definition lldiv :: "int \<Rightarrow> int \<Rightarrow> int \<times> int" where
  "lldiv num denom =
     (let q = num sdiv denom; r = num - denom * q in if q < 0 \<and> 0 < r then (q + 1, r - denom) else (q, r))"

text \<open>The \<open>while\<close> loop fills the buffer downwards; the number of free places is the fuel.\<close>

fun litob_loop :: "nat \<Rightarrow> string \<Rightarrow> int \<Rightarrow> int \<Rightarrow> string \<Rightarrow> int \<times> string" where
  "litob_loop 0 digs base v buff = (v, buff)"
| "litob_loop (Suc i) digs base v buff =
     (if v > 0 then let (q, r) = lldiv v base in litob_loop i digs base q (digs ! nat r # buff) else (v, buff))"

definition Litob :: "Pft \<Rightarrow> char \<Rightarrow> Pft" where
  "Litob x code =
     (let digs = (if code = CHR ''X'' then udigs else ldigs);
          base = (if code = CHR ''o'' then 8 else if code \<noteq> CHR ''x'' \<and> code \<noteq> CHR ''X'' then 10 else 16);
          v = pf_v x;
          ullval = (if (code = CHR ''d'' \<or> code = CHR ''i'') \<and> sint v < 0 then - v else v);
          buff = (if ullval \<noteq> 0 \<or> pf_prec x \<noteq> 0 then [digs ! unat (ullval mod base)] else []);
          (v, buff) = litob_loop (24 - length buff) digs (uint base) (sint (ullval div base)) buff;
          n1 = int (length buff);
          nz0 = (if n1 < pf_prec x then pf_prec x - n1 else pf_nz0 x);
          i = pf_width x - pf_n0 x - nz0 - n1;
          nz0 = (if pf_prec x < 0 \<and> pf_flags x AND (FLAGS_ZERO OR FLAGS_MINUS) = FLAGS_ZERO \<and> 0 < i then nz0 + i else nz0)
      in x\<lparr>pf_v := word_of_int v, pf_s := buff, pf_n1 := n1, pf_nz0 := nz0\<rparr>)"

text \<open>The reference: the digits of a number, most significant first, without leading zeros.\<close>

function radix :: "nat \<Rightarrow> nat \<Rightarrow> nat list" where
  "radix base v = (if base < 2 \<or> v = 0 then [] else radix base (v div base) @ [v mod base])"
  by pat_completeness auto
termination by (relation "measure snd") (auto intro: div_less_dividend)

declare radix.simps [simp del]

lemma radix_zero [simp]: "radix base 0 = []" by (simp add: radix.simps)

lemma radix_step: "2 \<le> base \<Longrightarrow> 0 < v \<Longrightarrow> radix base v = radix base (v div base) @ [v mod base]"
  by (subst radix.simps) simp

definition digits_value :: "nat \<Rightarrow> nat list \<Rightarrow> nat" where
  "digits_value base ds = foldl (\<lambda>n d. n * base + d) 0 ds"

lemma radix_value: "2 \<le> base \<Longrightarrow> digits_value base (radix base v) = v"
proof (induction v rule: less_induct)
  case (less v)
  show ?case
  proof (cases "v = 0")
    case False
    then have "v div base < v" using less.prems by simp
    from less.IH [OF this less.prems] False show ?thesis
      by (simp add: radix_step less.prems digits_value_def)
  qed (simp add: digits_value_def)
qed

lemma radix_digits: "2 \<le> base \<Longrightarrow> d \<in> set (radix base v) \<Longrightarrow> d < base"
proof (induction v rule: less_induct)
  case (less v)
  show ?case
  proof (cases "v = 0")
    case False
    then have "v div base < v" using less.prems by simp
    from less.IH [OF this less.prems(1)] False less.prems show ?thesis
      by (auto simp: radix_step)
  qed (use less.prems in simp)
qed

lemma radix_length: "2 \<le> base \<Longrightarrow> v < base ^ n \<Longrightarrow> length (radix base v) \<le> n"
proof (induction n arbitrary: v)
  case (Suc n)
  show ?case
  proof (cases "v = 0")
    case False
    have "v div base < base ^ n" using Suc.prems by (simp add: less_mult_imp_div_less mult.commute)
    from Suc.IH [OF Suc.prems(1) this] False Suc.prems(1) show ?thesis by (simp add: radix_step)
  qed simp
qed simp

lemma lldiv_positive: "0 < v \<Longrightarrow> 0 < b \<Longrightarrow> lldiv v b = (v div b, v mod b)"
  by (auto simp: lldiv_def Let_def signed_divide_int_def sgn_if minus_mult_div_eq_mod pos_imp_zdiv_neg_iff)

lemma litob_loop_radix:
  assumes "2 \<le> b" "v < b ^ i"
  shows "litob_loop i digs (int b) (int v) buff = (0, map ((!) digs) (radix b v) @ buff)"
  using assms(2)
proof (induction i arbitrary: v buff)
  case (Suc i)
  show ?case
  proof (cases "v = 0")
    case False
    have "v div b < b ^ i" using Suc.prems assms(1) by (simp add: less_mult_imp_div_less mult.commute)
    from Suc.IH [OF this] False assms(1) show ?thesis
      by (simp add: lldiv_positive radix_step zdiv_int [symmetric] zmod_int [symmetric])
  qed simp
qed simp


text \<open>The number and the base a conversion prints, and the digits it prints them with.\<close>

definition printed_value :: "u64 \<Rightarrow> char \<Rightarrow> nat" where
  "printed_value v code = (if (code = CHR ''d'' \<or> code = CHR ''i'') \<and> sint v < 0 then nat (- sint v) else unat v)"

definition printed_base :: "char \<Rightarrow> nat" where
  "printed_base code = (if code = CHR ''o'' then 8 else if code \<noteq> CHR ''x'' \<and> code \<noteq> CHR ''X'' then 10 else 16)"

definition printed_digits :: "u64 \<Rightarrow> char \<Rightarrow> int \<Rightarrow> nat list" where
  "printed_digits v code p =
     (if printed_value v code = 0 \<and> p \<noteq> 0 then [0] else radix (printed_base code) (printed_value v code))"

definition digit_chars :: "char \<Rightarrow> string" where
  "digit_chars code = (if code = CHR ''X'' then udigs else ldigs)"

lemma printed_base: "2 \<le> printed_base code" "8 \<le> printed_base code" "printed_base code \<le> 16"
  by (auto simp: printed_base_def)

lemma printed_value_bound: "printed_value v code < 2 ^ 64"
proof -
  have "- (2 ^ 63) \<le> sint v" using sint_ge [of v] by simp
  moreover have "unat v < 2 ^ 64" using unsigned_less [of v, where ?'a = nat] by simp
  ultimately show ?thesis by (auto simp: printed_value_def)
qed

lemma printed_digits_length: "length (printed_digits v code p) \<le> 22"
proof -
  have "printed_value v code < 8 ^ 22" using printed_value_bound [of v code] by simp
  also have "8 ^ 22 \<le> printed_base code ^ 22" using printed_base(2) by (rule power_mono) simp
  finally have "length (radix (printed_base code) (printed_value v code)) \<le> 22"
    by (rule radix_length [OF printed_base(1)])
  then show ?thesis by (simp add: printed_digits_def)
qed

lemma printed_digits_value: "digits_value (printed_base code) (printed_digits v code p) = printed_value v code"
  using radix_value [OF printed_base(1), of code "printed_value v code"]
  by (simp add: printed_digits_def digits_value_def split: if_split)

lemma unat_minus_word: "sint (v :: u64) < 0 \<Longrightarrow> unat (- v) = nat (- sint v)"
proof -
  assume n: "sint v < 0"
  have "- v = word_of_int (- sint v)" by simp
  then have "uint (- v) = (- sint v) mod 2 ^ 64" by (simp only: uint_word_of_int) simp
  also have "\<dots> = - sint v" using n sint_ge [of v] by (intro mod_pos_pos_trivial) simp_all
  finally show ?thesis by (simp add: unat_eq_nat_uint)
qed

lemma sint_small: "unat (w :: u64) < 2 ^ 63 \<Longrightarrow> sint w = int (unat w)"
proof -
  assume "unat w < 2 ^ 63"
  then have "int (unat w) < int (2 ^ 63)" by (simp only: of_nat_less_iff)
  then have u: "0 \<le> uint w" "uint w < 2 ^ 63" by simp_all
  have "sint w = signed_take_bit (64 - Suc 0) (uint w)" by (subst sint_uint) simp
  also have "\<dots> = uint w" using u(1) by (intro signed_take_bit_int_eq_self order_trans [OF _ u(1)]) (use u(2) in simp_all)
  finally show ?thesis by simp
qed

definition litob_base :: "char \<Rightarrow> u64" where
  "litob_base code = (if code = CHR ''o'' then 8 else if code \<noteq> CHR ''x'' \<and> code \<noteq> CHR ''X'' then 10 else 16)"

definition litob_value :: "u64 \<Rightarrow> char \<Rightarrow> u64" where
  "litob_value v code = (if (code = CHR ''d'' \<or> code = CHR ''i'') \<and> sint v < 0 then - v else v)"

lemma litob_base: "unat (litob_base code) = printed_base code" "uint (litob_base code) = int (printed_base code)"
  by (simp_all add: litob_base_def printed_base_def)

lemma litob_value: "unat (litob_value v code) = printed_value v code"
  by (simp add: litob_value_def printed_value_def unat_minus_word)

lemma litob_zero: "litob_value v code = 0 \<longleftrightarrow> printed_value v code = 0"
  using litob_value [of v code] by (metis unat_0 unat_eq_zero)

lemma litob_quotient: "sint (litob_value v code div litob_base code) = int (printed_value v code div printed_base code)"
proof -
  have "printed_value v code div printed_base code \<le> printed_value v code div 8"
    using printed_base(2) by (intro div_le_mono2) simp_all
  also have "\<dots> < 2 ^ 63" using printed_value_bound [of v code] by (simp add: less_mult_imp_div_less)
  finally have "unat (litob_value v code div litob_base code) < 2 ^ 63"
    by (simp add: unat_div litob_value litob_base)
  from sint_small [OF this] show ?thesis by (simp add: unat_div litob_value litob_base)
qed

lemma litob_rest_fits:
  assumes "n \<le> 1" shows "printed_value v code div printed_base code < printed_base code ^ (24 - n)"
proof -
  have "printed_value v code div printed_base code \<le> printed_value v code" by (rule div_le_dividend)
  also have "\<dots> < 8 ^ 22" using printed_value_bound [of v code] by simp
  also have "\<dots> \<le> printed_base code ^ 22" using printed_base(2) by (rule power_mono) simp
  also have "\<dots> \<le> printed_base code ^ (24 - n)" using assms printed_base(1) [of code] by (intro power_increasing) simp_all
  finally show ?thesis .
qed

lemma litob_buffer:
  "litob_loop (24 - length first) digs (uint (litob_base code)) (sint (litob_value v code div litob_base code)) first =
     (0, map ((!) digs) (radix (printed_base code) (printed_value v code div printed_base code)) @ first)"
  if "length first \<le> 1"
  unfolding litob_base(2) litob_quotient
  by (rule litob_loop_radix [OF printed_base(1) litob_rest_fits [OF that]])

lemma printed_digits_split:
  "printed_digits v code p =
     radix (printed_base code) (printed_value v code div printed_base code) @
     (if printed_value v code \<noteq> 0 \<or> p \<noteq> 0 then [printed_value v code mod printed_base code] else [])"
  using printed_base(1) [of code] by (simp add: printed_digits_def radix_step split: if_split)

text \<open>Leading zeros: up to the precision, or up to the width under the zero flag.\<close>

definition leading_zeros :: "u32 \<Rightarrow> int \<Rightarrow> int \<Rightarrow> int \<Rightarrow> int \<Rightarrow> int" where
  "leading_zeros flags width p n0 n =
     (if n < p then p - n
      else if p < 0 \<and> flags AND FLAGS_ZERO \<noteq> 0 \<and> flags AND FLAGS_MINUS = 0 then max 0 (width - n0 - n) else 0)"

lemma zero_not_minus:
  "flags AND (FLAGS_ZERO OR FLAGS_MINUS) = FLAGS_ZERO \<longleftrightarrow> flags AND FLAGS_ZERO \<noteq> 0 \<and> flags AND FLAGS_MINUS = (0 :: u32)"
proof -
  have z: "flags AND 16 \<noteq> 0 \<longleftrightarrow> bit flags 4" and m: "flags AND 4 \<noteq> 0 \<longleftrightarrow> bit flags 2"
    using and_bit32 [of flags 4] and_bit32 [of flags 2] by (simp_all add: bit32_def)
  have "flags AND 20 = 16 \<longleftrightarrow> bit flags 4 \<and> \<not> bit flags 2"
  proof
    assume "flags AND 20 = 16"
    then have "bit (flags AND 20) n = bit (16 :: u32) n" for n by simp
    from this [of 4] this [of 2] show "bit flags 4 \<and> \<not> bit flags 2"
      by (simp add: bit_and_iff bit_numeral_rec)
  next
    have e: "(20 :: u32) = bit32 4 OR bit32 2" "(16 :: u32) = bit32 4" by (simp_all add: bit32_def)
    assume "bit flags 4 \<and> \<not> bit flags 2"
    then show "flags AND 20 = 16" unfolding e
      by (intro bit_word_eqI) (auto simp: bit_and_iff bit_or_iff)
  qed
  moreover have "flags AND 4 = 0 \<longleftrightarrow> \<not> bit flags 2" using m by blast
  ultimately show ?thesis using z by simp
qed

lemma Litob_result:
  assumes "pf_nz0 x = 0"
  shows "Litob x code = x\<lparr>pf_v := 0,
     pf_s := map ((!) (digit_chars code)) (printed_digits (pf_v x) code (pf_prec x)),
     pf_n1 := int (length (printed_digits (pf_v x) code (pf_prec x))),
     pf_nz0 := leading_zeros (pf_flags x) (pf_width x) (pf_prec x) (pf_n0 x)
       (int (length (printed_digits (pf_v x) code (pf_prec x))))\<rparr>"
proof -
  define ds where "ds = printed_digits (pf_v x) code (pf_prec x)"
  define first where "first = (if litob_value (pf_v x) code \<noteq> 0 \<or> pf_prec x \<noteq> 0
    then [digit_chars code ! unat (litob_value (pf_v x) code mod litob_base code)] else [])"
  have "length first \<le> 1" by (simp add: first_def)
  from litob_buffer [OF this, of "digit_chars code" code "pf_v x"]
  have loop: "litob_loop (24 - length first) (digit_chars code) (uint (litob_base code))
      (sint (litob_value (pf_v x) code div litob_base code)) first = (0, map ((!) (digit_chars code)) ds)"
    by (simp add: ds_def printed_digits_split first_def litob_zero unat_mod litob_value litob_base)
  show ?thesis
    unfolding Litob_def litob_value_def [symmetric] litob_base_def [symmetric] digit_chars_def [symmetric]
      Let_def first_def [symmetric] loop ds_def [symmetric] zero_not_minus
    using assms by (simp add: leading_zeros_def max_def)
qed

section \<open>Conversions\<close>

datatype printf_fault = BadArgument | PastTerminator

datatype printf_arg =
    AInt u32
  | ALongLong u64
  | AString string
  | APointer u32
  | ADouble u64
  | ACount

text \<open>A store through the pointer of \<open>%n\<close>: the bytes written so far, cut to the width of the qualifier.\<close>

datatype count_store = CountStore char nat

type_synonym 'a faulty = "printf_fault + 'a"

text \<open>\<open>int\<close> and \<open>long\<close> are one type here; \<open>long long\<close> is the other.\<close>

fun integer_arg :: "char \<Rightarrow> printf_arg list \<Rightarrow> (u64 \<times> printf_arg list) faulty" where
  "integer_arg qual (AInt w # args) = (if qual = CHR ''L'' then Inl BadArgument else Inr (scast w, args))"
| "integer_arg qual (ALongLong w # args) = (if qual = CHR ''L'' then Inr (w, args) else Inl BadArgument)"
| "integer_arg qual _ = Inl BadArgument"

text \<open>
  \<open>Putfld ldtob x args code\<close> is the field and the buffer \<open>ac\<close>, the arguments left and the stores made.
\<close>

definition signed_field :: "Pft \<Rightarrow> u64 \<Rightarrow> char \<Rightarrow> Pft \<times> string" where
  "signed_field x v code =
     (let v = (if pf_qual x = CHR ''h'' then scast (ucast v :: u16) else v);
          ac = (if sint v < 0 then ''-'' else if pf_flags x AND FLAGS_PLUS \<noteq> 0 then ''+''
                else if pf_flags x AND FLAGS_SPACE \<noteq> 0 then '' '' else [])
      in (Litob (x\<lparr>pf_v := v, pf_n0 := int (length ac)\<rparr>) code, ac))"

definition unsigned_field :: "Pft \<Rightarrow> u64 \<Rightarrow> char \<Rightarrow> Pft \<times> string" where
  "unsigned_field x v code =
     (let v = (if pf_qual x = CHR ''h'' then ucast (ucast v :: u16)
               else if pf_qual x = NUL then ucast (ucast v :: u32) else v);
          ac = (if pf_flags x AND FLAGS_HASH \<noteq> 0
                then ''0'' @ (if code = CHR ''x'' \<or> code = CHR ''X'' then [code] else []) else [])
      in (Litob (x\<lparr>pf_v := v, pf_n0 := int (length ac)\<rparr>) code, ac))"

definition float_sign :: "Pft \<Rightarrow> u64 \<Rightarrow> string" where
  "float_sign x d =
     (if bit d 63 then ''-'' else if pf_flags x AND FLAGS_PLUS \<noteq> 0 then ''+''
      else if pf_flags x AND FLAGS_SPACE \<noteq> 0 then '' '' else [])"

definition count_store :: "Pft \<Rightarrow> count_store" where
  "count_store x = CountStore (pf_qual x)
     (if pf_qual x = CHR ''h'' then unat (ucast (pf_nchar x) :: u16) else unat (pf_nchar x))"

definition Putfld ::
  "(Pft \<Rightarrow> char \<Rightarrow> Pft) \<Rightarrow> Pft \<Rightarrow> printf_arg list \<Rightarrow> char \<Rightarrow>
     (Pft \<times> string \<times> printf_arg list \<times> count_store list) faulty" where
  "Putfld ldtob x args code =
     (let x = x\<lparr>pf_n0 := 0, pf_nz0 := 0, pf_n1 := 0, pf_nz1 := 0, pf_n2 := 0, pf_nz2 := 0\<rparr> in
      if code = CHR ''c'' then
        (case args of AInt w # args \<Rightarrow> Inr (x\<lparr>pf_n0 := 1\<rparr>, [char_of (unat w)], args, []) | _ \<Rightarrow> Inl BadArgument)
      else if code = CHR ''d'' \<or> code = CHR ''i'' then
        (case integer_arg (pf_qual x) args of Inl e \<Rightarrow> Inl e
         | Inr (v, args) \<Rightarrow> (let (x, ac) = signed_field x v code in Inr (x, ac, args, [])))
      else if code \<in> set ''xXuo'' then
        (case integer_arg (pf_qual x) args of Inl e \<Rightarrow> Inl e
         | Inr (v, args) \<Rightarrow> (let (x, ac) = unsigned_field x v code in Inr (x, ac, args, [])))
      else if code \<in> set ''efgEG'' then
        (case args of ADouble d # args \<Rightarrow>
           Inr (ldtob (x\<lparr>pf_v := d, pf_n0 := int (length (float_sign x d))\<rparr>) code, float_sign x d, args, [])
         | _ \<Rightarrow> Inl BadArgument)
      else if code = CHR ''n'' then
        (case args of ACount # args \<Rightarrow> Inr (x, [], args, [count_store x]) | _ \<Rightarrow> Inl BadArgument)
      else if code = CHR ''p'' then
        (case args of APointer w # args \<Rightarrow> Inr (Litob (x\<lparr>pf_v := scast w\<rparr>) (CHR ''x''), [], args, [])
         | _ \<Rightarrow> Inl BadArgument)
      else if code = CHR ''s'' then
        (case args of AString s # args \<Rightarrow>
           (let n1 = int (length s); n1 = (if 0 \<le> pf_prec x \<and> pf_prec x < n1 then pf_prec x else n1)
            in Inr (x\<lparr>pf_s := s, pf_n1 := n1\<rparr>, [], args, []))
         | _ \<Rightarrow> Inl BadArgument)
      else Inr (x\<lparr>pf_n0 := 1\<rparr>, [if code = CHR ''%'' then CHR ''%'' else code], args, []))"

section \<open>Output\<close>

text \<open>
  The caller's \<open>pfn\<close>: it takes the next bytes and answers whether to go on (a null result stops).
\<close>

type_synonym 'w sink = "'w \<Rightarrow> string \<Rightarrow> bool \<times> 'w"

datatype 'w put_result = Stopped u32 'w | Going u32 'w

text \<open>\<open>PUT\<close>, one call of \<open>pfn\<close> when there is something to write.\<close>

definition PUT :: "'w sink \<Rightarrow> string \<Rightarrow> u32 \<Rightarrow> 'w \<Rightarrow> 'w put_result" where
  "PUT pfn s nchar w =
     (if 0 < length s then case pfn w s of (True, w) \<Rightarrow> Going (nchar + of_nat (length s)) w | (False, w) \<Rightarrow> Stopped nchar w
      else Going nchar w)"

fun PUTS :: "'w sink \<Rightarrow> string list \<Rightarrow> u32 \<Rightarrow> 'w \<Rightarrow> 'w put_result" where
  "PUTS pfn [] nchar w = Going nchar w"
| "PUTS pfn (s # ss) nchar w =
     (case PUT pfn s nchar w of Stopped nchar w \<Rightarrow> Stopped nchar w | Going nchar w \<Rightarrow> PUTS pfn ss nchar w)"

text \<open>\<open>PAD\<close> writes runs of at most \<open>MAX_PAD = 32\<close> blanks or zeros.\<close>

function PAD :: "char \<Rightarrow> nat \<Rightarrow> string list" where
  "PAD c j = (if 0 < j then let i = (if 32 < j then 32 else j) in replicate i c # PAD c (j - i) else [])"
  by pat_completeness auto
termination by (relation "measure snd") (auto split: if_splits)

declare PAD.simps [simp del]

definition field_pieces :: "Pft \<Rightarrow> string \<Rightarrow> string list" where
  "field_pieces x ac =
     (let width = pf_width x - (pf_n0 x + pf_nz0 x + pf_n1 x + pf_nz1 x + pf_n2 x + pf_nz2 x)
      in (if pf_flags x AND FLAGS_MINUS = 0 then PAD (CHR '' '') (nat width) else []) @
         [take (nat (pf_n0 x)) ac] @ PAD (CHR ''0'') (nat (pf_nz0 x)) @
         [take (nat (pf_n1 x)) (pf_s x)] @ PAD (CHR ''0'') (nat (pf_nz1 x)) @
         [take (nat (pf_n2 x)) (drop (nat (pf_n1 x)) (pf_s x))] @ PAD (CHR ''0'') (nat (pf_nz2 x)) @
         (if pf_flags x AND FLAGS_MINUS \<noteq> 0 then PAD (CHR '' '') (nat width) else []))"

section \<open>Directives\<close>

fun scan_text :: "string \<Rightarrow> string \<times> string" where
  "scan_text [] = ([], [])"
| "scan_text (c # cs) = (if c = CHR ''%'' then ([], c # cs) else let (t, rest) = scan_text cs in (c # t, rest))"

definition flag_bits :: "(char \<times> u32) list" where
  "flag_bits = zip '' +-#0'' [FLAGS_SPACE, FLAGS_PLUS, FLAGS_MINUS, FLAGS_HASH, FLAGS_ZERO]"

fun scan_flags :: "u32 \<Rightarrow> string \<Rightarrow> u32 \<times> string" where
  "scan_flags f [] = (f, [])"
| "scan_flags f (c # cs) = (case map_of flag_bits c of None \<Rightarrow> (f, c # cs) | Some b \<Rightarrow> scan_flags (f OR b) cs)"

definition is_digit :: "char \<Rightarrow> bool" where
  "is_digit c \<longleftrightarrow> 48 \<le> (of_char c :: int) \<and> (of_char c :: int) \<le> 57"

fun ATOI :: "int \<Rightarrow> string \<Rightarrow> int \<times> string" where
  "ATOI dst [] = (dst, [])"
| "ATOI dst (c # cs) =
     (if is_digit c then ATOI (if dst < 999 then dst * 10 + of_char c - 48 else dst) cs else (dst, c # cs))"

text \<open>\<open>*s\<close>: the terminator at the end.\<close>

definition peek :: "string \<Rightarrow> char" where
  "peek s = (case s of [] \<Rightarrow> NUL | c # _ \<Rightarrow> c)"

text \<open>Width and flags, precision, qualifier.  The negation of \<open>INT_MIN\<close> is undefined in C.\<close>

definition scan_width :: "u32 \<Rightarrow> string \<Rightarrow> printf_arg list \<Rightarrow> (u32 \<times> int \<times> string \<times> printf_arg list) faulty" where
  "scan_width flags s args =
     (if peek s = CHR ''*'' then
        (case args of AInt w # args \<Rightarrow>
           if sint w < 0 then Inr (flags OR FLAGS_MINUS, - sint w, tl s, args) else Inr (flags, sint w, tl s, args)
         | _ \<Rightarrow> Inl BadArgument)
      else let (width, s) = ATOI 0 s in Inr (flags, width, s, args))"

definition scan_prec :: "string \<Rightarrow> printf_arg list \<Rightarrow> (int \<times> string \<times> printf_arg list) faulty" where
  "scan_prec s args =
     (if peek s \<noteq> CHR ''.'' then Inr (- 1, s, args)
      else if peek (tl s) = CHR ''*'' then
        (case args of AInt w # args \<Rightarrow> Inr (sint w, tl (tl s), args) | _ \<Rightarrow> Inl BadArgument)
      else let (p, s) = ATOI 0 (tl s) in Inr (p, s, args))"

definition scan_qual :: "string \<Rightarrow> char \<times> string" where
  "scan_qual s =
     (let (qual, s) = (if peek s = CHR ''h'' \<or> peek s = CHR ''l'' \<or> peek s = CHR ''L'' then (peek s, tl s) else (NUL, s))
      in if qual = CHR ''l'' \<and> peek s = CHR ''l'' then (CHR ''L'', tl s) else (qual, s))"

text \<open>Everything between the percent sign and the conversion character, which is the head of the rest.\<close>

definition scan_directive :: "string \<Rightarrow> printf_arg list \<Rightarrow> u32 \<Rightarrow> (Pft \<times> string \<times> printf_arg list) faulty" where
  "scan_directive s args nchar =
     (let (flags, s) = scan_flags 0 s in
      case scan_width flags s args of Inl e \<Rightarrow> Inl e
      | Inr (flags, width, s, args) \<Rightarrow>
          (case scan_prec s args of Inl e \<Rightarrow> Inl e
           | Inr (p, s, args) \<Rightarrow>
               (let (qual, s) = scan_qual s in
                Inr (\<lparr>pf_v = 0, pf_s = [], pf_n0 = 0, pf_nz0 = 0, pf_n1 = 0, pf_nz1 = 0, pf_n2 = 0, pf_nz2 = 0,
                  pf_prec = p, pf_width = width, pf_nchar = nchar, pf_flags = flags, pf_qual = qual\<rparr>, s, args))))"

section \<open>The format loop\<close>

lemma scan_text_split: "scan_text s = (t, rest) \<Longrightarrow> s = t @ rest"
  by (induction s arbitrary: t rest) (auto split: if_splits prod.splits)

lemma scan_text_rest: "scan_text s = (t, rest) \<Longrightarrow> CHR ''%'' \<notin> set t \<and> (rest = [] \<or> hd rest = CHR ''%'')"
  by (induction s arbitrary: t rest) (auto split: if_splits prod.splits)

lemma scan_flags_split: "scan_flags f s = (f', rest) \<Longrightarrow> \<exists>t. s = t @ rest \<and> set t \<subseteq> set '' +-#0''"
proof (induction s arbitrary: f)
  case (Cons c cs)
  show ?case
  proof (cases "map_of flag_bits c")
    case None with Cons.prems show ?thesis by auto
  next
    case (Some b)
    with Cons.prems have "scan_flags (f OR b) cs = (f', rest)" by simp
    from Cons.IH [OF this] obtain t where t: "cs = t @ rest" "set t \<subseteq> set '' +-#0''" by blast
    have "c \<in> set '' +-#0''" using Some by (auto simp: flag_bits_def split: if_splits)
    with t show ?thesis by (intro exI [of _ "c # t"]) auto
  qed
qed simp

lemma ATOI_split: "ATOI d s = (d', rest) \<Longrightarrow> \<exists>t. s = t @ rest \<and> (\<forall>c \<in> set t. is_digit c)"
proof (induction s arbitrary: d)
  case (Cons c cs)
  show ?case
  proof (cases "is_digit c")
    case True
    with Cons.prems have "ATOI (if d < 999 then d * 10 + of_char c - 48 else d) cs = (d', rest)" by simp
    from Cons.IH [OF this] obtain t where "cs = t @ rest" "\<forall>c \<in> set t. is_digit c" by blast
    with True show ?thesis by (intro exI [of _ "c # t"]) auto
  qed (use Cons.prems in simp)
qed simp

lemma ATOI_bounds: "ATOI d s = (d', rest) \<Longrightarrow> 0 \<le> d \<Longrightarrow> d \<le> 9989 \<Longrightarrow> 0 \<le> d' \<and> d' \<le> 9989"
proof (induction s arbitrary: d)
  case (Cons c cs)
  show ?case
  proof (cases "is_digit c")
    case True
    with Cons.prems(1) have e: "ATOI (if d < 999 then d * 10 + of_char c - 48 else d) cs = (d', rest)" by simp
    have "0 \<le> (if d < 999 then d * 10 + of_char c - 48 else d) \<and> (if d < 999 then d * 10 + of_char c - 48 else d) \<le> 9989"
      using True Cons.prems(2,3) by (auto simp: is_digit_def)
    with Cons.IH [OF e] show ?thesis by blast
  qed (use Cons.prems in simp)
qed simp

text \<open>The characters a directive may have between its percent sign and its conversion.\<close>

definition modifier :: "char \<Rightarrow> bool" where
  "modifier c \<longleftrightarrow> c \<in> set '' +-#0*.hlL'' \<or> is_digit c"

lemma modifiers_append: "(\<forall>c \<in> set (s @ t). modifier c) \<longleftrightarrow> (\<forall>c \<in> set s. modifier c) \<and> (\<forall>c \<in> set t. modifier c)"
  by auto

lemma peek_some: "peek s = c \<Longrightarrow> c \<noteq> NUL \<Longrightarrow> s = c # tl s"
  by (cases s) (auto simp: peek_def)

lemma scan_width_split:
  assumes "scan_width f s args = Inr (f', width, rest, args')"
  shows "\<exists>t. s = t @ rest \<and> (\<forall>c \<in> set t. modifier c)"
proof (cases "peek s = CHR ''*''")
  case True
  from peek_some [OF True] have "s = ''*'' @ tl s" by simp
  moreover have "rest = tl s" using assms True by (auto simp: scan_width_def split: list.splits printf_arg.splits if_splits)
  ultimately show ?thesis by (intro exI [of _ "''*''"]) (simp add: modifier_def)
next
  case False
  then have "ATOI 0 s = (width, rest)" using assms by (auto simp: scan_width_def split: prod.splits)
  from ATOI_split [OF this] show ?thesis by (auto simp: modifier_def)
qed

lemma scan_prec_split:
  assumes "scan_prec s args = Inr (p, rest, args')"
  shows "\<exists>t. s = t @ rest \<and> (\<forall>c \<in> set t. modifier c)"
proof (cases "peek s = CHR ''.''")
  case True
  from peek_some [OF True] have s: "s = CHR ''.'' # tl s" by simp
  show ?thesis
  proof (cases "peek (tl s) = CHR ''*''")
    case star: True
    from peek_some [OF star] s have "s = ''.*'' @ tl (tl s)" by simp
    moreover have "rest = tl (tl s)"
      using assms True star by (auto simp: scan_prec_def split: list.splits printf_arg.splits)
    ultimately show ?thesis by (intro exI [of _ "''.*''"]) (simp add: modifier_def)
  next
    case False
    then have "ATOI 0 (tl s) = (p, rest)" using assms True by (auto simp: scan_prec_def split: prod.splits)
    from ATOI_split [OF this] obtain t where "tl s = t @ rest" "\<forall>c \<in> set t. is_digit c" by blast
    with s show ?thesis by (intro exI [of _ "CHR ''.'' # t"]) (auto simp: modifier_def)
  qed
next
  case False
  with assms show ?thesis by (intro exI [of _ "[]"]) (simp add: scan_prec_def)
qed

lemma scan_qual_split:
  assumes "scan_qual s = (qual, rest)"
  shows "\<exists>t. s = t @ rest \<and> (\<forall>c \<in> set t. modifier c)"
proof (cases "peek s = CHR ''h'' \<or> peek s = CHR ''l'' \<or> peek s = CHR ''L''")
  case True
  then have s: "s = [peek s] @ tl s" and m: "modifier (peek s)" using peek_some [of s "peek s"] by (auto simp: modifier_def)
  show ?thesis
  proof (cases "peek s = CHR ''l'' \<and> peek (tl s) = CHR ''l''")
    case True
    then have "rest = tl (tl s)" "tl s = CHR ''l'' # tl (tl s)"
      using assms peek_some [of "tl s" "CHR ''l''"] by (auto simp: scan_qual_def)
    with s m True show ?thesis by (intro exI [of _ "[peek s, CHR ''l'']"]) simp
  next
    case False
    then have "rest = tl s" using assms \<open>peek s = _ \<or> _\<close> by (auto simp: scan_qual_def)
    with s m show ?thesis by (intro exI [of _ "[peek s]"]) simp
  qed
next
  case False
  with assms show ?thesis by (intro exI [of _ "[]"]) (simp add: scan_qual_def)
qed

lemma scan_directive_split:
  assumes "scan_directive s args n = Inr (x, rest, args')"
  shows "\<exists>t. s = t @ rest \<and> (\<forall>c \<in> set t. modifier c)"
proof -
  obtain f s1 where 1: "scan_flags 0 s = (f, s1)" by fastforce
  then have "scan_directive s args n \<noteq> Inl e" for e using assms by simp
  then obtain f' width s2 a2 where 2: "scan_width f s1 args = Inr (f', width, s2, a2)"
    using assms 1 by (cases "scan_width f s1 args") (auto simp: scan_directive_def)
  then obtain p s3 a3 where 3: "scan_prec s2 a2 = Inr (p, s3, a3)"
    using assms 1 by (cases "scan_prec s2 a2") (auto simp: scan_directive_def)
  obtain qual s4 where 4: "scan_qual s3 = (qual, s4)" by fastforce
  have r: "rest = s4" using assms 1 2 3 4 by (auto simp: scan_directive_def)
  from scan_flags_split [OF 1] obtain t1 where "s = t1 @ s1" "\<forall>c \<in> set t1. modifier c" by (auto simp: modifier_def)
  moreover from scan_width_split [OF 2] obtain t2 where "s1 = t2 @ s2" "\<forall>c \<in> set t2. modifier c" by blast
  moreover from scan_prec_split [OF 3] obtain t3 where "s2 = t3 @ s3" "\<forall>c \<in> set t3. modifier c" by blast
  moreover from scan_qual_split [OF 4] obtain t4 where "s3 = t4 @ s4" "\<forall>c \<in> set t4. modifier c" by blast
  ultimately show ?thesis unfolding r by (intro exI [of _ "t1 @ t2 @ t3 @ t4"]) auto
qed

text \<open>
  \<^verbatim>\<open>_Printf\<close>: the count it returns, the stores of \<open>%n\<close> and the world of \<open>pfn\<close>.  After the field of
  a conversion character that is the terminator, \<open>fmt = s + 1\<close> has left the string.
\<close>

function (sequential) Printf ::
  "(Pft \<Rightarrow> char \<Rightarrow> Pft) \<Rightarrow> 'w sink \<Rightarrow> string \<Rightarrow> printf_arg list \<Rightarrow> u32 \<Rightarrow> count_store list \<Rightarrow> 'w \<Rightarrow>
     (u32 \<times> count_store list \<times> 'w) faulty" where
  "Printf ldtob pfn fmt args nchar stores w =
     (case scan_text fmt of (t, rest) \<Rightarrow>
      (case PUT pfn t nchar w of Stopped nchar w \<Rightarrow> Inr (nchar, stores, w)
       | Going nchar w \<Rightarrow>
           (case rest of [] \<Rightarrow> Inr (nchar, stores, w)
            | _ # s \<Rightarrow>
                (case scan_directive s args nchar of Inl e \<Rightarrow> Inl e
                 | Inr (x, s, args) \<Rightarrow>
                     (case Putfld ldtob x args (peek s) of Inl e \<Rightarrow> Inl e
                      | Inr (x, ac, args, st) \<Rightarrow>
                          (case PUTS pfn (field_pieces x ac) nchar w of
                             Stopped nchar w \<Rightarrow> Inr (nchar, stores @ st, w)
                           | Going nchar w \<Rightarrow>
                               (case s of [] \<Rightarrow> Inl PastTerminator
                                | _ # fmt \<Rightarrow> Printf ldtob pfn fmt args nchar (stores @ st) w)))))))"
  by pat_completeness auto
termination
  by (relation "measure (\<lambda>(ldtob, pfn, fmt, args, nchar, stores, w). length fmt)")
    (auto dest!: scan_text_split [OF sym] scan_directive_split)

declare Printf.simps [simp del]

section \<open>What an integer conversion prints\<close>

lemma concat_PAD: "concat (PAD c n) = replicate n c"
proof (induction n rule: less_induct)
  case (less n)
  show ?case
  proof (cases "n = 0")
    case False
    define i where "i = (if 32 < n then 32 else n)"
    have i: "i \<le> n" "n - i < n" using False by (auto simp: i_def)
    have "PAD c n = replicate i c # PAD c (n - i)" using False by (subst PAD.simps) (simp add: i_def Let_def)
    with less.IH [OF i(2)] i(1) show ?thesis by (simp add: replicate_add [symmetric])
  qed (subst PAD.simps, simp)
qed

text \<open>
  The reference: the integer an argument stands for under its qualifier, the text in front of its
  digits, its digits, and their layout in the field.
\<close>

definition shown_int :: "char \<Rightarrow> char \<Rightarrow> u64 \<Rightarrow> int" where
  "shown_int qual code v =
     (if code = CHR ''d'' \<or> code = CHR ''i'' then
        (if qual = CHR ''h'' then sint (ucast v :: u16) else sint v)
      else if qual = CHR ''h'' then uint v mod 2 ^ 16 else if qual = NUL then uint v mod 2 ^ 32 else uint v)"

definition shown_prefix :: "u32 \<Rightarrow> char \<Rightarrow> int \<Rightarrow> string" where
  "shown_prefix flags code i =
     (if code = CHR ''d'' \<or> code = CHR ''i'' then
        (if i < 0 then ''-'' else if flags AND FLAGS_PLUS \<noteq> 0 then ''+'' else if flags AND FLAGS_SPACE \<noteq> 0 then '' '' else [])
      else if flags AND FLAGS_HASH = 0 then [] else if code = CHR ''o'' \<or> code = CHR ''u'' then ''0'' else [CHR ''0'', code])"

definition shown_digits :: "char \<Rightarrow> nat \<Rightarrow> int \<Rightarrow> nat list" where
  "shown_digits code n p = (if n = 0 \<and> p \<noteq> 0 then [0] else radix (printed_base code) n)"

definition int_layout :: "u32 \<Rightarrow> int \<Rightarrow> int \<Rightarrow> string \<Rightarrow> string \<Rightarrow> string" where
  "int_layout flags width p prefix ds =
     (let body = prefix @ replicate (nat (leading_zeros flags width p (int (length prefix)) (int (length ds)))) (CHR ''0'') @ ds;
          blanks = replicate (nat (width - int (length body))) (CHR '' '')
      in if flags AND FLAGS_MINUS \<noteq> 0 then body @ blanks else blanks @ body)"

lemma leading_zeros_nonneg: "0 \<le> leading_zeros flags width p n0 n"
  by (simp add: leading_zeros_def)

lemma litob_field_text:
  assumes "pf_nz0 x = 0" "pf_nz1 x = 0" "pf_n2 x = 0" "pf_nz2 x = 0" "pf_n0 x = int (length ac)"
  shows "concat (field_pieces (Litob x code) ac) =
    int_layout (pf_flags x) (pf_width x) (pf_prec x) ac
      (map ((!) (digit_chars code)) (printed_digits (pf_v x) code (pf_prec x)))"
  unfolding Litob_result [OF assms(1)] field_pieces_def int_layout_def Let_def
  using assms leading_zeros_nonneg
  by (simp add: concat_PAD algebra_simps split: if_split)

lemma sint_scast_u16: "sint (scast (w :: u16) :: u64) = sint w"
proof -
  have "- (2 ^ 15) \<le> sint w" "sint w < 2 ^ 15" using sint_ge [of w] sint_lt [of w] by simp_all
  then have "signed_take_bit 63 (sint w) = sint w" by (intro signed_take_bit_int_eq_self) simp_all
  then show ?thesis by (simp add: signed_scast_eq)
qed

lemma abs_printed:
  "code = CHR ''d'' \<or> code = CHR ''i'' \<Longrightarrow> printed_value v code = nat \<bar>sint v\<bar>"
  "\<not> (code = CHR ''d'' \<or> code = CHR ''i'') \<Longrightarrow> printed_value v code = nat (uint v)"
proof -
  assume c: "code = CHR ''d'' \<or> code = CHR ''i''"
  show "printed_value v code = nat \<bar>sint v\<bar>"
  proof (cases "sint v < 0")
    case False
    have "uint v = take_bit 64 (sint v)" by (simp add: uint_sint)
    also have "\<dots> = sint v" using False sint_lt [of v] by (intro take_bit_int_eq_self) simp_all
    finally have "sint v = uint v" by simp
    with False c show ?thesis by (simp add: printed_value_def)
  qed (use c in \<open>simp add: printed_value_def\<close>)
qed (auto simp: printed_value_def)

lemma signed_field_text:
  assumes "code = CHR ''d'' \<or> code = CHR ''i''" "signed_field x v code = (x', ac)"
    and "pf_nz0 x = 0" "pf_nz1 x = 0" "pf_n2 x = 0" "pf_nz2 x = 0" "i = shown_int (pf_qual x) code v"
  shows "concat (field_pieces x' ac) =
    int_layout (pf_flags x) (pf_width x) (pf_prec x) (shown_prefix (pf_flags x) code i)
      (map ((!) (digit_chars code)) (shown_digits code (nat \<bar>i\<bar>) (pf_prec x)))"
proof -
  define u where "u = (if pf_qual x = CHR ''h'' then scast (ucast v :: u16) else v)"
  have u: "sint u = i" using assms(1,7) by (auto simp: u_def shown_int_def sint_scast_u16)
  have ac: "ac = shown_prefix (pf_flags x) code i"
    and x': "x' = Litob (x\<lparr>pf_v := u, pf_n0 := int (length ac)\<rparr>) code"
    using assms(1,2) u unfolding signed_field_def u_def [symmetric] Let_def by (auto simp: shown_prefix_def)
  have "printed_digits u code (pf_prec x) = shown_digits code (nat \<bar>i\<bar>) (pf_prec x)"
    using abs_printed(1) [OF assms(1), of u] by (simp add: printed_digits_def shown_digits_def u)
  with litob_field_text [of "x\<lparr>pf_v := u, pf_n0 := int (length ac)\<rparr>" ac code] assms(3-6) ac show ?thesis
    unfolding x' by simp
qed

lemma ucast_twice:
  "uint (ucast (ucast (v :: u64) :: u16) :: u64) = uint v mod 2 ^ 16"
  "uint (ucast (ucast (v :: u64) :: u32) :: u64) = uint v mod 2 ^ 32"
proof -
  have a: "uint (ucast (w :: u16) :: u64) = uint w" for w
    using uint_bounded [of w] by (simp add: unsigned_ucast_eq take_bit_eq_mod)
  have b: "uint (ucast (w :: u32) :: u64) = uint w" for w
    using uint_bounded [of w] by (simp add: unsigned_ucast_eq take_bit_eq_mod)
  have c: "uint (ucast v :: u16) = uint v mod 2 ^ 16" "uint (ucast v :: u32) = uint v mod 2 ^ 32"
    by (simp_all add: unsigned_ucast_eq take_bit_eq_mod)
  show "uint (ucast (ucast (v :: u64) :: u16) :: u64) = uint v mod 2 ^ 16"
    "uint (ucast (ucast (v :: u64) :: u32) :: u64) = uint v mod 2 ^ 32"
    unfolding a b c by (rule refl)+
qed

lemma unsigned_field_text:
  assumes "code \<in> set ''xXuo''" "unsigned_field x v code = (x', ac)"
    and "pf_nz0 x = 0" "pf_nz1 x = 0" "pf_n2 x = 0" "pf_nz2 x = 0" "i = shown_int (pf_qual x) code v"
  shows "concat (field_pieces x' ac) =
    int_layout (pf_flags x) (pf_width x) (pf_prec x) (shown_prefix (pf_flags x) code i)
      (map ((!) (digit_chars code)) (shown_digits code (nat \<bar>i\<bar>) (pf_prec x)))"
proof -
  define u where "u = (if pf_qual x = CHR ''h'' then ucast (ucast v :: u16)
     else if pf_qual x = NUL then ucast (ucast v :: u32) else v)"
  from assms(1) have c: "\<not> (code = CHR ''d'' \<or> code = CHR ''i'')" by auto
  have u: "uint u = i" unfolding u_def assms(7) shown_int_def if_not_P [OF c]
    by (cases "pf_qual x = CHR ''h''"; cases "pf_qual x = NUL"; simp only: ucast_twice if_True if_False simp_thms)
  have p: "(if pf_flags x AND FLAGS_HASH \<noteq> 0
      then ''0'' @ (if code = CHR ''x'' \<or> code = CHR ''X'' then [code] else []) else []) = shown_prefix (pf_flags x) code i"
    using assms(1) unfolding shown_prefix_def if_not_P [OF c] by auto
  from assms(2) have ac: "ac = shown_prefix (pf_flags x) code i"
    and x': "x' = Litob (x\<lparr>pf_v := u, pf_n0 := int (length ac)\<rparr>) code"
    unfolding unsigned_field_def u_def [symmetric] Let_def p by auto
  have "0 \<le> i" using u by (simp add: u [symmetric])
  then have "printed_digits u code (pf_prec x) = shown_digits code (nat \<bar>i\<bar>) (pf_prec x)"
    using abs_printed(2) [OF c, of u] by (simp add: printed_digits_def shown_digits_def u)
  with litob_field_text [of "x\<lparr>pf_v := u, pf_n0 := int (length ac)\<rparr>" ac code] assms(3-6) ac show ?thesis
    unfolding x' by simp
qed

lemma shown_int_bound: "nat \<bar>shown_int qual code v\<bar> < 2 ^ 64"
proof -
  have "- (2 ^ 63) \<le> sint v" "sint v < 2 ^ 63" using sint_ge [of v] sint_lt [of v] by simp_all
  moreover have "- (2 ^ 15) \<le> sint (ucast v :: u16)" "sint (ucast v :: u16) < 2 ^ 15"
    using sint_ge [of "ucast v :: u16"] sint_lt [of "ucast v :: u16"] by simp_all
  moreover have "uint v < 2 ^ 64" "0 \<le> uint v" using uint_bounded [of v] by simp_all
  moreover have "uint v mod 2 ^ 16 < 2 ^ 16" "uint v mod 2 ^ 32 < 2 ^ 32" "0 \<le> uint v mod 2 ^ 16" "0 \<le> uint v mod 2 ^ 32" by simp_all
  ultimately have "\<bar>shown_int qual code v\<bar> < 2 ^ 64" unfolding shown_int_def by (auto split: if_split)
  then show ?thesis by (simp add: nat_less_iff)
qed

lemma shown_digits_facts:
  assumes "n < 2 ^ 64"
  shows "digits_value (printed_base code) (shown_digits code n p) = n" "length (shown_digits code n p) \<le> 22"
proof -
  show "digits_value (printed_base code) (shown_digits code n p) = n"
    using radix_value [OF printed_base(1), of code n] by (simp add: shown_digits_def digits_value_def split: if_split)
  have "n < 8 ^ 22" using assms by simp
  also have "8 ^ 22 \<le> printed_base code ^ 22" using printed_base(2) by (rule power_mono) simp
  finally have "length (radix (printed_base code) n) \<le> 22" by (rule radix_length [OF printed_base(1)])
  then show "length (shown_digits code n p) \<le> 22" by (simp add: shown_digits_def)
qed

text \<open>
  C18: an integer conversion prints its number.  For every flag set, width and precision, the bytes of the
  field are those of the reference layout (sign or base prefix, zeros up to the precision or up to the
  width under the zero flag, digits, blanks on the side the minus flag selects); the digits read back as
  the absolute value of the number, and there are never more than 22, so neither the 24-byte buffer of
  the conversion nor the 32 bytes of the prefix buffer can overflow.
\<close>

theorem integer_conversion_text:
  assumes "code \<in> set ''dixXuo''" "integer_arg (pf_qual x) args = Inr (v, rest)" "i = shown_int (pf_qual x) code v"
    and "Putfld ldtob x args code = Inr (x', ac, args', stores)"
  shows "concat (field_pieces x' ac) =
      int_layout (pf_flags x) (pf_width x) (pf_prec x) (shown_prefix (pf_flags x) code i)
        (map ((!) (digit_chars code)) (shown_digits code (nat \<bar>i\<bar>) (pf_prec x))) \<and>
    digits_value (printed_base code) (shown_digits code (nat \<bar>i\<bar>) (pf_prec x)) = nat \<bar>i\<bar> \<and>
    length (shown_digits code (nat \<bar>i\<bar>) (pf_prec x)) \<le> 22 \<and> args' = rest \<and> stores = []"
proof -
  define y where "y = x\<lparr>pf_n0 := 0, pf_nz0 := 0, pf_n1 := 0, pf_nz1 := 0, pf_n2 := 0, pf_nz2 := 0\<rparr>"
  have y: "pf_nz0 y = 0" "pf_nz1 y = 0" "pf_n2 y = 0" "pf_nz2 y = 0" "pf_qual y = pf_qual x" "pf_flags y = pf_flags x"
    "pf_width y = pf_width x" "pf_prec y = pf_prec x" by (simp_all add: y_def)
  have f: "(if code = CHR ''d'' \<or> code = CHR ''i'' then signed_field y v code else unsigned_field y v code) = (x', ac) \<and>
      args' = rest \<and> stores = []"
    using assms(1,2,4) unfolding Putfld_def y_def [symmetric] Let_def
    by (auto simp: y split: prod.splits)
  have "concat (field_pieces x' ac) =
      int_layout (pf_flags x) (pf_width x) (pf_prec x) (shown_prefix (pf_flags x) code i)
        (map ((!) (digit_chars code)) (shown_digits code (nat \<bar>i\<bar>) (pf_prec x)))"
  proof (cases "code = CHR ''d'' \<or> code = CHR ''i''")
    case True
    with f have "signed_field y v code = (x', ac)" by simp
    from signed_field_text [OF True this y(1-4)] assms(3) y show ?thesis by simp
  next
    case False
    with f assms(1) have "unsigned_field y v code = (x', ac)" "code \<in> set ''xXuo''" by auto
    from unsigned_field_text [OF this(2,1) y(1-4)] assms(3) y show ?thesis by simp
  qed
  with f shown_digits_facts [OF shown_int_bound] assms(3) show ?thesis by simp
qed

lemma integer_conversion_text_witness:
  "let x = \<lparr>pf_v = 0, pf_s = [], pf_n0 = 0, pf_nz0 = 0, pf_n1 = 0, pf_nz1 = 0, pf_n2 = 0, pf_nz2 = 0,
        pf_prec = - 1, pf_width = 6, pf_nchar = 0, pf_flags = FLAGS_ZERO, pf_qual = NUL\<rparr>
   in case Putfld (\<lambda>x c. x) x [AInt (- 42)] (CHR ''d'') of Inl e \<Rightarrow> False
      | Inr (x', ac, args, stores) \<Rightarrow> concat (field_pieces x' ac) = ''-00042''"
proof -
  define x where "x = \<lparr>pf_v = 0, pf_s = [], pf_n0 = 0, pf_nz0 = 0, pf_n1 = 0, pf_nz1 = 0, pf_n2 = 0, pf_nz2 = 0,
        pf_prec = - 1, pf_width = 6, pf_nchar = 0, pf_flags = FLAGS_ZERO, pf_qual = NUL\<rparr>"
  obtain x' ac where p: "Putfld (\<lambda>x c. x) x [AInt (- 42)] (CHR ''d'') = Inr (x', ac, [], [])"
    by (simp add: Putfld_def x_def signed_field_def Let_def)
  have a: "integer_arg (pf_qual x) [AInt (- 42)] = Inr (- 42, [])" by (simp add: x_def)
  have i: "shown_int (pf_qual x) (CHR ''d'') (- 42) = - 42" by (simp add: shown_int_def x_def)
  have ds: "shown_digits (CHR ''d'') 42 (pf_prec x) = [4, 2]"
    by (simp add: shown_digits_def printed_base_def x_def radix_step)
  have "leading_zeros FLAGS_ZERO 6 (- 1) 1 2 = 3" by (simp add: leading_zeros_def)
  then have layout: "int_layout FLAGS_ZERO 6 (- 1) ''-'' ''42'' = ''-00042''"
    by (simp add: int_layout_def) (simp add: numeral_eq_Suc)
  from integer_conversion_text [OF _ a i [symmetric] p] have "concat (field_pieces x' ac) = ''-00042''"
    using layout by (simp add: ds) (simp add: shown_prefix_def digit_chars_def ldigs_def x_def)
  with p show ?thesis unfolding Let_def x_def [symmetric] by simp
qed

section \<open>Every call returns\<close>

text \<open>A sink that keeps what it accepts; \<open>ok\<close> decides on which piece it fails.\<close>

definition collector :: "(string \<Rightarrow> string \<Rightarrow> bool) \<Rightarrow> string sink" where
  "collector ok w s = (if ok w s then (True, w @ s) else (False, w))"

definition unfinished :: "string \<Rightarrow> bool" where
  "unfinished fmt \<longleftrightarrow> (\<exists>p t. fmt = p @ CHR ''%'' # t \<and> list_all modifier t)"

lemma unfinished_append: "unfinished fmt \<Longrightarrow> unfinished (p @ fmt)"
  unfolding unfinished_def by (metis append.assoc)

lemma PUT_collects:
  assumes "n = of_nat (length w)"
  shows "(PUT (collector ok) s n w = Going m v \<longrightarrow> m = of_nat (length v)) \<and>
    (PUT (collector ok) s n w = Stopped m v \<longrightarrow> m = of_nat (length v))"
  using assms by (auto simp: PUT_def collector_def)

lemma PUTS_collects:
  assumes "n = of_nat (length w)"
  shows "(PUTS (collector ok) ss n w = Going m v \<longrightarrow> m = of_nat (length v)) \<and>
    (PUTS (collector ok) ss n w = Stopped m v \<longrightarrow> m = of_nat (length v))"
  using assms
proof (induction ss arbitrary: n w)
  case (Cons s ss)
  show ?case
  proof (cases "PUT (collector ok) s n w")
    case (Stopped n' w')
    with PUT_collects [OF Cons.prems, of ok s n' w'] show ?thesis by auto
  next
    case (Going n' w')
    with PUT_collects [OF Cons.prems, of ok s n' w'] have "n' = of_nat (length w')" by simp
    from Cons.IH [OF this] Going show ?thesis by simp
  qed
qed auto

definition call_outcome :: "string \<Rightarrow> (u32 \<times> count_store list \<times> string) faulty \<Rightarrow> bool" where
  "call_outcome fmt r =
     (case r of Inl PastTerminator \<Rightarrow> unfinished fmt | Inl BadArgument \<Rightarrow> CHR ''%'' \<in> set fmt
      | Inr (n, stores, out) \<Rightarrow> n = of_nat (length out))"

lemma call_outcome_append: "call_outcome fmt r \<Longrightarrow> call_outcome (p @ fmt) r"
  using unfinished_append [of fmt p] by (auto simp: call_outcome_def split: sum.splits printf_fault.splits)

lemma printf_outcome_general:
  "pfn = collector ok \<Longrightarrow> nchar = of_nat (length w) \<Longrightarrow>
     call_outcome fmt (Printf ldtob pfn fmt args nchar stores w)"
proof (induction ldtob pfn fmt args nchar stores w rule: Printf.induct)
  case (1 ldtob pfn fmt args nchar stores w)
  note prems = "1.prems"
  obtain t rest where t: "scan_text fmt = (t, rest)" by fastforce
  note fmt = scan_text_split [OF t] scan_text_rest [OF t]
  show ?case
  proof (cases "PUT pfn t nchar w")
    case (Stopped m v)
    with PUT_collects [OF prems(2), of ok t m v] prems(1) t show ?thesis
      by (subst Printf.simps) (simp add: call_outcome_def)
  next
    case going: (Going m v)
    with PUT_collects [OF prems(2), of ok t m v] prems(1) have m: "m = of_nat (length v)" by simp
    show ?thesis
    proof (cases rest)
      case Nil
      with t going m show ?thesis by (subst Printf.simps) (simp add: call_outcome_def)
    next
      case (Cons c s)
      then have c: "fmt = t @ CHR ''%'' # s" using fmt by simp
      show ?thesis
      proof (cases "scan_directive s args m")
        case (Inl e)
        then have "e = BadArgument"
          by (auto simp: scan_directive_def scan_width_def scan_prec_def Let_def
              split: prod.splits sum.splits if_splits list.splits printf_arg.splits)
        with Inl t going Cons c show ?thesis by (subst Printf.simps) (simp add: call_outcome_def)
      next
        case (Inr d)
        then obtain x s' args' where d: "scan_directive s args m = Inr (x, s', args')" by (cases d) auto
        then obtain u where u: "s = u @ s'" "\<forall>c \<in> set u. modifier c" using scan_directive_split by blast
        show ?thesis
        proof (cases "Putfld ldtob x args' (peek s')")
          case (Inl e)
          then have "e = BadArgument"
            by (auto simp: Putfld_def Let_def split: prod.splits sum.splits if_splits list.splits printf_arg.splits
                elim: integer_arg.elims)
          with Inl t going Cons c d show ?thesis by (subst Printf.simps) (simp add: call_outcome_def)
        next
          case (Inr q)
          then obtain x' ac args'' st where q: "Putfld ldtob x args' (peek s') = Inr (x', ac, args'', st)" by (cases q) auto
          show ?thesis
          proof (cases "PUTS pfn (field_pieces x' ac) m v")
            case (Stopped k z)
            with PUTS_collects [OF m, of ok "field_pieces x' ac" k z] prems(1) t going Cons d q show ?thesis
              by (subst Printf.simps) (simp add: call_outcome_def)
          next
            case puts: (Going k z)
            with PUTS_collects [OF m, of ok "field_pieces x' ac" k z] prems(1) have k: "k = of_nat (length z)" by simp
            show ?thesis
            proof (cases s')
              case Nil
              with u c have "unfinished fmt" by (auto simp: unfinished_def list_all_iff)
              with Nil t going Cons d q puts show ?thesis by (subst Printf.simps) (simp add: call_outcome_def)
            next
              case s': (Cons b fmt')
              have "call_outcome fmt' (Printf ldtob pfn fmt' args'' k (stores @ st) z)"
                using "1.IH" [OF t [symmetric] going Cons d refl refl q refl refl refl puts s' prems(1) k] .
              from call_outcome_append [OF this, of "t @ CHR ''%'' # u @ [b]"] c u(1) s'
              have "call_outcome fmt (Printf ldtob pfn fmt' args'' k (stores @ st) z)" by simp
              with s' t going Cons d q puts show ?thesis by (subst Printf.simps) simp
            qed
          qed
        qed
      qed
    qed
  qed
qed

text \<open>
  C19: every call returns, and accounts for its output.  For any format, arguments and behaviour of
  \<open>pfn\<close>: the count returned is the number of bytes \<open>pfn\<close> accepted; a mismatched argument needs a
  directive; and the format pointer passes its terminator only if the format ends inside a directive,
  that is in a percent sign followed by flags, digits, dots, stars and qualifiers alone.
\<close>

theorem printf_outcome:
  "case Printf ldtob (collector ok) fmt args 0 [] [] of
     Inl PastTerminator \<Rightarrow> \<exists>p t. fmt = p @ CHR ''%'' # t \<and> list_all modifier t
   | Inl BadArgument \<Rightarrow> CHR ''%'' \<in> set fmt
   | Inr (n, stores, out) \<Rightarrow> n = of_nat (length out)"
  using printf_outcome_general [OF refl, of 0 "[]" fmt ldtob ok args "[]"]
  unfolding call_outcome_def unfinished_def by simp

text \<open>
  A lone percent sign at the end does leave the string: its conversion character is the terminator,
  which is printed, and the loop goes on behind it.
\<close>

lemma lone_percent: "Printf ldtob (collector (\<lambda>w s. True)) ''%'' [] 0 [] [] = Inl PastTerminator"
  by (subst Printf.simps)
    (simp add: PUT_def scan_directive_def scan_width_def scan_prec_def scan_qual_def peek_def Putfld_def
      field_pieces_def PAD.simps collector_def)

text \<open>
  \<open>%lu\<close> and \<open>%lx\<close> read a 32-bit \<open>long\<close> and do not cut the extended sign off: the top half of the
  range prints as a 64-bit number.  Without the qualifier the value is cut to 32 bits.
\<close>

lemma unsigned_long_value:
  "shown_int (CHR ''l'') (CHR ''u'') (scast (0xFFFFFFFF :: u32)) = 0xFFFFFFFFFFFFFFFF"
  "shown_int NUL (CHR ''u'') (scast (0xFFFFFFFF :: u32)) = 0xFFFFFFFF"
  by (simp_all add: shown_int_def unsigned_minus_1_eq_mask mask_eq_exp_minus_1)

end
