(* ===== verification/CoopWorld.thy ===== *)
theory CoopWorld
  imports CoopCapture
begin

text \<open>
  Reversible world switches (\<^verbatim>\<open>world_types.h\<close>, \<^verbatim>\<open>world_game.h\<close>): the water of Galleon, the time of
  Fungi and the lobby switch of Caves.  The flags are sampled each frame; a difference from the last
  known value is an intent of the local player and is counted, a value the peer decided is written and
  noted as known, together with the loaded switch when the player stands next to it.
\<close>

section \<open>State\<close>

abbreviation (input) COOP_WORLD_TOGGLES :: nat where "COOP_WORLD_TOGGLES \<equiv> 3"

record CoopWorldInput =
  world_enabled :: u32
  world_file :: u32
  world_ready :: u32
  world_values :: u32
  change :: "u32 list"
  world_session_hi :: u32
  world_session_lo :: u32
  world_scope :: u32

record CoopWorldResult =
  world_status :: u32
  desired :: u32
  apply_mask :: u32
  world_pending :: u32
  result_world_session_hi :: u32
  result_world_session_lo :: u32
  result_world_scope :: u32

record CoopWorld =
  world_input :: CoopWorldInput
  world_result :: CoopWorldResult
  world_baseline :: u32
  world_previous :: u32

definition coop_world_flags :: "int list" where "coop_world_flags = [0xA0, 0xCE, 0x19D]"

definition coop_world_levels :: "nat list" where "coop_world_levels = [3, 4, 255]"

section \<open>Capture\<close>

definition u32_of :: "bool \<Rightarrow> u32" where "u32_of b = (if b then 1 else 0)"

definition sampled_values :: "coop_game \<Rightarrow> u32" where
  "sampled_values s = fold (\<lambda>i v. if flags s (coop_world_flags ! i) then v OR bit32 i else v) [0..<COOP_WORLD_TOGGLES] 0"

text \<open>\<open>if (!++change) ++change\<close>: a counter that wraps skips zero.\<close>

definition bump :: "u32 \<Rightarrow> u32" where "bump v = (if v + 1 = 0 then 1 else v + 1)"

definition count_changes :: "u32 \<Rightarrow> u32 list \<Rightarrow> u32 list" where
  "count_changes differ cs =
     fold (\<lambda>i cs. if differ AND bit32 i \<noteq> 0 then cs[i := bump (cs ! i)] else cs) [0..<COOP_WORLD_TOGGLES] cs"

definition coop_world_capture :: "CoopWorld \<Rightarrow> CoopItems \<Rightarrow> coop_game \<Rightarrow> CoopWorld" where
  "coop_world_capture w g s =
     (let on = (enabled (input g) \<noteq> 0 \<and> counter_error g = 0);
          calm = (on \<and> ready (input g) \<noteq> 0 \<and> (deferred g = 0 \<or> live_snapshot g \<noteq> 0) \<and> bound g \<noteq> 0);
          n = (world_input w)\<lparr>world_enabled := u32_of on, world_file := input_file (input g), world_ready := u32_of calm\<rparr>
      in if \<not> calm then w\<lparr>world_input := n\<rparr>
         else let values = sampled_values s;
                  n = (if world_baseline w \<noteq> 0 then n\<lparr>change := count_changes (world_previous w XOR values) (change n)\<rparr> else n)
              in w\<lparr>world_input := n\<lparr>world_values := values\<rparr>, world_baseline := 1, world_previous := values\<rparr>)"

definition coop_world_receive :: "CoopWorld \<Rightarrow> CoopWorldResult \<Rightarrow> CoopWorld" where
  "coop_world_receive w r =
     w\<lparr>world_result := r, world_input := (world_input w)\<lparr>world_session_hi := result_world_session_hi r,
        world_session_lo := result_world_session_lo r, world_scope := result_world_scope r\<rparr>\<rparr>"

section \<open>Application\<close>

definition write_flag :: "coop_env \<Rightarrow> int \<Rightarrow> bool \<Rightarrow> coop_game \<Rightarrow> coop_game" where
  "write_flag e f v s = (if flag_accepted e s f then s\<lparr>flags := (flags s)(f := v)\<rparr> else s)"

text \<open>The lobby switch is live in its lobby; the others when the player is in their level.\<close>

definition lobby_live :: "coop_env \<Rightarrow> nat \<Rightarrow> bool" where
  "lobby_live e i \<longleftrightarrow> i = 2 \<and> env_map e = 194"

definition switch_loaded :: "coop_env \<Rightarrow> nat \<Rightarrow> bool" where
  "switch_loaded e i \<longleftrightarrow> lobby_live e i \<or> env_level e = coop_world_levels ! i"

type_synonym world_state = "CoopWorld \<times> CoopItems \<times> coop_game"

definition toggle_step :: "coop_env \<Rightarrow> nat \<Rightarrow> world_state \<Rightarrow> world_state" where
  "toggle_step e i st = (case st of (w, g, s) \<Rightarrow>
     let r = world_result w; f = coop_world_flags ! i; want = (desired r AND bit32 i \<noteq> 0); refresh = switch_loaded e i
     in if \<not> coop_items_safe_map (env_map e) \<and> \<not> lobby_live e i then st
        else if apply_mask r AND bit32 i = 0 \<or> refresh \<and> refresh_enabled g = 0 then st
        else if flags s f = want then st
        else if refresh \<and> \<not> coop_live_reversible_ready e s i want then st
        else
          let s = write_flag e f want s
          in if flags s f = want then
               (w\<lparr>world_previous := (world_previous w AND NOT (bit32 i)) OR (desired r AND bit32 i)\<rparr>,
                g\<lparr>save_pending := 1, world_save_pending := (if lobby_live e i then 1 else world_save_pending g)\<rparr>,
                if refresh then snd (coop_live_reversible_refresh e i want s) else s)
             else (w, g, s))"

definition world_blocked :: "coop_env \<Rightarrow> CoopWorld \<Rightarrow> CoopItems \<Rightarrow> bool \<Rightarrow> bool" where
  "world_blocked e w g playing \<longleftrightarrow>
     \<not> playing \<or> world_ready (world_input w) = 0 \<or> ready (input g) = 0 \<or> bound g = 0 \<or> file_changed g \<noteq> 0 \<or>
     counter_error g \<noteq> 0 \<or> reward_queued e \<or> result_world_scope (world_result w) = 0 \<or> world_status (world_result w) = 0"

definition coop_world_apply :: "coop_env \<Rightarrow> CoopWorld \<Rightarrow> CoopItems \<Rightarrow> coop_game \<Rightarrow> bool \<Rightarrow> world_state" where
  "coop_world_apply e w g s playing =
     (if world_blocked e w g playing then (w, g, s) else fold (toggle_step e) [0..<COOP_WORLD_TOGGLES] (w, g, s))"

section \<open>One switch\<close>

lemma world_flag_distinct [simp]: "i < 3 \<Longrightarrow> j < 3 \<Longrightarrow> coop_world_flags ! i = coop_world_flags ! j \<longleftrightarrow> i = j"
  by (auto simp: coop_world_flags_def less_Suc_eq numeral_3_eq_3)

text \<open>What the code knows of a switch: the last value it captured or wrote.\<close>

definition known :: "CoopWorld \<Rightarrow> nat \<Rightarrow> bool" where
  "known w i \<longleftrightarrow> bit (world_previous w) i"

definition wanted :: "CoopWorld \<Rightarrow> nat \<Rightarrow> bool" where
  "wanted w i \<longleftrightarrow> bit (desired (world_result w)) i"

definition sent_switch :: "CoopWorld \<Rightarrow> nat \<Rightarrow> bool" where
  "sent_switch w i \<longleftrightarrow> bit (apply_mask (world_result w)) i"

text \<open>
  The specification of a step: either nothing happens, or the flag takes the wanted value, the value is
  noted as known, a save is requested, and a loaded switch starts its sequence.
\<close>

definition switched :: "coop_env \<Rightarrow> nat \<Rightarrow> world_state \<Rightarrow> world_state \<Rightarrow> bool" where
  "switched e i st st' \<longleftrightarrow> (case st of (w, g, s) \<Rightarrow> case st' of (w', g', s') \<Rightarrow>
     sent_switch w i \<and> (coop_items_safe_map (env_map e) \<or> lobby_live e i) \<and>
     flags s (coop_world_flags ! i) \<noteq> wanted w i \<and> flags s' = (flags s)(coop_world_flags ! i := wanted w i) \<and>
     w' = w\<lparr>world_previous := world_previous w'\<rparr> \<and> (\<forall>j < 3. known w' j = (if j = i then wanted w i else known w j)) \<and>
     g' = g\<lparr>save_pending := 1, world_save_pending := world_save_pending g'\<rparr> \<and>
     pickup_bits s' = pickup_bits s \<and> kongs s' = kongs s \<and> melons s' = melons s \<and> fed_cache s' = fed_cache s \<and>
     script_slots s' = script_slots s \<and>
     (if switch_loaded e i then
        (\<exists>object state slot. reversible_object e i (wanted w i) = Some (object, state) \<and>
           coop_live_world_find_object s object = Some slot \<and> coop_calls s' = coop_calls s @ [SelectState slot state])
      else coop_calls s' = coop_calls s))"

lemma want_bits:
  assumes "i < 3"
  shows "desired (world_result w) AND bit32 i \<noteq> 0 \<longleftrightarrow> wanted w i" "apply_mask (world_result w) AND bit32 i = 0 \<longleftrightarrow> \<not> sent_switch w i"
proof -
  have "x AND bit32 i \<noteq> 0 \<longleftrightarrow> bit x i" for x using assms by (simp add: and_bit32)
  then show "desired (world_result w) AND bit32 i \<noteq> 0 \<longleftrightarrow> wanted w i" "apply_mask (world_result w) AND bit32 i = 0 \<longleftrightarrow> \<not> sent_switch w i"
    unfolding wanted_def sent_switch_def by blast+
qed

lemma known_written:
  assumes "i < 3" "j < 3"
  shows "bit ((world_previous w AND NOT (bit32 i)) OR (desired (world_result w) AND bit32 i)) j = (if j = i then wanted w i else known w j)"
  using assms by (auto simp: wanted_def known_def bit_simps)

text \<open>The sequence a loaded switch starts is a call to its own script.\<close>

lemma reversible_started:
  assumes "coop_live_reversible_ready e s i v" "script_slots t = script_slots s"
  shows "\<exists>object state slot. reversible_object e i v = Some (object, state) \<and> coop_live_world_find_object s object = Some slot \<and>
    snd (coop_live_reversible_refresh e i v t) = call_game (SelectState slot state) t"
  using assms(1) unfolding coop_live_reversible_ready_def coop_live_reversible_refresh_def coop_live_world_set_object_def
    find_object_cong [OF assms(2)] by (auto split: option.splits)

lemma toggle_step_cases:
  assumes "i < 3"
  shows "toggle_step e i st = st \<or> switched e i st (toggle_step e i st)"
proof -
  obtain w g s where st: "st = (w, g, s)" by (metis prod_cases3)
  let ?f = "coop_world_flags ! i" and ?v = "wanted w i"
  define p where "p = (world_previous w AND NOT (bit32 i)) OR (desired (world_result w) AND bit32 i)"
  define t where "t = s\<lparr>flags := (flags s)(?f := ?v)\<rparr>"
  define moved where "moved = (w\<lparr>world_previous := p\<rparr>,
      g\<lparr>save_pending := 1, world_save_pending := (if lobby_live e i then 1 else world_save_pending g)\<rparr>,
      if switch_loaded e i then snd (coop_live_reversible_refresh e i ?v t) else t)"
  have result: "switched e i st moved"
    if go: "coop_items_safe_map (env_map e) \<or> lobby_live e i" "sent_switch w i" "flags s ?f \<noteq> ?v"
      "switch_loaded e i \<longrightarrow> coop_live_reversible_ready e s i ?v"
  proof (cases "switch_loaded e i")
    case True
    with go(4) have "coop_live_reversible_ready e s i ?v" by blast
    then obtain object state slot where r: "reversible_object e i ?v = Some (object, state)"
        "coop_live_world_find_object s object = Some slot" "snd (coop_live_reversible_refresh e i ?v t) = call_game (SelectState slot state) t"
      using reversible_started [of e s i ?v t] by (auto simp: t_def)
    show ?thesis using go True r known_written [OF assms] unfolding switched_def prod.case st moved_def
      by (simp add: p_def t_def call_game_def known_def)
  qed (use go known_written [OF assms] in \<open>simp add: switched_def p_def t_def known_def st moved_def\<close>)
  have written: "flags t ?f = ?v" "flag_accepted e s ?f \<Longrightarrow> write_flag e ?f ?v s = t" "\<not> flag_accepted e s ?f \<Longrightarrow> write_flag e ?f ?v s = s"
    by (simp_all add: write_flag_def t_def)
  have "toggle_step e i st =
      (if \<not> (coop_items_safe_map (env_map e) \<or> lobby_live e i) \<or> \<not> sent_switch w i \<or> switch_loaded e i \<and> refresh_enabled g = 0 \<or>
          flags s ?f = ?v \<or> switch_loaded e i \<and> \<not> coop_live_reversible_ready e s i ?v \<or> \<not> flag_accepted e s ?f
       then st else moved)"
    unfolding toggle_step_def st prod.case Let_def want_bits [OF assms]
    by (cases "flags s ?f = ?v"; cases "flag_accepted e s ?f") (auto simp: written moved_def p_def)
  with result show ?thesis by (auto split: if_split_asm)
qed

section \<open>An application switch by switch\<close>

definition started :: "coop_env \<Rightarrow> coop_game \<Rightarrow> nat \<Rightarrow> bool \<Rightarrow> coop_call \<Rightarrow> bool" where
  "started e s i v c \<longleftrightarrow> switch_loaded e i \<and>
     (\<exists>object state slot. reversible_object e i v = Some (object, state) \<and>
        coop_live_world_find_object s object = Some slot \<and> c = SelectState slot state)"

abbreviation (input) world_flag_of :: "coop_game \<Rightarrow> nat \<Rightarrow> bool" where
  "world_flag_of s i \<equiv> flags s (coop_world_flags ! i)"

text \<open>After the first \<open>k\<close> switches: each of them is as it was, or was sent and has the wanted value.\<close>

definition switches_run :: "nat \<Rightarrow> CoopWorld \<times> coop_game \<Rightarrow> CoopWorld \<times> coop_game \<Rightarrow> bool" where
  "switches_run k st st' \<longleftrightarrow> (case st of (w, s) \<Rightarrow> case st' of (w', s') \<Rightarrow>
     w' = w\<lparr>world_previous := world_previous w'\<rparr> \<and>
     (\<forall>j < 3. k \<le> j \<longrightarrow> known w' j = known w j \<and> world_flag_of s' j = world_flag_of s j) \<and>
     (\<forall>j < k. known w' j = known w j \<and> world_flag_of s' j = world_flag_of s j \<or>
        sent_switch w j \<and> world_flag_of s j \<noteq> wanted w j \<and> world_flag_of s' j = wanted w j \<and> known w' j = wanted w j) \<and>
     (\<forall>f. f \<notin> set coop_world_flags \<longrightarrow> flags s' f = flags s f))"

definition calls_run :: "coop_env \<Rightarrow> nat \<Rightarrow> CoopWorld \<Rightarrow> coop_game \<Rightarrow> coop_game \<Rightarrow> bool" where
  "calls_run e k w s s' \<longleftrightarrow>
     (\<exists>cs. coop_calls s' = coop_calls s @ cs \<and>
        (\<forall>c \<in> set cs. \<exists>j < k. world_flag_of s' j \<noteq> world_flag_of s j \<and> started e s j (wanted w j) c) \<and>
        (\<forall>j < k. world_flag_of s' j \<noteq> world_flag_of s j \<and> switch_loaded e j \<longrightarrow> (\<exists>c \<in> set cs. started e s j (wanted w j) c)))"

definition save_kept :: "coop_game \<Rightarrow> coop_game \<Rightarrow> bool" where
  "save_kept s s' \<longleftrightarrow> pickup_bits s' = pickup_bits s \<and> kongs s' = kongs s \<and> melons s' = melons s \<and> fed_cache s' = fed_cache s \<and>
     script_slots s' = script_slots s"

lemma started_slots: "script_slots t = script_slots s \<Longrightarrow> started e t = started e s"
  by (simp add: started_def fun_eq_iff find_object_cong [of t s])

lemma switched_facts:
  assumes "switched e i (w, g, s) (w', g', s')" "i < 3"
  shows "w' = w\<lparr>world_previous := world_previous w'\<rparr>" "sent_switch w i" "world_flag_of s i \<noteq> wanted w i"
    "flags s' = (flags s)(coop_world_flags ! i := wanted w i)" "\<And>j. j < 3 \<Longrightarrow> known w' j = (if j = i then wanted w i else known w j)"
    "save_pending g' = 1" "save_kept s s'"
    "(\<exists>c. started e s i (wanted w i) c \<and> coop_calls s' = coop_calls s @ [c]) \<or> \<not> switch_loaded e i \<and> coop_calls s' = coop_calls s"
proof -
  note d = assms(1) [unfolded switched_def prod.case]
  show "w' = w\<lparr>world_previous := world_previous w'\<rparr>" "sent_switch w i" "world_flag_of s i \<noteq> wanted w i"
    "flags s' = (flags s)(coop_world_flags ! i := wanted w i)" "\<And>j. j < 3 \<Longrightarrow> known w' j = (if j = i then wanted w i else known w j)"
    "save_kept s s'"
    using d by (simp_all add: save_kept_def)
  from d have "g' = g\<lparr>save_pending := 1, world_save_pending := world_save_pending g'\<rparr>" by blast
  then show "save_pending g' = 1" by (metis CoopItems.select_convs(6) CoopItems.surjective CoopItems.update_convs(6) CoopItems.update_convs(18))
  show "(\<exists>c. started e s i (wanted w i) c \<and> coop_calls s' = coop_calls s @ [c]) \<or> \<not> switch_loaded e i \<and> coop_calls s' = coop_calls s"
    using d by (auto simp: started_def split: if_split_asm)
qed

lemma wanted_cong: "w' = w\<lparr>world_previous := world_previous w'\<rparr> \<Longrightarrow> wanted w' = wanted w \<and> sent_switch w' = sent_switch w"
proof -
  assume "w' = w\<lparr>world_previous := world_previous w'\<rparr>"
  then have "world_result w' = world_result (w\<lparr>world_previous := world_previous w'\<rparr>)" by (rule arg_cong)
  then show ?thesis by (simp add: wanted_def sent_switch_def fun_eq_iff)
qed

lemma flag_in_set: "i < 3 \<Longrightarrow> coop_world_flags ! i \<in> set coop_world_flags"
  by (rule nth_mem) (simp add: coop_world_flags_def)

lemma switches_run_step:
  assumes "switches_run k (w, s) (w', s')" "switched e k (w', g', s') (w2, g2, s2)" "k < 3"
  shows "switches_run (Suc k) (w, s) (w2, s2)"
proof -
  note r = assms(1) [unfolded switches_run_def prod.case] and d = switched_facts [OF assms(2,3)]
  have w: "w2 = w\<lparr>world_previous := world_previous w2\<rparr>"
    using r d(1) by (metis CoopWorld.update_convs(4) CoopWorld.surjective CoopWorld.select_convs)
  have same: "wanted w' = wanted w" "sent_switch w' = sent_switch w"
    using wanted_cong [of w' w] r by blast+
  have flag: "world_flag_of s2 j = (if j = k then wanted w k else world_flag_of s' j)" if "j < 3" for j
    using that assms(3) by (simp add: d(4) same)
  have others: "flags s2 f = flags s' f" if "f \<notin> set coop_world_flags" for f
    using that flag_in_set [OF assms(3)] by (auto simp: d(4))
  have before: "world_flag_of s' k = world_flag_of s k" "known w' k = known w k" using r assms(3) by simp_all
  show ?thesis unfolding switches_run_def prod.case
  proof (intro conjI allI impI)
    show "w2 = w\<lparr>world_previous := world_previous w2\<rparr>" by (rule w)
  next
    fix j :: nat assume "j < 3" "Suc k \<le> j"
    then show "known w2 j = known w j" "world_flag_of s2 j = world_flag_of s j" using r d(5) flag by simp_all
  next
    fix j assume j: "j < Suc k"
    show "known w2 j = known w j \<and> world_flag_of s2 j = world_flag_of s j \<or>
      sent_switch w j \<and> world_flag_of s j \<noteq> wanted w j \<and> world_flag_of s2 j = wanted w j \<and> known w2 j = wanted w j"
    proof (cases "j = k")
      case True
      then show ?thesis using d(2,3,5) flag assms(3) before by (simp add: same)
    next
      case False
      then show ?thesis using r d(5) flag j assms(3) by simp
    qed
  next
    fix f assume "f \<notin> set coop_world_flags"
    then show "flags s2 f = flags s f" using others r by simp
  qed
qed

lemma switches_run_skip: "switches_run k st st' \<Longrightarrow> k < 3 \<Longrightarrow> switches_run (Suc k) st st'"
  by (auto simp: switches_run_def less_Suc_eq split: prod.splits)

lemma calls_run_step:
  assumes "calls_run e k w s s'" "switches_run k (w, s) (w', s')" "save_kept s s'" "switched e k (w', g', s') (w2, g2, s2)" "k < 3"
  shows "calls_run e (Suc k) w s s2"
proof -
  note r = assms(2) [unfolded switches_run_def prod.case] and d = switched_facts [OF assms(4,5)]
  have same: "wanted w' = wanted w" using wanted_cong [of w' w] r by blast
  have flag: "world_flag_of s2 j = (if j = k then wanted w k else world_flag_of s' j)" if "j < 3" for j
    using that assms(5) by (simp add: d(4) same)
  have new: "world_flag_of s2 k \<noteq> world_flag_of s k" using d(3) r assms(5) flag by (simp add: same)
  have start: "started e s' = started e s" using assms(3) by (intro started_slots) (simp add: save_kept_def)
  obtain cs where cs: "coop_calls s' = coop_calls s @ cs"
      "\<forall>c \<in> set cs. \<exists>j < k. world_flag_of s' j \<noteq> world_flag_of s j \<and> started e s j (wanted w j) c"
      "\<forall>j < k. world_flag_of s' j \<noteq> world_flag_of s j \<and> switch_loaded e j \<longrightarrow> (\<exists>c \<in> set cs. started e s j (wanted w j) c)"
    using assms(1) unfolding calls_run_def by blast
  obtain ds where ds: "coop_calls s2 = coop_calls s' @ ds" "\<forall>c \<in> set ds. started e s k (wanted w k) c"
      "switch_loaded e k \<Longrightarrow> ds \<noteq> []"
    using d(8) unfolding start same by (metis append_Nil2 empty_iff list.set(1) list.set_cases list.distinct(1) set_ConsD)
  have old: "world_flag_of s2 j = world_flag_of s' j" if "j < k" for j using that assms(5) flag by simp
  show ?thesis unfolding calls_run_def
  proof (intro exI conjI)
    show "coop_calls s2 = coop_calls s @ (cs @ ds)" using cs(1) ds(1) by simp
    show "\<forall>c \<in> set (cs @ ds). \<exists>j < Suc k. world_flag_of s2 j \<noteq> world_flag_of s j \<and> started e s j (wanted w j) c"
      using cs(2) ds(2) new old by (fastforce simp: less_Suc_eq)
    show "\<forall>j < Suc k. world_flag_of s2 j \<noteq> world_flag_of s j \<and> switch_loaded e j \<longrightarrow>
        (\<exists>c \<in> set (cs @ ds). started e s j (wanted w j) c)"
    proof (intro allI impI)
      fix j assume j: "j < Suc k" "world_flag_of s2 j \<noteq> world_flag_of s j \<and> switch_loaded e j"
      show "\<exists>c \<in> set (cs @ ds). started e s j (wanted w j) c"
      proof (cases "j = k")
        case True
        with j ds(3) obtain c where "c \<in> set ds" by (cases ds) auto
        with ds(2) True show ?thesis by auto
      next
        case False
        with j old cs(3) show ?thesis by (auto simp: less_Suc_eq)
      qed
    qed
  qed
qed

lemma calls_run_skip:
  assumes "calls_run e k w s s'" "switches_run k (w, s) (w', s')" "k < 3"
  shows "calls_run e (Suc k) w s s'"
proof -
  have "world_flag_of s' k = world_flag_of s k" using assms(2,3) by (simp add: switches_run_def)
  then show ?thesis using assms(1) unfolding calls_run_def by (metis less_Suc_eq)
qed

definition world_run :: "coop_env \<Rightarrow> nat \<Rightarrow> world_state \<Rightarrow> world_state \<Rightarrow> bool" where
  "world_run e k st st' \<longleftrightarrow> (case st of (w, g, s) \<Rightarrow> case st' of (w', g', s') \<Rightarrow>
     switches_run k (w, s) (w', s') \<and> calls_run e k w s s' \<and> save_kept s s' \<and> (st' = st \<or> save_pending g' = 1))"

lemma world_run_fold: "k \<le> 3 \<Longrightarrow> world_run e k st (fold (toggle_step e) [0..<k] st)"
proof (induction k)
  case 0
  obtain w g s where "st = (w, g, s)" by (metis prod_cases3)
  then show ?case by (simp add: world_run_def switches_run_def calls_run_def save_kept_def)
next
  case (Suc k)
  obtain w g s where st: "st = (w, g, s)" by (metis prod_cases3)
  obtain w' g' s' where st': "fold (toggle_step e) [0..<k] st = (w', g', s')" by (metis prod_cases3)
  obtain w2 g2 s2 where st2: "toggle_step e k (w', g', s') = (w2, g2, s2)" by (metis prod_cases3)
  have run: "switches_run k (w, s) (w', s')" "calls_run e k w s s'" "save_kept s s'"
      "(w', g', s') = (w, g, s) \<or> save_pending g' = 1"
    using Suc unfolding st world_run_def st' [unfolded st] prod.case by simp_all
  have "world_run e (Suc k) (w, g, s) (w2, g2, s2)"
  proof (cases "toggle_step e k (w', g', s') = (w', g', s')")
    case True
    with run Suc.prems st2 show ?thesis unfolding world_run_def prod.case by (auto intro: switches_run_skip calls_run_skip)
  next
    case False
    with toggle_step_cases [of k e "(w', g', s')"] Suc.prems st2 have d: "switched e k (w', g', s') (w2, g2, s2)" by auto
    have "save_kept s s2" using run(3) switched_facts(7) [OF d] Suc.prems by (simp add: save_kept_def)
    then show ?thesis using switches_run_step [OF run(1) d] calls_run_step [OF run(2,1,3) d] switched_facts(6) [OF d] Suc.prems
      unfolding world_run_def prod.case by simp
  qed
  then show ?case by (simp add: st' st2) (simp add: st)
qed

lemma world_apply_run: "world_run e 3 (w, g, s) (coop_world_apply e w g s playing)"
  using world_run_fold [of 3 e "(w, g, s)"]
  by (auto simp: coop_world_apply_def world_run_def switches_run_def calls_run_def save_kept_def)

section \<open>Captures\<close>

text \<open>Once a baseline exists, the known values are the flags of the save.\<close>

definition coherent :: "CoopWorld \<Rightarrow> coop_game \<Rightarrow> bool" where
  "coherent w s \<longleftrightarrow> (world_baseline w \<noteq> 0 \<longrightarrow> (\<forall>i < 3. known w i = world_flag_of s i))"

lemma three: "[0..<3] = [0, 1, 2 :: nat]"
  by (simp add: upt_conv_Cons)

lemma below_three: "i < 3 \<longleftrightarrow> i = 0 \<or> i = 1 \<or> i = (2 :: nat)"
  by auto

lemma sampled_bits: "i < 3 \<Longrightarrow> bit (sampled_values s) i = world_flag_of s i"
  unfolding sampled_values_def three below_three by (auto simp: bit_simps)

lemma count_changes_nth:
  assumes "length cs = 3" "i < 3"
  shows "count_changes d cs ! i = (if bit d i then bump (cs ! i) else cs ! i)"
proof -
  have "d AND bit32 j \<noteq> 0 \<longleftrightarrow> bit d j" if "j < 3" for j using that by (simp add: and_bit32)
  then show ?thesis using assms unfolding count_changes_def three below_three by (auto simp: nth_list_update)
qed

lemma bump_new: "bump v \<noteq> v" "bump v \<noteq> 0"
proof -
  have "v + 1 \<noteq> v" for v :: u32 by simp
  moreover have "v \<noteq> 1" if "v + 1 = 0" for v :: u32 using that by auto
  ultimately show "bump v \<noteq> v" "bump v \<noteq> 0" by (auto simp: bump_def)
qed

lemma capture_counts:
  assumes "length (change (world_input w)) = 3"
  shows "let w' = coop_world_capture w g s in
    if world_ready (world_input w') = 0
    then change (world_input w') = change (world_input w) \<and> world_previous w' = world_previous w \<and> world_baseline w' = world_baseline w
    else world_baseline w' = 1 \<and>
      (\<forall>i < 3. known w' i = world_flag_of s i \<and> bit (world_values (world_input w')) i = world_flag_of s i \<and>
         change (world_input w') ! i =
           (if world_baseline w \<noteq> 0 \<and> known w i \<noteq> world_flag_of s i then bump (change (world_input w) ! i)
            else change (world_input w) ! i))"
  using assms by (auto simp: coop_world_capture_def Let_def u32_of_def known_def sampled_bits count_changes_nth bit_xor_iff)


lemma apply_facts:
  assumes "coop_world_apply e w g s playing = (w', g', s')"
  shows "world_input w' = world_input w" "world_baseline w' = world_baseline w" "coherent w s \<Longrightarrow> coherent w' s'"
    "switches_run 3 (w, s) (w', s')" "calls_run e 3 w s s'" "save_kept s s'" "s' = s \<or> save_pending g' = 1"
proof -
  note r = world_apply_run [of e w g s playing, unfolded assms world_run_def prod.case]
  show run: "switches_run 3 (w, s) (w', s')" "calls_run e 3 w s s'" "save_kept s s'" "s' = s \<or> save_pending g' = 1" using r by auto
  have u: "w' = w\<lparr>world_previous := world_previous w'\<rparr>" using run(1) by (simp add: switches_run_def)
  have "world_input w' = world_input (w\<lparr>world_previous := world_previous w'\<rparr>)" using u by (rule arg_cong)
  then show "world_input w' = world_input w" by simp
  have "world_baseline w' = world_baseline (w\<lparr>world_previous := world_previous w'\<rparr>)" using u by (rule arg_cong)
  then show base: "world_baseline w' = world_baseline w" by simp
  show "coherent w' s'" if "coherent w s"
    using run(1) that unfolding coherent_def switches_run_def prod.case base by metis
qed

section \<open>Example\<close>

text \<open>DK Isles: the peer raised the water of Galleon.\<close>

definition world_example :: CoopWorld where
  "world_example =
     \<lparr>world_input = \<lparr>world_enabled = 1, world_file = 0, world_ready = 1, world_values = 0, change = [5, 0xFFFFFFFF, 7],
        world_session_hi = 0, world_session_lo = 1, world_scope = 1\<rparr>,
      world_result = \<lparr>world_status = 2, desired = 1, apply_mask = 1, world_pending = 0, result_world_session_hi = 0,
        result_world_session_lo = 1, result_world_scope = 1\<rparr>,
      world_baseline = 1, world_previous = 0\<rparr>"

lemma world_example_coherent: "coherent world_example fresh_game"
  by (simp add: coherent_def known_def world_example_def fresh_game_def)

lemma world_example_length: "length (change (world_input world_example)) = 3"
  by (simp add: world_example_def)

section \<open>Properties\<close>

text \<open>
  what a frame counts as the local player's intent.  A capture that is not ready counts nothing and
  forgets nothing; a ready one publishes the three flags, remembers them, and advances the counter of
  exactly those switches whose flag is not the last known value, never to zero and never to the same
  number; the first capture of a session counts nothing.
\<close>

theorem world_intent_counted:
  assumes "length (change (world_input w)) = 3"
  shows "(let w' = coop_world_capture w g s in
    if world_ready (world_input w') = 0
    then change (world_input w') = change (world_input w) \<and> world_previous w' = world_previous w \<and> world_baseline w' = world_baseline w
    else world_baseline w' = 1 \<and>
      (\<forall>i < 3. known w' i = world_flag_of s i \<and> bit (world_values (world_input w')) i = world_flag_of s i \<and>
         change (world_input w') ! i =
           (if world_baseline w \<noteq> 0 \<and> known w i \<noteq> world_flag_of s i then bump (change (world_input w) ! i)
            else change (world_input w) ! i))) \<and>
    bump v \<noteq> v \<and> bump v \<noteq> 0"
  using capture_counts [OF assms] bump_new by simp

theorem world_intent_counted_witness:
  "change (world_input (coop_world_capture world_example receiving_session (with_flag 0xCE fresh_game))) ! 1 = 1"
proof -
  let ?s = "with_flag 0xCE fresh_game" and ?w = "coop_world_capture world_example receiving_session (with_flag 0xCE fresh_game)"
  have flags: "world_flag_of ?s 1" "\<not> known world_example 1" "world_baseline world_example = 1"
    by (simp_all add: coop_world_flags_def known_def world_example_def)
  have "world_ready (world_input ?w) = 1"
    by (simp add: coop_world_capture_def Let_def u32_of_def receiving_session_def example_items_session_def)
  with world_intent_counted [OF world_example_length, of receiving_session ?s 0]
  have "change (world_input ?w) ! 1 = bump (change (world_input world_example) ! 1)"
    unfolding Let_def using flags by simp
  then show ?thesis by (simp add: world_example_def bump_def)
qed

text \<open>
  C28: a switch the peer decided is never sent back as an intent.  Applying a result keeps the known
  values equal to the flags, so that the next capture leaves every change counter as it was.
\<close>

theorem world_no_echo:
  assumes "coherent w s" and "length (change (world_input w)) = 3" and "coop_world_apply e w g s playing = (w1, g1, s1)"
  shows "coherent w1 s1 \<and> change (world_input (coop_world_capture w1 g2 s1)) = change (world_input w)"
proof -
  note a = apply_facts [OF assms(3)]
  have c: "coherent w1 s1" by (rule a(3) [OF assms(1)])
  have len: "length (change (world_input w1)) = 3" using assms(2) a(1) by simp
  have l2: "length (change (world_input (coop_world_capture w1 g2 s1))) = 3"
    using len by (simp add: coop_world_capture_def Let_def count_changes_def three)
  have "change (world_input (coop_world_capture w1 g2 s1)) ! i = change (world_input w1) ! i" if "i < 3" for i
    using capture_counts [OF len, of g2 s1] c that by (auto simp: Let_def coherent_def split: if_split_asm)
  with c len l2 a(1) show ?thesis by (auto intro: nth_equalityI)
qed

theorem world_no_echo_witness:
  "change (world_input (coop_world_capture (fst (coop_world_apply isles_env world_example receiving_session fresh_game True))
     receiving_session (snd (snd (coop_world_apply isles_env world_example receiving_session fresh_game True))))) = [5, 0xFFFFFFFF, 7]"
proof -
  obtain w1 g1 s1 where r: "coop_world_apply isles_env world_example receiving_session fresh_game True = (w1, g1, s1)"
    by (metis prod_cases3)
  from world_no_echo [OF world_example_coherent world_example_length r, of receiving_session] show ?thesis
    by (simp add: r) (simp add: world_example_def)
qed

text \<open>
  what applying a result does to the game.  Each of the three flags keeps its value or was sent and
  takes the wanted one; no other flag and nothing else of the save changes; a change is followed by a
  save; and flag and loaded switch go together: a switch next to the player starts its own sequence
  exactly when its flag changed, and no other script is touched.
\<close>

theorem world_apply_exact:
  "case coop_world_apply e w g s playing of (w', g', s') \<Rightarrow>
     (\<forall>i < 3. world_flag_of s' i = world_flag_of s i \<or> sent_switch w i \<and> world_flag_of s' i = wanted w i) \<and>
     (\<forall>f. f \<notin> set coop_world_flags \<longrightarrow> flags s' f = flags s f) \<and> save_kept s s' \<and> (s' = s \<or> save_pending g' = 1) \<and>
     (\<forall>i < 3. world_flag_of s' i \<noteq> world_flag_of s i \<and> switch_loaded e i \<longrightarrow>
        (\<exists>c \<in> set (new_calls s s'). started e s i (wanted w i) c)) \<and>
     (\<forall>c \<in> set (new_calls s s'). \<exists>i < 3. world_flag_of s' i \<noteq> world_flag_of s i \<and> started e s i (wanted w i) c)"
proof -
  obtain w' g' s' where r: "coop_world_apply e w g s playing = (w', g', s')" by (metis prod_cases3)
  note a = apply_facts [OF r]
  obtain cs where "new_calls s s' = cs" "\<forall>c \<in> set cs. \<exists>j < 3. world_flag_of s' j \<noteq> world_flag_of s j \<and> started e s j (wanted w j) c"
      "\<forall>j < 3. world_flag_of s' j \<noteq> world_flag_of s j \<and> switch_loaded e j \<longrightarrow> (\<exists>c \<in> set cs. started e s j (wanted w j) c)"
    using a(5) by (auto simp: calls_run_def new_calls_def)
  with a(4,6,7) show ?thesis unfolding r prod.case switches_run_def by blast
qed

theorem world_apply_exact_witness:
  "\<not> flags (snd (snd (coop_world_apply isles_env world_example receiving_session fresh_game True))) 0xCE"
proof -
  obtain w1 g1 s1 where r: "coop_world_apply isles_env world_example receiving_session fresh_game True = (w1, g1, s1)"
    by (metis prod_cases3)
  have "\<not> world_flag_of fresh_game 1" "\<not> wanted world_example 1"
    by (simp_all add: fresh_game_def wanted_def world_example_def)
  moreover have "\<forall>i < 3. world_flag_of s1 i = world_flag_of fresh_game i \<or> sent_switch world_example i \<and> world_flag_of s1 i = wanted world_example i"
    using world_apply_exact [where e = isles_env and w = world_example and g = receiving_session and s = fresh_game and playing = True]
    unfolding r prod.case by blast
  ultimately have "\<not> world_flag_of s1 1" by (metis one_less_numeral_iff semiring_norm(77))
  then show ?thesis by (simp add: r coop_world_flags_def)
qed

end
