(* ===== verification/CoopLive.thy ===== *)
theory CoopLive
  imports CoopCapture
begin

text \<open>
  Items and scene together: when a peer's permanent change is applied in the map the player stands in,
  the flag is written only if the loaded objects are ready, and then all of them are changed with it.
\<close>

section \<open>The flag does not change whether its unit is ready\<close>

lemma ready_flag: "coop_live_world_ready e (s\<lparr>flags := f\<rparr>) x = coop_live_world_ready e s x"
proof -
  have "row_ready e (s\<lparr>flags := f\<rparr>) r = row_ready e s r" for r
    by (rule row_ready_cong [OF scripts_kept_same]) simp_all
  then show ?thesis by (simp add: coop_live_world_ready_def list_all_iff)
qed

lemma world_item_apply:
  assumes "COOP_WORLD_FIRST \<le> i" "i < COOP_PROGRESSION_END" "coop_progression_apply e s i safe here refresh = (granted, t)"
    and "\<not> flags s (coop_item_flag i)"
  shows "if granted then t = with_flag (coop_item_flag i) s else t = s"
proof -
  have own: "coop_progression_owned u i = flags u (coop_item_flag i)" for u
    using assms(1,2) by (simp add: coop_progression_owned_def coop_item_flag_def)
  from assms(3) have "granted = False \<and> t = s \<or> granted = flags t (coop_item_flag i) \<and> t = set_flag e (coop_item_flag i) s"
    using assms(1,2) by (auto simp: coop_progression_apply_def Let_def own world_flag split: if_split_asm)
  with assms(4) set_flag_cases [of e "coop_item_flag i" s] show ?thesis by (auto simp: set_flag_def)
qed

lemma granted_game:
  "fst (snd (progression_granted e fr i refresh live (g, s, a))) =
     (if refresh then snd (coop_live_world_refresh e (uint (unlock_flag (world_row i))) s) else s)"
  "snd (snd (progression_granted e fr i refresh live (g, s, a))) =
     (live \<and> refresh \<and> fst (coop_live_world_refresh e (uint (unlock_flag (world_row i))) s) \<or> a)"
  unfolding progression_granted_def Let_def prod.case case_prod_beta fst_conv snd_conv by (cases refresh; cases live; simp)+

lemma unit_step:
  assumes "COOP_WORLD_FIRST \<le> i" "i < COOP_PROGRESSION_END" "exact_live_world e (calm fr) g i"
    and "\<not> flags s (coop_item_flag i)" and "progression_step e fr i (g, s, a) = (broke, g', s', a')"
  shows "s' = s \<or> coop_live_world_ready e s (coop_item_flag i) \<and> a' \<and>
    coop_live_world_refresh e (coop_item_flag i) (with_flag (coop_item_flag i) s) = (True, s')"
proof -
  have f: "uint (unlock_flag (world_row i)) = coop_item_flag i" using world_flag [OF assms(1,2)] by (simp add: world_row_def)
  obtain granted t where ap: "coop_progression_apply e s i True (env_level e) (refresh_enabled g \<noteq> 0) = (granted, t)" by (metis surj_pair)
  note t = world_item_apply [OF assms(1,2) ap assms(4)]
  show ?thesis
  proof (cases "coop_progression_valid s \<and> coop_live_world_ready e s (coop_item_flag i) \<and> granted")
    case True
    then have ready: "coop_live_world_ready e t (coop_item_flag i)" using t ready_flag [where e = e and s = s] by simp
    obtain u where u: "coop_live_world_refresh e (coop_item_flag i) t = (True, u)"
      using refresh_complete [of e "coop_item_flag i" t] ready by (metis fst_conv surj_pair)
    have "progression_step e fr i (g, s, a) = (False, progression_granted e fr i True True (g, t, a))"
      using True assms(1,3) ap f by (simp add: progression_step_def Let_def)
    with assms(5) have "s' = fst (snd (progression_granted e fr i True True (g, t, a)))"
        "a' = snd (snd (progression_granted e fr i True True (g, t, a)))" by simp_all
    then have "s' = u" "a'" unfolding granted_game f by (simp_all add: u)
    with True t u show ?thesis by simp
  next
    case False
    have "s' = s" using assms(1,3,5) ap f t False
      by (auto simp: progression_step_def Let_def split: if_split_asm)
    then show ?thesis ..
  qed
qed

section \<open>The llama temple in a running session\<close>

definition temple_play :: coop_env where
  "temple_play = \<lparr>env_map = 20, prop_index = (\<lambda>h. h), golden_banana_type = 45, seal_at_cage = (\<lambda>i. False),
     flag_accepted = (\<lambda>s f. True), pickup_accepted = (\<lambda>s b l. True), pickup_total = (\<lambda>l. 0), env_level = 1, hud_loaded = True,
     reward_queued = False\<rparr>"

definition temple_game :: coop_game where
  "temple_game = fresh_game\<lparr>flags := (\<lambda>f. f = 50), script_slots := 0x16 # 0x18 # replicate 598 0xFFFF,
     actors := [None, Some waiting_llama]\<rparr>"

definition temple_session :: CoopItems where
  "temple_session = receiving_session\<lparr>refresh_enabled := 1\<rparr>"

definition temple_frame :: apply_frame where
  "temple_frame = \<lparr>calm = True, training_ground = False, live_only = True, safe_save = False\<rparr>"

lemma temple_play_unit: "unit_rows temple_play 76 =
    [LiveWorld 20 76 22 0 REPLAY, LiveWorld 20 76 24 0 REPLAY, LiveWorld 20 76 65535 0 LLAMA_WATER]"
  using temple_unit by (simp add: unit_rows_def temple_env_def temple_play_def)

lemma temple_play_objects: "coop_live_world_find_object temple_game 22 = Some 0" "coop_live_world_find_object temple_game 24 = Some 1"
  by (rule find_object_first; simp add: temple_game_def)+

lemma temple_play_ready: "coop_live_world_ready temple_play temple_game 76"
  by (simp add: coop_live_world_ready_def temple_play_unit row_ready_def temple_play_objects coop_live_world_llama_water_ready_def
      live_actors_def) (simp add: temple_game_def waiting_llama_def List.map_filter_def)

lemma temple_valid: "coop_progression_valid temple_game"
proof -
  have at: "kongs temple_game ! k = fresh_progress" if "k < 5" for k using that by (simp add: temple_game_def fresh_game_def)
  show ?thesis unfolding progression_valid_iff using at at [of 0]
    by (simp add: fresh_progress_def tiers_ok_def) (simp add: temple_game_def fresh_game_def)
qed

lemma temple_row: "world_row 2295 = WorldUnlock 76 1 0" "coop_world_unlocks ! 0 = WorldUnlock 50 1 (- 1)"
  by (simp_all add: world_row_def coop_world_unlocks_def coop_world_base_def)

lemma temple_item: "coop_item_flag 2295 = 76"
  using world_flag [of 2295] temple_row by (simp add: world_row_def)

lemma temple_granted: "\<not> world_refused temple_game (WorldUnlock 76 1 0) 1 True"
  by (simp add: world_refused_def temple_row coop_world_requirements_def) (simp add: temple_game_def)

lemma temple_exact: "exact_live_world temple_play (calm temple_frame) temple_session 2295"
  by (simp add: exact_live_world_def temple_row coop_live_world_has_flag_def temple_play_unit temple_session_def temple_frame_def)

lemma temple_apply: "fst (coop_progression_apply temple_play temple_game 2295 True 1 True)"
proof -
  have "coop_world_unlocks ! 1 = WorldUnlock 76 1 0" using temple_row(1) by (simp add: world_row_def)
  moreover have "coop_progression_owned s 2295 = flags s 76" for s :: coop_game
    using temple_item by (simp add: coop_progression_owned_def coop_item_flag_def)
  ultimately show ?thesis using temple_granted
    by (simp add: coop_progression_apply_def Let_def set_flag_def) (simp add: temple_play_def)
qed

text \<open>
  C27: a permanent change a peer sent for the current map reaches flag and scene together.  In one step of
  the application, either the game stays as it is, or the unit of the flag was ready, the flag is set, and
  the whole unit is refreshed from the state with the flag, without a failure in between.
\<close>

theorem live_flag_with_scene:
  assumes "COOP_WORLD_FIRST \<le> i" and "i < COOP_PROGRESSION_END" and "exact_live_world e (calm fr) g i"
    and "\<not> flags s (coop_item_flag i)" and "progression_step e fr i (g, s, a) = (broke, g', s', a')"
  shows "s' = s \<or>
    coop_live_world_ready e s (coop_item_flag i) \<and> flags s' = (flags s)(coop_item_flag i := True) \<and> a' \<and>
    coop_live_world_refresh e (coop_item_flag i) (s\<lparr>flags := (flags s)(coop_item_flag i := True)\<rparr>) = (True, s')"
  using unit_step [OF assms] refresh_only [of "with_flag (coop_item_flag i) s" e "coop_item_flag i"]
  by (auto simp: scene_only_def)

theorem live_flag_with_scene_witness:
  "flags (fst (snd (snd (progression_step temple_play temple_frame 2295 (temple_session, temple_game, False))))) 76 \<and>
   SelectState 1 0 \<in> set (coop_calls (fst (snd (snd (progression_step temple_play temple_frame 2295 (temple_session, temple_game, False))))))"
proof -
  obtain b g' t a' where r: "progression_step temple_play temple_frame 2295 (temple_session, temple_game, False) = (b, g', t, a')"
    by (metis prod_cases4)
  have unset: "\<not> flags temple_game (coop_item_flag 2295)" by (simp add: temple_item temple_game_def)
  obtain u where ap: "coop_progression_apply temple_play temple_game 2295 True 1 True = (True, u)"
    using temple_apply by (metis prod.collapse)
  have "progression_step temple_play temple_frame 2295 (temple_session, temple_game, False) =
      (False, progression_granted temple_play temple_frame 2295 True True (temple_session, u, False))"
    using temple_exact temple_valid ap temple_play_ready
    by (simp add: progression_step_def Let_def temple_row) (simp add: temple_frame_def temple_play_def temple_session_def)
  then have "t = fst (snd (progression_granted temple_play temple_frame 2295 True True (temple_session, u, False)))" using r by (metis fst_conv snd_conv)
  then have "flags t = flags u" unfolding granted_game using refresh_only [of u temple_play 76] by (simp add: temple_row scene_only_def)
  moreover have "flags u (coop_item_flag 2295)" using world_item_apply [OF _ _ ap unset] by simp
  ultimately have "t \<noteq> temple_game" using unset by metis
  then have t: "flags t 76" "coop_live_world_refresh temple_play 76 (temple_game\<lparr>flags := (flags temple_game)(76 := True)\<rparr>) = (True, t)"
    using live_flag_with_scene [OF _ _ temple_exact unset r] by (simp_all add: temple_item)
  have "selected (temple_game\<lparr>flags := (flags temple_game)(76 := True)\<rparr>) (LiveWorld 20 76 24 0 REPLAY)
      (new_calls (temple_game\<lparr>flags := (flags temple_game)(76 := True)\<rparr>) t)"
    by (rule refresh_rows_selected [OF refresh_unit(3) [OF t(2)]]) (simp_all add: temple_play_unit)
  moreover have "coop_live_world_find_object (temple_game\<lparr>flags := (flags temple_game)(76 := True)\<rparr>) 24 = Some 1"
    using temple_play_objects(2) find_object_cong [of "temple_game\<lparr>flags := (flags temple_game)(76 := True)\<rparr>" temple_game] by simp
  ultimately have "SelectState 1 0 \<in> set (coop_calls t)" by (simp add: selected_def new_calls_def) (blast dest: in_set_dropD)
  with t(1) show ?thesis by (simp add: r)
qed

end
