(* ===== verification/CoopDriver.thy ===== *)
theory CoopDriver
  imports CoopWorld CoopPolicies CoopTransition
begin

text \<open>
  The frame driver of co-op (\<^verbatim>\<open>coop.c\<close>): the choice of the campaign file at start-up, the frame that
  composes capture, network exchange, application, host recovery and shared transitions, and the
  promotion of a guest.  What the network, the recovery journal and the user's configuration answer in a
  frame are fields of the frame.  The avatar of the peer, combat and the same-area channel have state of
  their own, which is not part of the driver here; the writes of the same-area channel to the game are a
  function of the frame.
\<close>

section \<open>State\<close>

abbreviation (input) "ROLE_OFF \<equiv> 0 :: u32"
abbreviation (input) "ROLE_HOST \<equiv> 1 :: u32"
abbreviation (input) "ROLE_JOIN \<equiv> 2 :: u32"
abbreviation (input) "NET_LISTENING \<equiv> 1 :: u32"
abbreviation (input) "NET_CONNECTED \<equiv> 3 :: u32"
abbreviation (input) "NET_ERROR \<equiv> 4 :: u32"
abbreviation (input) "STATE_ACTIVE \<equiv> 1 :: u32"
abbreviation (input) "STATE_CUTSCENE \<equiv> 2 :: u32"
abbreviation (input) "STORAGE_CHECKPOINT \<equiv> bit32 1"
abbreviation (input) "STORAGE_PROMOTED \<equiv> bit32 2"
abbreviation (input) "STORAGE_ERROR \<equiv> bit32 4"
abbreviation (input) "STORAGE_FOLLOWER \<equiv> bit32 5"
abbreviation (input) "RECOVERY_STORAGE_FAILED \<equiv> 8 :: u32"

text \<open>What the driver asks of the host program and of the stock game, besides the calls of the game state.\<close>

datatype driver_call =
    ChangeSaveFile string | StopNetwork | StartNetwork u32 | PromoteJournal
  | TrainingScene | ChangeMap u32 int | BlastTo u32 int int int

record coop_driver =
  boot_initialized :: bool
  avatar_available :: bool
  role :: u32
  net_status :: u32
  epoch :: u32
  save_profile :: u32
  using_host_save :: bool
  shared_items :: bool
  merge_guest_progress :: bool
  automatic_world_refresh :: bool
  follow_host_transitions :: bool
  transient_enabled :: bool
  promoted_host :: bool
  recovery_state :: u32
  recovery_storage_status :: u32
  recovery_save_issued :: bool
  host_recovery :: CoopHostRecovery
  recovery_world_change :: "u32 list"
  items :: CoopItems
  world :: CoopWorld
  map_lifecycle :: CoopMapLifecycle
  map_load_serial :: u32
  transition_capture :: CoopTransitionCapture
  transition_follow :: CoopTransitionFollow
  local_ticket :: u32
  local_route :: u32
  remote_map :: u32
  remote_flags :: u32
  remote_ticket :: u32
  remote_route :: u32
  driver_calls :: "driver_call list"

abbreviation (input) driver_asks :: "driver_call \<Rightarrow> coop_driver \<Rightarrow> coop_driver" where
  "driver_asks c d \<equiv> d\<lparr>driver_calls := driver_calls d @ [c]\<rparr>"

section \<open>The campaign file\<close>

text \<open>The configuration values read at start-up.\<close>

record coop_config =
  role_setting :: u32
  shared_setting :: u32
  profile_setting :: u32
  copy_setting :: u32
  refresh_setting :: u32
  follow_setting :: u32
  same_area_setting :: u32
  conflict_setting :: u32

definition item_host_saves :: "string list" where
  "item_host_saves = [''items_host_v6'', ''items_host_v6_campaign2'', ''items_host_v6_campaign3'', ''items_host_v6_campaign4'',
     ''items_host_v6_campaign5'', ''items_host_v6_campaign6'', ''items_host_v6_campaign7'', ''items_host_v6_campaign8'']"

definition item_guest_saves :: "string list" where
  "item_guest_saves = [''items_guest_v6'', ''items_guest_v6_campaign2'', ''items_guest_v6_campaign3'', ''items_guest_v6_campaign4'',
     ''items_guest_v6_campaign5'', ''items_guest_v6_campaign6'', ''items_guest_v6_campaign7'', ''items_guest_v6_campaign8'']"

definition presence_host_saves :: "string list" where
  "presence_host_saves = [''prototype_host_v1'', ''prototype_host_v1_campaign2'', ''prototype_host_v1_campaign3'',
     ''prototype_host_v1_campaign4'', ''prototype_host_v1_campaign5'', ''prototype_host_v1_campaign6'',
     ''prototype_host_v1_campaign7'', ''prototype_host_v1_campaign8'']"

definition presence_guest_saves :: "string list" where
  "presence_guest_saves = [''prototype_guest_v1'', ''prototype_guest_v1_campaign2'', ''prototype_guest_v1_campaign3'',
     ''prototype_guest_v1_campaign4'', ''prototype_guest_v1_campaign5'', ''prototype_guest_v1_campaign6'',
     ''prototype_guest_v1_campaign7'', ''prototype_guest_v1_campaign8'']"

text \<open>The values a boot derives from the configuration alone: campaign, copy and file.\<close>

definition chosen_profile :: "coop_config \<Rightarrow> u32" where
  "chosen_profile c = (if 8 \<le> profile_setting c then 0 else profile_setting c)"

definition chosen_copy :: "coop_config \<Rightarrow> u32" where
  "chosen_copy c = (if 2 < copy_setting c then 0 else copy_setting c)"

definition chosen_host_save :: "coop_config \<Rightarrow> bool" where
  "chosen_host_save c = coop_recovery_use_host_copy (role_setting c) (chosen_copy c)"

definition campaign_file :: "coop_config \<Rightarrow> string" where
  "campaign_file c =
     (if shared_setting c = 1 then (if chosen_host_save c then item_host_saves else item_guest_saves)
      else (if chosen_host_save c then presence_host_saves else presence_guest_saves)) ! unat (chosen_profile c)"

text \<open>
  \<open>worker_started\<close>: the game has begun to load its EEPROM; \<open>journal\<close>: the status of the recovery
  journal of the chosen file.  The authority the journal remembers decides the role.
\<close>

definition recovered_role :: "coop_config \<Rightarrow> u32 \<Rightarrow> u32" where
  "recovered_role c journal =
     (let r = (if role_setting c = ROLE_HOST \<and> journal AND STORAGE_ERROR = 0 \<and> journal AND STORAGE_FOLLOWER \<noteq> 0
               then ROLE_JOIN else role_setting c)
      in if role_setting c = ROLE_JOIN \<and> chosen_copy c = 0 \<and> journal AND STORAGE_ERROR = 0 \<and> journal AND STORAGE_PROMOTED \<noteq> 0
         then ROLE_HOST else r)"

definition coop_select_save :: "coop_config \<Rightarrow> bool \<Rightarrow> u32 \<Rightarrow> coop_driver \<Rightarrow> coop_driver" where
  "coop_select_save c worker_started journal d =
     (if boot_initialized d then d
      else
        let d = d\<lparr>boot_initialized := True, role := role_setting c\<rparr> in
        if role_setting c \<noteq> ROLE_HOST \<and> role_setting c \<noteq> ROLE_JOIN then d\<lparr>role := ROLE_OFF\<rparr>
        else if worker_started then d\<lparr>role := ROLE_OFF, net_status := NET_ERROR\<rparr>
        else
          let shared = (shared_setting c = 1); r = recovered_role c journal;
              d = driver_asks (ChangeSaveFile (campaign_file c)) (d\<lparr>shared_items := shared, save_profile := chosen_profile c,
                using_host_save := chosen_host_save c, automatic_world_refresh := shared \<and> refresh_setting c = 1,
                follow_host_transitions := follow_setting c = 1, transient_enabled := same_area_setting c = 1,
                recovery_storage_status := journal\<rparr>);
              h = (host_recovery d)\<lparr>checkpoint := u32_of (journal AND STORAGE_CHECKPOINT \<noteq> 0)\<rparr>
          in d\<lparr>host_recovery := (if role_setting c = ROLE_JOIN \<and> r = ROLE_HOST then h\<lparr>promoted := 1\<rparr> else h), role := r,
               merge_guest_progress := r = ROLE_HOST \<and> conflict_setting c = 1,
               promoted_host := r = ROLE_HOST \<and> \<not> chosen_host_save c\<rparr>)"

section \<open>Recovery conditions\<close>

definition coop_item_words_any :: "u32 list \<Rightarrow> bool" where
  "coop_item_words_any ws \<longleftrightarrow> list_ex (\<lambda>i. ws ! i \<noteq> 0) [0..<COOP_ITEM_WORDS]"

text \<open>The fingerprint of the state a checkpoint stands for: FNV-1a over whole words.\<close>

definition recovery_mix :: "u32 \<Rightarrow> u32 \<Rightarrow> u32" where "recovery_mix hash v = (hash XOR v) * 16777619"

definition fingerprint_words :: "coop_driver \<Rightarrow> u32 list" where
  "fingerprint_words d =
     [save_profile d + 1, u32_of (using_host_save d), input_file (input (items d)), world_values (world_input (world d))] @
     map (\<lambda>i. owned (input (items d)) ! i) [0..<COOP_ITEM_WORDS]"

definition coop_recovery_fingerprint :: "coop_driver \<Rightarrow> u32" where
  "coop_recovery_fingerprint d = foldl recovery_mix 2166136261 (fingerprint_words d)"

text \<open>\<open>loading\<close>: a map transition is running.\<close>

definition coop_recovery_local_safe :: "coop_env \<Rightarrow> coop_driver \<Rightarrow> bool \<Rightarrow> bool \<Rightarrow> bool" where
  "coop_recovery_local_safe e d playing loading \<longleftrightarrow>
     playing \<and> \<not> loading \<and> \<not> reward_queued e \<and>
     (shared_items d \<longrightarrow>
        coop_items_apply_map (env_map e) \<and> ready (input (items d)) \<noteq> 0 \<and> baseline (items d) \<noteq> 0 \<and> live_snapshot (items d) \<noteq> 0 \<and>
        deferred (items d) = 0 \<and> file_changed (items d) = 0 \<and> counter_error (items d) = 0 \<and>
        save_pending (items d) = 0 \<and> world_save_pending (items d) = 0 \<and> \<not> coop_item_words_any (request (input (items d))))"

definition coop_recovery_checkpoint_safe :: "coop_env \<Rightarrow> coop_driver \<Rightarrow> bool \<Rightarrow> bool \<Rightarrow> bool" where
  "coop_recovery_checkpoint_safe e d playing loading \<longleftrightarrow>
     coop_recovery_local_safe e d playing loading \<and> net_status d = NET_CONNECTED \<and>
     (shared_items d \<longrightarrow>
        result_status (result (items d)) = 3 \<and> \<not> coop_item_words_any (apply_words (result (items d))) \<and>
        world_status (world_result (world d)) = 3 \<and> world_pending (world_result (world d)) = 0 \<and>
        apply_mask (world_result (world d)) = 0)"

text \<open>A new local intent of a guest discards its checkpoint.\<close>

definition local_intent :: "coop_driver \<Rightarrow> bool" where
  "local_intent d \<longleftrightarrow> coop_item_words_any (request (input (items d))) \<or>
     list_ex (\<lambda>i. recovery_world_change d ! i \<noteq> change (world_input (world d)) ! i) [0..<COOP_WORLD_TOGGLES]"

definition coop_recovery_observe_local_intent :: "coop_driver \<Rightarrow> coop_driver" where
  "coop_recovery_observe_local_intent d =
     (if role d \<noteq> ROLE_JOIN then d
      else
        let changed = local_intent d;
            d = d\<lparr>recovery_world_change := map (\<lambda>i. change (world_input (world d)) ! i) [0..<COOP_WORLD_TOGGLES]\<rparr>
        in if changed then d\<lparr>host_recovery := (host_recovery d)\<lparr>checkpoint := 0, stable_frames := 0\<rparr>, recovery_save_issued := False\<rparr>
           else d)"

section \<open>The network and the promotion of a guest\<close>

text \<open>
  What a frame finds: the answers of the stock game, the network, the journal and the configuration.
  \<open>moved\<close> is whether the transition a guest follows has started; \<open>listen\<close> and \<open>rejoin\<close> are
  the network states after starting it as host and as guest.
\<close>

record coop_frame_in =
  game_env :: coop_env
  frame_playing :: bool
  frame_loading :: bool
  moved :: bool
  frame_file :: u32
  frame_kong :: u32
  player_spawned :: bool
  to_map :: int
  to_exit :: int
  answer_status :: u32
  answer_items :: CoopItemResult
  answer_world :: CoopWorldResult
  answer_map :: u32
  answer_flags :: u32
  answer_ticket :: u32
  answer_route :: u32
  same_area :: "coop_game \<Rightarrow> coop_game"
  command_setting :: u32
  merge_setting :: u32
  journal_now :: u32
  listen :: u32
  rejoin :: u32
  journal_promotes :: bool

definition no_item_result :: CoopItemResult where
  "no_item_result = \<lparr>result_status = 0, apply_words = no_words, acknowledged = no_words, result_session_hi = 0,
     result_session_lo = 0, result_scope = 0\<rparr>"

definition no_world_result :: CoopWorldResult where
  "no_world_result = \<lparr>world_status = 0, desired = 0, apply_mask = 0, world_pending = 0, result_world_session_hi = 0,
     result_world_session_lo = 0, result_world_scope = 0\<rparr>"

definition no_follow :: CoopTransitionFollow where
  "no_follow = \<lparr>follow_connected = False, seen_ticket = 0, follow_pending = False, follow_source = 0\<rparr>"

text \<open>The session of the old host is forgotten; what was captured from the save is kept.\<close>

definition forget_session :: "coop_driver \<Rightarrow> coop_driver" where
  "forget_session d =
     d\<lparr>items := (update_input (\<lambda>n. n\<lparr>session_hi := 0, session_lo := 0, scope := 0, request := no_words\<rparr>) (items d))
         \<lparr>join_role := 0, bound := 0, result := no_item_result\<rparr>,
       world := (world d)\<lparr>world_input := (world_input (world d))\<lparr>world_session_hi := 0, world_session_lo := 0, world_scope := 0\<rparr>,
         world_result := no_world_result\<rparr>,
       transition_capture := no_capture, transition_follow := no_follow, epoch := epoch d + 1\<rparr>"

definition rejoin_host :: "coop_frame_in \<Rightarrow> coop_driver \<Rightarrow> coop_driver" where
  "rejoin_host fr d = (driver_asks (StartNetwork ROLE_JOIN) d)
     \<lparr>net_status := rejoin fr, host_recovery := coop_host_recovery_complete (host_recovery d) 0\<rparr>"

definition coop_promote_guest :: "coop_frame_in \<Rightarrow> coop_driver \<Rightarrow> bool \<times> coop_driver" where
  "coop_promote_guest fr d =
     (let d = driver_asks (StartNetwork ROLE_HOST) (driver_asks StopNetwork d)
      in if listen fr \<noteq> NET_LISTENING then (False, rejoin_host fr d)
         else if \<not> journal_promotes fr then (False, rejoin_host fr (driver_asks StopNetwork (driver_asks PromoteJournal d)))
         else
           let d = forget_session ((driver_asks PromoteJournal d)\<lparr>role := ROLE_HOST, net_status := listen fr, promoted_host := True,
                 merge_guest_progress := merge_setting fr = 1\<rparr>)
           in (True, d\<lparr>host_recovery := coop_host_recovery_complete (host_recovery d) 1\<rparr>))"

section \<open>The frame\<close>

abbreviation (input) current_map :: "coop_frame_in \<Rightarrow> u32" where
  "current_map fr \<equiv> word_of_int (env_map (game_env fr))"

definition coop_reset_loaded_map :: "coop_frame_in \<Rightarrow> coop_driver \<Rightarrow> coop_driver" where
  "coop_reset_loaded_map fr d =
     d\<lparr>epoch := epoch d + 1,
       items := (if world_save_pending (items d) \<noteq> 0 \<and> current_map fr \<noteq> 194 then (items d)\<lparr>world_save_pending := 0\<rparr> else items d)\<rparr>"

definition frame_lifecycle :: "coop_frame_in \<Rightarrow> coop_driver \<Rightarrow> coop_driver" where
  "frame_lifecycle fr d =
     (case coop_map_lifecycle_changed (map_lifecycle d) (current_map fr) (map_load_serial d) of (changed, l) \<Rightarrow>
        let d = d\<lparr>map_lifecycle := l\<rparr> in if changed then coop_reset_loaded_map fr d else d)"

definition peer_in_course :: "coop_frame_in \<Rightarrow> coop_driver \<Rightarrow> bool" where
  "peer_in_course fr d \<longleftrightarrow>
     remote_map d = current_map fr \<and> remote_flags d AND STATE_ACTIVE \<noteq> 0 \<and> remote_flags d AND STATE_CUTSCENE = 0"

definition frame_transition :: "coop_frame_in \<Rightarrow> coop_driver \<Rightarrow> coop_driver" where
  "frame_transition fr d =
     (case coop_transition_capture (transition_capture d) (net_status d = NET_CONNECTED) (role d = ROLE_HOST) (transient_enabled d)
        (frame_playing fr) (frame_playing fr \<and> frame_kong fr = 0 \<and> \<not> reward_queued (game_env fr) \<and> peer_in_course fr d)
        (frame_loading fr) (current_map fr) (to_map fr) (to_exit fr)
      of (ticket, route, c) \<Rightarrow> d\<lparr>transition_capture := c, local_ticket := ticket, local_route := route\<rparr>)"

definition frame_sample :: "coop_frame_in \<Rightarrow> coop_driver \<Rightarrow> coop_game \<Rightarrow> coop_driver" where
  "frame_sample fr d s =
     (let g = (items d)\<lparr>join_role := u32_of (role d = ROLE_JOIN),
            refresh_enabled := u32_of (automatic_world_refresh d \<and> \<not> frame_loading fr)\<rparr>;
          enable = (if shared_items d then (if merge_guest_progress d then 2 else 1) else 0);
          g = coop_items_capture (game_env fr) s g enable (u32_of (frame_playing fr)) (frame_file fr)
      in d\<lparr>items := g, world := coop_world_capture (world d) g s\<rparr>)"

definition frame_capture :: "coop_frame_in \<Rightarrow> coop_driver \<Rightarrow> coop_game \<Rightarrow> coop_driver" where
  "frame_capture fr d s = coop_recovery_observe_local_intent (frame_sample fr d s)"

text \<open>The network exchange: the answers replace the remote state and reach the two channels.\<close>

definition frame_receive :: "coop_frame_in \<Rightarrow> coop_driver \<Rightarrow> coop_driver" where
  "frame_receive fr d =
     d\<lparr>net_status := answer_status fr, remote_map := answer_map fr, remote_flags := answer_flags fr,
       remote_ticket := answer_ticket fr, remote_route := answer_route fr,
       items := coop_items_receive (items d) (answer_items fr), world := coop_world_receive (world d) (answer_world fr)\<rparr>"

definition peer_on_map :: "coop_frame_in \<Rightarrow> coop_driver \<Rightarrow> bool" where
  "peer_on_map fr d \<longleftrightarrow>
     net_status d = NET_CONNECTED \<and> remote_map d = current_map fr \<and> remote_flags d AND (STATE_ACTIVE OR STATE_CUTSCENE) \<noteq> 0"

definition frame_scene :: "coop_frame_in \<Rightarrow> coop_driver \<Rightarrow> coop_driver" where
  "frame_scene fr d =
     (if training_scene_pending (items d) = 0 then d
      else
        let d = (if frame_playing fr \<and> current_map fr = 176 \<and> peer_same_map (items d) \<noteq> 0 \<and> \<not> reward_queued (game_env fr) \<and>
                   player_spawned fr then driver_asks TrainingScene d else d)
        in d\<lparr>items := (items d)\<lparr>training_scene_pending := 0\<rparr>\<rparr>)"

definition frame_apply :: "coop_frame_in \<Rightarrow> coop_driver \<Rightarrow> coop_game \<Rightarrow> coop_driver \<times> coop_game" where
  "frame_apply fr d s =
     (let e = game_env fr; s = (if transient_enabled d then same_area fr s else s) in
      case coop_world_apply e (world d) (items d) s (frame_playing fr) of (w, g, s) \<Rightarrow>
      case coop_items_save_world_lobby e g s (frame_playing fr \<and> \<not> frame_loading fr) of (g, s) \<Rightarrow>
      case coop_items_apply e (g\<lparr>peer_same_map := u32_of (peer_on_map fr d)\<rparr>) s (frame_playing fr) of (g, s) \<Rightarrow>
        (frame_scene fr (d\<lparr>world := w, items := g\<rparr>), s))"

text \<open>A newer authority in the journal turns a host back into a guest.\<close>

definition frame_authority :: "coop_frame_in \<Rightarrow> coop_driver \<Rightarrow> coop_driver" where
  "frame_authority fr d =
     (let d = d\<lparr>recovery_storage_status := journal_now fr\<rparr>;
          d = (if role d = ROLE_HOST \<and> journal_now fr AND STORAGE_FOLLOWER \<noteq> 0
               then d\<lparr>role := ROLE_JOIN, promoted_host := False, merge_guest_progress := False,
                      host_recovery := (host_recovery d)\<lparr>promoted := 0, checkpoint := 0\<rparr>\<rparr> else d)
      in if net_status d \<noteq> NET_CONNECTED \<and> journal_now fr AND STORAGE_CHECKPOINT = 0
         then d\<lparr>host_recovery := (host_recovery d)\<lparr>checkpoint := 0\<rparr>\<rparr> else d)"

definition frame_command :: "coop_frame_in \<Rightarrow> u32" where
  "frame_command fr = (if RECOVERY_PROMOTE < command_setting fr then 0 else command_setting fr)"

definition frame_poll :: "coop_frame_in \<Rightarrow> coop_driver \<Rightarrow> coop_driver" where
  "frame_poll fr d =
     (case coop_host_recovery_update (host_recovery d) (u32_of (role d = ROLE_JOIN)) (net_status d = NET_CONNECTED)
        (coop_recovery_checkpoint_safe (game_env fr) d (frame_playing fr) (frame_loading fr))
        (coop_recovery_local_safe (game_env fr) d (frame_playing fr) (frame_loading fr)) (frame_command fr)
      of (state, h) \<Rightarrow> d\<lparr>host_recovery := h, recovery_state := state\<rparr>)"

text \<open>The first frame of a checkpoint under construction saves the game once.\<close>

definition checkpoint_save :: "coop_frame_in \<Rightarrow> coop_driver \<Rightarrow> coop_game \<Rightarrow> coop_driver \<times> coop_game" where
  "checkpoint_save fr d s =
     (if role d = ROLE_JOIN \<and> net_status d = NET_CONNECTED \<and>
         coop_recovery_checkpoint_safe (game_env fr) d (frame_playing fr) (frame_loading fr) \<and>
         stable_frames (host_recovery d) = 1 \<and> checkpoint (host_recovery d) = 0 \<and> \<not> recovery_save_issued d
      then (d\<lparr>recovery_save_issued := True\<rparr>, call_game SaveGame s) else (d, s))"

text \<open>The Boolean tells that the frame ends here, with an attempted promotion.\<close>

definition frame_recovery :: "coop_frame_in \<Rightarrow> coop_driver \<Rightarrow> coop_game \<Rightarrow> bool \<times> coop_driver \<times> coop_game" where
  "frame_recovery fr d s =
     (case checkpoint_save fr (frame_poll fr (frame_authority fr d)) s of (d, s) \<Rightarrow>
        let d = (if journal_now fr AND STORAGE_ERROR \<noteq> 0 then d\<lparr>recovery_state := RECOVERY_STORAGE_FAILED\<rparr> else d)
        in if recovery_state d = RECOVERY_START then
             (case coop_promote_guest fr d of (done, d) \<Rightarrow>
                (True, d\<lparr>recovery_state := (if done then RECOVERY_ACTIVE else RECOVERY_FAILED)\<rparr>, s))
           else (False, d, s))"

definition follow_calls :: "u32 \<Rightarrow> driver_call list" where
  "follow_calls route =
     (let destination = coop_transition_destination route; exit_door = coop_transition_exit route in
      case coop_transition_bblast_trigger route of
        Some (x, z) \<Rightarrow> [BlastTo destination exit_door x z]
      | None \<Rightarrow> [ChangeMap destination exit_door])"

definition frame_follow :: "coop_frame_in \<Rightarrow> coop_driver \<Rightarrow> coop_driver" where
  "frame_follow fr d =
     (case coop_transition_should_follow (transition_follow d) (net_status d = NET_CONNECTED)
        (follow_host_transitions d \<and> role d = ROLE_JOIN)
        (transient_enabled d \<and> frame_kong fr = 0 \<and> \<not> reward_queued (game_env fr) \<and> remote_map d = current_map fr)
        (frame_playing fr) (frame_loading fr) (current_map fr) (remote_flags d) (remote_ticket d) (remote_route d)
      of (go, f) \<Rightarrow>
        let d = d\<lparr>transition_follow := f\<rparr>
        in if \<not> go then d
           else
             let d = d\<lparr>driver_calls := driver_calls d @ follow_calls (remote_route d)\<rparr>
             in if moved fr then d\<lparr>transition_follow := coop_transition_consumed (transition_follow d)\<rparr> else d)"

definition coop_frame :: "coop_frame_in \<Rightarrow> coop_driver \<Rightarrow> coop_game \<Rightarrow> coop_driver \<times> coop_game" where
  "coop_frame fr d s =
     (if role d = ROLE_OFF \<or> \<not> avatar_available d then (d, s)
      else
        let d = frame_receive fr (frame_capture fr (frame_transition fr (frame_lifecycle fr d)) s) in
        case frame_apply fr d s of (d, s) \<Rightarrow>
        case frame_recovery fr d s of (ended, d, s) \<Rightarrow> if ended then (d, s) else (frame_follow fr d, s))"

section \<open>Local flag writes\<close>

text \<open>The game's flag event: a new permanent flag of an item, written by the local player.\<close>

definition coop_flag_change ::
  "int \<Rightarrow> u32 \<Rightarrow> u32 \<Rightarrow> bool \<Rightarrow> u32 \<Rightarrow> coop_game \<Rightarrow> coop_driver \<Rightarrow> coop_driver" where
  "coop_flag_change flag v type adventure save s d =
     (if shared_items d \<and> type = 0 \<and> v \<noteq> 0 \<and> 0 \<le> coop_item_id flag
      then d\<lparr>items := coop_items_observe (items d) (u32_of (role d = ROLE_JOIN)) flag v type (u32_of (flags s flag))
             (u32_of adventure) save\<rparr>
      else d)"

definition coop_map_loaded :: "coop_driver \<Rightarrow> coop_driver" where
  "coop_map_loaded d = d\<lparr>map_load_serial := map_load_serial d + 1\<rparr>"

section \<open>Start-up\<close>

text \<open>
  \<open>slot_free\<close>: the stock behaviour of the unused actor slot is in place; \<open>network\<close>: its state
  after starting it in the chosen role.
\<close>

definition coop_initialize :: "coop_config \<Rightarrow> bool \<Rightarrow> u32 \<Rightarrow> bool \<Rightarrow> u32 \<Rightarrow> coop_driver \<Rightarrow> coop_driver" where
  "coop_initialize c worker_started journal slot_free network d =
     (let d = coop_select_save c worker_started journal d
      in if role d = ROLE_OFF \<or> avatar_available d then d
         else if \<not> slot_free then d\<lparr>net_status := NET_ERROR\<rparr>
         else (driver_asks (StartNetwork (role d)) d)\<lparr>avatar_available := True, net_status := network\<rparr>)"

section \<open>The campaign file\<close>

lemma campaign_names:
  "distinct (item_host_saves @ item_guest_saves @ presence_host_saves @ presence_guest_saves)"
  by code_simp

lemma campaign_name_lengths [simp]:
  "length item_host_saves = 8" "length item_guest_saves = 8" "length presence_host_saves = 8" "length presence_guest_saves = 8"
  by (simp_all add: item_host_saves_def item_guest_saves_def presence_host_saves_def presence_guest_saves_def)

lemma chosen_profile_bound: "unat (chosen_profile c) < 8"
  by (simp add: chosen_profile_def word_less_nat_alt word_le_nat_alt)

text \<open>The place of a campaign in the list of all names.\<close>

definition campaign_index :: "coop_config \<Rightarrow> nat" where
  "campaign_index c = (if shared_setting c = 1 then 0 else 16) + (if chosen_host_save c then 0 else 8) + unat (chosen_profile c)"

lemma campaign_file_nth:
  "campaign_file c = (item_host_saves @ item_guest_saves @ presence_host_saves @ presence_guest_saves) ! campaign_index c"
  "campaign_index c < 32"
  using chosen_profile_bound [of c] by (auto simp: campaign_file_def campaign_index_def nth_append)

lemma campaign_file_inject:
  "campaign_file c = campaign_file c' \<longleftrightarrow>
     (shared_setting c = 1) = (shared_setting c' = 1) \<and> chosen_host_save c = chosen_host_save c' \<and> chosen_profile c = chosen_profile c'"
proof -
  have "campaign_file c = campaign_file c' \<longleftrightarrow> campaign_index c = campaign_index c'"
    unfolding campaign_file_nth(1) by (rule nth_eq_iff_index_eq [OF campaign_names]) (use campaign_file_nth(2) in simp_all)
  also have "\<dots> \<longleftrightarrow> (shared_setting c = 1) = (shared_setting c' = 1) \<and> chosen_host_save c = chosen_host_save c' \<and>
      chosen_profile c = chosen_profile c'"
    using chosen_profile_bound [of c] chosen_profile_bound [of c']
    by (auto simp: campaign_index_def word_unat_eq_iff)
  finally show ?thesis .
qed

section \<open>The fingerprint\<close>

text \<open>The multiplier is odd, so a mixing step loses nothing.\<close>

lemma prime_inverse: "x * 16777619 * 899433627 = (x :: u32)"
proof -
  have "(16777619 * 899433627 :: u32) = 1" by simp
  then show ?thesis by (simp only: mult.assoc mult_1_right)
qed

lemma mix_inject: "recovery_mix h v = recovery_mix h' v' \<longleftrightarrow> h XOR v = h' XOR v'"
  unfolding recovery_mix_def by (metis prime_inverse)

lemma xor_left: "(h XOR v = h XOR v') = (v = v')" for h v v' :: u32
  by (metis xor.assoc xor_self_eq xor.left_neutral)

lemma xor_right: "(h XOR v = h' XOR v) = (h = h')" for h v h' :: u32
  by (metis xor_left xor.commute)

lemma fold_mix_inject: "foldl recovery_mix h ws = foldl recovery_mix h' ws \<longleftrightarrow> h = h'"
  by (induction ws arbitrary: h h') (simp_all add: mix_inject xor_right)

lemma fold_mix_update:
  assumes "i < length ws" "v \<noteq> ws ! i"
  shows "foldl recovery_mix h (ws[i := v]) \<noteq> foldl recovery_mix h ws"
proof -
  have "foldl recovery_mix h (ws[i := v]) =
      foldl recovery_mix (recovery_mix (foldl recovery_mix h (take i ws)) v) (drop (Suc i) ws)"
    using assms(1) by (simp add: upd_conv_take_nth_drop)
  moreover have "foldl recovery_mix h ws =
      foldl recovery_mix (recovery_mix (foldl recovery_mix h (take i ws)) (ws ! i)) (drop (Suc i) ws)"
    using assms(1) by (subst id_take_nth_drop [OF assms(1)]) simp
  ultimately show ?thesis using assms(2) by (simp add: fold_mix_inject mix_inject xor_left)
qed

text \<open>
  C30: the fingerprint that travels with a checkpoint tells apart any two states whose checkpointed words
  differ in exactly one place: the campaign, the copy, the file, the switches or one word of owned items.
\<close>

theorem fingerprint_detects:
  assumes "i < 196" and "fingerprint_words d' = (fingerprint_words d)[i := v]" and "v \<noteq> fingerprint_words d ! i"
  shows "coop_recovery_fingerprint d' \<noteq> coop_recovery_fingerprint d"
proof -
  have "length (fingerprint_words d) = 196" by (simp add: fingerprint_words_def del: upt_rec_numeral)
  with assms show ?thesis by (simp add: coop_recovery_fingerprint_def fold_mix_update)
qed

text \<open>The static state before the first callback.\<close>

definition start_items :: CoopItems where
  "start_items = \<lparr>input = \<lparr>enabled = 0, input_file = 0, ready = 0, owned = no_words, request = no_words, session_hi = 0,
       session_lo = 0, scope = 0\<rparr>, result = no_item_result, locked_file = 0, file_changed = 0, applying = 0, save_pending = 0,
     counter_error = 0, hud_pending = 0, troff_pending = 0, refresh_enabled = 0, refresh_pending = 0, refresh_map = 0,
     baseline = 0, join_role = 0, bound = 0, deferred = 0, live_snapshot = 0, world_save_pending = 0, previous = no_words,
     wait_reason = 0, wait_id = 0, peer_same_map = 0, training_scene_pending = 0\<rparr>"

definition start_world :: CoopWorld where
  "start_world = \<lparr>world_input = \<lparr>world_enabled = 0, world_file = 0, world_ready = 0, world_values = 0, change = [0, 0, 0],
       world_session_hi = 0, world_session_lo = 0, world_scope = 0\<rparr>, world_result = no_world_result, world_baseline = 0,
     world_previous = 0\<rparr>"

definition start_driver :: coop_driver where
  "start_driver = \<lparr>boot_initialized = False, avatar_available = False, role = 0, net_status = 0, epoch = 1, save_profile = 0,
     using_host_save = False, shared_items = False, merge_guest_progress = False, automatic_world_refresh = False,
     follow_host_transitions = False, transient_enabled = False, promoted_host = False, recovery_state = 0,
     recovery_storage_status = 0, recovery_save_issued = False, host_recovery = no_recovery, recovery_world_change = [0, 0, 0],
     items = start_items, world = start_world, map_lifecycle = \<lparr>lifecycle_map = - 1, lifecycle_serial = 0\<rparr>, map_load_serial = 0,
     transition_capture = no_capture, transition_follow = no_follow, local_ticket = 0, local_route = 0, remote_map = 0,
     remote_flags = 0, remote_ticket = 0, remote_route = 0, driver_calls = []\<rparr>"

lemma fingerprint_detects_witness:
  "coop_recovery_fingerprint (start_driver\<lparr>using_host_save := True\<rparr>) \<noteq> coop_recovery_fingerprint start_driver"
  by (rule fingerprint_detects [of 1 _ _ 1]) (simp_all add: fingerprint_words_def start_driver_def u32_of_def del: upt_rec_numeral)

lemma u32_upto_2: "\<not> 2 < (x :: u32) \<Longrightarrow> x = 0 \<or> x = 1 \<or> x = 2"
proof -
  assume "\<not> 2 < x"
  then have "unat x \<le> 2" by (simp add: word_less_nat_alt)
  then have "unat x = 0 \<or> unat x = 1 \<or> unat x = 2" by auto
  then show ?thesis by (auto simp: word_unat_eq_iff)
qed

lemma chosen_host_save_iff:
  "chosen_host_save c \<longleftrightarrow> copy_setting c = 1 \<or> role_setting c = 1 \<and> copy_setting c \<noteq> 2"
  using u32_upto_2 [of "copy_setting c"] by (auto simp: chosen_host_save_def chosen_copy_def coop_recovery_use_host_copy_def)

text \<open>
  C29: a start-up never puts two campaigns into one file.  It either leaves the game's save file alone, with
  the mod off, or selects the campaign's file before the game has loaded one; the files of two
  configurations are equal exactly when kind, profile and copy are; the authority the recovery journal
  remembers changes the role but not the file; and later start-ups change nothing.
\<close>

theorem boot_isolated:
  assumes "\<not> boot_initialized d" and "boot = coop_select_save c worker journal d"
  shows "(role boot = 0 \<and> driver_calls boot = driver_calls d \<or>
      role boot \<in> {1, 2} \<and> \<not> worker \<and> driver_calls boot = driver_calls d @ [ChangeSaveFile (campaign_file c)]) \<and>
    (campaign_file c = campaign_file c' \<longleftrightarrow>
      (shared_setting c = 1) = (shared_setting c' = 1) \<and> chosen_profile c = chosen_profile c' \<and> chosen_host_save c = chosen_host_save c') \<and>
    (role boot \<noteq> 0 \<longrightarrow> using_host_save boot = (copy_setting c = 1 \<or> role_setting c = 1 \<and> copy_setting c \<noteq> 2)) \<and>
    coop_select_save c2 worker2 journal2 boot = boot"
proof -
  have "coop_select_save c2 worker2 journal2 boot = boot" by (simp add: assms coop_select_save_def Let_def)
  moreover have "role boot = 0 \<and> driver_calls boot = driver_calls d \<or>
      role boot \<in> {1, 2} \<and> \<not> worker \<and> driver_calls boot = driver_calls d @ [ChangeSaveFile (campaign_file c)] \<and>
      using_host_save boot = chosen_host_save c"
    using assms by (auto simp: coop_select_save_def recovered_role_def Let_def)
  ultimately show ?thesis using campaign_file_inject [of c c'] chosen_host_save_iff [of c] by auto
qed

lemma boot_isolated_witness:
  "let c = \<lparr>role_setting = 2, shared_setting = 1, profile_setting = 3, copy_setting = 0, refresh_setting = 1, follow_setting = 1,
        same_area_setting = 0, conflict_setting = 0\<rparr>;
       d = coop_select_save c False 0 start_driver
   in \<not> using_host_save d \<and> campaign_file c = ''items_guest_v6_campaign4''"
proof -
  define c where "c = \<lparr>role_setting = 2, shared_setting = 1, profile_setting = 3, copy_setting = 0, refresh_setting = 1,
    follow_setting = 1, same_area_setting = 0, conflict_setting = (0 :: u32)\<rparr>"
  define d where "d = coop_select_save c False 0 start_driver"
  have "\<not> boot_initialized start_driver" by (simp add: start_driver_def)
  from boot_isolated [OF this d_def, of c] have "role d \<noteq> 0 \<longrightarrow> \<not> using_host_save d" by (auto simp: c_def)
  moreover have "role d = 2" by (simp add: d_def c_def coop_select_save_def start_driver_def recovered_role_def Let_def)
  moreover have "campaign_file c = ''items_guest_v6_campaign4''"
    by (simp add: campaign_file_def c_def chosen_host_save_iff chosen_profile_def item_guest_saves_def)
  ultimately show ?thesis unfolding Let_def c_def [symmetric] d_def [symmetric] by simp
qed

section \<open>What a frame does to the save\<close>

lemma world_flags_no_item: "f \<in> set coop_world_flags \<Longrightarrow> f \<notin> coop_item_flag ` set flagged_ids"
proof -
  have "\<forall>f \<in> set coop_world_flags. f \<notin> set flag_runs" by code_simp
  then show "f \<in> set coop_world_flags \<Longrightarrow> f \<notin> coop_item_flag ` set flagged_ids" by (simp add: flags_of_ids [symmetric] del: flags_of_ids)
qed

text \<open>Two games with the same shareable items, counters and inventory.\<close>

definition same_items :: "coop_game \<Rightarrow> coop_game \<Rightarrow> bool" where
  "same_items s t \<longleftrightarrow> kongs t = kongs s \<and> melons t = melons s \<and> fed_cache t = fed_cache s \<and> pickup_bits t = pickup_bits s \<and>
     (\<forall>i \<in> set flagged_ids. flags t (coop_item_flag i) = flags s (coop_item_flag i))"

lemma same_items_gb: "same_items s t \<Longrightarrow> coop_item_gb i = Some lk \<Longrightarrow> flags t (coop_item_flag i) = flags s (coop_item_flag i)"
  using gb_range [of i lk] by (simp add: same_items_def)

lemma same_items_owned:
  assumes "same_items s t" "j < COOP_ITEMS"
  shows "coop_item_owned t j = coop_item_owned s j"
proof (cases "j \<in> set flagged_ids")
  case True
  with assms(1) owned_flag [OF True] show ?thesis by (simp add: same_items_def)
next
  case False
  have parts: "kongs t = kongs s" "melons t = melons s" "pickup_bits t = pickup_bits s" using assms(1) by (simp_all add: same_items_def)
  from False assms(2) show ?thesis
    unfolding flagged_members coop_item_owned_def coop_progression_owned_def coop_troff_owned_def parts by auto
qed

lemma same_items_blueprint:
  assumes "same_items s t"
  shows "blueprint_missing t = blueprint_missing s"
proof -
  have "flags t (0x1FD + int i - 80) = flags s (0x1FD + int i - 80)" "flags t (0x1D5 + int i - 80) = flags s (0x1D5 + int i - 80)"
    if "COOP_SNIDE_FIRST \<le> i" "i < COOP_MEDAL_FIRST" for i
  proof -
    have "i \<in> set flagged_ids" "coop_item_flag i = 0x1FD + int i - 80" "i - 80 \<in> set flagged_ids" "coop_item_flag (i - 80) = 0x1D5 + int i - 80"
      using that unfolding flagged_members by (simp_all add: coop_item_flag_def) linarith
    with assms show "flags t (0x1FD + int i - 80) = flags s (0x1FD + int i - 80)" "flags t (0x1D5 + int i - 80) = flags s (0x1D5 + int i - 80)"
      unfolding same_items_def by metis+
  qed
  then show ?thesis unfolding blueprint_missing_iff by blast
qed

lemma same_items_consistent:
  assumes "same_items s t"
  shows "consistent e t = consistent e s"
proof -
  have "banana_ids t level kong = banana_ids s level kong" for level kong
    using same_items_gb [OF assms] by (auto simp: banana_ids_def)
  then have bananas: "owned_bananas t = owned_bananas s" by (simp add: owned_bananas_card fun_eq_iff)
  have "flags t 0x180 = flags s 0x180" using assms training_flag unfolding same_items_def by metis
  then have "coop_progression_valid t = coop_progression_valid s"
    using assms by (simp add: coop_progression_valid_def same_items_def)
  with bananas same_items_blueprint [OF assms] assms show ?thesis
    by (simp add: consistent_def counters_valid_iff kong_counters_valid_def game_shape_def same_items_def)
qed

lemma same_items_refl [simp]: "same_items s s" "same_items s (call_game c s)"
  by (simp_all add: same_items_def call_game_def)

lemma same_items_trans: "same_items s t \<Longrightarrow> same_items t u \<Longrightarrow> same_items s u"
  by (simp add: same_items_def)
end
