(* ===== verification/CoopFrames.thy ===== *)
theory CoopFrames
  imports CoopDriver
begin

text \<open>
  Frames of a co-op session: what one frame does to the save, and over a run of frames, when a guest may
  turn itself into the host.
\<close>

section \<open>The save across a frame\<close>


text \<open>The game once the same-area channel has written to it.\<close>

definition area_written :: "coop_frame_in \<Rightarrow> coop_driver \<Rightarrow> coop_game \<Rightarrow> coop_game" where
  "area_written fr d s = (if role d \<noteq> 0 \<and> avatar_available d \<and> transient_enabled d then same_area fr s else s)"

lemma toggle_step_session:
  assumes "toggle_step e i (w, g, s) = (w', g', s')"
  shows "result g' = result g \<and> input g' = input g \<and> previous g' = previous g \<and> counter_error g' = counter_error g \<and>
    world_input w' = world_input w \<and> world_result w' = world_result w"
  using assms by (auto simp: toggle_step_def Let_def split: if_split_asm)

lemma world_apply_session:
  assumes "coop_world_apply e w g s playing = (w', g', s')"
  shows "result g' = result g" "input g' = input g" "previous g' = previous g" "counter_error g' = counter_error g"
    "world_input w' = world_input w" "world_result w' = world_result w"
proof -
  have "result g' = result g \<and> input g' = input g \<and> previous g' = previous g \<and> counter_error g' = counter_error g \<and>
      world_input w' = world_input w \<and> world_result w' = world_result w"
    if "fold (toggle_step e) is (w, g, s) = (w', g', s')" for "is" w g s
    using that
  proof (induction "is" arbitrary: w g s)
    case (Cons i "is")
    obtain w1 g1 s1 where st: "toggle_step e i (w, g, s) = (w1, g1, s1)" by (metis prod_cases3)
    with Cons.prems have "fold (toggle_step e) is (w1, g1, s1) = (w', g', s')" by simp
    from Cons.IH [OF this] toggle_step_session [OF st] show ?case by simp
  qed simp
  with assms show "result g' = result g" "input g' = input g" "previous g' = previous g" "counter_error g' = counter_error g"
    "world_input w' = world_input w" "world_result w' = world_result w"
    unfolding coop_world_apply_def by (auto split: if_split_asm simp del: upt_rec_numeral)
qed

lemma world_apply_items:
  assumes "coop_world_apply e w g s playing = (w', g', s')"
  shows "same_items s s'"
proof -
  note a = apply_facts [OF assms]
  have "flags s' (coop_item_flag i) = flags s (coop_item_flag i)" if "i \<in> set flagged_ids" for i
    using a(4) world_flags_no_item that unfolding switches_run_def prod.case by blast
  with a(6) show ?thesis by (simp add: same_items_def save_kept_def)
qed

text \<open>What a frame may have done to the save when it ends.\<close>

definition frame_gained :: "coop_env \<Rightarrow> u32 list \<Rightarrow> coop_game \<Rightarrow> coop_game \<Rightarrow> bool" where
  "frame_gained e ws s t \<longleftrightarrow> consistent e t \<and> (\<forall>j < COOP_ITEMS. coop_item_owned s j \<longrightarrow> coop_item_owned t j) \<and>
     (\<forall>j < COOP_ITEMS. coop_item_owned t j \<longrightarrow> coop_item_owned s j \<or> (\<exists>i. coop_item_has ws i \<and> implied i j) \<or>
        is_medal j \<or> j = COOP_TRAINING_COMPLETE)"

lemma gained_cong:
  assumes "same_items s s'" "same_items t t'" "frame_gained e ws s' t"
  shows "frame_gained e ws s t'"
  using assms(3) same_items_owned [OF assms(1)] same_items_owned [OF assms(2)] same_items_consistent [OF assms(2)]
  unfolding frame_gained_def by simp

lemma lobby_items:
  assumes "coop_items_save_world_lobby e g s quiet = (g', t)"
  shows "same_items s t" "result g' = result g" "input g' = input g" "previous g' = previous g"
  using assms by (auto simp: coop_items_save_world_lobby_def split: if_split_asm)

lemma frame_apply_gained:
  assumes "consistent (game_env fr) (if transient_enabled d then same_area fr s else s)" "frame_apply fr d s = (d', t)"
  shows "frame_gained (game_env fr) (apply_words (result (items d))) (if transient_enabled d then same_area fr s else s) t"
proof -
  let ?e = "game_env fr" and ?s = "if transient_enabled d then same_area fr s else s"
  obtain w g s1 where w: "coop_world_apply ?e (world d) (items d) ?s (frame_playing fr) = (w, g, s1)" by (metis prod_cases3)
  obtain g1 s2 where l: "coop_items_save_world_lobby ?e g s1 (frame_playing fr \<and> \<not> frame_loading fr) = (g1, s2)" by (metis surj_pair)
  let ?g = "g1\<lparr>peer_same_map := u32_of (peer_on_map fr d)\<rparr>"
  obtain g2 where a: "coop_items_apply ?e ?g s2 (frame_playing fr) = (g2, t)"
    using assms(2) w l unfolding frame_apply_def Let_def by (auto split: prod.splits)
  have same: "same_items ?s s2" using same_items_trans [OF world_apply_items [OF w] lobby_items(1) [OF l]] .
  with assms(1) have "consistent ?e s2" by (simp add: same_items_consistent)
  from apply_result [OF this a] have r: "consistent ?e t" "game_le s2 t"
      "\<forall>j < COOP_ITEMS. coop_item_owned t j \<longrightarrow> coop_item_owned s2 j \<or> sent (apply_words (result ?g)) j \<or> is_medal j \<or> j = COOP_TRAINING_COMPLETE"
    unfolding applied_result_def prod.case by blast+
  have "result ?g = result (items d)" using world_apply_session(1) [OF w] lobby_items(2) [OF l] by simp
  with r owned_mono [OF r(2)] have "frame_gained ?e (apply_words (result (items d))) s2 t"
    unfolding frame_gained_def sent_def by auto
  with gained_cong [OF same same_items_refl(1)] show ?thesis by blast
qed

lemma recovery_items:
  assumes "frame_recovery fr d s = (ended, d', t)"
  shows "same_items s t"
  using assms unfolding frame_recovery_def checkpoint_save_def
  by (auto split: prod.splits if_split_asm simp: Let_def)


text \<open>The frame up to the network exchange: what it leaves alone.\<close>

definition frame_exchange :: "coop_frame_in \<Rightarrow> coop_driver \<Rightarrow> coop_game \<Rightarrow> coop_driver" where
  "frame_exchange fr d s = frame_receive fr (frame_capture fr (frame_transition fr (frame_lifecycle fr d)) s)"

lemma lifecycle_kept [simp]:
  "role (frame_lifecycle fr d) = role d" "transient_enabled (frame_lifecycle fr d) = transient_enabled d"
  "avatar_available (frame_lifecycle fr d) = avatar_available d" "host_recovery (frame_lifecycle fr d) = host_recovery d"
  "world (frame_lifecycle fr d) = world d" "recovery_world_change (frame_lifecycle fr d) = recovery_world_change d"
  "input (items (frame_lifecycle fr d)) = input (items d)" "shared_items (frame_lifecycle fr d) = shared_items d"
  "driver_calls (frame_lifecycle fr d) = driver_calls d" "promoted_host (frame_lifecycle fr d) = promoted_host d"
  by (simp_all add: frame_lifecycle_def coop_reset_loaded_map_def Let_def split: prod.splits)

lemma transition_kept [simp]:
  "role (frame_transition fr d) = role d" "transient_enabled (frame_transition fr d) = transient_enabled d"
  "avatar_available (frame_transition fr d) = avatar_available d" "host_recovery (frame_transition fr d) = host_recovery d"
  "world (frame_transition fr d) = world d" "recovery_world_change (frame_transition fr d) = recovery_world_change d"
  "items (frame_transition fr d) = items d" "shared_items (frame_transition fr d) = shared_items d"
  "driver_calls (frame_transition fr d) = driver_calls d" "promoted_host (frame_transition fr d) = promoted_host d"
  by (simp_all add: frame_transition_def split: prod.splits)

lemma observe_kept [simp]:
  "role (coop_recovery_observe_local_intent d) = role d" "transient_enabled (coop_recovery_observe_local_intent d) = transient_enabled d"
  "avatar_available (coop_recovery_observe_local_intent d) = avatar_available d"
  "driver_calls (coop_recovery_observe_local_intent d) = driver_calls d"
  "promoted_host (coop_recovery_observe_local_intent d) = promoted_host d"
  "shared_items (coop_recovery_observe_local_intent d) = shared_items d"
  by (simp_all add: coop_recovery_observe_local_intent_def Let_def)

lemma sample_kept [simp]:
  "role (frame_sample fr d s) = role d" "transient_enabled (frame_sample fr d s) = transient_enabled d"
  "avatar_available (frame_sample fr d s) = avatar_available d" "driver_calls (frame_sample fr d s) = driver_calls d"
  "promoted_host (frame_sample fr d s) = promoted_host d" "shared_items (frame_sample fr d s) = shared_items d"
  "host_recovery (frame_sample fr d s) = host_recovery d"
  by (simp_all add: frame_sample_def Let_def)

lemma receive_kept [simp]:
  "role (frame_receive fr d) = role d" "transient_enabled (frame_receive fr d) = transient_enabled d"
  "avatar_available (frame_receive fr d) = avatar_available d" "driver_calls (frame_receive fr d) = driver_calls d"
  "host_recovery (frame_receive fr d) = host_recovery d" "net_status (frame_receive fr d) = answer_status fr"
  "promoted_host (frame_receive fr d) = promoted_host d" "shared_items (frame_receive fr d) = shared_items d"
  "result (items (frame_receive fr d)) = answer_items fr" "world_result (world (frame_receive fr d)) = answer_world fr"
  by (simp_all add: frame_receive_def coop_items_receive_def coop_world_receive_def Let_def)

lemma exchange_kept [simp]:
  "role (frame_exchange fr d s) = role d" "transient_enabled (frame_exchange fr d s) = transient_enabled d"
  "avatar_available (frame_exchange fr d s) = avatar_available d" "driver_calls (frame_exchange fr d s) = driver_calls d"
  "net_status (frame_exchange fr d s) = answer_status fr" "promoted_host (frame_exchange fr d s) = promoted_host d"
  "result (items (frame_exchange fr d s)) = answer_items fr" "shared_items (frame_exchange fr d s) = shared_items d"
  by (simp_all add: frame_exchange_def frame_capture_def)

text \<open>A frame that runs, in its four parts.\<close>

lemma coop_frame_parts:
  assumes "coop_frame fr d s = (d', t)" "role d \<noteq> 0" "avatar_available d"
  obtains a u ended r where "frame_apply fr (frame_exchange fr d s) s = (a, u)" "frame_recovery fr a u = (ended, r, t)"
    "d' = (if ended then r else frame_follow fr r)"
proof -
  obtain a u where a: "frame_apply fr (frame_exchange fr d s) s = (a, u)" by (metis surj_pair)
  obtain ended r v where r: "frame_recovery fr a u = (ended, r, v)" by (metis prod_cases3)
  have "v = t" "d' = (if ended then r else frame_follow fr r)"
    using assms a r by (auto simp: coop_frame_def Let_def frame_exchange_def [symmetric] split: if_split_asm)
  with a r show thesis using that by blast
qed

lemma frame_gained_result:
  assumes "consistent (game_env fr) (area_written fr d s)" "coop_frame fr d s = (d', t)"
  shows "frame_gained (game_env fr) (apply_words (answer_items fr)) (area_written fr d s) t"
proof (cases "role d \<noteq> 0 \<and> avatar_available d")
  case False
  then have "t = s" "area_written fr d s = s" using assms(2) by (auto simp: coop_frame_def area_written_def)
  with assms(1) show ?thesis by (simp add: frame_gained_def)
next
  case True
  then have w: "area_written fr d s = (if transient_enabled d then same_area fr s else s)" by (simp add: area_written_def)
  obtain a u ended r where p: "frame_apply fr (frame_exchange fr d s) s = (a, u)" "frame_recovery fr a u = (ended, r, t)"
    using coop_frame_parts [OF assms(2)] True by metis
  have "frame_gained (game_env fr) (apply_words (answer_items fr)) (area_written fr d s) u"
    using frame_apply_gained [OF _ p(1)] assms(1) by (simp add: w)
  with gained_cong [OF same_items_refl(1) recovery_items [OF p(2)]] show ?thesis by blast
qed


text \<open>A frame in DK Isles with a connected peer that sends K. Lumsy's freedom and the final boss.\<close>

definition isles_frame :: coop_frame_in where
  "isles_frame = \<lparr>game_env = isles_env, frame_playing = True, frame_loading = False, moved = False, frame_file = 0, frame_kong = 0,
     player_spawned = True, to_map = 0, to_exit = 0, answer_status = 3, answer_items = result receiving_session,
     answer_world = no_world_result, answer_map = 34, answer_flags = 1, answer_ticket = 0, answer_route = 0,
     same_area = (\<lambda>s. s), command_setting = 0, merge_setting = 0, journal_now = 0, listen = 1, rejoin = 2, journal_promotes = True\<rparr>"

definition guest_driver :: coop_driver where
  "guest_driver = start_driver\<lparr>boot_initialized := True, avatar_available := True, role := 2, shared_items := True\<rparr>"

lemma isles_frame_simps [simp]: "game_env isles_frame = isles_env" "same_area isles_frame = (\<lambda>s. s)"
  by (simp_all add: isles_frame_def)


section \<open>When a guest may become the host\<close>

text \<open>
  What a frame tells about the checkpoint: whether the local player did something the host does not know
  yet, whether the link is up, and whether both sides agree.  Frames of a host, and the frame in which a
  host becomes a guest, start from nothing.
\<close>

type_synonym verdict = "bool \<times> bool \<times> bool"

definition frame_sampled :: "coop_frame_in \<Rightarrow> coop_driver \<Rightarrow> coop_game \<Rightarrow> coop_driver" where
  "frame_sampled fr d s = frame_sample fr (frame_transition fr (frame_lifecycle fr d)) s"

definition frame_intent :: "coop_frame_in \<Rightarrow> coop_driver \<Rightarrow> coop_game \<Rightarrow> bool" where
  "frame_intent fr d s \<longleftrightarrow> role d \<noteq> ROLE_JOIN \<or> local_intent (frame_sampled fr d s)"

definition frame_verdict :: "coop_frame_in \<Rightarrow> coop_driver \<Rightarrow> coop_game \<Rightarrow> verdict" where
  "frame_verdict fr d s =
     (let a = fst (frame_apply fr (frame_exchange fr d s) s)
      in if role (frame_authority fr a) \<noteq> ROLE_JOIN then (True, False, False)
         else (frame_intent fr d s, answer_status fr = NET_CONNECTED,
               coop_recovery_checkpoint_safe (game_env fr) a (frame_playing fr) (frame_loading fr)))"

text \<open>The agreed frames at the head of a history, newest first.\<close>

fun stable_run :: "verdict list \<Rightarrow> nat" where
  "stable_run [] = 0"
| "stable_run ((intent, link, agreed) # vs) = (if link \<and> agreed then Suc (if intent then 0 else stable_run vs) else 0)"

text \<open>
  A checkpoint still stands: 120 agreed frames in a row, or the checkpoint the history began with, and
  since then no local intent and no connected frame without agreement.
\<close>

definition checkpoint_kept :: "bool \<Rightarrow> verdict list \<Rightarrow> bool" where
  "checkpoint_kept b vs \<longleftrightarrow>
     (\<exists>k \<le> length vs. (\<forall>(intent, link, agreed) \<in> set (take k vs). \<not> intent \<and> (link \<longrightarrow> agreed)) \<and>
        (120 \<le> stable_run (drop k vs) \<or> k = length vs \<and> b))"

lemma checkpoint_kept_Nil [simp]: "checkpoint_kept b [] = b"
  by (simp add: checkpoint_kept_def)

lemma checkpoint_kept_Cons:
  "checkpoint_kept b ((intent, link, agreed) # vs) \<longleftrightarrow>
     120 \<le> stable_run ((intent, link, agreed) # vs) \<or> \<not> intent \<and> (link \<longrightarrow> agreed) \<and> checkpoint_kept b vs"
proof -
  have cases: "(\<exists>k. P k) \<longleftrightarrow> P 0 \<or> (\<exists>k. P (Suc k))" for P :: "nat \<Rightarrow> bool" by (metis not0_implies_Suc)
  show ?thesis unfolding checkpoint_kept_def by (subst cases) auto
qed

lemma observe_recovery:
  "host_recovery (coop_recovery_observe_local_intent d) =
     (if role d = ROLE_JOIN \<and> local_intent d then (host_recovery d)\<lparr>checkpoint := 0, stable_frames := 0\<rparr> else host_recovery d)"
  by (simp add: coop_recovery_observe_local_intent_def Let_def)

lemma exchange_recovery:
  "host_recovery (frame_exchange fr d s) =
     (if role d = ROLE_JOIN \<and> frame_intent fr d s then (host_recovery d)\<lparr>checkpoint := 0, stable_frames := 0\<rparr> else host_recovery d)"
  by (simp add: frame_exchange_def frame_capture_def observe_recovery frame_intent_def frame_sampled_def)

lemma apply_kept:
  assumes "frame_apply fr d s = (a, u)"
  shows "role a = role d" "host_recovery a = host_recovery d" "net_status a = net_status d" "avatar_available a = avatar_available d"
    "promoted_host a = promoted_host d"
  using assms by (auto simp: frame_apply_def frame_scene_def Let_def split: prod.splits if_split_asm)

lemma authority_kept:
  "net_status (frame_authority fr a) = net_status a" "avatar_available (frame_authority fr a) = avatar_available a"
  "items (frame_authority fr a) = items a" "world (frame_authority fr a) = world a" "shared_items (frame_authority fr a) = shared_items a"
  "role (frame_authority fr a) = role a \<or> role a = ROLE_HOST \<and> role (frame_authority fr a) = ROLE_JOIN"
  "stable_frames (host_recovery (frame_authority fr a)) = stable_frames (host_recovery a)"
  "checkpoint (host_recovery (frame_authority fr a)) \<noteq> 0 \<Longrightarrow>
     checkpoint (host_recovery a) \<noteq> 0 \<and> role (frame_authority fr a) = role a"
  by (auto simp: frame_authority_def Let_def split: if_split_asm)

lemma safe_cong:
  assumes "items d' = items d" "world d' = world d" "net_status d' = net_status d" "shared_items d' = shared_items d"
  shows "coop_recovery_checkpoint_safe e d' p l = coop_recovery_checkpoint_safe e d p l"
    "coop_recovery_local_safe e d' p l = coop_recovery_local_safe e d p l"
  using assms by (simp_all add: coop_recovery_checkpoint_safe_def coop_recovery_local_safe_def)

text \<open>Nothing of the session with the old host is left.\<close>

definition session_forgotten :: "coop_driver \<Rightarrow> bool" where
  "session_forgotten d \<longleftrightarrow>
     bound (items d) = 0 \<and> session_hi (input (items d)) = 0 \<and> session_lo (input (items d)) = 0 \<and> scope (input (items d)) = 0 \<and>
     request (input (items d)) = no_words \<and> result (items d) = no_item_result \<and>
     world_session_hi (world_input (world d)) = 0 \<and> world_session_lo (world_input (world d)) = 0 \<and>
     world_scope (world_input (world d)) = 0 \<and> world_result (world d) = no_world_result \<and> transition_follow d = no_follow"

lemma promote_result:
  assumes "coop_promote_guest fr d = (done, d')"
  shows "role d' = (if done then ROLE_HOST else role d)" "avatar_available d' = avatar_available d"
    "stable_frames (host_recovery d') = stable_frames (host_recovery d)" "checkpoint (host_recovery d') = checkpoint (host_recovery d)"
    "done \<Longrightarrow> session_forgotten d' \<and> listen fr = NET_LISTENING \<and> journal_promotes fr"
  using assms by (auto simp: coop_promote_guest_def rejoin_host_def forget_session_def session_forgotten_def coop_host_recovery_complete_def Let_def
      split: if_split_asm)

lemma follow_kept [simp]:
  "role (frame_follow fr d) = role d" "avatar_available (frame_follow fr d) = avatar_available d"
  "host_recovery (frame_follow fr d) = host_recovery d"
  by (simp_all add: frame_follow_def Let_def split: prod.splits)

lemma poll_step:
  assumes "coop_host_recovery_update h 1 link agreed safe cmd = (st, h')"
  shows "unat (stable_frames h) \<le> 120 \<Longrightarrow>
      unat (stable_frames h') = (if link \<and> agreed then min 120 (Suc (unat (stable_frames h))) else 0)"
    "checkpoint h' \<noteq> 0 \<Longrightarrow> link \<and> agreed \<and> 120 \<le> unat (stable_frames h') \<or> (link \<longrightarrow> agreed) \<and> checkpoint h \<noteq> 0"
    "st = RECOVERY_START \<Longrightarrow> \<not> link \<and> cmd = RECOVERY_PROMOTE \<and> safe \<and> checkpoint h \<noteq> 0"
proof -
  have less: "stable_frames h < 120 \<longleftrightarrow> unat (stable_frames h) < 120" "120 \<le> w \<longleftrightarrow> 120 \<le> unat w" for w :: u32
    by (simp_all add: word_less_nat_alt word_le_nat_alt)
  show "unat (stable_frames h) \<le> 120 \<Longrightarrow>
      unat (stable_frames h') = (if link \<and> agreed then min 120 (Suc (unat (stable_frames h))) else 0)"
    using assms stable_count [of "stable_frames h"]
    by (auto simp: coop_host_recovery_update_def Let_def less min_def split: if_split_asm)
  show "checkpoint h' \<noteq> 0 \<Longrightarrow> link \<and> agreed \<and> 120 \<le> unat (stable_frames h') \<or> (link \<longrightarrow> agreed) \<and> checkpoint h \<noteq> 0"
    using assms by (auto simp: coop_host_recovery_update_def Let_def less split: if_split_asm)
  show "st = RECOVERY_START \<Longrightarrow> \<not> link \<and> cmd = RECOVERY_PROMOTE \<and> safe \<and> checkpoint h \<noteq> 0"
    using assms by (auto simp: coop_host_recovery_update_def Let_def split: if_split_asm)
qed

text \<open>The recovery part of a frame, told from the state \<open>a\<close> after the applications.\<close>

lemma recovery_result:
  assumes "frame_recovery fr a u = (ended, r, t)"
    and "coop_host_recovery_update (host_recovery (frame_authority fr a)) (u32_of (role (frame_authority fr a) = ROLE_JOIN))
        (net_status a = NET_CONNECTED) (coop_recovery_checkpoint_safe (game_env fr) a (frame_playing fr) (frame_loading fr))
        (coop_recovery_local_safe (game_env fr) a (frame_playing fr) (frame_loading fr)) (frame_command fr) = (st, h')"
  shows "avatar_available r = avatar_available a" "stable_frames (host_recovery r) = stable_frames h'"
    "checkpoint (host_recovery r) = checkpoint h'"
    "role r = role (frame_authority fr a) \<or>
       st = RECOVERY_START \<and> role r = ROLE_HOST \<and> ended \<and> session_forgotten r \<and> listen fr = NET_LISTENING \<and> journal_promotes fr"
proof -
  let ?A = "frame_authority fr a"
  note cong = safe_cong [of ?A a, OF authority_kept(3,4,1,5)]
  have poll: "frame_poll fr ?A = ?A\<lparr>host_recovery := h', recovery_state := st\<rparr>"
    using assms(2) by (simp add: frame_poll_def cong authority_kept(1))
  obtain c v where c: "checkpoint_save fr (frame_poll fr ?A) u = (c, v)" by (metis surj_pair)
  then have kept: "role c = role ?A" "host_recovery c = h'" "recovery_state c = st" "avatar_available c = avatar_available a"
    by (auto simp: checkpoint_save_def poll authority_kept split: if_split_asm)
  define c' where "c' = (if journal_now fr AND STORAGE_ERROR \<noteq> 0 then c\<lparr>recovery_state := RECOVERY_STORAGE_FAILED\<rparr> else c)"
  have c': "role c' = role ?A" "host_recovery c' = h'" "avatar_available c' = avatar_available a"
      "recovery_state c' = RECOVERY_START \<Longrightarrow> st = RECOVERY_START"
    using kept by (auto simp: c'_def split: if_split_asm)
  obtain won p where p: "coop_promote_guest fr c' = (won, p)" by (metis surj_pair)
  note promoted = promote_result [OF p]
  have r: "r = (if recovery_state c' = RECOVERY_START then p\<lparr>recovery_state := (if won then RECOVERY_ACTIVE else RECOVERY_FAILED)\<rparr> else c')"
    and e: "ended \<longleftrightarrow> recovery_state c' = RECOVERY_START"
    using assms(1) by (auto simp: frame_recovery_def c c'_def [symmetric] p Let_def split: if_split_asm)
  show "avatar_available r = avatar_available a" "stable_frames (host_recovery r) = stable_frames h'"
    "checkpoint (host_recovery r) = checkpoint h'"
    using r c' promoted by (simp_all split: if_split_asm)
  show "role r = role ?A \<or>
       st = RECOVERY_START \<and> role r = ROLE_HOST \<and> ended \<and> session_forgotten r \<and> listen fr = NET_LISTENING \<and> journal_promotes fr"
  proof (cases "recovery_state c' = RECOVERY_START \<and> won")
    case True
    with promoted(1,5) e have "role p = ROLE_HOST" "session_forgotten p" "listen fr = NET_LISTENING" "journal_promotes fr" "ended" by simp_all
    with r True c'(4) show ?thesis by (simp add: session_forgotten_def)
  next
    case False
    with r promoted(1) c'(1) show ?thesis by (auto split: if_split_asm)
  qed
qed

text \<open>The recovery state agrees with the history.\<close>

definition recovery_fits :: "bool \<Rightarrow> verdict list \<Rightarrow> coop_driver \<Rightarrow> bool" where
  "recovery_fits b vs d \<longleftrightarrow>
     (role d = ROLE_HOST \<and> stable_frames (host_recovery d) = 0 \<or>
      role d = ROLE_JOIN \<and> unat (stable_frames (host_recovery d)) = min 120 (stable_run vs) \<and>
        (checkpoint (host_recovery d) \<noteq> 0 \<longrightarrow> checkpoint_kept b vs))"

lemma frame_fits:
  assumes "recovery_fits b vs d" "avatar_available d" "coop_frame fr d s = (d', t)"
  shows "recovery_fits b (frame_verdict fr d s # vs) d' \<and> avatar_available d'"
    and "role d = ROLE_JOIN \<Longrightarrow> role d' = ROLE_HOST \<Longrightarrow>
      checkpoint_kept b vs \<and> \<not> frame_intent fr d s \<and> answer_status fr \<noteq> NET_CONNECTED \<and> frame_command fr = RECOVERY_PROMOTE \<and>
      listen fr = NET_LISTENING \<and> journal_promotes fr \<and> session_forgotten d' \<and>
      coop_recovery_local_safe (game_env fr) (fst (frame_apply fr (frame_exchange fr d s) s)) (frame_playing fr) (frame_loading fr)"
proof -
  have on: "role d \<noteq> 0" "role d = ROLE_HOST \<or> role d = ROLE_JOIN" using assms(1) by (auto simp: recovery_fits_def)
  obtain a u ended r where p: "frame_apply fr (frame_exchange fr d s) s = (a, u)" "frame_recovery fr a u = (ended, r, t)"
      "d' = (if ended then r else frame_follow fr r)"
    using coop_frame_parts [OF assms(3) on(1) assms(2)] by metis
  let ?A = "frame_authority fr a" and ?i = "frame_intent fr d s" and ?link = "answer_status fr = NET_CONNECTED"
  define agreed where "agreed = coop_recovery_checkpoint_safe (game_env fr) a (frame_playing fr) (frame_loading fr)"
  define safe where "safe = coop_recovery_local_safe (game_env fr) a (frame_playing fr) (frame_loading fr)"
  note a = apply_kept [OF p(1)]
  have net: "net_status a = NET_CONNECTED \<longleftrightarrow> ?link" by (simp add: a)
  obtain st h' where h': "coop_host_recovery_update (host_recovery ?A) (u32_of (role ?A = ROLE_JOIN)) ?link agreed safe (frame_command fr) = (st, h')"
    by (metis surj_pair)
  note r = recovery_result [OF p(2), unfolded net, OF h' [unfolded agreed_def safe_def]]
  have d': "role d' = role r" "host_recovery d' = host_recovery r" "avatar_available d' = avatar_available r" using p(3) by simp_all
  have avatar: "avatar_available d'" using d'(3) r(1) a(4) assms(2) by simp
  have hA: "stable_frames (host_recovery ?A) = (if role d = ROLE_JOIN \<and> ?i then 0 else stable_frames (host_recovery d))"
    using authority_kept(7) [of fr a] a(2) by (simp add: exchange_recovery)
  have roleA: "role ?A = role d \<or> role d = ROLE_HOST \<and> role ?A = ROLE_JOIN" using authority_kept(6) [of fr a] a(1) by simp
  have verdict: "frame_verdict fr d s = (if role ?A \<noteq> ROLE_JOIN then (True, False, False) else (?i, ?link, agreed))"
    by (simp add: frame_verdict_def p(1) agreed_def Let_def)
  have base: "unat (stable_frames (host_recovery ?A)) = min 120 (if ?i then 0 else stable_run vs)"
      "checkpoint (host_recovery ?A) \<noteq> 0 \<Longrightarrow> \<not> ?i \<and> checkpoint_kept b vs" if "role ?A = ROLE_JOIN"
  proof -
    show "unat (stable_frames (host_recovery ?A)) = min 120 (if ?i then 0 else stable_run vs)"
      using assms(1) by (auto simp: hA recovery_fits_def frame_intent_def)
    assume "checkpoint (host_recovery ?A) \<noteq> 0"
    from authority_kept(8) [OF this] that a(1,2) have "role d = ROLE_JOIN" "checkpoint (host_recovery (frame_exchange fr d s)) \<noteq> 0"
      by simp_all
    with assms(1) show "\<not> ?i \<and> checkpoint_kept b vs" by (auto simp: exchange_recovery recovery_fits_def split: if_split_asm)
  qed
  show "recovery_fits b (frame_verdict fr d s # vs) d' \<and> avatar_available d'"
  proof (cases "role ?A = ROLE_JOIN")
    case False
    with roleA on(2) have "role ?A = ROLE_HOST" "role d = ROLE_HOST" by auto
    with assms(1) hA h' have "st \<noteq> RECOVERY_START" "stable_frames h' = 0"
      by (auto simp: coop_host_recovery_update_def u32_of_def recovery_fits_def split: if_split_asm)
    with r(2,4) d' \<open>role ?A = ROLE_HOST\<close> avatar show ?thesis by (simp add: recovery_fits_def)
  next
    case True
    from h' True have "coop_host_recovery_update (host_recovery ?A) 1 ?link agreed safe (frame_command fr) = (st, h')"
      by (simp add: u32_of_def)
    note step = poll_step [OF this]
    let ?vs = "(?i, ?link, agreed) # vs"
    have count: "unat (stable_frames h') = min 120 (stable_run ?vs)"
      using step(1) base(1) [OF True] by (auto simp: min_def)
    have kept: "checkpoint_kept b ?vs" if "checkpoint h' \<noteq> 0"
      using step(2) [OF that] base(2) [OF True] count unfolding checkpoint_kept_Cons by auto
    have zero: "stable_frames h' = 0" if "st = RECOVERY_START"
      using step(3) [OF that] count by (simp add: unat_eq_zero)
    from r(2-4) d' True count kept zero avatar show ?thesis by (auto simp: recovery_fits_def verdict)
  qed
  assume turned: "role d = ROLE_JOIN" "role d' = ROLE_HOST"
  with roleA have A: "role ?A = ROLE_JOIN" by auto
  with r(4) turned d'(1) have "st = RECOVERY_START" "ended" "session_forgotten r" "listen fr = NET_LISTENING" "journal_promotes fr" by auto
  moreover from h' A have "coop_host_recovery_update (host_recovery ?A) 1 ?link agreed safe (frame_command fr) = (st, h')"
    by (simp add: u32_of_def)
  moreover have "d' = r" using p(3) calculation(2) by simp
  ultimately have "listen fr = NET_LISTENING \<and> journal_promotes fr \<and> session_forgotten d' \<and> \<not> ?link \<and> frame_command fr = RECOVERY_PROMOTE \<and> safe \<and> checkpoint (host_recovery ?A) \<noteq> 0"
    using poll_step(3) by blast
  with base(2) [OF A] show "checkpoint_kept b vs \<and> \<not> ?i \<and> \<not> ?link \<and> frame_command fr = RECOVERY_PROMOTE \<and>
      listen fr = NET_LISTENING \<and> journal_promotes fr \<and> session_forgotten d' \<and> coop_recovery_local_safe (game_env fr) (fst (frame_apply fr (frame_exchange fr d s) s)) (frame_playing fr) (frame_loading fr)"
    by (simp add: safe_def p(1))
qed

section \<open>Runs\<close>

text \<open>What can happen to the driver after start-up; the game between two frames is arbitrary.\<close>

datatype driver_event =
    FrameEvent coop_frame_in coop_game
  | FlagEvent int u32 u32 bool u32 coop_game
  | MapEvent

text \<open>The events newest first; the result is the driver and the verdicts of its frames.\<close>

fun driver_run :: "coop_driver \<Rightarrow> driver_event list \<Rightarrow> coop_driver \<times> verdict list" where
  "driver_run d [] = (d, [])"
| "driver_run d (FrameEvent fr s # es) =
     (case driver_run d es of (d, vs) \<Rightarrow> (fst (coop_frame fr d s), frame_verdict fr d s # vs))"
| "driver_run d (FlagEvent flag v type adventure save s # es) =
     (case driver_run d es of (d, vs) \<Rightarrow> (coop_flag_change flag v type adventure save s d, vs))"
| "driver_run d (MapEvent # es) = (case driver_run d es of (d, vs) \<Rightarrow> (coop_map_loaded d, vs))"

lemma event_kept [simp]:
  "recovery_fits b vs (coop_flag_change flag v type adventure save s d) = recovery_fits b vs d"
  "recovery_fits b vs (coop_map_loaded d) = recovery_fits b vs d"
  "avatar_available (coop_flag_change flag v type adventure save s d) = avatar_available d"
  "avatar_available (coop_map_loaded d) = avatar_available d"
  by (simp_all add: coop_flag_change_def coop_map_loaded_def recovery_fits_def)

lemma run_fits:
  assumes "driver_run d0 es = (d, vs)" "recovery_fits b [] d0" "avatar_available d0"
  shows "recovery_fits b vs d \<and> avatar_available d"
  using assms
proof (induction d0 es arbitrary: d vs rule: driver_run.induct)
  case (2 d0 fr s es)
  obtain d1 vs1 where r: "driver_run d0 es = (d1, vs1)" by (metis surj_pair)
  obtain d2 t where f: "coop_frame fr d1 s = (d2, t)" by (metis surj_pair)
  from 2 r have "recovery_fits b vs1 d1" "avatar_available d1" by simp_all
  from frame_fits(1) [OF this f] 2(2) r f show ?case by simp
qed (auto split: prod.splits)

lemma start_fits:
  assumes "role d = ROLE_HOST \<or> role d = ROLE_JOIN" "stable_frames (host_recovery d) = 0"
  shows "recovery_fits (checkpoint (host_recovery d) \<noteq> 0) [] d"
  using assms by (auto simp: recovery_fits_def)

text \<open>
  C32: a guest turns itself into the host only to continue a state both sides agreed on.  In every run of
  frames, flag events and map loads, a frame that turns the guest into the host has the link down, the
  user's command, and a local state that is safe to continue from; the checkpoint it relies on is 120
  agreed frames in a row (or the one the journal held at the start), since when the player did nothing the
  host does not know and no connected frame disagreed; the network listens, the journal has recorded
  the new authority, and nothing of the old host's session is left.
\<close>

theorem promotion_earned:
  assumes "role d0 = ROLE_HOST \<or> role d0 = ROLE_JOIN" and "avatar_available d0" and "stable_frames (host_recovery d0) = 0"
    and "driver_run d0 es = (d, vs)" and "coop_frame fr d s = (d', t)" and "role d = ROLE_JOIN" and "role d' = ROLE_HOST"
  shows "checkpoint_kept (checkpoint (host_recovery d0) \<noteq> 0) vs \<and> \<not> local_intent (frame_sampled fr d s) \<and>
    answer_status fr \<noteq> NET_CONNECTED \<and> frame_command fr = RECOVERY_PROMOTE \<and>
    coop_recovery_local_safe (game_env fr) (fst (frame_apply fr (frame_exchange fr d s) s)) (frame_playing fr) (frame_loading fr) \<and>
    listen fr = NET_LISTENING \<and> journal_promotes fr \<and> session_forgotten d'"
proof -
  note run = run_fits [OF assms(4) start_fits [OF assms(1,3)] assms(2)]
  from frame_fits(2) [OF conjunct1 [OF run] conjunct2 [OF run] assms(5-7)] assms(6) show ?thesis
    by (simp add: frame_intent_def)
qed

text \<open>A guest without shared items, whose journal held a checkpoint, after its host has gone.\<close>

definition lone_guest :: coop_driver where
  "lone_guest = guest_driver\<lparr>shared_items := False, host_recovery := no_recovery\<lparr>checkpoint := 1\<rparr>\<rparr>"

definition lone_frame :: coop_frame_in where
  "lone_frame = isles_frame\<lparr>answer_status := 2, answer_items := no_item_result, command_setting := 2, journal_now := bit32 1\<rparr>"

lemma lone_simps [simp]:
  "role lone_guest = 2" "avatar_available lone_guest" "shared_items lone_guest = False" "transient_enabled lone_guest = False"
  "host_recovery lone_guest = no_recovery\<lparr>checkpoint := 1\<rparr>" "recovery_world_change lone_guest = [0, 0, 0]"
  "items lone_guest = start_items" "world lone_guest = start_world"
  "game_env lone_frame = isles_env" "frame_playing lone_frame" "frame_loading lone_frame = False" "answer_status lone_frame = 2"
  "journal_now lone_frame = bit32 1" "frame_command lone_frame = 2" "listen lone_frame = 1" "journal_promotes lone_frame"
  by (simp_all add: lone_guest_def guest_driver_def start_driver_def lone_frame_def isles_frame_def frame_command_def)

lemma no_words_any [simp]: "\<not> coop_item_words_any no_words"
  by (simp add: coop_item_words_any_def no_words_def list_ex_iff del: upt_rec_numeral)

lemma lone_capture:
  "\<not> frame_intent lone_frame lone_guest fresh_game"
proof -
  let ?d = "frame_transition lone_frame (frame_lifecycle lone_frame lone_guest)"
  define g where "g = (items ?d)\<lparr>join_role := u32_of (role ?d = ROLE_JOIN), refresh_enabled := u32_of (automatic_world_refresh ?d \<and> \<not> frame_loading lone_frame)\<rparr>"
  define h where "h = coop_items_capture isles_env fresh_game g 0 (u32_of True) (frame_file lone_frame)"
  have h: "ready (input h) = 0" "request (input h) = no_words"
    by (simp_all add: h_def coop_items_capture_def coop_items_prepare_def lock_file_def Let_def)
  have sampled: "frame_sampled lone_frame lone_guest fresh_game = ?d\<lparr>items := h, world := coop_world_capture (world ?d) h fresh_game\<rparr>"
    by (simp add: frame_sampled_def frame_sample_def h_def g_def Let_def)
  show "\<not> frame_intent lone_frame lone_guest fresh_game"
    using h by (simp add: frame_intent_def local_intent_def sampled coop_world_capture_def Let_def start_world_def list_ex_iff)
qed

lemma promotion_earned_witness:
  "session_forgotten (fst (coop_frame lone_frame lone_guest fresh_game))"
proof -
  obtain d t where r: "coop_frame lone_frame lone_guest fresh_game = (d, t)" by (metis surj_pair)
  have start: "role lone_guest = ROLE_HOST \<or> role lone_guest = ROLE_JOIN" "avatar_available lone_guest"
      "stable_frames (host_recovery lone_guest) = 0" "role lone_guest = ROLE_JOIN"
    by (simp_all add: lone_guest_def guest_driver_def no_recovery_def)
  obtain a u ended h where p: "frame_apply lone_frame (frame_exchange lone_frame lone_guest fresh_game) fresh_game = (a, u)"
      "frame_recovery lone_frame a u = (ended, h, t)" "d = (if ended then h else frame_follow lone_frame h)"
    by (rule coop_frame_parts [OF r _ start(2)]) simp_all
  note a = apply_kept [OF p(1)]
  have hr: "host_recovery a = no_recovery\<lparr>checkpoint := 1\<rparr>" using lone_capture by (simp add: a exchange_recovery)
  have sh: "shared_items a = False" using p(1) by (auto simp: frame_apply_def frame_scene_def Let_def split: prod.splits if_split_asm)
  have bits: "bit32 1 AND bit32 5 = 0" "bit32 1 AND bit32 1 \<noteq> 0" "bit32 1 AND bit32 4 = 0" by (simp_all add: bit32_def push_bit_eq_mult and_bit32_eq)
  let ?A = "frame_authority lone_frame a"
  have A: "role ?A = ROLE_JOIN" "host_recovery ?A = no_recovery\<lparr>checkpoint := 1\<rparr>" "net_status ?A = 2" "shared_items ?A = False"
    using hr sh a(1,3) bits by (simp_all add: frame_authority_def Let_def)
  have "coop_recovery_local_safe isles_env ?A True False" "\<not> coop_recovery_checkpoint_safe isles_env ?A True False"
    using A isles_facts(3) by (simp_all add: coop_recovery_local_safe_def coop_recovery_checkpoint_safe_def)
  then have "frame_poll lone_frame ?A = ?A\<lparr>host_recovery := no_recovery\<lparr>checkpoint := 1, attempted := 1\<rparr>, recovery_state := RECOVERY_START\<rparr>"
    by (simp add: frame_poll_def A u32_of_def coop_host_recovery_update_def no_recovery_def Let_def)
  then have "checkpoint_save lone_frame (frame_poll lone_frame ?A) u =
      (?A\<lparr>host_recovery := no_recovery\<lparr>checkpoint := 1, attempted := 1\<rparr>, recovery_state := RECOVERY_START\<rparr>, u)"
    by (simp add: checkpoint_save_def A)
  then have "role h = ROLE_HOST"
    using p(2) bits by (auto simp: frame_recovery_def coop_promote_guest_def forget_session_def Let_def)
  then have "role d = ROLE_HOST" using p(3) by simp
  from promotion_earned [OF start(1-3) driver_run.simps(1) r start(4) this] show ?thesis by (simp add: r)
qed
end
