(* ===== verification/CoopArea.thy ===== *)
theory CoopArea
  imports CoopScene
begin

text \<open>
  The same-area event channel of co-op (\<^verbatim>\<open>transient_types.h\<close>, \<^verbatim>\<open>transient_game.h\<close>), for the scripts of
  a loaded map: what a copy publishes about the reviewed objects of its room, and what it does with a
  peer's records.  The records of actors (clams, the ice tomato and the five minigames) go through
  adapters to actor state, which are functions of the frame here.
\<close>

section \<open>Records and the table of reviewed objects\<close>

abbreviation (input) "SCRIPT \<equiv> 1 :: 'a :: len word"
abbreviation (input) "TIMER \<equiv> 2 :: 'a :: len word"
abbreviation (input) "PLATFORM \<equiv> 3 :: 'a :: len word"
abbreviation (input) "CUTSCENE \<equiv> 4 :: 'a :: len word"
abbreviation (input) "TRIGGER \<equiv> 5 :: 'a :: len word"
abbreviation (input) "SEQUENCE \<equiv> 6 :: 'a :: len word"
abbreviation (input) TRANSIENT_RECORDS :: nat where "TRANSIENT_RECORDS \<equiv> 8"

record CoopTransientRecord =
  rec_kind :: u32
  rec_key :: u32
  rec_state :: u32
  rec_value :: u32

record CoopTransientInput =
  area_enabled :: u32
  input_area_file :: u32
  input_area_map :: u32
  input_area_epoch :: u32
  revision :: u32
  input_records :: "CoopTransientRecord list"

record CoopTransientResult =
  area_status :: u32
  result_area_map :: u32
  result_area_epoch :: u32
  result_records :: "CoopTransientRecord list"

datatype CoopTransientObject = AreaObject (area_map: u16) (area_object: u16) (area_kind: u8) (area_activation: u8)

definition coop_transient_passages :: "(u32 \<times> u32) list" where
  "coop_transient_passages =
     [(7, 0x1F), (7, 0x20), (7, 0x123), (20, 0x6B), (38, 0x02), (38, 0x03), (38, 0x04), (38, 0x05), (108, 0x00), (108, 0x04),
      (112, 0x0D), (112, 0x0E), (112, 0x0F), (163, 0x04), (163, 0x05), (163, 0x06), (164, 0x01), (164, 0x09),
      (183, 0x05), (183, 0x06), (183, 0x07), (183, 0x08), (183, 0x09), (169, 0x00), (169, 0x02), (169, 0x03), (169, 0x04),
      (169, 0x05)]"

definition coop_transient_extra_objects_1 :: "CoopTransientObject list" where
  "coop_transient_extra_objects_1 = [
   AreaObject 7 48 TRIGGER 2, AreaObject 7 49 TRIGGER 2, AreaObject 7 50 TRIGGER 2, AreaObject 7 52 TRIGGER 2,
   AreaObject 7 53 TRIGGER 2, AreaObject 7 40 TRIGGER 2, AreaObject 7 41 TRIGGER 2, AreaObject 7 42 TRIGGER 2,
   AreaObject 7 291 TRIGGER 2, AreaObject 7 56 TRIGGER 2, AreaObject 7 57 TRIGGER 2, AreaObject 7 58 TRIGGER 2,
   AreaObject 7 59 TRIGGER 2, AreaObject 7 277 TRIGGER 2, AreaObject 7 31 TRIGGER 11,
   AreaObject 7 32 TRIGGER 11, AreaObject 7 88 TRIGGER 2, AreaObject 30 6 TRIGGER 2, AreaObject 30 7 TRIGGER 2,
   AreaObject 30 8 TRIGGER 2, AreaObject 30 9 TRIGGER 2, AreaObject 30 10 TRIGGER 2,
   AreaObject 30 11 TRIGGER 2, AreaObject 30 0 TIMER 0, AreaObject 30 1 TIMER 0, AreaObject 30 17 TRIGGER 2,
   AreaObject 30 18 TRIGGER 2, AreaObject 30 19 TRIGGER 2, AreaObject 30 20 TRIGGER 2,
   AreaObject 30 27 TRIGGER 2, AreaObject 30 28 TRIGGER 2, AreaObject 30 29 TRIGGER 2,
   AreaObject 30 47 TRIGGER 13, AreaObject 30 48 TRIGGER 13, AreaObject 30 49 TRIGGER 13,
   AreaObject 30 33 TRIGGER 2, AreaObject 30 63 TRIGGER 1, AreaObject 20 18 TRIGGER 2,
   AreaObject 20 22 TRIGGER 2, AreaObject 19 4 TRIGGER 2, AreaObject 19 5 TRIGGER 2, AreaObject 21 4 TRIGGER 2,
   AreaObject 21 5 TRIGGER 2, AreaObject 22 4 TRIGGER 2, AreaObject 22 5 TRIGGER 2, AreaObject 23 4 TRIGGER 2,
   AreaObject 23 5 TRIGGER 2, AreaObject 24 4 TRIGGER 2, AreaObject 24 5 TRIGGER 2, AreaObject 24 7 TRIGGER 2,
   AreaObject 20 25 TRIGGER 12, AreaObject 20 26 TRIGGER 12, AreaObject 20 27 TRIGGER 12,
   AreaObject 20 28 TRIGGER 12, AreaObject 20 29 TRIGGER 12, AreaObject 20 30 TRIGGER 12,
   AreaObject 20 31 TRIGGER 12, AreaObject 20 32 TRIGGER 12, AreaObject 20 33 TRIGGER 12,
   AreaObject 20 34 TRIGGER 12, AreaObject 20 35 TRIGGER 12, AreaObject 20 36 TRIGGER 12,
   AreaObject 20 37 TRIGGER 12, AreaObject 20 38 TRIGGER 12, AreaObject 20 39 TRIGGER 12,
   AreaObject 20 40 TRIGGER 12, AreaObject 20 105 TRIGGER 2, AreaObject 20 107 TRIGGER 2,
   AreaObject 16 0 TRIGGER 2, AreaObject 16 4 TRIGGER 2, AreaObject 16 20 TRIGGER 2,
   AreaObject 16 12 SEQUENCE 0, AreaObject 38 13 TRIGGER 2, AreaObject 38 14 TRIGGER 2,
   AreaObject 38 15 TRIGGER 2, AreaObject 38 68 TRIGGER 2, AreaObject 38 157 TRIGGER 2,
   AreaObject 38 158 TRIGGER 2, AreaObject 38 2 TRIGGER 2, AreaObject 38 3 TRIGGER 2,
   AreaObject 38 4 TRIGGER 2, AreaObject 38 5 TRIGGER 2, AreaObject 38 159 TRIGGER 2,
   AreaObject 38 160 TRIGGER 2, AreaObject 38 16 TRIGGER 13, AreaObject 38 17 TRIGGER 13,
   AreaObject 38 18 TRIGGER 13, AreaObject 38 19 TRIGGER 13, AreaObject 38 20 TRIGGER 13,
   AreaObject 34 49 TRIGGER 3, AreaObject 34 51 TRIGGER 3, AreaObject 48 4 TIMER 0, AreaObject 48 5 TIMER 0,
   AreaObject 48 24 TRIGGER 2, AreaObject 48 25 TRIGGER 2, AreaObject 48 26 TRIGGER 2,
   AreaObject 48 27 TRIGGER 2, AreaObject 48 30 TRIGGER 2, AreaObject 48 15 TRIGGER 2,
   AreaObject 48 235 TRIGGER 2]"

definition coop_transient_extra_objects_2 :: "CoopTransientObject list" where
  "coop_transient_extra_objects_2 = [
   AreaObject 48 7 TRIGGER 2, AreaObject 56 0 TRIGGER 2, AreaObject 58 0 TRIGGER 2, AreaObject 57 3 TRIGGER 11,
   AreaObject 59 1 TRIGGER 2, AreaObject 59 36 TRIGGER 2, AreaObject 61 6 TRIGGER 11,
   AreaObject 62 0 TRIGGER 2, AreaObject 62 1 TRIGGER 11, AreaObject 62 3 TRIGGER 11,
   AreaObject 17 44 TRIGGER 2, AreaObject 17 45 TRIGGER 12, AreaObject 17 46 TRIGGER 12,
   AreaObject 17 47 TRIGGER 12, AreaObject 17 48 TRIGGER 12, AreaObject 17 93 TRIGGER 10,
   AreaObject 17 90 TRIGGER 10, AreaObject 17 88 TRIGGER 10, AreaObject 17 97 TRIGGER 10,
   AreaObject 17 96 TRIGGER 10, AreaObject 173 16 TRIGGER 2, AreaObject 178 5 TRIGGER 2,
   AreaObject 173 0 TRIGGER 2, AreaObject 173 1 TRIGGER 2, AreaObject 173 2 TRIGGER 2,
   AreaObject 173 3 TRIGGER 2, AreaObject 174 4 TRIGGER 2, AreaObject 174 5 TRIGGER 2,
   AreaObject 174 6 TRIGGER 2, AreaObject 174 7 TRIGGER 2, AreaObject 174 8 TRIGGER 2,
   AreaObject 175 0 TRIGGER 2, AreaObject 175 1 TRIGGER 2, AreaObject 175 2 TRIGGER 2,
   AreaObject 175 3 TRIGGER 2, AreaObject 175 4 TRIGGER 2, AreaObject 193 2 TRIGGER 2,
   AreaObject 193 3 TRIGGER 2, AreaObject 193 4 TRIGGER 2, AreaObject 193 5 TRIGGER 2,
   AreaObject 193 6 TRIGGER 2, AreaObject 194 16 TRIGGER 2, AreaObject 194 17 TRIGGER 2,
   AreaObject 194 18 TRIGGER 2, AreaObject 194 19 TRIGGER 2, AreaObject 194 20 TRIGGER 2,
   AreaObject 72 46 TRIGGER 2, AreaObject 72 47 TRIGGER 13, AreaObject 72 29 TRIGGER 2,
   AreaObject 72 30 TRIGGER 2, AreaObject 72 31 TRIGGER 2, AreaObject 90 3 TRIGGER 2,
   AreaObject 90 4 TRIGGER 2, AreaObject 90 5 TRIGGER 2, AreaObject 84 0 SEQUENCE 0,
   AreaObject 108 0 TRIGGER 2, AreaObject 108 4 TRIGGER 2, AreaObject 112 13 TRIGGER 2,
   AreaObject 112 14 TRIGGER 2, AreaObject 112 15 TRIGGER 2, AreaObject 163 4 TRIGGER 2,
   AreaObject 163 5 TRIGGER 2, AreaObject 163 6 TRIGGER 2, AreaObject 164 1 TRIGGER 2,
   AreaObject 164 9 TRIGGER 5, AreaObject 164 5 TRIGGER 12, AreaObject 164 6 TRIGGER 12,
   AreaObject 164 7 TRIGGER 12, AreaObject 183 5 TRIGGER 2, AreaObject 183 6 TRIGGER 2,
   AreaObject 183 7 TRIGGER 2, AreaObject 183 8 TRIGGER 2, AreaObject 183 9 TRIGGER 2,
   AreaObject 166 5 TRIGGER 11, AreaObject 200 6 TRIGGER 2, AreaObject 200 7 TRIGGER 2,
   AreaObject 200 8 TRIGGER 2, AreaObject 169 0 TRIGGER 2, AreaObject 169 2 TRIGGER 2,
   AreaObject 169 3 TRIGGER 2, AreaObject 169 4 TRIGGER 2, AreaObject 169 5 TRIGGER 2,
   AreaObject 7 26 TRIGGER 2, AreaObject 7 279 SEQUENCE 0, AreaObject 12 2 TRIGGER 2,
   AreaObject 12 3 TRIGGER 2, AreaObject 13 2 TRIGGER 2, AreaObject 13 3 TRIGGER 2, AreaObject 16 26 TRIGGER 2,
   AreaObject 16 124 TRIGGER 2, AreaObject 20 14 TRIGGER 2, AreaObject 20 15 TRIGGER 2,
   AreaObject 20 16 TRIGGER 2, AreaObject 20 21 TRIGGER 2, AreaObject 114 4 TRIGGER 13,
   AreaObject 114 6 TRIGGER 2, AreaObject 163 12 TRIGGER 2, AreaObject 174 10 TRIGGER 2,
   AreaObject 175 14 TRIGGER 11, AreaObject 194 0 TRIGGER 2, AreaObject 194 1 TRIGGER 2,
   AreaObject 193 0 TRIGGER 2, AreaObject 194 6 PLATFORM 0]"

definition coop_transient_extra_objects_3 :: "CoopTransientObject list" where
  "coop_transient_extra_objects_3 = [
   AreaObject 26 21 TRIGGER 1, AreaObject 26 32 TRIGGER 1, AreaObject 26 60 TRIGGER 1,
   AreaObject 26 314 TRIGGER 1, AreaObject 26 316 TRIGGER 1, AreaObject 26 320 TRIGGER 2,
   AreaObject 4 10 TRIGGER 2, AreaObject 4 11 TRIGGER 2, AreaObject 4 6 TRIGGER 2, AreaObject 26 46 TRIGGER 2,
   AreaObject 26 47 TRIGGER 2, AreaObject 26 48 TRIGGER 2, AreaObject 26 49 TRIGGER 2,
   AreaObject 26 36 TRIGGER 2, AreaObject 26 55 TRIGGER 2, AreaObject 26 56 TRIGGER 2,
   AreaObject 26 59 TRIGGER 2, AreaObject 26 63 TRIGGER 5, AreaObject 26 64 TRIGGER 5,
   AreaObject 26 65 TRIGGER 5, AreaObject 26 20 SEQUENCE 0, AreaObject 26 127 SEQUENCE 0]"

definition coop_transient_extra_objects :: "CoopTransientObject list" where
  "coop_transient_extra_objects = coop_transient_extra_objects_1 @ coop_transient_extra_objects_2 @ coop_transient_extra_objects_3"

lemmas coop_transient_extra_objects_parts = coop_transient_extra_objects_1_def coop_transient_extra_objects_2_def coop_transient_extra_objects_3_def

section \<open>State\<close>

text \<open>
  The statics of the channel and the phase of the running cutscene (\<^verbatim>\<open>D_global_asm_807F5CF0\<close>), which
  the channel advances.
\<close>

record coop_area =
  passage_map :: u32
  passage_epoch :: u32
  passage_bits :: u32
  applied_timers :: "CoopTransientRecord list"
  timer_epoch :: u32
  last_cutscene :: CoopTransientRecord
  cutscene_epoch :: u32
  cutscene_hold :: u32
  pad_epoch :: u32
  pad_map :: u32
  pad_object :: u32
  transient_revision :: u32
  transient_page :: u32
  transient_file :: u32
  transient_file_changed :: bool
  camera_phase :: u16

definition no_record :: CoopTransientRecord where
  "no_record = \<lparr>rec_kind = 0, rec_key = 0, rec_state = 0, rec_value = 0\<rparr>"

section \<open>Passages\<close>

text \<open>One more than the place in the table, or zero.\<close>

definition coop_transient_passage_index :: "u32 \<Rightarrow> u32 \<Rightarrow> nat" where
  "coop_transient_passage_index m object =
     (case find (\<lambda>i. coop_transient_passages ! i = (m, object)) [0..<length coop_transient_passages] of
        None \<Rightarrow> 0 | Some i \<Rightarrow> i + 1)"

text \<open>The latch of the room the player is in; another room or epoch clears it.\<close>

definition passage_room :: "u32 \<Rightarrow> u32 \<Rightarrow> coop_area \<Rightarrow> coop_area" where
  "passage_room m ep a =
     (if passage_map a \<noteq> m \<or> passage_epoch a \<noteq> ep then a\<lparr>passage_map := m, passage_epoch := ep, passage_bits := 0\<rparr> else a)"

definition coop_transient_passage_latched :: "u32 \<Rightarrow> u32 \<Rightarrow> u32 \<Rightarrow> bool \<Rightarrow> coop_area \<Rightarrow> bool \<times> coop_area" where
  "coop_transient_passage_latched ep m object observe a =
     (let i = coop_transient_passage_index m object
      in if i = 0 then (False, a)
         else
           let a = passage_room m ep a;
               a = (if observe then a\<lparr>passage_bits := passage_bits a OR bit32 (i - 1)\<rparr> else a)
           in (passage_bits a AND bit32 (i - 1) \<noteq> 0, a))"

section \<open>Scripts of reviewed objects\<close>

definition coop_transient_script :: "'e live_env_scheme \<Rightarrow> 'a live_game_scheme \<Rightarrow> u32 \<Rightarrow> (int \<times> Prop_ScriptData) option" where
  "coop_transient_script e s object =
     (case find (\<lambda>i. (ucast (script_slots s ! i) :: u32) = object) [0..<600] of None \<Rightarrow> None
      | Some slot \<Rightarrow>
          let p = prop_index e (sint object)
          in if p < 0 then None
             else case scene_props s of None \<Rightarrow> None | Some props \<Rightarrow>
               (case unk7C (props p) of None \<Rightarrow> None | Some d \<Rightarrow> Some (p, d)))"

definition raw_state :: "'e live_env_scheme \<Rightarrow> 'a live_game_scheme \<Rightarrow> u32 \<Rightarrow> nat option" where
  "raw_state e s object = map_option (\<lambda>(p, d). unat (unk48 d)) (coop_transient_script e s object)"

definition find_entry :: "u32 \<Rightarrow> u32 \<Rightarrow> CoopTransientObject option" where
  "find_entry m object = find (\<lambda>r. ucast (area_map r) = m \<and> ucast (area_object r) = object) coop_transient_extra_objects"

definition coop_transient_object_activation :: "u32 \<Rightarrow> u32 \<Rightarrow> nat" where
  "coop_transient_object_activation m object = (case find_entry m object of None \<Rightarrow> 0 | Some r \<Rightarrow> unat (area_activation r))"

definition coop_transient_object_kind :: "u32 \<Rightarrow> u32 \<Rightarrow> u32" where
  "coop_transient_object_kind m object =
     (case find_entry m object of Some r \<Rightarrow> ucast (area_kind r)
      | None \<Rightarrow> if list_ex (\<lambda>r. ucast (live_map r) = m \<and> ucast (live_object r) = object) coop_live_world_states then SCRIPT else 0)"

definition coop_transient_dual_script :: "u32 \<Rightarrow> u32 \<Rightarrow> bool" where
  "coop_transient_dual_script m object \<longleftrightarrow> m = 7 \<and> object = 0x1A"

section \<open>Switches: fired and ready\<close>

definition coop_transient_trigger_fired :: "u32 \<Rightarrow> u32 \<Rightarrow> nat \<Rightarrow> nat \<Rightarrow> bool" where
  "coop_transient_trigger_fired m object raw activation =
     (if m = 4 \<and> (object = 0x0A \<or> object = 0x0B) then 2 \<le> raw \<and> raw \<le> 5
      else if m = 16 \<and> object = 0x04 then raw = 2 \<or> raw = 40 \<or> raw = 20 \<or> raw = 30 \<or> raw = 3 \<or> raw = 4
      else if m = 17 \<and> (object = 0x5D \<or> object = 0x5A \<or> object = 0x58 \<or> object = 0x61 \<or> object = 0x60)
        then activation = 10 \<and> raw = 10
      else if m = 38 \<and> 0x0D \<le> object \<and> object \<le> 0x0F then 2 \<le> raw \<and> raw \<le> 6
      else activation \<le> raw \<and> raw < 20)"

definition coop_lobby_instrument_pad :: "u32 \<Rightarrow> u32 \<Rightarrow> bool" where
  "coop_lobby_instrument_pad m object \<longleftrightarrow>
     m = 173 \<and> object \<le> 0x03 \<or> m = 174 \<and> 0x04 \<le> object \<and> object \<le> 0x08 \<or> m = 175 \<and> object \<le> 0x04 \<or>
     m = 193 \<and> 0x02 \<le> object \<and> object \<le> 0x06 \<or> m = 194 \<and> 0x10 \<le> object \<and> object \<le> 0x14"

definition coop_transient_trigger_ready :: "u32 \<Rightarrow> u32 \<Rightarrow> nat \<Rightarrow> nat \<Rightarrow> bool" where
  "coop_transient_trigger_ready m object raw activation =
     (if coop_lobby_instrument_pad m object then activation = 2 \<and> raw = 1
      else if m = 20 \<and> 0x19 \<le> object \<and> object \<le> 0x28 then activation = 12 \<and> raw = 11
      else if m = 26 \<and> (object = 0x15 \<or> object = 0x20 \<or> object = 0x3C \<or> object = 0x13A \<or> object = 0x13C) \<or>
              m = 30 \<and> object = 0x3F then activation = 1 \<and> raw = 0
      else if m = 34 \<and> (object = 0x31 \<or> object = 0x33) then activation = 3 \<and> raw = 2
      else if m = 72 \<and> object = 0x2F then activation = 13 \<and> raw = 12
      else if m = 17 \<and> 0x2D \<le> object \<and> object \<le> 0x30 then activation = 12 \<and> raw = 11
      else if m = 17 \<and> (object = 0x5D \<or> object = 0x5A \<or> object = 0x58 \<or> object = 0x61 \<or> object = 0x60)
        then activation = 10 \<and> raw = 1
      else if m = 164 \<and> object = 0x09 then activation = 5 \<and> raw = 1
      else if m = 164 \<and> 0x05 \<le> object \<and> object \<le> 0x07 then activation = 12 \<and> raw = 11
      else if m = 166 \<and> object = 0x05 \<or> m = 175 \<and> object = 0x0E then activation = 11 \<and> raw = 10
      else if m = 114 \<and> object = 0x04 then activation = 13 \<and> raw = 12
      else if m = 7 \<and> (object = 0x1F \<or> object = 0x20) then activation = 11 \<and> raw = 1
      else if m = 30 \<and> 0x2F \<le> object \<and> object \<le> 0x31 then activation = 13 \<and> raw = 12
      else if m = 38 \<and> 0x10 \<le> object \<and> object \<le> 0x14 then activation = 13 \<and> raw = 12
      else if m = 57 \<and> object = 0x03 \<or> m = 61 \<and> object = 0x06 \<or> m = 62 \<and> (object = 0x01 \<or> object = 0x03)
        then activation = 11 \<and> raw = 10
      else 0 < raw \<and> raw < activation)"

section \<open>Ordered controllers\<close>

text \<open>The wait state before each step of a controller, and the state that takes the step.\<close>

definition coop_piano_wait_states :: "nat list" where
  "coop_piano_wait_states = [12, 14, 16, 19, 21, 23, 25, 28, 30, 32, 34, 36, 39, 41, 43, 45, 47, 49, 52, 54, 56, 58, 60, 62, 64]"

definition coop_piano_hit_states :: "nat list" where
  "coop_piano_hit_states = [13, 15, 17, 20, 22, 24, 26, 29, 31, 33, 35, 37, 40, 42, 44, 46, 48, 50, 53, 55, 57, 59, 61, 63, 65]"

definition coop_piano_progress :: "nat \<Rightarrow> nat" where
  "coop_piano_progress raw =
     (if 250 \<le> raw then 0
      else fold (\<lambda>i progress. if coop_piano_hit_states ! i \<le> raw then i + 1 else progress) [0..<25] 0)"

definition coop_dartboard_wait_states :: "nat list" where "coop_dartboard_wait_states = [15, 16, 17, 18, 19, 20]"

definition coop_dartboard_hit_states :: "nat list" where "coop_dartboard_hit_states = [50, 52, 54, 56, 58, 23]"

definition coop_dartboard_progress :: "nat \<Rightarrow> nat" where
  "coop_dartboard_progress raw =
     (if raw = 23 \<or> raw = 24 then 6 else if raw = 20 \<or> raw = 58 \<or> raw = 59 then 5
      else if raw = 19 \<or> raw = 56 \<or> raw = 57 then 4 else if raw = 18 \<or> raw = 54 \<or> raw = 55 then 3
      else if raw = 17 \<or> raw = 52 \<or> raw = 53 then 2 else if raw = 16 \<or> raw = 50 \<or> raw = 51 then 1 else 0)"

definition coop_tiny_igloo_wait_states :: "nat list" where "coop_tiny_igloo_wait_states = [1, 4, 6, 8]"

definition coop_tiny_igloo_hit_states :: "nat list" where "coop_tiny_igloo_hit_states = [2, 5, 7, 9]"

definition coop_tiny_igloo_progress :: "nat \<Rightarrow> nat" where
  "coop_tiny_igloo_progress raw =
     (if raw = 1 then 0 else if raw = 2 \<or> raw = 3 \<or> raw = 4 \<or> raw = 70 then 1 else if raw = 5 \<or> raw = 6 then 2
      else if raw = 7 \<or> raw = 8 then 3 else if raw = 9 \<or> 30 \<le> raw \<and> raw \<le> 35 then 4 else 0)"

definition coop_japes_x_wait_states :: "nat list" where "coop_japes_x_wait_states = [1, 3, 5]"

definition coop_japes_x_hit_states :: "nat list" where "coop_japes_x_hit_states = [2, 4, 6]"

definition coop_japes_x_progress :: "nat \<Rightarrow> nat" where
  "coop_japes_x_progress raw =
     (if raw = 2 \<or> raw = 3 then 1 else if raw = 4 \<or> raw = 5 then 2 else if raw = 6 then 3 else 0)"

definition coop_tiny_temple_kong_progress :: "'e live_env_scheme \<Rightarrow> 'a live_game_scheme \<Rightarrow> nat" where
  "coop_tiny_temple_kong_progress e s =
     (case (raw_state e s 0x0C, raw_state e s 0x0D, raw_state e s 0x0E) of
        (Some c, Some d, Some x) \<Rightarrow>
          if c = 11 \<or> 20 \<le> c \<and> c \<le> 22 then 4 else if c = 10 then 3 else if d = 10 then 2 else if x = 10 then 1 else 0
      | _ \<Rightarrow> 0)"

text \<open>The controllers whose script is the object's own: progress, wait states and hit states.\<close>

definition own_controller :: "u32 \<Rightarrow> u32 \<Rightarrow> ((nat \<Rightarrow> nat) \<times> nat list \<times> nat list) option" where
  "own_controller m object =
     (if m = 7 \<and> object = 0x117 then Some (coop_japes_x_progress, coop_japes_x_wait_states, coop_japes_x_hit_states)
      else if m = 84 \<and> object = 0x00 then Some (coop_tiny_igloo_progress, coop_tiny_igloo_wait_states, coop_tiny_igloo_hit_states)
      else if m = 26 \<and> object = 0x14 then Some (coop_piano_progress, coop_piano_wait_states, coop_piano_hit_states)
      else if m = 26 \<and> object = 0x7F then Some (coop_dartboard_progress, coop_dartboard_wait_states, coop_dartboard_hit_states)
      else None)"

section \<open>What a copy publishes\<close>

type_synonym page_state = "nat \<times> CoopTransientRecord list \<times> coop_area"

text \<open>
  One object of the room: the page that is due takes it if its script is loaded.  The first component
  counts the objects, on this page or not.
\<close>

definition object_record :: "'e live_env_scheme \<Rightarrow> u32 \<Rightarrow> 'a live_game_scheme \<Rightarrow> u32 \<Rightarrow> u32 \<Rightarrow> coop_area \<Rightarrow>
    CoopTransientRecord option \<times> coop_area" where
  "object_record e ep s object k a =
     (let m = word_of_int (env_map e); rec = (\<lambda>st v. Some \<lparr>rec_kind = k, rec_key = object, rec_state = of_nat st, rec_value = v\<rparr>)
      in case coop_transient_script e s object of None \<Rightarrow> (None, a)
         | Some (p, d) \<Rightarrow>
             let raw = unat (unk48 d) in
             if k = TIMER then (rec raw (ucast (unk44 d)), a)
             else if k = TRIGGER then
               (let activation = coop_transient_object_activation m object in
                if activation = 0 then (None, a)
                else
                  let fired = coop_transient_trigger_fired m object raw activation;
                      a = (if fired then snd (coop_transient_passage_latched ep m object True a) else a)
                  in if fired then (rec 2 (of_nat activation), a)
                     else case coop_transient_passage_latched ep m object False a of (latched, a) \<Rightarrow>
                       (rec (if latched then 2 else 1) (of_nat activation), a))
             else if k = SEQUENCE then
               (case own_controller m object of Some (progress, _) \<Rightarrow> (rec (progress raw) 0, a)
                | None \<Rightarrow> if m = 16 \<and> object = 0x0C then (rec (coop_tiny_temple_kong_progress e s) 0, a) else (None, a))
             else (rec raw 0, a))"

definition coop_transient_add_object ::
  "'e live_env_scheme \<Rightarrow> u32 \<Rightarrow> 'a live_game_scheme \<Rightarrow> nat \<Rightarrow> u32 \<times> u32 \<Rightarrow> page_state \<Rightarrow> page_state" where
  "coop_transient_add_object e ep s page ok st = (case (ok, st) of ((object, k), (ordinal, records, a)) \<Rightarrow>
     if ordinal div TRANSIENT_RECORDS \<noteq> page \<or> TRANSIENT_RECORDS \<le> length records then (ordinal + 1, records, a)
     else case object_record e ep s object k a of
       (None, a) \<Rightarrow> (ordinal + 1, records, a)
     | (Some r, a) \<Rightarrow> (ordinal + 1, records @ [r], a))"

text \<open>The reviewed objects of a map: eligible rows of the live-world table, then the channel's own table.\<close>

definition first_row :: "nat \<Rightarrow> bool" where
  "first_row i \<longleftrightarrow>
     \<not> list_ex (\<lambda>j. live_map (coop_live_world_states ! j) = live_map (coop_live_world_states ! i) \<and>
       live_object (coop_live_world_states ! j) = live_object (coop_live_world_states ! i)) [0..<i]"

definition reviewed_scripts :: "u32 \<Rightarrow> (u32 \<times> u32) list" where
  "reviewed_scripts m =
     map (\<lambda>i. (ucast (live_object (coop_live_world_states ! i)), SCRIPT))
       (filter (\<lambda>i. let r = coop_live_world_states ! i in
          ucast (live_map r) = m \<and> first_row i \<and> coop_live_world_transient_eligible r \<and>
          (coop_transient_object_kind m (ucast (live_object r)) = SCRIPT \<or> coop_transient_dual_script m (ucast (live_object r))))
        [0..<length coop_live_world_states])"

definition reviewed_extras :: "u32 \<Rightarrow> (u32 \<times> u32) list" where
  "reviewed_extras m =
     map (\<lambda>r. (ucast (area_object r), ucast (area_kind r))) (filter (\<lambda>r. ucast (area_map r) = m) coop_transient_extra_objects)"

definition capture_objects :: "'e live_env_scheme \<Rightarrow> u32 \<Rightarrow> 'a live_game_scheme \<Rightarrow> nat \<Rightarrow> coop_area \<Rightarrow> page_state" where
  "capture_objects e ep s page a =
     (let m = word_of_int (env_map e)
      in fold (coop_transient_add_object e ep s page) (reviewed_scripts m @ reviewed_extras m) (0, [], a))"

text \<open>
  What a frame answers: \<open>actor_records\<close> are the actor adapters, which may count and add records;
  \<open>actor_command\<close> is what they do with a peer's record.  The cutscene is its number, phase and flags.
\<close>

record 'g area_frame =
  area_present :: bool
  area_save :: u32
  area_loading :: bool
  area_cutscene :: bool
  cutscene_number :: s16
  cutscene_flags :: u16
  actor_records :: "nat \<Rightarrow> CoopTransientRecord list \<Rightarrow> nat \<times> CoopTransientRecord list"
  actor_command :: "CoopTransientRecord \<Rightarrow> 'g \<Rightarrow> 'g"

definition capture_cutscene :: "'g area_frame \<Rightarrow> coop_area \<Rightarrow> CoopTransientRecord \<times> coop_area" where
  "capture_cutscene fr a =
     (if area_cutscene fr \<and> 0 \<le> sint (cutscene_number fr) \<and> sint (cutscene_number fr) < 0xFF \<and> camera_phase a \<le> 0xFF then
        let r = \<lparr>rec_kind = CUTSCENE, rec_key = word_of_int (sint (cutscene_number fr) + 1), rec_state = ucast (camera_phase a),
              rec_value = ucast (cutscene_flags fr) AND 0xFF\<rparr>
        in (r, a\<lparr>last_cutscene := r, cutscene_hold := 90\<rparr>)
      else if cutscene_hold a \<noteq> 0 \<and> rec_kind (last_cutscene a) \<noteq> 0
        then (last_cutscene a, a\<lparr>cutscene_hold := cutscene_hold a - 1\<rparr>)
      else (no_record, a))"

text \<open>A full page gives its last record up for the cutscene.\<close>

definition add_cutscene :: "CoopTransientRecord \<Rightarrow> CoopTransientRecord list \<Rightarrow> CoopTransientRecord list" where
  "add_cutscene r records =
     (if rec_kind r = 0 then records
      else if length records < TRANSIENT_RECORDS then records @ [r] else records[TRANSIENT_RECORDS - 1 := r])"

definition bump_revision :: "u32 \<Rightarrow> u32" where "bump_revision v = (if v + 1 = 0 then 1 else v + 1)"

definition no_area_input :: CoopTransientInput where
  "no_area_input = \<lparr>area_enabled = 0, input_area_file = 0, input_area_map = 0, input_area_epoch = 0, revision = 0, input_records = []\<rparr>"

definition coop_transient_capture ::
  "'e live_env_scheme \<Rightarrow> 'g area_frame \<Rightarrow> bool \<Rightarrow> u32 \<Rightarrow> 'a live_game_scheme \<Rightarrow> coop_area \<Rightarrow> CoopTransientInput \<times> coop_area" where
  "coop_transient_capture e fr on ep s a =
     (let a = (if cutscene_epoch a \<noteq> ep then a\<lparr>cutscene_epoch := ep, cutscene_hold := 0, last_cutscene := no_record\<rparr> else a);
          a = (if on \<and> area_present fr \<and> area_save fr < 3 then
                 if transient_file a = 0 then a\<lparr>transient_file := area_save fr + 1\<rparr>
                 else if transient_file a \<noteq> area_save fr + 1 then a\<lparr>transient_file_changed := True\<rparr> else a
               else a);
          m = word_of_int (env_map e)
      in if \<not> on \<or> \<not> area_present fr \<or> 3 \<le> area_save fr \<or> 255 < (m :: u32) \<or> transient_file_changed a \<or> area_loading fr
         then (no_area_input, a)
         else
           let a = a\<lparr>transient_revision := bump_revision (transient_revision a)\<rparr> in
           case capture_objects e ep s (unat (transient_page a)) a of (ordinal, records, a) \<Rightarrow>
           case actor_records fr ordinal records of (ordinal, records) \<Rightarrow>
           case capture_cutscene fr a of (r, a) \<Rightarrow>
             let pages = (ordinal + TRANSIENT_RECORDS - 1) div TRANSIENT_RECORDS
             in (\<lparr>area_enabled = 1, input_area_file = area_save fr, input_area_map = m, input_area_epoch = ep,
                   revision = transient_revision a, input_records = add_cutscene r records\<rparr>,
                 a\<lparr>transient_page := (if pages = 0 then 0 else (transient_page a + 1) mod of_nat pages)\<rparr>))"

section \<open>What a copy does with a record\<close>

text \<open>A timer sample is applied once: the last applied samples are kept in eight slots.\<close>

definition coop_transient_timer_sample_is_new :: "u32 \<Rightarrow> CoopTransientRecord \<Rightarrow> coop_area \<Rightarrow> bool \<times> coop_area" where
  "coop_transient_timer_sample_is_new ep r a =
     (let a = (if timer_epoch a \<noteq> ep then a\<lparr>timer_epoch := ep, applied_timers := replicate TRANSIENT_RECORDS no_record\<rparr> else a);
          ts = applied_timers a;
          put = (\<lambda>i. a\<lparr>applied_timers := ts[i := r]\<rparr>)
      in case find (\<lambda>i. rec_kind (ts ! i) = rec_kind r \<and> rec_key (ts ! i) = rec_key r) [0..<TRANSIENT_RECORDS] of
           Some i \<Rightarrow> if rec_state (ts ! i) = rec_state r \<and> rec_value (ts ! i) = rec_value r then (False, a) else (True, put i)
         | None \<Rightarrow>
             (case find (\<lambda>i. rec_kind (ts ! i) = 0) [0..<TRANSIENT_RECORDS] of
                Some i \<Rightarrow> (True, put i)
              | None \<Rightarrow> (True, put (unat (rec_key r) mod TRANSIENT_RECORDS))))"

abbreviation (input) select_state :: "u32 \<Rightarrow> nat \<Rightarrow> 'a live_game_scheme \<Rightarrow> 'a live_game_scheme" where
  "select_state object state s \<equiv> snd (coop_live_world_set_object (ucast object) (int state) s)"

text \<open>
  A switch that is ready runs its own activation.  In map 90 the controller of the targets counts the hit,
  in map 4 the partner is put into its linked state first; either refuses the record when its own
  script is not where it has to be.
\<close>

definition trigger_accepts :: "'e live_env_scheme \<Rightarrow> 'a live_game_scheme \<Rightarrow> u32 \<Rightarrow> CoopTransientRecord \<Rightarrow> nat \<Rightarrow> bool" where
  "trigger_accepts e s m r raw \<longleftrightarrow>
     (let activation = coop_transient_object_activation m (rec_key r)
      in unat (rec_value r) = activation \<and> rec_state r = 2 \<and> coop_transient_trigger_ready m (rec_key r) raw activation)"

definition target_hit :: "u32 \<Rightarrow> u32 \<Rightarrow> bool" where "target_hit m object \<longleftrightarrow> m = 90 \<and> 0x03 \<le> object \<and> object \<le> 0x05"

definition mountain_switch :: "u32 \<Rightarrow> u32 \<Rightarrow> bool" where "mountain_switch m object \<longleftrightarrow> m = 4 \<and> (object = 0x0A \<or> object = 0x0B)"

definition partner_switch :: "u32 \<Rightarrow> u32" where "partner_switch object = (if object = 0x0A then 0x0B else 0x0A)"

definition trigger_linked :: "'e live_env_scheme \<Rightarrow> u32 \<Rightarrow> u32 \<Rightarrow> 'a live_game_scheme \<Rightarrow> 'a live_game_scheme option" where
  "trigger_linked e m object s =
     (if target_hit m object then
        (case coop_transient_script e s 0x06 of None \<Rightarrow> None
         | Some (p, d) \<Rightarrow> if unk48 d < 1 \<or> 4 \<le> unk48 d then None else Some (put_script p (d\<lparr>unk48 := unk48 d + 1\<rparr>) s))
      else if mountain_switch m object then
        (if raw_state e s (partner_switch object) \<noteq> Some 1 then None else Some (select_state (partner_switch object) 10 s))
      else Some s)"

definition lobby_pad_applied :: "u32 \<Rightarrow> u32 \<Rightarrow> u32 \<Rightarrow> coop_area \<Rightarrow> bool" where
  "lobby_pad_applied ep m object a \<longleftrightarrow> pad_epoch a = ep \<and> pad_map a = m \<and> pad_object a = object"

definition note_trigger :: "u32 \<Rightarrow> u32 \<Rightarrow> u32 \<Rightarrow> coop_area \<Rightarrow> coop_area" where
  "note_trigger ep m object a =
     (let a = (if coop_transient_passage_index m object \<noteq> 0 then snd (coop_transient_passage_latched ep m object True a) else a)
      in if coop_lobby_instrument_pad m object then a\<lparr>pad_epoch := ep, pad_map := m, pad_object := object\<rparr> else a)"

type_synonym 'a area_state = "coop_area \<times> 'a live_game_scheme"

definition apply_trigger :: "'e live_env_scheme \<Rightarrow> u32 \<Rightarrow> CoopTransientRecord \<Rightarrow> nat \<Rightarrow> 'a area_state \<Rightarrow> 'a area_state" where
  "apply_trigger e ep r raw st = (case st of (a, s) \<Rightarrow>
     let m = word_of_int (env_map e); object = rec_key r; activation = coop_transient_object_activation m object;
         (latched, a) = coop_transient_passage_latched ep m object False a
     in if latched \<or> coop_lobby_instrument_pad m object \<and> lobby_pad_applied ep m object a then (a, s)
        else if \<not> trigger_accepts e s m r raw then (a, s)
        else if m = 194 \<and> 0x10 \<le> object \<and> object \<le> 0x14 \<and> \<not> flags s 0x19D then (a, s)
        else case trigger_linked e m object s of None \<Rightarrow> (a, s)
             | Some s \<Rightarrow> (note_trigger ep m object a, select_state object activation s))"

definition next_step :: "(nat \<Rightarrow> nat) \<times> nat list \<times> nat list \<Rightarrow> u32 \<Rightarrow> nat \<Rightarrow> nat option" where
  "next_step c target raw = (case c of (progress, waits, hits) \<Rightarrow>
     let p = progress raw
     in if unat target \<le> length hits \<and> p < unat target \<and> p < length hits \<and> raw = waits ! p then Some (hits ! p) else None)"

text \<open>The letters of the Tiny temple are four scripts, hit from the last to the first.\<close>

definition temple_letters :: "u32 list" where "temple_letters = [0x0F, 0x0E, 0x0D, 0x0C]"

definition apply_sequence :: "'e live_env_scheme \<Rightarrow> CoopTransientRecord \<Rightarrow> nat \<Rightarrow> 'a live_game_scheme \<Rightarrow> 'a live_game_scheme" where
  "apply_sequence e r raw s =
     (let m = word_of_int (env_map e); object = rec_key r
      in if rec_value r \<noteq> 0 then s
         else if m = 16 \<and> object = 0x0C then
           (let p = coop_tiny_temple_kong_progress e s
            in if rec_state r \<le> 4 \<and> p < unat (rec_state r) \<and> p < 4 \<and> raw_state e s (temple_letters ! p) = Some 10
               then select_state (temple_letters ! p) 11 s else s)
         else case own_controller m object of None \<Rightarrow> s
              | Some c \<Rightarrow> (case next_step c (rec_state r) raw of None \<Rightarrow> s | Some hit \<Rightarrow> select_state object hit s))"

definition apply_timer :: "'e live_env_scheme \<Rightarrow> u32 \<Rightarrow> CoopTransientRecord \<Rightarrow> int \<times> Prop_ScriptData \<Rightarrow> 'a area_state \<Rightarrow> 'a area_state" where
  "apply_timer e ep r script st = (case (script, st) of ((p, d), (a, s)) \<Rightarrow>
     case coop_transient_timer_sample_is_new ep r a of (new, a) \<Rightarrow>
       if \<not> new then (a, s)
       else
         let s = (if unat (unk48 d) \<noteq> unat (rec_state r) then select_state (rec_key r) (unat (rec_state r)) s else s)
         in (a, put_script p (d\<lparr>unk44 := ucast (rec_value r)\<rparr>) s))"

definition apply_cutscene :: "'g area_frame \<Rightarrow> CoopTransientRecord \<Rightarrow> coop_area \<Rightarrow> coop_area" where
  "apply_cutscene fr r a =
     (let local_id = (if 0 \<le> sint (cutscene_number fr) then word_of_int (sint (cutscene_number fr) + 1) else 0)
      in if area_cutscene fr \<and> rec_key r = local_id \<and> rec_value r = ucast (cutscene_flags fr) AND 0xFF \<and>
            ucast (camera_phase a) < rec_state r
         then a\<lparr>camera_phase := camera_phase a + 1\<rparr> else a)"

text \<open>A script record, once its object is known to be reviewed for its kind.\<close>

definition apply_script :: "'e live_env_scheme \<Rightarrow> u32 \<Rightarrow> CoopTransientRecord \<Rightarrow> 'a area_state \<Rightarrow> 'a area_state" where
  "apply_script e ep r st = (case st of (a, s) \<Rightarrow>
     case coop_transient_script e s (rec_key r) of None \<Rightarrow> (a, s)
     | Some (p, d) \<Rightarrow>
         let raw = unat (unk48 d) in
         if rec_kind r = TRIGGER then apply_trigger e ep r raw (a, s)
         else if rec_kind r = SEQUENCE then (a, apply_sequence e r raw s)
         else if rec_kind r = TIMER then apply_timer e ep r (p, d) (a, s)
         else if raw = unat (rec_state r) then (a, s)
         else (a, select_state (rec_key r) (unat (rec_state r)) s))"

text \<open>The records of the minigames, which either copy may send, and of the other actors.\<close>

definition minigame_record :: "u32 \<Rightarrow> bool" where "minigame_record k \<longleftrightarrow> 10 \<le> k \<and> k \<le> 14"

definition actor_record :: "u32 \<Rightarrow> bool" where "actor_record k \<longleftrightarrow> k = 7 \<or> k = 8 \<or> k = 9"

definition reviewed_record :: "u32 \<Rightarrow> CoopTransientRecord \<Rightarrow> bool" where
  "reviewed_record m r \<longleftrightarrow>
     (coop_transient_object_kind m (rec_key r) = rec_kind r \<or> rec_kind r = SCRIPT \<and> coop_transient_dual_script m (rec_key r)) \<and>
     rec_state r \<le> 0xFF"

definition apply_record ::
  "'e live_env_scheme \<Rightarrow> 'a live_game_scheme area_frame \<Rightarrow> bool \<Rightarrow> u32 \<Rightarrow> CoopTransientRecord \<Rightarrow> 'a area_state \<Rightarrow> 'a area_state" where
  "apply_record e fr join_mode ep r st = (case st of (a, s) \<Rightarrow>
     if minigame_record (rec_kind r) then (a, actor_command fr r s)
     else if \<not> join_mode \<and> rec_kind r \<noteq> TRIGGER \<and> rec_kind r \<noteq> SEQUENCE then (a, s)
     else if actor_record (rec_kind r) then (a, actor_command fr r s)
     else if rec_kind r = CUTSCENE then (apply_cutscene fr r a, s)
     else if \<not> reviewed_record (word_of_int (env_map e)) r then (a, s)
     else apply_script e ep r (a, s))"

definition forget_pad :: "coop_area \<Rightarrow> coop_area" where "forget_pad a = a\<lparr>pad_epoch := 0, pad_map := 0, pad_object := 0\<rparr>"

definition coop_transient_apply ::
  "'e live_env_scheme \<Rightarrow> 'a live_game_scheme area_frame \<Rightarrow> bool \<Rightarrow> u32 \<Rightarrow> u32 \<Rightarrow> CoopTransientResult \<Rightarrow> 'a area_state \<Rightarrow> 'a area_state"
  where
  "coop_transient_apply e fr on role_now ep res st = (case st of (a, s) \<Rightarrow>
     let m = word_of_int (env_map e); here = (result_area_map res = m \<and> result_area_epoch res = ep);
         a = (if area_status res = 3 \<and> here then forget_pad a else a)
     in if \<not> on \<or> transient_file_changed a \<or> role_now = 0 \<or> area_status res \<noteq> 2 \<or> \<not> here \<or> area_loading fr then (a, s)
        else fold (apply_record e fr (role_now = 2) ep) (take TRANSIENT_RECORDS (result_records res)) (a, s))"

end
