(* ===== verification/CoopRooms.thy ===== *)
theory CoopRooms
  imports CoopArea
begin

text \<open>
  What the same-area channel guarantees about the scripts of a room: a peer's record starts a reviewed
  activation from a ready state or nothing, and the pages of a room publish every reviewed object.
\<close>

section \<open>The table\<close>

definition row_map :: "CoopTransientObject \<Rightarrow> u32" where "row_map r = ucast (area_map r)"
definition row_object :: "CoopTransientObject \<Rightarrow> u32" where "row_object r = ucast (area_object r)"

text \<open>A switch that is ready has not fired yet, and after its activation it has.\<close>

definition trigger_row :: "CoopTransientObject \<Rightarrow> bool" where
  "trigger_row r \<longleftrightarrow> area_kind r = TRIGGER \<longrightarrow>
     (\<forall>raw. coop_transient_trigger_ready (row_map r) (row_object r) raw (unat (area_activation r)) \<longrightarrow>
        \<not> coop_transient_trigger_fired (row_map r) (row_object r) raw (unat (area_activation r))) \<and>
     coop_transient_trigger_fired (row_map r) (row_object r) (unat (area_activation r)) (unat (area_activation r)) \<and>
     area_activation r \<noteq> 0"

lemmas trigger_defs = trigger_row_def row_map_def row_object_def coop_transient_trigger_ready_def coop_transient_trigger_fired_def
  coop_lobby_instrument_pad_def

lemma trigger_rows_1: "list_all trigger_row coop_transient_extra_objects_1"
  unfolding coop_transient_extra_objects_1_def by (simp add: trigger_defs)

lemma trigger_rows_2: "list_all trigger_row coop_transient_extra_objects_2"
  unfolding coop_transient_extra_objects_2_def by (simp add: trigger_defs)

lemma trigger_rows_3: "list_all trigger_row coop_transient_extra_objects_3"
  unfolding coop_transient_extra_objects_3_def by (simp add: trigger_defs)

definition controller_ok :: "(nat \<Rightarrow> nat) \<times> nat list \<times> nat list \<Rightarrow> bool" where
  "controller_ok c = (case c of (progress, waits, hits) \<Rightarrow> length waits = length hits \<and>
     list_all (\<lambda>p. progress (waits ! p) = p \<and> progress (hits ! p) = Suc p \<and> hits ! p < 256) [0..<length hits])"

lemma controllers_ok:
  "controller_ok (coop_japes_x_progress, coop_japes_x_wait_states, coop_japes_x_hit_states)"
  "controller_ok (coop_tiny_igloo_progress, coop_tiny_igloo_wait_states, coop_tiny_igloo_hit_states)"
  "controller_ok (coop_piano_progress, coop_piano_wait_states, coop_piano_hit_states)"
  "controller_ok (coop_dartboard_progress, coop_dartboard_wait_states, coop_dartboard_hit_states)"
  by code_simp+

lemma own_controllers:
  assumes "own_controller m object = Some c"
  shows "controller_ok c"
  using assms controllers_ok by (auto simp: own_controller_def split: if_split_asm)

text \<open>A step of a controller goes from its wait state to the next number of finished steps, within the target.\<close>

lemma next_step_progress:
  assumes "controller_ok c" "next_step c target raw = Some hit"
  shows "fst c hit = Suc (fst c raw)" "fst c hit \<le> unat target" "hit < 256"
  using assms by (auto simp: controller_ok_def next_step_def list_all_iff Let_def split: prod.splits if_split_asm)

section \<open>What a record may ask for\<close>

text \<open>
  The requests a record of a script can lead to.  A switch runs its own activation, from a ready state;
  in the mountain its partner is linked first.  A controller takes its next step.  Every other state is
  copied only by a guest, only onto an object that is reviewed for the record's kind.
\<close>

definition may_request :: "'e live_env_scheme \<Rightarrow> bool \<Rightarrow> CoopTransientRecord \<Rightarrow> 'a live_game_scheme \<Rightarrow> u32 \<Rightarrow> nat \<Rightarrow> bool" where
  "may_request e join_mode r s object state \<longleftrightarrow>
     (let m = word_of_int (env_map e); raw = raw_state e s object; activation = coop_transient_object_activation m (rec_key r)
      in if rec_kind r = TRIGGER then
           coop_transient_object_kind m (rec_key r) = TRIGGER \<and>
           (\<exists>k. raw_state e s (rec_key r) = Some k \<and> coop_transient_trigger_ready m (rec_key r) k activation) \<and>
           (object = rec_key r \<and> state = activation \<or>
            mountain_switch m (rec_key r) \<and> object = partner_switch (rec_key r) \<and> state = 10 \<and> raw = Some 1)
         else if rec_kind r = SEQUENCE then
           (\<exists>c k. own_controller m object = Some c \<and> object = rec_key r \<and> raw = Some k \<and> next_step c (rec_state r) k = Some state) \<or>
           m = 16 \<and> rec_key r = 0x0C \<and> object \<in> set temple_letters \<and> raw = Some 10 \<and> state = 11
         else join_mode \<and> reviewed_record m r \<and> object = rec_key r \<and> state = unat (rec_state r))"

definition requests :: "'e live_env_scheme \<Rightarrow> bool \<Rightarrow> CoopTransientRecord \<Rightarrow> 'a live_game_scheme \<Rightarrow> 'a live_game_scheme \<Rightarrow> bool" where
  "requests e join_mode r s t \<longleftrightarrow>
     script_slots t = script_slots s \<and> flags t = flags s \<and> actors t = actors s \<and> spawners t = spawners s \<and>
     live_game.more t = live_game.more s \<and>
     (\<exists>cs. coop_calls t = coop_calls s @ cs \<and>
        (\<forall>c \<in> set cs. \<exists>object state slot. c = SelectState slot (int state) \<and>
           coop_live_world_find_object s (ucast object) = Some slot \<and> may_request e join_mode r s object state))"

lemma requests_same: "requests e join_mode r s s"
  by (simp add: requests_def)

lemma requests_put:
  assumes "requests e join_mode r s t"
  shows "requests e join_mode r s (put_script p d t)"
  using assms by (simp add: requests_def put_script_def)

lemma put_slots [simp]: "script_slots (put_script p d s) = script_slots s" "flags (put_script p d s) = flags s"
  "coop_calls (put_script p d s) = coop_calls s"
  by (simp_all add: put_script_def)

lemma requests_select:
  assumes "requests e join_mode r s t" "may_request e join_mode r s object state"
  shows "requests e join_mode r s (select_state object state t)"
proof -
  obtain cs where cs: "coop_calls t = coop_calls s @ cs" "\<forall>c \<in> set cs. \<exists>object state slot. c = SelectState slot (int state) \<and>
      coop_live_world_find_object s (ucast object) = Some slot \<and> may_request e join_mode r s object state"
    and rest: "script_slots t = script_slots s" "flags t = flags s" "actors t = actors s" "spawners t = spawners s"
      "live_game.more t = live_game.more s"
    using assms(1) unfolding requests_def by blast
  have same: "coop_live_world_find_object t (ucast object) = coop_live_world_find_object s (ucast object)"
    by (simp add: coop_live_world_find_object_def rest(1))
  show ?thesis
  proof (cases "coop_live_world_find_object s (ucast object)")
    case None
    with assms(1) same show ?thesis by (simp add: coop_live_world_set_object_def)
  next
    case (Some slot)
    define cs' where "cs' = cs @ [SelectState slot (int state)]"
    have "\<forall>c \<in> set cs'. \<exists>object state slot. c = SelectState slot (int state) \<and>
        coop_live_world_find_object s (ucast object) = Some slot \<and> may_request e join_mode r s object state"
      using cs(2) Some assms(2) by (auto simp: cs'_def)
    moreover have "select_state object state t = call_game (SelectState slot (int state)) t"
      using same Some by (simp add: coop_live_world_set_object_def)
    ultimately show ?thesis
      using rest cs(1) unfolding requests_def by (intro conjI exI [of _ cs']) (simp_all add: call_game_def cs'_def)
  qed
qed

lemma sequence_requests:
  assumes "rec_kind r = SEQUENCE" "raw_state e s (rec_key r) = Some raw"
  shows "requests e join_mode r s (apply_sequence e r raw s)"
proof -
  let ?m = "word_of_int (env_map e) :: u32"
  have own: "requests e join_mode r s (select_state (rec_key r) hit s)"
    if "own_controller ?m (rec_key r) = Some c" "next_step c (rec_state r) raw = Some hit" for c hit
    by (rule requests_select [OF requests_same]) (use assms that in \<open>cases c; auto simp: may_request_def\<close>)
  have letter: "requests e join_mode r s (select_state (temple_letters ! p) 11 s)"
    if "?m = 16" "rec_key r = 0x0C" "p < 4" "raw_state e s (temple_letters ! p) = Some 10" for p
  proof (rule requests_select [OF requests_same])
    have "temple_letters ! p \<in> set temple_letters" using that(3) by (intro nth_mem) (simp add: temple_letters_def)
    with assms that show "may_request e join_mode r s (temple_letters ! p) 11" by (simp add: may_request_def Let_def)
  qed
  show ?thesis
    unfolding apply_sequence_def Let_def using own letter requests_same [of e join_mode r s]
    by (auto split: option.splits)
qed

lemma trigger_requests:
  assumes "rec_kind r = TRIGGER" "raw_state e s (rec_key r) = Some raw"
    and "coop_transient_object_kind (word_of_int (env_map e)) (rec_key r) = TRIGGER"
    and "apply_trigger e ep r raw (a, s) = (a', t)"
  shows "requests e join_mode r s t"
proof -
  let ?m = "word_of_int (env_map e) :: u32" and ?act = "coop_transient_object_activation (word_of_int (env_map e)) (rec_key r)"
  obtain latched b where l: "coop_transient_passage_latched ep ?m (rec_key r) False a = (latched, b)" by (metis surj_pair)
  from assms(4) consider "t = s" |
    u where "trigger_accepts e s ?m r raw" "trigger_linked e ?m (rec_key r) s = Some u" "t = select_state (rec_key r) ?act u"
    unfolding apply_trigger_def prod.case Let_def l by (auto split: if_split_asm option.splits)
  then show ?thesis
  proof cases
    case 1
    then show ?thesis by (simp add: requests_same)
  next
    case 2
    have ready: "coop_transient_trigger_ready ?m (rec_key r) raw ?act" using 2(1) by (simp add: trigger_accepts_def Let_def)
    with assms(1-3) have own: "may_request e join_mode r s (rec_key r) ?act" by (simp add: may_request_def Let_def)
    have "requests e join_mode r s u"
    proof (cases "target_hit ?m (rec_key r)")
      case True
      with 2(2) requests_put [OF requests_same] show ?thesis
        by (auto simp: trigger_linked_def split: option.splits if_split_asm)
    next
      case False
      show ?thesis
      proof (cases "mountain_switch ?m (rec_key r)")
        case True
        with False 2(2) have u: "u = select_state (partner_switch (rec_key r)) 10 s" "raw_state e s (partner_switch (rec_key r)) = Some 1"
          by (auto simp: trigger_linked_def split: if_split_asm)
        have "may_request e join_mode r s (partner_switch (rec_key r)) 10"
          using assms(1-3) ready True u(2) by (simp add: may_request_def Let_def)
        from requests_select [OF requests_same this] show ?thesis by (simp add: u(1))
      next
        case plain: False
        with False 2(2) show ?thesis by (simp add: trigger_linked_def requests_same)
      qed
    qed
    from requests_select [OF this own] show ?thesis by (simp add: 2(3))
  qed
qed

lemma record_requests:
  assumes "rec_kind r \<noteq> 0" "\<not> minigame_record (rec_kind r)" "\<not> actor_record (rec_kind r)"
    and "apply_record e fr join_mode ep r (a, s) = (a', t)"
  shows "requests e join_mode r s t"
proof -
  let ?m = "word_of_int (env_map e) :: u32"
  from assms consider "t = s" |
    "reviewed_record ?m r" "join_mode \<or> rec_kind r = TRIGGER \<or> rec_kind r = SEQUENCE" "apply_script e ep r (a, s) = (a', t)"
    by (auto simp: apply_record_def split: if_split_asm)
  then show ?thesis
  proof cases
    case 1
    then show ?thesis by (simp add: requests_same)
  next
    case 2
    show ?thesis
    proof (cases "coop_transient_script e s (rec_key r)")
      case None
      with 2(3) show ?thesis by (simp add: apply_script_def requests_same)
    next
      case (Some pd)
      obtain p d where pd: "pd = (p, d)" by (metis surj_pair)
      have raw: "raw_state e s (rec_key r) = Some (unat (unk48 d))" using Some pd by (simp add: raw_state_def)
      consider "rec_kind r = TRIGGER" | "rec_kind r = SEQUENCE" | "rec_kind r \<noteq> TRIGGER" "rec_kind r \<noteq> SEQUENCE" "join_mode"
        using 2(2) by blast
      then show ?thesis
      proof cases
        case 1
        then have "coop_transient_object_kind ?m (rec_key r) = TRIGGER" using 2(1) by (simp add: reviewed_record_def)
        from trigger_requests [OF 1 raw this] 2(3) Some pd 1 show ?thesis by (simp add: apply_script_def Let_def)
      next
        case c: 2
        from sequence_requests [OF c raw] 2(3) Some pd c show ?thesis by (auto simp: apply_script_def Let_def)
      next
        case 3
        with 2(1) have copy: "may_request e join_mode r s (rec_key r) (unat (rec_state r))" by (simp add: may_request_def Let_def)
        note sel = requests_select [OF requests_same copy]
        show ?thesis
          using 2(3) Some pd 3 sel requests_same [of e join_mode r s] requests_put
          by (auto simp: apply_script_def apply_timer_def Let_def split: prod.splits if_split_asm)
      qed
    qed
  qed
qed

section \<open>Applying a result\<close>

text \<open>The records of scripts; the others belong to adapters of actors.\<close>

definition script_record :: "CoopTransientRecord \<Rightarrow> bool" where
  "script_record r \<longleftrightarrow> rec_kind r \<noteq> 0 \<and> \<not> minigame_record (rec_kind r) \<and> \<not> actor_record (rec_kind r)"

lemma ucast_u8_kind: "(ucast (w :: u8) :: u32) = 5 \<longleftrightarrow> w = 5"
  using u8_less [of w] by (simp add: word_unat_eq_iff unsigned_ucast_eq take_bit_nat_eq_self)

text \<open>A chain of games, one per record, in which each step asks only for what its record may.\<close>

fun asks_along :: "'e live_env_scheme \<Rightarrow> bool \<Rightarrow> CoopTransientRecord list \<Rightarrow> 'a live_game_scheme \<Rightarrow> 'a live_game_scheme \<Rightarrow> bool" where
  "asks_along e join_mode [] s t \<longleftrightarrow> t = s"
| "asks_along e join_mode (r # rs) s t \<longleftrightarrow> (\<exists>u. requests e join_mode r s u \<and> asks_along e join_mode rs u t)"

lemma fold_asks:
  assumes "\<forall>r \<in> set rs. script_record r" "fold (apply_record e fr join_mode ep) rs (a, s) = (a', t)"
  shows "asks_along e join_mode rs s t"
  using assms
proof (induction rs arbitrary: a s)
  case (Cons r rs)
  obtain b u where st: "apply_record e fr join_mode ep r (a, s) = (b, u)" by (metis surj_pair)
  have "requests e join_mode r s u" using record_requests [OF _ _ _ st] Cons.prems(1) by (simp add: script_record_def)
  with Cons.IH [of b u] Cons.prems st show ?case by auto
qed simp


text \<open>
  an accepted step is reported as taken.  Where a reviewed switch is ready it does not count as fired,
  and after its own activation it does; and the step of an ordered controller raises its published progress
  by exactly one, never past the peer's.
\<close>

theorem remote_step_reported:
  "(coop_transient_object_kind m object = TRIGGER \<and>
      coop_transient_trigger_ready m object raw (coop_transient_object_activation m object) \<longrightarrow>
      \<not> coop_transient_trigger_fired m object raw (coop_transient_object_activation m object) \<and>
      coop_transient_trigger_fired m object (coop_transient_object_activation m object) (coop_transient_object_activation m object)) \<and>
   (own_controller m object = Some c \<and> next_step c target raw = Some hit \<longrightarrow>
      fst c hit = Suc (fst c raw) \<and> fst c hit \<le> unat target)"
proof (intro conjI impI)
  assume a: "coop_transient_object_kind m object = TRIGGER \<and>
      coop_transient_trigger_ready m object raw (coop_transient_object_activation m object)"
  have table: "list_all trigger_row coop_transient_extra_objects"
    using trigger_rows_1 trigger_rows_2 trigger_rows_3 by (simp add: coop_transient_extra_objects_def)
  from a obtain r where r: "find_entry m object = Some r" "area_kind r = TRIGGER"
    by (auto simp: coop_transient_object_kind_def ucast_u8_kind split: option.splits if_split_asm)
  then have mem: "r \<in> set coop_transient_extra_objects" "row_map r = m" "row_object r = object"
    unfolding find_entry_def row_map_def row_object_def by (auto simp: find_Some_iff)
  have act: "coop_transient_object_activation m object = unat (area_activation r)"
    using r(1) by (simp add: coop_transient_object_activation_def)
  from table mem(1) have "trigger_row r" by (simp add: list_all_iff)
  with r(2) a mem(2,3) show "\<not> coop_transient_trigger_fired m object raw (coop_transient_object_activation m object)"
    "coop_transient_trigger_fired m object (coop_transient_object_activation m object) (coop_transient_object_activation m object)"
    unfolding trigger_row_def act by blast+
next
  assume "own_controller m object = Some c \<and> next_step c target raw = Some hit"
  then show "fst c hit = Suc (fst c raw)" "fst c hit \<le> unat target"
    using next_step_progress(1,2) [OF own_controllers [of m object c], of target raw hit] by simp_all
qed

text \<open>The Rambi wall switch of Japes, and the sixth note of the piano.\<close>

lemma japes_switch: "coop_transient_object_kind 7 0x115 = TRIGGER" "coop_transient_object_activation 7 0x115 = 2"
  by (simp_all add: coop_transient_object_kind_def coop_transient_object_activation_def find_entry_def
      coop_transient_extra_objects_def coop_transient_extra_objects_parts)

lemma remote_step_reported_witness:
  "\<not> coop_transient_trigger_fired 7 0x115 1 2 \<and> coop_piano_progress 24 = 6"
proof -
  let ?piano = "(coop_piano_progress, coop_piano_wait_states, coop_piano_hit_states)"
  have ready: "coop_transient_trigger_ready 7 0x115 1 2"
    by (simp add: coop_transient_trigger_ready_def coop_lobby_instrument_pad_def)
  have step: "next_step ?piano 9 23 = Some 24" by code_simp
  have "coop_piano_progress 23 = 5" by code_simp
  with remote_step_reported [of 7 "0x115" 1 ?piano 9 24] remote_step_reported [of 26 "0x14" 23 ?piano 9 24] ready step show ?thesis
    by (simp add: japes_switch own_controller_def)
qed

section \<open>The pages of a room\<close>

definition reviewed_objects :: "u32 \<Rightarrow> (u32 \<times> u32) list" where
  "reviewed_objects m = reviewed_scripts m @ reviewed_extras m"

definition room_pages :: "u32 \<Rightarrow> nat" where
  "room_pages m = (length (reviewed_objects m) + TRANSIENT_RECORDS - 1) div TRANSIENT_RECORDS"

text \<open>An object with something to publish: its script is loaded.\<close>

definition published :: "'e live_env_scheme \<Rightarrow> 'a live_game_scheme \<Rightarrow> u32 \<times> u32 \<Rightarrow> bool" where
  "published e s ok \<longleftrightarrow> (case ok of (object, k) \<Rightarrow> coop_transient_script e s object \<noteq> None \<and>
     (k = TRIGGER \<longrightarrow> coop_transient_object_activation (word_of_int (env_map e)) object \<noteq> 0) \<and>
     (k = SEQUENCE \<longrightarrow> own_controller (word_of_int (env_map e)) object \<noteq> None \<or> word_of_int (env_map e) = (16 :: u32) \<and> object = 0x0C))"

text \<open>What a capture of objects leaves alone.\<close>

definition only_latches :: "coop_area \<Rightarrow> coop_area \<Rightarrow> bool" where
  "only_latches a b \<longleftrightarrow> b = a\<lparr>passage_map := passage_map b, passage_epoch := passage_epoch b, passage_bits := passage_bits b\<rparr>"

lemma only_latches_refl: "only_latches a a"
  by (simp add: only_latches_def)

lemma only_latches_trans: "only_latches a b \<Longrightarrow> only_latches b c \<Longrightarrow> only_latches a c"
  by (cases a; cases b; cases c) (simp add: only_latches_def)

lemma latched_only: "coop_transient_passage_latched ep m object observe a = (b, a') \<Longrightarrow> only_latches a a'"
  by (auto simp: coop_transient_passage_latched_def passage_room_def only_latches_def Let_def split: if_split_asm)

lemma object_record_result:
  assumes "object_record e ep s object k a = (r, a')"
  shows "only_latches a a'" "(r = None) = (\<not> published e s (object, k))" "r = Some x \<Longrightarrow> rec_key x = object \<and> rec_kind x = k"
proof -
  have latch: "only_latches a (snd (coop_transient_passage_latched ep m object v a))" for m v
    using latched_only [of ep m object v a] by (metis surj_pair snd_conv)
  show "only_latches a a'"
    using assms latch only_latches_refl [of a]
    unfolding object_record_def Let_def by (auto split: option.splits prod.splits if_split_asm dest: latched_only)
  show "(r = None) = (\<not> published e s (object, k))"
    using assms unfolding object_record_def Let_def published_def by (auto split: option.splits prod.splits if_split_asm)
  show "r = Some x \<Longrightarrow> rec_key x = object \<and> rec_kind x = k"
    using assms unfolding object_record_def Let_def by (auto split: option.splits prod.splits if_split_asm)
qed

lemma add_object_result:
  assumes "coop_transient_add_object e ep s page (object, k) (n, rs, a) = (n', rs', a')"
  shows "n' = Suc n \<and> only_latches a a' \<and>
    (rs' = rs \<and> (n div 8 \<noteq> page \<or> 8 \<le> length rs \<or> \<not> published e s (object, k)) \<or>
     (\<exists>r. rs' = rs @ [r] \<and> n div 8 = page \<and> length rs < 8 \<and> rec_key r = object \<and> rec_kind r = k))"
proof (cases "n div TRANSIENT_RECORDS \<noteq> page \<or> TRANSIENT_RECORDS \<le> length rs")
  case True
  with assms show ?thesis by (auto simp: coop_transient_add_object_def only_latches_refl)
next
  case False
  obtain r b where r: "object_record e ep s object k a = (r, b)" by (metis surj_pair)
  with False assms object_record_result [OF r] show ?thesis
    by (cases r) (auto simp: coop_transient_add_object_def)
qed

text \<open>The objects whose number falls on the page are all there.\<close>

lemma fold_page:
  assumes "fold (coop_transient_add_object e ep s page) objs (n, rs, a) = (n', rs', a')"
    and "length rs \<le> 8" "n div 8 < page \<longrightarrow> rs = []" "n div 8 = page \<longrightarrow> length rs \<le> n mod 8"
  shows "n' = n + length objs \<and> only_latches a a' \<and> length rs' \<le> 8 \<and> set rs \<subseteq> set rs' \<and>
    (\<forall>i < length objs. (n + i) div 8 = page \<and> published e s (objs ! i) \<longrightarrow> (\<exists>r \<in> set rs'. (rec_key r, rec_kind r) = objs ! i))"
  using assms
proof (induction objs arbitrary: n rs a)
  case Nil
  then show ?case by (simp add: only_latches_refl)
next
  case (Cons ok objs)
  obtain object k where ok: "ok = (object, k)" by (metis surj_pair)
  obtain n1 rs1 a1 where st: "coop_transient_add_object e ep s page (object, k) (n, rs, a) = (n1, rs1, a1)" by (metis prod_cases3)
  note r = add_object_result [OF st]
  have step: "n div 8 \<le> Suc n div 8" "Suc n div 8 = n div 8 \<Longrightarrow> Suc n mod 8 = Suc (n mod 8)" by presburger+
  have fold1: "fold (coop_transient_add_object e ep s page) objs (n1, rs1, a1) = (n', rs', a')"
    using Cons.prems(1) st by (simp add: ok)
  have room: "length rs < 8" if "n div 8 = page" using Cons.prems(4) that by (metis mod_less_divisor le_less_trans zero_less_numeral)
  have inv: "length rs1 \<le> 8" "n1 div 8 < page \<longrightarrow> rs1 = []" "n1 div 8 = page \<longrightarrow> length rs1 \<le> n1 mod 8"
    using r Cons.prems(2-4) step by auto
  from Cons.IH [OF fold1 inv] r have rest: "n' = Suc n + length objs" "only_latches a a'" "length rs' \<le> 8" "set rs1 \<subseteq> set rs'"
      "\<forall>i < length objs. (Suc n + i) div 8 = page \<and> published e s (objs ! i) \<longrightarrow> (\<exists>r \<in> set rs'. (rec_key r, rec_kind r) = objs ! i)"
    using only_latches_trans by auto
  have sub: "set rs \<subseteq> set rs1" using r by auto
  have "\<exists>r \<in> set rs'. (rec_key r, rec_kind r) = (ok # objs) ! i"
    if "i < length (ok # objs)" "(n + i) div 8 = page" "published e s ((ok # objs) ! i)" for i
  proof (cases i)
    case 0
    with that room r have "\<exists>r \<in> set rs1. (rec_key r, rec_kind r) = ok" by (auto simp: ok)
    with rest(4) 0 show ?thesis by auto
  next
    case (Suc j)
    with that rest(5) show ?thesis by simp
  qed
  with rest sub show ?case by auto
qed

lemma page_of_object: "i < l \<Longrightarrow> i div 8 < (l + 8 - 1) div (8 :: nat)"
  using div_le_mono [of "i + 8" "l + 8 - 1" 8] by simp

lemma room_pages_small: "room_pages m < 100"
proof -
  have "length coop_live_world_states \<le> 300" "length coop_transient_extra_objects \<le> 300"
    by (simp_all add: coop_live_world_states_def coop_live_world_states_parts coop_transient_extra_objects_def
        coop_transient_extra_objects_parts)
  moreover have "length (reviewed_scripts m) \<le> length coop_live_world_states"
    unfolding reviewed_scripts_def length_map
    by (rule order_trans [OF length_filter_le]) (simp add: coop_live_world_states_def del: upt_rec_numeral)
  moreover have "length (reviewed_extras m) \<le> length coop_transient_extra_objects"
    unfolding reviewed_extras_def length_map by (rule length_filter_le)
  ultimately have "length (reviewed_objects m) \<le> 600" by (simp add: reviewed_objects_def)
  then show ?thesis by (simp add: room_pages_def)
qed

text \<open>
  A frame in which the channel publishes the room \<open>m\<close>: the player is there, on the session's file, no
  map is loading, no cutscene runs, and no actor of the room publishes records.
\<close>

definition room_frame :: "u32 \<Rightarrow> u32 \<Rightarrow> 'e live_env_scheme \<Rightarrow> 'g area_frame \<Rightarrow> bool" where
  "room_frame m save e fr \<longleftrightarrow> word_of_int (env_map e) = m \<and> area_present fr \<and> area_save fr = save \<and> \<not> area_loading fr \<and>
     \<not> area_cutscene fr \<and> (\<forall>n rs. actor_records fr n rs = (n, rs))"

definition area_quiet :: "u32 \<Rightarrow> u32 \<Rightarrow> coop_area \<Rightarrow> bool" where
  "area_quiet m save a \<longleftrightarrow> cutscene_hold a = 0 \<and> \<not> transient_file_changed a \<and> (transient_file a = 0 \<or> transient_file a = save + 1) \<and>
     unat (transient_page a) < room_pages m"

lemma room_capture:
  assumes "room_frame m save e fr" "area_quiet m save a" "save < 3" "m \<le> 255"
    and "coop_transient_capture e fr True ep s a = (inp, a')"
  shows "area_quiet m save a'" "unat (transient_page a') = (unat (transient_page a) + 1) mod room_pages m"
    "i < length (reviewed_objects m) \<Longrightarrow> i div 8 = unat (transient_page a) \<Longrightarrow> published e s (reviewed_objects m ! i) \<Longrightarrow>
       \<exists>r \<in> set (input_records inp). (rec_key r, rec_kind r) = reviewed_objects m ! i"
proof -
  have fr: "word_of_int (env_map e) = m" "area_present fr" "area_save fr = save" "\<not> area_loading fr" "\<not> area_cutscene fr"
      "\<And>n rs. actor_records fr n rs = (n, rs)" using assms(1) by (simp_all add: room_frame_def)
  define b where "b = (let a = (if cutscene_epoch a \<noteq> ep then a\<lparr>cutscene_epoch := ep, cutscene_hold := 0, last_cutscene := no_record\<rparr> else a)
      in (if transient_file a = 0 then a\<lparr>transient_file := save + 1\<rparr> else a))\<lparr>transient_revision := bump_revision (transient_revision a)\<rparr>"
  have b: "cutscene_hold b = 0" "\<not> transient_file_changed b" "transient_file b = save + 1" "transient_page b = transient_page a"
    using assms(2) by (auto simp: b_def area_quiet_def Let_def)
  obtain n rs c where cap: "capture_objects e ep s (unat (transient_page b)) b = (n, rs, c)" by (metis prod_cases3)
  have "fold (coop_transient_add_object e ep s (unat (transient_page b))) (reviewed_objects m) (0, [], b) = (n, rs, c)"
    using cap by (simp add: capture_objects_def reviewed_objects_def fr(1))
  from fold_page [OF this] have page: "n = length (reviewed_objects m)" "only_latches b c"
      "\<And>i. i < length (reviewed_objects m) \<Longrightarrow> i div 8 = unat (transient_page a) \<Longrightarrow> published e s (reviewed_objects m ! i) \<Longrightarrow>
        \<exists>r \<in> set rs. (rec_key r, rec_kind r) = reviewed_objects m ! i"
    using b(4) by auto
  have c: "cutscene_hold c = 0" "\<not> transient_file_changed c" "transient_file c = save + 1" "transient_page c = transient_page a"
      "transient_revision c = transient_revision b"
    using page(2) b by (cases b; cases c; simp add: only_latches_def)+
  have cut: "capture_cutscene fr c = (no_record, c)" using fr(5) c(1) by (simp add: capture_cutscene_def)
  have pages: "0 < room_pages m" using assms(2) by (auto simp: area_quiet_def)
  have r: "inp = \<lparr>area_enabled = 1, input_area_file = save, input_area_map = m, input_area_epoch = ep,
        revision = transient_revision c, input_records = rs\<rparr>"
      "a' = c\<lparr>transient_page := (transient_page c + 1) mod of_nat (room_pages m)\<rparr>"
    using assms(2-5) fr cap cut pages page(1)
    by (auto simp: coop_transient_capture_def area_quiet_def b_def Let_def add_cutscene_def no_record_def room_pages_def
        split: if_split_asm prod.splits)
  have small: "unat (of_nat (room_pages m) :: u32) = room_pages m" "unat (transient_page a + 1) = unat (transient_page a) + 1"
    using room_pages_small [of m] assms(2) by (auto simp: area_quiet_def unat_of_nat unat_word_ariths)
  have next_page: "unat ((transient_page a + 1) mod of_nat (room_pages m)) = (unat (transient_page a) + 1) mod room_pages m"
    by (simp add: unat_mod small)
  show "unat (transient_page a') = (unat (transient_page a) + 1) mod room_pages m" by (simp add: r(2) c(4) next_page)
  show "area_quiet m save a'" using c pages by (simp add: area_quiet_def r(2) next_page)
  show "i < length (reviewed_objects m) \<Longrightarrow> i div 8 = unat (transient_page a) \<Longrightarrow> published e s (reviewed_objects m ! i) \<Longrightarrow>
       \<exists>r \<in> set (input_records inp). (rec_key r, rec_kind r) = reviewed_objects m ! i"
    using page(3) by (simp add: r(1))
qed

text \<open>Frames in a row, with what each of them publishes.\<close>

fun area_run :: "u32 \<Rightarrow> ('e live_env_scheme \<times> 'g area_frame \<times> 'a live_game_scheme) list \<Rightarrow> coop_area \<Rightarrow> CoopTransientInput list" where
  "area_run ep [] a = []"
| "area_run ep ((e, fr, s) # fs) a = (case coop_transient_capture e fr True ep s a of (inp, a) \<Rightarrow> inp # area_run ep fs a)"

lemma area_run_page:
  assumes "\<forall>(e, fr, s) \<in> set fs. room_frame m save e fr \<and> published e s (reviewed_objects m ! i)" "area_quiet m save a" "save < 3" "m \<le> 255"
    and "i < length (reviewed_objects m)" "j < length fs" "(unat (transient_page a) + j) mod room_pages m = i div 8"
  shows "\<exists>inp \<in> set (area_run ep fs a). \<exists>r \<in> set (input_records inp). (rec_key r, rec_kind r) = reviewed_objects m ! i"
  using assms
proof (induction j arbitrary: fs a)
  case 0
  then obtain e fr s fs' where fs: "fs = (e, fr, s) # fs'" by (cases fs) auto
  obtain inp a' where st: "coop_transient_capture e fr True ep s a = (inp, a')" by (metis surj_pair)
  have f: "room_frame m save e fr" "published e s (reviewed_objects m ! i)" using 0(1) fs by auto
  have "i div 8 = unat (transient_page a)" using 0(2,7) by (simp add: area_quiet_def)
  from room_capture(3) [OF f(1) 0(2-4) st 0(5) this f(2)] show ?case by (simp add: fs st)
next
  case (Suc j)
  then obtain e fr s fs' where fs: "fs = (e, fr, s) # fs'" by (cases fs) auto
  obtain inp a' where st: "coop_transient_capture e fr True ep s a = (inp, a')" by (metis surj_pair)
  have f: "room_frame m save e fr" using Suc.prems(1) fs by auto
  note step = room_capture [OF f Suc.prems(2-4) st]
  have "(unat (transient_page a') + j) mod room_pages m = i div 8"
    using Suc.prems(7) by (simp add: step(2) mod_add_left_eq)
  from Suc.IH [OF _ step(1) Suc.prems(3-5) _ this, of fs'] Suc.prems(1,6) show ?case by (auto simp: fs st)
qed


section \<open>Examples\<close>

text \<open>A scene of one script, the object \<open>object\<close>, in state \<open>raw\<close>.\<close>

definition script_env :: "int \<Rightarrow> live_env" where
  "script_env m = \<lparr>env_map = m, prop_index = (\<lambda>i. i), golden_banana_type = 0, seal_at_cage = (\<lambda>i. False)\<rparr>"

definition script_scene :: "s16 \<Rightarrow> u8 \<Rightarrow> live_game" where
  "script_scene object raw =
     \<lparr>flags = (\<lambda>f. False), coop_calls = [], script_slots = object # replicate 599 0x7FFF,
      scene_props = Some (\<lambda>i. \<lparr>unk8A = 0, object_type = 0,
        unk7C = Some \<lparr>unk44 = 0, unk48 = raw, unk54 = 0, unk60 = 0, unk62 = 0, unk66 = 0\<rparr>\<rparr>), actors = [], spawners = []\<rparr>"

definition script_frame :: "live_game area_frame" where
  "script_frame = \<lparr>area_present = True, area_save = 0, area_loading = False, area_cutscene = False, cutscene_number = - 1,
     cutscene_flags = 0, actor_records = (\<lambda>n rs. (n, rs)), actor_command = (\<lambda>r g. g)\<rparr>"

definition start_area :: coop_area where
  "start_area = \<lparr>passage_map = 0, passage_epoch = 0, passage_bits = 0, applied_timers = replicate 8 no_record, timer_epoch = 0,
     last_cutscene = no_record, cutscene_epoch = 0, cutscene_hold = 0, pad_epoch = 0, pad_map = 0, pad_object = 0,
     transient_revision = 1, transient_page = 0, transient_file = 0, transient_file_changed = False, camera_phase = 0\<rparr>"

lemma scene_slot: "sint object \<noteq> 0x7FFF \<Longrightarrow> coop_live_world_find_object (script_scene object raw) object = Some 0"
  by (simp add: coop_live_world_find_object_def script_scene_def upt_conv_Cons del: upt_rec_numeral)

lemma scene_script:
  "0 \<le> sint (ucast object :: u32) \<Longrightarrow> coop_transient_script (script_env m) (script_scene object raw) (ucast object) =
     Some (sint (ucast object :: u32), \<lparr>unk44 = 0, unk48 = raw, unk54 = 0, unk60 = 0, unk62 = 0, unk66 = 0\<rparr>)"
  by (simp add: coop_transient_script_def script_env_def script_scene_def upt_conv_Cons del: upt_rec_numeral)


lemma barn_objects: "reviewed_objects 57 = [(3, 5)]"
  by code_simp


section \<open>The record of kind zero\<close>

text \<open>
  C35: an empty record inside a result gets past the review.  Kind zero is the kind of every object that is
  not reviewed, so on a guest a record of kind zero for object zero, on a map without a reviewed object
  zero, puts the script of that object into state zero, whatever the script is.
\<close>

theorem empty_record_unreviewed:
  assumes "result_records res = [no_record]" and "area_status res = 2" and "result_area_epoch res = ep"
    and "result_area_map res = word_of_int (env_map e)" and "\<not> transient_file_changed a" and "\<not> area_loading fr"
    and "coop_transient_object_kind (word_of_int (env_map e)) 0 = 0"
    and "coop_transient_script e s 0 = Some (p, d)" and "unk48 d \<noteq> 0" and "coop_live_world_find_object s 0 = Some slot"
  shows "snd (coop_transient_apply e fr True 2 ep res (a, s)) = call_game (SelectState slot 0) s"
proof -
  have "unat (unk48 d) \<noteq> 0" using assms(9) by (simp add: unat_eq_zero)
  with assms(7-10) have "apply_record e fr True ep no_record (b, s) = (b, call_game (SelectState slot 0) s)" for b
    by (simp add: apply_record_def no_record_def minigame_record_def actor_record_def reviewed_record_def apply_script_def
        coop_live_world_set_object_def Let_def)
  with assms(1-6) show ?thesis by (simp add: coop_transient_apply_def forget_pad_def Let_def)
qed

lemma empty_record_unreviewed_witness:
  "coop_calls (snd (coop_transient_apply (script_env 7) script_frame True 2 1
     \<lparr>area_status = 2, result_area_map = 7, result_area_epoch = 1, result_records = [no_record]\<rparr>
     (start_area, script_scene 0 20))) = [SelectState 0 0]"
proof -
  have kind: "coop_transient_object_kind 7 0 = 0" by code_simp
  have script: "coop_transient_script (script_env 7) (script_scene 0 20) 0 =
      Some (0, \<lparr>unk44 = 0, unk48 = 20, unk54 = 0, unk60 = 0, unk62 = 0, unk66 = 0\<rparr>)"
    using scene_script [of 0 7 20] by simp
  have slot: "coop_live_world_find_object (script_scene 0 20) 0 = Some 0" by (rule scene_slot) simp
  have m: "word_of_int (env_map (script_env 7)) = (7 :: u32)" by (simp add: script_env_def)
  let ?res = "\<lparr>area_status = 2, result_area_map = 7, result_area_epoch = 1, result_records = [no_record]\<rparr>"
  have "snd (coop_transient_apply (script_env 7) script_frame True 2 1 ?res (start_area, script_scene 0 20)) =
      call_game (SelectState 0 0) (script_scene 0 20)"
    by (rule empty_record_unreviewed [OF _ _ _ _ _ _ _ script _ slot])
      (simp_all add: m kind start_area_def script_frame_def)
  then show ?thesis by (simp add: call_game_def script_scene_def)
qed
end
