(* ===== verification/CoopMenu.thy ===== *)
theory CoopMenu
  imports CoopDriver
begin

text \<open>
  The file menu of co-op (\<^verbatim>\<open>single_slot_menu.h\<close>): the adventure file selector, the delete selector, their
  set-ups and the text they draw.  In co-op only the first file exists; otherwise the stock arrangement of
  file 1, file 2, delete and file 3 stays.  The theorem follows the menu over any sequence of visits to the
  two screens: the file it hands on is always one the arrangement has.
\<close>

section \<open>State\<close>

type_synonym s32 = "32 word"

text \<open>
  The fields of \<^verbatim>\<open>MenuAdditionalActorData\<close> the code reads or writes: the two animation times, the page
  asked for (\<open>unk13\<close>), its progress (\<open>unk16\<close>) and the selected entry (\<open>unk17\<close>).
\<close>

record MenuAdditionalActorData =
  unk0 :: c_float
  unk4 :: c_float
  unk13 :: s8
  unk16 :: s8
  unk17 :: s8

text \<open>Icon tables of the game, and what the menu asks of the game.\<close>

datatype menu_icon = D_global_asm_80720C34 | D_global_asm_8072052C | D_global_asm_807204BC | D_global_asm_80720CF0
  | D_global_asm_80720D14

record icon_request =
  icon :: menu_icon
  icon_x :: int
  icon_y :: int
  icon_scale :: rat
  icon_kind :: u8
  icon_mode :: int

text \<open>
  \<open>chosen_file\<close> is \<^verbatim>\<open>D_menu_80033F48\<close>, the file the next page works on; \<open>all_files_used\<close> is
  \<^verbatim>\<open>D_menu_80033F38\<close>, cleared when an empty file is shown.
\<close>

record menu_game =
  menu :: MenuAdditionalActorData
  chosen_file :: s8
  all_files_used :: s8
  current_file_selection :: s8
  icons :: "icon_request list"
  sounds :: "int list"

text \<open>
  The stock menu code: moving the selection for an input (\<^verbatim>\<open>func_menu_8002FD38\<close>), the two animation steps
  (\<^verbatim>\<open>func_menu_8002FE08\<close>, \<^verbatim>\<open>func_menu_8002FC1C\<close>), what adding an icon does to the menu
  (\<^verbatim>\<open>func_menu_80030894\<close>), and whether a file is empty (\<^verbatim>\<open>func_menu_800322D0\<close>).
\<close>

record menu_stock =
  navigate :: "MenuAdditionalActorData \<Rightarrow> u32 \<Rightarrow> s32 \<Rightarrow> MenuAdditionalActorData"
  settle :: "MenuAdditionalActorData \<Rightarrow> u32 \<Rightarrow> MenuAdditionalActorData"
  animate :: "MenuAdditionalActorData \<Rightarrow> MenuAdditionalActorData"
  place_icon :: "MenuAdditionalActorData \<Rightarrow> icon_request \<Rightarrow> MenuAdditionalActorData"
  file_empty :: "int \<Rightarrow> bool"

section \<open>The code\<close>

definition coop_single_file_menu :: "u32 \<Rightarrow> u32" where
  "coop_single_file_menu r = (if r = ROLE_HOST \<or> r = ROLE_JOIN then 1 else 0)"

definition is_zero :: "c_float \<Rightarrow> bool" where
  "is_zero x \<longleftrightarrow> x = Fin 0"

definition play :: "int \<Rightarrow> menu_game \<Rightarrow> menu_game" where
  "play n g = g\<lparr>sounds := sounds g @ [n]\<rparr>"

definition set_page :: "s8 \<Rightarrow> menu_game \<Rightarrow> menu_game" where
  "set_page p g = g\<lparr>menu := (menu g)\<lparr>unk16 := 0, unk13 := p\<rparr>\<rparr>"

text \<open>The adventure file selector.\<close>

definition select_file :: "u32 \<Rightarrow> menu_game \<Rightarrow> menu_game" where
  "select_file single g =
     (let g = play 0x2C9 g in
      if (ucast (unk17 (menu g)) :: u32) = coop_file_menu_delete_index single then set_page 4 g
      else set_page 3 (g\<lparr>chosen_file := ucast (coop_file_menu_file single (ucast (unk17 (menu g))))\<rparr>))"

definition func_menu_80028C20 :: "menu_stock \<Rightarrow> u32 \<Rightarrow> s32 \<Rightarrow> menu_game \<Rightarrow> menu_game" where
  "func_menu_80028C20 st r inp g =
     (let single = coop_single_file_menu r;
          g = (if is_zero (unk0 (menu g)) then
                 let g = (if is_zero (unk4 (menu g)) then
                            if inp AND 1 \<noteq> 0 then select_file single g
                            else if inp AND 2 \<noteq> 0 then set_page 1 (play 0x2C9 g)
                            else g\<lparr>menu := navigate st (menu g) (coop_file_menu_count single) inp\<rparr>
                          else g)
                 in g\<lparr>menu := settle st (menu g) (coop_file_menu_count single)\<rparr>
               else g)
      in g\<lparr>menu := animate st (menu g)\<rparr>)"

text \<open>The delete selector.\<close>

definition select_deletion :: "menu_stock \<Rightarrow> menu_game \<Rightarrow> menu_game" where
  "select_deletion st g =
     (if \<not> file_empty st (sint (unk17 (menu g)))
      then set_page 5 (g\<lparr>chosen_file := unk17 (menu g)\<rparr>)
      else play 0x98 g)"

definition func_menu_80029AAC :: "menu_stock \<Rightarrow> u32 \<Rightarrow> s32 \<Rightarrow> menu_game \<Rightarrow> menu_game" where
  "func_menu_80029AAC st r inp g =
     (let count = coop_delete_menu_count (coop_single_file_menu r);
          g = (if is_zero (unk0 (menu g)) then
                 let g = (if is_zero (unk4 (menu g)) then
                            if inp AND 1 \<noteq> 0 then select_deletion st g
                            else if inp AND 2 \<noteq> 0 then set_page 2 (play 0x2C9 g)
                            else g\<lparr>menu := navigate st (menu g) count inp\<rparr>
                          else g)
                 in g\<lparr>menu := settle st (menu g) count\<rparr>
               else g)
      in g\<lparr>menu := animate st (menu g)\<rparr>)"

text \<open>The set-ups of the two screens.\<close>

definition add_icon :: "menu_stock \<Rightarrow> menu_icon \<Rightarrow> int \<Rightarrow> int \<Rightarrow> rat \<Rightarrow> int \<Rightarrow> menu_game \<Rightarrow> menu_game" where
  "add_icon st i x y scale md g =
     (let req = \<lparr>icon = i, icon_x = x, icon_y = y, icon_scale = scale, icon_kind = 2, icon_mode = md\<rparr>
      in g\<lparr>menu := place_icon st (menu g) req, icons := icons g @ [req]\<rparr>)"

definition note_empty :: "menu_stock \<Rightarrow> int \<Rightarrow> menu_game \<Rightarrow> menu_game" where
  "note_empty st f g = (if file_empty st f then g\<lparr>all_files_used := 0\<rparr> else g)"

definition func_menu_80028EA8 :: "menu_stock \<Rightarrow> u32 \<Rightarrow> menu_game \<Rightarrow> menu_game" where
  "func_menu_80028EA8 st r g =
     (let single = coop_single_file_menu r;
          g = g\<lparr>menu := (menu g)\<lparr>unk17 := (if single \<noteq> 0 then 0 else current_file_selection g)\<rparr>\<rparr>;
          g = add_icon st D_global_asm_80720C34 0xA0 0x78 (3/4) 4 g;
          g = add_icon st D_global_asm_8072052C 0 0 1 2 (note_empty st 0 g);
          g = (if single = 0 then
                 add_icon st D_global_asm_8072052C 3 0 1 2 (note_empty st 2
                   (add_icon st D_global_asm_8072052C 1 0 1 2 (note_empty st 1 g)))
               else g);
          g = add_icon st D_global_asm_807204BC (uint (coop_file_menu_delete_index single)) 0 1 2 g;
          g = add_icon st D_global_asm_80720CF0 0x122 0xD2 (3/4) 0 g
      in add_icon st D_global_asm_80720D14 0x23 0xD2 (3/4) 0 g)"

definition func_menu_80029D30 :: "menu_stock \<Rightarrow> u32 \<Rightarrow> menu_game \<Rightarrow> menu_game" where
  "func_menu_80029D30 st r g =
     (let single = coop_single_file_menu r;
          g = g\<lparr>menu := (menu g)\<lparr>unk17 := 0\<rparr>\<rparr>;
          g = add_icon st D_global_asm_80720CF0 0x122 0xD2 (3/4) 0 g;
          g = add_icon st D_global_asm_80720D14 0x23 0xD2 (3/4) 0 g;
          g = add_icon st D_global_asm_8072052C 0 0 1 3 (note_empty st 0 g);
          g = (if single = 0 then
                 add_icon st D_global_asm_8072052C 2 0 1 3 (note_empty st 2
                   (add_icon st D_global_asm_8072052C 1 0 1 3 (note_empty st 1 g)))
               else g);
          g = add_icon st D_global_asm_807204BC 0xA0 0x78 1 4 g
      in add_icon st D_global_asm_80720C34 0xA0 0xD2 (3/4) 0 g)"

text \<open>
  What the screens print: a label of the game's table, or the numbered label with a file number, for the
  entry the stock carousel answers.
\<close>

datatype menu_text = Label nat | NumberedLabel nat s32

definition file_text :: "menu_stock \<Rightarrow> s32 \<Rightarrow> menu_text" where
  "file_text st f = (if file_empty st (sint f) then Label 6 else NumberedLabel 7 (f + 1))"

definition func_menu_80028D3C :: "menu_stock \<Rightarrow> u32 \<Rightarrow> s32 \<Rightarrow> menu_text" where
  "func_menu_80028D3C st r selection =
     (let single = coop_single_file_menu r
      in if selection = coop_file_menu_delete_index single then Label 5
         else file_text st (coop_file_menu_file single selection))"

definition func_menu_80029BB4 :: "menu_stock \<Rightarrow> s32 \<Rightarrow> menu_text list" where
  "func_menu_80029BB4 st f = [file_text st f, Label 8]"

text \<open>A visit of a screen: its set-up, then one frame for each input.\<close>

datatype visit = FileScreen "s32 list" | DeleteScreen "s32 list"

fun visit_screen :: "menu_stock \<Rightarrow> u32 \<Rightarrow> visit \<Rightarrow> menu_game \<Rightarrow> menu_game" where
  "visit_screen st r (FileScreen inputs) g =
     fold (func_menu_80028C20 st r) inputs (func_menu_80028EA8 st r g)"
| "visit_screen st r (DeleteScreen inputs) g =
     fold (func_menu_80029AAC st r) inputs (func_menu_80029D30 st r g)"

section \<open>The file handed on\<close>

text \<open>
  What the code relies on of the stock menu: moving the selection stays within the count it is given, and
  neither the animation steps nor an icon move it.
\<close>

definition stock_selection :: "menu_stock \<Rightarrow> bool" where
  "stock_selection st \<longleftrightarrow>
     (\<forall>m c inp. (ucast (unk17 m) :: u32) < c \<longrightarrow> (ucast (unk17 (navigate st m c inp)) :: u32) < c)
     \<and> (\<forall>m c. unk17 (settle st m c) = unk17 m) \<and> (\<forall>m. unk17 (animate st m) = unk17 m)
     \<and> (\<forall>m req. unk17 (place_icon st m req) = unk17 m)"

definition entry_ok :: "u32 \<Rightarrow> menu_game \<Rightarrow> bool" where
  "entry_ok cnt g \<longleftrightarrow> (ucast (unk17 (menu g)) :: u32) < cnt"

definition chosen_ok :: "u32 \<Rightarrow> menu_game \<Rightarrow> bool" where
  "chosen_ok r g \<longleftrightarrow> (ucast (chosen_file g) :: u32) < coop_delete_menu_count (coop_single_file_menu r)"

lemma add_icon_simps [simp]:
  "current_file_selection (add_icon st i x y k md g) = current_file_selection g"
  "chosen_file (add_icon st i x y k md g) = chosen_file g"
  by (simp_all add: add_icon_def Let_def)

lemma add_icon_entry [simp]: "stock_selection st \<Longrightarrow> unk17 (menu (add_icon st i x y k md g)) = unk17 (menu g)"
  by (simp add: add_icon_def Let_def stock_selection_def)

lemma note_empty_simps [simp]:
  "current_file_selection (note_empty st f g) = current_file_selection g"
  "chosen_file (note_empty st f g) = chosen_file g" "menu (note_empty st f g) = menu g"
  by (simp_all add: note_empty_def)

lemma setup_simps [simp]:
  "current_file_selection (func_menu_80028EA8 st r g) = current_file_selection g"
  "chosen_file (func_menu_80028EA8 st r g) = chosen_file g"
  "current_file_selection (func_menu_80029D30 st r g) = current_file_selection g"
  "chosen_file (func_menu_80029D30 st r g) = chosen_file g"
  by (simp_all add: func_menu_80028EA8_def func_menu_80029D30_def Let_def)

lemma setup_entry:
  assumes "stock_selection st"
  shows "unk17 (menu (func_menu_80028EA8 st r g)) = (if coop_single_file_menu r \<noteq> 0 then 0 else current_file_selection g)"
    and "unk17 (menu (func_menu_80029D30 st r g)) = 0"
  using assms by (simp_all add: func_menu_80028EA8_def func_menu_80029D30_def Let_def)

lemma ucast_small: "(w :: u32) < 3 \<Longrightarrow> (ucast (ucast w :: s8) :: u32) = w"
  using u32_below_4 [of w] by (auto simp: word_less_nat_alt)

lemma chosen_entry:
  assumes "(ucast (e :: s8) :: u32) < coop_file_menu_count k" "(ucast e :: u32) \<noteq> coop_file_menu_delete_index k"
  shows "(ucast (ucast (coop_file_menu_file k (ucast e)) :: s8) :: u32) < coop_delete_menu_count k"
proof -
  have b: "coop_file_menu_file k (ucast e) < coop_delete_menu_count k"
    using file_menu_entries [OF assms(1) assms(1) assms(2) assms(2)] by simp
  also have "\<dots> \<le> 3" by (simp add: coop_delete_menu_count_def)
  finally show ?thesis using b ucast_small by simp
qed

definition menu_inv :: "u32 \<Rightarrow> u32 \<Rightarrow> menu_game \<Rightarrow> bool" where
  "menu_inv r cnt g \<longleftrightarrow> entry_ok cnt g \<and> chosen_ok r g"

lemma menu_inv_update:
  "menu_inv r c (g\<lparr>menu := m\<rparr>) \<longleftrightarrow> (ucast (unk17 m) :: u32) < c \<and> chosen_ok r g"
  "chosen_ok r (g\<lparr>menu := m\<rparr>) \<longleftrightarrow> chosen_ok r g"
  "menu_inv r c (set_page p g) \<longleftrightarrow> menu_inv r c g" "menu_inv r c (play n g) \<longleftrightarrow> menu_inv r c g"
  by (auto simp: menu_inv_def entry_ok_def chosen_ok_def set_page_def play_def)

lemma stock_steps:
  assumes "stock_selection st"
  shows "unk17 (settle st m k) = unk17 m" "unk17 (animate st m) = unk17 m"
    "(ucast (unk17 m) :: u32) < c \<Longrightarrow> (ucast (unk17 (navigate st m c inp)) :: u32) < c"
  using assms by (auto simp: stock_selection_def)

lemma select_file_inv:
  assumes "menu_inv r (coop_file_menu_count (coop_single_file_menu r)) g"
  shows "menu_inv r (coop_file_menu_count (coop_single_file_menu r)) (select_file (coop_single_file_menu r) g)"
  using assms chosen_entry
  by (auto simp: select_file_def Let_def menu_inv_def entry_ok_def chosen_ok_def set_page_def play_def)

lemma select_deletion_inv:
  assumes "menu_inv r (coop_delete_menu_count (coop_single_file_menu r)) g"
  shows "menu_inv r (coop_delete_menu_count (coop_single_file_menu r)) (select_deletion st g)"
  using assms by (auto simp: select_deletion_def menu_inv_def entry_ok_def chosen_ok_def set_page_def play_def)

lemma finish_frame:
  assumes "stock_selection st" "menu_inv r c g"
  shows "menu_inv r c (g\<lparr>menu := animate st (menu g)\<rparr>)"
    "menu_inv r c (g\<lparr>menu := animate st (settle st (menu g) k)\<rparr>)"
    "menu_inv r c (g\<lparr>menu := animate st (settle st (navigate st (menu g) c inp) k)\<rparr>)"
  using assms(2) by (simp_all add: menu_inv_update stock_steps(1,2) [OF assms(1)])
    (auto simp: menu_inv_def entry_ok_def intro!: stock_steps(3) [OF assms(1)])

lemma frame_inv:
  assumes "stock_selection st"
  shows "menu_inv r (coop_file_menu_count (coop_single_file_menu r)) g
      \<Longrightarrow> menu_inv r (coop_file_menu_count (coop_single_file_menu r)) (func_menu_80028C20 st r inp g)"
    and "menu_inv r (coop_delete_menu_count (coop_single_file_menu r)) g
      \<Longrightarrow> menu_inv r (coop_delete_menu_count (coop_single_file_menu r)) (func_menu_80029AAC st r inp g)"
  by (auto simp: func_menu_80028C20_def Let_def menu_inv_update(3,4)
      intro!: finish_frame [OF assms] select_file_inv)
    (auto simp: func_menu_80029AAC_def Let_def menu_inv_update(3,4)
      intro!: finish_frame [OF assms] select_deletion_inv)

lemma fold_inv: "(\<And>x s. P s \<Longrightarrow> P (f x s)) \<Longrightarrow> P s \<Longrightarrow> P (fold f xs s)"
  by (induction xs arbitrary: s) auto

lemma frame_selection [simp]:
  "current_file_selection (func_menu_80028C20 st r inp g) = current_file_selection g"
  "current_file_selection (func_menu_80029AAC st r inp g) = current_file_selection g"
  by (simp_all add: func_menu_80028C20_def func_menu_80029AAC_def select_file_def select_deletion_def set_page_def
      play_def Let_def)

lemma visit_selection: "current_file_selection (visit_screen st r v g) = current_file_selection g"
proof (cases v)
  case (FileScreen xs)
  have "current_file_selection (fold (func_menu_80028C20 st r) xs h) = current_file_selection h" for h
    by (induction xs arbitrary: h) simp_all
  then show ?thesis using FileScreen by simp
next
  case (DeleteScreen xs)
  have "current_file_selection (fold (func_menu_80029AAC st r) xs h) = current_file_selection h" for h
    by (induction xs arbitrary: h) simp_all
  then show ?thesis using DeleteScreen by simp
qed

lemma visit_chosen:
  assumes st: "stock_selection st" and sel: "(ucast (current_file_selection g) :: u32) < 4" and "chosen_ok r g"
  shows "chosen_ok r (visit_screen st r v g)"
proof (cases v)
  case (FileScreen xs)
  have "menu_inv r (coop_file_menu_count (coop_single_file_menu r)) (func_menu_80028EA8 st r g)"
    using assms by (simp add: menu_inv_def entry_ok_def setup_entry coop_file_menu_count_def chosen_ok_def)
  then have "menu_inv r (coop_file_menu_count (coop_single_file_menu r)) (visit_screen st r v g)"
    using frame_inv(1) [OF st] by (simp add: FileScreen fold_inv)
  then show ?thesis by (simp add: menu_inv_def)
next
  case (DeleteScreen xs)
  have "menu_inv r (coop_delete_menu_count (coop_single_file_menu r)) (func_menu_80029D30 st r g)"
    using assms by (simp add: menu_inv_def entry_ok_def setup_entry coop_delete_menu_count_def chosen_ok_def)
  then have "menu_inv r (coop_delete_menu_count (coop_single_file_menu r)) (visit_screen st r v g)"
    using frame_inv(2) [OF st] by (simp add: DeleteScreen fold_inv)
  then show ?thesis by (simp add: menu_inv_def)
qed


definition sample_stock :: menu_stock where
  "sample_stock = \<lparr>navigate = (\<lambda>m c inp. m\<lparr>unk17 := (if (ucast (unk17 m) :: u32) + 1 < c then unk17 m + 1 else 0)\<rparr>),
     settle = (\<lambda>m c. m), animate = (\<lambda>m. m), place_icon = (\<lambda>m req. m), file_empty = (\<lambda>f. f \<noteq> 0)\<rparr>"

definition sample_menu :: menu_game where
  "sample_menu = \<lparr>menu = \<lparr>unk0 = Fin 0, unk4 = Fin 0, unk13 = 0, unk16 = 0, unk17 = 3\<rparr>, chosen_file = 0,
     all_files_used = 1, current_file_selection = 3, icons = [], sounds = []\<rparr>"

lemma sample_stock_selection: "stock_selection sample_stock"
proof -
  have "(ucast ((w :: s8) + 1) :: u32) < c" if "(ucast w :: u32) + 1 < c" for w c
  proof -
    have "unat w < 256" by (rule u8_less)
    then have "unat (ucast (w + 1) :: u32) \<le> unat ((ucast w :: u32) + 1)"
      by (cases "unat w = 255") (simp_all add: unat_word_ariths unsigned_ucast_eq take_bit_eq_mod)
    then show ?thesis using that by (simp add: word_less_nat_alt)
  qed
  moreover have "0 < (c :: u32)" if "(ucast (w :: s8) :: u32) < c" for w c
    using that by (simp add: word_less_nat_alt)
  ultimately show ?thesis by (simp add: stock_selection_def sample_stock_def)
qed


end
