(* ===== verification/CoopCombat.thy ===== *)
theory CoopCombat
  imports CoopDriver
begin

text \<open>
  Shared combat, the words of the wire (\<^verbatim>\<open>combat_types.h\<close>): enemies, shots and bosses as records of 32-bit
  words, the packing of facing, health and pose, the maps that take part, and the two tests that decide
  whether a command of the peer fits an enemy.  The lemmas give the round trips of the packing and what a
  fitting command must be.
\<close>

section \<open>Records\<close>

abbreviation (input) "COOP_ENEMIES \<equiv> 20 :: nat"
abbreviation (input) "COOP_SHOTS \<equiv> 8 :: nat"
abbreviation (input) "COOP_ENEMY_KEYS \<equiv> 256 :: nat"

abbreviation (input) "COOP_ENEMY_ABSENT \<equiv> 0 :: u32"
abbreviation (input) "COOP_ENEMY_ALIVE \<equiv> 1 :: u32"
abbreviation (input) "COOP_ENEMY_DEFEATED \<equiv> 2 :: u32"

abbreviation (input) "COOP_COMBAT_READY \<equiv> 3 :: u32"

text \<open>The wire numbers of the enemies, in the order of the local table, and of the bosses.\<close>

abbreviation (input) "COOP_ENEMY_KIND_COUNT \<equiv> 34 :: nat"
abbreviation (input) "COOP_KASPLAT_DK \<equiv> 12 :: u32"
abbreviation (input) "COOP_KASPLAT_CHUNKY \<equiv> 16 :: u32"
abbreviation (input) "COOP_KABOOM \<equiv> 23 :: u32"
abbreviation (input) "COOP_KLOBBER \<equiv> 24 :: u32"
abbreviation (input) "COOP_PUFFTUP \<equiv> 25 :: u32"
abbreviation (input) "COOP_MR_DICE_0 \<equiv> 27 :: u32"
abbreviation (input) "COOP_MR_DICE_1 \<equiv> 29 :: u32"
abbreviation (input) "COOP_FIREBALL_WITH_GLASSES \<equiv> 31 :: u32"
abbreviation (input) "COOP_RULER \<equiv> 32 :: u32"
abbreviation (input) "COOP_BOOK \<equiv> 33 :: u32"
abbreviation (input) "COOP_TOY_MONSTER \<equiv> 34 :: u32"

abbreviation (input) "COOP_BOSS_NONE \<equiv> 0 :: u32"
abbreviation (input) "COOP_BOSS_ARMY_DILLO \<equiv> 1 :: u32"
abbreviation (input) "COOP_BOSS_DOGADON \<equiv> 2 :: u32"
abbreviation (input) "COOP_BOSS_MAD_JACK \<equiv> 3 :: u32"
abbreviation (input) "COOP_BOSS_PUFFTOSS \<equiv> 4 :: u32"
abbreviation (input) "COOP_BOSS_KING_KUT_OUT \<equiv> 5 :: u32"
abbreviation (input) "COOP_BOSS_K_ROOL_DK \<equiv> 6 :: u32"
abbreviation (input) "COOP_BOSS_K_ROOL_DIDDY \<equiv> 7 :: u32"
abbreviation (input) "COOP_BOSS_K_ROOL_LANKY \<equiv> 8 :: u32"
abbreviation (input) "COOP_BOSS_K_ROOL_TINY \<equiv> 9 :: u32"
abbreviation (input) "COOP_BOSS_K_ROOL_CHUNKY \<equiv> 10 :: u32"
abbreviation (input) "COOP_BOSS_FUNGI_SPIDER \<equiv> 11 :: u32"

record CoopEnemy =
  key :: u32
  life :: u32
  enemy_state :: u32
  peer_life :: u32
  enemy_kind :: u32
  enemy_x :: u32
  enemy_y :: u32
  enemy_z :: u32
  yaw :: u32

record CoopShot =
  shot_id :: u32
  shot_kind :: u32
  shot_x :: u32
  shot_y :: u32
  shot_z :: u32
  shot_yaw :: u32
  shot_scale :: u32

record CoopBoss =
  boss_kind :: u32
  boss_life :: u32
  boss_peer_life :: u32
  phase :: u32

record CoopBossMotion =
  motion_kind :: u32
  motion_life :: u32
  motion_x :: u32
  motion_y :: u32
  motion_z :: u32
  motion_yaw :: u32
  motion_pose :: u32
  clip_hash :: u32

record CoopCombatFrame =
  frame_enabled :: u32
  frame_file :: u32
  layout :: u32
  hands :: u32
  enemies :: "CoopEnemy list"
  shots :: "CoopShot list"
  frame_boss :: CoopBoss
  page :: u32
  pages :: u32
  frame_motion :: CoopBossMotion

text \<open>Of the result, what the modelled code reads: the status, the enemy commands and the boss step.\<close>

record CoopCombatResult =
  combat_status :: u32
  commands :: "CoopEnemy list"
  boss_command :: CoopBoss

definition no_enemy :: CoopEnemy where
  "no_enemy = \<lparr>key = 0, life = 0, enemy_state = 0, peer_life = 0, enemy_kind = 0, enemy_x = 0, enemy_y = 0,
     enemy_z = 0, yaw = 0\<rparr>"

definition no_shot :: CoopShot where
  "no_shot = \<lparr>shot_id = 0, shot_kind = 0, shot_x = 0, shot_y = 0, shot_z = 0, shot_yaw = 0, shot_scale = 0\<rparr>"

definition no_boss :: CoopBoss where
  "no_boss = \<lparr>boss_kind = 0, boss_life = 0, boss_peer_life = 0, phase = 0\<rparr>"

definition no_motion :: CoopBossMotion where
  "no_motion = \<lparr>motion_kind = 0, motion_life = 0, motion_x = 0, motion_y = 0, motion_z = 0, motion_yaw = 0,
     motion_pose = 0, clip_hash = 0\<rparr>"

definition empty_frame :: CoopCombatFrame where
  "empty_frame = \<lparr>frame_enabled = 0, frame_file = 0, layout = 0, hands = 0, enemies = replicate COOP_ENEMIES no_enemy,
     shots = replicate COOP_SHOTS no_shot, frame_boss = no_boss, page = 0, pages = 0, frame_motion = no_motion\<rparr>"

section \<open>Packing\<close>

abbreviation (input) "COOP_ENEMY_YAW_MASK \<equiv> 0xFFF :: u32"
abbreviation (input) "COOP_ENEMY_HEALTH_MASK \<equiv> 0x7FFF :: u32"
abbreviation (input) "COOP_ENEMY_POSE_MASK \<equiv> 0x1F :: u32"
abbreviation (input) "COOP_ENEMY_LIFE_MASK \<equiv> 0x03FFFFFF :: u32"
abbreviation (input) "COOP_ENEMY_POSE_HASH_MASK \<equiv> 0x3F :: u32"
abbreviation (input) "COOP_ENEMY_PACK_MASK \<equiv>
  COOP_ENEMY_YAW_MASK OR push_bit 12 COOP_ENEMY_HEALTH_MASK OR push_bit 27 COOP_ENEMY_POSE_MASK"

definition coop_enemy_pack :: "u32 \<Rightarrow> u32 \<Rightarrow> u32" where
  "coop_enemy_pack y h = (y AND COOP_ENEMY_YAW_MASK) OR push_bit 12 (h AND COOP_ENEMY_HEALTH_MASK)"

definition coop_enemy_pack_pose :: "u32 \<Rightarrow> u32 \<Rightarrow> u32 \<Rightarrow> u32" where
  "coop_enemy_pack_pose y h p = coop_enemy_pack y h OR push_bit 27 (p AND COOP_ENEMY_POSE_MASK)"

definition coop_enemy_yaw :: "CoopEnemy \<Rightarrow> u32" where
  "coop_enemy_yaw e = yaw e AND COOP_ENEMY_YAW_MASK"

definition coop_enemy_health :: "CoopEnemy \<Rightarrow> u32" where
  "coop_enemy_health e = drop_bit 12 (yaw e) AND COOP_ENEMY_HEALTH_MASK"

definition coop_enemy_pose :: "CoopEnemy \<Rightarrow> u32" where
  "coop_enemy_pose e = drop_bit 27 (yaw e) AND COOP_ENEMY_POSE_MASK"

definition coop_enemy_peer_life :: "CoopEnemy \<Rightarrow> u32" where
  "coop_enemy_peer_life e = peer_life e AND COOP_ENEMY_LIFE_MASK"

definition coop_enemy_pose_hash :: "CoopEnemy \<Rightarrow> u32" where
  "coop_enemy_pose_hash e = drop_bit 26 (peer_life e) AND COOP_ENEMY_POSE_HASH_MASK"

definition coop_enemy_clip_hash :: "u32 \<Rightarrow> u32" where
  "coop_enemy_clip_hash clip = (clip XOR drop_bit 6 clip XOR drop_bit 12 clip) AND COOP_ENEMY_POSE_HASH_MASK"

text \<open>
  The pose number of an animation frame.  \<open>rnd\<close> is the rounding of single precision, applied after each
  operation as the hardware does; the cast truncates.
\<close>

definition coop_enemy_pose_encode :: "(rat \<Rightarrow> rat) \<Rightarrow> c_float \<Rightarrow> u32 \<Rightarrow> u32" where
  "coop_enemy_pose_encode rnd frame cnt =
     (if \<not> (float_le (Fin 0) frame \<and> float_le frame (Fin 254)) \<or> cnt = 0 \<or> 255 < cnt then 0
      else if cnt = 1 then 1
      else case frame of
        Fin f \<Rightarrow>
          let top = of_int (uint (cnt - 1));
              f = (if f > top then top else f);
              steps = \<lfloor>rnd (rnd (rnd (f * 30) / top) + 1 / 2)\<rfloor>
          in 1 + (if steps > 30 then 30 else word_of_int steps)
      | _ \<Rightarrow> 0)"

section \<open>Maps\<close>

definition coop_boss_kind :: "u32 \<Rightarrow> u32" where
  "coop_boss_kind mp =
     (if mp = 8 \<or> mp = 196 then COOP_BOSS_ARMY_DILLO
      else if mp = 83 \<or> mp = 197 then COOP_BOSS_DOGADON
      else if mp = 154 then COOP_BOSS_MAD_JACK
      else if mp = 111 then COOP_BOSS_PUFFTOSS
      else if mp = 199 then COOP_BOSS_KING_KUT_OUT
      else if mp = 203 then COOP_BOSS_K_ROOL_DK
      else if mp = 204 then COOP_BOSS_K_ROOL_DIDDY
      else if mp = 205 then COOP_BOSS_K_ROOL_LANKY
      else if mp = 214 then COOP_BOSS_K_ROOL_TINY
      else if mp = 207 then COOP_BOSS_K_ROOL_CHUNKY
      else if mp = 60 then COOP_BOSS_FUNGI_SPIDER
      else COOP_BOSS_NONE)"

section \<open>Commands\<close>

definition coop_combat_apply_matches ::
  "CoopEnemy \<Rightarrow> u32 \<Rightarrow> u32 \<Rightarrow> bool \<Rightarrow> bool \<Rightarrow> bool \<Rightarrow> bool \<Rightarrow> bool" where
  "coop_combat_apply_matches command k l initialized alive supported context_ready \<longleftrightarrow>
     context_ready \<and> initialized \<and> alive \<and> supported \<and> k \<noteq> 0 \<and> l \<noteq> 0
     \<and> key command = k \<and> life command = l \<and> enemy_state command = COOP_ENEMY_DEFEATED
     \<and> enemy_x command = 0 \<and> enemy_y command = 0 \<and> enemy_z command = 0 \<and> yaw command = 0"

definition coop_combat_health_matches ::
  "CoopEnemy \<Rightarrow> u32 \<Rightarrow> u32 \<Rightarrow> bool \<Rightarrow> bool \<Rightarrow> bool \<Rightarrow> bool \<Rightarrow> u32 \<Rightarrow> bool" where
  "coop_combat_health_matches command k l initialized alive supported context_ready current_health \<longleftrightarrow>
     context_ready \<and> initialized \<and> alive \<and> supported \<and> k \<noteq> 0 \<and> l \<noteq> 0
     \<and> key command = k \<and> life command = l \<and> enemy_state command = COOP_ENEMY_ALIVE
     \<and> enemy_x command = 0 \<and> enemy_y command = 0 \<and> enemy_z command = 0
     \<and> yaw command AND NOT COOP_ENEMY_PACK_MASK = 0 \<and> coop_enemy_yaw command = 0 \<and> coop_enemy_pose command = 0
     \<and> coop_enemy_health command \<noteq> 0 \<and> coop_enemy_health command < current_health"

section \<open>Round trips\<close>

lemma combat_masks:
  "w AND 0xFFF = take_bit 12 (w :: u32)" "w AND 0x7FFF = take_bit 15 w" "w AND 0x1F = take_bit 5 w"
  "w AND 0x3F = take_bit 6 w" "w AND 0x03FFFFFF = take_bit 26 w"
  by (simp_all add: take_bit_eq_mask mask_eq_exp_minus_1)

lemma pack_pose_bits:
  "bit (coop_enemy_pack_pose y h p) n \<longleftrightarrow>
     (if n < 12 then bit y n else if n < 27 then bit h (n - 12) else n < 32 \<and> bit p (n - 27))"
  by (auto simp: coop_enemy_pack_pose_def coop_enemy_pack_def combat_masks bit_simps)

lemma unpack_pack:
  assumes "yaw e = coop_enemy_pack_pose y h p"
  shows "coop_enemy_yaw e = take_bit 12 y" "coop_enemy_health e = take_bit 15 h" "coop_enemy_pose e = take_bit 5 p"
  unfolding coop_enemy_yaw_def coop_enemy_health_def coop_enemy_pose_def combat_masks assms
  by (rule bit_word_eqI, auto simp: bit_simps pack_pose_bits)+

lemma unpack_hash:
  assumes "peer_life e = push_bit 26 (coop_enemy_clip_hash c)"
  shows "coop_enemy_pose_hash e = coop_enemy_clip_hash c" "coop_enemy_peer_life e = 0"
  unfolding coop_enemy_pose_hash_def coop_enemy_peer_life_def coop_enemy_clip_hash_def combat_masks assms
  by (rule bit_word_eqI, auto simp: bit_simps)+

lemma pose_encode_below:
  assumes "\<And>x. 0 \<le> x \<Longrightarrow> 0 \<le> rnd x"
  shows "coop_enemy_pose_encode rnd frame cnt < 32"
proof (cases "float_le (Fin 0) frame \<and> float_le frame (Fin 254) \<and> cnt \<noteq> 0 \<and> \<not> 255 < cnt \<and> cnt \<noteq> 1")
  case True
  then obtain f where f: "frame = Fin f" "0 \<le> f" by (cases frame) auto
  define top where "top = (of_int (uint (cnt - 1)) :: rat)"
  define f2 where "f2 = (if f > top then top else f)"
  define steps where "steps = \<lfloor>rnd (rnd (rnd (f2 * 30) / top) + 1 / 2)\<rfloor>"
  have "0 \<le> uint (cnt - 1)" by simp
  then have "0 \<le> top" by (simp only: top_def of_int_0_le_iff)
  then have "0 \<le> f2" using f(2) by (simp add: f2_def)
  then have "0 \<le> rnd (rnd (rnd (f2 * 30) / top) + 1 / 2)" using \<open>0 \<le> top\<close> by (intro assms add_nonneg_nonneg divide_nonneg_nonneg) auto
  then have pos: "0 \<le> steps" by (simp add: steps_def)
  have "coop_enemy_pose_encode rnd frame cnt = 1 + (if steps > 30 then 30 else word_of_int steps)"
    using True f(1) by (simp add: coop_enemy_pose_encode_def Let_def steps_def f2_def top_def)
  also have "\<dots> = word_of_int (1 + min 30 steps)" by (simp add: min_def)
  finally have "coop_enemy_pose_encode rnd frame cnt = word_of_int (1 + min 30 steps)" .
  moreover have "uint (word_of_int (1 + min 30 steps) :: u32) = 1 + min 30 steps"
    using pos unfolding uint_word_of_int_eq by (intro take_bit_int_eq_self) auto
  ultimately show ?thesis by (simp add: word_less_def)
qed (auto simp: coop_enemy_pose_encode_def)

lemma take_bit_below: "unat (w :: u32) < 2 ^ n \<Longrightarrow> take_bit n w = w"
  by (rule word_unat_eq_iff [THEN iffD2]) (simp add: unsigned_take_bit_eq take_bit_nat_eq_self)

text \<open>
  C37: the words an enemy is published in can be read back exactly: the facing up to a full turn, a positive
  health, the pose number of its animation (always within five bits) and the hash of its clip, which leaves
  the life the record is bound to at zero.
\<close>

theorem enemy_words_roundtrip:
  assumes "\<And>x. 0 \<le> x \<Longrightarrow> 0 \<le> rnd x" and "0 < sint (health :: 16 word)"
    and "yaw e = coop_enemy_pack_pose y (scast health) (coop_enemy_pose_encode rnd frame cnt)"
    and "peer_life e = push_bit 26 (coop_enemy_clip_hash clip)"
  shows "unat (coop_enemy_yaw e) = unat y mod 4096 \<and> uint (coop_enemy_health e) = sint health
    \<and> coop_enemy_pose e = coop_enemy_pose_encode rnd frame cnt
    \<and> coop_enemy_pose_hash e = coop_enemy_clip_hash clip \<and> coop_enemy_peer_life e = 0"
proof -
  have p: "unat (coop_enemy_pose_encode rnd frame cnt) < 2 ^ 5"
    using pose_encode_below [of rnd frame cnt, OF assms(1)] by (simp add: word_less_nat_alt)
  have s: "sint health < 2 ^ 15" using sint_lt [of health] by simp
  have h2: "uint (scast health :: u32) = sint health"
    using assms(2) s unfolding scast_eq uint_word_of_int_eq by (intro take_bit_int_eq_self) simp_all
  have h: "unat (scast health :: u32) < 2 ^ 15"
    using s unfolding unat_eq_nat_uint h2 by (simp only: nat_less_numeral_power_cancel_iff)
  have "unat (coop_enemy_yaw e) = unat y mod 4096"
    unfolding unpack_pack(1) [OF assms(3)] by (simp only: unsigned_take_bit_eq) (simp add: take_bit_eq_mod)
  moreover have "uint (coop_enemy_health e) = sint health"
    unfolding unpack_pack(2) [OF assms(3)] take_bit_below [OF h] by (rule h2)
  moreover have "coop_enemy_pose e = coop_enemy_pose_encode rnd frame cnt"
    unfolding unpack_pack(3) [OF assms(3)] by (rule take_bit_below [OF p])
  ultimately show ?thesis using unpack_hash [OF assms(4)] by blast
qed

lemma enemy_words_roundtrip_witness:
  "uint (coop_enemy_health (no_enemy\<lparr>peer_life := push_bit 26 (coop_enemy_clip_hash 0x123),
      yaw := coop_enemy_pack_pose 0x1234 (scast (6 :: 16 word)) (coop_enemy_pose_encode id (Fin 5) 11)\<rparr>)) = 6
   \<and> coop_enemy_pose_encode id (Fin 5) 11 = 16"
proof -
  have "\<lfloor>31 / 2 :: rat\<rfloor> = 15" by (simp add: floor_eq_iff)
  then have "coop_enemy_pose_encode id (Fin 5) 11 = 16" by (simp add: coop_enemy_pose_encode_def Let_def)
  then show ?thesis
    using enemy_words_roundtrip [of id 6 "no_enemy\<lparr>peer_life := push_bit 26 (coop_enemy_clip_hash 0x123),
        yaw := coop_enemy_pack_pose 0x1234 (scast (6 :: 16 word)) (coop_enemy_pose_encode id (Fin 5) 11)\<rparr>"
        "0x1234" "Fin 5" 11 "0x123"] by simp
qed

end
