(* ===== verification/CoopEnemies.thy ===== *)
theory CoopEnemies
  imports CoopCombat
begin

text \<open>
  Shared combat, the state of the mod and of the fighting game, and the behaviour of an ordinary enemy
  (\<^verbatim>\<open>combat_actor.h\<close>): before the stock behaviour runs, a command of the peer may lower the enemy's
  health or send it into its own defeat; afterwards a defeat with a known cause is noted in its slot.
  The theorems bound what a command can do and say which defeats are noted.
\<close>

section \<open>Actors\<close>

text \<open>Actor types the tables name; their numbers are the game's.\<close>

datatype combat_type =
  ACTOR_BEAVER_BLUE | ACTOR_BEAVER_GOLD | ACTOR_KREMLING | ACTOR_KLUMP | ACTOR_MUSHROOM_MAN | ACTOR_ROBO_KREMLING
| ACTOR_KOSHA | ACTOR_ZINGER_0 | ACTOR_ZINGER_1 | ACTOR_ROBO_ZINGER | ACTOR_BAT | ACTOR_KASPLAT_DK
| ACTOR_KASPLAT_DIDDY | ACTOR_KASPLAT_LANKY | ACTOR_KASPLAT_TINY | ACTOR_KASPLAT_CHUNKY | ACTOR_SHURI
| ACTOR_GIMPFISH | ACTOR_KLAPTRAP_GREEN | ACTOR_KLAPTRAP_PURPLE | ACTOR_KLAPTRAP_RED | ACTOR_KROSSBONES
| ACTOR_KABOOM | ACTOR_KLOBBER | ACTOR_PUFFTUP_0 | ACTOR_KRITTER_IN_A_SHEET | ACTOR_MR_DICE_0 | ACTOR_SIR_DOMINO
| ACTOR_MR_DICE_1 | ACTOR_SPIDERLING | ACTOR_FIREBALL_WITH_GLASSES | ACTOR_RULER | ACTOR_BOOK | ACTOR_TOY_MONSTER
| ACTOR_BOSS_ARMY_DILLO | ACTOR_BOSS_DOGADON | ACTOR_BOSS_MAD_JACK | ACTOR_BOSS_PUFFTOSS | ACTOR_BOSS_KUTOUT_TAG
| ACTOR_BOSS_KROOL_DK | ACTOR_BOSS_KROOL_DIDDY | ACTOR_BOSS_KROOL_LANKY | ACTOR_BOSS_KROOL_FOOT
| ACTOR_BOSS_KROOL_CHUNKY | ACTOR_BOSS_SPIDER
| ACTOR_PROJECTILE_COCONUTS | ACTOR_PROJECTILE_PEANUT | ACTOR_PROJECTILE_GRAPE | ACTOR_PROJECTILE_FEATHER
| ACTOR_PROJECTILE_PINEAPPLE | ACTOR_PROJECTILE_ORANGE
| ACTOR_PUSHABLE_BOX | OTHER_ACTOR nat

text \<open>
  The function of an actor type in the game's behaviour table: the stock one of a type, one of the mod's
  two wrappers, or another mod's.
\<close>

datatype behaviour = StockBehaviour combat_type | combat_enemy_wrapper | coop_boss_wrapper | ForeignBehaviour nat

text \<open>
  The animation track of an actor: the frames of its clip (\<^verbatim>\<open>unk0->unk12\<close>) when the clip is loaded, the
  clip's number (\<^verbatim>\<open>unk10\<close>) and the current frame (\<^verbatim>\<open>unk4\<close>).
\<close>

record combat_track =
  clip_frames :: "u32 option"
  clip_number :: int
  clip_frame :: c_float

text \<open>
  An actor: its type \<^verbatim>\<open>unk58\<close>, generation \<^verbatim>\<open>unk54\<close>, \<^verbatim>\<open>object_properties_bitfield\<close>, position words, rotation,
  the actor it belongs to (\<^verbatim>\<open>unk11C\<close>), the word \<^verbatim>\<open>unk138\<close> and the scale of its sprite as a word.
  Private boss data (\<^verbatim>\<open>unk178\<close>) are the bytes at offset 0x12 to 0x15, if present.
\<close>

record boss_bytes =
  byte12 :: u8
  byte13 :: u8
  byte14 :: u8
  byte15 :: u8

record combat_actor =
  actor_type :: combat_type
  actor_generation :: u32
  actor_properties :: u32
  actor_health :: "16 word"
  actor_control :: u8
  actor_progress :: u8
  actor_x :: u32
  actor_y :: u32
  actor_z :: u32
  y_rotation :: "16 word"
  second_rotation :: "16 word"
  actor_owner :: nat
  actor_138 :: u32
  sprite_scale :: u32
  actor_track :: "combat_track option"
  boss_data :: "boss_bytes option"

section \<open>The mod's state\<close>

text \<open>Pointers are addresses, with \<^verbatim>\<open>NULL\<close> the address 0.\<close>

record CoopEnemySlot =
  slot_actor :: nat
  slot_generation :: u32
  slot_life :: u32
  defeated :: u32
  slot_kind :: u32
  pose_peer_life :: u32
  pose_stamp :: u32

record CoopShotSlot =
  shot_actor :: nat
  retiring :: nat
  shot_generation :: u32
  retiring_generation :: u32
  shot_slot_id :: u32
  shot_slot_kind :: u32

record CoopLocalShotSlot =
  local_shot :: CoopShot
  missed :: u32

record CoopBossSlot =
  boss_actor :: nat
  boss_generation :: u32
  boss_slot_life :: u32
  boss_phase :: u32
  boss_slot_kind :: u32
  boss_stamp :: u32

record spawner_init =
  enemy_value :: u8
  x_pos :: "16 word"
  y_pos :: "16 word"
  z_pos :: "16 word"

datatype combat_call = DeleteCombatActor nat | SetDefeatFlag int | ReportModified

text \<open>
  \<open>registry\<close> is \<^verbatim>\<open>D_global_asm_807FB930\<close> up to its count, \<open>actor_at\<close> the actors behind the addresses,
  \<open>behaviours\<close> the table \<^verbatim>\<open>D_global_asm_8074C0A0\<close>.  The spawner table \<^verbatim>\<open>D_807FDC88\<close> is its count, its address and
  for each spawner the tied actor and the fields of the file.  \<open>collision\<close> and \<open>collision_source\<close> are
  \<^verbatim>\<open>unk200\<close> and \<^verbatim>\<open>unk1FC\<close> of \<^verbatim>\<open>D_global_asm_807FBB70\<close>; \<open>spawner_byte\<close> is byte 0xA of the current spawner, \<open>spider_hit\<close>
  is \<^verbatim>\<open>D_global_asm_807FBD70\<close>.
\<close>

record combat =
  registry :: "nat list"
  actor_at :: "nat \<Rightarrow> combat_actor"
  behaviours :: "combat_type \<Rightarrow> behaviour"
  spawner_count :: "16 word"
  spawner_first :: nat
  tied_actor :: "nat list"
  spawner_inits :: "spawner_init list"
  collision :: u8
  collision_source :: nat
  spawner_byte :: u8
  spider_hit :: u8
  combat_calls :: "combat_call list"
  combat_enemies :: "CoopEnemySlot list"
  combat_shots :: "CoopShotSlot list"
  combat_local_shots :: "CoopLocalShotSlot list"
  combat_boss :: CoopBossSlot
  combat_layout :: u32
  combat_file :: u32
  combat_file_changed :: u32
  combat_hooks :: u32
  combat_capture_page :: u32
  combat_life_counter :: u32
  combat_spawner_table :: nat
  combat_map :: u32
  enemy_behaviors :: "behaviour list"
  boss_behaviors :: "behaviour option list"
  boss_hooks :: u32
  combat_input :: CoopCombatFrame
  combat_result :: CoopCombatResult

text \<open>
  What a frame finds: the setting, the map, the game's mode and flags, the player, and the numbers of the
  actor types, which the game's headers fix.  \<open>rounding\<close> is that of single precision.
\<close>

record combat_env =
  combat_enabled :: u32
  fight_map :: u32
  adventure :: bool
  global_bits :: u32
  in_transition :: bool
  in_cutscene :: bool
  fight_file :: u8
  player_pointer :: nat
  character :: u8
  player_hands :: u16
  type_number :: "combat_type \<Rightarrow> u32"
  rounding :: "rat \<Rightarrow> rat"

definition no_slot :: CoopEnemySlot where
  "no_slot = \<lparr>slot_actor = 0, slot_generation = 0, slot_life = 0, defeated = 0, slot_kind = 0, pose_peer_life = 0,
     pose_stamp = 0\<rparr>"

definition set_actor :: "nat \<Rightarrow> combat_actor \<Rightarrow> combat \<Rightarrow> combat" where
  "set_actor p a s = s\<lparr>actor_at := (actor_at s)(p := a)\<rparr>"

section \<open>Tables\<close>

definition combat_enemy_types :: "combat_type list" where
  "combat_enemy_types = [
   ACTOR_BEAVER_BLUE, ACTOR_BEAVER_GOLD, ACTOR_KREMLING, ACTOR_KLUMP, ACTOR_MUSHROOM_MAN, ACTOR_ROBO_KREMLING,
   ACTOR_KOSHA, ACTOR_ZINGER_0, ACTOR_ZINGER_1, ACTOR_ROBO_ZINGER, ACTOR_BAT, ACTOR_KASPLAT_DK,
   ACTOR_KASPLAT_DIDDY, ACTOR_KASPLAT_LANKY, ACTOR_KASPLAT_TINY, ACTOR_KASPLAT_CHUNKY, ACTOR_SHURI,
   ACTOR_GIMPFISH, ACTOR_KLAPTRAP_GREEN, ACTOR_KLAPTRAP_PURPLE, ACTOR_KLAPTRAP_RED, ACTOR_KROSSBONES,
   ACTOR_KABOOM, ACTOR_KLOBBER, ACTOR_PUFFTUP_0, ACTOR_KRITTER_IN_A_SHEET, ACTOR_MR_DICE_0, ACTOR_SIR_DOMINO,
   ACTOR_MR_DICE_1, ACTOR_SPIDERLING, ACTOR_FIREBALL_WITH_GLASSES, ACTOR_RULER, ACTOR_BOOK, ACTOR_TOY_MONSTER]"

definition combat_boss_types :: "combat_type list" where
  "combat_boss_types = [
   ACTOR_BOSS_ARMY_DILLO, ACTOR_BOSS_DOGADON, ACTOR_BOSS_MAD_JACK, ACTOR_BOSS_PUFFTOSS, ACTOR_BOSS_KUTOUT_TAG,
   ACTOR_BOSS_KROOL_DK, ACTOR_BOSS_KROOL_DIDDY, ACTOR_BOSS_KROOL_LANKY, ACTOR_BOSS_KROOL_FOOT,
   ACTOR_BOSS_KROOL_CHUNKY, ACTOR_BOSS_SPIDER]"

definition wire_kind :: "combat_type list \<Rightarrow> combat_type \<Rightarrow> u32" where
  "wire_kind ts t = (case find (\<lambda>i. ts ! i = t) [0..<length ts] of None \<Rightarrow> 0 | Some i \<Rightarrow> of_nat (i + 1))"

definition combat_enemy_kind :: "combat_type \<Rightarrow> u32" where
  "combat_enemy_kind t = wire_kind combat_enemy_types t"

definition combat_boss_actor_kind :: "combat_type \<Rightarrow> u32" where
  "combat_boss_actor_kind t = wire_kind combat_boss_types t"

definition combat_projectile_kind :: "combat_type \<Rightarrow> u32" where
  "combat_projectile_kind t =
     (if t = ACTOR_PROJECTILE_COCONUTS then 1 else if t = ACTOR_PROJECTILE_PEANUT then 2
      else if t = ACTOR_PROJECTILE_GRAPE then 3 else if t = ACTOR_PROJECTILE_FEATHER then 4
      else if t = ACTOR_PROJECTILE_PINEAPPLE then 5 else if t = ACTOR_PROJECTILE_ORANGE then 6 else 0)"

definition combat_explosive_kind :: "u32 \<Rightarrow> bool" where
  "combat_explosive_kind k \<longleftrightarrow> k = COOP_KABOOM \<or> k = COOP_KLOBBER"

definition combat_defeat_state :: "u32 \<Rightarrow> u8" where
  "combat_defeat_state k =
     (if k = COOP_PUFFTUP then 0x27 else if k = COOP_FIREBALL_WITH_GLASSES \<or> k = COOP_TOY_MONSTER then 0x40 else 0x37)"

definition combat_nonhealth_defeat_kind :: "u32 \<Rightarrow> bool" where
  "combat_nonhealth_defeat_kind k \<longleftrightarrow> combat_explosive_kind k \<or> k = COOP_PUFFTUP \<or> k = COOP_FIREBALL_WITH_GLASSES
     \<or> k = COOP_BOOK \<or> k = COOP_TOY_MONSTER"

section \<open>Tests\<close>

text \<open>The first registry entry with the address decides; the generation tells a reused address apart.\<close>

definition combat_actor_live :: "combat \<Rightarrow> nat \<Rightarrow> u32 \<Rightarrow> bool" where
  "combat_actor_live s p g \<longleftrightarrow>
     p \<noteq> 0 \<and> length (registry s) \<le> 64 \<and> p \<in> set (registry s) \<and> actor_generation (actor_at s p) = g"

definition combat_own_attack :: "combat_env \<Rightarrow> combat \<Rightarrow> nat \<Rightarrow> bool" where
  "combat_own_attack e s p \<longleftrightarrow>
     p \<noteq> 0 \<and> length (registry s) \<le> 64 \<and> p \<in> set (registry s)
     \<and> (p = player_pointer e
        \<or> combat_projectile_kind (actor_type (actor_at s p)) \<noteq> 0 \<and> actor_owner (actor_at s p) = player_pointer e)"

definition combat_damage_ready :: "combat \<Rightarrow> combat_actor \<Rightarrow> bool" where
  "combat_damage_ready s a \<longleftrightarrow>
     (let k = combat_enemy_kind (actor_type a);
          dice = (COOP_MR_DICE_0 \<le> k \<and> k \<le> COOP_MR_DICE_1 \<or> k = COOP_RULER)
      in 0 < sint (actor_health a) \<and> actor_control a < 0x36
         \<and> (\<not> dice \<or> spawner_byte s = 0)
         \<and> \<not> ((actor_type a = ACTOR_KREMLING \<or> actor_type a = ACTOR_KLUMP \<or> COOP_KASPLAT_DK \<le> k \<and> k \<le> COOP_KASPLAT_CHUNKY)
              \<and> actor_control a = 0x32))"

definition combat_game_ready :: "combat_env \<Rightarrow> combat \<Rightarrow> bool" where
  "combat_game_ready e s \<longleftrightarrow>
     combat_enabled e \<noteq> 0 \<and> combat_file_changed s = 0 \<and> adventure e \<and> global_bits e AND 3 = 0 \<and> \<not> in_transition e
     \<and> \<not> in_cutscene e \<and> fight_file e < 3 \<and> player_pointer e \<noteq> 0 \<and> character e < 5
     \<and> type_number e (actor_type (actor_at s (player_pointer e))) = ucast (character e) + 2"

definition actor_initialized :: "combat_actor \<Rightarrow> bool" where
  "actor_initialized a \<longleftrightarrow> actor_properties a AND 0x10 \<noteq> 0"

definition spawners_loaded :: "combat \<Rightarrow> bool" where
  "spawners_loaded s \<longleftrightarrow> 0 < sint (spawner_count s) \<and> sint (spawner_count s) \<le> 256 \<and> spawner_first s \<noteq> 0"

section \<open>The behaviour of an enemy\<close>

text \<open>
  The command loop for the enemy at address \<open>p\<close>: a health command that fits ends it, so does a defeat
  command; the answer tells whether a defeat was applied.
\<close>

definition enter_defeat :: "u32 \<Rightarrow> nat \<Rightarrow> combat \<Rightarrow> combat" where
  "enter_defeat kd p s =
     (let a = (actor_at s p)\<lparr>actor_health := 0\<rparr>;
          a = (if combat_explosive_kind kd \<or> kd = COOP_PUFFTUP \<or> kd = COOP_BOOK \<or> kd = COOP_TOY_MONSTER
               then a\<lparr>actor_control := (if kd = COOP_TOY_MONSTER then 0x37 else combat_defeat_state kd), actor_progress := 0\<rparr>
               else a)
      in set_actor p a (s\<lparr>collision := 9, collision_source := 0\<rparr>))"

fun enemy_commands :: "CoopEnemySlot \<Rightarrow> u32 \<Rightarrow> u32 \<Rightarrow> nat \<Rightarrow> CoopEnemy list \<Rightarrow> combat \<Rightarrow> combat \<times> bool" where
  "enemy_commands sl k kd p [] s = (s, False)"
| "enemy_commands sl k kd p (c # cs) s =
     (let a = actor_at s p in
      if enemy_kind c \<noteq> kd then enemy_commands sl k kd p cs s
      else if coop_combat_health_matches c k (slot_life sl) (actor_initialized a) (combat_damage_ready s a)
          (slot_kind sl = kd) True (scast (actor_health a))
        then (set_actor p (a\<lparr>actor_health := ucast (coop_enemy_health c)\<rparr>) s, False)
      else if \<not> coop_combat_apply_matches c k (slot_life sl) (actor_initialized a) (combat_damage_ready s a)
          (slot_kind sl = kd) True
        then enemy_commands sl k kd p cs s
      else (enter_defeat kd p s, True))"

definition own_spawner :: "nat \<Rightarrow> u32 \<Rightarrow> combat \<Rightarrow> nat option" where
  "own_spawner p g s =
     find (\<lambda>i. tied_actor s ! i = p \<and> slot_actor (combat_enemies s ! i) = p \<and> slot_generation (combat_enemies s ! i) = g)
       [0..<nat (sint (spawner_count s))]"

definition fight_linked :: "combat_env \<Rightarrow> combat \<Rightarrow> bool" where
  "fight_linked e s \<longleftrightarrow> combat_game_ready e s \<and> coop_combat_map (uint (fight_map e)) \<and> combat_hooks s \<noteq> 0
     \<and> combat_status (combat_result s) = COOP_COMBAT_READY \<and> spawners_loaded s"

text \<open>
  \<open>stock\<close> runs a function of the behaviour table on the game.  A defeat is noted when the enemy was hit by
  the local player or a command was applied, and the stock behaviour has entered its defeat.
\<close>

definition note_defeat :: "nat \<Rightarrow> u32 \<Rightarrow> u32 \<Rightarrow> nat \<Rightarrow> combat \<Rightarrow> combat" where
  "note_defeat i kd g p s =
     (if combat_actor_live s p g \<and> actor_control (actor_at s p) = combat_defeat_state kd
         \<and> (sint (actor_health (actor_at s p)) \<le> 0 \<or> combat_nonhealth_defeat_kind kd)
      then s\<lparr>combat_enemies := (combat_enemies s)[i := (combat_enemies s ! i)\<lparr>defeated := 1\<rparr>]\<rparr> else s)"

definition combat_enemy_behavior :: "combat_env \<Rightarrow> (behaviour \<Rightarrow> combat \<Rightarrow> combat) \<Rightarrow> nat \<Rightarrow> combat \<Rightarrow> combat" where
  "combat_enemy_behavior e stock p s =
     (let kd = combat_enemy_kind (actor_type (actor_at s p)); g = actor_generation (actor_at s p) in
      if kd = 0 then s
      else let run = stock (enemy_behaviors s ! (unat kd - 1)) in
        case (if fight_linked e s then own_spawner p g s else None) of
          None \<Rightarrow> run s
        | Some i \<Rightarrow>
            let hit = (collision s = 9 \<and> combat_own_attack e s (collision_source s));
                r = enemy_commands (combat_enemies s ! i) (of_nat (i + 1)) kd p (take COOP_ENEMIES (commands (combat_result s))) s
            in if hit \<or> snd r then note_defeat i kd g p (run (fst r)) else run (fst r))"

section \<open>Installing the wrapper\<close>

text \<open>Either every enemy type is wrapped or, when another mod has changed one, none is.\<close>

definition coop_combat_init :: "combat_env \<Rightarrow> combat \<Rightarrow> combat" where
  "coop_combat_init e s =
     (if combat_enabled e = 0 then s
      else let now = map (behaviours s) combat_enemy_types in
        case find (\<lambda>i. now ! i \<noteq> StockBehaviour (combat_enemy_types ! i)) [0..<length combat_enemy_types] of
          Some i \<Rightarrow> s\<lparr>enemy_behaviors := take (i + 1) now @ drop (i + 1) (enemy_behaviors s),
                      combat_calls := combat_calls s @ [ReportModified]\<rparr>
        | None \<Rightarrow> s\<lparr>enemy_behaviors := now,
                    behaviours := (\<lambda>t. if t \<in> set combat_enemy_types then combat_enemy_wrapper else behaviours s t),
                    combat_hooks := 1\<rparr>)"

section \<open>What a command can do\<close>

lemma scast_health: "0 < sint (h :: 16 word) \<Longrightarrow> uint (scast h :: u32) = sint h"
proof -
  assume p: "0 < sint h"
  have "sint h < 2 ^ 15" using sint_lt [of h] by simp
  then show ?thesis using p unfolding scast_eq uint_word_of_int_eq by (intro take_bit_int_eq_self) simp_all
qed

lemma health_target:
  assumes "coop_enemy_health c \<noteq> 0"
  shows "sint (ucast (coop_enemy_health c) :: 16 word) = uint (coop_enemy_health c)" "0 < uint (coop_enemy_health c)"
proof -
  have "unat (coop_enemy_health c) < 2 ^ 15"
    unfolding coop_enemy_health_def combat_masks
    by (simp only: unsigned_take_bit_eq) (simp add: take_bit_eq_mod)
  then have "int (unat (coop_enemy_health c)) < int (2 ^ 15)" by (simp only: of_nat_less_iff)
  then have "uint (coop_enemy_health c) < 2 ^ 15" by (simp only: uint_nat of_nat_power of_nat_numeral)
  moreover have "0 \<le> uint (coop_enemy_health c)" by simp
  then have "- (2 ^ 15) \<le> uint (coop_enemy_health c)" by (rule order_trans [rotated]) simp
  ultimately show "sint (ucast (coop_enemy_health c) :: 16 word) = uint (coop_enemy_health c)"
    by (simp add: sint_uint unsigned_ucast_eq signed_take_bit_int_eq_self take_bit_int_eq_self)
  show "0 < uint (coop_enemy_health c)"
    using assms by (metis uint_0_iff le_less unsigned_greater_eq)
qed

lemma set_actor_simps [simp]:
  "combat_enemies (set_actor p a s) = combat_enemies s" "actor_at (set_actor p a s) q = (if q = p then a else actor_at s q)"
  "registry (set_actor p a s) = registry s"
  by (simp_all add: set_actor_def)

lemma enter_defeat_simps [simp]:
  "combat_enemies (enter_defeat kd p s) = combat_enemies s"
  "actor_health (actor_at (enter_defeat kd p s) p) = 0" "registry (enter_defeat kd p s) = registry s"
  "actor_generation (actor_at (enter_defeat kd p s) q) = actor_generation (actor_at s q)"
  by (simp_all add: enter_defeat_def Let_def)

lemma enter_defeat_other: "q = p \<or> actor_at (enter_defeat kd p s) q = actor_at s q"
  by (simp add: enter_defeat_def Let_def)

lemma enemy_commands_cases:
  assumes "enemy_commands sl k kd p cs s = (s', applied)"
  obtains "s' = s" "\<not> applied"
  | c where "c \<in> set cs" "enemy_kind c = kd" "\<not> applied"
      "coop_combat_health_matches c k (slot_life sl) (actor_initialized (actor_at s p)) (combat_damage_ready s (actor_at s p))
          (slot_kind sl = kd) True (scast (actor_health (actor_at s p)))"
      "s' = set_actor p ((actor_at s p)\<lparr>actor_health := ucast (coop_enemy_health c)\<rparr>) s"
  | c where "c \<in> set cs" "enemy_kind c = kd" "applied"
      "coop_combat_apply_matches c k (slot_life sl) (actor_initialized (actor_at s p)) (combat_damage_ready s (actor_at s p))
          (slot_kind sl = kd) True"
      "s' = enter_defeat kd p s"
  using assms
proof (induction cs arbitrary: thesis)
  case Nil
  then show ?case by simp
next
  case (Cons c cs)
  show ?case
    using Cons.prems(4) Cons.prems(2,3) [of c] Cons.IH [OF Cons.prems(1)] Cons.prems(2,3)
    by (auto simp: Let_def split: if_splits)
qed


section \<open>Which defeats are noted\<close>

lemma update_changes: "xs[i := v] ! j \<noteq> xs ! j \<Longrightarrow> j = i \<and> xs[i := v] ! j = v"
  by (cases "i < length xs") (auto simp: nth_list_update list_update_beyond split: if_splits)

lemma note_defeat_change:
  assumes "combat_enemies (note_defeat i kd g p s) ! j \<noteq> combat_enemies s ! j"
  shows "j = i \<and> combat_enemies (note_defeat i kd g p s) ! j = (combat_enemies s ! j)\<lparr>defeated := 1\<rparr>
    \<and> combat_actor_live s p g \<and> actor_control (actor_at s p) = combat_defeat_state kd
    \<and> (sint (actor_health (actor_at s p)) \<le> 0 \<or> combat_nonhealth_defeat_kind kd)
    \<and> registry (note_defeat i kd g p s) = registry s \<and> actor_at (note_defeat i kd g p s) = actor_at s"
  using assms by (auto simp: note_defeat_def split: if_splits dest: update_changes)

lemma own_spawner_Some:
  "own_spawner p g s = Some i \<Longrightarrow> tied_actor s ! i = p \<and> slot_actor (combat_enemies s ! i) = p
     \<and> slot_generation (combat_enemies s ! i) = g \<and> i < nat (sint (spawner_count s))"
  by (auto simp: own_spawner_def find_Some_iff)

lemma enemy_commands_defeat:
  assumes "snd (enemy_commands sl k kd p cs s)"
  shows "\<exists>c \<in> set cs. key c = k \<and> life c = slot_life sl \<and> enemy_kind c = kd \<and> enemy_state c = COOP_ENEMY_DEFEATED"
proof -
  obtain s' a where r: "enemy_commands sl k kd p cs s = (s', a)" by fastforce
  then show ?thesis
    using assms by (cases rule: enemy_commands_cases) (auto simp: r coop_combat_apply_matches_def)
qed

lemma enemy_commands_slots: "combat_enemies (fst (enemy_commands sl k kd p cs s)) = combat_enemies s"
proof -
  obtain s' a where r: "enemy_commands sl k kd p cs s = (s', a)" by fastforce
  then show ?thesis by (cases rule: enemy_commands_cases) (simp_all add: r)
qed

definition defeat_cause :: "combat_env \<Rightarrow> combat \<Rightarrow> nat \<Rightarrow> nat \<Rightarrow> bool" where
  "defeat_cause e s i p \<longleftrightarrow>
     collision s = 9 \<and> combat_own_attack e s (collision_source s)
     \<or> (\<exists>c \<in> set (take COOP_ENEMIES (commands (combat_result s))).
          key c = of_nat (i + 1) \<and> life c = slot_life (combat_enemies s ! i)
          \<and> enemy_kind c = combat_enemy_kind (actor_type (actor_at s p)) \<and> enemy_state c = COOP_ENEMY_DEFEATED)"



section \<open>A small fight\<close>

text \<open>The player and one Kremling, whose spawner is the only one; the peer reports its defeat.\<close>

definition sample_actor :: "combat_type \<Rightarrow> combat_actor" where
  "sample_actor t = \<lparr>actor_type = t, actor_generation = 5, actor_properties = 0x10, actor_health = 3,
     actor_control = 1, actor_progress = 0, actor_x = 0, actor_y = 0, actor_z = 0, y_rotation = 0,
     second_rotation = 0, actor_owner = 0, actor_138 = 0, sprite_scale = 0, actor_track = None, boss_data = None\<rparr>"

definition sample_defeat :: CoopEnemy where
  "sample_defeat = no_enemy\<lparr>key := 1, life := 9, enemy_state := COOP_ENEMY_DEFEATED, enemy_kind := 3\<rparr>"

definition sample_fight :: combat where
  "sample_fight = \<lparr>registry = [1, 2],
     actor_at = (\<lambda>p. sample_actor (if p = 2 then ACTOR_KREMLING else OTHER_ACTOR 2)),
     behaviours = StockBehaviour, spawner_count = 1, spawner_first = 1, tied_actor = [2],
     spawner_inits = [\<lparr>enemy_value = 1, x_pos = 0, y_pos = 0, z_pos = 0\<rparr>],
     collision = 0, collision_source = 0, spawner_byte = 0, spider_hit = 0, combat_calls = [],
     combat_enemies = no_slot\<lparr>slot_actor := 2, slot_generation := 5, slot_life := 9, slot_kind := 3\<rparr> # replicate 255 no_slot,
     combat_shots = [], combat_local_shots = [],
     combat_boss = \<lparr>boss_actor = 0, boss_generation = 0, boss_slot_life = 0, boss_phase = 0, boss_slot_kind = 0, boss_stamp = 0\<rparr>,
     combat_layout = 0, combat_file = 1, combat_file_changed = 0, combat_hooks = 1, combat_capture_page = 0,
     combat_life_counter = 9, combat_spawner_table = 1, combat_map = 7,
     enemy_behaviors = map StockBehaviour combat_enemy_types, boss_behaviors = replicate 11 None, boss_hooks = 0,
     combat_input = empty_frame,
     combat_result = \<lparr>combat_status = COOP_COMBAT_READY, commands = [no_enemy, sample_defeat], boss_command = no_boss\<rparr>\<rparr>"

definition sample_fight_env :: combat_env where
  "sample_fight_env = \<lparr>combat_enabled = 3, fight_map = 7, adventure = True, global_bits = 0, in_transition = False,
     in_cutscene = False, fight_file = 0, player_pointer = 1, character = 0, player_hands = 0,
     type_number = (\<lambda>t. case t of OTHER_ACTOR n \<Rightarrow> of_nat n | _ \<Rightarrow> 0), rounding = id\<rparr>"

definition sample_stock_run :: "behaviour \<Rightarrow> combat \<Rightarrow> combat" where
  "sample_stock_run b s =
     (if actor_health (actor_at s 2) = 0 then set_actor 2 ((actor_at s 2)\<lparr>actor_control := 0x37\<rparr>) s else s)"

lemma sample_kind: "combat_enemy_kind ACTOR_KREMLING = 3"
  by (simp add: combat_enemy_kind_def wire_kind_def combat_enemy_types_def upt_rec)

lemma sample_commands:
  "enemy_commands (combat_enemies sample_fight ! 0) 1 3 2 [no_enemy, sample_defeat] sample_fight
     = (enter_defeat 3 2 sample_fight, True)"
  by (simp add: sample_fight_def sample_defeat_def no_enemy_def sample_actor_def actor_initialized_def
      combat_damage_ready_def sample_kind coop_combat_apply_matches_def coop_combat_health_matches_def Let_def)


lemma sample_linked: "fight_linked sample_fight_env sample_fight"
  by (simp add: fight_linked_def combat_game_ready_def sample_fight_env_def sample_fight_def sample_actor_def
      coop_combat_map_def spawners_loaded_def)

lemma sample_defeat_noted:
  "combat_enemies (combat_enemy_behavior sample_fight_env sample_stock_run 2 sample_fight) ! 0
     = (combat_enemies sample_fight ! 0)\<lparr>defeated := 1\<rparr>"
proof -
  have t: "actor_type (actor_at sample_fight 2) = ACTOR_KREMLING" "actor_generation (actor_at sample_fight 2) = 5"
    "own_spawner 2 5 sample_fight = Some 0" "take 20 (commands (combat_result sample_fight)) = [no_enemy, sample_defeat]"
    by (simp_all add: sample_fight_def sample_actor_def own_spawner_def)
  have b: "combat_enemy_behavior sample_fight_env sample_stock_run 2 sample_fight
      = note_defeat 0 3 5 2 (sample_stock_run (enemy_behaviors sample_fight ! 2) (enter_defeat 3 2 sample_fight))"
    unfolding combat_enemy_behavior_def Let_def t sample_kind
    using sample_linked by (simp add: t sample_commands del: enemy_commands.simps)
  have "registry sample_fight = [1, 2]" "length (combat_enemies sample_fight) = 256" by (simp_all add: sample_fight_def)
  then show ?thesis
    unfolding b by (simp add: t note_defeat_def sample_stock_run_def combat_actor_live_def combat_defeat_state_def)
qed


end
