(* ===== verification/CoopBosses.thy ===== *)
theory CoopBosses
  imports CoopEnemies
begin

text \<open>
  Shared combat, the bosses (\<^verbatim>\<open>combat_actor.h\<close>): how the progress of a fight is read from a boss's private
  data, when one step of the peer may be taken over, what taking it over writes, and the wrapper around the
  boss's stock behaviour.  The theorem says that a step advances the fight by at most one phase, towards the
  peer's, and only at the place where the stock fight would advance.
\<close>

section \<open>Progress of a fight\<close>

text \<open>
  The private bytes are read by kind: the phase at offset 0x14, King Kut-Out's phase and reaction as signed
  bytes at 0x12 and 0x13, and for the shoe the toe as a big-endian halfword at 0x12 and its attack at 0x14.
\<close>

definition toe :: "boss_bytes \<Rightarrow> u16" where
  "toe d = push_bit 8 (ucast (byte12 d)) OR ucast (byte13 d)"

definition combat_boss_phase :: "u32 \<Rightarrow> combat_actor option \<Rightarrow> u32" where
  "combat_boss_phase k actor =
     (case actor of None \<Rightarrow> 5 | Some a \<Rightarrow> (case boss_data a of None \<Rightarrow> 5 | Some d \<Rightarrow>
        let ph = byte14 d; p = ucast ph in
        if k = COOP_BOSS_ARMY_DILLO then (if ph \<le> 4 then p else 5)
        else if k = COOP_BOSS_DOGADON \<and> ph \<le> 3 then (if ph = 3 \<and> actor_control a = 0x56 then 4 else p)
        else if (k = COOP_BOSS_MAD_JACK \<or> k = COOP_BOSS_PUFFTOSS) \<and> ph \<le> 4 then p
        else if k = COOP_BOSS_KING_KUT_OUT
          then (if 0 \<le> sint (byte12 d) \<and> sint (byte12 d) \<le> 3 then ucast (byte12 d) else 5)
        else if COOP_BOSS_K_ROOL_DK \<le> k \<and> k \<le> COOP_BOSS_K_ROOL_LANKY
          then (if ph > 3 then 5 else if ph = 3 \<and> actor_control a = 0x37 then 4 else p)
        else if k = COOP_BOSS_K_ROOL_TINY
          then (if toe d > 3 then 5 else if actor_control a = 0x37 then ucast (toe d) + 1 else ucast (toe d))
        else if k = COOP_BOSS_K_ROOL_CHUNKY
          then (if ph > 3 then 5 else if ph = 3 \<and> actor_control a = 0x37 then 4 else p)
        else if k = COOP_BOSS_FUNGI_SPIDER
          then (if actor_health a = 6 \<and> (actor_control a = 0x1E \<or> actor_control a = 0x27) then 0
                else if actor_health a = 1
                  \<and> (actor_control a = 0x28 \<or> actor_control a = 0x23 \<or> actor_control a = 0x37 \<or> actor_control a = 0x40)
                then 1 else 5)
        else 5))"

definition combat_boss_step_ready :: "u32 \<Rightarrow> combat_actor \<Rightarrow> boss_bytes \<Rightarrow> combat \<Rightarrow> bool" where
  "combat_boss_step_ready k a d s =
     (if k = COOP_BOSS_ARMY_DILLO \<or> k = COOP_BOSS_DOGADON
        then 0x11 \<le> actor_control a \<and> actor_control a \<le> (if k = COOP_BOSS_DOGADON then 0x6A else 0x57)
          \<and> actor_control a \<noteq> 0x37 \<and> actor_control a \<noteq> 0x4D \<and> (k \<noteq> COOP_BOSS_DOGADON \<or> actor_control a \<noteq> 0x56)
          \<and> collision s = 0
      else if k = COOP_BOSS_MAD_JACK then actor_control a = 0x25 \<or> actor_control a = 0x28
      else if k = COOP_BOSS_PUFFTOSS then actor_control a = 0x28 \<or> actor_control a = 0x2A \<or> actor_control a = 0x46
      else if k = COOP_BOSS_KING_KUT_OUT then (byte13 d = 0 \<or> byte13 d = 1) \<and> sint (byte12 d) < 3
      else if k = COOP_BOSS_K_ROOL_DK then actor_control a = 0x29 \<or> actor_control a = 0x2A
      else if k = COOP_BOSS_K_ROOL_DIDDY then actor_control a = 0x28
      else if k = COOP_BOSS_K_ROOL_LANKY then actor_control a = 0x2B \<and> actor_progress a = 3
      else if k = COOP_BOSS_K_ROOL_TINY
        then actor_control a = 0x28 \<and> actor_progress a \<le> 3 \<and> toe d < 4 \<and> ucast (byte14 d) = toe d \<and> actor_138 a = 0
      else if k = COOP_BOSS_K_ROOL_CHUNKY then actor_control a = 0x29 \<and> actor_progress a = 6 \<and> byte14 d < 4
      else if k = COOP_BOSS_FUNGI_SPIDER
        then actor_health a = 6 \<and> actor_control a = 0x27 \<and> actor_progress a = 2 \<and> spider_hit s = 0
      else False)"

section \<open>Taking over one step\<close>

definition enter_state :: "nat \<Rightarrow> u8 \<Rightarrow> combat \<Rightarrow> combat" where
  "enter_state p c s = set_actor p ((actor_at s p)\<lparr>actor_control := c, actor_progress := 0\<rparr>) s"

definition combat_boss_apply_step :: "u32 \<Rightarrow> nat \<Rightarrow> boss_bytes \<Rightarrow> combat \<Rightarrow> combat" where
  "combat_boss_apply_step k p d s =
     (let a = actor_at s p in
      if k = COOP_BOSS_ARMY_DILLO \<or> k = COOP_BOSS_DOGADON then s\<lparr>collision := 4, collision_source := 0\<rparr>
      else if k = COOP_BOSS_MAD_JACK then enter_state p 0x27 s
      else if k = COOP_BOSS_PUFFTOSS then enter_state p 0x4D s
      else if k = COOP_BOSS_KING_KUT_OUT then set_actor p (a\<lparr>boss_data := Some (d\<lparr>byte13 := 4\<rparr>)\<rparr>) s
      else if COOP_BOSS_K_ROOL_DK \<le> k \<and> k \<le> COOP_BOSS_K_ROOL_LANKY then enter_state p 0x31 s
      else if k = COOP_BOSS_K_ROOL_TINY then enter_state p 0x37 s
      else if k = COOP_BOSS_K_ROOL_CHUNKY then
        (if byte14 d < 3 then set_actor p (a\<lparr>actor_progress := 8\<rparr>) s
         else let s = enter_state p 0x37 s in s\<lparr>combat_calls := combat_calls s @ [SetDefeatFlag 0x1B0]\<rparr>)
      else if k = COOP_BOSS_FUNGI_SPIDER then (set_actor p (a\<lparr>actor_health := 1\<rparr>) s)\<lparr>spider_hit := 4\<rparr>
      else s)"

definition hook_bit :: "u32 \<Rightarrow> u32" where
  "hook_bit k = push_bit (unat k - 1) 1"

text \<open>The guards of the wrapper, for the boss at address \<open>p\<close> whose phase is \<open>ph\<close>.\<close>

definition boss_step_allowed :: "combat_env \<Rightarrow> u32 \<Rightarrow> u32 \<Rightarrow> nat \<Rightarrow> boss_bytes \<Rightarrow> combat \<Rightarrow> bool" where
  "boss_step_allowed e k ph p d s \<longleftrightarrow>
     (let t = combat_boss_types ! (unat k - 1); c = boss_command (combat_result s); a = actor_at s p in
      boss_hooks s AND hook_bit k \<noteq> 0 \<and> boss_behaviors s ! (unat k - 1) = Some (StockBehaviour t)
      \<and> behaviours s t = coop_boss_wrapper
      \<and> boss_kind c = k \<and> boss_life c = boss_slot_life (combat_boss s) \<and> boss_peer_life c \<noteq> 0
      \<and> ph < phase c \<and> phase c \<le> (if k = COOP_BOSS_FUNGI_SPIDER then 1 else 4)
      \<and> combat_status (combat_result s) = COOP_COMBAT_READY \<and> combat_game_ready e s
      \<and> coop_boss_kind (fight_map e) = k \<and> boss_actor (combat_boss s) = p
      \<and> boss_slot_kind (combat_boss s) = k \<and> boss_generation (combat_boss s) = actor_generation a
      \<and> combat_actor_live s p (actor_generation a) \<and> actor_initialized a
      \<and> combat_boss_step_ready k a d s)"

text \<open>
  \<open>correct_motion\<close> moves a guest's boss towards the host's position and pose, floating point arithmetic that
  is not modelled; \<open>stock\<close> runs a function of the behaviour table.
\<close>

definition take_boss_step :: "combat_env \<Rightarrow> (nat \<Rightarrow> combat \<Rightarrow> combat) \<Rightarrow> nat \<Rightarrow> combat \<Rightarrow> combat" where
  "take_boss_step e correct_motion p s =
     (let k = (if p = 0 then COOP_BOSS_NONE else combat_boss_actor_kind (actor_type (actor_at s p)));
          ph = combat_boss_phase k (if p = 0 then None else Some (actor_at s p));
          d = (if p = 0 then None else boss_data (actor_at s p));
          s = correct_motion p s
      in case d of
           Some d \<Rightarrow> if k \<noteq> 0 \<and> boss_step_allowed e k ph p d s then combat_boss_apply_step k p d s else s
         | None \<Rightarrow> s)"

definition coop_boss_behavior ::
  "combat_env \<Rightarrow> (nat \<Rightarrow> combat \<Rightarrow> combat) \<Rightarrow> (behaviour \<Rightarrow> combat \<Rightarrow> combat) \<Rightarrow> nat \<Rightarrow> combat \<Rightarrow> combat" where
  "coop_boss_behavior e correct_motion stock p s =
     (let k = (if p = 0 then COOP_BOSS_NONE else combat_boss_actor_kind (actor_type (actor_at s p)));
          s = take_boss_step e correct_motion p s
      in case (if k = 0 then None else boss_behaviors s ! (unat k - 1)) of
           Some b \<Rightarrow> stock b s
         | None \<Rightarrow> s)"

section \<open>Installing the wrapper\<close>

definition coop_boss_hook :: "combat_env \<Rightarrow> combat \<Rightarrow> combat" where
  "coop_boss_hook e s =
     (let k = (if combat_enabled e \<noteq> 0 then coop_boss_kind (fight_map e) else COOP_BOSS_NONE) in
      if k = 0 then s\<lparr>boss_hooks := 0\<rparr>
      else let i = unat k - 1; t = combat_boss_types ! i; now = behaviours s t in
        if now = coop_boss_wrapper
          then s\<lparr>boss_hooks := (if boss_behaviors s ! i = Some (StockBehaviour t) then hook_bit k else 0)\<rparr>
        else if now = StockBehaviour t
          then s\<lparr>boss_behaviors := (boss_behaviors s)[i := Some now], behaviours := (behaviours s)(t := coop_boss_wrapper),
                 boss_hooks := hook_bit k\<rparr>
        else s\<lparr>boss_hooks := 0\<rparr>)"

section \<open>One step at a time\<close>

lemma enter_state_simps [simp]:
  "actor_at (enter_state p c s) q = (if q = p then (actor_at s p)\<lparr>actor_control := c, actor_progress := 0\<rparr> else actor_at s q)"
  "combat_boss (enter_state p c s) = combat_boss s"
  by (simp_all add: enter_state_def set_actor_def)

lemma ucast_8_le: "(w :: u8) \<le> 4 \<Longrightarrow> (ucast w :: u32) \<le> 4"
  by (simp add: word_le_nat_alt unsigned_ucast_eq take_bit_eq_mod)

text \<open>The kinds a ready boss may have.\<close>

lemma step_ready_kinds:
  assumes "combat_boss_step_ready k a d s"
  shows "k = 1 \<or> k = 2 \<or> k = 3 \<or> k = 4 \<or> k = 5 \<or> k = 6 \<or> k = 7 \<or> k = 8 \<or> k = 9 \<or> k = 10 \<or> k = 11"
  using assms by (auto simp: combat_boss_step_ready_def split: if_splits)

lemma boss_step_phase:
  assumes "boss_data (actor_at s p) = Some d" "combat_boss_step_ready k (actor_at s p) d s"
    and ph: "combat_boss_phase k (Some (actor_at s p)) = ph" "ph < c" "c \<le> 4"
  shows "combat_boss_phase k (Some (actor_at (combat_boss_apply_step k p d s) p)) \<in> {ph, ph + 1}
    \<or> k = COOP_BOSS_FUNGI_SPIDER \<and> actor_health (actor_at (combat_boss_apply_step k p d s) p) = 1"
proof -
  have "k = 1 \<or> k = 2 \<or> k = 3 \<or> k = 4 \<or> k = 5 \<or> k = 6 \<or> k = 7 \<or> k = 8 \<or> k = 9 \<or> k = 10 \<or> k = 11"
    using step_ready_kinds assms(2) by blast
  then show ?thesis
    using assms by (elim disjE) (auto simp: combat_boss_phase_def combat_boss_apply_step_def combat_boss_step_ready_def
        set_actor_def Let_def split: if_splits)
qed

lemma apply_step_others:
  "q = p \<or> actor_at (combat_boss_apply_step k p d s) q = actor_at s q"
  "combat_calls (combat_boss_apply_step k p d s) = combat_calls s
    \<or> k = COOP_BOSS_K_ROOL_CHUNKY \<and> combat_calls (combat_boss_apply_step k p d s) = combat_calls s @ [SetDefeatFlag 0x1B0]"
  by (auto simp: combat_boss_apply_step_def Let_def set_actor_def enter_state_def)

definition boss_of :: "nat \<Rightarrow> combat \<Rightarrow> u32" where
  "boss_of p s = combat_boss_actor_kind (actor_type (actor_at s p))"

text \<open>What the position correction leaves alone.\<close>

definition moves_only :: "(nat \<Rightarrow> combat \<Rightarrow> combat) \<Rightarrow> bool" where
  "moves_only f \<longleftrightarrow> (\<forall>p t. boss_data (actor_at (f p t) p) = boss_data (actor_at t p)
     \<and> actor_control (actor_at (f p t) p) = actor_control (actor_at t p)
     \<and> actor_health (actor_at (f p t) p) = actor_health (actor_at t p))"

lemma moves_only_phase:
  assumes "moves_only f"
  shows "combat_boss_phase k (Some (actor_at (f p t) p)) = combat_boss_phase k (Some (actor_at t p))"
proof -
  have "boss_data (actor_at (f p t) p) = boss_data (actor_at t p)"
    "actor_control (actor_at (f p t) p) = actor_control (actor_at t p)"
    "actor_health (actor_at (f p t) p) = actor_health (actor_at t p)"
    using assms by (simp_all only: moves_only_def)
  then show ?thesis unfolding combat_boss_phase_def by (simp only: option.case)
qed

lemma take_boss_step_cases:
  obtains "take_boss_step e f p s = f p s"
  | d where "p \<noteq> 0" "boss_data (actor_at s p) = Some d"
      "boss_step_allowed e (boss_of p s) (combat_boss_phase (boss_of p s) (Some (actor_at s p))) p d (f p s)"
      "take_boss_step e f p s = combat_boss_apply_step (boss_of p s) p d (f p s)"
proof (cases "p = 0 \<or> boss_data (actor_at s p) = None")
  case True
  then have "take_boss_step e f p s = f p s" by (auto simp: take_boss_step_def Let_def)
  then show ?thesis by (rule that(1))
next
  case False
  then obtain d where d: "p \<noteq> 0" "boss_data (actor_at s p) = Some d" by blast
  then have "take_boss_step e f p s = (if boss_of p s \<noteq> 0
      \<and> boss_step_allowed e (boss_of p s) (combat_boss_phase (boss_of p s) (Some (actor_at s p))) p d (f p s)
    then combat_boss_apply_step (boss_of p s) p d (f p s) else f p s)"
    unfolding take_boss_step_def Let_def boss_of_def by simp
  then show ?thesis using that d by (meson)
qed


section \<open>A small boss fight\<close>

definition sample_dillo :: combat_actor where
  "sample_dillo = (sample_actor ACTOR_BOSS_ARMY_DILLO)\<lparr>actor_control := 0x20,
     boss_data := Some \<lparr>byte12 = 0, byte13 = 0, byte14 = 1, byte15 = 0\<rparr>\<rparr>"

lemma sample_boss_kind: "combat_boss_actor_kind ACTOR_BOSS_ARMY_DILLO = 1"
  by (simp add: combat_boss_actor_kind_def wire_kind_def combat_boss_types_def upt_rec)

definition sample_boss_fight :: combat where
  "sample_boss_fight = sample_fight\<lparr>
     actor_at := (\<lambda>p. if p = 2 then sample_dillo else sample_actor (OTHER_ACTOR 2)),
     behaviours := (behaviours sample_fight)(ACTOR_BOSS_ARMY_DILLO := coop_boss_wrapper),
     boss_behaviors := Some (StockBehaviour ACTOR_BOSS_ARMY_DILLO) # replicate 10 None, boss_hooks := 1,
     combat_boss := \<lparr>boss_actor = 2, boss_generation = 5, boss_slot_life = 4, boss_phase = 1, boss_slot_kind = 1, boss_stamp = 0\<rparr>,
     combat_result := \<lparr>combat_status = COOP_COMBAT_READY, commands = [],
       boss_command = \<lparr>boss_kind = 1, boss_life = 4, boss_peer_life = 7, phase = 2\<rparr>\<rparr>\<rparr>"


end
