(* ===== verification/Spec2Isabelle.thy ===== *)
theory Spec2Isabelle
  imports Items Checks Transaction Shops ShopText ShopOverlay Session CoopCapture CoopPolicies CoopTransition Printf CoopWorld CoopLive CoopFrames CoopRooms CoopMenu CoopBosses
begin

text \<open>
  This library verifies the game-side C code of the Android port of Donkey Kong 64 Recompiled: the
  Archipelago mod (\<^verbatim>\<open>android-port/archipelago/mod\<close>), the portable core and the item channel of the
  co-op mod (\<^verbatim>\<open>android-port/coop/mod\<close>) and the formatter behind \<^verbatim>\<open>recomp_printf\<close>
  (\<^verbatim>\<open>patches/xprintf.c\<close>, \<^verbatim>\<open>patches/xlitob.c\<close>).  All of it runs on the game thread, once per frame,
  over the save file and the state of the running game.

  \<^bold>\<open>Archipelago.\<close>  A randomizer server hands the player items and is told which locations were checked.
  \<^verbatim>\<open>ap.c\<close> drives a frame (\<open>Session\<close>): it exchanges a message with the host program, starts the
  selected campaign, and stops for good on any disagreement.  A campaign is bound to a save by a 32-byte
  record with a CRC (\<open>Receipts\<close>) that lives in the save trailer (\<open>Trailer\<close>) and counts the receipts that
  were applied.  The receipts determine an inventory (\<open>Inventory\<close>), which is published under the trailer
  it belongs to (\<open>Publication\<close>), read by the game through item queries (\<open>Items\<close>), and advanced by one
  receipt per transaction (\<open>Transaction\<close>), with traps as its visible effect (\<open>Traps\<close>).  The catalog
  of locations, items and shops is generated code (\<open>Catalog\<close>), searched by bisection (\<open>Lookup\<close>).
  Checked locations are collected in a ledger (\<open>Checks\<close>).  Shops sell locations: offers and purchases
  (\<open>Shops\<close>), their dialogue (\<open>ShopText\<close>) and the label that fades in after a purchase
  (\<open>ShopOverlay\<close>).

  \<^bold>\<open>Co-op.\<close>  Two players share items over the local network.  Every shareable item has a number
  (\<open>CoopIds\<close>, with the tables of \<open>CoopTables\<close>).  A session locks onto one save file
  (\<open>FileLock\<close>, \<open>CoopItems\<close>), publishes the set of owned items if it satisfies the dependency rules
  and agrees with the counters of the save (\<open>coop_items_capture\<close> in \<open>CoopGame\<close>), and applies what the
  peer owns (\<open>coop_items_apply\<close> in \<open>CoopApply\<close>): permanent flags, pickup bits, moves, kongs,
  counters and their derived rewards.  A permanent change for the map the player stands in is also shown in
  the loaded scene: \<open>CoopScene\<close> has the reviewed table of objects, the scene as scripts, props, actors and
  spawners, and the check-then-refresh of a unit of rows; \<open>CoopUnits\<close> proves its contract.
  \<open>CoopWorld\<close> is the channel of the three switches that can be thrown both ways.  \<open>CoopDriver\<close> is the
  frame that composes these (\<^verbatim>\<open>coop_frame\<close> in \<^verbatim>\<open>coop.c\<close>), with the choice of the campaign file at start-up
  and the promotion of a guest to host; \<open>CoopFrames\<close> has its theorems.  \<open>CoopPolicies\<close> holds the gate, lifecycle, menu, pose and recovery
  policies, \<open>CoopTransition\<close> the shared map transitions, \<open>CoopMenu\<close> the file menu that offers one file in co-op.
  Shared combat is \<open>CoopCombat\<close> (the words of the wire), \<open>CoopEnemies\<close> (the wrapper around an enemy's stock
  behaviour, which takes over health and defeats) and \<open>CoopBosses\<close> (the same for the steps of a boss fight).

  \<^bold>\<open>How state and operations correspond.\<close>  A file's static variables are one record, and a function that
  changes them takes and returns it; the stock globals a component uses form a second record (\<open>game\<close>,
  \<open>trap_world\<close>, \<open>commit_world\<close>, \<open>shop_world\<close>, \<open>coop_game\<close>).  Definitions carry the name of the C
  function; pieces of a long function have names of their own.  Integers have the width of the C type where
  it can matter, pointers are \<open>cptr\<close> values with an address, so that null and misaligned arguments are
  branches, and calls into the stock game that the code only triggers are recorded in order
  (\<open>game_calls\<close>, \<open>coop_calls\<close>).  Answers of stock code or of the host are arguments, or fields of a
  record of functions (\<open>live_env\<close> and its extension \<open>coop_env\<close>).

  \<^bold>\<open>What is shown.\<close>
  \<^item> \<open>Receipts\<close>, \<open>Trailer\<close>: a staged record is what is read back; the checksum detects every change of
    one byte of the binding and of the counter; over any run the binding stays and the counter grows by at
    most one per step.
  \<^item> \<open>Inventory\<close>, \<open>Publication\<close>, \<open>Items\<close>, \<open>Transaction\<close>: results of adding an item, the invariant,
    the contents of an inventory as counts over the receipts and their independence of the order; a published
    value is visible for exactly its own trailer; counts read by the game refine the receipts and fail
    closed; a commit is atomic, cannot be repeated, has the stated effect on the save, and enables the next.
  \<^item> \<open>Checks\<close>, \<open>Shops\<close>, \<open>ShopText\<close>, \<open>ShopOverlay\<close>, \<open>Traps\<close>: no reported check is lost or
    invented; a purchase happens at most once; texts fit their buffers; overlays and traps last exactly as long
    as intended.
  \<^item> \<open>CoopItems\<close>, \<open>CoopGrants\<close>, \<open>CoopGuarantees\<close>, \<open>CoopCapture\<close>: merging dependency-closed sets
    keeps them closed; a session never touches a second save file; an application keeps the save consistent,
    gains only what was sent or follows from it, loses nothing and requests nothing back; a capture tells the
    truth or stops.  One theorem shows a reachable way to end a session for good.
  \<^item> \<open>CoopUnits\<close>, \<open>CoopLive\<close>, \<open>CoopWorld\<close>: a permanent change is shown as a whole or not at all and
    never interrupts a local sequence; flag and scene change together; a thrown switch is counted once and a
    switch the peer decided is never sent back.
  \<^item> \<open>CoopRooms\<close>: a peer's records start only reviewed steps from ready states; accepted steps are
    reported as taken; every object of a room is published within one round of pages.  One theorem shows
    a record that gets past the review.
  \<^item> \<open>CoopMenu\<close>: over any visits of the menu the file handed on exists.  \<open>CoopCombat\<close>, \<open>CoopEnemies\<close>,
    \<open>CoopBosses\<close>: packed words are read back; commands only lower the health of, or defeat, the enemy and life
    they name; a defeat is noted only with a known cause; a boss fight advances one phase at a time.
  \<^item> \<open>CoopDriver\<close>, \<open>CoopFrames\<close>: campaigns never share a file; the recovery fingerprint detects a changed
    word; a whole frame keeps the save consistent and gains only what the network sent in it; a guest becomes
    host only on an earned checkpoint that nothing has disturbed since.
  \<^item> \<open>CoopPolicies\<close>, \<open>CoopTransition\<close>, \<open>CoopIds\<close>: promotion needs a stable checkpoint; a guest follows
    each authorized transition at most once; numbers and flags are in bijection.
  \<^item> \<open>Printf\<close>: integer conversions print the digits, sign, prefix and padding the C standard asks for, and
    every call ends with the number of characters written or with the failure of the output function.

  \<^bold>\<open>Interfaces.\<close>  \<open>sorted_table\<close> (a table the binary search may be used on), \<open>trailer_store\<close> (one
  bound record), \<open>publication\<close> (a value visible under its trailer), \<open>check_store\<close> (an observed set
  inside a selection) and \<open>file_lock\<close> (a channel bound to one file) are locales; each is interpreted on the
  components that provide it.

  \<^bold>\<open>Bounds and assumptions.\<close>  \<open>litob_loop\<close> has the 24 places of the C buffer as fuel, two more than the
  longest number (22 octal digits) needs.  \<open>binary search\<close> recursions are on the length of the interval.
  Sums the code forms in \<open>unsigned\<close> are natural numbers where their terms are 16-bit fields.  A write of a
  flag or a pickup bit either sets exactly that bit or is cancelled, which is what the game's flag event
  allows.  The stock calls a step triggers change none of the state the step still reads.

  \<^bold>\<open>Not modelled.\<close>  The engine patches (\<^verbatim>\<open>patches\<close> except the formatter) replace decompiled routines
  that produce display lists and floating point matrices from game memory; their meaning rests on game code and
  on a renderer outside the repository.  Floating-point conversion (\<^verbatim>\<open>xldtob.c\<close>) is a parameter of the
  formatter.  The distance comparison of the seals is a parameter of the scene.  The actor adapters of
  the same-area channel (clams, ice tomato, minigames) are functions of its frame, and the channel is a
  function of the driver's frame.  Of shared combat the capture of a frame, the floating-point correction of
  positions and poses (a parameter of the boss wrapper) and the visual shots are left out, as are the avatar's
  poses, the C++ programs on the
  host side of both mods, the Android layer and the vendored code.
\<close>

end
